(* ===== verification/Prelude.thy ===== *)
theory Prelude
  imports Complex_Main
begin

text \<open>
  Shared ground of the development: the error values of the Go packages, JSON payload
  values, the generic table operations every SQL query of the model is written with
  (\<open>UPDATE ... WHERE\<close>, \<open>UPDATE ... RETURNING\<close>, guarded sums), fixed-point money and the
  lemmas about them that the component theories use.
\<close>

named_theorems table_simps "rewriting with the generic table operations"
named_theorems query_defs "the definitions of the SQL queries"

section \<open>Errors and JSON values\<close>

text \<open>
  The sentinel errors of the packages \<open>jobs\<close>, \<open>adminjobs\<close>, \<open>cost\<close> and \<open>db\<close>, the two ways
  a statement of the database fails that the code can observe (no row, numeric overflow of an
  explicit cast) and everything else with its message.
\<close>

datatype error =
    ErrNotFound
  | ErrInvalidState
  | ErrNoPriceEntry
  | ErrBudgetExceeded
  | ErrConcurrentJobsExceeded
  | ErrIdempotencyConflict
  | ErrEnqueueFailed
  | ErrNoTenant
  | ErrNoRows
  | NumericOverflow
  | ErrOther string

datatype json =
    JNull
  | JBool bool
  | JNum rat
  | JStr string
  | JArr "json list"
  | JObj "(string \<times> json) list"

type_synonym payload = "string \<rightharpoonup> json"

text \<open>The type assertion \<open>s, _ := payload[key].(string)\<close>: the empty string unless a string.\<close>

definition payloadString :: "payload \<Rightarrow> string \<Rightarrow> string" where
  "payloadString p k = (case p k of Some (JStr s) \<Rightarrow> s | _ \<Rightarrow> '''')"

text \<open>Reading a JSONB value as text (the operator \<open>->>\<close>), for the value kinds the queries compare.\<close>

definition json_flag :: "payload \<Rightarrow> string \<Rightarrow> bool" where
  "json_flag p k = (case p k of
       Some (JBool b) \<Rightarrow> b
     | Some (JStr s) \<Rightarrow> s = ''true''
     | _ \<Rightarrow> False)"

lemma json_flag_upd [simp]:
  "json_flag (p(k \<mapsto> JBool b)) k = b"
  "k \<noteq> k' \<Longrightarrow> json_flag (p(k' \<mapsto> v)) k = json_flag p k"
  by (simp_all add: json_flag_def)

lemma payloadString_upd [simp]:
  "payloadString (p(k \<mapsto> JStr s)) k = s"
  "k \<noteq> k' \<Longrightarrow> payloadString (p(k' \<mapsto> v)) k = payloadString p k"
  by (simp_all add: payloadString_def)

section \<open>Strings\<close>

text \<open>\<open>strings.TrimSpace\<close> on ASCII.\<close>

definition is_space :: "char \<Rightarrow> bool" where
  "is_space c \<longleftrightarrow> c = CHR '' '' \<or> (9 \<le> (of_char c :: nat) \<and> (of_char c :: nat) \<le> 13)"

definition trimSpace :: "string \<Rightarrow> string" where
  "trimSpace s = rev (dropWhile is_space (rev (dropWhile is_space s)))"

section \<open>Tables\<close>

text \<open>
  A table is the list of its rows in insertion order. \<open>update_where\<close> is
  \<open>UPDATE t SET f WHERE P\<close>; \<open>updating_one\<close> is \<open>UPDATE ... RETURNING\<close> read by a \<open>:one\<close> query:
  \<open>None\<close> is \<open>pgx.ErrNoRows\<close>.
\<close>

definition update_where :: "('a \<Rightarrow> bool) \<Rightarrow> ('a \<Rightarrow> 'a) \<Rightarrow> 'a list \<Rightarrow> 'a list" where
  "update_where P f xs = map (\<lambda>x. if P x then f x else x) xs"

definition updating_one :: "('a \<Rightarrow> bool) \<Rightarrow> ('a \<Rightarrow> 'a) \<Rightarrow> 'a list \<Rightarrow> ('a \<times> 'a list) option" where
  "updating_one P f xs =
     (case find P xs of None \<Rightarrow> None | Some x \<Rightarrow> Some (f x, update_where P f xs))"

text \<open>\<open>keyed k xs\<close>: the column \<open>k\<close> is a primary key of the table.\<close>

definition keyed :: "('a \<Rightarrow> 'k) \<Rightarrow> 'a list \<Rightarrow> bool" where
  "keyed k xs \<longleftrightarrow> distinct (map k xs)"

text \<open>\<open>SUM(g) ... WHERE P\<close> over a table, zero when no row matches.\<close>

definition sum_where :: "('a \<Rightarrow> bool) \<Rightarrow> ('a \<Rightarrow> int) \<Rightarrow> 'a list \<Rightarrow> int" where
  "sum_where P g xs = sum_list (map (\<lambda>x. if P x then g x else 0) xs)"

lemma update_where_Nil [simp, table_simps]: "update_where P f [] = []"
  by (simp add: update_where_def)

lemma update_where_Cons [simp, table_simps]:
  "update_where P f (x # xs) = (if P x then f x else x) # update_where P f xs"
  by (simp add: update_where_def)

lemma length_update_where [simp]: "length (update_where P f xs) = length xs"
  by (simp add: update_where_def)

lemma set_update_where: "set (update_where P f xs) = (\<lambda>x. if P x then f x else x) ` set xs"
  by (simp add: update_where_def)

lemma update_where_memE:
  assumes "y \<in> set (update_where P f xs)"
  obtains x where "x \<in> set xs" "y = (if P x then f x else x)"
  using assms by (auto simp: set_update_where)

lemma update_where_none: "(\<And>x. x \<in> set xs \<Longrightarrow> \<not> P x) \<Longrightarrow> update_where P f xs = xs"
  by (induction xs) auto

lemma map_update_where:
  "(\<And>x. x \<in> set xs \<Longrightarrow> P x \<Longrightarrow> k (f x) = k x) \<Longrightarrow> map k (update_where P f xs) = map k xs"
  by (induction xs) auto

lemma image_update_where:
  "(\<And>x. x \<in> set xs \<Longrightarrow> P x \<Longrightarrow> k (f x) = k x) \<Longrightarrow> k ` set (update_where P f xs) = k ` set xs"
  unfolding set_update_where image_image by (rule image_cong) auto

lemma keyed_update_where:
  "(\<And>x. x \<in> set xs \<Longrightarrow> P x \<Longrightarrow> k (f x) = k x) \<Longrightarrow> keyed k (update_where P f xs) = keyed k xs"
  by (simp add: keyed_def map_update_where)

lemma keyed_Nil [simp]: "keyed k []"
  by (simp add: keyed_def)

lemma keyed_Cons [simp]: "keyed k (x # xs) \<longleftrightarrow> k x \<notin> k ` set xs \<and> keyed k xs"
  by (simp add: keyed_def)

lemma keyed_snoc: "keyed k (xs @ [x]) \<longleftrightarrow> keyed k xs \<and> k x \<notin> k ` set xs"
  by (auto simp: keyed_def)

lemma keyed_unique:
  "keyed k xs \<Longrightarrow> x \<in> set xs \<Longrightarrow> y \<in> set xs \<Longrightarrow> k x = k y \<Longrightarrow> x = y"
  by (auto simp: keyed_def distinct_map dest: inj_onD)

lemma find_None_conv: "find P xs = None \<longleftrightarrow> (\<forall>x \<in> set xs. \<not> P x)"
  by (auto simp: find_None_iff)

lemma find_SomeD: "find P xs = Some x \<Longrightarrow> x \<in> set xs \<and> P x"
  by (auto simp: find_Some_iff)

lemma find_keyed:
  assumes "keyed k xs" "x \<in> set xs" "P x" "\<And>y. P y \<Longrightarrow> k y = k x"
  shows "find P xs = Some x"
proof (cases "find P xs")
  case None
  with assms(2,3) show ?thesis by (simp add: find_None_conv)
next
  case (Some y)
  then have "y \<in> set xs" "P y" by (simp_all add: find_SomeD)
  with assms have "y = x" by (blast intro: keyed_unique)
  with Some show ?thesis by simp
qed

lemma updating_one_None: "updating_one P f xs = None \<longleftrightarrow> (\<forall>x \<in> set xs. \<not> P x)"
proof -
  have "updating_one P f xs = None \<longleftrightarrow> find P xs = None"
    by (simp add: updating_one_def split: option.split)
  then show ?thesis by (simp only: find_None_conv)
qed

lemma updating_one_SomeD:
  assumes "updating_one P f xs = Some (y, ys)"
  shows "\<exists>x \<in> set xs. P x \<and> y = f x \<and> ys = update_where P f xs"
  using assms find_SomeD [of P xs] by (auto simp: updating_one_def split: option.splits)

lemma sum_where_Nil [simp]: "sum_where P g [] = 0"
  by (simp add: sum_where_def)

lemma sum_where_Cons [simp]:
  "sum_where P g (x # xs) = (if P x then g x else 0) + sum_where P g xs"
  by (simp add: sum_where_def)

lemma sum_where_append [simp]: "sum_where P g (xs @ ys) = sum_where P g xs + sum_where P g ys"
  by (simp add: sum_where_def)

lemma sum_where_nonneg: "(\<And>x. x \<in> set xs \<Longrightarrow> P x \<Longrightarrow> 0 \<le> g x) \<Longrightarrow> 0 \<le> sum_where P g xs"
  by (induction xs) auto

lemma sum_where_member_le:
  assumes "x \<in> set xs" "P x" "\<And>y. y \<in> set xs \<Longrightarrow> P y \<Longrightarrow> 0 \<le> g y"
  shows "g x \<le> sum_where P g xs"
  using assms
proof (induction xs)
  case (Cons a xs)
  have "0 \<le> sum_where P g xs" by (rule sum_where_nonneg) (simp add: Cons.prems)
  with Cons show ?case by (cases "x = a") (fastforce simp: add_increasing)+
qed simp

lemma sum_where_eq_cong:
  assumes "\<And>x. x \<in> set xs \<Longrightarrow> P x = P' x" "\<And>x. x \<in> set xs \<Longrightarrow> P x \<Longrightarrow> g x = g' x"
  shows "sum_where P g xs = sum_where P' g' xs"
  using assms by (induction xs) auto

text \<open>Updating rows so that neither the filter nor the summand changes leaves the sum alone.\<close>

lemma sum_where_update_inert:
  "(\<And>x. x \<in> set xs \<Longrightarrow> Q x \<Longrightarrow> P (f x) = P x \<and> (P x \<longrightarrow> g (f x) = g x)) \<Longrightarrow>
   sum_where P g (update_where Q f xs) = sum_where P g xs"
  by (induction xs) auto

text \<open>Updating the one row with key \<open>v\<close> out of the filter takes its summand away.\<close>

lemma sum_where_update_out:
  assumes "keyed k xs" "x \<in> set xs" "P x" "Q x"
    and "\<And>y. y \<in> set xs \<Longrightarrow> Q y \<Longrightarrow> k y = k x" "\<not> P (f x)"
  shows "sum_where P g (update_where Q f xs) = sum_where P g xs - g x"
  using assms
proof (induction xs)
  case (Cons a xs)
  show ?case
  proof (cases "a = x")
    case True
    have "\<not> Q y" if y: "y \<in> set xs" for y
    proof
      assume "Q y"
      with y have "k y = k x" using Cons.prems(5) [of y] by simp
      with y True Cons.prems(1) show False by (auto simp: image_iff)
    qed
    then have "update_where Q f xs = xs" by (intro update_where_none) auto
    with True Cons.prems(3,4,6) show ?thesis by simp
  next
    case False
    with Cons.prems(2) have x: "x \<in> set xs" by simp
    have "\<not> Q a"
    proof
      assume "Q a"
      then have "k a = k x" using Cons.prems(5) [of a] by simp
      with x Cons.prems(1) show False by (auto simp: image_iff)
    qed
    moreover have "sum_where P g (update_where Q f xs) = sum_where P g xs - g x"
    proof (rule Cons.IH)
      show "keyed k xs" using Cons.prems(1) by simp
      show "x \<in> set xs" by (rule x)
      show "P x" by (rule Cons.prems(3))
      show "Q x" by (rule Cons.prems(4))
      show "\<not> P (f x)" by (rule Cons.prems(6))
      show "k y = k x" if "y \<in> set xs" "Q y" for y using that Cons.prems(5) [of y] by simp
    qed
    ultimately show ?thesis by simp
  qed
qed simp

section \<open>Money\<close>

text \<open>
  \<open>numeric(14, 4)\<close> amounts are integers counting ten-thousandths of the currency unit;
  a unit price, \<open>numeric(14, 6)\<close>, counts millionths. An explicit cast to \<open>numeric(14, 4)\<close>
  rounds half away from zero and fails when fourteen digits are not enough.
\<close>

type_synonym amount = int

definition numeric14_4 :: "int \<Rightarrow> error + amount" where
  "numeric14_4 x = (if \<bar>x\<bar> < 10 ^ 14 then Inr x else Inl NumericOverflow)"

definition round_micro :: "int \<Rightarrow> amount" where
  "round_micro x = sgn x * ((\<bar>x\<bar> + 50) div 100)"

lemma numeric14_4_Inr [simp]: "numeric14_4 x = Inr y \<longleftrightarrow> \<bar>x\<bar> < 10 ^ 14 \<and> y = x"
  by (auto simp: numeric14_4_def)

lemma round_micro_nonneg: "0 \<le> x \<Longrightarrow> 0 \<le> round_micro x"
  by (simp add: round_micro_def sgn_if)

lemma round_micro_mono: "0 \<le> x \<Longrightarrow> x \<le> y \<Longrightarrow> round_micro x \<le> round_micro y"
  by (auto simp: round_micro_def sgn_if intro!: zdiv_mono1)

text \<open>The decimal text of an amount, as \<open>::text\<close> prints a \<open>numeric(14, 4)\<close>.\<close>

fun show_nat :: "nat \<Rightarrow> string" where
  "show_nat n = (if n < 10 then [char_of (48 + n)] else show_nat (n div 10) @ [char_of (48 + n mod 10)])"

declare show_nat.simps [simp del]

definition numeric_text :: "amount \<Rightarrow> string" where
  "numeric_text x =
     (let n = nat \<bar>x\<bar>; f = n mod 10000 in
      (if x < 0 then ''-'' else '''') @ show_nat (n div 10000) @ ''.''
      @ [char_of (48 + f div 1000), char_of (48 + f div 100 mod 10),
         char_of (48 + f div 10 mod 10), char_of (48 + f mod 10)])"

section \<open>Stable sorting\<close>

text \<open>\<open>sort.SliceStable\<close> by a strict weak order: equal elements keep their order.\<close>

fun insert_by :: "('a \<Rightarrow> 'a \<Rightarrow> bool) \<Rightarrow> 'a \<Rightarrow> 'a list \<Rightarrow> 'a list" where
  "insert_by lt x [] = [x]"
| "insert_by lt x (y # ys) = (if lt y x then y # insert_by lt x ys else x # y # ys)"

fun sort_by :: "('a \<Rightarrow> 'a \<Rightarrow> bool) \<Rightarrow> 'a list \<Rightarrow> 'a list" where
  "sort_by lt [] = []"
| "sort_by lt (x # xs) = insert_by lt x (sort_by lt xs)"

lemma insert_by_key:
  fixes f :: "'a \<Rightarrow> 'k :: linorder"
  assumes "\<And>a b. lt a b \<longleftrightarrow> f a < f b"
  shows "insert_by lt x ys = insort_key f x ys"
  by (induction ys) (auto simp: assms)

lemma sort_by_key:
  fixes f :: "'a \<Rightarrow> 'k :: linorder"
  assumes "\<And>a b. lt a b \<longleftrightarrow> f a < f b"
  shows "sort_by lt xs = sort_key f xs"
  by (induction xs) (simp_all add: insert_by_key [OF assms])

lemma set_insert_by [simp]: "set (insert_by lt x ys) = insert x (set ys)"
  by (induction ys) auto

lemma set_sort_by [simp]: "set (sort_by lt xs) = set xs"
  by (induction xs) auto

end
