(* ===== verification/Tables.thy ===== *)
theory Tables
  imports Prelude
begin

text \<open>
  The data model: one record per table of \<open>migrations/\<close> that the request path, the worker and
  the administrators' job control write, and the database as the record of these tables.
  Columns that only carry time stamps for display (\<open>created_at\<close>, \<open>updated_at\<close>) are left
  out except where a query orders by them; a nullable column is an \<open>option\<close>.
\<close>

section \<open>Status vocabularies\<close>

text \<open>The \<open>CHECK\<close> constraints of the status columns.\<close>

datatype job_status = Queued | Running | Preview_ready | Completed | Failed | Cancelled

datatype reservation_status = Reserved | Committed | Released | Res_failed

datatype budget_status = Active | Paused | Exceeded

datatype scope_type = Tenant_scope | Token_scope | World_scope | User_scope

datatype period = Daily | Monthly

datatype asset_status = Pending | Asset_preview_ready | Ready | Asset_failed | Archived

datatype pack_status =
  Planned | In_progress | Pack_preview_ready | Pack_completed | Completed_with_warnings | Pack_failed

datatype attempt_status = Started | Succeeded | Attempt_failed | Timed_out | Attempt_cancelled

section \<open>Rows\<close>

record provider_price =
  pr_id :: string
  pr_provider_id :: string
  pr_model_id :: string
  pr_operation_type :: string
  pr_unit_type :: string
  pr_price_per_unit :: int
  pr_currency :: string
  pr_effective_from :: nat
  pr_is_active :: bool
  pr_effective_to :: "nat option"
  pr_source :: "string option"
  pr_notes :: "string option"

record cost_budget =
  bg_id :: string
  bg_tenant_id :: string
  bg_scope_type :: scope_type
  bg_scope_id :: string
  bg_period :: period
  bg_limit :: amount
  bg_reserved :: amount
  bg_spent :: amount
  bg_currency :: string
  bg_status :: budget_status
  bg_period_start :: nat

record cost_reservation =
  rv_id :: string
  rv_job_id :: string
  rv_tenant_id :: string
  rv_estimated :: amount
  rv_reserved :: amount
  rv_actual :: "amount option"
  rv_currency :: string
  rv_status :: reservation_status
  rv_failure_reason :: "string option"

record budget_hold =
  ho_id :: string
  ho_reservation_id :: string
  ho_budget_id :: string
  ho_reserved :: amount
  ho_status :: reservation_status

record cost_event =
  ce_id :: string
  ce_tenant_id :: string
  ce_job_id :: "string option"
  ce_asset_id :: "string option"
  ce_reservation_id :: "string option"
  ce_token_id :: "string option"
  ce_provider_id :: "string option"
  ce_model_id :: "string option"
  ce_attempt_id :: "string option"
  ce_operation :: string
  ce_estimated :: "amount option"
  ce_actual :: "amount option"
  ce_duration_ms :: "int option"
  ce_status :: string
  ce_metadata :: payload
  ce_created_at :: nat

record identity_ledger_row =
  il_id :: string
  il_tenant_id :: string
  il_identity_id :: string
  il_estimated_total :: amount
  il_actual_total :: amount
  il_currency :: string

record job =
  jb_id :: string
  jb_tenant_id :: string
  jb_world_id :: "string option"
  jb_job_type :: string
  jb_status :: job_status
  jb_requested_by_token_id :: "string option"
  jb_visual_identity_id :: "string option"
  jb_asset_pack_id :: "string option"
  jb_input_payload :: payload
  jb_requested_outputs :: "string list"
  jb_fallback_policy :: "string option"
  jb_cache_result :: "string option"
  jb_preview_asset_ids :: "string list"
  jb_final_asset_ids :: "string list"
  jb_error_code :: "string option"
  jb_error_message :: "string option"
  jb_retryable :: "bool option"
  jb_cost_reservation_id :: "string option"
  jb_cost_estimate :: "amount option"
  jb_actual_cost :: "amount option"
  jb_started_at :: "nat option"
  jb_completed_at :: "nat option"
  jb_intent :: "string option"
  jb_lazy :: "bool option"
  jb_anchor_asset_id :: "string option"
  jb_derive_from :: "string option"

record provider_attempt =
  at_id :: string
  at_job_id :: string
  at_provider_id :: string
  at_model_id :: "string option"
  at_route_id :: "string option"
  at_attempt_number :: int
  at_status :: attempt_status
  at_error_code :: "string option"
  at_latency_ms :: "int option"
  at_actual_cost :: "amount option"

record visual_asset =
  va_id :: string
  va_tenant_id :: string
  va_world_id :: string
  va_visual_identity_id :: "string option"
  va_asset_type :: string
  va_variant_key :: string
  va_variant_family :: "string option"
  va_version :: int
  va_state_version :: int
  va_style_profile_id :: "string option"
  va_style_profile_version :: "int option"
  va_quality_tier :: string
  va_status :: asset_status
  va_compatibility_tags :: "string list"
  va_fallback_allowed :: bool
  va_fallback_rank :: "int option"
  va_is_identity_anchor :: bool
  va_prompt_hash :: "string option"
  va_generation_job_id :: "string option"
  va_superseded_by :: "string option"

record asset_pack =
  pk_id :: string
  pk_tenant_id :: string
  pk_world_id :: string
  pk_visual_identity_id :: "string option"
  pk_pack_type :: string
  pk_style_profile_id :: string
  pk_quality_tier :: string
  pk_status :: pack_status
  pk_required_roles :: "string list"
  pk_delivered_roles :: "string list"
  pk_missing_roles :: "string list"
  pk_created_by_job_id :: "string option"
  pk_created_by_token_id :: "string option"

record asset_pack_item =
  pi_id :: string
  pi_pack_id :: string
  pi_asset_id :: string
  pi_variant_key :: string
  pi_sort_order :: int

record idempotency_key =
  ik_id :: string
  ik_token_id :: string
  ik_key :: string
  ik_endpoint :: string
  ik_request_hash :: string
  ik_job_id :: "string option"
  ik_expires_at :: nat

text \<open>
  The database. \<open>db_now\<close> is the time stamp of the running transaction (\<open>now()\<close> in
  PostgreSQL is constant inside one).
\<close>

record db =
  db_prices :: "provider_price list"
  db_budgets :: "cost_budget list"
  db_reservations :: "cost_reservation list"
  db_holds :: "budget_hold list"
  db_events :: "cost_event list"
  db_ledger :: "identity_ledger_row list"
  db_jobs :: "job list"
  db_attempts :: "provider_attempt list"
  db_assets :: "visual_asset list"
  db_packs :: "asset_pack list"
  db_pack_items :: "asset_pack_item list"
  db_idem :: "idempotency_key list"
  db_now :: nat

definition empty_db :: db where
  "empty_db = \<lparr>db_prices = [], db_budgets = [], db_reservations = [], db_holds = [],
     db_events = [], db_ledger = [], db_jobs = [], db_attempts = [], db_assets = [],
     db_packs = [], db_pack_items = [], db_idem = [], db_now = 0\<rparr>"

text \<open>SQL comparison of a nullable column with a nullable parameter: never true on a null.\<close>

definition sql_eq :: "'a option \<Rightarrow> 'a option \<Rightarrow> bool" where
  "sql_eq x y = (case x of None \<Rightarrow> False | Some a \<Rightarrow> (case y of None \<Rightarrow> False | Some b \<Rightarrow> a = b))"

lemma sql_eq_simps [simp]:
  "sql_eq None y = False" "sql_eq x None = False" "sql_eq (Some a) (Some b) = (a = b)"
  by (simp_all add: sql_eq_def split: option.split)

lemma sql_eq_iff: "sql_eq x y \<longleftrightarrow> (\<exists>a. x = Some a \<and> y = Some a)"
  by (auto simp: sql_eq_def split: option.splits)

text \<open>The Go helper \<open>strPtr\<close>: the empty string becomes a null.\<close>

definition strPtr :: "string \<Rightarrow> string option" where
  "strPtr s = (if s = '''' then None else Some s)"

end
