(* ===== verification/Job_Table.thy ===== *)
theory Job_Table
  imports Tables
begin

text \<open>
  The table \<open>generation_jobs\<close>: the statements of \<open>internal/db/queries/generation_jobs.sql\<close> and
  the methods of \<open>internal/jobs/repository.go\<close> over them. Every status change of a job is one
  of these guarded updates; \<open>job_step\<close> is the state machine they implement, and the lemmas show
  that each of them moves a row only along it.
\<close>

section \<open>Queries\<close>

text \<open>The optional guard \<open>narg('cost_reservation_id') IS NULL OR cost_reservation_id = ...\<close>.\<close>

definition reservation_matches :: "string option \<Rightarrow> job \<Rightarrow> bool" where
  "reservation_matches r j \<longleftrightarrow> (case r of None \<Rightarrow> True | Some x \<Rightarrow> jb_cost_reservation_id j = Some x)"

definition update_job :: "db \<Rightarrow> (job \<Rightarrow> bool) \<Rightarrow> (job \<Rightarrow> job) \<Rightarrow> (job \<times> db) option" where
  "update_job d P f =
     (case updating_one P f (db_jobs d) of
        None \<Rightarrow> None
      | Some (j, js) \<Rightarrow> Some (j, d\<lparr>db_jobs := js\<rparr>))"

definition getGenerationJobByIDUnchecked :: "db \<Rightarrow> string \<Rightarrow> job option" where
  "getGenerationJobByIDUnchecked d i = find (\<lambda>j. jb_id j = i) (db_jobs d)"

definition getGenerationJobByID :: "db \<Rightarrow> string \<Rightarrow> string \<Rightarrow> job option" where
  "getGenerationJobByID d i t = find (\<lambda>j. jb_id j = i \<and> jb_tenant_id j = t) (db_jobs d)"

text \<open>The row locks read the current row; the lock itself is the atomicity of the transaction.\<close>

definition lockGenerationJobForUpdate :: "db \<Rightarrow> string \<Rightarrow> string \<Rightarrow> job_status option" where
  "lockGenerationJobForUpdate d i t = map_option jb_status (getGenerationJobByID d i t)"

definition lockGenerationJobRowForUpdate ::
    "db \<Rightarrow> string \<Rightarrow> string \<Rightarrow> string option \<Rightarrow> job option" where
  "lockGenerationJobRowForUpdate d i t r =
     find (\<lambda>j. jb_id j = i \<and> jb_tenant_id j = t \<and> reservation_matches r j) (db_jobs d)"

definition markGenerationJobRunning ::
    "db \<Rightarrow> string \<Rightarrow> string \<Rightarrow> string option \<Rightarrow> (job \<times> db) option" where
  "markGenerationJobRunning d i t r =
     update_job d
       (\<lambda>j. jb_id j = i \<and> jb_tenant_id j = t \<and> jb_status j = Queued \<and> reservation_matches r j)
       (\<lambda>j. j\<lparr>jb_status := Running, jb_started_at := Some (db_now d)\<rparr>)"

definition claimPreviewFinalization ::
    "db \<Rightarrow> string \<Rightarrow> string \<Rightarrow> string option \<Rightarrow> (job \<times> db) option" where
  "claimPreviewFinalization d i t r =
     update_job d
       (\<lambda>j. jb_id j = i \<and> jb_tenant_id j = t
          \<and> (jb_status j = Preview_ready \<or> jb_status j = Queued)
          \<and> jb_preview_asset_ids j \<noteq> [] \<and> jb_final_asset_ids j = []
          \<and> \<not> json_flag (jb_input_payload j) ''preview_finalization_claimed''
          \<and> reservation_matches r j)
       (\<lambda>j. j\<lparr>jb_status := (if jb_status j = Queued then Running else jb_status j),
              jb_started_at := (case jb_started_at j of None \<Rightarrow> Some (db_now d) | Some x \<Rightarrow> Some x),
              jb_input_payload :=
                (jb_input_payload j)(''preview_finalization_claimed'' \<mapsto> JBool True)\<rparr>)"

definition markGenerationJobCompleted ::
    "db \<Rightarrow> string \<Rightarrow> string \<Rightarrow> string list \<Rightarrow> string option \<Rightarrow> (job \<times> db) option" where
  "markGenerationJobCompleted d i t final r =
     update_job d
       (\<lambda>j. jb_id j = i \<and> jb_tenant_id j = t
          \<and> (jb_status j = Running \<or> jb_status j = Preview_ready) \<and> reservation_matches r j)
       (\<lambda>j. j\<lparr>jb_status := Completed, jb_final_asset_ids := final,
              jb_completed_at := Some (db_now d)\<rparr>)"

definition markGenerationJobPreviewReady ::
    "db \<Rightarrow> string \<Rightarrow> string \<Rightarrow> string list \<Rightarrow> string option \<Rightarrow> (job \<times> db) option" where
  "markGenerationJobPreviewReady d i t preview r =
     update_job d
       (\<lambda>j. jb_id j = i \<and> jb_tenant_id j = t \<and> jb_status j = Running \<and> reservation_matches r j)
       (\<lambda>j. j\<lparr>jb_status := Preview_ready, jb_preview_asset_ids := preview\<rparr>)"

definition live_status :: "job_status \<Rightarrow> bool" where
  "live_status s \<longleftrightarrow> s = Queued \<or> s = Running \<or> s = Preview_ready"

definition markGenerationJobFailed ::
    "db \<Rightarrow> string \<Rightarrow> string \<Rightarrow> string \<Rightarrow> string \<Rightarrow> bool \<Rightarrow> string option \<Rightarrow> (job \<times> db) option" where
  "markGenerationJobFailed d i t code msg retryable r =
     update_job d
       (\<lambda>j. jb_id j = i \<and> jb_tenant_id j = t \<and> live_status (jb_status j) \<and> reservation_matches r j)
       (\<lambda>j. j\<lparr>jb_status := Failed, jb_error_code := Some code, jb_error_message := Some msg,
              jb_retryable := Some retryable, jb_completed_at := Some (db_now d)\<rparr>)"

definition cancelGenerationJob ::
    "db \<Rightarrow> string \<Rightarrow> string \<Rightarrow> string \<Rightarrow> (job \<times> db) option" where
  "cancelGenerationJob d i t msg =
     update_job d (\<lambda>j. jb_id j = i \<and> jb_tenant_id j = t)
       (\<lambda>j. j\<lparr>jb_status := Cancelled, jb_error_code := Some ''cancelled'',
              jb_error_message := Some msg, jb_retryable := Some False,
              jb_completed_at := Some (db_now d)\<rparr>)"

definition retryResetGenerationJob ::
    "db \<Rightarrow> string \<Rightarrow> string \<Rightarrow> string \<Rightarrow> amount \<Rightarrow> (job \<times> db) option" where
  "retryResetGenerationJob d i t rid est =
     update_job d (\<lambda>j. jb_id j = i \<and> jb_tenant_id j = t)
       (\<lambda>j. j\<lparr>jb_status := Queued,
              jb_input_payload := (jb_input_payload j)(''preview_finalization_claimed'' := None),
              jb_error_code := None, jb_error_message := None, jb_retryable := None,
              jb_started_at := None, jb_completed_at := None, jb_final_asset_ids := [],
              jb_cost_reservation_id := Some rid, jb_cost_estimate := Some est,
              jb_actual_cost := None\<rparr>)"

definition setGenerationJobCost :: "db \<Rightarrow> string \<Rightarrow> string \<Rightarrow> amount \<Rightarrow> db" where
  "setGenerationJobCost d i rid est =
     d\<lparr>db_jobs := update_where (\<lambda>j. jb_id j = i)
         (\<lambda>j. j\<lparr>jb_cost_reservation_id := Some rid, jb_cost_estimate := Some est\<rparr>) (db_jobs d)\<rparr>"

definition setGenerationJobAssetPack :: "db \<Rightarrow> string \<Rightarrow> string \<Rightarrow> db" where
  "setGenerationJobAssetPack d i pid =
     d\<lparr>db_jobs := update_where (\<lambda>j. jb_id j = i) (\<lambda>j. j\<lparr>jb_asset_pack_id := Some pid\<rparr>) (db_jobs d)\<rparr>"

definition setGenerationJobActualCostForReservation :: "db \<Rightarrow> amount option \<Rightarrow> string \<Rightarrow> string \<Rightarrow> db" where
  "setGenerationJobActualCostForReservation d a i rid =
     d\<lparr>db_jobs := update_where (\<lambda>j. jb_id j = i \<and> jb_cost_reservation_id j = Some rid)
         (\<lambda>j. j\<lparr>jb_actual_cost := a\<rparr>) (db_jobs d)\<rparr>"

definition countLiveGenerationJobsByToken :: "db \<Rightarrow> string \<Rightarrow> nat" where
  "countLiveGenerationJobsByToken d tok =
     length (filter (\<lambda>j. jb_requested_by_token_id j = Some tok \<and> live_status (jb_status j)) (db_jobs d))"

section \<open>Repository methods\<close>

text \<open>
  The methods of \<open>pgRepository\<close> turn \<open>pgx.ErrNoRows\<close> into \<open>ErrNotFound\<close>; a method and its
  \<open>...ForReservation\<close> variant are one definition with an optional reservation.
\<close>

definition or_not_found :: "'a option \<Rightarrow> error + 'a" where
  "or_not_found x = (case x of None \<Rightarrow> Inl ErrNotFound | Some y \<Rightarrow> Inr y)"

definition getByIDForTenant :: "db \<Rightarrow> string \<Rightarrow> string \<Rightarrow> error + job" where
  "getByIDForTenant d i t =
     (if t = '''' then Inl ErrNoTenant else or_not_found (getGenerationJobByID d i t))"

definition getByID :: "db \<Rightarrow> string \<Rightarrow> error + job" where
  "getByID d i = or_not_found (getGenerationJobByIDUnchecked d i)"

definition markRunning :: "db \<Rightarrow> string \<Rightarrow> string \<Rightarrow> string option \<Rightarrow> error + job \<times> db" where
  "markRunning d i t r = or_not_found (markGenerationJobRunning d i t r)"

definition claimPreview :: "db \<Rightarrow> string \<Rightarrow> string \<Rightarrow> string option \<Rightarrow> error + job \<times> db" where
  "claimPreview d i t r = or_not_found (claimPreviewFinalization d i t r)"

definition markPreviewReady ::
    "db \<Rightarrow> string \<Rightarrow> string \<Rightarrow> string list \<Rightarrow> string option \<Rightarrow> error + job \<times> db" where
  "markPreviewReady d i t ids r = or_not_found (markGenerationJobPreviewReady d i t ids r)"

definition markCompleted ::
    "db \<Rightarrow> string \<Rightarrow> string \<Rightarrow> string list \<Rightarrow> string option \<Rightarrow> error + job \<times> db" where
  "markCompleted d i t ids r = or_not_found (markGenerationJobCompleted d i t ids r)"

definition markFailed ::
    "db \<Rightarrow> string \<Rightarrow> string \<Rightarrow> string \<Rightarrow> string \<Rightarrow> bool \<Rightarrow> string option \<Rightarrow> error + job \<times> db" where
  "markFailed d i t code msg retryable r =
     or_not_found (markGenerationJobFailed d i t code msg retryable r)"

section \<open>The job state machine\<close>

text \<open>
  One rule per status change the statements make. \<open>Failed \<rightarrow> Queued\<close> is the administrator's
  retry; nothing leaves \<open>Completed\<close> or \<open>Cancelled\<close>.
\<close>

inductive job_step :: "job_status \<Rightarrow> job_status \<Rightarrow> bool" where
  claim: "job_step Queued Running"
| preview: "job_step Running Preview_ready"
| complete: "s = Running \<or> s = Preview_ready \<Longrightarrow> job_step s Completed"
| fail: "live_status s \<Longrightarrow> job_step s Failed"
| cancel: "live_status s \<Longrightarrow> job_step s Cancelled"
| retry: "job_step Failed Queued"

inductive_cases completed_stepE: "job_step Completed s"
inductive_cases cancelled_stepE: "job_step Cancelled s"
inductive_simps job_step_iff: "job_step a b"

code_pred job_step .

lemma live_status_simps [simp]:
  "live_status Queued" "live_status Running" "live_status Preview_ready"
  "\<not> live_status Completed" "\<not> live_status Failed" "\<not> live_status Cancelled"
  by (simp_all add: live_status_def)

definition terminal_status :: "job_status \<Rightarrow> bool" where
  "terminal_status s \<longleftrightarrow> \<not> live_status s"

text \<open>
  A row evolves into another: same identity and owner, the status unchanged or one step further.
\<close>

definition job_evolves :: "job \<Rightarrow> job \<Rightarrow> bool" where
  "job_evolves j j' \<longleftrightarrow>
     jb_id j' = jb_id j \<and> jb_tenant_id j' = jb_tenant_id j
     \<and> jb_requested_by_token_id j' = jb_requested_by_token_id j
     \<and> (jb_status j' = jb_status j \<or> job_step (jb_status j) (jb_status j'))"

definition jobs_evolve :: "db \<Rightarrow> db \<Rightarrow> bool" where
  "jobs_evolve d d' \<longleftrightarrow> list_all2 job_evolves (db_jobs d) (db_jobs d')"

lemma job_evolves_refl [simp]: "job_evolves j j"
  by (simp add: job_evolves_def)

lemma jobs_evolve_same: "db_jobs d' = db_jobs d \<Longrightarrow> jobs_evolve d d'"
  by (simp add: jobs_evolve_def list_all2_refl)

lemma list_all2_update_where:
  "(\<And>x. x \<in> set xs \<Longrightarrow> P x \<Longrightarrow> R x (f x)) \<Longrightarrow> (\<And>x. R x x) \<Longrightarrow> list_all2 R xs (update_where P f xs)"
  by (induction xs) auto

lemma update_job_SomeD:
  assumes "update_job d P f = Some (j', d')"
  shows "\<exists>j \<in> set (db_jobs d). P j \<and> j' = f j \<and> d' = d\<lparr>db_jobs := update_where P f (db_jobs d)\<rparr>"
  using assms updating_one_SomeD [of P f "db_jobs d"]
  by (auto simp: update_job_def split: option.splits)

lemma update_job_None: "update_job d P f = None \<longleftrightarrow> (\<forall>j \<in> set (db_jobs d). \<not> P j)"
  using updating_one_None [of P f "db_jobs d"]
  by (auto simp: update_job_def split: option.splits)

lemma update_job_evolve:
  assumes "update_job d P f = Some (j', d')"
    and "\<And>j. j \<in> set (db_jobs d) \<Longrightarrow> P j \<Longrightarrow> job_evolves j (f j)"
  shows "jobs_evolve d d'"
  using update_job_SomeD [OF assms(1)] assms(2)
  by (auto simp: jobs_evolve_def intro!: list_all2_update_where)

lemmas job_query_defs = markGenerationJobRunning_def claimPreviewFinalization_def
  markGenerationJobCompleted_def markGenerationJobPreviewReady_def markGenerationJobFailed_def

lemmas job_method_defs = markRunning_def claimPreview_def markPreviewReady_def
  markCompleted_def markFailed_def or_not_found_def

lemma or_not_found_Inr [simp]: "or_not_found x = Inr y \<longleftrightarrow> x = Some y"
  by (simp add: or_not_found_def split: option.split)

lemma markGenerationJobRunning_evolve:
  "markGenerationJobRunning d i t r = Some (j, d') \<Longrightarrow> jobs_evolve d d'"
  unfolding markGenerationJobRunning_def
  by (erule update_job_evolve) (auto simp: job_evolves_def intro: job_step.intros)

lemma claimPreviewFinalization_evolve:
  "claimPreviewFinalization d i t r = Some (j, d') \<Longrightarrow> jobs_evolve d d'"
  unfolding claimPreviewFinalization_def
  by (erule update_job_evolve) (auto simp: job_evolves_def intro: job_step.intros)

lemma markGenerationJobCompleted_evolve:
  "markGenerationJobCompleted d i t ids r = Some (j, d') \<Longrightarrow> jobs_evolve d d'"
  unfolding markGenerationJobCompleted_def
  by (erule update_job_evolve) (auto simp: job_evolves_def intro: job_step.intros)

lemma markGenerationJobPreviewReady_evolve:
  "markGenerationJobPreviewReady d i t ids r = Some (j, d') \<Longrightarrow> jobs_evolve d d'"
  unfolding markGenerationJobPreviewReady_def
  by (erule update_job_evolve) (auto simp: job_evolves_def intro: job_step.intros)

lemma markGenerationJobFailed_evolve:
  "markGenerationJobFailed d i t c m b r = Some (j, d') \<Longrightarrow> jobs_evolve d d'"
  unfolding markGenerationJobFailed_def
  by (erule update_job_evolve) (auto simp: job_evolves_def intro: job_step.intros)

text \<open>A successful conditional update implies that a matching row was in the guard's state.\<close>

lemma markRunning_exclusive:
  assumes "keyed jb_id (db_jobs d)" "markGenerationJobRunning d i t r = Some (j, d')"
  shows "markGenerationJobRunning d' i t r' = None"
proof -
  from update_job_SomeD [OF assms(2) [unfolded markGenerationJobRunning_def]]
  obtain j0 where j0: "j0 \<in> set (db_jobs d)" "jb_id j0 = i" "jb_tenant_id j0 = t"
      "jb_status j0 = Queued" "reservation_matches r j0"
    and d': "d' = d\<lparr>db_jobs := update_where
        (\<lambda>j. jb_id j = i \<and> jb_tenant_id j = t \<and> jb_status j = Queued \<and> reservation_matches r j)
        (\<lambda>j. j\<lparr>jb_status := Running, jb_started_at := Some (db_now d)\<rparr>) (db_jobs d)\<rparr>" by auto
  have only: "x = j0" if "x \<in> set (db_jobs d)" "jb_id x = i" for x
    using keyed_unique [OF assms(1)] that j0 by blast
  have "\<not> (jb_id y = i \<and> jb_tenant_id y = t \<and> jb_status y = Queued \<and> reservation_matches r' y)"
    if y: "y \<in> set (db_jobs d')" for y
  proof
    assume a: "jb_id y = i \<and> jb_tenant_id y = t \<and> jb_status y = Queued \<and> reservation_matches r' y"
    from y d' obtain x where x: "x \<in> set (db_jobs d)" "y = (if jb_id x = i \<and> jb_tenant_id x = t \<and>
         jb_status x = Queued \<and> reservation_matches r x
       then x\<lparr>jb_status := Running, jb_started_at := Some (db_now d)\<rparr> else x)"
      by (auto elim: update_where_memE)
    with a have "jb_id x = i" by (auto split: if_splits)
    with only x(1) have "x = j0" by blast
    with x(2) j0 have "jb_status y = Running" by simp
    with a show False by simp
  qed
  then show ?thesis by (simp add: markGenerationJobRunning_def update_job_None)
qed

end
