(* ===== verification/Cost.thy ===== *)
theory Cost
  imports Job_Table
begin

text \<open>
  The cost-control pipeline, \<open>internal/cost/cost.go\<close>, with the statements of
  \<open>internal/db/queries/cost.sql\<close> and \<open>cost_lifecycle.sql\<close> it runs: pricing and reserving a job
  (\<open>reserve\<close>), the terminal transition of a reservation (\<open>finalizeInTxForReservation\<close>) and
  the reconciliation of provider bills that arrive late. A transaction is a function from the
  database to an error or the new database: an error is a rollback. Identifiers the code draws
  at random are arguments; an insert fails on a duplicate key, as the primary keys do.
\<close>

section \<open>Inserting with constraints\<close>

abbreviation unique_violation :: error where
  "unique_violation \<equiv> ErrOther ''unique_violation''"

abbreviation foreign_key_violation :: error where
  "foreign_key_violation \<equiv> ErrOther ''foreign_key_violation''"

definition insert_row :: "('a \<Rightarrow> 'k) \<Rightarrow> 'a \<Rightarrow> 'a list \<Rightarrow> error + 'a list" where
  "insert_row k x xs = (if k x \<in> set (map k xs) then Inl unique_violation else Inr (xs @ [x]))"

lemma insert_row_Inr [simp]:
  "insert_row k x xs = Inr ys \<longleftrightarrow> k x \<notin> k ` set xs \<and> ys = xs @ [x]"
  by (auto simp: insert_row_def)

text \<open>The row a query with \<open>ORDER BY c DESC LIMIT 1\<close> returns: the first with the greatest \<open>c\<close>.\<close>

fun max_by :: "('a \<Rightarrow> nat) \<Rightarrow> 'a list \<Rightarrow> 'a option" where
  "max_by c [] = None"
| "max_by c (x # xs) =
     (case max_by c xs of None \<Rightarrow> Some x | Some y \<Rightarrow> Some (if c y > c x then y else x))"

lemma max_by_None [simp]: "max_by c xs = None \<longleftrightarrow> xs = []"
  by (cases xs) (auto split: option.splits)

lemma max_by_SomeD: "max_by c xs = Some x \<Longrightarrow> x \<in> set xs \<and> (\<forall>y \<in> set xs. c y \<le> c x)"
  by (induction xs arbitrary: x) (fastforce split: option.splits if_splits)+

section \<open>Pre-flight: price, estimate, reserve\<close>

record reserve_input =
  ri_job_id :: string
  ri_tenant_id :: string
  ri_token_id :: string
  ri_world_id :: string
  ri_user_id :: string
  ri_provider_id :: string
  ri_model_id :: string
  ri_operation_type :: string
  ri_units :: int

record reservation_result =
  rr_id :: string
  rr_status :: reservation_status
  rr_failure_reason :: string
  rr_estimated :: amount
  rr_reserved :: amount
  rr_currency :: string
  rr_estimate_usd :: string

definition failed :: "reservation_result \<Rightarrow> bool" where
  "failed r \<longleftrightarrow> rr_status r = Res_failed"

record estimate_row =
  es_price_id :: string
  es_unit_type :: string
  es_currency :: string
  es_estimated_amount :: amount
  es_estimated_text :: string

definition active_price :: "db \<Rightarrow> string \<Rightarrow> string \<Rightarrow> string \<Rightarrow> provider_price option" where
  "active_price d prov model op =
     max_by pr_effective_from
       (filter (\<lambda>p. pr_provider_id p = prov \<and> pr_model_id p = model \<and> pr_operation_type p = op
                  \<and> pr_is_active p) (db_prices d))"

definition estimateOperationCost :: "db \<Rightarrow> int \<Rightarrow> string \<Rightarrow> string \<Rightarrow> string \<Rightarrow> error + estimate_row" where
  "estimateOperationCost d units prov model op =
     (case active_price d prov model op of
        None \<Rightarrow> Inl ErrNoRows
      | Some p \<Rightarrow>
          (case numeric14_4 (round_micro (pr_price_per_unit p * units)) of
             Inl e \<Rightarrow> Inl e
           | Inr a \<Rightarrow> Inr \<lparr>es_price_id = pr_id p, es_unit_type = pr_unit_type p,
                es_currency = pr_currency p, es_estimated_amount = a,
                es_estimated_text = numeric_text a\<rparr>))"

definition listBudgetsForReservation ::
    "db \<Rightarrow> string \<Rightarrow> string \<Rightarrow> string \<Rightarrow> string \<Rightarrow> cost_budget list" where
  "listBudgetsForReservation d ten tok wor usr =
     filter (\<lambda>b. bg_tenant_id b = ten
        \<and> (bg_scope_type b = Tenant_scope \<and> bg_scope_id b = ten
         \<or> bg_scope_type b = Token_scope \<and> bg_scope_id b = tok
         \<or> bg_scope_type b = World_scope \<and> bg_scope_id b = wor
         \<or> bg_scope_type b = User_scope \<and> bg_scope_id b = usr)) (db_budgets d)"

definition selectBudgets :: "cost_budget list \<Rightarrow> cost_budget list" where
  "selectBudgets all =
     (let tenant = filter (\<lambda>b. bg_scope_type b = Tenant_scope) all;
          token = filter (\<lambda>b. bg_scope_type b = Token_scope) all;
          world = filter (\<lambda>b. bg_scope_type b = World_scope) all;
          user = filter (\<lambda>b. bg_scope_type b = User_scope) all
      in tenant @ (if token \<noteq> [] then token else if world \<noteq> [] then world else user))"

text \<open>\<open>trunc\<close> is PostgreSQL's \<open>date_trunc\<close> to the day or the month, in UTC.\<close>

type_synonym date_trunc = "period \<Rightarrow> nat \<Rightarrow> nat"

definition resetBudgetPeriodIfElapsed :: "date_trunc \<Rightarrow> db \<Rightarrow> string \<Rightarrow> db" where
  "resetBudgetPeriodIfElapsed trunc d i =
     d\<lparr>db_budgets := update_where
         (\<lambda>b. bg_id b = i \<and> bg_period_start b < trunc (bg_period b) (db_now d))
         (\<lambda>b. b\<lparr>bg_period_start := trunc (bg_period b) (db_now d), bg_spent := 0,
                bg_status := (if bg_status b = Exceeded then Active else bg_status b)\<rparr>)
         (db_budgets d)\<rparr>"

definition update_budget :: "db \<Rightarrow> (cost_budget \<Rightarrow> bool) \<Rightarrow> (cost_budget \<Rightarrow> cost_budget) \<Rightarrow> db option" where
  "update_budget d P f = map_option (\<lambda>(_, bs). d\<lparr>db_budgets := bs\<rparr>) (updating_one P f (db_budgets d))"

definition reserveActiveBudget :: "db \<Rightarrow> amount \<Rightarrow> string \<Rightarrow> db option" where
  "reserveActiveBudget d a i =
     update_budget d
       (\<lambda>b. bg_id b = i \<and> bg_status b = Active \<and> bg_reserved b + bg_spent b + a \<le> bg_limit b)
       (\<lambda>b. b\<lparr>bg_reserved := bg_reserved b + a\<rparr>)"

definition reservePausedBudget :: "db \<Rightarrow> amount \<Rightarrow> string \<Rightarrow> db option" where
  "reservePausedBudget d a i =
     update_budget d (\<lambda>b. bg_id b = i \<and> bg_status b = Paused)
       (\<lambda>b. b\<lparr>bg_reserved := bg_reserved b + a\<rparr>)"

definition insertBudgetHold :: "db \<Rightarrow> string \<Rightarrow> string \<Rightarrow> string \<Rightarrow> amount \<Rightarrow> error + db" where
  "insertBudgetHold d hid rid bid a =
     (if \<exists>h \<in> set (db_holds d). ho_reservation_id h = rid \<and> ho_budget_id h = bid
      then Inl unique_violation
      else if rid \<notin> set (map rv_id (db_reservations d)) \<or> bid \<notin> set (map bg_id (db_budgets d))
      then Inl foreign_key_violation
      else (case insert_row ho_id \<lparr>ho_id = hid, ho_reservation_id = rid, ho_budget_id = bid,
                  ho_reserved = a, ho_status = Reserved\<rparr> (db_holds d) of
              Inl e \<Rightarrow> Inl e
            | Inr hs \<Rightarrow> Inr (d\<lparr>db_holds := hs\<rparr>)))"

text \<open>
  One iteration of the loop of \<open>reserveBudgets\<close>. \<open>observed\<close> is the status the budget had when
  the list was read, before the row lock: the code tries that state first, then the other.
\<close>

definition tryReserve :: "db \<Rightarrow> amount \<Rightarrow> string \<Rightarrow> budget_status \<Rightarrow> db option" where
  "tryReserve d a i observed =
     (if observed = Paused
      then (case reservePausedBudget d a i of Some d' \<Rightarrow> Some d' | None \<Rightarrow> reserveActiveBudget d a i)
      else (case reserveActiveBudget d a i of Some d' \<Rightarrow> Some d' | None \<Rightarrow> reservePausedBudget d a i))"

text \<open>The loop: \<open>Inr None\<close> is a denial (\<open>false, nil\<close>), after which the savepoint rolls back.\<close>

fun holdBudgets ::
    "date_trunc \<Rightarrow> amount \<Rightarrow> string \<Rightarrow> (nat \<Rightarrow> string) \<Rightarrow> cost_budget list \<Rightarrow> db \<Rightarrow> error + db option" where
  "holdBudgets trunc a rid hids [] d = Inr (Some d)"
| "holdBudgets trunc a rid hids (b # bs) d =
     (case tryReserve (resetBudgetPeriodIfElapsed trunc d (bg_id b)) a (bg_id b) (bg_status b) of
        None \<Rightarrow> Inr None
      | Some d1 \<Rightarrow>
          (case insertBudgetHold d1 (hids (length bs)) rid (bg_id b) a of
             Inl e \<Rightarrow> Inl e
           | Inr d2 \<Rightarrow> holdBudgets trunc a rid hids bs d2))"

definition reserveBudgets ::
    "date_trunc \<Rightarrow> db \<Rightarrow> cost_budget list \<Rightarrow> amount \<Rightarrow> string \<Rightarrow> (nat \<Rightarrow> string) \<Rightarrow> error + db option" where
  "reserveBudgets trunc d all a rid hids = holdBudgets trunc a rid hids (selectBudgets all) d"

definition insertCostReservation :: "db \<Rightarrow> cost_reservation \<Rightarrow> error + db" where
  "insertCostReservation d r =
     (if rv_job_id r \<notin> set (map jb_id (db_jobs d)) then Inl foreign_key_violation
      else (case insert_row rv_id r (db_reservations d) of
              Inl e \<Rightarrow> Inl e
            | Inr rs \<Rightarrow> Inr (d\<lparr>db_reservations := rs\<rparr>)))"

definition markReservationBudgetExceeded :: "db \<Rightarrow> string \<Rightarrow> string \<Rightarrow> db" where
  "markReservationBudgetExceeded d i reason =
     d\<lparr>db_reservations := update_where (\<lambda>r. rv_id r = i)
         (\<lambda>r. r\<lparr>rv_status := Res_failed, rv_failure_reason := Some reason, rv_reserved := 0\<rparr>)
         (db_reservations d)\<rparr>"

definition insertFailed :: "db \<Rightarrow> reserve_input \<Rightarrow> string \<Rightarrow> string \<Rightarrow> error + reservation_result \<times> db" where
  "insertFailed d inp rid reason =
     (case insertCostReservation d
             \<lparr>rv_id = rid, rv_job_id = ri_job_id inp, rv_tenant_id = ri_tenant_id inp,
              rv_estimated = 0, rv_reserved = 0, rv_actual = None, rv_currency = ''USD'',
              rv_status = Res_failed, rv_failure_reason = Some reason\<rparr> of
        Inl e \<Rightarrow> Inl e
      | Inr d' \<Rightarrow> Inr (\<lparr>rr_id = rid, rr_status = Res_failed, rr_failure_reason = reason,
           rr_estimated = 0, rr_reserved = 0, rr_currency = ''USD'', rr_estimate_usd = ''''\<rparr>, d'))"

text \<open>
  \<open>Service.Reserve\<close>. \<open>all\<close> is the list \<open>ListBudgetsForReservation\<close> returned: it is read
  without locks, so the budgets it names may have changed since.
\<close>

definition reserve ::
    "date_trunc \<Rightarrow> db \<Rightarrow> cost_budget list \<Rightarrow> reserve_input \<Rightarrow> string \<Rightarrow> (nat \<Rightarrow> string)
     \<Rightarrow> error + reservation_result \<times> db" where
  "reserve trunc d all inp rid hids =
     (case estimateOperationCost d (ri_units inp) (ri_provider_id inp) (ri_model_id inp)
             (ri_operation_type inp) of
        Inl ErrNoRows \<Rightarrow> insertFailed d inp rid ''no_price_entry''
      | Inl e \<Rightarrow> Inl e
      | Inr est \<Rightarrow>
          if es_unit_type est \<noteq> ''image'' then insertFailed d inp rid ''no_price_entry''
          else
            (case insertCostReservation d
                    \<lparr>rv_id = rid, rv_job_id = ri_job_id inp, rv_tenant_id = ri_tenant_id inp,
                     rv_estimated = es_estimated_amount est, rv_reserved = es_estimated_amount est,
                     rv_actual = None, rv_currency = es_currency est, rv_status = Reserved,
                     rv_failure_reason = None\<rparr> of
               Inl e \<Rightarrow> Inl e
             | Inr d1 \<Rightarrow>
                 (case reserveBudgets trunc d1 all (es_estimated_amount est) rid hids of
                    Inl e \<Rightarrow> Inl e
                  | Inr None \<Rightarrow>
                      Inr (\<lparr>rr_id = rid, rr_status = Res_failed,
                            rr_failure_reason = ''budget_exceeded'',
                            rr_estimated = es_estimated_amount est, rr_reserved = 0,
                            rr_currency = es_currency est, rr_estimate_usd = es_estimated_text est\<rparr>,
                           markReservationBudgetExceeded d1 rid ''budget_exceeded'')
                  | Inr (Some d2) \<Rightarrow>
                      Inr (\<lparr>rr_id = rid, rr_status = Reserved, rr_failure_reason = '''',
                            rr_estimated = es_estimated_amount est,
                            rr_reserved = es_estimated_amount est, rr_currency = es_currency est,
                            rr_estimate_usd = es_estimated_text est\<rparr>, d2))))"

section \<open>Terminal lifecycle\<close>

text \<open>\<open>SUM(actual_cost_usd)::numeric(14,4)\<close> over the provider-reported events of a reservation.\<close>

abbreviation inferred_key :: string where
  "inferred_key \<equiv> ''actual_inferred_from_estimate''"

definition reported_event :: "string \<Rightarrow> string \<Rightarrow> cost_event \<Rightarrow> bool" where
  "reported_event jid rid e \<longleftrightarrow>
     ce_job_id e = Some jid \<and> ce_reservation_id e = Some rid \<and> ce_actual e \<noteq> None
     \<and> \<not> json_flag (ce_metadata e) inferred_key"

definition sumReportedReservationActual :: "db \<Rightarrow> string \<Rightarrow> string \<Rightarrow> error + amount option" where
  "sumReportedReservationActual d rid jid =
     (if \<exists>e \<in> set (db_events d). reported_event jid rid e
      then (case numeric14_4 (sum_where (reported_event jid rid) (the \<circ> ce_actual) (db_events d)) of
              Inl e \<Rightarrow> Inl e | Inr a \<Rightarrow> Inr (Some a))
      else Inr None)"

text \<open>
  The four statements \<open>{Commit,Release}Reservation{ForJob,ByID}\<close>. The \<open>ForJob\<close> ones add the
  condition that the reservation is the one the job links; commit falls back to the estimate
  when no provider reported a bill, release leaves the actual null.
\<close>

definition finalizable :: "db \<Rightarrow> string \<Rightarrow> string \<Rightarrow> cost_reservation \<Rightarrow> bool" where
  "finalizable d jid rid r \<longleftrightarrow>
     rv_job_id r = jid \<and> rv_status r = Reserved
     \<and> (if rid = ''''
        then sql_eq (Some (rv_id r))
               (case getGenerationJobByIDUnchecked d jid of None \<Rightarrow> None | Some j \<Rightarrow> jb_cost_reservation_id j)
        else rv_id r = rid)"

definition finalizeReservation ::
    "db \<Rightarrow> string \<Rightarrow> string \<Rightarrow> reservation_status \<Rightarrow> error + (cost_reservation \<times> db) option" where
  "finalizeReservation d jid rid target =
     (case find (finalizable d jid rid) (db_reservations d) of
        None \<Rightarrow> Inr None
      | Some r \<Rightarrow>
          (case sumReportedReservationActual d (rv_id r) jid of
             Inl e \<Rightarrow> Inl e
           | Inr rep \<Rightarrow>
               let act = (if target = Committed
                          then Some (case rep of None \<Rightarrow> rv_estimated r | Some a \<Rightarrow> a) else rep);
                   f = (\<lambda>x. x\<lparr>rv_status := target, rv_actual := act\<rparr>)
               in Inr (Some (f r,
                    d\<lparr>db_reservations := update_where (\<lambda>x. rv_id x = rv_id r) f (db_reservations d)\<rparr>))))"

definition listReservedBudgetHolds :: "db \<Rightarrow> string \<Rightarrow> budget_hold list" where
  "listReservedBudgetHolds d rid =
     filter (\<lambda>h. ho_reservation_id h = rid \<and> ho_status h = Reserved) (db_holds d)"

definition commitBudgetHold :: "db \<Rightarrow> amount \<Rightarrow> amount \<Rightarrow> string \<Rightarrow> db" where
  "commitBudgetHold d res act i =
     d\<lparr>db_budgets := update_where (\<lambda>b. bg_id b = i)
         (\<lambda>b. b\<lparr>bg_reserved := max (bg_reserved b - res) 0, bg_spent := bg_spent b + act\<rparr>)
         (db_budgets d)\<rparr>"

definition releaseBudgetHold :: "db \<Rightarrow> amount \<Rightarrow> string \<Rightarrow> db" where
  "releaseBudgetHold d a i =
     d\<lparr>db_budgets := update_where (\<lambda>b. bg_id b = i)
         (\<lambda>b. b\<lparr>bg_reserved := max (bg_reserved b - a) 0\<rparr>) (db_budgets d)\<rparr>"

definition markBudgetHoldStatus :: "db \<Rightarrow> reservation_status \<Rightarrow> string \<Rightarrow> db" where
  "markBudgetHoldStatus d s i =
     d\<lparr>db_holds := update_where (\<lambda>h. ho_id h = i \<and> ho_status h = Reserved)
         (\<lambda>h. h\<lparr>ho_status := s\<rparr>) (db_holds d)\<rparr>"

text \<open>The loop over the holds; \<open>charge = Some a\<close> moves \<open>a\<close> to spent, \<open>None\<close> only releases.\<close>

fun settleHolds :: "amount option \<Rightarrow> reservation_status \<Rightarrow> budget_hold list \<Rightarrow> db \<Rightarrow> db" where
  "settleHolds charge target [] d = d"
| "settleHolds charge target (h # hs) d =
     settleHolds charge target hs
       (markBudgetHoldStatus
          (case charge of
             Some a \<Rightarrow> commitBudgetHold d (ho_reserved h) a (ho_budget_id h)
           | None \<Rightarrow> releaseBudgetHold d (ho_reserved h) (ho_budget_id h))
          target (ho_id h))"

text \<open>\<open>COALESCE(NULLIF(visual_identity_id, ''), payload identity_id, payload visual_identity_id)\<close>.\<close>

definition job_identity :: "job \<Rightarrow> string option" where
  "job_identity j =
     (case jb_visual_identity_id j of
        Some v \<Rightarrow> if v \<noteq> '''' then Some v
                  else (case strPtr (payloadString (jb_input_payload j) ''identity_id'') of
                          Some w \<Rightarrow> Some w
                        | None \<Rightarrow> strPtr (payloadString (jb_input_payload j) ''visual_identity_id''))
      | None \<Rightarrow> (case strPtr (payloadString (jb_input_payload j) ''identity_id'') of
                   Some w \<Rightarrow> Some w
                 | None \<Rightarrow> strPtr (payloadString (jb_input_payload j) ''visual_identity_id'')))"

definition upsert_ledger ::
    "db \<Rightarrow> string \<Rightarrow> amount \<Rightarrow> amount \<Rightarrow> string \<Rightarrow> string \<Rightarrow> error + db" where
  "upsert_ledger d lid est act cur jid =
     (case getGenerationJobByIDUnchecked d jid of
        None \<Rightarrow> Inr d
      | Some j \<Rightarrow>
          (case job_identity j of
             None \<Rightarrow> Inr d
           | Some ident \<Rightarrow>
               if \<exists>l \<in> set (db_ledger d). il_identity_id l = ident
               then Inr (d\<lparr>db_ledger := update_where (\<lambda>l. il_identity_id l = ident)
                      (\<lambda>l. l\<lparr>il_estimated_total := il_estimated_total l + est,
                             il_actual_total := il_actual_total l + act,
                             il_currency := cur\<rparr>) (db_ledger d)\<rparr>)
               else (case insert_row il_id \<lparr>il_id = lid, il_tenant_id = jb_tenant_id j,
                            il_identity_id = ident, il_estimated_total = est,
                            il_actual_total = act, il_currency = cur\<rparr> (db_ledger d) of
                       Inl e \<Rightarrow> Inl e
                     | Inr ls \<Rightarrow> Inr (d\<lparr>db_ledger := ls\<rparr>))))"

definition upsertIdentityCostLedgerForJob ::
    "db \<Rightarrow> string \<Rightarrow> amount \<Rightarrow> amount \<Rightarrow> string \<Rightarrow> string \<Rightarrow> error + db" where
  "upsertIdentityCostLedgerForJob d lid est act cur jid = upsert_ledger d lid est act cur jid"

definition upsertIdentityCostLedgerActualForJob ::
    "db \<Rightarrow> string \<Rightarrow> amount \<Rightarrow> string \<Rightarrow> string \<Rightarrow> error + db" where
  "upsertIdentityCostLedgerActualForJob d lid delta cur jid = upsert_ledger d lid 0 delta cur jid"

definition reservation_event :: "string \<Rightarrow> string option \<Rightarrow> cost_event \<Rightarrow> bool" where
  "reservation_event jid rid e \<longleftrightarrow> ce_job_id e = Some jid \<and> sql_eq (ce_reservation_id e) rid"

definition updateLatestJobCostEvent ::
    "db \<Rightarrow> amount \<Rightarrow> amount option \<Rightarrow> string \<Rightarrow> string \<Rightarrow> string option \<Rightarrow> nat \<times> db" where
  "updateLatestJobCostEvent d est act status jid rid =
     (case max_by ce_created_at (rev (filter (reservation_event jid rid) (db_events d))) of
        None \<Rightarrow> (0, d)
      | Some latest \<Rightarrow>
          let seen = (\<exists>e \<in> set (db_events d). reservation_event jid rid e \<and> ce_actual e \<noteq> None
                        \<and> \<not> json_flag (ce_metadata e) inferred_key)
          in (1, d\<lparr>db_events := update_where (\<lambda>e. ce_id e = ce_id latest)
                 (\<lambda>e. e\<lparr>ce_estimated := Some est,
                        ce_actual := (if seen then ce_actual e else act),
                        ce_metadata := (if seen then ce_metadata e
                                        else (ce_metadata e)(inferred_key \<mapsto> JBool True)),
                        ce_status := status\<rparr>) (db_events d)\<rparr>))"

definition insertFinalizerCostEvent ::
    "db \<Rightarrow> string \<Rightarrow> string \<Rightarrow> string \<Rightarrow> string option \<Rightarrow> amount \<Rightarrow> amount option \<Rightarrow> string \<Rightarrow> error + db" where
  "insertFinalizerCostEvent d eid ten jid rid est act status =
     (case insert_row ce_id \<lparr>ce_id = eid, ce_tenant_id = ten, ce_job_id = Some jid,
             ce_asset_id = None, ce_reservation_id = rid, ce_token_id = None,
             ce_provider_id = None, ce_model_id = None, ce_attempt_id = None,
             ce_operation = ''text_to_image'', ce_estimated = Some est, ce_actual = act,
             ce_duration_ms = None, ce_status = status,
             ce_metadata = [''billable_operation'' \<mapsto> JStr ''finalizer'', inferred_key \<mapsto> JBool True],
             ce_created_at = db_now d\<rparr> (db_events d) of
        Inl e \<Rightarrow> Inl e
      | Inr es \<Rightarrow> Inr (d\<lparr>db_events := es\<rparr>))"

definition finalizeCostEvent ::
    "db \<Rightarrow> string \<Rightarrow> string \<Rightarrow> string \<Rightarrow> string \<Rightarrow> amount \<Rightarrow> amount option \<Rightarrow> string \<Rightarrow> error + db" where
  "finalizeCostEvent d eid jid rid ten est act status =
     (case updateLatestJobCostEvent d est act status jid (strPtr rid) of
        (n, d') \<Rightarrow> if n > 0 then Inr d'
                   else insertFinalizerCostEvent d eid ten jid (strPtr rid) est act status)"

text \<open>
  \<open>finalizeInTxForReservation\<close>: \<open>rid = ''\<close> selects the job's linked reservation, as the
  in-transaction callers do; a worker passes the reservation of its task.
\<close>

definition finalizeInTxForReservation ::
    "db \<Rightarrow> string \<Rightarrow> reservation_status \<Rightarrow> string \<Rightarrow> string \<Rightarrow> string \<Rightarrow> error + db" where
  "finalizeInTxForReservation d jid target rid lid eid =
     (if target \<noteq> Committed \<and> target \<noteq> Released then Inl (ErrOther ''cost: invalid finalize target'')
      else
        (case finalizeReservation d jid rid target of
           Inl e \<Rightarrow> Inl e
         | Inr None \<Rightarrow> Inr d
         | Inr (Some (r, d1)) \<Rightarrow>
             (let charged = (if target = Committed \<or> rv_actual r \<noteq> None then rv_actual r else None);
                  d2 = settleHolds charged target (listReservedBudgetHolds d1 (rv_id r)) d1;
                  status = (if target = Committed then ''succeeded'' else ''failed'')
              in case charged of
                   None \<Rightarrow> finalizeCostEvent d2 eid jid (rv_id r) (rv_tenant_id r) (rv_estimated r) None status
                 | Some a \<Rightarrow>
                     (case upsertIdentityCostLedgerForJob
                             (if rv_id r \<noteq> ''''
                              then setGenerationJobActualCostForReservation d2 (Some a) jid (rv_id r)
                              else d2\<lparr>db_jobs := update_where (\<lambda>j. jb_id j = jid)
                                     (\<lambda>j. j\<lparr>jb_actual_cost := Some a\<rparr>) (db_jobs d2)\<rparr>)
                             lid (rv_estimated r) a (rv_currency r) jid of
                        Inl e \<Rightarrow> Inl e
                      | Inr d3 \<Rightarrow>
                          finalizeCostEvent d3 eid jid (rv_id r) (rv_tenant_id r) (rv_estimated r)
                            (Some a) status))))"

text \<open>The four entry points of the \<open>Lifecycle\<close>.\<close>

definition commitInTx :: "db \<Rightarrow> string \<Rightarrow> string \<Rightarrow> string \<Rightarrow> error + db" where
  "commitInTx d jid lid eid = finalizeInTxForReservation d jid Committed '''' lid eid"

definition releaseInTx :: "db \<Rightarrow> string \<Rightarrow> string \<Rightarrow> string \<Rightarrow> error + db" where
  "releaseInTx d jid lid eid = finalizeInTxForReservation d jid Released '''' lid eid"

definition commitForReservation :: "db \<Rightarrow> string \<Rightarrow> string \<Rightarrow> string \<Rightarrow> string \<Rightarrow> error + db" where
  "commitForReservation d jid rid lid eid = finalizeInTxForReservation d jid Committed rid lid eid"

definition releaseForReservation :: "db \<Rightarrow> string \<Rightarrow> string \<Rightarrow> string \<Rightarrow> string \<Rightarrow> error + db" where
  "releaseForReservation d jid rid lid eid = finalizeInTxForReservation d jid Released rid lid eid"

section \<open>Late reconciliation\<close>

definition terminal_reservation :: "cost_reservation \<Rightarrow> bool" where
  "terminal_reservation r \<longleftrightarrow> rv_status r = Committed \<or> rv_status r = Released"

definition getTerminalReservationForReconciliation :: "db \<Rightarrow> string \<Rightarrow> string \<Rightarrow> cost_reservation option" where
  "getTerminalReservationForReconciliation d rid jid =
     find (\<lambda>r. rv_id r = rid \<and> rv_job_id r = jid \<and> terminal_reservation r) (db_reservations d)"

definition reconcileReservationActual :: "db \<Rightarrow> string \<Rightarrow> string \<Rightarrow> amount \<Rightarrow> amount option \<Rightarrow> error + amount \<times> db" where
  "reconcileReservationActual d rid jid act prev =
     (case numeric14_4 (act - (case prev of None \<Rightarrow> 0 | Some p \<Rightarrow> p)) of
        Inl e \<Rightarrow> Inl e
      | Inr delta \<Rightarrow> Inr (delta,
          d\<lparr>db_reservations := update_where
              (\<lambda>r. rv_id r = rid \<and> rv_job_id r = jid \<and> terminal_reservation r)
              (\<lambda>r. r\<lparr>rv_actual := Some act\<rparr>) (db_reservations d)\<rparr>))"

definition listFinalizedBudgetHolds :: "db \<Rightarrow> string \<Rightarrow> budget_hold list" where
  "listFinalizedBudgetHolds d rid =
     filter (\<lambda>h. ho_reservation_id h = rid \<and> (ho_status h = Committed \<or> ho_status h = Released)) (db_holds d)"

definition adjustBudgetSpent :: "db \<Rightarrow> amount \<Rightarrow> string \<Rightarrow> db" where
  "adjustBudgetSpent d delta i =
     d\<lparr>db_budgets := update_where (\<lambda>b. bg_id b = i)
         (\<lambda>b. b\<lparr>bg_spent := max (bg_spent b + delta) 0\<rparr>) (db_budgets d)\<rparr>"

fun adjustHolds :: "amount \<Rightarrow> budget_hold list \<Rightarrow> db \<Rightarrow> db" where
  "adjustHolds delta [] d = d"
| "adjustHolds delta (h # hs) d = adjustHolds delta hs (adjustBudgetSpent d delta (ho_budget_id h))"

definition reconcileForReservation :: "db \<Rightarrow> string \<Rightarrow> string \<Rightarrow> string \<Rightarrow> error + db" where
  "reconcileForReservation d jid rid lid =
     (case getTerminalReservationForReconciliation d rid jid of
        None \<Rightarrow> Inr d
      | Some r \<Rightarrow>
          (case sumReportedReservationActual d rid jid of
             Inl e \<Rightarrow> Inl e
           | Inr None \<Rightarrow> Inr d
           | Inr (Some reported) \<Rightarrow>
               (case reconcileReservationActual d rid jid reported (rv_actual r) of
                  Inl e \<Rightarrow> Inl e
                | Inr (delta, d1) \<Rightarrow>
                    let d2 = setGenerationJobActualCostForReservation d1 (Some reported) jid rid
                    in if delta \<noteq> 0
                       then upsertIdentityCostLedgerActualForJob
                              (adjustHolds delta (listFinalizedBudgetHolds d2 rid) d2)
                              lid delta (rv_currency r) jid
                       else Inr d2)))"

lemmas [query_defs] = resetBudgetPeriodIfElapsed_def reserveActiveBudget_def reservePausedBudget_def
  commitBudgetHold_def releaseBudgetHold_def markBudgetHoldStatus_def adjustBudgetSpent_def
  setGenerationJobActualCostForReservation_def

end
