(* ===== verification/Assets.thy ===== *)
theory Assets
  imports Cost
begin

text \<open>
  Visual assets, \<open>internal/assets/repository.go\<close> and \<open>internal/assets/supersede.go\<close>: inserting
  a final or preview asset, the exact-reuse lookups, and the forced regeneration that makes a
  new asset the single ready row of its reuse slot. The columns that only carry data through
  (URLs, seed, provider, metadata, sprite crops) are not part of the row; the others are.
\<close>

section \<open>Inserting\<close>

record asset_params =
  ap_id :: string
  ap_tenant_id :: string
  ap_world_id :: string
  ap_visual_identity_id :: "string option"
  ap_asset_type :: string
  ap_variant_key :: string
  ap_variant_family :: "string option"
  ap_compatibility_tags :: "string list"
  ap_fallback_allowed :: bool
  ap_fallback_rank :: "int option"
  ap_style_profile_id :: "string option"
  ap_style_profile_version :: "int option"
  ap_quality_tier :: string
  ap_prompt_hash :: "string option"
  ap_generation_job_id :: "string option"
  ap_version :: int

text \<open>
  The two insert statements differ in the status literal. \<open>state_version\<close> is not among their
  columns, so the row gets the column default 1; so do \<open>is_identity_anchor\<close> (false) and
  \<open>superseded_by_asset_id\<close> (null).
\<close>

definition new_asset :: "asset_status \<Rightarrow> asset_params \<Rightarrow> int \<Rightarrow> visual_asset" where
  "new_asset s p v =
     \<lparr>va_id = ap_id p, va_tenant_id = ap_tenant_id p, va_world_id = ap_world_id p,
      va_visual_identity_id = ap_visual_identity_id p, va_asset_type = ap_asset_type p,
      va_variant_key = ap_variant_key p, va_variant_family = ap_variant_family p,
      va_version = v, va_state_version = 1, va_style_profile_id = ap_style_profile_id p,
      va_style_profile_version = ap_style_profile_version p, va_quality_tier = ap_quality_tier p,
      va_status = s, va_compatibility_tags = ap_compatibility_tags p,
      va_fallback_allowed = ap_fallback_allowed p, va_fallback_rank = ap_fallback_rank p,
      va_is_identity_anchor = False, va_prompt_hash = ap_prompt_hash p,
      va_generation_job_id = ap_generation_job_id p, va_superseded_by = None\<rparr>"

definition insertAssetRow :: "db \<Rightarrow> visual_asset \<Rightarrow> error + visual_asset \<times> db" where
  "insertAssetRow d a =
     (case insert_row va_id a (db_assets d) of
        Inl e \<Rightarrow> Inl e
      | Inr as \<Rightarrow> Inr (a, d\<lparr>db_assets := as\<rparr>))"

definition insertVisualAsset :: "db \<Rightarrow> asset_params \<Rightarrow> int \<Rightarrow> error + visual_asset \<times> db" where
  "insertVisualAsset d p v = insertAssetRow d (new_asset Ready p v)"

definition insertPreviewVisualAsset :: "db \<Rightarrow> asset_params \<Rightarrow> int \<Rightarrow> error + visual_asset \<times> db" where
  "insertPreviewVisualAsset d p v = insertAssetRow d (new_asset Asset_preview_ready p v)"

definition insertWithQueries :: "db \<Rightarrow> asset_params \<Rightarrow> error + visual_asset \<times> db" where
  "insertWithQueries d p = insertVisualAsset d p (if ap_version p = 0 then 1 else ap_version p)"

definition insertPreviewWithQueries :: "db \<Rightarrow> asset_params \<Rightarrow> error + visual_asset \<times> db" where
  "insertPreviewWithQueries d p = insertPreviewVisualAsset d p (if ap_version p = 0 then 1 else ap_version p)"

section \<open>Slots and their lock keys\<close>

record artifact_slot =
  as_tenant_id :: string
  as_world_id :: string
  as_style_profile_id :: string
  as_quality_tier :: string
  as_prompt_hash :: string

record variant_slot =
  vs_tenant_id :: string
  vs_world_id :: string
  vs_visual_identity_id :: string
  vs_variant_key :: string
  vs_state_version :: int
  vs_style_profile_id :: string
  vs_quality_tier :: string

abbreviation slotKeySep :: char where
  "slotKeySep \<equiv> CHR 0x1F"

text \<open>\<open>strings.Join\<close>.\<close>

fun join :: "char \<Rightarrow> string list \<Rightarrow> string" where
  "join c [] = []"
| "join c [s] = s"
| "join c (s # t # ss) = s @ [c] @ join c (t # ss)"

text \<open>The loop of \<open>itoa\<close>: digits are written from the end of the buffer.\<close>

fun itoa_loop :: "nat \<Rightarrow> string \<Rightarrow> string" where
  "itoa_loop v buf = (if v > 0 then itoa_loop (v div 10) (char_of (48 + v mod 10) # buf) else buf)"

declare itoa_loop.simps [simp del]

definition itoa :: "int \<Rightarrow> string" where
  "itoa n =
     (if n = 0 then ''0''
      else let neg = n < 0; v = (if neg then - n else n); buf = itoa_loop (nat v) []
           in if neg then CHR ''-'' # buf else buf)"

definition artifactLockKey :: "artifact_slot \<Rightarrow> string" where
  "artifactLockKey s =
     join slotKeySep [''artifact'', as_tenant_id s, as_world_id s, ''default'',
       as_style_profile_id s, as_quality_tier s, as_prompt_hash s]"

definition variantLockKey :: "variant_slot \<Rightarrow> string" where
  "variantLockKey s =
     join slotKeySep [''packrole'', vs_tenant_id s, vs_world_id s, vs_visual_identity_id s,
       vs_variant_key s, itoa (vs_state_version s), vs_style_profile_id s, vs_quality_tier s]"

section \<open>Supersede and insert\<close>

text \<open>A 32-bit signed addition.\<close>

definition int32 :: "int \<Rightarrow> int" where
  "int32 x = (x + 2 ^ 31) mod 2 ^ 32 - 2 ^ 31"

definition in_artifact_slot :: "artifact_slot \<Rightarrow> visual_asset \<Rightarrow> bool" where
  "in_artifact_slot s a \<longleftrightarrow>
     va_tenant_id a = as_tenant_id s \<and> va_world_id a = as_world_id s
     \<and> va_asset_type a = ''artifact'' \<and> va_variant_key a = ''default''
     \<and> sql_eq (va_style_profile_id a) (strPtr (as_style_profile_id s))
     \<and> va_quality_tier a = as_quality_tier s
     \<and> sql_eq (va_prompt_hash a) (strPtr (as_prompt_hash s))"

definition in_variant_slot :: "variant_slot \<Rightarrow> visual_asset \<Rightarrow> bool" where
  "in_variant_slot s a \<longleftrightarrow>
     va_tenant_id a = vs_tenant_id s \<and> va_world_id a = vs_world_id s
     \<and> sql_eq (va_visual_identity_id a) (strPtr (vs_visual_identity_id s))
     \<and> va_variant_key a = vs_variant_key s \<and> va_state_version a = vs_state_version s
     \<and> sql_eq (va_style_profile_id a) (strPtr (vs_style_profile_id s))
     \<and> va_quality_tier a = vs_quality_tier s"

definition max_version :: "(visual_asset \<Rightarrow> bool) \<Rightarrow> db \<Rightarrow> int" where
  "max_version P d =
     (case map va_version (filter P (db_assets d)) of [] \<Rightarrow> 0 | v # vs \<Rightarrow> foldl max v vs)"

definition maxVersionForArtifactSlot :: "db \<Rightarrow> artifact_slot \<Rightarrow> int" where
  "maxVersionForArtifactSlot d s = max_version (in_artifact_slot s) d"

definition maxVersionForVariantSlot :: "db \<Rightarrow> variant_slot \<Rightarrow> int" where
  "maxVersionForVariantSlot d s = max_version (in_variant_slot s) d"

definition archive_prior :: "(visual_asset \<Rightarrow> bool) \<Rightarrow> db \<Rightarrow> string \<Rightarrow> db" where
  "archive_prior P d new =
     d\<lparr>db_assets := update_where (\<lambda>a. P a \<and> va_status a = Ready \<and> va_id a \<noteq> new)
         (\<lambda>a. a\<lparr>va_status := Archived, va_superseded_by := Some new\<rparr>) (db_assets d)\<rparr>"

definition archivePriorReadyArtifactSlot :: "db \<Rightarrow> artifact_slot \<Rightarrow> string \<Rightarrow> db" where
  "archivePriorReadyArtifactSlot d s new = archive_prior (in_artifact_slot s) d new"

definition archivePriorReadyVariantSlot :: "db \<Rightarrow> variant_slot \<Rightarrow> string \<Rightarrow> db" where
  "archivePriorReadyVariantSlot d s new = archive_prior (in_variant_slot s) d new"

text \<open>The advisory lock on \<open>artifactLockKey\<close> is the atomicity of the function.\<close>

definition supersedeArtifactSlot :: "db \<Rightarrow> asset_params \<Rightarrow> artifact_slot \<Rightarrow> error + visual_asset \<times> db" where
  "supersedeArtifactSlot d p s =
     (case insertWithQueries d (p\<lparr>ap_version := int32 (maxVersionForArtifactSlot d s + 1)\<rparr>) of
        Inl e \<Rightarrow> Inl e
      | Inr (a, d') \<Rightarrow> Inr (a, archivePriorReadyArtifactSlot d' s (va_id a)))"

definition supersedeVariantSlotWithQueries ::
    "db \<Rightarrow> asset_params \<Rightarrow> variant_slot \<Rightarrow> error + visual_asset \<times> db" where
  "supersedeVariantSlotWithQueries d p s =
     (case insertWithQueries d (p\<lparr>ap_version := int32 (maxVersionForVariantSlot d s + 1)\<rparr>) of
        Inl e \<Rightarrow> Inl e
      | Inr (a, d') \<Rightarrow> Inr (a, archivePriorReadyVariantSlot d' s (va_id a)))"

section \<open>Exact reuse\<close>

record artifact_lookup =
  lk_tenant_id :: string
  lk_world_id :: string
  lk_style_profile_id :: string
  lk_style_profile_version :: "int option"
  lk_quality_tier :: string
  lk_prompt_hash :: string

text \<open>
  \<open>ORDER BY ... LIMIT 1\<close>: the first row in an order. \<open>coll\<close> is the collation order of the
  database on identifiers.
\<close>

type_synonym collation = "string \<Rightarrow> string \<Rightarrow> bool"

fun first_by :: "('a \<Rightarrow> 'a \<Rightarrow> bool) \<Rightarrow> 'a list \<Rightarrow> 'a option" where
  "first_by le [] = None"
| "first_by le (x # xs) =
     (case first_by le xs of None \<Rightarrow> Some x | Some y \<Rightarrow> Some (if le x y then x else y))"

definition findReadyArtifactByPromptHash :: "collation \<Rightarrow> db \<Rightarrow> artifact_lookup \<Rightarrow> error + visual_asset" where
  "findReadyArtifactByPromptHash coll d q =
     (if lk_tenant_id q = '''' then Inl ErrNoTenant
      else
        (case first_by (\<lambda>a b. coll (va_id a) (va_id b))
                (filter (\<lambda>a. in_artifact_slot \<lparr>as_tenant_id = lk_tenant_id q, as_world_id = lk_world_id q,
                     as_style_profile_id = lk_style_profile_id q, as_quality_tier = lk_quality_tier q,
                     as_prompt_hash = lk_prompt_hash q\<rparr> a
                   \<and> va_status a = Ready
                   \<and> (case lk_style_profile_version q of None \<Rightarrow> True
                      | Some v \<Rightarrow> va_style_profile_version a = Some v)) (db_assets d)) of
           None \<Rightarrow> Inl ErrNotFound
         | Some a \<Rightarrow> Inr a))"

definition findReadyGenerationByPromptHash :: "collation \<Rightarrow> db \<Rightarrow> string \<Rightarrow> string \<Rightarrow> error + visual_asset" where
  "findReadyGenerationByPromptHash coll d ten h =
     (if ten = '''' then Inl ErrNoTenant
      else
        (case first_by (\<lambda>a b. va_version a > va_version b
                          \<or> va_version a = va_version b \<and> coll (va_id a) (va_id b))
                (filter (\<lambda>a. va_tenant_id a = ten \<and> va_asset_type a = ''artifact''
                   \<and> va_variant_key a = ''default'' \<and> sql_eq (va_prompt_hash a) (strPtr h)
                   \<and> va_status a = Ready) (db_assets d)) of
           None \<Rightarrow> Inl ErrNotFound
         | Some a \<Rightarrow> Inr a))"

section \<open>What superseding guarantees\<close>

lemma first_by_None [simp]: "first_by le xs = None \<longleftrightarrow> xs = []"
  by (cases xs) (auto split: option.splits)

lemma first_by_SomeD: "first_by le xs = Some x \<Longrightarrow> x \<in> set xs"
  by (induction xs arbitrary: x) (auto split: option.splits if_splits)

lemma foldl_max_ge: "(x :: int) \<in> set (v # vs) \<Longrightarrow> x \<le> foldl max v vs"
proof (induction vs arbitrary: v x)
  case (Cons w vs)
  have "max v w \<le> foldl max (max v w) vs" by (rule Cons.IH) simp
  with Cons show ?case by auto
qed simp

lemma foldl_max_in: "foldl max v vs \<in> set (v # vs)" for v :: int
proof (induction vs arbitrary: v)
  case (Cons w vs)
  from Cons [of "max v w"] show ?case by (auto simp: max_def split: if_splits)
qed simp

lemma max_version_ge: "a \<in> set (db_assets d) \<Longrightarrow> P a \<Longrightarrow> va_version a \<le> max_version P d"
proof -
  assume a: "a \<in> set (db_assets d)" "P a"
  then have m: "va_version a \<in> set (map va_version (filter P (db_assets d)))" by simp
  then obtain v vs where vs: "map va_version (filter P (db_assets d)) = v # vs"
    by (cases "map va_version (filter P (db_assets d))") auto
  have "va_version a \<in> set (v # vs)" using m by (simp only: vs)
  from foldl_max_ge [OF this] show ?thesis by (simp add: max_version_def vs)
qed

lemma max_version_attained:
  "max_version P d = 0 \<or> (\<exists>a \<in> set (db_assets d). P a \<and> va_version a = max_version P d)"
proof (cases "map va_version (filter P (db_assets d))")
  case (Cons v vs)
  have "max_version P d \<in> set (map va_version (filter P (db_assets d)))"
    using foldl_max_in [of v vs] unfolding max_version_def by (simp only: Cons list.case)
  then show ?thesis by auto
qed (simp add: max_version_def)

lemma int32_id: "- (2 ^ 31) \<le> x \<Longrightarrow> x < 2 ^ 31 \<Longrightarrow> int32 x = x"
  by (simp add: int32_def)

lemma insertWithQueries_InrD:
  assumes "insertWithQueries d p = Inr (a, d')"
  shows "a = new_asset Ready p (if ap_version p = 0 then 1 else ap_version p)"
    "va_id a \<notin> va_id ` set (db_assets d)" "d' = d\<lparr>db_assets := db_assets d @ [a]\<rparr>"
  using assms by (auto simp: insertWithQueries_def insertVisualAsset_def insertAssetRow_def split: sum.splits)

text \<open>
  A reuse slot is a predicate on rows that looks neither at the status, the version nor the
  forward link: archiving a row or versioning it leaves it in its slot. On any such slot,
  inserting a ready row and archiving the others leaves the new row as the only ready one.
\<close>

locale reuse_slot =
  fixes in_slot :: "visual_asset \<Rightarrow> bool"
  assumes status_free: "in_slot (a\<lparr>va_status := s, va_superseded_by := n\<rparr>) = in_slot a"
    and version_free: "in_slot (a\<lparr>va_version := v\<rparr>) = in_slot a"
begin

lemma sole_ready:
  assumes fresh: "va_id a \<notin> va_id ` set (db_assets d)" and a: "in_slot a" "va_status a = Ready"
    and d1: "d1 = d\<lparr>db_assets := db_assets d @ [a]\<rparr>"
  shows "filter (\<lambda>x. in_slot x \<and> va_status x = Ready) (db_assets (archive_prior in_slot d1 (va_id a))) = [a]"
proof -
  have "filter (\<lambda>x. in_slot x \<and> va_status x = Ready)
      (update_where (\<lambda>x. in_slot x \<and> va_status x = Ready \<and> va_id x \<noteq> va_id a)
        (\<lambda>x. x\<lparr>va_status := Archived, va_superseded_by := Some (va_id a)\<rparr>) xs) = []"
    if "va_id a \<notin> va_id ` set xs" for xs
    using that by (induction xs) (auto simp: status_free)
  from this [OF fresh] a show ?thesis
    by (simp add: archive_prior_def d1 update_where_def)
qed

lemma archived_forward:
  assumes fresh: "va_id a \<notin> va_id ` set (db_assets d)" and x: "x \<in> set (db_assets d)" "in_slot x" "va_status x = Ready"
    and d1: "d1 = d\<lparr>db_assets := db_assets d @ [a]\<rparr>"
  shows "x\<lparr>va_status := Archived, va_superseded_by := Some (va_id a)\<rparr> \<in> set (db_assets (archive_prior in_slot d1 (va_id a)))"
proof -
  have "va_id x \<noteq> va_id a" using fresh x(1) by (metis image_eqI)
  with x show ?thesis
    by (auto simp: archive_prior_def d1 set_update_where intro!: image_eqI [of _ _ x])
qed

lemma neighbours_kept:
  assumes "x \<in> set (db_assets d)" "\<not> (in_slot x \<and> va_status x = Ready)" "d1 = d\<lparr>db_assets := db_assets d @ [a]\<rparr>"
  shows "x \<in> set (db_assets (archive_prior in_slot d1 (va_id a)))"
  using assms by (auto simp: archive_prior_def set_update_where intro!: image_eqI [of _ _ x])

lemma next_version_greater:
  assumes "x \<in> set (db_assets d)" "in_slot x" "max_version in_slot d < 2 ^ 31 - 1" "0 \<le> max_version in_slot d"
  shows "va_version x < int32 (max_version in_slot d + 1)"
  using max_version_ge [of x d in_slot] assms int32_id [of "max_version in_slot d + 1"] by simp

end

interpretation artifact: reuse_slot "in_artifact_slot s" for s
  by unfold_locales (simp_all add: in_artifact_slot_def)

interpretation variant: reuse_slot "in_variant_slot s" for s
  by unfold_locales (simp_all add: in_variant_slot_def)


lemmas supersede_defs = supersedeArtifactSlot_def supersedeVariantSlotWithQueries_def
  archivePriorReadyArtifactSlot_def archivePriorReadyVariantSlot_def
  maxVersionForArtifactSlot_def maxVersionForVariantSlot_def

lemma supersedeArtifactSlot_InrD:
  assumes "supersedeArtifactSlot d p s = Inr (a, d')"
  shows "va_id a \<notin> va_id ` set (db_assets d)" "va_status a = Ready" "va_id a = ap_id p"
    "d' = archive_prior (in_artifact_slot s) (d\<lparr>db_assets := db_assets d @ [a]\<rparr>) (va_id a)"
    "va_version a = (let v = int32 (max_version (in_artifact_slot s) d + 1) in if v = 0 then 1 else v)"
    "in_artifact_slot s a = in_artifact_slot s (new_asset Ready p 1)"
  using assms insertWithQueries_InrD
  by (fastforce simp: supersede_defs new_asset_def in_artifact_slot_def split: sum.splits prod.splits)+

lemma supersedeVariantSlot_InrD:
  assumes "supersedeVariantSlotWithQueries d p s = Inr (a, d')"
  shows "va_id a \<notin> va_id ` set (db_assets d)" "va_status a = Ready" "va_id a = ap_id p"
    "d' = archive_prior (in_variant_slot s) (d\<lparr>db_assets := db_assets d @ [a]\<rparr>) (va_id a)"
    "va_version a = (let v = int32 (max_version (in_variant_slot s) d + 1) in if v = 0 then 1 else v)"
    "in_variant_slot s a = in_variant_slot s (new_asset Ready p 1)"
  using assms insertWithQueries_InrD
  by (fastforce simp: supersede_defs new_asset_def in_variant_slot_def split: sum.splits prod.splits)+

section \<open>Lock keys\<close>

lemma itoa_loop_acc: "itoa_loop v buf = itoa_loop v [] @ buf"
proof (induction v arbitrary: buf rule: less_induct)
  case (less v)
  show ?case
  proof (cases "v > 0")
    case True
    then have "v div 10 < v" by simp
    note ih = less [OF this, of "char_of (48 + v mod 10) # buf"] less [OF this, of "[char_of (48 + v mod 10)]"]
    have "itoa_loop v b = itoa_loop (v div 10) (char_of (48 + v mod 10) # b)" for b
      using True by (subst itoa_loop.simps) simp
    with ih show ?thesis by simp
  qed (simp add: itoa_loop.simps)
qed

lemma itoa_loop_show_nat: "v > 0 \<Longrightarrow> itoa_loop v [] = show_nat v"
proof (induction v rule: less_induct)
  case (less v)
  show ?case
  proof (cases "v < 10")
    case True
    with less.prems show ?thesis by (simp add: itoa_loop.simps show_nat.simps)
  next
    case False
    then have "v div 10 < v" "v div 10 > 0" by auto
    then have "itoa_loop (v div 10) [] = show_nat (v div 10)" by (rule less.IH)
    then show ?thesis
      using False itoa_loop_acc [of "v div 10" "[char_of (48 + v mod 10)]"]
      by (subst itoa_loop.simps, subst show_nat.simps) simp
  qed
qed

lemma sep_append:
  assumes "s @ c # x = u @ c # y" "c \<notin> set s" "c \<notin> set u"
  shows "s = u \<and> x = y"
  using assms
proof (induction s arbitrary: u)
  case Nil
  then show ?case by (cases u) auto
next
  case (Cons a s)
  then obtain u' where "u = a # u'" by (cases u) auto
  with Cons show ?case by auto
qed

lemma join_inj:
  assumes "join c ss = join c ts" "length ss = length ts" "\<forall>s \<in> set ss \<union> set ts. c \<notin> set s"
  shows "ss = ts"
  using assms
proof (induction c ss arbitrary: ts rule: join.induct)
  case (2 c s)
  then show ?case by (cases ts) auto
next
  case (3 c s t ss)
  then obtain u v ts' where ts: "ts = u # v # ts'"
    by (cases ts; cases "tl ts") auto
  from 3 ts have "s @ c # join c (t # ss) = u @ c # join c (v # ts')" by simp
  moreover have "c \<notin> set s" "c \<notin> set u" using 3 ts by auto
  ultimately have "s = u \<and> join c (t # ss) = join c (v # ts')"
    by (rule sep_append)
  with 3 ts show ?case by auto
qed simp


definition is_digit :: "char \<Rightarrow> bool" where
  "is_digit c \<longleftrightarrow> 48 \<le> (of_char c :: nat) \<and> (of_char c :: nat) \<le> 57"

lemma of_char_digit: "k < 10 \<Longrightarrow> (of_char (char_of (48 + k :: nat) :: char) :: nat) = 48 + k"
  by (simp add: of_char_of)

lemma show_nat_digits: "c \<in> set (show_nat n) \<Longrightarrow> is_digit c"
proof (induction n rule: less_induct)
  case (less n)
  have last: "is_digit (char_of (48 + n mod 10))"
    using of_char_digit [of "n mod 10"] by (simp add: is_digit_def)
  show ?case
  proof (cases "n < 10")
    case True
    with less.prems last show ?thesis by (simp add: show_nat.simps)
  next
    case False
    with less.prems have "c \<in> set (show_nat (n div 10)) \<or> c = char_of (48 + n mod 10)"
      by (auto simp: show_nat.simps [of n])
    with last less.IH [of "n div 10"] False show ?thesis by auto
  qed
qed

lemma digit_inj: "k < 10 \<Longrightarrow> l < 10 \<Longrightarrow> (char_of (48 + k) :: char) = char_of (48 + l) \<Longrightarrow> k = (l :: nat)"
  using of_char_digit [of k] of_char_digit [of l] by simp

lemma show_nat_inj: "show_nat m = show_nat n \<Longrightarrow> m = n"
proof (induction m arbitrary: n rule: less_induct)
  case (less m)
  have len: "show_nat k \<noteq> []" for k by (subst show_nat.simps) simp
  consider "m < 10" "n < 10" | "m < 10" "\<not> n < 10" | "\<not> m < 10" "n < 10" | "\<not> m < 10" "\<not> n < 10" by blast
  then show ?case
  proof cases
    case 1
    with less.prems show ?thesis using digit_inj [of m n] by (simp add: show_nat.simps)
  next
    case 2
    with less.prems len [of "n div 10"] show ?thesis
      by (simp add: show_nat.simps [of m] show_nat.simps [of n])
  next
    case 3
    with less.prems len [of "m div 10"] show ?thesis
      by (simp add: show_nat.simps [of m] show_nat.simps [of n])
  next
    case 4
    with less.prems have "show_nat (m div 10) = show_nat (n div 10)"
      "(char_of (48 + m mod 10) :: char) = char_of (48 + n mod 10)"
      by (simp_all add: show_nat.simps [of m] show_nat.simps [of n])
    with less.IH [of "m div 10" "n div 10"] 4 digit_inj [of "m mod 10" "n mod 10"]
    have "m div 10 = n div 10" "m mod 10 = n mod 10" by auto
    then show ?thesis by (metis div_mult_mod_eq)
  qed
qed

lemma itoa_eq: "itoa n = (if n < 0 then ''-'' else '''') @ show_nat (nat \<bar>n\<bar>)"
proof (cases "n = 0")
  case True
  have "(char_of (48 :: nat) :: char) = CHR ''0''" by code_simp
  with True show ?thesis by (simp add: itoa_def show_nat.simps)
next
  case False
  then have "nat \<bar>n\<bar> > 0" by simp
  from itoa_loop_show_nat [OF this] False show ?thesis by (auto simp: itoa_def Let_def abs_if)
qed

lemma itoa_chars: "c \<in> set (itoa n) \<Longrightarrow> c = CHR ''-'' \<or> is_digit c"
  using show_nat_digits [of c "nat \<bar>n\<bar>"] by (auto simp: itoa_eq split: if_splits)

lemma itoa_inj:
  assumes "itoa m = itoa n"
  shows "m = n"
proof -
  have no: "show_nat k \<noteq> CHR ''-'' # s" for k s
    using show_nat_digits [of "CHR ''-''" k] by (auto simp: is_digit_def)
  have "(m < 0) = (n < 0)"
    using assms no [of "nat \<bar>m\<bar>" "show_nat (nat \<bar>n\<bar>)"] no [of "nat \<bar>n\<bar>" "show_nat (nat \<bar>m\<bar>)"]
    by (cases "m < 0"; cases "n < 0") (simp_all add: itoa_eq)
  with assms have "show_nat (nat \<bar>m\<bar>) = show_nat (nat \<bar>n\<bar>)" by (simp add: itoa_eq)
  then have "nat \<bar>m\<bar> = nat \<bar>n\<bar>" by (rule show_nat_inj)
  with \<open>(m < 0) = (n < 0)\<close> show ?thesis by auto
qed

section \<open>Reading a number back\<close>

text \<open>\<open>itoa\<close> is the decimal notation and a 32-bit value fits the twelve bytes of its buffer.\<close>

fun read_digits :: "nat \<Rightarrow> string \<Rightarrow> nat" where
  "read_digits n [] = n"
| "read_digits n (c # cs) = read_digits (10 * n + (of_char c - 48)) cs"

fun read_int :: "string \<Rightarrow> int" where
  "read_int [] = 0"
| "read_int (c # cs) = (if c = CHR ''-'' then - int (read_digits 0 cs) else int (read_digits 0 (c # cs)))"

lemma read_digits_append: "read_digits n (xs @ [c]) = 10 * read_digits n xs + (of_char c - 48)"
  by (induction n xs rule: read_digits.induct) auto

lemma read_show_nat: "read_digits 0 (show_nat n) = n"
proof (induction n rule: show_nat.induct)
  case (1 n)
  then show ?case
    using of_char_digit [of n] of_char_digit [of "n mod 10"] by (subst show_nat.simps) (auto simp: read_digits_append)
qed

lemma show_nat_length: "n < 10 ^ k \<Longrightarrow> k > 0 \<Longrightarrow> length (show_nat n) \<le> k"
proof (induction k arbitrary: n)
  case (Suc k)
  show ?case
  proof (cases "n < 10")
    case False
    with Suc.prems have "n div 10 < 10 ^ k" "k > 0" by (auto intro: gr0I)
    from Suc.IH [OF this] False show ?thesis by (subst show_nat.simps) simp
  qed (subst show_nat.simps, simp)
qed simp

lemma itoa_decimal:
  "read_int (itoa n) = n \<and> (- (2 ^ 31) \<le> n \<and> n < 2 ^ 31 \<longrightarrow> length (itoa n) \<le> 12)"
proof -
  have ne: "show_nat k \<noteq> []" for k by (subst show_nat.simps) simp
  have "c \<noteq> CHR ''-''" if "show_nat k = c # cs" for k c cs
    using show_nat_digits [of c k] that by (auto simp: is_digit_def)
  with ne have "read_int (show_nat k) = int (read_digits 0 (show_nat k))" for k
    by (cases "show_nat k") auto
  then have "read_int (itoa n) = n" by (simp add: itoa_eq read_show_nat)
  moreover have "length (itoa n) \<le> 12" if "- (2 ^ 31) \<le> n \<and> n < 2 ^ 31"
  proof -
    have "nat \<bar>n\<bar> < 10 ^ 10" using that by auto
    then have "length (show_nat (nat \<bar>n\<bar>)) \<le> 10" by (rule show_nat_length) simp
    then show ?thesis by (auto simp: itoa_eq abs_if split: if_splits)
  qed
  ultimately show ?thesis by blast
qed

text \<open>
  Two forced regenerations take the same advisory lock exactly when they target the same slot, as
  long as no component contains the unit separator; an artifact key is never a variant key.
\<close>

lemma lock_keys_injective:
  assumes "\<forall>x \<in> {as_tenant_id a, as_world_id a, as_style_profile_id a, as_quality_tier a, as_prompt_hash a,
      as_tenant_id b, as_world_id b, as_style_profile_id b, as_quality_tier b, as_prompt_hash b}. slotKeySep \<notin> set x"
    and "\<forall>x \<in> {vs_tenant_id v, vs_world_id v, vs_visual_identity_id v, vs_variant_key v, vs_style_profile_id v, vs_quality_tier v,
      vs_tenant_id w, vs_world_id w, vs_visual_identity_id w, vs_variant_key w, vs_style_profile_id w, vs_quality_tier w}. slotKeySep \<notin> set x"
  shows "(artifactLockKey a = artifactLockKey b) = (a = b) \<and> (variantLockKey v = variantLockKey w) = (v = w)
    \<and> artifactLockKey a \<noteq> variantLockKey v"
proof -
  have dig: "slotKeySep \<notin> set (itoa n)" for n using itoa_chars [of slotKeySep n] by (auto simp: is_digit_def)
  have "a = b" if "artifactLockKey a = artifactLockKey b"
    using join_inj [OF that [unfolded artifactLockKey_def]] assms(1) by (cases a; cases b) auto
  moreover have "v = w" if "variantLockKey v = variantLockKey w"
    using join_inj [OF that [unfolded variantLockKey_def]] assms(2) dig by (cases v; cases w) (auto dest: itoa_inj)
  moreover have "artifactLockKey a \<noteq> variantLockKey v" by (simp add: artifactLockKey_def variantLockKey_def)
  ultimately show ?thesis by blast
qed

end
