(* ===== verification/Cost_Accounting.thy ===== *)
theory Cost_Accounting
  imports Cost
begin

text \<open>
  The accounting invariant of the cost pipeline: the reserved amount of every budget is the
  sum of its live holds, and a hold is live exactly as long as its reservation is reserved.
  It is kept by pre-flight, by the terminal transition and by reconciliation; the consequences
  are that \<open>GREATEST(reserved - hold, 0)\<close> never cuts anything off and that a hold is moved
  exactly once.
\<close>

section \<open>The invariant\<close>

definition live_hold :: "string \<Rightarrow> budget_hold \<Rightarrow> bool" where
  "live_hold bid h \<longleftrightarrow> ho_status h = Reserved \<and> ho_budget_id h = bid"

definition held :: "db \<Rightarrow> string \<Rightarrow> amount" where
  "held d bid = sum_where (live_hold bid) ho_reserved (db_holds d)"

definition book_inv :: "db \<Rightarrow> bool" where
  "book_inv d \<longleftrightarrow>
     keyed bg_id (db_budgets d) \<and> keyed ho_id (db_holds d)
     \<and> (\<forall>h \<in> set (db_holds d). 0 \<le> ho_reserved h)
     \<and> (\<forall>b \<in> set (db_budgets d). bg_reserved b = held d (bg_id b))
     \<and> ho_budget_id ` set (db_holds d) \<subseteq> bg_id ` set (db_budgets d)"

definition link_inv :: "db \<Rightarrow> bool" where
  "link_inv d \<longleftrightarrow>
     keyed rv_id (db_reservations d)
     \<and> (\<forall>h \<in> set (db_holds d). ho_reservation_id h \<in> rv_id ` set (db_reservations d))
     \<and> (\<forall>h \<in> set (db_holds d). ho_status h = Reserved \<longleftrightarrow>
          (\<exists>r \<in> set (db_reservations d). rv_id r = ho_reservation_id h \<and> rv_status r = Reserved))"

definition cost_inv :: "db \<Rightarrow> bool" where
  "cost_inv d \<longleftrightarrow> book_inv d \<and> link_inv d"

lemma cost_inv_frame:
  assumes "db_budgets d' = db_budgets d" "db_holds d' = db_holds d"
    and "db_reservations d' = db_reservations d"
  shows "cost_inv d' = cost_inv d"
  using assms by (simp add: cost_inv_def book_inv_def link_inv_def held_def)

lemma held_frame [simp]:
  "held (d\<lparr>db_budgets := x\<rparr>) b = held d b" "held (d\<lparr>db_reservations := y\<rparr>) b = held d b"
  "held (d\<lparr>db_jobs := z\<rparr>) b = held d b" "held (d\<lparr>db_events := e\<rparr>) b = held d b"
  "held (d\<lparr>db_ledger := l\<rparr>) b = held d b"
  by (simp_all add: held_def)

lemma book_invD:
  assumes "book_inv d"
  shows "keyed bg_id (db_budgets d)" "keyed ho_id (db_holds d)"
    "h \<in> set (db_holds d) \<Longrightarrow> 0 \<le> ho_reserved h"
    "b \<in> set (db_budgets d) \<Longrightarrow> bg_reserved b = held d (bg_id b)"
    "h \<in> set (db_holds d) \<Longrightarrow> ho_budget_id h \<in> bg_id ` set (db_budgets d)"
  using assms by (auto simp: book_inv_def)

text \<open>A budget covers each of its live holds, so subtracting one never goes below zero.\<close>

lemma hold_covered:
  assumes "book_inv d" "h \<in> set (db_holds d)" "ho_status h = Reserved"
    and "b \<in> set (db_budgets d)" "bg_id b = ho_budget_id h"
  shows "ho_reserved h \<le> bg_reserved b"
proof -
  have "ho_reserved h \<le> held d (bg_id b)"
    unfolding held_def
    using assms by (intro sum_where_member_le) (auto simp: live_hold_def book_inv_def)
  with assms show ?thesis by (simp add: book_invD(4))
qed

section \<open>Reserving\<close>

lemma book_inv_update_budgets:
  assumes "book_inv d"
    and "\<And>b. b \<in> set (db_budgets d) \<Longrightarrow> P b \<Longrightarrow> bg_id (f b) = bg_id b \<and> bg_reserved (f b) = bg_reserved b"
  shows "book_inv (d\<lparr>db_budgets := update_where P f (db_budgets d)\<rparr>)"
  using assms by (auto simp: book_inv_def keyed_update_where image_update_where elim!: update_where_memE)

lemma reset_frame [simp]:
  "db_holds (resetBudgetPeriodIfElapsed tr d i) = db_holds d"
  "db_reservations (resetBudgetPeriodIfElapsed tr d i) = db_reservations d"
  "db_jobs (resetBudgetPeriodIfElapsed tr d i) = db_jobs d"
  "db_now (resetBudgetPeriodIfElapsed tr d i) = db_now d"
  "map bg_id (db_budgets (resetBudgetPeriodIfElapsed tr d i)) = map bg_id (db_budgets d)"
  by (simp_all add: resetBudgetPeriodIfElapsed_def map_update_where)

lemma reset_book_inv: "book_inv d \<Longrightarrow> book_inv (resetBudgetPeriodIfElapsed tr d i)"
  unfolding resetBudgetPeriodIfElapsed_def by (rule book_inv_update_budgets) auto

lemma reset_other:
  assumes "b' \<in> set (db_budgets (resetBudgetPeriodIfElapsed tr d i))" "bg_id b' \<noteq> i"
  shows "b' \<in> set (db_budgets d)"
  using assms by (auto simp: resetBudgetPeriodIfElapsed_def elim!: update_where_memE split: if_splits)

definition within_cap :: "cost_budget \<Rightarrow> bool" where
  "within_cap b \<longleftrightarrow> (bg_status b = Active \<longrightarrow> bg_reserved b + bg_spent b \<le> bg_limit b)"

definition creditBudget :: "db \<Rightarrow> amount \<Rightarrow> string \<Rightarrow> db" where
  "creditBudget d a i = d\<lparr>db_budgets := update_where (\<lambda>b. bg_id b = i)
     (\<lambda>b. b\<lparr>bg_reserved := bg_reserved b + a\<rparr>) (db_budgets d)\<rparr>"

lemma update_budget_SomeD:
  assumes "update_budget d (\<lambda>b. bg_id b = i \<and> G b) f = Some d'" "keyed bg_id (db_budgets d)"
  shows "\<exists>b \<in> set (db_budgets d). bg_id b = i \<and> G b
     \<and> d' = d\<lparr>db_budgets := update_where (\<lambda>b. bg_id b = i) f (db_budgets d)\<rparr>"
proof -
  from assms(1) obtain b bs where u: "updating_one (\<lambda>b. bg_id b = i \<and> G b) f (db_budgets d) = Some (b, bs)"
    and d': "d' = d\<lparr>db_budgets := bs\<rparr>" by (auto simp: update_budget_def)
  from updating_one_SomeD [OF u] obtain b0 where b0: "b0 \<in> set (db_budgets d)" "bg_id b0 = i" "G b0"
    and bs: "bs = update_where (\<lambda>b. bg_id b = i \<and> G b) f (db_budgets d)" by auto
  have "G x" if "x \<in> set (db_budgets d)" "bg_id x = i" for x
    using keyed_unique [OF assms(2) that(1) b0(1)] that(2) b0 by simp
  then have "bs = update_where (\<lambda>b. bg_id b = i) f (db_budgets d)"
    unfolding bs update_where_def by (intro map_cong) auto
  with d' b0 show ?thesis by auto
qed

text \<open>A successful hold credits exactly the named row, which was paused or had room.\<close>

lemma tryReserve_SomeD:
  assumes "tryReserve d a i obs = Some d'" "keyed bg_id (db_budgets d)"
  shows "d' = creditBudget d a i \<and>
    (\<exists>b \<in> set (db_budgets d). bg_id b = i \<and>
       (bg_status b = Paused \<or> bg_status b = Active \<and> bg_reserved b + bg_spent b + a \<le> bg_limit b))"
proof -
  have "reserveActiveBudget d a i = Some d' \<or> reservePausedBudget d a i = Some d'"
    using assms(1) by (auto simp: tryReserve_def split: if_splits option.splits)
  then show ?thesis
    unfolding reserveActiveBudget_def reservePausedBudget_def creditBudget_def
    using update_budget_SomeD [OF _ assms(2)] by (elim disjE) fastforce+
qed

lemma creditBudget_frame [simp]:
  "db_holds (creditBudget d a i) = db_holds d"
  "db_reservations (creditBudget d a i) = db_reservations d"
  "db_jobs (creditBudget d a i) = db_jobs d"
  "map bg_id (db_budgets (creditBudget d a i)) = map bg_id (db_budgets d)"
  by (simp_all add: creditBudget_def map_update_where)

lemma creditBudget_ids: "bg_id ` set (db_budgets (creditBudget d a i)) = bg_id ` set (db_budgets d)"
  by (simp add: creditBudget_def image_update_where)

lemma insertBudgetHold_InrD:
  assumes "insertBudgetHold d hid rid bid a = Inr d'"
  shows "hid \<notin> ho_id ` set (db_holds d)" "bid \<in> bg_id ` set (db_budgets d)"
    "d' = d\<lparr>db_holds := db_holds d @ [\<lparr>ho_id = hid, ho_reservation_id = rid, ho_budget_id = bid,
        ho_reserved = a, ho_status = Reserved\<rparr>]\<rparr>"
  using assms by (auto simp: insertBudgetHold_def split: if_splits sum.splits)

lemma credit_and_hold_book_inv:
  assumes inv: "book_inv d" and a: "0 \<le> a" and fresh: "hid \<notin> ho_id ` set (db_holds d)"
    and bid: "bid \<in> bg_id ` set (db_budgets d)"
  shows "book_inv ((creditBudget d a bid)\<lparr>db_holds := db_holds d @
     [\<lparr>ho_id = hid, ho_reservation_id = rid, ho_budget_id = bid, ho_reserved = a,
       ho_status = Reserved\<rparr>]\<rparr>)"
  using inv a fresh bid
  by (auto simp: book_inv_def creditBudget_def keyed_update_where keyed_snoc held_def live_hold_def image_update_where
      elim!: update_where_memE)

lemma holdBudgets_correct:
  assumes "holdBudgets tr a rid hids bs d = Inr (Some d')" "book_inv d" "0 \<le> a"
  shows "book_inv d'
    \<and> db_reservations d' = db_reservations d \<and> db_jobs d' = db_jobs d
    \<and> map bg_id (db_budgets d') = map bg_id (db_budgets d)
    \<and> (\<exists>hs. db_holds d' = db_holds d @ hs
         \<and> map ho_budget_id hs = map bg_id bs
         \<and> (\<forall>h \<in> set hs. ho_reservation_id h = rid \<and> ho_reserved h = a \<and> ho_status h = Reserved))"
  using assms
proof (induction bs arbitrary: d)
  case Nil
  then show ?case by simp
next
  case (Cons b bs)
  let ?dr = "resetBudgetPeriodIfElapsed tr d (bg_id b)"
  from Cons.prems(1) obtain d1 d2 where
    t: "tryReserve ?dr a (bg_id b) (bg_status b) = Some d1"
    and h: "insertBudgetHold d1 (hids (length bs)) rid (bg_id b) a = Inr d2"
    and rest: "holdBudgets tr a rid hids bs d2 = Inr (Some d')"
    by (auto split: option.splits sum.splits)
  have r: "book_inv ?dr" using Cons.prems(2) by (rule reset_book_inv)
  from tryReserve_SomeD [OF t] r have d1: "d1 = creditBudget ?dr a (bg_id b)"
    by (simp add: book_inv_def)
  note ih = insertBudgetHold_InrD [OF h]
  let ?h = "\<lparr>ho_id = hids (length bs), ho_reservation_id = rid, ho_budget_id = bg_id b,
       ho_reserved = a, ho_status = Reserved\<rparr>"
  have d2: "d2 = (creditBudget ?dr a (bg_id b))\<lparr>db_holds := db_holds ?dr @ [?h]\<rparr>"
    using ih(3) d1 by simp
  have inv2: "book_inv d2"
    unfolding d2 by (rule credit_and_hold_book_inv [OF r Cons.prems(3)]) (use ih(1,2) d1 creditBudget_ids in auto)
  have f2: "db_reservations d2 = db_reservations d" "db_jobs d2 = db_jobs d"
    "map bg_id (db_budgets d2) = map bg_id (db_budgets d)" "db_holds d2 = db_holds d @ [?h]"
    by (simp_all add: d2)
  from Cons.IH [OF rest inv2 Cons.prems(3)] obtain hs where
    "book_inv d'" "db_reservations d' = db_reservations d" "db_jobs d' = db_jobs d"
    "map bg_id (db_budgets d') = map bg_id (db_budgets d)"
    "db_holds d' = db_holds d @ (?h # hs)" "map ho_budget_id hs = map bg_id bs"
    "\<forall>h \<in> set hs. ho_reservation_id h = rid \<and> ho_reserved h = a \<and> ho_status h = Reserved"
    using f2 by auto
  then show ?case by (intro conjI exI [of _ "?h # hs"]) auto
qed

text \<open>Every budget the loop went through ends inside its cap, whatever it was before.\<close>

lemma holdBudgets_within_cap:
  assumes "holdBudgets tr a rid hids bs d = Inr (Some d')" "book_inv d" "0 \<le> a"
    and "\<And>b. b \<in> set (db_budgets d) \<Longrightarrow> bg_id b \<in> done \<Longrightarrow> within_cap b"
  shows "\<forall>b \<in> set (db_budgets d'). bg_id b \<in> done \<union> bg_id ` set bs \<longrightarrow> within_cap b"
  using assms
proof (induction bs arbitrary: d "done")
  case Nil
  then show ?case by simp
next
  case (Cons b bs)
  let ?i = "bg_id b" and ?dr = "resetBudgetPeriodIfElapsed tr d (bg_id b)"
  from Cons.prems(1) obtain d1 d2 where
    t: "tryReserve ?dr a ?i (bg_status b) = Some d1"
    and h: "insertBudgetHold d1 (hids (length bs)) rid ?i a = Inr d2"
    and rest: "holdBudgets tr a rid hids bs d2 = Inr (Some d')"
    by (auto split: option.splits sum.splits)
  have r: "book_inv ?dr" using Cons.prems(2) by (rule reset_book_inv)
  then have k: "keyed bg_id (db_budgets ?dr)" by (simp add: book_inv_def)
  from tryReserve_SomeD [OF t k] obtain b0 where d1: "d1 = creditBudget ?dr a ?i"
    and b0: "b0 \<in> set (db_budgets ?dr)" "bg_id b0 = ?i"
      "bg_status b0 = Paused \<or> bg_status b0 = Active \<and> bg_reserved b0 + bg_spent b0 + a \<le> bg_limit b0"
    by blast
  note ih = insertBudgetHold_InrD [OF h]
  have bud: "db_budgets d2 = db_budgets (creditBudget ?dr a ?i)" using ih(3) d1 by simp
  have inv2: "book_inv d2"
    using credit_and_hold_book_inv [OF r Cons.prems(3), of "hids (length bs)" ?i rid] ih d1 creditBudget_ids
    by auto
  have cap: "within_cap c" if c: "c \<in> set (db_budgets d2)" "bg_id c \<in> insert ?i done" for c
  proof (cases "bg_id c = ?i")
    case True
    with c bud obtain c0 where c0: "c0 \<in> set (db_budgets ?dr)" "bg_id c0 = ?i"
        "c = c0\<lparr>bg_reserved := bg_reserved c0 + a\<rparr>"
      by (auto simp: creditBudget_def elim!: update_where_memE split: if_splits)
    have "c0 = b0" using keyed_unique [OF k c0(1) b0(1)] c0(2) b0(2) by simp
    with c0(3) b0(3) show ?thesis by (auto simp: within_cap_def)
  next
    case False
    with c bud have "c \<in> set (db_budgets ?dr)"
      by (auto simp: creditBudget_def elim!: update_where_memE split: if_splits)
    then have "c \<in> set (db_budgets d)" using False by (rule reset_other)
    with c(2) False Cons.prems(4) show ?thesis by blast
  qed
  then show ?case
    using Cons.IH [OF rest inv2 Cons.prems(3), of "insert ?i done"] by auto
qed

lemma insertCostReservation_InrD:
  assumes "insertCostReservation d r = Inr d'"
  shows "rv_job_id r \<in> jb_id ` set (db_jobs d)" "rv_id r \<notin> rv_id ` set (db_reservations d)"
    "d' = d\<lparr>db_reservations := db_reservations d @ [r]\<rparr>"
  using assms by (auto simp: insertCostReservation_def split: if_splits sum.splits)

text \<open>The outcomes of \<open>reserve\<close>: a recorded denial, or a reservation with its holds.\<close>

definition denied_row :: "reservation_result \<Rightarrow> reserve_input \<Rightarrow> string \<Rightarrow> cost_reservation" where
  "denied_row res inp rid =
     \<lparr>rv_id = rid, rv_job_id = ri_job_id inp, rv_tenant_id = ri_tenant_id inp,
      rv_estimated = rr_estimated res, rv_reserved = 0, rv_actual = None,
      rv_currency = rr_currency res, rv_status = Res_failed,
      rv_failure_reason = Some (rr_failure_reason res)\<rparr>"

definition reserved_row :: "reservation_result \<Rightarrow> reserve_input \<Rightarrow> string \<Rightarrow> cost_reservation" where
  "reserved_row res inp rid =
     \<lparr>rv_id = rid, rv_job_id = ri_job_id inp, rv_tenant_id = ri_tenant_id inp,
      rv_estimated = rr_estimated res, rv_reserved = rr_estimated res, rv_actual = None,
      rv_currency = rr_currency res, rv_status = Reserved, rv_failure_reason = None\<rparr>"

lemma insertFailed_InrD:
  assumes "insertFailed d inp rid reason = Inr (res, d')"
  shows "rr_id res = rid" "failed res" "rr_failure_reason res = reason"
    "rid \<notin> rv_id ` set (db_reservations d)" "ri_job_id inp \<in> jb_id ` set (db_jobs d)"
    "d' = d\<lparr>db_reservations := db_reservations d @ [denied_row res inp rid]\<rparr>"
  using assms insertCostReservation_InrD
  by (fastforce simp: insertFailed_def failed_def denied_row_def split: sum.splits)+

lemma mark_fresh_exceeded:
  assumes "rv_id r \<notin> rv_id ` set rs"
  shows "update_where (\<lambda>x. rv_id x = rv_id r) f (rs @ [r]) = rs @ [f r]"
proof -
  have "update_where (\<lambda>x. rv_id x = rv_id r) f rs = rs"
    using assms by (intro update_where_none) (metis image_eqI)
  then show ?thesis by (simp add: update_where_def)
qed

lemma reserve_cases:
  assumes "reserve tr d all inp rid hids = Inr (res, d')"
  obtains (denied) "rr_id res = rid" "failed res"
      "rr_failure_reason res = ''no_price_entry'' \<or> rr_failure_reason res = ''budget_exceeded''"
      "rid \<notin> rv_id ` set (db_reservations d)" "ri_job_id inp \<in> jb_id ` set (db_jobs d)"
      "d' = d\<lparr>db_reservations := db_reservations d @ [denied_row res inp rid]\<rparr>"
  | (reserved) d1 where "rr_id res = rid" "rr_status res = Reserved"
      "rid \<notin> rv_id ` set (db_reservations d)" "ri_job_id inp \<in> jb_id ` set (db_jobs d)"
      "d1 = d\<lparr>db_reservations := db_reservations d @ [reserved_row res inp rid]\<rparr>"
      "holdBudgets tr (rr_estimated res) rid hids (selectBudgets all) d1 = Inr (Some d')"
      "\<exists>p \<in> set (db_prices d). rr_estimated res = round_micro (pr_price_per_unit p * ri_units inp)"
proof (cases "estimateOperationCost d (ri_units inp) (ri_provider_id inp) (ri_model_id inp)
             (ri_operation_type inp)")
  case (Inl e)
  with assms have "insertFailed d inp rid ''no_price_entry'' = Inr (res, d')"
    by (cases e) (auto simp: reserve_def)
  note f = insertFailed_InrD [OF this]
  show ?thesis by (rule denied) (simp_all add: f)
next
  case (Inr est)
  show ?thesis
  proof (cases "es_unit_type est = ''image''")
    case False
    with Inr assms have "insertFailed d inp rid ''no_price_entry'' = Inr (res, d')"
      by (auto simp: reserve_def)
    note f = insertFailed_InrD [OF this]
    show ?thesis by (rule denied) (simp_all add: f)
  next
    case True
    let ?r = "\<lparr>rv_id = rid, rv_job_id = ri_job_id inp, rv_tenant_id = ri_tenant_id inp,
         rv_estimated = es_estimated_amount est, rv_reserved = es_estimated_amount est,
         rv_actual = None, rv_currency = es_currency est, rv_status = Reserved,
         rv_failure_reason = None\<rparr>"
    from True Inr assms obtain d1 hd where i: "insertCostReservation d ?r = Inr d1"
      and h: "reserveBudgets tr d1 all (es_estimated_amount est) rid hids = Inr hd"
      by (auto simp: reserve_def split: sum.splits)
    note ic = insertCostReservation_InrD [OF i]
    show ?thesis
    proof (cases hd)
      case None
      with True Inr assms i h have res: "res = \<lparr>rr_id = rid, rr_status = Res_failed,
            rr_failure_reason = ''budget_exceeded'', rr_estimated = es_estimated_amount est,
            rr_reserved = 0, rr_currency = es_currency est, rr_estimate_usd = es_estimated_text est\<rparr>"
        and d': "d' = markReservationBudgetExceeded d1 rid ''budget_exceeded''"
        by (auto simp: reserve_def)
      have "d' = d\<lparr>db_reservations := db_reservations d @ [denied_row res inp rid]\<rparr>"
        using mark_fresh_exceeded [OF ic(2)] ic(3)
        by (simp add: d' res markReservationBudgetExceeded_def denied_row_def)
      with res ic denied show ?thesis by (auto simp: failed_def)
    next
      case (Some d2)
      with True Inr assms i h have res: "res = \<lparr>rr_id = rid, rr_status = Reserved,
            rr_failure_reason = '''', rr_estimated = es_estimated_amount est,
            rr_reserved = es_estimated_amount est, rr_currency = es_currency est,
            rr_estimate_usd = es_estimated_text est\<rparr>" and d': "d' = d2"
        by (auto simp: reserve_def)
      have "\<exists>p \<in> set (db_prices d). es_estimated_amount est = round_micro (pr_price_per_unit p * ri_units inp)"
        using Inr max_by_SomeD
        by (fastforce simp: estimateOperationCost_def active_price_def split: option.splits sum.splits)
      with res d' ic h Some show ?thesis
        by (intro reserved [of d1]) (auto simp: reserveBudgets_def reserved_row_def)
    qed
  qed
qed

text \<open>The price book: no negative price, and at most one active entry per model and operation.\<close>

definition price_key :: "provider_price \<Rightarrow> string \<times> string \<times> string" where
  "price_key p = (pr_provider_id p, pr_model_id p, pr_operation_type p)"

definition prices_ok :: "db \<Rightarrow> bool" where
  "prices_ok d \<longleftrightarrow> (\<forall>p \<in> set (db_prices d). 0 \<le> pr_price_per_unit p) \<and> keyed pr_id (db_prices d)
     \<and> (\<forall>p \<in> set (db_prices d). \<forall>q \<in> set (db_prices d).
          pr_is_active p \<and> pr_is_active q \<and> price_key p = price_key q \<longrightarrow> p = q)"

lemma active_price_unique:
  assumes "prices_ok d" "p \<in> set (db_prices d)" "pr_is_active p"
  shows "active_price d (pr_provider_id p) (pr_model_id p) (pr_operation_type p) = Some p"
proof (cases "active_price d (pr_provider_id p) (pr_model_id p) (pr_operation_type p)")
  case None
  with assms show ?thesis by (auto simp: active_price_def filter_empty_conv)
next
  case (Some q)
  from max_by_SomeD [OF Some [unfolded active_price_def]] assms show ?thesis
    unfolding Some by (auto simp: prices_ok_def price_key_def)
qed

lemma reserve_cost_inv:
  assumes "reserve tr d all inp rid hids = Inr (res, d')"
    and inv: "cost_inv d" and "prices_ok d" "0 \<le> ri_units inp"
  shows "cost_inv d'"
  using assms(1)
proof (cases rule: reserve_cases)
  case denied
  with inv show ?thesis by (auto simp: cost_inv_def book_inv_def link_inv_def keyed_snoc denied_row_def)
next
  case (reserved d1)
  have a: "0 \<le> rr_estimated res"
    using reserved(7) assms(3,4) by (auto simp: prices_ok_def intro!: round_micro_nonneg)
  have inv1: "book_inv d1" "link_inv d1"
    using inv reserved(3) unfolding reserved(5)
    by (auto simp: cost_inv_def book_inv_def link_inv_def keyed_snoc reserved_row_def image_iff)
  from holdBudgets_correct [OF reserved(6) inv1(1) a] obtain hs where
    b: "book_inv d'" "db_reservations d' = db_reservations d1" "db_holds d' = db_holds d1 @ hs"
    "\<forall>h \<in> set hs. ho_reservation_id h = rid \<and> ho_reserved h = rr_estimated res \<and> ho_status h = Reserved"
    by blast
  have rr: "reserved_row res inp rid \<in> set (db_reservations d1)" by (simp add: reserved(5))
  have "link_inv d'"
    unfolding link_inv_def b(2,3) set_append ball_Un
  proof (intro conjI)
    show "\<forall>h \<in> set hs. ho_reservation_id h \<in> rv_id ` set (db_reservations d1)"
      using b(4) rr by (force simp: reserved_row_def intro: rev_image_eqI)
    show "\<forall>h \<in> set hs. ho_status h = Reserved \<longleftrightarrow>
        (\<exists>r \<in> set (db_reservations d1). rv_id r = ho_reservation_id h \<and> rv_status r = Reserved)"
      using b(4) by (auto intro!: bexI [OF _ rr] simp: reserved_row_def)
  qed (use inv1(2) in \<open>simp_all add: link_inv_def\<close>)
  with b(1) show ?thesis by (simp add: cost_inv_def)
qed

section \<open>Settling holds\<close>

definition settled_budget :: "amount option \<Rightarrow> budget_hold list \<Rightarrow> cost_budget \<Rightarrow> cost_budget" where
  "settled_budget charge hs b =
     b\<lparr>bg_reserved := bg_reserved b - sum_where (\<lambda>h. ho_budget_id h = bg_id b) ho_reserved hs,
       bg_spent := bg_spent b
         + (case charge of None \<Rightarrow> 0 | Some a \<Rightarrow> a * int (length (filter (\<lambda>h. ho_budget_id h = bg_id b) hs)))\<rparr>"

definition settle_one :: "amount option \<Rightarrow> reservation_status \<Rightarrow> budget_hold \<Rightarrow> db \<Rightarrow> db" where
  "settle_one charge target h d =
     markBudgetHoldStatus
       (case charge of
          Some a \<Rightarrow> commitBudgetHold d (ho_reserved h) a (ho_budget_id h)
        | None \<Rightarrow> releaseBudgetHold d (ho_reserved h) (ho_budget_id h)) target (ho_id h)"

lemma settleHolds_Cons:
  "settleHolds charge target (h # hs) d = settleHolds charge target hs (settle_one charge target h d)"
  by (simp add: settle_one_def)

declare settleHolds.simps(2) [simp del]

lemma settle_one_frame [simp]:
  "db_reservations (settle_one c t h d) = db_reservations d"
  "db_jobs (settle_one c t h d) = db_jobs d"
  "db_events (settle_one c t h d) = db_events d"
  "db_ledger (settle_one c t h d) = db_ledger d"
  "db_assets (settle_one c t h d) = db_assets d"
  "db_packs (settle_one c t h d) = db_packs d"
  "db_idem (settle_one c t h d) = db_idem d"
  "db_prices (settle_one c t h d) = db_prices d"
  "db_pack_items (settle_one c t h d) = db_pack_items d"
  "db_attempts (settle_one c t h d) = db_attempts d"
  "db_now (settle_one c t h d) = db_now d"
  by (simp_all add: settle_one_def markBudgetHoldStatus_def commitBudgetHold_def releaseBudgetHold_def
      split: option.split)

lemma settle_one_holds:
  "db_holds (settle_one c t h d) =
     update_where (\<lambda>x. ho_id x = ho_id h \<and> ho_status x = Reserved) (\<lambda>x. x\<lparr>ho_status := t\<rparr>) (db_holds d)"
  by (simp add: settle_one_def markBudgetHoldStatus_def commitBudgetHold_def releaseBudgetHold_def
      split: option.split)

text \<open>
  The clamp of the SQL is inert: on a consistent book the row loses exactly the hold.
\<close>

lemma settle_one_budgets:
  assumes "book_inv d" "h \<in> set (db_holds d)" "ho_status h = Reserved"
  shows "db_budgets (settle_one c t h d) = map (settled_budget c [h]) (db_budgets d)"
proof -
  have "db_budgets (settle_one c t h d) = update_where (\<lambda>b. bg_id b = ho_budget_id h)
     (\<lambda>b. b\<lparr>bg_reserved := max (bg_reserved b - ho_reserved h) 0,
            bg_spent := bg_spent b + (case c of None \<Rightarrow> 0 | Some a \<Rightarrow> a)\<rparr>) (db_budgets d)"
    by (auto simp: settle_one_def markBudgetHoldStatus_def commitBudgetHold_def releaseBudgetHold_def
        update_where_def split: option.split)
  also have "\<dots> = map (settled_budget c [h]) (db_budgets d)"
    unfolding update_where_def
  proof (rule map_cong [OF refl])
    fix b assume b: "b \<in> set (db_budgets d)"
    have "ho_reserved h \<le> bg_reserved b" if "bg_id b = ho_budget_id h"
      using hold_covered [OF assms b that] .
    then show "(if bg_id b = ho_budget_id h
        then b\<lparr>bg_reserved := max (bg_reserved b - ho_reserved h) 0,
               bg_spent := bg_spent b + (case c of None \<Rightarrow> 0 | Some a \<Rightarrow> a)\<rparr> else b)
       = settled_budget c [h] b"
      by (auto simp: settled_budget_def split: option.split)
  qed
  finally show ?thesis .
qed

lemma settle_one_held:
  assumes "book_inv d" "h \<in> set (db_holds d)" "ho_status h = Reserved" "t \<noteq> Reserved"
  shows "held (settle_one c t h d) bid = held d bid - (if ho_budget_id h = bid then ho_reserved h else 0)"
proof (cases "ho_budget_id h = bid")
  case True
  have "held (settle_one c t h d) bid = held d bid - ho_reserved h"
    unfolding held_def settle_one_holds
    by (rule sum_where_update_out [where k = ho_id])
      (use assms True in \<open>auto simp: live_hold_def book_inv_def\<close>)
  with True show ?thesis by simp
next
  case False
  have "x = h" if "x \<in> set (db_holds d)" "ho_id x = ho_id h" for x
    using keyed_unique [OF book_invD(2) [OF assms(1)] that(1) assms(2) that(2)] .
  then have "sum_where (live_hold bid) ho_reserved (db_holds (settle_one c t h d)) =
      sum_where (live_hold bid) ho_reserved (db_holds d)"
    unfolding settle_one_holds
    by (intro sum_where_update_inert) (use False assms(4) in \<open>auto simp: live_hold_def\<close>)
  with False show ?thesis by (simp add: held_def)
qed

lemma settle_one_book_inv:
  assumes "book_inv d" "h \<in> set (db_holds d)" "ho_status h = Reserved" "t \<noteq> Reserved"
  shows "book_inv (settle_one c t h d)"
  using assms(1) settle_one_held [OF assms, of c]
  unfolding book_inv_def settle_one_budgets [OF assms(1-3)] settle_one_holds
  by (auto simp: keyed_def map_update_where settled_budget_def comp_def image_image image_update_where
      elim!: update_where_memE)

lemma settleHolds_correct:
  assumes "book_inv d" "t \<noteq> Reserved" "distinct (map ho_id hs)"
    and "\<And>h. h \<in> set hs \<Longrightarrow> h \<in> set (db_holds d) \<and> ho_status h = Reserved"
  shows "book_inv (settleHolds c t hs d)
    \<and> db_budgets (settleHolds c t hs d) = map (settled_budget c hs) (db_budgets d)
    \<and> db_holds (settleHolds c t hs d) =
        update_where (\<lambda>x. ho_id x \<in> ho_id ` set hs \<and> ho_status x = Reserved) (\<lambda>x. x\<lparr>ho_status := t\<rparr>) (db_holds d)
    \<and> db_reservations (settleHolds c t hs d) = db_reservations d
    \<and> db_jobs (settleHolds c t hs d) = db_jobs d
    \<and> db_events (settleHolds c t hs d) = db_events d
    \<and> db_ledger (settleHolds c t hs d) = db_ledger d"
  using assms
proof (induction hs arbitrary: d)
  case Nil
  have "settled_budget c [] b = b" for b
    by (simp add: settled_budget_def split: option.split)
  with Nil show ?case by (simp add: update_where_def)
next
  case (Cons h hs)
  let ?d1 = "settle_one c t h d"
  have h: "h \<in> set (db_holds d)" "ho_status h = Reserved" using Cons.prems(4) by auto
  have still: "x \<in> set (db_holds ?d1) \<and> ho_status x = Reserved" if x: "x \<in> set hs" for x
  proof -
    have "ho_id x \<noteq> ho_id h" using Cons.prems(3) x by (auto simp: image_iff)
    moreover have "x \<in> set (db_holds d)" "ho_status x = Reserved" using Cons.prems(4) x by auto
    ultimately show ?thesis
      unfolding settle_one_holds set_update_where by (auto intro!: image_eqI [of _ _ x])
  qed
  have comb: "settled_budget c hs (settled_budget c [h] b) = settled_budget c (h # hs) b" for b
    by (auto simp: settled_budget_def algebra_simps split: option.split)
  have holds: "update_where (\<lambda>x. ho_id x \<in> ho_id ` set hs \<and> ho_status x = Reserved) (\<lambda>x. x\<lparr>ho_status := t\<rparr>)
      (db_holds ?d1) = update_where (\<lambda>x. ho_id x \<in> ho_id ` set (h # hs) \<and> ho_status x = Reserved)
        (\<lambda>x. x\<lparr>ho_status := t\<rparr>) (db_holds d)"
    using Cons.prems(2) by (auto simp: settle_one_holds update_where_def)
  from Cons.IH [OF settle_one_book_inv [OF Cons.prems(1) h Cons.prems(2), of c] Cons.prems(2) _ still]
  show ?case
    using Cons.prems(3) holds
    by (simp add: settleHolds_Cons settle_one_budgets [OF Cons.prems(1) h] comb comp_def)
qed

lemma reservedHolds_settle:
  assumes "book_inv d" "t \<noteq> Reserved"
  shows "book_inv (settleHolds c t (listReservedBudgetHolds d rid) d)
    \<and> db_budgets (settleHolds c t (listReservedBudgetHolds d rid) d)
        = map (settled_budget c (listReservedBudgetHolds d rid)) (db_budgets d)
    \<and> db_holds (settleHolds c t (listReservedBudgetHolds d rid) d) =
        update_where (\<lambda>x. ho_reservation_id x = rid \<and> ho_status x = Reserved) (\<lambda>x. x\<lparr>ho_status := t\<rparr>) (db_holds d)
    \<and> db_reservations (settleHolds c t (listReservedBudgetHolds d rid) d) = db_reservations d
    \<and> db_jobs (settleHolds c t (listReservedBudgetHolds d rid) d) = db_jobs d
    \<and> db_events (settleHolds c t (listReservedBudgetHolds d rid) d) = db_events d
    \<and> db_ledger (settleHolds c t (listReservedBudgetHolds d rid) d) = db_ledger d"
proof -
  let ?hs = "listReservedBudgetHolds d rid"
  have k: "keyed ho_id (db_holds d)" using assms(1) by (rule book_invD)
  have same: "update_where (\<lambda>x. ho_id x \<in> ho_id ` set ?hs \<and> ho_status x = Reserved) f (db_holds d)
      = update_where (\<lambda>x. ho_reservation_id x = rid \<and> ho_status x = Reserved) f (db_holds d)" for f
    unfolding update_where_def
  proof (rule map_cong [OF refl])
    fix x assume x: "x \<in> set (db_holds d)"
    have "(ho_id x \<in> ho_id ` set ?hs \<and> ho_status x = Reserved)
        = (ho_reservation_id x = rid \<and> ho_status x = Reserved)"
      using keyed_unique [OF k x] x by (auto simp: listReservedBudgetHolds_def)
    then show "(if ho_id x \<in> ho_id ` set ?hs \<and> ho_status x = Reserved then f x else x)
        = (if ho_reservation_id x = rid \<and> ho_status x = Reserved then f x else x)" by simp
  qed
  have "distinct (map ho_id ?hs)"
    using k unfolding keyed_def listReservedBudgetHolds_def by (rule distinct_map_filter)
  moreover have "\<And>h. h \<in> set ?hs \<Longrightarrow> h \<in> set (db_holds d) \<and> ho_status h = Reserved"
    by (auto simp: listReservedBudgetHolds_def)
  ultimately show ?thesis
    using settleHolds_correct [OF assms, of ?hs c] same by simp
qed

section \<open>The terminal transition\<close>


lemma upsert_ledger_frame:
  assumes "upsert_ledger d lid est act cur jid = Inr d'"
  shows "\<exists>ls. d' = d\<lparr>db_ledger := ls\<rparr>"
proof (cases "d' = d")
  case True
  then show ?thesis by (intro exI [of _ "db_ledger d"]) simp
next
  case False
  with assms show ?thesis
    by (auto simp: upsert_ledger_def split: option.splits if_splits sum.splits)
qed

lemma updateLatestJobCostEvent_frame:
  assumes "updateLatestJobCostEvent d est act st jid rid = (n, d')"
  shows "\<exists>es. d' = d\<lparr>db_events := es\<rparr>"
proof (cases "d' = d")
  case True
  then show ?thesis by (intro exI [of _ "db_events d"]) simp
next
  case False
  with assms show ?thesis
    by (auto simp: updateLatestJobCostEvent_def Let_def split: option.splits)
qed

lemma finalizeCostEvent_frame:
  assumes "finalizeCostEvent d eid jid rid ten est act st = Inr d'"
  shows "\<exists>es. d' = d\<lparr>db_events := es\<rparr>"
  using assms updateLatestJobCostEvent_frame
  by (fastforce simp: finalizeCostEvent_def insertFinalizerCostEvent_def split: prod.splits if_splits sum.splits)

lemma finalizeReservation_SomeD:
  assumes "finalizeReservation d jid rid t = Inr (Some (r', d1))"
  shows "\<exists>r rep. find (finalizable d jid rid) (db_reservations d) = Some r
    \<and> sumReportedReservationActual d (rv_id r) jid = Inr rep
    \<and> r' = r\<lparr>rv_status := t, rv_actual := (if t = Committed
           then Some (case rep of None \<Rightarrow> rv_estimated r | Some a \<Rightarrow> a) else rep)\<rparr>
    \<and> d1 = d\<lparr>db_reservations := update_where (\<lambda>x. rv_id x = rv_id r)
         (\<lambda>x. x\<lparr>rv_status := t, rv_actual := rv_actual r'\<rparr>) (db_reservations d)\<rparr>"
  using assms by (auto simp: finalizeReservation_def Let_def split: option.splits sum.splits)

text \<open>The settled amount: what the providers reported; on commit, the estimate if they did not.\<close>

definition charge_of :: "reservation_status \<Rightarrow> cost_reservation \<Rightarrow> amount option \<Rightarrow> amount option" where
  "charge_of t r rep =
     (if t = Committed then Some (case rep of None \<Rightarrow> rv_estimated r | Some a \<Rightarrow> a) else rep)"

text \<open>The three tables of the books after a terminal transition of reservation \<open>r\<close>.\<close>

definition closed_books :: "db \<Rightarrow> cost_reservation \<Rightarrow> reservation_status \<Rightarrow> amount option \<Rightarrow> db" where
  "closed_books d r t act =
     d\<lparr>db_budgets := map (settled_budget act (listReservedBudgetHolds d (rv_id r))) (db_budgets d),
       db_reservations := update_where (\<lambda>x. rv_id x = rv_id r)
         (\<lambda>x. x\<lparr>rv_status := t, rv_actual := act\<rparr>) (db_reservations d),
       db_holds := update_where (\<lambda>x. ho_reservation_id x = rv_id r \<and> ho_status x = Reserved)
         (\<lambda>x. x\<lparr>ho_status := t\<rparr>) (db_holds d)\<rparr>"

definition charged_jobs :: "db \<Rightarrow> string \<Rightarrow> string \<Rightarrow> amount option \<Rightarrow> job list" where
  "charged_jobs d jid rid act =
     (if act = None then db_jobs d else update_where
        (\<lambda>j. jb_id j = jid \<and> (rid \<noteq> '''' \<longrightarrow> jb_cost_reservation_id j = Some rid))
        (\<lambda>j. j\<lparr>jb_actual_cost := act\<rparr>) (db_jobs d))"

lemma settleHolds_frame: "\<exists>bs hs'. settleHolds c t hs d = d\<lparr>db_budgets := bs, db_holds := hs'\<rparr>"
proof (induction hs arbitrary: d)
  case Nil
  show ?case by (intro exI [of _ "db_budgets d"] exI [of _ "db_holds d"]) simp
next
  case (Cons h hs)
  from Cons [of "settle_one c t h d"] show ?case
    by (auto simp: settleHolds_Cons settle_one_def markBudgetHoldStatus_def commitBudgetHold_def
        releaseBudgetHold_def split: option.splits)
qed

lemma settleHolds_closed_books:
  assumes "book_inv d" "t \<noteq> Reserved"
    and d1: "d1 = d\<lparr>db_reservations := update_where (\<lambda>x. rv_id x = rv_id r)
         (\<lambda>x. x\<lparr>rv_status := t, rv_actual := act\<rparr>) (db_reservations d)\<rparr>"
  shows "settleHolds act t (listReservedBudgetHolds d1 (rv_id r)) d1 = closed_books d r t act"
proof -
  have "book_inv d1" using assms(1) by (simp add: d1 book_inv_def)
  from reservedHolds_settle [OF this assms(2), of act "rv_id r"]
    settleHolds_frame [of act t "listReservedBudgetHolds d1 (rv_id r)" d1]
  show ?thesis
    by (auto simp: closed_books_def d1 listReservedBudgetHolds_def)
qed

text \<open>
  What a terminal transition does to every table: nothing, or it closes one reservation,
  settles exactly the live holds of that reservation, and otherwise writes only the job's actual
  cost, the identity ledger and the cost events.
\<close>

lemma finalize_cases:
  assumes fin: "finalizeInTxForReservation d jid t rid lid eid = Inr d'" and inv: "book_inv d"
  obtains (noop) "d' = d" "find (finalizable d jid rid) (db_reservations d) = None"
  | (settled) r rep ls es dx where "t = Committed \<or> t = Released"
      "find (finalizable d jid rid) (db_reservations d) = Some r"
      "sumReportedReservationActual d (rv_id r) jid = Inr rep"
      "d' = (closed_books d r t (charge_of t r rep))\<lparr>
         db_jobs := charged_jobs d jid (rv_id r) (charge_of t r rep), db_ledger := ls, db_events := es\<rparr>"
      "db_events dx = db_events d"
      "finalizeCostEvent dx eid jid (rv_id r) (rv_tenant_id r) (rv_estimated r) (charge_of t r rep)
         (if t = Committed then ''succeeded'' else ''failed'') = Inr d'"
proof -
  from fin have t: "t = Committed \<or> t = Released"
    by (auto simp: finalizeInTxForReservation_def split: if_splits)
  from fin t obtain fr where fr: "finalizeReservation d jid rid t = Inr fr"
    by (cases "finalizeReservation d jid rid t") (auto simp: finalizeInTxForReservation_def)
  show thesis
  proof (cases fr)
    case None
    with fr have "find (finalizable d jid rid) (db_reservations d) = None"
      by (auto simp: finalizeReservation_def Let_def split: option.splits sum.splits)
    moreover from None fr fin t have "d' = d" by (auto simp: finalizeInTxForReservation_def)
    ultimately show thesis by (rule noop [rotated])
  next
    case (Some p)
    obtain r' d1 where p: "p = (r', d1)" by (cases p)
    with Some fr have fr': "finalizeReservation d jid rid t = Inr (Some (r', d1))" by simp
    from finalizeReservation_SomeD [OF fr'] obtain r rep where
      r: "find (finalizable d jid rid) (db_reservations d) = Some r"
      and rep: "sumReportedReservationActual d (rv_id r) jid = Inr rep"
      and r': "r' = r\<lparr>rv_status := t, rv_actual := charge_of t r rep\<rparr>"
      and d1: "d1 = d\<lparr>db_reservations := update_where (\<lambda>x. rv_id x = rv_id r)
         (\<lambda>x. x\<lparr>rv_status := t, rv_actual := rv_actual r'\<rparr>) (db_reservations d)\<rparr>"
      unfolding charge_of_def by blast
    define act where "act = charge_of t r rep"
    have act: "rv_actual r' = act" "rv_id r' = rv_id r" by (simp_all add: r' act_def)
    have d2: "settleHolds act t (listReservedBudgetHolds d1 (rv_id r)) d1 = closed_books d r t act"
      using settleHolds_closed_books [OF inv _ d1 [unfolded act]] t by auto
    have jobs: "db_jobs (closed_books d r t x) = db_jobs d" for x by (simp add: closed_books_def)
    have charged: "(if t = Committed \<or> rv_actual r' \<noteq> None then rv_actual r' else None) = act"
      by (simp add: act)
    note run = fin [unfolded finalizeInTxForReservation_def fr' Let_def charged act sum.case option.case
        prod.case d2]
    have r'': "rv_tenant_id r' = rv_tenant_id r" "rv_estimated r' = rv_estimated r" by (simp_all add: r')
    have "\<exists>ls es dx. d' = (closed_books d r t act)\<lparr>db_jobs := charged_jobs d jid (rv_id r) act,
        db_ledger := ls, db_events := es\<rparr> \<and> db_events dx = db_events d \<and>
        finalizeCostEvent dx eid jid (rv_id r) (rv_tenant_id r) (rv_estimated r) act
         (if t = Committed then ''succeeded'' else ''failed'') = Inr d'"
    proof (cases act)
      case None
      with run t d2 have f: "finalizeCostEvent (closed_books d r t act) eid jid (rv_id r) (rv_tenant_id r)
          (rv_estimated r) act (if t = Committed then ''succeeded'' else ''failed'') = Inr d'"
        by (auto simp: r'')
      from finalizeCostEvent_frame [OF f] obtain es where
        "d' = (closed_books d r t act)\<lparr>db_events := es\<rparr>" by blast
      then have "d' = (closed_books d r t act)\<lparr>db_jobs := charged_jobs d jid (rv_id r) act,
        db_ledger := db_ledger d, db_events := es\<rparr>"
        using None by (simp add: charged_jobs_def closed_books_def)
      moreover have "db_events (closed_books d r t act) = db_events d" by (simp add: closed_books_def)
      ultimately show ?thesis using f by blast
    next
      case (Some a)
      have "(if rv_id r \<noteq> '''' then setGenerationJobActualCostForReservation (closed_books d r t act) (Some a)
               jid (rv_id r)
            else (closed_books d r t act)\<lparr>db_jobs := update_where (\<lambda>j. jb_id j = jid)
              (\<lambda>j. j\<lparr>jb_actual_cost := Some a\<rparr>) (db_jobs (closed_books d r t act))\<rparr>)
          = (closed_books d r t act)\<lparr>db_jobs := charged_jobs d jid (rv_id r) act\<rparr>"
        using Some by (simp add: setGenerationJobActualCostForReservation_def charged_jobs_def jobs)
      with Some run t d2 obtain d3 where
        u: "upsertIdentityCostLedgerForJob ((closed_books d r t act)\<lparr>db_jobs := charged_jobs d jid (rv_id r) act\<rparr>)
             lid (rv_estimated r') a (rv_currency r') jid = Inr d3"
        and f: "finalizeCostEvent d3 eid jid (rv_id r) (rv_tenant_id r) (rv_estimated r) act
            (if t = Committed then ''succeeded'' else ''failed'') = Inr d'"
        by (cases "rv_id r = ''''") (auto simp: r'' split: sum.splits)
      from upsert_ledger_frame [OF u [unfolded upsertIdentityCostLedgerForJob_def]] obtain ls where
        d3: "d3 = (closed_books d r t act)\<lparr>db_jobs := charged_jobs d jid (rv_id r) act, db_ledger := ls\<rparr>"
        by auto
      from finalizeCostEvent_frame [OF f] obtain es where "d' = d3\<lparr>db_events := es\<rparr>" by blast
      moreover have "db_events d3 = db_events d" by (simp add: d3 closed_books_def)
      ultimately show ?thesis using f d3 by (intro exI [of _ ls] exI [of _ es] exI [of _ d3]) auto
    qed
    with settled [OF t r rep] show thesis unfolding act_def by blast
  qed
qed

section \<open>Consequences of the terminal transition\<close>

lemma closed_books_book_inv:
  assumes "book_inv d" "t \<noteq> Reserved"
  shows "book_inv (closed_books d r t act)"
proof -
  let ?d1 = "d\<lparr>db_reservations := update_where (\<lambda>x. rv_id x = rv_id r)
         (\<lambda>x. x\<lparr>rv_status := t, rv_actual := act\<rparr>) (db_reservations d)\<rparr>"
  have "book_inv ?d1" using assms(1) by (simp add: book_inv_def)
  from reservedHolds_settle [OF this assms(2), of act "rv_id r"]
  show ?thesis using settleHolds_closed_books [OF assms refl] by simp
qed

lemma closed_books_link_inv:
  assumes "link_inv d" "t \<noteq> Reserved"
  shows "link_inv (closed_books d r t act)"
proof -
  have m: "map rv_id (db_reservations (closed_books d r t act)) = map rv_id (db_reservations d)"
    by (simp add: closed_books_def map_update_where)
  from arg_cong [OF m, of set]
  have ids: "rv_id ` set (db_reservations (closed_books d r t act)) = rv_id ` set (db_reservations d)"
    by simp
  have k: "keyed rv_id (db_reservations (closed_books d r t act))"
    using assms(1) by (simp only: link_inv_def keyed_def m)
  show ?thesis
    unfolding link_inv_def ids
  proof (intro conjI ballI impI)
    fix h assume h: "h \<in> set (db_holds (closed_books d r t act))"
    then show "ho_reservation_id h \<in> rv_id ` set (db_reservations d)"
      using assms(1) by (auto simp: closed_books_def link_inv_def elim!: update_where_memE split: if_splits)
        (metis image_eqI)?
    from h obtain h0 where h0: "h0 \<in> set (db_holds d)" "ho_reservation_id h = ho_reservation_id h0"
      "ho_status h = (if ho_reservation_id h0 = rv_id r \<and> ho_status h0 = Reserved then t else ho_status h0)"
      by (auto simp: closed_books_def elim!: update_where_memE)
    have "(\<exists>x \<in> set (db_reservations (closed_books d r t act)). rv_id x = ho_reservation_id h0 \<and> rv_status x = Reserved)
        \<longleftrightarrow> (\<exists>x \<in> set (db_reservations d). rv_id x = ho_reservation_id h0 \<and> rv_status x = Reserved)
            \<and> ho_reservation_id h0 \<noteq> rv_id r"
      using assms(2) by (auto simp: closed_books_def set_update_where)
    moreover have "ho_status h0 = Reserved \<longleftrightarrow>
        (\<exists>x \<in> set (db_reservations d). rv_id x = ho_reservation_id h0 \<and> rv_status x = Reserved)"
      using assms(1) h0(1) by (auto simp: link_inv_def)
    ultimately show "ho_status h = Reserved \<longleftrightarrow> (\<exists>x \<in> set (db_reservations (closed_books d r t act)).
        rv_id x = ho_reservation_id h \<and> rv_status x = Reserved)"
      using h0(2,3) assms(2) by auto
  qed (rule k)
qed

lemma finalize_cost_inv:
  assumes "finalizeInTxForReservation d jid t rid lid eid = Inr d'" "cost_inv d"
  shows "cost_inv d'"
proof -
  from assms(2) have b: "book_inv d" and l: "link_inv d" by (simp_all add: cost_inv_def)
  from assms(1) b show ?thesis
  proof (cases rule: finalize_cases)
    case (settled r rep ls es)
    have "cost_inv (closed_books d r t (charge_of t r rep))"
      using settled(1) closed_books_book_inv [OF b] closed_books_link_inv [OF l]
      by (auto simp: cost_inv_def)
    then show ?thesis unfolding settled(4) by (simp add: cost_inv_def book_inv_def link_inv_def held_def)
  qed (use assms(2) in simp)
qed

text \<open>
  A second terminal transition of the same reservation finds nothing: the reservation the
  transition closed was the only one the query could select.
\<close>

lemma finalizable_id:
  assumes "finalizable d jid rid r" "finalizable d jid rid r'"
  shows "rv_id r = rv_id r'"
  using assms by (auto simp: finalizable_def sql_eq_iff split: if_splits option.splits)


lemma job_link_update:
  "(case find (\<lambda>j. jb_id j = i) (update_where P (\<lambda>j. j\<lparr>jb_actual_cost := a\<rparr>) js) of
      None \<Rightarrow> None | Some j \<Rightarrow> jb_cost_reservation_id j)
    = (case find (\<lambda>j. jb_id j = i) js of None \<Rightarrow> None | Some j \<Rightarrow> jb_cost_reservation_id j)"
  by (induction js) auto

lemma job_link_charged:
  "(case find (\<lambda>j. jb_id j = i) (charged_jobs d jid rid a) of
      None \<Rightarrow> None | Some j \<Rightarrow> jb_cost_reservation_id j)
   = (case find (\<lambda>j. jb_id j = i) (db_jobs d) of None \<Rightarrow> None | Some j \<Rightarrow> jb_cost_reservation_id j)"
proof (cases "a = None")
  case False
  then have "charged_jobs d jid rid a = update_where
      (\<lambda>j. jb_id j = jid \<and> (rid \<noteq> '''' \<longrightarrow> jb_cost_reservation_id j = Some rid))
      (\<lambda>j. j\<lparr>jb_actual_cost := a\<rparr>) (db_jobs d)" by (simp only: charged_jobs_def if_False)
  then show ?thesis by (simp only: job_link_update)
qed (simp add: charged_jobs_def)

lemma finalizable_settled:
  assumes "t \<noteq> Reserved" "find (finalizable d jid rid) (db_reservations d) = Some r"
    and d': "d' = (closed_books d r t act)\<lparr>db_jobs := charged_jobs d jid (rv_id r) act,
        db_ledger := ls, db_events := es\<rparr>"
  shows "find (finalizable d' jid rid) (db_reservations d') = None"
  unfolding find_None_conv
proof
  fix x assume "x \<in> set (db_reservations d')"
  then obtain y where y: "y \<in> set (db_reservations d)"
    "x = (if rv_id y = rv_id r then y\<lparr>rv_status := t, rv_actual := act\<rparr> else y)"
    by (auto simp: d' closed_books_def elim: update_where_memE)
  have same: "(case getGenerationJobByIDUnchecked d' jid of None \<Rightarrow> None | Some j \<Rightarrow> jb_cost_reservation_id j)
      = (case getGenerationJobByIDUnchecked d jid of None \<Rightarrow> None | Some j \<Rightarrow> jb_cost_reservation_id j)"
    using job_link_charged [of jid d jid "rv_id r" act]
    by (simp add: d' getGenerationJobByIDUnchecked_def)
  show "\<not> finalizable d' jid rid x"
  proof
    assume f: "finalizable d' jid rid x"
    with assms(1) y(2) have "rv_id y \<noteq> rv_id r" by (auto simp: finalizable_def)
    moreover from f this y(2) same have "finalizable d jid rid y"
      by (cases "rid = []") (auto simp: finalizable_def)
    ultimately show False
      using finalizable_id find_SomeD [OF assms(2)] by blast
  qed
qed

lemma finalize_noop:
  assumes "find (finalizable d jid rid) (db_reservations d) = None" "t = Committed \<or> t = Released"
  shows "finalizeInTxForReservation d jid t rid lid eid = Inr d"
  using assms by (auto simp: finalizeInTxForReservation_def finalizeReservation_def)

lemma finalize_idempotent:
  assumes "finalizeInTxForReservation d jid t rid lid eid = Inr d'" "book_inv d"
    and "t' = Committed \<or> t' = Released"
  shows "finalizeInTxForReservation d' jid t' rid lid' eid' = Inr d'"
  using assms(1,2)
proof (cases rule: finalize_cases)
  case noop
  with assms(3) show ?thesis by (simp add: finalize_noop)
next
  case (settled r rep ls es)
  have "find (finalizable d' jid rid) (db_reservations d') = None"
    by (rule finalizable_settled [OF _ settled(2,4)]) (use settled(1) in auto)
  with assms(3) show ?thesis by (rule finalize_noop [rotated])
qed

end
