(* ===== verification/Cost_Reconciliation.thy ===== *)
theory Cost_Reconciliation
  imports Cost_Accounting
begin

text \<open>
  Provider bills that arrive after the terminal transition: \<open>reconcileForReservation\<close> moves a
  settled reservation from the estimate to the reported sum. It keeps the books, is idempotent,
  and commutes with the terminal transition: billing late and reconciling ends in the same books
  as billing before the commit.
\<close>

section \<open>Late reconciliation\<close>

definition hold_count :: "budget_hold list \<Rightarrow> cost_budget \<Rightarrow> int" where
  "hold_count hs b = int (length (filter (\<lambda>h. ho_budget_id h = bg_id b) hs))"

lemma hold_count_simps [simp]:
  "hold_count [] b = 0"
  "hold_count (h # hs) b = (if ho_budget_id h = bg_id b then 1 else 0) + hold_count hs b"
  "hold_count hs (b\<lparr>bg_spent := x\<rparr>) = hold_count hs b"
  "hold_count hs (b\<lparr>bg_reserved := x\<rparr>) = hold_count hs b"
  "0 \<le> hold_count hs b"
  by (simp_all add: hold_count_def)

lemma adjustHolds_frame: "\<exists>bs. adjustHolds delta hs d = d\<lparr>db_budgets := bs\<rparr>"
proof (induction hs arbitrary: d)
  case Nil
  show ?case by (intro exI [of _ "db_budgets d"]) simp
next
  case (Cons h hs)
  from Cons [of "adjustBudgetSpent d delta (ho_budget_id h)"] show ?case
    by (auto simp: adjustBudgetSpent_def)
qed

lemma adjustHolds_budgets_cong:
  "db_budgets d = db_budgets d' \<Longrightarrow> db_budgets (adjustHolds x hs d) = db_budgets (adjustHolds x hs d')"
  by (induction hs arbitrary: d d') (simp_all add: adjustBudgetSpent_def)

text \<open>The clamp at zero is inert as long as the spent amount covers the correction.\<close>

lemma adjustHolds_budgets:
  assumes "\<And>b. b \<in> set (db_budgets d) \<Longrightarrow> 0 \<le> bg_spent b + min 0 (delta * hold_count hs b)"
  shows "db_budgets (adjustHolds delta hs d)
     = map (\<lambda>b. b\<lparr>bg_spent := bg_spent b + delta * hold_count hs b\<rparr>) (db_budgets d)"
  using assms
proof (induction hs arbitrary: d)
  case Nil
  show ?case by simp
next
  case (Cons h hs)
  let ?d1 = "adjustBudgetSpent d delta (ho_budget_id h)"
  let ?f = "\<lambda>b. if bg_id b = ho_budget_id h then b\<lparr>bg_spent := bg_spent b + delta\<rparr> else b"
  have room: "0 \<le> bg_spent b + delta \<and> 0 \<le> bg_spent b + delta + min 0 (delta * hold_count hs b)"
    if b: "b \<in> set (db_budgets d)" "bg_id b = ho_budget_id h" for b
  proof -
    have c: "0 \<le> bg_spent b + min 0 (delta * (1 + hold_count hs b))" using Cons.prems [OF b(1)] b(2) by simp
    show ?thesis
    proof (cases "0 \<le> delta")
      case True
      then have "0 \<le> delta * hold_count hs b" by simp
      with c True show ?thesis by (auto simp: min_def algebra_simps split: if_splits)
    next
      case False
      then have "delta * hold_count hs b \<le> 0" by (simp add: mult_le_0_iff)
      with c False show ?thesis by (auto simp: min_def algebra_simps split: if_splits)
    qed
  qed
  have d1: "db_budgets ?d1 = map ?f (db_budgets d)"
  proof -
    have "max (bg_spent b + delta) 0 = bg_spent b + delta"
      if "b \<in> set (db_budgets d)" "bg_id b = ho_budget_id h" for b
      using room [OF that] by simp
    then show ?thesis by (auto simp: adjustBudgetSpent_def update_where_def)
  qed
  have "0 \<le> bg_spent b + min 0 (delta * hold_count hs b)" if b: "b \<in> set (db_budgets ?d1)" for b
  proof -
    from b obtain b0 where b0: "b0 \<in> set (db_budgets d)" "b = ?f b0" unfolding d1 by auto
    then show ?thesis using room [OF b0(1)] Cons.prems [OF b0(1)] by (auto split: if_splits)
  qed
  from Cons.IH [of ?d1, OF this] show ?case by (auto simp: d1 algebra_simps)
qed

lemma reconcile_cases:
  assumes "reconcileForReservation d jid rid lid = Inr d'"
  obtains (noop) "d' = d"
      "getTerminalReservationForReconciliation d rid jid = None
       \<or> sumReportedReservationActual d rid jid = Inr None"
  | (moved) r reported bs ls where
      "getTerminalReservationForReconciliation d rid jid = Some r"
      "sumReportedReservationActual d rid jid = Inr (Some reported)"
      "bs = db_budgets (adjustHolds (reported - (case rv_actual r of None \<Rightarrow> 0 | Some p \<Rightarrow> p))
              (listFinalizedBudgetHolds d rid) d) \<or>
       reported = (case rv_actual r of None \<Rightarrow> 0 | Some p \<Rightarrow> p) \<and> bs = db_budgets d"
      "d' = d\<lparr>db_budgets := bs, db_reservations := update_where
              (\<lambda>r. rv_id r = rid \<and> rv_job_id r = jid \<and> terminal_reservation r)
              (\<lambda>r. r\<lparr>rv_actual := Some reported\<rparr>) (db_reservations d),
            db_jobs := update_where (\<lambda>j. jb_id j = jid \<and> jb_cost_reservation_id j = Some rid)
              (\<lambda>j. j\<lparr>jb_actual_cost := Some reported\<rparr>) (db_jobs d), db_ledger := ls\<rparr>"
proof (cases "getTerminalReservationForReconciliation d rid jid")
  case None
  with assms noop show thesis by (simp add: reconcileForReservation_def)
next
  case (Some r)
  note r = this
  with assms obtain rep where rep: "sumReportedReservationActual d rid jid = Inr rep"
    by (cases "sumReportedReservationActual d rid jid") (auto simp: reconcileForReservation_def)
  show thesis
  proof (cases rep)
    case None
    with assms r rep noop show thesis by (simp add: reconcileForReservation_def)
  next
    case (Some a)
    let ?delta = "a - (case rv_actual r of None \<Rightarrow> 0 | Some p \<Rightarrow> p)"
    let ?d2 = "d\<lparr>db_reservations := update_where
              (\<lambda>r. rv_id r = rid \<and> rv_job_id r = jid \<and> terminal_reservation r)
              (\<lambda>r. r\<lparr>rv_actual := Some a\<rparr>) (db_reservations d),
            db_jobs := update_where (\<lambda>j. jb_id j = jid \<and> jb_cost_reservation_id j = Some rid)
              (\<lambda>j. j\<lparr>jb_actual_cost := Some a\<rparr>) (db_jobs d)\<rparr>"
    have run: "d' = ?d2 \<and> ?delta = 0 \<or>
        upsert_ledger (adjustHolds ?delta (listFinalizedBudgetHolds ?d2 rid) ?d2) lid 0 ?delta (rv_currency r) jid = Inr d'"
      using assms r rep Some
      by (auto simp: reconcileForReservation_def reconcileReservationActual_def Let_def
          setGenerationJobActualCostForReservation_def upsertIdentityCostLedgerActualForJob_def
          split: sum.splits if_splits)
    then show thesis
    proof
      assume c: "d' = ?d2 \<and> ?delta = 0"
      show thesis
        by (rule moved [OF r, of a "db_budgets d" "db_ledger d"]) (use rep Some c in simp_all)
    next
      assume "upsert_ledger (adjustHolds ?delta (listFinalizedBudgetHolds ?d2 rid) ?d2) lid 0 ?delta
        (rv_currency r) jid = Inr d'"
      from upsert_ledger_frame [OF this] obtain ls where
        l: "d' = (adjustHolds ?delta (listFinalizedBudgetHolds ?d2 rid) ?d2)\<lparr>db_ledger := ls\<rparr>" by blast
      have h: "listFinalizedBudgetHolds ?d2 rid = listFinalizedBudgetHolds d rid"
        by (simp add: listFinalizedBudgetHolds_def)
      have b: "db_budgets (adjustHolds ?delta (listFinalizedBudgetHolds d rid) ?d2)
          = db_budgets (adjustHolds ?delta (listFinalizedBudgetHolds d rid) d)"
        by (rule adjustHolds_budgets_cong) simp
      from adjustHolds_frame [of ?delta "listFinalizedBudgetHolds d rid" ?d2] obtain bs where
        bs: "adjustHolds ?delta (listFinalizedBudgetHolds d rid) ?d2 = ?d2\<lparr>db_budgets := bs\<rparr>" by blast
      have "bs = db_budgets (adjustHolds ?delta (listFinalizedBudgetHolds d rid) d)"
        using arg_cong [OF bs, of db_budgets] by (simp only: b) simp
      with l h bs show thesis
        using rep Some by (intro moved [OF r, of a bs ls]) (simp_all only: db.simps, simp_all)
    qed
  qed
qed


lemma update_where_idem:
  assumes "\<And>x. P x \<Longrightarrow> P (f x)" "\<And>x. f (f x) = f x"
  shows "update_where P f (update_where P f xs) = update_where P f xs"
  using assms by (induction xs) auto

lemma sumReported_frame:
  "db_events d' = db_events d \<Longrightarrow> sumReportedReservationActual d' rid jid = sumReportedReservationActual d rid jid"
  by (simp add: sumReportedReservationActual_def)

text \<open>The link invariant reads only the identifiers and states of the reservations.\<close>

definition reservation_states :: "db \<Rightarrow> (string \<times> reservation_status) list" where
  "reservation_states d = map (\<lambda>r. (rv_id r, rv_status r)) (db_reservations d)"

lemma link_inv_states:
  "link_inv d \<longleftrightarrow> distinct (map fst (reservation_states d))
     \<and> (\<forall>h \<in> set (db_holds d). ho_reservation_id h \<in> fst ` set (reservation_states d))
     \<and> (\<forall>h \<in> set (db_holds d). ho_status h = Reserved \<longleftrightarrow>
          (ho_reservation_id h, Reserved) \<in> set (reservation_states d))"
proof -
  have "(i, Reserved) \<in> set (reservation_states d) \<longleftrightarrow>
      (\<exists>r \<in> set (db_reservations d). rv_id r = i \<and> rv_status r = Reserved)" for i
    by (force simp: reservation_states_def)
  moreover have "map fst (reservation_states d) = map rv_id (db_reservations d)"
    by (simp add: reservation_states_def)
  moreover from this have "fst ` set (reservation_states d) = rv_id ` set (db_reservations d)"
    by (metis list.set_map)
  ultimately show ?thesis by (simp only: link_inv_def keyed_def)
qed

lemma link_inv_cong:
  assumes "db_holds d' = db_holds d"
    and "map (\<lambda>r. (rv_id r, rv_status r)) (db_reservations d') = map (\<lambda>r. (rv_id r, rv_status r)) (db_reservations d)"
  shows "link_inv d' = link_inv d"
  using assms by (simp add: link_inv_states reservation_states_def [of d'] reservation_states_def [of d])

lemma reconcile_cost_inv:
  assumes "reconcileForReservation d jid rid lid = Inr d'" "cost_inv d"
  shows "cost_inv d'"
  using assms(1)
proof (cases rule: reconcile_cases)
  case noop
  with assms(2) show ?thesis by simp
next
  case (moved r a bs ls)
  have spent: "map bg_id (db_budgets (adjustHolds x hs e)) = map bg_id (db_budgets e)
      \<and> map (\<lambda>b. (bg_id b, bg_reserved b)) (db_budgets (adjustHolds x hs e))
        = map (\<lambda>b. (bg_id b, bg_reserved b)) (db_budgets e)" for x hs e
    by (induction hs arbitrary: e) (simp_all add: adjustBudgetSpent_def map_update_where)
  have ids: "map bg_id bs = map bg_id (db_budgets d)"
    and res: "map (\<lambda>b. (bg_id b, bg_reserved b)) bs = map (\<lambda>b. (bg_id b, bg_reserved b)) (db_budgets d)"
    using moved(3) spent by auto
  have "bg_reserved b = held d (bg_id b)" if b: "b \<in> set bs" for b
  proof -
    have "(bg_id b, bg_reserved b) \<in> set (map (\<lambda>b. (bg_id b, bg_reserved b)) (db_budgets d))"
      using b by (auto simp flip: res)
    then show ?thesis using assms(2) by (auto simp: cost_inv_def book_inv_def)
  qed
  moreover have "bg_id ` set bs = bg_id ` set (db_budgets d)" using ids by (metis set_map)
  ultimately have "book_inv d'"
    using assms(2) ids unfolding moved(4) by (simp add: cost_inv_def book_inv_def keyed_def held_def)
  moreover have "link_inv d' = link_inv d"
    by (rule link_inv_cong) (simp_all add: moved(4) map_update_where)
  ultimately show ?thesis using assms(2) by (simp add: cost_inv_def)
qed

text \<open>Reconciling again without a new bill changes nothing.\<close>

lemma reconcile_idempotent_lemma:
  assumes "reconcileForReservation d jid rid lid = Inr d'" "cost_inv d"
  shows "reconcileForReservation d' jid rid lid' = Inr d'"
  using assms(1)
proof (cases rule: reconcile_cases)
  case noop
  then show ?thesis
    by (auto simp: reconcileForReservation_def split: option.split)
next
  case (moved r a bs ls)
  let ?P = "\<lambda>r. rv_id r = rid \<and> rv_job_id r = jid \<and> terminal_reservation r"
  let ?f = "\<lambda>r. r\<lparr>rv_actual := Some a\<rparr>"
  have sum: "sumReportedReservationActual d' rid jid = Inr (Some a)"
    using moved(2) sumReported_frame [of d' d] by (simp add: moved(4))
  have "find ?P (update_where ?P ?f xs) = map_option ?f (find ?P xs)" for xs
    by (induction xs) (auto simp: terminal_reservation_def)
  with moved(1) have r': "getTerminalReservationForReconciliation d' rid jid = Some (?f r)"
    by (simp add: getTerminalReservationForReconciliation_def moved(4))
  have i1: "update_where ?P ?f (update_where ?P ?f (db_reservations d)) = update_where ?P ?f (db_reservations d)"
    by (rule update_where_idem) (auto simp: terminal_reservation_def)
  have i2: "update_where (\<lambda>j. jb_id j = jid \<and> jb_cost_reservation_id j = Some rid)
        (\<lambda>j. j\<lparr>jb_actual_cost := Some a\<rparr>) (update_where (\<lambda>j. jb_id j = jid \<and> jb_cost_reservation_id j = Some rid)
        (\<lambda>j. j\<lparr>jb_actual_cost := Some a\<rparr>) (db_jobs d))
      = update_where (\<lambda>j. jb_id j = jid \<and> jb_cost_reservation_id j = Some rid)
        (\<lambda>j. j\<lparr>jb_actual_cost := Some a\<rparr>) (db_jobs d)"
    by (rule update_where_idem) auto
  have "setGenerationJobActualCostForReservation
      (d'\<lparr>db_reservations := update_where ?P ?f (db_reservations d')\<rparr>) (Some a) jid rid = d'"
    using i1 i2 by (simp add: moved(4) setGenerationJobActualCostForReservation_def)
  with sum r' show ?thesis
    by (simp add: reconcileForReservation_def reconcileReservationActual_def numeric14_4_def)
qed

section \<open>Bills before and after the commit\<close>

text \<open>The cost the finalizer infers is never mistaken for a provider's bill.\<close>

lemma finalizeCostEvent_unreported:
  assumes f: "finalizeCostEvent d eid jid rid ten est act st = Inr d'" and "rid \<noteq> ''''"
    and un: "\<forall>e \<in> set (db_events d). \<not> reported_event jid rid e"
  shows "\<forall>e \<in> set (db_events d'). \<not> reported_event jid rid e"
proof (cases "max_by ce_created_at (rev (filter (reservation_event jid (Some rid)) (db_events d)))")
  case None
  then have "updateLatestJobCostEvent d est act st jid (strPtr rid) = (0, d)"
    using assms(2) by (simp add: updateLatestJobCostEvent_def strPtr_def del: max_by_None)
  with f un show ?thesis
    by (auto simp: finalizeCostEvent_def insertFinalizerCostEvent_def reported_event_def split: sum.splits)
next
  case (Some latest)
  have seen: "(\<exists>e \<in> set (db_events d). reservation_event jid (Some rid) e \<and> ce_actual e \<noteq> None
                        \<and> \<not> json_flag (ce_metadata e) inferred_key) = False"
    using un by (auto simp: reported_event_def reservation_event_def sql_eq_iff)
  have "updateLatestJobCostEvent d est act st jid (strPtr rid) = (1, d')"
    using f Some assms(2) by (auto simp: finalizeCostEvent_def updateLatestJobCostEvent_def strPtr_def Let_def)
  then have "db_events d' = update_where (\<lambda>e. ce_id e = ce_id latest)
       (\<lambda>e. e\<lparr>ce_estimated := Some est, ce_actual := act,
          ce_metadata := (ce_metadata e)(inferred_key \<mapsto> JBool True), ce_status := st\<rparr>) (db_events d)"
    using Some assms(2) by (simp only: updateLatestJobCostEvent_def strPtr_def Let_def seen if_False option.case
        prod.inject simp_thms) auto
  with un show ?thesis by (auto simp: reported_event_def elim!: update_where_memE split: if_splits)
qed

lemma sumReported_none:
  "\<forall>e \<in> set (db_events d). \<not> reported_event jid rid e \<Longrightarrow> sumReportedReservationActual d rid jid = Inr None"
  by (auto simp: sumReportedReservationActual_def)

lemma sumReported_unreported:
  assumes "db_events d = es0 @ es" "\<forall>e \<in> set es0. \<not> reported_event jid rid e"
  shows "sumReportedReservationActual d rid jid
     = (if \<exists>e \<in> set es. reported_event jid rid e
        then (case numeric14_4 (sum_where (reported_event jid rid) (the \<circ> ce_actual) es) of
                Inl e \<Rightarrow> Inl e | Inr a \<Rightarrow> Inr (Some a)) else Inr None)"
proof -
  have "sum_where (reported_event jid rid) (the \<circ> ce_actual) es0 = 0"
    using assms(2) by (induction es0) auto
  moreover have "(\<exists>e \<in> set (db_events d). reported_event jid rid e) = (\<exists>e \<in> set es. reported_event jid rid e)"
    using assms by auto
  ultimately show ?thesis using assms(1) by (simp only: sumReportedReservationActual_def sum_where_append) simp
qed

lemma finalizable_found:
  assumes "link_inv d" "r \<in> set (db_reservations d)" "rv_id r = rid" "rv_job_id r = jid"
    "rv_status r = Reserved" "rid \<noteq> ''''"
  shows "find (finalizable d jid rid) (db_reservations d) = Some r"
  by (rule find_keyed [where k = rv_id]) (use assms in \<open>auto simp: finalizable_def link_inv_def\<close>)

text \<open>The shape of the three books after committing a reservation named by a task.\<close>

lemma commit_shape:
  assumes inv: "cost_inv d" and r: "r \<in> set (db_reservations d)" "rv_id r = rid" "rv_job_id r = jid"
      "rv_status r = Reserved" "rid \<noteq> ''''"
    and c: "commitForReservation d jid rid lid eid = Inr d'"
    and rep: "sumReportedReservationActual d rid jid = Inr rep"
  obtains ls es dx where "d' = (closed_books d r Committed (charge_of Committed r rep))\<lparr>
         db_jobs := charged_jobs d jid rid (charge_of Committed r rep), db_ledger := ls, db_events := es\<rparr>"
      "db_events dx = db_events d"
      "finalizeCostEvent dx eid jid rid (rv_tenant_id r) (rv_estimated r) (charge_of Committed r rep)
         ''succeeded'' = Inr d'"
proof -
  have b: "book_inv d" and l: "link_inv d" using inv by (simp_all add: cost_inv_def)
  note found = finalizable_found [OF l r]
  from c [unfolded commitForReservation_def] b show thesis
    by (cases rule: finalize_cases) (use found rep r(2) that in auto)
qed


lemma listFinalized_closed:
  assumes "link_inv d" "r \<in> set (db_reservations d)" "rv_status r = Reserved"
  shows "hold_count (listFinalizedBudgetHolds (closed_books d r Committed a) (rv_id r)) b
     = hold_count (listReservedBudgetHolds d (rv_id r)) b"
proof -
  have "length (filter (\<lambda>h. ho_budget_id h = bg_id b) (filter (\<lambda>h. ho_reservation_id h = rv_id r
          \<and> (ho_status h = Committed \<or> ho_status h = Released))
        (update_where (\<lambda>x. ho_reservation_id x = rv_id r \<and> ho_status x = Reserved) (\<lambda>x. x\<lparr>ho_status := Committed\<rparr>) hs)))
     = length (filter (\<lambda>h. ho_budget_id h = bg_id b) (filter (\<lambda>h. ho_reservation_id h = rv_id r
          \<and> ho_status h = Reserved) hs))"
    if "\<forall>h \<in> set hs. ho_reservation_id h = rv_id r \<longrightarrow> ho_status h = Reserved" for hs
    using that by (induction hs) auto
  moreover have "\<forall>h \<in> set (db_holds d). ho_reservation_id h = rv_id r \<longrightarrow> ho_status h = Reserved"
    using assms by (auto simp: link_inv_def)
  ultimately show ?thesis
    by (simp add: hold_count_def closed_books_def listFinalizedBudgetHolds_def listReservedBudgetHolds_def)
qed

definition closed_reservation :: "cost_reservation \<Rightarrow> reservation_status \<Rightarrow> amount option \<Rightarrow> cost_reservation" where
  "closed_reservation r t a = r\<lparr>rv_status := t, rv_actual := a\<rparr>"

lemma closed_reservation_found:
  assumes "link_inv d" "r \<in> set (db_reservations d)" "t = Committed \<or> t = Released"
  shows "find (\<lambda>x. rv_id x = rv_id r \<and> rv_job_id x = rv_job_id r \<and> terminal_reservation x)
      (db_reservations (closed_books d r t a)) = Some (closed_reservation r t a)"
proof (rule find_keyed [where k = rv_id])
  show "keyed rv_id (db_reservations (closed_books d r t a))"
    using closed_books_link_inv [OF assms(1)] assms(3) by (auto simp: link_inv_def)
  show "closed_reservation r t a \<in> set (db_reservations (closed_books d r t a))"
    using assms(2) by (auto simp: closed_books_def closed_reservation_def set_update_where intro!: image_eqI [of _ _ r])
qed (use assms(3) in \<open>auto simp: closed_reservation_def terminal_reservation_def\<close>)
lemma closed_budgets:
  "db_budgets (closed_books d r t (Some x)) = map (\<lambda>b. b\<lparr>
      bg_reserved := bg_reserved b - sum_where (\<lambda>h. ho_budget_id h = bg_id b) ho_reserved (listReservedBudgetHolds d (rv_id r)),
      bg_spent := bg_spent b + x * hold_count (listReservedBudgetHolds d (rv_id r)) b\<rparr>) (db_budgets d)"
  by (simp add: closed_books_def settled_budget_def hold_count_def)

definition reconciled :: "db \<Rightarrow> string \<Rightarrow> string \<Rightarrow> amount \<Rightarrow> cost_budget list \<Rightarrow> identity_ledger_row list \<Rightarrow> db" where
  "reconciled d jid rid a bs ls = d\<lparr>db_budgets := bs, db_reservations := update_where
              (\<lambda>r. rv_id r = rid \<and> rv_job_id r = jid \<and> terminal_reservation r)
              (\<lambda>r. r\<lparr>rv_actual := Some a\<rparr>) (db_reservations d),
            db_jobs := update_where (\<lambda>j. jb_id j = jid \<and> jb_cost_reservation_id j = Some rid)
              (\<lambda>j. j\<lparr>jb_actual_cost := Some a\<rparr>) (db_jobs d), db_ledger := ls\<rparr>"

lemma reconcile_moved:
  assumes "reconcileForReservation d jid rid lid = Inr d'"
    and "getTerminalReservationForReconciliation d rid jid = Some r" "rv_actual r = Some p"
    and "sumReportedReservationActual d rid jid = Inr (Some a)"
  shows "\<exists>bs ls. d' = reconciled d jid rid a bs ls \<and>
     (bs = db_budgets (adjustHolds (a - p) (listFinalizedBudgetHolds d rid) d) \<or> a = p \<and> bs = db_budgets d)"
  using assms(1)
proof (cases rule: reconcile_cases)
  case (moved r' a' bs ls)
  then have "r' = r" "a' = a" using assms(2,4) by simp_all
  with moved(3,4) assms(3) show ?thesis
    by (intro exI [of _ bs] exI [of _ ls]) (simp add: reconciled_def)
qed (use assms in simp)

lemma late_adjustment:
  assumes hc: "\<And>x. hold_count fs x = hold_count hs x"
    and bud: "db_budgets d1 = map (\<lambda>b. b\<lparr>bg_reserved := f b, bg_spent := bg_spent b + est * hold_count hs b\<rparr>) (db_budgets d)"
    and spent: "\<forall>b \<in> set (db_budgets d). 0 \<le> bg_spent b" and "0 \<le> est" "0 \<le> a"
  shows "db_budgets (adjustHolds (a - est) fs d1)
      = map (\<lambda>b. b\<lparr>bg_spent := bg_spent b + (a - est) * hold_count hs b\<rparr>) (db_budgets d1)"
proof -
  have "0 \<le> bg_spent b + min 0 ((a - est) * hold_count fs b)" if b: "b \<in> set (db_budgets d1)" for b
  proof -
    from b bud obtain b0 where b0: "b0 \<in> set (db_budgets d)"
      "b = b0\<lparr>bg_reserved := f b0, bg_spent := bg_spent b0 + est * hold_count hs b0\<rparr>" by auto
    have "0 \<le> est * hold_count hs b0" "0 \<le> a * hold_count hs b0" "0 \<le> bg_spent b0"
      using assms(4,5) spent b0(1) by simp_all
    then show ?thesis by (auto simp: hc b0(2) min_def algebra_simps)
  qed
  from adjustHolds_budgets [OF this] show ?thesis by (simp add: hc)
qed

lemma late_bill_confluence_lemma:
  assumes inv: "cost_inv d" and r: "r \<in> set (db_reservations d)" "rv_id r = rid" "rv_job_id r = jid"
      "rv_status r = Reserved" "rid \<noteq> ''''"
    and est: "0 \<le> rv_estimated r" and spent: "\<forall>b \<in> set (db_budgets d). 0 \<le> bg_spent b"
    and un: "\<forall>e \<in> set (db_events d). \<not> reported_event jid rid e"
    and es: "es \<noteq> []" "\<forall>e \<in> set es. reported_event jid rid e \<and> 0 \<le> the (ce_actual e)"
    and c1: "commitForReservation d jid rid l1 e1 = Inr d1"
    and c2: "reconcileForReservation (d1\<lparr>db_events := db_events d1 @ es\<rparr>) jid rid l2 = Inr d2"
    and c3: "commitForReservation (d\<lparr>db_events := db_events d @ es\<rparr>) jid rid l3 e3 = Inr d3"
  shows "db_budgets d2 = db_budgets d3 \<and> db_reservations d2 = db_reservations d3
    \<and> db_holds d2 = db_holds d3 \<and> db_jobs d2 = db_jobs d3"
proof -
  let ?a = "sum_where (reported_event jid rid) (the \<circ> ce_actual) es"
  let ?db = "d\<lparr>db_events := db_events d @ es\<rparr>" and ?d1b = "d1\<lparr>db_events := db_events d1 @ es\<rparr>"
  have l: "link_inv d" and b: "book_inv d" using inv by (simp_all add: cost_inv_def)
  have some: "\<exists>e \<in> set es. reported_event jid rid e" using es by (cases es) auto
  have a0: "0 \<le> ?a" using es(2) by (intro sum_where_nonneg) auto
  have ch: "charge_of Committed r None = Some (rv_estimated r)" by (simp add: charge_of_def)
  obtain ls1 ev1 dx1 where
    d1: "d1 = (closed_books d r Committed (Some (rv_estimated r)))\<lparr>
         db_jobs := charged_jobs d jid rid (Some (rv_estimated r)), db_ledger := ls1, db_events := ev1\<rparr>"
    and dx1: "db_events dx1 = db_events d" "finalizeCostEvent dx1 e1 jid rid (rv_tenant_id r) (rv_estimated r)
        (Some (rv_estimated r)) ''succeeded'' = Inr d1"
    by (rule commit_shape [OF inv r c1 sumReported_none [OF un], unfolded ch])
  from finalizeCostEvent_unreported [OF dx1(2) r(5)] un dx1(1)
  have un1: "\<forall>e \<in> set (db_events d1). \<not> reported_event jid rid e" by simp
  have s3: "sumReportedReservationActual ?db rid jid
      = (case numeric14_4 ?a of Inl e \<Rightarrow> Inl e | Inr a \<Rightarrow> Inr (Some a))"
    using sumReported_unreported [of ?db "db_events d" es jid rid] un some by simp
  have s2: "sumReportedReservationActual ?d1b rid jid
      = (case numeric14_4 ?a of Inl e \<Rightarrow> Inl e | Inr a \<Rightarrow> Inr (Some a))"
    using sumReported_unreported [of ?d1b "db_events d1" es jid rid] un1 some by simp
  have trm: "getTerminalReservationForReconciliation ?d1b rid jid = Some (closed_reservation r Committed (Some (rv_estimated r)))"
    using closed_reservation_found [OF l r(1), of Committed "Some (rv_estimated r)"] r(2,3)
    by (simp add: getTerminalReservationForReconciliation_def d1)
  from c2 have ok: "numeric14_4 ?a = Inr ?a"
    by (auto simp: reconcileForReservation_def trm s2 numeric14_4_def split: if_splits)
  have inv3: "cost_inv ?db" using inv by (simp add: cost_inv_frame [of ?db d])
  have s3': "sumReportedReservationActual ?db rid jid = Inr (Some ?a)" using s3 ok by simp
  have ch3: "charge_of Committed r (Some ?a) = Some ?a" by (simp add: charge_of_def)
  obtain ls3 ev3 where d3: "d3 = (closed_books ?db r Committed (Some ?a))\<lparr>
         db_jobs := charged_jobs ?db jid rid (Some ?a), db_ledger := ls3, db_events := ev3\<rparr>"
    by (rule commit_shape [OF inv3 _ r(2-5) c3 s3', unfolded ch3]) (use r(1) in simp_all)
  have hc: "hold_count (listFinalizedBudgetHolds ?d1b rid) x = hold_count (listReservedBudgetHolds d rid) x" for x
    using listFinalized_closed [OF l r(1,4), of "Some (rv_estimated r)" x] r(2)
    by (simp add: d1 listFinalizedBudgetHolds_def)
  let ?est = "rv_estimated r" and ?n = "hold_count (listReservedBudgetHolds d rid)"
  have s2': "sumReportedReservationActual ?d1b rid jid = Inr (Some ?a)" using s2 ok by simp
  have "rv_actual (closed_reservation r Committed (Some ?est)) = Some ?est" by (simp add: closed_reservation_def)
  from reconcile_moved [OF c2 trm this s2'] obtain bs ls where
    d2: "d2 = reconciled ?d1b jid rid ?a bs ls" and
    bs: "bs = db_budgets (adjustHolds (?a - ?est) (listFinalizedBudgetHolds ?d1b rid) ?d1b) \<or>
         ?a = ?est \<and> bs = db_budgets ?d1b" by blast
  have budgets1: "db_budgets ?d1b = map (\<lambda>b. b\<lparr>bg_reserved := bg_reserved b
          - sum_where (\<lambda>h. ho_budget_id h = bg_id b) ho_reserved (listReservedBudgetHolds d rid),
        bg_spent := bg_spent b + ?est * ?n b\<rparr>) (db_budgets d)"
    using closed_budgets [of d r Committed ?est] r(2) by (simp add: d1)
  have adj: "db_budgets (adjustHolds (?a - ?est) (listFinalizedBudgetHolds ?d1b rid) ?d1b)
      = map (\<lambda>b. b\<lparr>bg_spent := bg_spent b + (?a - ?est) * ?n b\<rparr>) (db_budgets ?d1b)"
    by (rule late_adjustment [OF hc budgets1 spent est a0])
  have "bs = map (\<lambda>b. b\<lparr>bg_spent := bg_spent b + (?a - ?est) * ?n b\<rparr>) (db_budgets ?d1b)"
    using bs unfolding adj by (elim disjE) simp_all
  then have "bs = db_budgets (closed_books ?db r Committed (Some ?a))"
    unfolding budgets1 closed_budgets [of ?db r] by (simp add: r(2) listReservedBudgetHolds_def algebra_simps)
  moreover have "update_where (\<lambda>r. rv_id r = rid \<and> rv_job_id r = jid \<and> terminal_reservation r)
        (\<lambda>r. r\<lparr>rv_actual := Some ?a\<rparr>) (db_reservations (closed_books d r Committed (Some ?est)))
      = db_reservations (closed_books ?db r Committed (Some ?a))"
  proof -
    have "rv_job_id x = jid" if "x \<in> set (db_reservations d)" "rv_id x = rid" for x
      using keyed_unique [of rv_id "db_reservations d" x r] that r l by (auto simp: link_inv_def)
    then show ?thesis by (auto simp: closed_books_def update_where_def r(2) terminal_reservation_def)
  qed
  moreover have "update_where (\<lambda>j. jb_id j = jid \<and> jb_cost_reservation_id j = Some rid)
              (\<lambda>j. j\<lparr>jb_actual_cost := Some ?a\<rparr>) (charged_jobs d jid rid (Some ?est))
      = charged_jobs ?db jid rid (Some ?a)"
    using r(5) by (auto simp: charged_jobs_def update_where_def)
  moreover have "db_holds (closed_books d r Committed (Some ?est)) = db_holds (closed_books ?db r Committed (Some ?a))"
    by (simp add: closed_books_def)
  ultimately show ?thesis by (simp add: d2 reconciled_def d3 d1)
qed

end
