(* ===== verification/Persistence.thy ===== *)
theory Persistence
  imports Assets Cost_Reconciliation
begin

text \<open>
  The guarded writes of the worker, \<open>internal/jobs/guarded_persist.go\<close> and the pack and
  bookkeeping methods of \<open>internal/jobs/repository.go\<close>: under the lock of the job row an output
  is inserted and the job moved on in one transaction, or nothing happens because the job was
  cancelled, completed or failed meanwhile.
\<close>

section \<open>Attempts, cost events, packs\<close>

record attempt_params =
  tp_id :: string
  tp_generation_job_id :: string
  tp_provider_id :: string
  tp_model_id :: "string option"
  tp_provider_route_id :: "string option"
  tp_attempt_number :: int

definition insertProviderAttempt :: "db \<Rightarrow> attempt_params \<Rightarrow> error + db" where
  "insertProviderAttempt d p =
     (if tp_generation_job_id p \<notin> set (map jb_id (db_jobs d)) then Inl foreign_key_violation
      else (case insert_row at_id
                  \<lparr>at_id = tp_id p, at_job_id = tp_generation_job_id p, at_provider_id = tp_provider_id p,
                   at_model_id = tp_model_id p, at_route_id = tp_provider_route_id p,
                   at_attempt_number = tp_attempt_number p, at_status = Started, at_error_code = None,
                   at_latency_ms = None, at_actual_cost = None\<rparr> (db_attempts d) of
              Inl e \<Rightarrow> Inl e
            | Inr as \<Rightarrow> Inr (d\<lparr>db_attempts := as\<rparr>)))"

definition markProviderAttemptSucceeded :: "db \<Rightarrow> string \<Rightarrow> int \<Rightarrow> db" where
  "markProviderAttemptSucceeded d i latency =
     d\<lparr>db_attempts := update_where (\<lambda>a. at_id a = i)
         (\<lambda>a. a\<lparr>at_status := Succeeded, at_latency_ms := Some latency\<rparr>) (db_attempts d)\<rparr>"

definition markProviderAttemptFailed :: "db \<Rightarrow> string \<Rightarrow> string \<Rightarrow> int \<Rightarrow> db" where
  "markProviderAttemptFailed d i code latency =
     d\<lparr>db_attempts := update_where (\<lambda>a. at_id a = i)
         (\<lambda>a. a\<lparr>at_status := Attempt_failed, at_error_code := Some code, at_latency_ms := Some latency\<rparr>)
         (db_attempts d)\<rparr>"

definition updateProviderAttemptCost :: "db \<Rightarrow> string \<Rightarrow> amount option \<Rightarrow> db" where
  "updateProviderAttemptCost d i act =
     d\<lparr>db_attempts := update_where (\<lambda>a. at_id a = i) (\<lambda>a. a\<lparr>at_actual_cost := act\<rparr>) (db_attempts d)\<rparr>"

definition countProviderAttempts :: "db \<Rightarrow> string \<Rightarrow> int" where
  "countProviderAttempts d jid = int (length (filter (\<lambda>a. at_job_id a = jid) (db_attempts d)))"

definition insertCostEventWithQueries :: "db \<Rightarrow> cost_event \<Rightarrow> error + db" where
  "insertCostEventWithQueries d e =
     (case insert_row ce_id (e\<lparr>ce_created_at := db_now d\<rparr>) (db_events d) of
        Inl x \<Rightarrow> Inl x
      | Inr es \<Rightarrow> Inr (d\<lparr>db_events := es\<rparr>))"

definition open_pack :: "pack_status \<Rightarrow> bool" where
  "open_pack s \<longleftrightarrow> s = Planned \<or> s = In_progress"

definition updateAssetPackStatus :: "db \<Rightarrow> string \<Rightarrow> pack_status \<Rightarrow> db" where
  "updateAssetPackStatus d pid s =
     d\<lparr>db_packs := update_where (\<lambda>p. pk_id p = pid \<and> open_pack (pk_status p)) (\<lambda>p. p\<lparr>pk_status := s\<rparr>) (db_packs d)\<rparr>"

definition updateAssetPackStatusForJob :: "db \<Rightarrow> string \<Rightarrow> string \<Rightarrow> pack_status \<Rightarrow> db" where
  "updateAssetPackStatusForJob d pid jid s =
     d\<lparr>db_packs := update_where
         (\<lambda>p. pk_id p = pid \<and> pk_created_by_job_id p = Some jid
            \<and> (open_pack (pk_status p) \<or> pk_status p = Pack_completed
               \<or> pk_status p = Completed_with_warnings \<or> pk_status p = Pack_failed))
         (\<lambda>p. p\<lparr>pk_status := s\<rparr>) (db_packs d)\<rparr>"

definition updateAssetPackCompleteness :: "db \<Rightarrow> string \<Rightarrow> string list \<Rightarrow> string list \<Rightarrow> db" where
  "updateAssetPackCompleteness d pid delivered missing =
     d\<lparr>db_packs := update_where (\<lambda>p. pk_id p = pid \<and> open_pack (pk_status p))
         (\<lambda>p. p\<lparr>pk_delivered_roles := delivered, pk_missing_roles := missing\<rparr>) (db_packs d)\<rparr>"

definition updateAssetPackCompletenessForJob ::
    "db \<Rightarrow> string \<Rightarrow> string \<Rightarrow> string list \<Rightarrow> string list \<Rightarrow> db" where
  "updateAssetPackCompletenessForJob d pid jid delivered missing =
     d\<lparr>db_packs := update_where (\<lambda>p. pk_id p = pid \<and> pk_created_by_job_id p = Some jid)
         (\<lambda>p. p\<lparr>pk_delivered_roles := delivered, pk_missing_roles := missing\<rparr>) (db_packs d)\<rparr>"

definition insertAssetPackItem :: "db \<Rightarrow> asset_pack_item \<Rightarrow> error + db" where
  "insertAssetPackItem d i =
     (if \<exists>x \<in> set (db_pack_items d). pi_pack_id x = pi_pack_id i
           \<and> (pi_asset_id x = pi_asset_id i \<or> pi_variant_key x = pi_variant_key i)
      then Inl unique_violation
      else if pi_pack_id i \<notin> set (map pk_id (db_packs d)) \<or> pi_asset_id i \<notin> set (map va_id (db_assets d))
      then Inl foreign_key_violation
      else (case insert_row pi_id i (db_pack_items d) of
              Inl e \<Rightarrow> Inl e
            | Inr is \<Rightarrow> Inr (d\<lparr>db_pack_items := is\<rparr>)))"

section \<open>Success bookkeeping\<close>

record persist_success =
  sp_attempt_id :: string
  sp_latency_ms :: int
  sp_cost_event :: cost_event

definition persistSuccessWithQueries :: "db \<Rightarrow> persist_success \<Rightarrow> string \<Rightarrow> error + db" where
  "persistSuccessWithQueries d sp aid =
     (if sp_attempt_id sp = '''' then Inl (ErrOther ''jobs: success bookkeeping missing provider attempt'')
      else insertCostEventWithQueries
             (markProviderAttemptSucceeded d (sp_attempt_id sp) (sp_latency_ms sp))
             ((sp_cost_event sp)\<lparr>ce_asset_id := Some aid, ce_attempt_id := Some (sp_attempt_id sp)\<rparr>))"

definition bookkeep :: "db \<Rightarrow> persist_success option \<Rightarrow> string \<Rightarrow> error + db" where
  "bookkeep d success aid = (case success of None \<Rightarrow> Inr d | Some sp \<Rightarrow> persistSuccessWithQueries d sp aid)"

section \<open>Guarded writes\<close>

datatype persist_outcome =
    PersistPersisted
  | PersistSkippedCancelled
  | PersistAlreadyCompleted
  | PersistAlreadyPreviewReady
  | PersistAlreadyTerminal

text \<open>
  The result of a guarded write: \<open>(None, o, d)\<close> is the zero asset the code returns when it
  committed without writing.
\<close>

type_synonym persist_result = "visual_asset option \<times> persist_outcome \<times> db"

definition insertFinalAssetAndCompleteJob ::
    "db \<Rightarrow> string \<Rightarrow> string \<Rightarrow> asset_params \<Rightarrow> bool \<Rightarrow> artifact_slot \<Rightarrow> persist_success option
     \<Rightarrow> string option \<Rightarrow> error + persist_result" where
  "insertFinalAssetAndCompleteJob d jid ten p forced slot success r =
     (case lockGenerationJobRowForUpdate d jid ten r of
        None \<Rightarrow> if r \<noteq> None then Inr (None, PersistAlreadyTerminal, d) else Inl ErrNotFound
      | Some locked \<Rightarrow>
          (case jb_status locked of
             Cancelled \<Rightarrow> Inr (None, PersistSkippedCancelled, d)
           | Completed \<Rightarrow> Inr (None, PersistAlreadyCompleted, d)
           | Failed \<Rightarrow> Inr (None, PersistAlreadyTerminal, d)
           | Queued \<Rightarrow> Inl (ErrOther ''jobs: final asset persistence requires an active job'')
           | _ \<Rightarrow>
               (case (if forced then supersedeArtifactSlot d p slot else insertWithQueries d p) of
                  Inl e \<Rightarrow> Inl e
                | Inr (a, d1) \<Rightarrow>
                    (case markGenerationJobCompleted d1 jid ten [va_id a] r of
                       None \<Rightarrow> Inl ErrNoRows
                     | Some (j, d2) \<Rightarrow>
                         (case bookkeep d2 success (va_id a) of
                            Inl e \<Rightarrow> Inl e
                          | Inr d3 \<Rightarrow> Inr (Some a, PersistPersisted, d3))))))"

definition insertPreviewAssetAndMarkPreviewReady ::
    "db \<Rightarrow> string \<Rightarrow> string \<Rightarrow> asset_params \<Rightarrow> persist_success option \<Rightarrow> string option
     \<Rightarrow> error + persist_result" where
  "insertPreviewAssetAndMarkPreviewReady d jid ten p success r =
     (case lockGenerationJobRowForUpdate d jid ten r of
        None \<Rightarrow> if r \<noteq> None then Inr (None, PersistAlreadyTerminal, d) else Inl ErrNotFound
      | Some locked \<Rightarrow>
          (case jb_status locked of
             Cancelled \<Rightarrow> Inr (None, PersistSkippedCancelled, d)
           | Preview_ready \<Rightarrow> Inr (None, PersistAlreadyPreviewReady, d)
           | Completed \<Rightarrow> Inr (None, PersistAlreadyCompleted, d)
           | Failed \<Rightarrow> Inr (None, PersistAlreadyTerminal, d)
           | Queued \<Rightarrow> Inl (ErrOther ''jobs: preview persistence requires a running job'')
           | Running \<Rightarrow>
               (case insertPreviewWithQueries d p of
                  Inl e \<Rightarrow> Inl e
                | Inr (a, d1) \<Rightarrow>
                    (case markGenerationJobPreviewReady d1 jid ten [va_id a] r of
                       None \<Rightarrow> Inl ErrNoRows
                     | Some (j, d2) \<Rightarrow>
                         (case bookkeep d2 success (va_id a) of
                            Inl e \<Rightarrow> Inl e
                          | Inr d3 \<Rightarrow> Inr (Some a, PersistPersisted, d3))))))"

section \<open>Pack items\<close>

abbreviation errPackJobNotActive :: error where
  "errPackJobNotActive \<equiv> ErrOther ''jobs: pack job is no longer active''"

definition lockActivePackJob :: "db \<Rightarrow> asset_params \<Rightarrow> error + unit" where
  "lockActivePackJob d p =
     (case ap_generation_job_id p of
        None \<Rightarrow> Inr ()
      | Some jid \<Rightarrow>
          if jid = '''' then Inr ()
          else (case lockGenerationJobForUpdate d jid (ap_tenant_id p) of
                  None \<Rightarrow> Inl errPackJobNotActive
                | Some s \<Rightarrow> if s \<noteq> Running then Inl errPackJobNotActive else Inr ()))"

definition insertPackItemWithAsset ::
    "db \<Rightarrow> asset_params \<Rightarrow> asset_pack_item \<Rightarrow> persist_success option \<Rightarrow> error + db" where
  "insertPackItemWithAsset d p item success =
     (case lockActivePackJob d p of
        Inl e \<Rightarrow> Inl e
      | Inr _ \<Rightarrow>
          (case insertWithQueries d p of
             Inl e \<Rightarrow> Inl e
           | Inr (a, d1) \<Rightarrow>
               (case insertAssetPackItem d1 item of
                  Inl e \<Rightarrow> Inl e
                | Inr d2 \<Rightarrow> bookkeep d2 success (ap_id p))))"

definition insertPackItemWithAssetSuperseding ::
    "db \<Rightarrow> asset_params \<Rightarrow> asset_pack_item \<Rightarrow> variant_slot \<Rightarrow> persist_success option \<Rightarrow> error + db" where
  "insertPackItemWithAssetSuperseding d p item slot success =
     (case lockActivePackJob d p of
        Inl e \<Rightarrow> Inl e
      | Inr _ \<Rightarrow>
          (case supersedeVariantSlotWithQueries d p slot of
             Inl e \<Rightarrow> Inl e
           | Inr (a, d1) \<Rightarrow>
               (case insertAssetPackItem d1 item of
                  Inl e \<Rightarrow> Inl e
                | Inr d2 \<Rightarrow> bookkeep d2 success (ap_id p))))"

end
