(* ===== verification/Task_Queue.thy ===== *)
theory Task_Queue
  imports Job_Table
begin

text \<open>
  The task queue, \<open>internal/jobs/enqueue.go\<close>. The asynq client is a parameter: the function
  that says, for a task, whether Redis took it (\<open>None\<close>) or with which message it failed.
\<close>

record task =
  tk_name :: string
  tk_job_id :: string
  tk_cost_reservation_id :: string
  tk_max_retry :: nat

abbreviation TaskGenerateArtifact :: string where
  "TaskGenerateArtifact \<equiv> ''image:generate_artifact''"

abbreviation TaskGeneratePack :: string where
  "TaskGeneratePack \<equiv> ''image:generate_pack''"

definition MaxAttempts :: nat where
  "MaxAttempts = 3"

definition MaxBillableCallsPerUnit :: int where
  "MaxBillableCallsPerUnit = 3"

type_synonym queue_client = "task \<Rightarrow> string option"

definition enqueueTask :: "queue_client \<Rightarrow> string \<Rightarrow> string \<Rightarrow> string \<Rightarrow> string option" where
  "enqueueTask client name jid rid =
     client \<lparr>tk_name = name, tk_job_id = jid, tk_cost_reservation_id = rid, tk_max_retry = MaxAttempts - 1\<rparr>"

text \<open>
  The choice both callers make: a pack task when the job has a pack, else an artifact task. The
  asynq enqueuer is reservation aware; with no reservation it uses the plain methods, which
  send the empty reservation.
\<close>

definition enqueueFor :: "queue_client \<Rightarrow> string \<Rightarrow> string \<Rightarrow> string \<Rightarrow> string option" where
  "enqueueFor client jid pid rid =
     enqueueTask client (if pid \<noteq> '''' then TaskGeneratePack else TaskGenerateArtifact) jid rid"

end
