(* ===== verification/Admin_Jobs.thy ===== *)
theory Admin_Jobs
  imports Persistence Task_Queue
begin

text \<open>
  The administrators' job control, \<open>internal/adminjobs/adminjobs.go\<close>: cancelling a live job
  with the release of its reservation in one transaction, and reopening a failed job with a
  fresh reservation, enqueued after the commit.
\<close>

section \<open>Cancel\<close>

fun status_text :: "job_status \<Rightarrow> string" where
  "status_text Queued = ''queued''"
| "status_text Running = ''running''"
| "status_text Preview_ready = ''preview_ready''"
| "status_text Completed = ''completed''"
| "status_text Failed = ''failed''"
| "status_text Cancelled = ''cancelled''"

definition cancelMessage :: "job_status \<Rightarrow> string" where
  "cancelMessage s = ''job cancelled by admin from status '' @ status_text s"

definition fail_pack_of :: "db \<Rightarrow> string \<Rightarrow> string option \<Rightarrow> db" where
  "fail_pack_of d jid pid =
     (case pid of
        None \<Rightarrow> d
      | Some p \<Rightarrow> if p \<noteq> '''' then updateAssetPackStatusForJob d p jid Pack_failed else d)"

text \<open>\<open>lid\<close> and \<open>eid\<close> are the identifiers the release may draw for a ledger row and an event.\<close>

definition cancelJob :: "db \<Rightarrow> string \<Rightarrow> string \<Rightarrow> string \<Rightarrow> string \<Rightarrow> error + job \<times> db" where
  "cancelJob d ten jid lid eid =
     (if ten = '''' then Inl ErrNoTenant
      else
        (case lockGenerationJobForUpdate d jid ten of
           None \<Rightarrow> Inl ErrNotFound
         | Some s \<Rightarrow>
             if s = Cancelled then
               (case releaseInTx d jid lid eid of
                  Inl e \<Rightarrow> Inl e
                | Inr d1 \<Rightarrow>
                    (case getGenerationJobByID d1 jid ten of
                       None \<Rightarrow> Inl ErrNoRows
                     | Some j \<Rightarrow> Inr (j, d1)))
             else if s = Queued \<or> s = Running \<or> s = Preview_ready then
               (case cancelGenerationJob d jid ten (cancelMessage s) of
                  None \<Rightarrow> Inl ErrNoRows
                | Some (j, d1) \<Rightarrow>
                    (case getGenerationJobByID d1 jid ten of
                       None \<Rightarrow> Inl ErrNoRows
                     | Some pj \<Rightarrow>
                         (case releaseInTx (fail_pack_of d1 jid (jb_asset_pack_id pj)) jid lid eid of
                            Inl e \<Rightarrow> Inl e
                          | Inr d2 \<Rightarrow> Inr (j, d2))))
             else Inl ErrInvalidState))"

section \<open>Retry\<close>

text \<open>
  JSON numbers decode as \<open>float64\<close>; the conversion to \<open>int32\<close> truncates toward zero and keeps
  the low 32 bits.
\<close>

definition payloadInt32 :: "payload \<Rightarrow> string \<Rightarrow> int" where
  "payloadInt32 p k =
     (case p k of Some (JNum q) \<Rightarrow> int32 (if q \<ge> 0 then \<lfloor>q\<rfloor> else \<lceil>q\<rceil>) | _ \<Rightarrow> 0)"

definition reserveInputFromRow :: "string \<Rightarrow> string \<Rightarrow> job \<Rightarrow> error + reserve_input" where
  "reserveInputFromRow jid ten row =
     (let payload = jb_input_payload row;
          prov = payloadString payload ''provider_id'';
          model = payloadString payload ''model_id'';
          op = payloadString payload ''operation_type'';
          units = payloadInt32 payload ''units''
      in if prov = '''' \<or> model = ''''
         then Inl (ErrOther ''adminjobs: job has no persisted resolved route to retry'')
         else Inr \<lparr>ri_job_id = jid, ri_tenant_id = ten,
                ri_token_id = (case jb_requested_by_token_id row of None \<Rightarrow> '''' | Some t \<Rightarrow> t),
                ri_world_id = (case jb_world_id row of None \<Rightarrow> '''' | Some w \<Rightarrow> w),
                ri_user_id = payloadString payload ''user_id'',
                ri_provider_id = prov, ri_model_id = model,
                ri_operation_type = (if op = '''' then ''text_to_image'' else op),
                ri_units = (if units \<le> 0 then 1 else units)\<rparr>)"

definition retryFailureError :: "string \<Rightarrow> error" where
  "retryFailureError reason =
     (if reason = ''no_price_entry'' then ErrNoPriceEntry
      else if reason = ''budget_exceeded'' then ErrBudgetExceeded
      else ErrOther (''adminjobs: retry reservation failed: '' @ reason))"

text \<open>
  The transaction of \<open>RetryJob\<close>. \<open>all\<close> is the answer of the unlocked budget query inside the
  reservation; the result carries the reset row and the identifier of the new reservation.
\<close>

definition retryTx ::
    "date_trunc \<Rightarrow> db \<Rightarrow> cost_budget list \<Rightarrow> string \<Rightarrow> string \<Rightarrow> string \<Rightarrow> (nat \<Rightarrow> string)
     \<Rightarrow> string \<Rightarrow> string \<Rightarrow> error + job \<times> string \<times> db" where
  "retryTx trunc d all ten jid rid hids lid eid =
     (if ten = '''' then Inl ErrNoTenant
      else
        (case lockGenerationJobRowForUpdate d jid ten None of
           None \<Rightarrow> Inl ErrNotFound
         | Some row \<Rightarrow>
             if jb_status row \<noteq> Failed then Inl ErrInvalidState
             else
               (case releaseInTx d jid lid eid of
                  Inl e \<Rightarrow> Inl e
                | Inr d1 \<Rightarrow>
                    (case reserveInputFromRow jid ten row of
                       Inl e \<Rightarrow> Inl e
                     | Inr rin \<Rightarrow>
                         (case reserve trunc d1 all rin rid hids of
                            Inl e \<Rightarrow> Inl e
                          | Inr (res, d2) \<Rightarrow>
                              if failed res then Inl (retryFailureError (rr_failure_reason res))
                              else
                                (case retryResetGenerationJob d2 jid ten (rr_id res) (rr_estimated res) of
                                   None \<Rightarrow> Inl ErrNoRows
                                 | Some (j, d3) \<Rightarrow> Inr (j, rr_id res, d3)))))))"

text \<open>
  The cleanup transaction of \<open>enqueueRetry\<close>: mark the job (of this reservation) failed, its pack
  too, and release the reservation the job links.
\<close>

definition enqueueRetryCleanup ::
    "db \<Rightarrow> string \<Rightarrow> string \<Rightarrow> string \<Rightarrow> string \<Rightarrow> string \<Rightarrow> string \<Rightarrow> string \<Rightarrow> error + db" where
  "enqueueRetryCleanup d jid ten pid rid msg lid eid =
     (if ten = '''' then Inl ErrNoTenant
      else
        (case markGenerationJobFailed d jid ten ''enqueue_failed'' msg False (strPtr rid) of
           None \<Rightarrow> Inl ErrNoRows
         | Some (_, d1) \<Rightarrow>
             releaseInTx (if pid \<noteq> '''' then updateAssetPackStatusForJob d1 pid jid Pack_failed else d1)
               jid lid eid))"

definition enqueueRetry ::
    "queue_client \<Rightarrow> db \<Rightarrow> string \<Rightarrow> string \<Rightarrow> string \<Rightarrow> string \<Rightarrow> string \<Rightarrow> string \<Rightarrow> error option \<times> db" where
  "enqueueRetry client d jid ten pid rid lid eid =
     (case enqueueFor client jid pid rid of
        None \<Rightarrow> (None, d)
      | Some msg \<Rightarrow>
          (Some ErrEnqueueFailed,
           case enqueueRetryCleanup d jid ten pid rid msg lid eid of Inl _ \<Rightarrow> d | Inr d' \<Rightarrow> d'))"

text \<open>
  \<open>RetryJob\<close> itself: \<open>env\<close> is what other transactions did between the commit and the cleanup.
\<close>

definition retryJob ::
    "date_trunc \<Rightarrow> queue_client \<Rightarrow> (db \<Rightarrow> db) \<Rightarrow> db \<Rightarrow> cost_budget list \<Rightarrow> string \<Rightarrow> string \<Rightarrow> string
     \<Rightarrow> (nat \<Rightarrow> string) \<Rightarrow> string \<Rightarrow> string \<Rightarrow> string \<Rightarrow> string \<Rightarrow> (error + job) \<times> db" where
  "retryJob trunc client env d all ten jid rid hids lid eid lid' eid' =
     (case retryTx trunc d all ten jid rid hids lid eid of
        Inl e \<Rightarrow> (Inl e, d)
      | Inr (j, r, d1) \<Rightarrow>
          (case enqueueRetry client (env d1) jid ten
                  (case jb_asset_pack_id j of None \<Rightarrow> '''' | Some p \<Rightarrow> p) r lid' eid' of
             (None, d2) \<Rightarrow> (Inr j, d2)
           | (Some e, d2) \<Rightarrow> (Inl e, d2)))"

end
