(* ===== verification/Job_Service.thy ===== *)
theory Job_Service
  imports Admin_Jobs
begin

text \<open>
  Creating jobs, \<open>internal/jobs/service.go\<close>: the create transaction (fallback classification,
  pricing, concurrency cap, idempotency, job, reservation, pack), the replay of an idempotent
  request, the two completed-at-creation paths of a cache hit, and the enqueue with its cleanup.
  Governance, transform and lineage columns that only pass through are not part of the row.
\<close>

section \<open>Parameters and results\<close>

record fallback_route =
  fr_provider_id :: string
  fr_model_id :: string
  fr_route_id :: string
  fr_preview_capability :: string

record pack_reuse_item =
  ru_variant_key :: string
  ru_asset_id :: string
  ru_match_type :: string
  ru_sort_order :: int

record asset_pack_spec =
  sc_pack_type :: string
  sc_visual_identity_id :: string
  sc_quality_tier :: string
  sc_required_roles :: "string list"
  sc_missing_roles :: "string list"
  sc_reused_items :: "pack_reuse_item list"

record create_params =
  cp_tenant_id :: string
  cp_token_id :: string
  cp_job_type :: string
  cp_world_id :: string
  cp_input_payload :: payload
  cp_fallback_policy :: string
  cp_cache_result :: string
  cp_asset_pack :: "asset_pack_spec option"
  cp_provider_id :: string
  cp_model_id :: string
  cp_route_id :: string
  cp_operation_type :: string
  cp_units :: int
  cp_user_id :: string
  cp_route_chain :: "fallback_route list"
  cp_idempotency_key :: string
  cp_endpoint :: string
  cp_request_hash :: string
  cp_max_concurrent_jobs :: int
  cp_intent :: "string option"
  cp_lazy :: "bool option"
  cp_anchor_asset_id :: "string option"
  cp_derive_from :: "string option"
  cp_visual_identity_id :: "string option"

record create_result =
  cr_job_id :: string
  cr_status :: string
  cr_replayed :: bool
  cr_estimated_cost_usd :: string
  cr_currency :: string
  cr_cost_reservation_id :: string
  cr_asset_pack_id :: string
  cr_cache_result :: string
  cr_final_asset_ids :: "string list"
  cr_concurrent_limit :: int
  cr_concurrent_used :: int

definition empty_result :: create_result where
  "empty_result = \<lparr>cr_job_id = '''', cr_status = '''', cr_replayed = False, cr_estimated_cost_usd = '''',
     cr_currency = '''', cr_cost_reservation_id = '''', cr_asset_pack_id = '''', cr_cache_result = '''',
     cr_final_asset_ids = [], cr_concurrent_limit = 0, cr_concurrent_used = 0\<rparr>"

text \<open>The identifiers one call draws, and the clock \<open>s.now()\<close> of the process.\<close>

record fresh_ids =
  fi_job :: string
  fi_reservation :: string
  fi_hold :: "nat \<Rightarrow> string"
  fi_pack :: string
  fi_item :: "nat \<Rightarrow> string"
  fi_idem :: string
  fi_ledger :: string
  fi_event :: string
  fi_now :: nat

definition IdempotencyTTL :: nat where
  "IdempotencyTTL = 24 * 60 * 60"

section \<open>Idempotency keys\<close>

definition getIdempotencyKey :: "db \<Rightarrow> string \<Rightarrow> string \<Rightarrow> idempotency_key option" where
  "getIdempotencyKey d tok key =
     find (\<lambda>k. ik_token_id k = tok \<and> ik_key k = key \<and> ik_expires_at k > db_now d) (db_idem d)"

text \<open>
  \<open>ON CONFLICT (token_id, key) DO UPDATE ... WHERE expires_at <= now()\<close>: \<open>Inr None\<close> is the
  conflict with a live row, which returns no row.
\<close>

definition insertIdempotencyKey :: "db \<Rightarrow> idempotency_key \<Rightarrow> error + db option" where
  "insertIdempotencyKey d k =
     (case find (\<lambda>x. ik_token_id x = ik_token_id k \<and> ik_key x = ik_key k) (db_idem d) of
        Some old \<Rightarrow>
          if ik_expires_at old \<le> db_now d
          then Inr (Some (d\<lparr>db_idem := update_where
                 (\<lambda>x. ik_token_id x = ik_token_id k \<and> ik_key x = ik_key k) (\<lambda>_. k) (db_idem d)\<rparr>))
          else Inr None
      | None \<Rightarrow>
          (case insert_row ik_id k (db_idem d) of
             Inl e \<Rightarrow> Inl e
           | Inr ks \<Rightarrow> Inr (Some (d\<lparr>db_idem := ks\<rparr>))))"

definition replayResult :: "db \<Rightarrow> idempotency_key \<Rightarrow> string \<Rightarrow> string \<Rightarrow> create_result \<times> error option" where
  "replayResult d k endpoint hash =
     (if ik_endpoint k \<noteq> endpoint then (empty_result, Some ErrIdempotencyConflict)
      else if ik_request_hash k \<noteq> hash then (empty_result, Some ErrIdempotencyConflict)
      else
        (case ik_job_id k of
           None \<Rightarrow> (empty_result, Some (ErrOther ''jobs: idempotency record missing job id''))
         | Some jid \<Rightarrow>
             (case getGenerationJobByIDUnchecked d jid of
                None \<Rightarrow> (empty_result, Some ErrNoRows)
              | Some j \<Rightarrow>
                  let result = empty_result\<lparr>cr_job_id := jb_id j, cr_status := status_text (jb_status j),
                        cr_replayed := True,
                        cr_cost_reservation_id := (case jb_cost_reservation_id j of None \<Rightarrow> '''' | Some r \<Rightarrow> r),
                        cr_asset_pack_id := (case jb_asset_pack_id j of None \<Rightarrow> '''' | Some p \<Rightarrow> p)\<rparr>
                  in (result,
                      if jb_status j = Failed \<and> jb_error_code j = Some ''no_price_entry''
                      then Some ErrNoPriceEntry
                      else if jb_status j = Failed \<and> jb_error_code j = Some ''budget_exceeded''
                      then Some ErrBudgetExceeded
                      else None))))"

text \<open>\<open>replayExisting\<close> runs in a transaction of its own, on the database as it is by then.\<close>

definition replayExisting :: "db \<Rightarrow> string \<Rightarrow> string \<Rightarrow> string \<Rightarrow> string \<Rightarrow> create_result \<times> error option" where
  "replayExisting d tok key endpoint hash =
     (case getIdempotencyKey d tok key of
        None \<Rightarrow> (empty_result, Some ErrNoRows)
      | Some k \<Rightarrow> replayResult d k endpoint hash)"

definition lookupReplay ::
    "db \<Rightarrow> string \<Rightarrow> string \<Rightarrow> string \<Rightarrow> string \<Rightarrow> create_result \<times> bool \<times> error option" where
  "lookupReplay d tok key endpoint hash =
     (case getIdempotencyKey d tok key of
        None \<Rightarrow> (empty_result, False, None)
      | Some k \<Rightarrow> (case replayResult d k endpoint hash of (r, e) \<Rightarrow> (r, True, e)))"

section \<open>Payload and pricing\<close>

definition withResolvedRoutePayload :: "payload \<Rightarrow> string \<Rightarrow> string \<Rightarrow> string \<Rightarrow> payload" where
  "withResolvedRoutePayload p prov model route =
     (let p1 = (if prov \<noteq> '''' then p(''provider_id'' \<mapsto> JStr prov) else p);
          p2 = (if model \<noteq> '''' then p1(''model_id'' \<mapsto> JStr model) else p1)
      in if route \<noteq> '''' then p2(''provider_route_id'' \<mapsto> JStr route) else p2)"

definition route_json :: "fallback_route \<Rightarrow> json" where
  "route_json r = JObj [(''provider_id'', JStr (fr_provider_id r)), (''model_id'', JStr (fr_model_id r)),
     (''provider_route_id'', JStr (fr_route_id r)), (''preview_capability'', JStr (fr_preview_capability r))]"

definition withFallbackRoutesPayload :: "payload \<Rightarrow> fallback_route list \<Rightarrow> payload" where
  "withFallbackRoutesPayload p fs =
     (if fs \<noteq> [] then p(''fallback_routes'' \<mapsto> JArr (map route_json fs)) else p)"

definition withCostContextPayload :: "payload \<Rightarrow> string \<Rightarrow> int \<Rightarrow> payload" where
  "withCostContextPayload p op units =
     (let p1 = (if op \<noteq> '''' then p(''operation_type'' \<mapsto> JStr op) else p)
      in if units > 0 then p1(''units'' \<mapsto> JNum (of_int units)) else p1)"

definition samePriceFallbacksWithQueries :: "db \<Rightarrow> create_params \<Rightarrow> fallback_route list" where
  "samePriceFallbacksWithQueries d c =
     (case active_price d (cp_provider_id c) (cp_model_id c) (cp_operation_type c) of
        None \<Rightarrow> []
      | Some primary \<Rightarrow>
          filter (\<lambda>cand.
             \<not> (fr_provider_id cand = cp_provider_id c \<and> fr_model_id cand = cp_model_id c
                \<and> fr_route_id cand = cp_route_id c)
             \<and> (case active_price d (fr_provider_id cand) (fr_model_id cand) (cp_operation_type c) of
                  None \<Rightarrow> False
                | Some price \<Rightarrow> pr_price_per_unit price = pr_price_per_unit primary
                    \<and> pr_unit_type price = pr_unit_type primary
                    \<and> pr_currency price = pr_currency primary)) (cp_route_chain c))"

definition worstCaseBillableUnits :: "create_params \<Rightarrow> int" where
  "worstCaseBillableUnits c =
     (let cells = (case cp_asset_pack c of
                     None \<Rightarrow> cp_units c
                   | Some s \<Rightarrow> if sc_missing_roles s \<noteq> [] then int32 (int (length (sc_missing_roles s)))
                               else cp_units c);
          cells1 = (if cells < 1 then 1 else cells);
          phases = (if payloadString (cp_input_payload c) ''delivery_mode'' = ''preview_first''
                      \<and> payloadString (cp_input_payload c) ''preview_capability'' = ''true_preview''
                    then 2 else 1);
          maxInt32 = 2 ^ 31 - 1
      in if cells1 * phases \<le> maxInt32 then cells1 * phases else maxInt32)"

text \<open>
  The parameters after the transaction has completed them: the resolved route, the same-price
  fallbacks (or none), the units and the cost context.
\<close>

definition priced_params :: "db \<Rightarrow> create_params \<Rightarrow> create_params" where
  "priced_params d c =
     (let p0 = withResolvedRoutePayload (cp_input_payload c) (cp_provider_id c) (cp_model_id c) (cp_route_id c);
          fallbacks = (if cp_route_chain c = [] then [] else samePriceFallbacksWithQueries d c);
          p1 = (if fallbacks \<noteq> [] then withFallbackRoutesPayload p0 fallbacks
                else p0(''fallback_routes'' := None));
          units = worstCaseBillableUnits (c\<lparr>cp_input_payload := p1\<rparr>)
      in c\<lparr>cp_units := units, cp_input_payload := withCostContextPayload p1 (cp_operation_type c) units\<rparr>)"

section \<open>Inserting\<close>

definition new_job :: "string \<Rightarrow> create_params \<Rightarrow> job" where
  "new_job jid c =
     \<lparr>jb_id = jid, jb_tenant_id = cp_tenant_id c, jb_world_id = Some (cp_world_id c),
      jb_job_type = cp_job_type c, jb_status = Queued, jb_requested_by_token_id = Some (cp_token_id c),
      jb_visual_identity_id = cp_visual_identity_id c, jb_asset_pack_id = None,
      jb_input_payload = cp_input_payload c, jb_requested_outputs = [],
      jb_fallback_policy = Some (cp_fallback_policy c), jb_cache_result = Some (cp_cache_result c),
      jb_preview_asset_ids = [], jb_final_asset_ids = [], jb_error_code = None, jb_error_message = None,
      jb_retryable = None, jb_cost_reservation_id = None, jb_cost_estimate = None, jb_actual_cost = None,
      jb_started_at = None, jb_completed_at = None, jb_intent = cp_intent c, jb_lazy = cp_lazy c,
      jb_anchor_asset_id = cp_anchor_asset_id c, jb_derive_from = cp_derive_from c\<rparr>"

definition insertJobRow :: "db \<Rightarrow> job \<Rightarrow> error + db" where
  "insertJobRow d j =
     (case insert_row jb_id j (db_jobs d) of Inl e \<Rightarrow> Inl e | Inr js \<Rightarrow> Inr (d\<lparr>db_jobs := js\<rparr>))"

definition insertJob :: "db \<Rightarrow> string \<Rightarrow> create_params \<Rightarrow> error + db" where
  "insertJob d jid c = insertJobRow d (new_job jid c)"

definition insertAssetPack :: "db \<Rightarrow> asset_pack \<Rightarrow> error + db" where
  "insertAssetPack d p =
     (case insert_row pk_id p (db_packs d) of Inl e \<Rightarrow> Inl e | Inr ps \<Rightarrow> Inr (d\<lparr>db_packs := ps\<rparr>))"

definition reuseVariantKeys :: "pack_reuse_item list \<Rightarrow> string list" where
  "reuseVariantKeys items = map ru_variant_key items"

fun insertReusedPackItems :: "db \<Rightarrow> string \<Rightarrow> (nat \<Rightarrow> string) \<Rightarrow> pack_reuse_item list \<Rightarrow> error + db" where
  "insertReusedPackItems d pid iid [] = Inr d"
| "insertReusedPackItems d pid iid (i # is) =
     (case insertAssetPackItem d \<lparr>pi_id = iid (length is), pi_pack_id = pid, pi_asset_id = ru_asset_id i,
             pi_variant_key = ru_variant_key i, pi_sort_order = ru_sort_order i\<rparr> of
        Inl e \<Rightarrow> Inl e
      | Inr d' \<Rightarrow> insertReusedPackItems d' pid iid is)"

definition insertPack :: "db \<Rightarrow> string \<Rightarrow> string \<Rightarrow> (nat \<Rightarrow> string) \<Rightarrow> create_params \<Rightarrow> asset_pack_spec \<Rightarrow> error + db" where
  "insertPack d pid jid iid c spec =
     (case insertAssetPack d
             \<lparr>pk_id = pid, pk_tenant_id = cp_tenant_id c, pk_world_id = cp_world_id c,
              pk_visual_identity_id = Some (sc_visual_identity_id spec), pk_pack_type = sc_pack_type spec,
              pk_style_profile_id = payloadString (cp_input_payload c) ''style_profile_id'',
              pk_quality_tier = (if sc_quality_tier spec = '''' then ''standard'' else sc_quality_tier spec),
              pk_status = Planned, pk_required_roles = sc_required_roles spec,
              pk_delivered_roles = reuseVariantKeys (sc_reused_items spec),
              pk_missing_roles = sc_missing_roles spec, pk_created_by_job_id = Some jid,
              pk_created_by_token_id = Some (cp_token_id c)\<rparr> of
        Inl e \<Rightarrow> Inl e
      | Inr d1 \<Rightarrow> insertReusedPackItems d1 pid iid (sc_reused_items spec))"

section \<open>The create transaction\<close>

definition preflightMessage :: "string \<Rightarrow> string" where
  "preflightMessage reason =
     (if reason = ''no_price_entry'' then ''no active price entry for the selected provider/model/operation''
      else if reason = ''budget_exceeded'' then ''cost budget exceeded for this request''
      else ''cost pre-flight failed'')"

definition failureError :: "string \<Rightarrow> error" where
  "failureError reason =
     (if reason = ''no_price_entry'' then ErrNoPriceEntry
      else if reason = ''budget_exceeded'' then ErrBudgetExceeded
      else ErrOther (''jobs: pre-flight failed: '' @ reason))"

text \<open>
  How the transaction ends: rolled back with an error, rolled back to replay the winner of the
  key, or committed with the reservation outcome, the pack (or the empty string) and the
  number of live jobs it counted.
\<close>

datatype create_tx =
    TxError error
  | TxReplay
  | TxCommitted reservation_result string int db

definition reserve_input_of :: "string \<Rightarrow> create_params \<Rightarrow> reserve_input" where
  "reserve_input_of jid c =
     \<lparr>ri_job_id = jid, ri_tenant_id = cp_tenant_id c, ri_token_id = cp_token_id c,
      ri_world_id = cp_world_id c, ri_user_id = cp_user_id c, ri_provider_id = cp_provider_id c,
      ri_model_id = cp_model_id c, ri_operation_type = cp_operation_type c, ri_units = cp_units c\<rparr>"

text \<open>Steps 2 to 4: reserve, link, and mark the job failed when the pre-flight denied it.\<close>

definition preflight ::
    "date_trunc \<Rightarrow> db \<Rightarrow> cost_budget list \<Rightarrow> fresh_ids \<Rightarrow> create_params \<Rightarrow> error + reservation_result \<times> db" where
  "preflight trunc d all f c =
     (case reserve trunc d all (reserve_input_of (fi_job f) c) (fi_reservation f) (fi_hold f) of
        Inl e \<Rightarrow> Inl e
      | Inr (res, d1) \<Rightarrow>
          let d2 = setGenerationJobCost d1 (fi_job f) (rr_id res) (rr_estimated res)
          in if failed res
             then (case markGenerationJobFailed d2 (fi_job f) (cp_tenant_id c) (rr_failure_reason res)
                          (preflightMessage (rr_failure_reason res)) False (Some (rr_id res)) of
                     None \<Rightarrow> Inl ErrNoRows
                   | Some (_, d3) \<Rightarrow> Inr (res, d3))
             else Inr (res, d2))"

text \<open>Step 4b: the pack of an accepted pack request; the result names it.\<close>

definition createPack :: "db \<Rightarrow> fresh_ids \<Rightarrow> create_params \<Rightarrow> reservation_result \<Rightarrow> error + string \<times> db" where
  "createPack d f c res =
     (case cp_asset_pack c of
        None \<Rightarrow> Inr ('''', d)
      | Some spec \<Rightarrow>
          if failed res then Inr ('''', d)
          else (case insertPack d (fi_pack f) (fi_job f) (fi_item f) c spec of
                  Inl e \<Rightarrow> Inl e
                | Inr d1 \<Rightarrow> Inr (fi_pack f, setGenerationJobAssetPack d1 (fi_job f) (fi_pack f))))"

text \<open>Step 5: the idempotency row; \<open>Inr None\<close> is the lost race.\<close>

definition claimKey ::
    "db \<Rightarrow> string \<Rightarrow> string \<Rightarrow> string \<Rightarrow> string \<Rightarrow> string \<Rightarrow> string \<Rightarrow> nat \<Rightarrow> error + db option" where
  "claimKey d kid tok key endpoint hash jid now =
     (if key = '''' then Inr (Some d)
      else insertIdempotencyKey d \<lparr>ik_id = kid, ik_token_id = tok, ik_key = key, ik_endpoint = endpoint,
             ik_request_hash = hash, ik_job_id = Some jid, ik_expires_at = now + IdempotencyTTL\<rparr>)"

definition createTx :: "date_trunc \<Rightarrow> db \<Rightarrow> cost_budget list \<Rightarrow> fresh_ids \<Rightarrow> create_params \<Rightarrow> create_tx" where
  "createTx trunc d all f c0 =
     (if cp_tenant_id c0 = '''' then TxError ErrNoTenant
      else
        let c = priced_params d c0;
            live = (if cp_max_concurrent_jobs c > 0
                    then int (countLiveGenerationJobsByToken d (cp_token_id c)) else 0)
        in
        if cp_idempotency_key c \<noteq> '''' \<and> getIdempotencyKey d (cp_token_id c) (cp_idempotency_key c) \<noteq> None
        then TxReplay
        else if cp_max_concurrent_jobs c > 0 \<and> live \<ge> cp_max_concurrent_jobs c
        then TxError ErrConcurrentJobsExceeded
        else
          (case insertJob d (fi_job f) c of
             Inl e \<Rightarrow> TxError e
           | Inr d1 \<Rightarrow>
               (case preflight trunc d1 all f c of
                  Inl e \<Rightarrow> TxError e
                | Inr (res, d2) \<Rightarrow>
                    (case createPack d2 f c res of
                       Inl e \<Rightarrow> TxError e
                     | Inr (pid, d3) \<Rightarrow>
                         (case claimKey d3 (fi_idem f) (cp_token_id c) (cp_idempotency_key c) (cp_endpoint c)
                                 (cp_request_hash c) (fi_job f) (fi_now f) of
                            Inl e \<Rightarrow> TxError e
                          | Inr None \<Rightarrow> TxReplay
                          | Inr (Some d4) \<Rightarrow> TxCommitted res pid live d4)))))"

section \<open>Enqueue and the whole call\<close>

text \<open>
  \<open>enqueue\<close>. The finalizer is wired in production (\<open>cmd/api/main.go\<close>), so the cleanup releases.
\<close>

definition enqueueCleanup ::
    "db \<Rightarrow> string \<Rightarrow> string \<Rightarrow> string \<Rightarrow> string \<Rightarrow> string \<Rightarrow> string \<Rightarrow> string \<Rightarrow> error + db" where
  "enqueueCleanup d jid ten pid rid msg lid eid =
     (if ten = '''' then Inl ErrNoTenant
      else
        (case markGenerationJobFailed d jid ten ''enqueue_failed'' msg False (strPtr rid) of
           None \<Rightarrow> Inl ErrNoRows
         | Some (_, d1) \<Rightarrow>
             releaseInTx (if pid \<noteq> '''' then updateAssetPackStatusForJob d1 pid jid Pack_failed else d1)
               jid lid eid))"

definition enqueue ::
    "queue_client \<Rightarrow> db \<Rightarrow> string \<Rightarrow> string \<Rightarrow> string \<Rightarrow> string \<Rightarrow> string \<Rightarrow> string \<Rightarrow> error option \<times> db" where
  "enqueue client d jid ten pid rid lid eid =
     (case enqueueFor client jid pid rid of
        None \<Rightarrow> (None, d)
      | Some msg \<Rightarrow>
          (Some ErrEnqueueFailed,
           case enqueueCleanup d jid ten pid rid msg lid eid of Inl _ \<Rightarrow> d | Inr d' \<Rightarrow> d'))"

definition createAndEnqueue ::
    "date_trunc \<Rightarrow> queue_client \<Rightarrow> (db \<Rightarrow> db) \<Rightarrow> db \<Rightarrow> cost_budget list \<Rightarrow> fresh_ids \<Rightarrow> create_params
     \<Rightarrow> create_result \<times> error option \<times> db" where
  "createAndEnqueue trunc client env d all f c =
     (case createTx trunc d all f c of
        TxError e \<Rightarrow> (empty_result, Some e, d)
      | TxReplay \<Rightarrow>
          (case replayExisting (env d) (cp_token_id c) (cp_idempotency_key c) (cp_endpoint c) (cp_request_hash c) of
             (r, e) \<Rightarrow> (r, e, env d))
      | TxCommitted res pid live d1 \<Rightarrow>
          if failed res
          then (empty_result\<lparr>cr_job_id := fi_job f, cr_status := ''failed'',
                  cr_estimated_cost_usd := rr_estimate_usd res, cr_currency := rr_currency res,
                  cr_cost_reservation_id := rr_id res\<rparr>,
                Some (failureError (rr_failure_reason res)), d1)
          else
            (case enqueue client (env d1) (fi_job f) (cp_tenant_id c) pid (rr_id res) (fi_ledger f) (fi_event f) of
               (Some e, d2) \<Rightarrow>
                 (empty_result\<lparr>cr_job_id := fi_job f, cr_status := ''failed'', cr_asset_pack_id := pid\<rparr>, Some e, d2)
             | (None, d2) \<Rightarrow>
                 (empty_result\<lparr>cr_job_id := fi_job f, cr_status := ''queued'',
                    cr_estimated_cost_usd := rr_estimate_usd res, cr_currency := rr_currency res,
                    cr_cost_reservation_id := rr_id res, cr_asset_pack_id := pid,
                    cr_concurrent_limit := (if cp_max_concurrent_jobs c > 0 then cp_max_concurrent_jobs c else 0),
                    cr_concurrent_used := (if cp_max_concurrent_jobs c > 0 then live + 1 else 0)\<rparr>, None, d2)))"

section \<open>Jobs that are complete at creation\<close>

record cache_hit_params =
  ch_tenant_id :: string
  ch_token_id :: string
  ch_job_type :: string
  ch_world_id :: string
  ch_visual_identity_id :: "string option"
  ch_input_payload :: payload
  ch_fallback_policy :: string
  ch_final_asset_id :: string
  ch_requested_outputs :: "string list"
  ch_idempotency_key :: string
  ch_endpoint :: string
  ch_request_hash :: string

definition completed_job ::
    "string \<Rightarrow> string \<Rightarrow> string \<Rightarrow> string option \<Rightarrow> string \<Rightarrow> string \<Rightarrow> payload \<Rightarrow> string list \<Rightarrow> string
     \<Rightarrow> string \<Rightarrow> string list \<Rightarrow> nat \<Rightarrow> job" where
  "completed_job jid ten world ident jtype tok payload outputs policy cache final now =
     \<lparr>jb_id = jid, jb_tenant_id = ten, jb_world_id = Some world, jb_job_type = jtype,
      jb_status = Completed, jb_requested_by_token_id = Some tok, jb_visual_identity_id = ident,
      jb_asset_pack_id = None, jb_input_payload = payload, jb_requested_outputs = outputs,
      jb_fallback_policy = Some policy, jb_cache_result = Some cache, jb_preview_asset_ids = [],
      jb_final_asset_ids = final, jb_error_code = None, jb_error_message = None, jb_retryable = None,
      jb_cost_reservation_id = None, jb_cost_estimate = Some 0, jb_actual_cost = Some 0,
      jb_started_at = None, jb_completed_at = Some now, jb_intent = None, jb_lazy = None,
      jb_anchor_asset_id = None, jb_derive_from = None\<rparr>"

definition createCompletedCacheHitJob ::
    "(db \<Rightarrow> db) \<Rightarrow> db \<Rightarrow> fresh_ids \<Rightarrow> cache_hit_params \<Rightarrow> create_result \<times> error option \<times> db" where
  "createCompletedCacheHitJob env d f c =
     (if ch_tenant_id c = '''' then (empty_result, Some ErrNoTenant, d)
      else
        (case insertJobRow d (completed_job (fi_job f) (ch_tenant_id c) (ch_world_id c) (ch_visual_identity_id c)
                (ch_job_type c) (ch_token_id c) (ch_input_payload c)
                (if ch_requested_outputs c = [] then [''default''] else ch_requested_outputs c)
                (ch_fallback_policy c) ''exact_match'' [ch_final_asset_id c] (db_now d)) of
           Inl e \<Rightarrow> (empty_result, Some e, d)
         | Inr d1 \<Rightarrow>
             (case claimKey d1 (fi_idem f) (ch_token_id c) (ch_idempotency_key c) (ch_endpoint c)
                     (ch_request_hash c) (fi_job f) (fi_now f) of
                Inl e \<Rightarrow> (empty_result, Some e, d)
              | Inr None \<Rightarrow>
                  (case replayExisting (env d) (ch_token_id c) (ch_idempotency_key c) (ch_endpoint c)
                          (ch_request_hash c) of (r, e) \<Rightarrow> (r, e, env d))
              | Inr (Some d2) \<Rightarrow>
                  (empty_result\<lparr>cr_job_id := fi_job f, cr_status := ''completed'',
                     cr_estimated_cost_usd := ''0.0000'', cr_cache_result := ''exact_match'',
                     cr_final_asset_ids := [ch_final_asset_id c]\<rparr>, None, d2))))"

record pack_reuse_params =
  pp_tenant_id :: string
  pp_token_id :: string
  pp_job_type :: string
  pp_world_id :: string
  pp_input_payload :: payload
  pp_fallback_policy :: string
  pp_cache_result :: string
  pp_pack_type :: string
  pp_visual_identity_id :: string
  pp_quality_tier :: string
  pp_required_roles :: "string list"
  pp_reused_items :: "pack_reuse_item list"
  pp_idempotency_key :: string
  pp_endpoint :: string
  pp_request_hash :: string

definition packReuseTx :: "db \<Rightarrow> fresh_ids \<Rightarrow> pack_reuse_params \<Rightarrow> error + db" where
  "packReuseTx d f c =
     (case insertJobRow d (completed_job (fi_job f) (pp_tenant_id c) (pp_world_id c)
             (strPtr (pp_visual_identity_id c)) (pp_job_type c) (pp_token_id c) (pp_input_payload c)
             (pp_required_roles c) (pp_fallback_policy c)
             (if pp_cache_result c = '''' then ''exact_match'' else pp_cache_result c)
             (map ru_asset_id (pp_reused_items c)) (db_now d)) of
        Inl e \<Rightarrow> Inl e
      | Inr d1 \<Rightarrow>
          (case insertAssetPack d1
                  \<lparr>pk_id = fi_pack f, pk_tenant_id = pp_tenant_id c, pk_world_id = pp_world_id c,
                   pk_visual_identity_id = Some (pp_visual_identity_id c), pk_pack_type = pp_pack_type c,
                   pk_style_profile_id = payloadString (pp_input_payload c) ''style_profile_id'',
                   pk_quality_tier = (if pp_quality_tier c = '''' then ''standard'' else pp_quality_tier c),
                   pk_status = Pack_completed, pk_required_roles = pp_required_roles c,
                   pk_delivered_roles = reuseVariantKeys (pp_reused_items c), pk_missing_roles = [],
                   pk_created_by_job_id = Some (fi_job f), pk_created_by_token_id = Some (pp_token_id c)\<rparr> of
             Inl e \<Rightarrow> Inl e
           | Inr d2 \<Rightarrow>
               insertReusedPackItems (setGenerationJobAssetPack d2 (fi_job f) (fi_pack f)) (fi_pack f)
                 (fi_item f) (pp_reused_items c)))"

definition createCompletedPackReuseJob ::
    "(db \<Rightarrow> db) \<Rightarrow> db \<Rightarrow> fresh_ids \<Rightarrow> pack_reuse_params \<Rightarrow> create_result \<times> error option \<times> db" where
  "createCompletedPackReuseJob env d f c =
     (if pp_tenant_id c = '''' then (empty_result, Some ErrNoTenant, d)
      else
        (case packReuseTx d f c of
           Inl e \<Rightarrow> (empty_result, Some e, d)
         | Inr d1 \<Rightarrow>
             (case claimKey d1 (fi_idem f) (pp_token_id c) (pp_idempotency_key c) (pp_endpoint c)
                     (pp_request_hash c) (fi_job f) (fi_now f) of
                Inl e \<Rightarrow> (empty_result, Some e, d)
              | Inr None \<Rightarrow>
                  (case replayExisting (env d) (pp_token_id c) (pp_idempotency_key c) (pp_endpoint c)
                          (pp_request_hash c) of (r, e) \<Rightarrow> (r, e, env d))
              | Inr (Some d2) \<Rightarrow>
                  (empty_result\<lparr>cr_job_id := fi_job f, cr_status := ''completed'',
                     cr_estimated_cost_usd := ''0.0000'',
                     cr_cache_result := (if pp_cache_result c = '''' then ''exact_match'' else pp_cache_result c),
                     cr_final_asset_ids := map ru_asset_id (pp_reused_items c),
                     cr_asset_pack_id := fi_pack f\<rparr>, None, d2))))"

end
