(* ===== verification/Worker_Monad.thy ===== *)
theory Worker_Monad
  imports Job_Service "HOL-Library.State_Monad"
begin

text \<open>
  The setting of the worker. A worker run is a sequence of database transactions, provider
  calls, uploads and webhook emissions; between two transactions of one run any other process
  may commit its own. The world carries the database, the list of what others do before each
  transaction of this run (a list of functions, quantified over in the theorems), and logs of
  what the run did outside the database. The provider adapters, the object store, the
  identity references and the random identifiers are ports: parameters of the model.
\<close>

section \<open>Values\<close>

record image =
  im_dims :: "(int \<times> int) option"

record gen_result =
  rs_images :: "image list"
  rs_prompt_hash :: string
  rs_actual_cost :: "amount option"
  rs_cost_currency :: string

record gen_request =
  gr_prompt :: string
  gr_negative_prompt :: string
  gr_width :: int
  gr_height :: int
  gr_aspect_ratio :: string
  gr_reference_urls :: "string list"

record resolved_route =
  rt_provider_id :: string
  rt_model_id :: string
  rt_route_id :: string

datatype provider_error = ErrContentPolicyRejected | ErrProviderUnpaid | ErrReferenceRequired | ProviderFault string

text \<open>The errors a run returns or records; the wrapped message texts are not kept.\<close>

datatype work_error =
    ProviderErr provider_error
  | StorageFailure
  | PlainStorageError
  | PersistenceErr error
  | MaxMegapixelsExceeded
  | ProviderUnavailable
  | BillableCapReached
  | PackJobNotActive
  | BackgroundRemoval
  | DbErr error

record webhook_event =
  we_tenant :: string
  we_event :: string
  we_job_id :: string
  we_asset_ids :: "string list"
  we_error_code :: string

record world =
  wd_db :: db
  wd_env :: "(db \<Rightarrow> db) list"
  wd_calls :: "(string \<times> gen_request) list"
  wd_webhooks :: "webhook_event list"
  wd_anchors :: "(string \<times> string \<times> string) list"
  wd_fresh :: nat

text \<open>
  The ports. \<open>pt_adapter p\<close> is \<open>None\<close> when provider \<open>p\<close> is not registered, else whether it requires
  reference images; \<open>pt_generate n\<close> answers the \<open>n\<close>-th provider call of the run; \<open>pt_upload\<close>
  stores the tiers of an asset (\<open>Some\<close> is the error); \<open>pt_refs\<close> gathers the reference URLs of
  an identity (\<open>Inl True\<close> is an invalid anchor, \<open>Inl False\<close> any other failure);
  \<open>pt_parse_float\<close> is \<open>strconv.ParseFloat\<close> with 0 for an unparsable text.
\<close>

record ports =
  pt_adapter :: "string \<Rightarrow> bool option"
  pt_generate :: "nat \<Rightarrow> string \<Rightarrow> gen_request \<Rightarrow> gen_result \<times> provider_error option"
  pt_upload :: "string \<Rightarrow> image list \<Rightarrow> work_error option"
  pt_refs :: "string \<Rightarrow> string \<Rightarrow> bool + string list"
  pt_background :: "(image \<Rightarrow> image option) option"
  pt_chroma_key :: bool
  pt_id :: "nat \<Rightarrow> string"
  pt_latency :: "nat \<Rightarrow> int"
  pt_parse_float :: "string \<Rightarrow> rat"

type_synonym 'a worker = "(world, 'a) state"

section \<open>Steps\<close>

text \<open>One transaction of the run: whatever others did first, then ours.\<close>

definition dbcall :: "(db \<Rightarrow> 'a \<times> db) \<Rightarrow> 'a worker" where
  "dbcall f = State (\<lambda>w.
     (case wd_env w of
        [] \<Rightarrow> (case f (wd_db w) of (a, d) \<Rightarrow> (a, w\<lparr>wd_db := d\<rparr>))
      | e # es \<Rightarrow> (case f (e (wd_db w)) of (a, d) \<Rightarrow> (a, w\<lparr>wd_db := d, wd_env := es\<rparr>))))"

definition tx :: "(db \<Rightarrow> error + 'a \<times> db) \<Rightarrow> (error + 'a) worker" where
  "tx t = dbcall (\<lambda>d. case t d of Inl e \<Rightarrow> (Inl e, d) | Inr (a, d') \<Rightarrow> (Inr a, d'))"

definition tx_unit :: "(db \<Rightarrow> error + db) \<Rightarrow> (error option) worker" where
  "tx_unit t = dbcall (\<lambda>d. case t d of Inl e \<Rightarrow> (Some e, d) | Inr d' \<Rightarrow> (None, d'))"

definition exec :: "(db \<Rightarrow> db) \<Rightarrow> unit worker" where
  "exec f = dbcall (\<lambda>d. ((), f d))"

definition query :: "(db \<Rightarrow> 'a) \<Rightarrow> 'a worker" where
  "query f = dbcall (\<lambda>d. (f d, d))"

definition newID :: "ports \<Rightarrow> string worker" where
  "newID p = State (\<lambda>w. (pt_id p (wd_fresh w), w\<lparr>wd_fresh := Suc (wd_fresh w)\<rparr>))"

definition generate :: "ports \<Rightarrow> string \<Rightarrow> gen_request \<Rightarrow> (gen_result \<times> provider_error option \<times> int) worker" where
  "generate p prov req = State (\<lambda>w.
     let n = length (wd_calls w); (r, e) = pt_generate p n prov req
     in ((r, e, pt_latency p n), w\<lparr>wd_calls := wd_calls w @ [(prov, req)]\<rparr>))"

definition emit :: "job \<Rightarrow> string \<Rightarrow> string list \<Rightarrow> string \<Rightarrow> unit worker" where
  "emit j ev assets code = State (\<lambda>w. ((), w\<lparr>wd_webhooks := wd_webhooks w @
     [\<lparr>we_tenant = jb_tenant_id j, we_event = ev, we_job_id = jb_id j, we_asset_ids = assets, we_error_code = code\<rparr>]\<rparr>))"

section \<open>What every step keeps\<close>

text \<open>
  \<open>holds J m\<close>: the run \<open>m\<close> leads from worlds with \<open>J\<close> to worlds with \<open>J\<close>. An invariant \<open>I\<close> of the
  shared database is stable when the others keep it too; \<open>keeps I m\<close> says that the run keeps
  \<open>I\<close> whatever such others do between its transactions.
\<close>

definition holds :: "(world \<Rightarrow> bool) \<Rightarrow> 'a worker \<Rightarrow> bool" where
  "holds J m \<longleftrightarrow> (\<forall>w a w'. run_state m w = (a, w') \<longrightarrow> J w \<longrightarrow> J w')"

definition stable :: "(db \<Rightarrow> bool) \<Rightarrow> world \<Rightarrow> bool" where
  "stable I w \<longleftrightarrow> (\<forall>e \<in> set (wd_env w). \<forall>d. I d \<longrightarrow> I (e d)) \<and> I (wd_db w)"

abbreviation keeps :: "(db \<Rightarrow> bool) \<Rightarrow> 'a worker \<Rightarrow> bool" where
  "keeps I \<equiv> holds (stable I)"

named_theorems holds_intro "rules for runs that keep a predicate"

lemma holdsD: "holds J m \<Longrightarrow> run_state m w = (a, w') \<Longrightarrow> J w \<Longrightarrow> J w'"
  by (simp add: holds_def)

lemma run_state_bind: "run_state (m \<bind> f) w = (case run_state m w of (a, w') \<Rightarrow> run_state (f a) w')"
  by (simp add: State_Monad.bind_def)

lemma holds_return [holds_intro]: "holds J (State_Monad.return a)"
  by (simp add: holds_def)

lemma holds_bind [holds_intro]:
  assumes "holds J m" "\<And>a. holds J (f a)"
  shows "holds J (m \<bind> f)"
  unfolding holds_def run_state_bind
proof (intro allI impI)
  fix w b w''
  assume r: "(case run_state m w of (a, w') \<Rightarrow> run_state (f a) w') = (b, w'')" and e: "J w"
  obtain a w' where m: "run_state m w = (a, w')" by (cases "run_state m w")
  from holdsD [OF assms(1) m e] have "J w'" .
  with r m show "J w''" by (auto dest: holdsD [OF assms(2)])
qed

lemma holds_if [holds_intro]: "holds J m \<Longrightarrow> holds J n \<Longrightarrow> holds J (if b then m else n)"
  by simp

lemma holds_sum [holds_intro]:
  "(\<And>e. holds J (f e)) \<Longrightarrow> (\<And>a. holds J (g a)) \<Longrightarrow> holds J (case x of Inl e \<Rightarrow> f e | Inr a \<Rightarrow> g a)"
  by (simp split: sum.split)

lemma holds_option [holds_intro]:
  "holds J m \<Longrightarrow> (\<And>a. holds J (g a)) \<Longrightarrow> holds J (case x of None \<Rightarrow> m | Some a \<Rightarrow> g a)"
  by (simp split: option.split)

lemma holds_prod [holds_intro]: "(\<And>a b. holds J (f a b)) \<Longrightarrow> holds J (case x of (a, b) \<Rightarrow> f a b)"
  by (simp split: prod.split)

lemma holds_case_status [holds_intro]:
  "holds J a \<Longrightarrow> holds J b \<Longrightarrow> holds J c \<Longrightarrow> holds J e \<Longrightarrow> holds J f \<Longrightarrow> holds J g \<Longrightarrow>
   holds J (case s of Queued \<Rightarrow> a | Running \<Rightarrow> b | Preview_ready \<Rightarrow> c | Completed \<Rightarrow> e | Failed \<Rightarrow> f | Cancelled \<Rightarrow> g)"
  by (simp split: job_status.split)

lemma holds_case_outcome [holds_intro]:
  "holds J a \<Longrightarrow> holds J b \<Longrightarrow> holds J c \<Longrightarrow> holds J e \<Longrightarrow> holds J f \<Longrightarrow>
   holds J (case s of PersistPersisted \<Rightarrow> a | PersistSkippedCancelled \<Rightarrow> b | PersistAlreadyCompleted \<Rightarrow> c
     | PersistAlreadyPreviewReady \<Rightarrow> e | PersistAlreadyTerminal \<Rightarrow> f)"
  by (simp split: persist_outcome.split)

lemma holds_let [holds_intro]: "(\<And>x. holds J (f x)) \<Longrightarrow> holds J (let x = y in f x)"
  by simp

text \<open>Under interference, a transaction keeps what it and the others keep.\<close>

lemma keeps_dbcall:
  assumes "\<And>d a d'. f d = (a, d') \<Longrightarrow> I d \<Longrightarrow> I d'"
  shows "keeps I (dbcall f)"
  unfolding holds_def dbcall_def
  using assms by (auto simp: stable_def split: list.splits prod.splits)

lemma keeps_tx:
  assumes "\<And>d a d'. t d = Inr (a, d') \<Longrightarrow> I d \<Longrightarrow> I d'"
  shows "keeps I (tx t)"
  unfolding tx_def using assms by (intro keeps_dbcall) (auto split: sum.splits)

lemma keeps_tx_unit:
  assumes "\<And>d d'. t d = Inr d' \<Longrightarrow> I d \<Longrightarrow> I d'"
  shows "keeps I (tx_unit t)"
  unfolding tx_unit_def using assms by (intro keeps_dbcall) (auto split: sum.splits)

lemma keeps_exec: "(\<And>d. I d \<Longrightarrow> I (f d)) \<Longrightarrow> keeps I (exec f)"
  unfolding exec_def by (intro keeps_dbcall) auto

lemma keeps_query: "keeps I (query f)"
  unfolding query_def by (intro keeps_dbcall) auto

lemma keeps_newID: "keeps I (newID p)"
  by (auto simp: holds_def newID_def stable_def)

lemma keeps_generate: "keeps I (generate p prov req)"
  by (auto simp: holds_def generate_def stable_def Let_def split: prod.splits)

lemma keeps_emit: "keeps I (emit j ev as c)"
  by (auto simp: holds_def emit_def stable_def)

end
