(* ===== verification/Worker.thy ===== *)
theory Worker
  imports Worker_Monad
begin

text \<open>
  The worker of single-image jobs, \<open>internal/jobs/worker.go\<close>: claiming a job, walking the
  provider chain under the billable-call cap, the guarded writes and the cost finalization, on
  the one-phase and on the two-phase (preview first) path. \<open>erid\<close> is the reservation the task
  carries, the empty string for none. Logging and metrics are left out.
\<close>

section \<open>Payload readers\<close>

definition composePromptWithStyle :: "string \<Rightarrow> string \<Rightarrow> string" where
  "composePromptWithStyle description style =
     (let de = trimSpace description; st = trimSpace style
      in if de = '''' then st else if st = '''' then de else de @ [CHR 0x0A, CHR 0x0A] @ st)"

definition payloadBool :: "payload \<Rightarrow> string \<Rightarrow> bool" where
  "payloadBool p k = (case p k of Some (JBool b) \<Rightarrow> b | _ \<Rightarrow> False)"

definition payloadInt32Ptr :: "payload \<Rightarrow> string \<Rightarrow> int option" where
  "payloadInt32Ptr p k = (case p k of Some (JNum q) \<Rightarrow> Some (int32 (if q \<ge> 0 then \<lfloor>q\<rfloor> else \<lceil>q\<rceil>)) | _ \<Rightarrow> None)"

definition payloadFloat64 :: "ports \<Rightarrow> payload \<Rightarrow> string \<Rightarrow> rat" where
  "payloadFloat64 pt p k = (case p k of Some (JNum q) \<Rightarrow> q | Some (JStr s) \<Rightarrow> pt_parse_float pt s | _ \<Rightarrow> 0)"

definition isPreviewFirst :: "job \<Rightarrow> bool" where
  "isPreviewFirst j \<longleftrightarrow> payloadString (jb_input_payload j) ''delivery_mode'' = ''preview_first''
     \<and> payloadString (jb_input_payload j) ''preview_capability'' = ''true_preview''"

definition resolvedRouteFromPayload :: "payload \<Rightarrow> resolved_route option" where
  "resolvedRouteFromPayload p =
     (let rr = \<lparr>rt_provider_id = payloadString p ''provider_id'', rt_model_id = payloadString p ''model_id'',
                rt_route_id = payloadString p ''provider_route_id''\<rparr>
      in if rt_provider_id rr = '''' \<or> rt_model_id rr = '''' then None else Some rr)"

text \<open>A JSON object of the array read as a payload; a later duplicate key would win.\<close>

definition obj_payload :: "(string \<times> json) list \<Rightarrow> payload" where
  "obj_payload kvs = map_of (rev kvs)"

fun fallback_routes :: "json list \<Rightarrow> resolved_route list" where
  "fallback_routes [] = []"
| "fallback_routes (JObj kvs # js) =
     (case resolvedRouteFromPayload (obj_payload kvs) of
        None \<Rightarrow> fallback_routes js
      | Some rr \<Rightarrow> rr # fallback_routes js)"
| "fallback_routes (_ # js) = fallback_routes js"

definition fallbackRoutesFromPayload :: "payload \<Rightarrow> resolved_route list" where
  "fallbackRoutesFromPayload p = (case p ''fallback_routes'' of Some (JArr js) \<Rightarrow> fallback_routes js | _ \<Rightarrow> [])"

definition costReservationID :: "job \<Rightarrow> string" where
  "costReservationID j = (case jb_cost_reservation_id j of None \<Rightarrow> '''' | Some r \<Rightarrow> r)"

section \<open>Pixel budget\<close>

abbreviation workerMaxMegapixels :: rat where
  "workerMaxMegapixels \<equiv> 4"

definition maxMegapixelsForWorker :: "ports \<Rightarrow> payload \<Rightarrow> rat option" where
  "maxMegapixelsForWorker pt p =
     (if p ''max_megapixels'' = None then Some workerMaxMegapixels
      else let v = payloadFloat64 pt p ''max_megapixels''
           in if v \<le> 0 then None else if v > workerMaxMegapixels then None else Some v)"

text \<open>\<open>min desired (int(math.Sqrt(x)))\<close>, counted down from \<open>desired\<close>.\<close>

fun isqrt_upto :: "nat \<Rightarrow> rat \<Rightarrow> nat" where
  "isqrt_upto 0 x = 0"
| "isqrt_upto (Suc n) x = (if of_nat (Suc n * Suc n) \<le> x then Suc n else isqrt_upto n x)"

definition renderEdgeForMax :: "ports \<Rightarrow> job \<Rightarrow> nat \<Rightarrow> int" where
  "renderEdgeForMax pt j desired =
     (let mp = (case maxMegapixelsForWorker pt (jb_input_payload j) of None \<Rightarrow> workerMaxMegapixels | Some v \<Rightarrow> v);
          e = isqrt_upto desired (mp * 1000000)
      in int (if e > 0 then e else desired))"

definition image_within :: "rat \<Rightarrow> image \<Rightarrow> bool" where
  "image_within mp i =
     (case im_dims i of
        None \<Rightarrow> False
      | Some (w, h) \<Rightarrow> w > 0 \<and> h > 0 \<and> of_int (w * h) / 1000000 \<le> mp + 1 / 1000000000)"

definition validateProviderImages :: "ports \<Rightarrow> job \<Rightarrow> image list \<Rightarrow> work_error option" where
  "validateProviderImages pt j images =
     (case maxMegapixelsForWorker pt (jb_input_payload j) of
        None \<Rightarrow> Some MaxMegapixelsExceeded
      | Some mp \<Rightarrow> if list_all (image_within mp) images then None else Some MaxMegapixelsExceeded)"

section \<open>Costs and error codes\<close>

definition upper :: "char \<Rightarrow> char" where
  "upper c = (if 97 \<le> (of_char c :: nat) \<and> (of_char c :: nat) \<le> 122 then char_of ((of_char c :: nat) - 32) else c)"

definition normalizeProviderCurrency :: "string \<Rightarrow> string" where
  "normalizeProviderCurrency v =
     (let s = map upper (trimSpace v) in if length s \<noteq> 3 then ''USD'' else s)"

text \<open>\<open>rs_actual_cost\<close> is the amount that passed \<open>normalizeProviderCost\<close>, in \<open>numeric(14,4)\<close>.\<close>

definition reportedProviderCostPtr :: "gen_result \<Rightarrow> amount option" where
  "reportedProviderCostPtr r =
     (if normalizeProviderCurrency (rs_cost_currency r) = ''USD'' then rs_actual_cost r else None)"

definition billableMetadata :: "string \<Rightarrow> payload" where
  "billableMetadata op = [''billable_operation'' \<mapsto> JStr op]"

fun errorCodeFor :: "work_error \<Rightarrow> string" where
  "errorCodeFor StorageFailure = ''storage_failure''"
| "errorCodeFor (PersistenceErr _) = ''persistence_error''"
| "errorCodeFor MaxMegapixelsExceeded = ''max_megapixels_exceeded''"
| "errorCodeFor ProviderUnavailable = ''provider_unavailable''"
| "errorCodeFor (ProviderErr ErrContentPolicyRejected) = ''provider_content_rejected''"
| "errorCodeFor (ProviderErr ErrProviderUnpaid) = ''provider_unpaid''"
| "errorCodeFor (ProviderErr ErrReferenceRequired) = ''missing_reference_assets''"
| "errorCodeFor _ = ''provider_failure''"

definition terminalGenerationError :: "work_error \<Rightarrow> bool" where
  "terminalGenerationError e \<longleftrightarrow>
     e = ProviderErr ErrContentPolicyRejected \<or> e = BillableCapReached \<or> e = ProviderErr ErrProviderUnpaid"

definition billableCallCap :: "ports \<Rightarrow> job \<Rightarrow> int" where
  "billableCallCap pt j =
     (let u0 = (let q = payloadFloat64 pt (jb_input_payload j) ''units'' in if q \<ge> 0 then \<lfloor>q\<rfloor> else \<lceil>q\<rceil>);
          cells = (case jb_input_payload j ''variant_keys'' of Some (JArr js) \<Rightarrow> int (length js) | _ \<Rightarrow> 0);
          u1 = (if cells > u0 then cells else u0);
          u2 = (if isPreviewFirst j \<and> u1 < 2 then 2 else u1);
          u3 = (if u2 < 1 then 1 else u2)
      in u3 * MaxBillableCallsPerUnit)"

section \<open>Job state and reservation calls\<close>

definition markJobFailed :: "job \<Rightarrow> string \<Rightarrow> string \<Rightarrow> bool \<Rightarrow> string \<Rightarrow> (error + job) worker" where
  "markJobFailed j code msg retryable erid =
     tx (\<lambda>d. markFailed d (jb_id j) (jb_tenant_id j) code msg retryable (strPtr erid))"

definition markJobCompleted :: "job \<Rightarrow> string list \<Rightarrow> string \<Rightarrow> (error + job) worker" where
  "markJobCompleted j finals erid =
     tx (\<lambda>d. markCompleted d (jb_id j) (jb_tenant_id j) finals (strPtr erid))"

definition commitReservation :: "ports \<Rightarrow> job \<Rightarrow> (work_error option) worker" where
  "commitReservation pt j = do {
     lid \<leftarrow> newID pt;
     eid \<leftarrow> newID pt;
     r \<leftarrow> tx_unit (\<lambda>d. if costReservationID j \<noteq> ''''
            then commitForReservation d (jb_id j) (costReservationID j) lid eid
            else commitInTx d (jb_id j) lid eid);
     State_Monad.return (map_option DbErr r) }"

definition releaseReservation :: "ports \<Rightarrow> job \<Rightarrow> (work_error option) worker" where
  "releaseReservation pt j = do {
     lid \<leftarrow> newID pt;
     eid \<leftarrow> newID pt;
     r \<leftarrow> tx_unit (\<lambda>d. if costReservationID j \<noteq> ''''
            then releaseForReservation d (jb_id j) (costReservationID j) lid eid
            else releaseInTx d (jb_id j) lid eid);
     State_Monad.return (map_option DbErr r) }"

definition failTerminal :: "ports \<Rightarrow> job \<Rightarrow> string \<Rightarrow> string \<Rightarrow> string \<Rightarrow> (work_error option) worker" where
  "failTerminal pt j code msg erid = do {
     r \<leftarrow> markJobFailed j code msg False erid;
     case r of
       Inl e \<Rightarrow> State_Monad.return (Some (DbErr e))
     | Inr _ \<Rightarrow> do {
         emit j ''generation_job.failed'' [] code;
         releaseReservation pt j } }"

definition failJobOnFinalAttempt :: "ports \<Rightarrow> job \<Rightarrow> work_error \<Rightarrow> bool \<Rightarrow> string \<Rightarrow> unit worker" where
  "failJobOnFinalAttempt pt j err final erid =
     (if \<not> final then State_Monad.return ()
      else do {
        r \<leftarrow> markJobFailed j (errorCodeFor err) (errorCodeFor err) False erid;
        case r of
          Inl _ \<Rightarrow> State_Monad.return ()
        | Inr _ \<Rightarrow> do {
            emit j ''generation_job.failed'' [] (errorCodeFor err);
            _ \<leftarrow> releaseReservation pt j;
            State_Monad.return () } })"

definition worker_event :: "string \<Rightarrow> job \<Rightarrow> string option \<Rightarrow> string \<Rightarrow> string \<Rightarrow> string option \<Rightarrow> amount option
    \<Rightarrow> int \<Rightarrow> string \<Rightarrow> payload \<Rightarrow> cost_event" where
  "worker_event eid j asset prov model attempt act latency status meta =
     \<lparr>ce_id = eid, ce_tenant_id = jb_tenant_id j, ce_job_id = Some (jb_id j), ce_asset_id = asset,
      ce_reservation_id = jb_cost_reservation_id j, ce_token_id = jb_requested_by_token_id j,
      ce_provider_id = Some prov, ce_model_id = strPtr model, ce_attempt_id = attempt,
      ce_operation = ''text_to_image'', ce_estimated = None, ce_actual = act,
      ce_duration_ms = Some latency, ce_status = status, ce_metadata = meta, ce_created_at = 0\<rparr>"

definition recordAttemptFailureWithCost ::
    "ports \<Rightarrow> job \<Rightarrow> string \<Rightarrow> string \<Rightarrow> string \<Rightarrow> work_error \<Rightarrow> int \<Rightarrow> amount option \<Rightarrow> unit worker" where
  "recordAttemptFailureWithCost pt j aid prov model err latency act = do {
     exec (\<lambda>d. markProviderAttemptFailed d aid (errorCodeFor err) (int32 latency));
     eid \<leftarrow> newID pt;
     _ \<leftarrow> tx_unit (\<lambda>d. insertCostEventWithQueries d (worker_event eid j None prov model (Some aid) act
            (int32 latency) ''failed'' (billableMetadata ''provider_attempt'')));
     State_Monad.return () }"

definition recordFailureWithCost ::
    "ports \<Rightarrow> job \<Rightarrow> string \<Rightarrow> string \<Rightarrow> string \<Rightarrow> work_error \<Rightarrow> int \<Rightarrow> bool \<Rightarrow> amount option \<Rightarrow> string \<Rightarrow> unit worker" where
  "recordFailureWithCost pt j aid prov model err latency final act erid = do {
     recordAttemptFailureWithCost pt j aid prov model err latency act;
     failJobOnFinalAttempt pt j err final erid }"

definition recordDiscardedProviderSuccess ::
    "ports \<Rightarrow> job \<Rightarrow> string \<Rightarrow> resolved_route \<Rightarrow> int \<Rightarrow> gen_result \<Rightarrow> string \<Rightarrow> unit worker" where
  "recordDiscardedProviderSuccess pt j aid route latency result phase =
     (if aid = '''' then State_Monad.return ()
      else do {
        exec (\<lambda>d. markProviderAttemptSucceeded d aid (int32 latency));
        _ \<leftarrow> tx_unit (\<lambda>d. insertCostEventWithQueries d (worker_event (''ce_discarded_'' @ aid) j None
               (rt_provider_id route) (rt_model_id route) (Some aid) (reportedProviderCostPtr result)
               (int32 latency) ''completed''
               ((billableMetadata (''discarded_'' @ phase))(''output_discarded'' \<mapsto> JBool True))));
        if costReservationID j \<noteq> ''''
        then do {
          lid \<leftarrow> newID pt;
          _ \<leftarrow> tx_unit (\<lambda>d. reconcileForReservation d (jb_id j) (costReservationID j) lid);
          State_Monad.return () }
        else State_Monad.return () })"

definition finishCancelled :: "ports \<Rightarrow> job \<Rightarrow> (work_error option) worker" where
  "finishCancelled pt j = do {
     current \<leftarrow> query (\<lambda>d. getByID d (jb_id j));
     case current of
       Inl e \<Rightarrow> State_Monad.return (Some (DbErr e))
     | Inr c \<Rightarrow> if jb_status c \<noteq> Cancelled then State_Monad.return None else releaseReservation pt j }"

section \<open>Claims\<close>

definition claimQueuedJob :: "job \<Rightarrow> int \<Rightarrow> string \<Rightarrow> (work_error + bool) worker" where
  "claimQueuedJob j retry erid =
     (if jb_status j \<noteq> Queued
      then State_Monad.return (Inr (jb_status j = Running \<and> (retry > 0 \<or> retry < 0)))
      else do {
        r \<leftarrow> tx (\<lambda>d. markRunning d (jb_id j) (jb_tenant_id j) (strPtr erid));
        case r of
          Inl e \<Rightarrow> State_Monad.return (if e = ErrNotFound then Inr False else Inl (DbErr e))
        | Inr _ \<Rightarrow> State_Monad.return (Inr True) })"

definition claimPreviewFinal :: "job \<Rightarrow> int \<Rightarrow> string \<Rightarrow> (work_error + bool) worker" where
  "claimPreviewFinal j retry erid =
     (if retry > 0 \<and> (jb_status j = Running
           \<or> payloadBool (jb_input_payload j) ''preview_finalization_claimed'')
      then State_Monad.return (Inr True)
      else do {
        r \<leftarrow> tx (\<lambda>d. claimPreview d (jb_id j) (jb_tenant_id j) (strPtr erid));
        case r of
          Inl e \<Rightarrow> State_Monad.return (if e = ErrNotFound then Inr False else Inl (DbErr e))
        | Inr _ \<Rightarrow> State_Monad.return (Inr True) })"

section \<open>Walking the provider chain\<close>

record gen_out =
  go_result :: gen_result
  go_route :: resolved_route
  go_attempt_id :: string
  go_latency :: int

text \<open>
  \<open>le\<close> is \<open>lastErr\<close>, \<open>any\<close> is \<open>anyAdapter\<close>. At the end of the list \<open>any\<close> implies that some
  route failed, so the le branch of the first equation is not reached.
\<close>

fun walkRoutes ::
    "ports \<Rightarrow> job \<Rightarrow> gen_request \<Rightarrow> int \<Rightarrow> work_error option \<Rightarrow> bool \<Rightarrow> resolved_route list
     \<Rightarrow> (work_error + gen_out) worker" where
  "walkRoutes pt j req attempt le any [] =
     State_Monad.return (Inl (if \<not> any then ProviderUnavailable
                              else (case le of Some e \<Rightarrow> e | None \<Rightarrow> ProviderUnavailable)))"
| "walkRoutes pt j req attempt le any (route # routes) =
     (case pt_adapter pt (rt_provider_id route) of
        None \<Rightarrow> walkRoutes pt j req attempt le any routes
      | Some _ \<Rightarrow> do {
          billed \<leftarrow> query (\<lambda>d. countProviderAttempts d (jb_id j));
          if billed \<ge> billableCallCap pt j
          then State_Monad.return (Inl (case le of Some e \<Rightarrow> e | None \<Rightarrow> BillableCapReached))
          else do {
            aid \<leftarrow> newID pt;
            ins \<leftarrow> tx_unit (\<lambda>d. insertProviderAttempt d \<lparr>tp_id = aid, tp_generation_job_id = jb_id j,
                     tp_provider_id = rt_provider_id route, tp_model_id = strPtr (rt_model_id route),
                     tp_provider_route_id = strPtr (rt_route_id route), tp_attempt_number = attempt\<rparr>);
            case ins of
              Some e \<Rightarrow> State_Monad.return (Inl (DbErr e))
            | None \<Rightarrow> do {
                (result, perr, latency) \<leftarrow> generate pt (rt_provider_id route) req;
                exec (\<lambda>d. updateProviderAttemptCost d aid (rs_actual_cost result));
                case perr of
                  None \<Rightarrow> State_Monad.return (Inr \<lparr>go_result = result, go_route = route,
                            go_attempt_id = aid, go_latency = latency\<rparr>)
                | Some pe \<Rightarrow> do {
                    recordAttemptFailureWithCost pt j aid (rt_provider_id route) (rt_model_id route)
                      (ProviderErr pe) latency (reportedProviderCostPtr result);
                    if pe = ErrContentPolicyRejected then State_Monad.return (Inl (ProviderErr pe))
                    else walkRoutes pt j req attempt (Some (ProviderErr pe)) True routes } } } })"

definition generateWithFallback ::
    "ports \<Rightarrow> job \<Rightarrow> resolved_route \<Rightarrow> gen_request \<Rightarrow> int \<Rightarrow> (work_error + gen_out) worker" where
  "generateWithFallback pt j primary req attempt =
     walkRoutes pt j req attempt None False (primary # fallbackRoutesFromPayload (jb_input_payload j))"

section \<open>References\<close>

text \<open>\<open>Inr refs\<close> to go on; \<open>Inl e\<close> when the job was failed here, with what \<open>failTerminal\<close> returned.\<close>

definition singleImageReferences ::
    "ports \<Rightarrow> job \<Rightarrow> resolved_route \<Rightarrow> string \<Rightarrow> (work_error option + string list) worker" where
  "singleImageReferences pt j primary erid =
     (let routes = primary # fallbackRoutesFromPayload (jb_input_payload j);
          needs = list_ex (\<lambda>r. pt_adapter pt (rt_provider_id r) = Some True) routes;
          ident = payloadString (jb_input_payload j) ''identity_id''
      in if \<not> needs then State_Monad.return (Inr [])
         else if ident = '''' then do {
           e \<leftarrow> failTerminal pt j ''missing_reference_assets'' ''no identity_id to gather references from'' erid;
           State_Monad.return (Inl e) }
         else
           (case pt_refs pt ident (jb_tenant_id j) of
              Inl invalid \<Rightarrow> do {
                e \<leftarrow> failTerminal pt j
                       (if invalid then ''invalid_reference_asset'' else ''missing_reference_assets'')
                       ''reference assets could not be gathered'' erid;
                State_Monad.return (Inl e) }
            | Inr refs \<Rightarrow>
                if refs = [] then do {
                  e \<leftarrow> failTerminal pt j ''missing_reference_assets'' ''visual identity has no reference assets'' erid;
                  State_Monad.return (Inl e) }
                else State_Monad.return (Inr refs)))"

section \<open>Outputs\<close>

definition buildArtifactInsertParams :: "job \<Rightarrow> string \<Rightarrow> gen_result \<Rightarrow> asset_params" where
  "buildArtifactInsertParams j aid result =
     (let p = jb_input_payload j;
          h = payloadString p ''prompt_hash'';
          q = payloadString p ''quality_tier''
      in \<lparr>ap_id = aid, ap_tenant_id = jb_tenant_id j,
          ap_world_id = (case jb_world_id j of None \<Rightarrow> '''' | Some w \<Rightarrow> w),
          ap_visual_identity_id = None, ap_asset_type = ''artifact'', ap_variant_key = ''default'',
          ap_variant_family = None, ap_compatibility_tags = [], ap_fallback_allowed = False,
          ap_fallback_rank = None, ap_style_profile_id = strPtr (payloadString p ''style_profile_id''),
          ap_style_profile_version = payloadInt32Ptr p ''style_profile_version'',
          ap_quality_tier = (if q = '''' then ''standard'' else q),
          ap_prompt_hash = strPtr (if h = '''' then rs_prompt_hash result else h),
          ap_generation_job_id = Some (jb_id j), ap_version = 0\<rparr>)"

definition artifactSlotFor :: "job \<Rightarrow> asset_params \<Rightarrow> artifact_slot" where
  "artifactSlotFor j p =
     \<lparr>as_tenant_id = jb_tenant_id j, as_world_id = ap_world_id p,
      as_style_profile_id = payloadString (jb_input_payload j) ''style_profile_id'',
      as_quality_tier = ap_quality_tier p,
      as_prompt_hash = (case ap_prompt_hash p of None \<Rightarrow> '''' | Some h \<Rightarrow> h)\<rparr>"

definition attachGeneratedIdentityAnchor :: "job \<Rightarrow> string list \<Rightarrow> unit worker" where
  "attachGeneratedIdentityAnchor j finals =
     (let ident = payloadString (jb_input_payload j) ''anchor_for_identity_id''
      in if finals = [] \<or> ident = '''' then State_Monad.return ()
         else State (\<lambda>w. ((), w\<lparr>wd_anchors := wd_anchors w @ [(ident, jb_tenant_id j, last finals)]\<rparr>)))"

definition single_request :: "ports \<Rightarrow> job \<Rightarrow> string list \<Rightarrow> nat \<Rightarrow> gen_request" where
  "single_request pt j refs edge =
     \<lparr>gr_prompt = composePromptWithStyle (payloadString (jb_input_payload j) ''description'')
                   (payloadString (jb_input_payload j) ''style_positive_prompt''),
      gr_negative_prompt = payloadString (jb_input_payload j) ''style_negative_prompt'',
      gr_width = renderEdgeForMax pt j edge, gr_height = renderEdgeForMax pt j edge,
      gr_aspect_ratio = '''', gr_reference_urls = refs\<rparr>"

abbreviation deliveryRenderEdge :: nat where "deliveryRenderEdge \<equiv> 1024"
abbreviation previewRenderEdge :: nat where "previewRenderEdge \<equiv> 512"

text \<open>
  Both phases share the sequence from the provider walk to the stored tiers: on a failed walk or
  upload the run ends here (\<open>Inl\<close> carries what it returns), else the output and its asset id.
\<close>

definition renderAndUpload ::
    "ports \<Rightarrow> job \<Rightarrow> resolved_route \<Rightarrow> gen_request \<Rightarrow> int \<Rightarrow> bool \<Rightarrow> string
     \<Rightarrow> (work_error option + gen_out \<times> string) worker" where
  "renderAndUpload pt j resolved req attempt final erid = do {
     g \<leftarrow> generateWithFallback pt j resolved req attempt;
     case g of
       Inl e \<Rightarrow>
         if terminalGenerationError e
         then do { failJobOnFinalAttempt pt j e True erid; State_Monad.return (Inl None) }
         else do { failJobOnFinalAttempt pt j e final erid; State_Monad.return (Inl (Some e)) }
     | Inr out \<Rightarrow>
         (case validateProviderImages pt j (rs_images (go_result out)) of
            Some se \<Rightarrow> do {
              recordAttemptFailureWithCost pt j (go_attempt_id out) (rt_provider_id (go_route out))
                (rt_model_id (go_route out)) se (go_latency out) (reportedProviderCostPtr (go_result out));
              t \<leftarrow> failTerminal pt j ''max_megapixels_exceeded'' ''max_megapixels_exceeded'' erid;
              State_Monad.return (Inl t) }
          | None \<Rightarrow> do {
              aid \<leftarrow> newID pt;
              (case pt_upload pt aid (rs_images (go_result out)) of
                 Some ue \<Rightarrow> do {
                   recordFailureWithCost pt j (go_attempt_id out) (rt_provider_id (go_route out))
                     (rt_model_id (go_route out)) ue (go_latency out) final
                     (reportedProviderCostPtr (go_result out)) erid;
                   State_Monad.return (Inl (Some ue)) }
               | None \<Rightarrow> State_Monad.return (Inr (out, aid))) }) }"

definition success_of :: "job \<Rightarrow> gen_out \<Rightarrow> string \<Rightarrow> string \<Rightarrow> string \<Rightarrow> persist_success" where
  "success_of j out aid eid op =
     \<lparr>sp_attempt_id = go_attempt_id out, sp_latency_ms = int32 (go_latency out),
      sp_cost_event = worker_event eid j (Some aid) (rt_provider_id (go_route out)) (rt_model_id (go_route out))
        (Some (go_attempt_id out)) (reportedProviderCostPtr (go_result out)) (int32 (go_latency out))
        ''completed'' (billableMetadata op)\<rparr>"

definition recordFailureOf :: "ports \<Rightarrow> job \<Rightarrow> gen_out \<Rightarrow> work_error \<Rightarrow> bool \<Rightarrow> string \<Rightarrow> unit worker" where
  "recordFailureOf pt j out err final erid =
     recordFailureWithCost pt j (go_attempt_id out) (rt_provider_id (go_route out)) (rt_model_id (go_route out))
       err (go_latency out) final (reportedProviderCostPtr (go_result out)) erid"

definition discardOutput :: "ports \<Rightarrow> job \<Rightarrow> gen_out \<Rightarrow> string \<Rightarrow> unit worker" where
  "discardOutput pt j out phase =
     recordDiscardedProviderSuccess pt j (go_attempt_id out) (go_route out) (go_latency out) (go_result out) phase"

definition persistFinal :: "job \<Rightarrow> asset_params \<Rightarrow> persist_success \<Rightarrow> string \<Rightarrow>
    (error + visual_asset option \<times> persist_outcome) worker" where
  "persistFinal j p success erid =
     tx (\<lambda>d. case insertFinalAssetAndCompleteJob d (jb_id j) (jb_tenant_id j) p
               (payloadBool (jb_input_payload j) ''force_regenerate'') (artifactSlotFor j p) (Some success) (strPtr erid) of
              Inl e \<Rightarrow> Inl e
            | Inr (a, oc, d') \<Rightarrow> Inr ((a, oc), d'))"

definition persistPreview :: "job \<Rightarrow> asset_params \<Rightarrow> persist_success \<Rightarrow> string \<Rightarrow>
    (error + visual_asset option \<times> persist_outcome) worker" where
  "persistPreview j p success erid =
     tx (\<lambda>d. case insertPreviewAssetAndMarkPreviewReady d (jb_id j) (jb_tenant_id j) p (Some success) (strPtr erid) of
              Inl e \<Rightarrow> Inl e
            | Inr (a, oc, d') \<Rightarrow> Inr ((a, oc), d'))"

section \<open>The two-phase path\<close>

text \<open>The preview phase: \<open>Inl\<close> ends the run, \<open>Inr\<close> goes on to the final phase.\<close>

definition previewPhase ::
    "ports \<Rightarrow> job \<Rightarrow> resolved_route \<Rightarrow> string list \<Rightarrow> int \<Rightarrow> bool \<Rightarrow> string \<Rightarrow> (work_error option + unit) worker" where
  "previewPhase pt j resolved refs attempt final erid = do {
     g \<leftarrow> renderAndUpload pt j resolved (single_request pt j refs previewRenderEdge) attempt final erid;
     case g of
       Inl r \<Rightarrow> State_Monad.return (Inl r)
     | Inr (out, aid) \<Rightarrow> do {
         eid \<leftarrow> newID pt;
         r \<leftarrow> persistPreview j ((buildArtifactInsertParams j aid (go_result out))\<lparr>ap_compatibility_tags := [''preview_safe'']\<rparr>)
                (success_of j out aid eid ''preview_call'') erid;
         case r of
           Inl e \<Rightarrow> do {
             recordFailureOf pt j out (DbErr e) final erid;
             State_Monad.return (Inl (Some (DbErr e))) }
         | Inr (_, oc) \<Rightarrow>
             (case oc of
                PersistSkippedCancelled \<Rightarrow> do {
                  discardOutput pt j out ''preview'';
                  e \<leftarrow> finishCancelled pt j;
                  State_Monad.return (Inl e) }
              | PersistAlreadyCompleted \<Rightarrow> do {
                  discardOutput pt j out ''preview''; State_Monad.return (Inl None) }
              | PersistAlreadyTerminal \<Rightarrow> do {
                  discardOutput pt j out ''preview''; State_Monad.return (Inl None) }
              | PersistAlreadyPreviewReady \<Rightarrow> do {
                  discardOutput pt j out ''preview''; State_Monad.return (Inr ()) }
              | PersistPersisted \<Rightarrow> do {
                  emit j ''generation_job.preview_ready'' [aid] ''''; State_Monad.return (Inr ()) }) } }"

text \<open>
  The final phase of the two-phase path. The reservation is committed before the completed
  event is emitted; the one-phase path below has the opposite order.
\<close>

definition previewFinalPhase ::
    "ports \<Rightarrow> job \<Rightarrow> resolved_route \<Rightarrow> string list \<Rightarrow> int \<Rightarrow> bool \<Rightarrow> string \<Rightarrow> (work_error option) worker" where
  "previewFinalPhase pt j resolved refs attempt final erid = do {
     g \<leftarrow> renderAndUpload pt j resolved (single_request pt j refs deliveryRenderEdge) attempt final erid;
     case g of
       Inl r \<Rightarrow> State_Monad.return r
     | Inr (out, aid) \<Rightarrow> do {
         eid \<leftarrow> newID pt;
         r \<leftarrow> persistFinal j (buildArtifactInsertParams j aid (go_result out)) (success_of j out aid eid ''final_call'') erid;
         case r of
           Inl e \<Rightarrow> do {
             recordFailureOf pt j out (DbErr e) final erid;
             State_Monad.return (Some (DbErr e)) }
         | Inr (_, oc) \<Rightarrow>
             (case oc of
                PersistSkippedCancelled \<Rightarrow> do { discardOutput pt j out ''final''; finishCancelled pt j }
              | PersistAlreadyCompleted \<Rightarrow> do { discardOutput pt j out ''final''; State_Monad.return None }
              | PersistAlreadyTerminal \<Rightarrow> do { discardOutput pt j out ''final''; State_Monad.return None }
              | _ \<Rightarrow> do {
                  c \<leftarrow> commitReservation pt j;
                  case c of
                    Some e \<Rightarrow> State_Monad.return (Some e)
                  | None \<Rightarrow> do { emit j ''generation_job.completed'' [aid] ''''; State_Monad.return None } }) } }"

definition processPreviewFirst ::
    "ports \<Rightarrow> job \<Rightarrow> resolved_route \<Rightarrow> int \<Rightarrow> bool \<Rightarrow> int \<Rightarrow> string \<Rightarrow> (work_error option) worker" where
  "processPreviewFirst pt j resolved attempt final retry erid = do {
     rf \<leftarrow> singleImageReferences pt j resolved erid;
     case rf of
       Inl e \<Rightarrow> State_Monad.return e
     | Inr refs \<Rightarrow> do {
         a \<leftarrow> (if jb_preview_asset_ids j = [] then previewPhase pt j resolved refs attempt final erid
               else State_Monad.return (Inr ()));
         case a of
           Inl r \<Rightarrow> State_Monad.return r
         | Inr _ \<Rightarrow> do {
             c \<leftarrow> claimPreviewFinal j retry erid;
             case c of
               Inl e \<Rightarrow> State_Monad.return (Some e)
             | Inr claimed \<Rightarrow>
                 if \<not> claimed then State_Monad.return None
                 else previewFinalPhase pt j resolved refs attempt final erid } } }"

section \<open>The one-phase path and the dispatch\<close>

definition processSinglePhase ::
    "ports \<Rightarrow> job \<Rightarrow> resolved_route \<Rightarrow> int \<Rightarrow> bool \<Rightarrow> string \<Rightarrow> (work_error option) worker" where
  "processSinglePhase pt j resolved attempt final erid = do {
     rf \<leftarrow> singleImageReferences pt j resolved erid;
     case rf of
       Inl e \<Rightarrow> State_Monad.return e
     | Inr refs \<Rightarrow> do {
         g \<leftarrow> renderAndUpload pt j resolved (single_request pt j refs deliveryRenderEdge) attempt final erid;
         case g of
           Inl r \<Rightarrow> State_Monad.return r
         | Inr (out, aid) \<Rightarrow> do {
             eid \<leftarrow> newID pt;
             r \<leftarrow> persistFinal j (buildArtifactInsertParams j aid (go_result out)) (success_of j out aid eid ''final_call'') erid;
             case r of
               Inl e \<Rightarrow> do {
                 recordFailureOf pt j out (DbErr e) final erid;
                 State_Monad.return (Some (DbErr e)) }
             | Inr (_, oc) \<Rightarrow>
                 (case oc of
                    PersistSkippedCancelled \<Rightarrow> do { discardOutput pt j out ''final''; finishCancelled pt j }
                  | PersistAlreadyCompleted \<Rightarrow> do { discardOutput pt j out ''final''; State_Monad.return None }
                  | PersistAlreadyTerminal \<Rightarrow> do { discardOutput pt j out ''final''; State_Monad.return None }
                  | _ \<Rightarrow> do {
                      emit j ''generation_job.completed'' [aid] '''';
                      attachGeneratedIdentityAnchor j [aid];
                      commitReservation pt j }) } } }"

text \<open>The handler reads the job once; everything after works with that row.\<close>

definition processFound :: "ports \<Rightarrow> job \<Rightarrow> string \<Rightarrow> int \<Rightarrow> (work_error option) worker" where
  "processFound pt j erid retry = (let attempt = int32 (retry + 1); final = attempt \<ge> int MaxAttempts in
     if erid \<noteq> '''' \<and> jb_cost_reservation_id j \<noteq> Some erid then State_Monad.return None
     else if jb_status j = Completed then do {
       attachGeneratedIdentityAnchor j (jb_final_asset_ids j);
       commitReservation pt j }
     else if jb_status j = Failed \<or> jb_status j = Cancelled then releaseReservation pt j
     else do {
       c \<leftarrow> (if \<not> isPreviewFirst j \<or> jb_preview_asset_ids j = [] then claimQueuedJob j retry erid
             else State_Monad.return (Inr True));
       case c of
         Inl e \<Rightarrow> State_Monad.return (Some e)
       | Inr claimed \<Rightarrow>
           if \<not> claimed then State_Monad.return None
           else
             (case resolvedRouteFromPayload (jb_input_payload j) of
                None \<Rightarrow> failTerminal pt j ''invalid_resolved_route'' ''job payload missing resolved provider_id/model_id'' erid
              | Some resolved \<Rightarrow>
                  if maxMegapixelsForWorker pt (jb_input_payload j) = None
                  then failTerminal pt j ''max_megapixels_exceeded'' ''max_megapixels_exceeded'' erid
                  else if isPreviewFirst j then processPreviewFirst pt j resolved attempt final retry erid
                  else processSinglePhase pt j resolved attempt final erid) })"

definition process :: "ports \<Rightarrow> string \<Rightarrow> string \<Rightarrow> int \<Rightarrow> (work_error option) worker" where
  "process pt jid erid retry = do {
     found \<leftarrow> query (\<lambda>d. getByID d jid);
     case found of
       Inl e \<Rightarrow> State_Monad.return (Some (DbErr e))
     | Inr j \<Rightarrow> processFound pt j erid retry }"

end
