(* ===== verification/Invariants.thy ===== *)
theory Invariants
  imports Worker
begin

text \<open>
  The invariant of the whole database and the proof that every transaction of the platform
  keeps it: creating, claiming, writing output, failing, finalizing, reconciling, cancelling
  and retrying.
\<close>

section \<open>The invariant of the database\<close>

text \<open>
  A job shows final output exactly when it completed; a reservation that still holds budget is
  the one its job links, so no hold is out of reach of the finalizer.
\<close>

definition jobs_inv :: "db \<Rightarrow> bool" where
  "jobs_inv d \<longleftrightarrow> keyed jb_id (db_jobs d)
     \<and> (\<forall>j \<in> set (db_jobs d). jb_final_asset_ids j \<noteq> [] \<longrightarrow> jb_status j = Completed)"

definition owner_inv :: "db \<Rightarrow> bool" where
  "owner_inv d \<longleftrightarrow> (\<forall>r \<in> set (db_reservations d). rv_status r = Reserved \<longrightarrow>
     (\<exists>j \<in> set (db_jobs d). jb_id j = rv_job_id r \<and> jb_cost_reservation_id j = Some (rv_id r)))"

definition plat_inv :: "db \<Rightarrow> bool" where
  "plat_inv d \<longleftrightarrow> cost_inv d \<and> jobs_inv d \<and> owner_inv d \<and> prices_ok d"

lemma plat_inv_frame:
  assumes "db_budgets d' = db_budgets d" "db_holds d' = db_holds d"
    and "db_reservations d' = db_reservations d" "db_jobs d' = db_jobs d" "db_prices d' = db_prices d"
  shows "plat_inv d' = plat_inv d"
  using assms cost_inv_frame [of d' d]
  by (simp add: plat_inv_def jobs_inv_def owner_inv_def prices_ok_def)

text \<open>Updating rows of the job table without touching identity or link.\<close>

lemma plat_inv_update_jobs:
  assumes inv: "plat_inv d"
    and f: "\<And>j. j \<in> set (db_jobs d) \<Longrightarrow> P j \<Longrightarrow> jb_id (f j) = jb_id j
        \<and> jb_cost_reservation_id (f j) = jb_cost_reservation_id j
        \<and> (jb_final_asset_ids (f j) \<noteq> [] \<longrightarrow> jb_status (f j) = Completed)"
  shows "plat_inv (d\<lparr>db_jobs := update_where P f (db_jobs d)\<rparr>)"
proof -
  let ?d = "d\<lparr>db_jobs := update_where P f (db_jobs d)\<rparr>"
  have "jobs_inv ?d"
    using inv f by (auto simp: plat_inv_def jobs_inv_def keyed_update_where elim!: update_where_memE)
  moreover have "owner_inv ?d"
    unfolding owner_inv_def
  proof (intro ballI impI)
    fix r assume "r \<in> set (db_reservations ?d)" "rv_status r = Reserved"
    with inv obtain j where j: "j \<in> set (db_jobs d)" "jb_id j = rv_job_id r" "jb_cost_reservation_id j = Some (rv_id r)"
      by (auto simp: plat_inv_def owner_inv_def)
    then have "(if P j then f j else j) \<in> set (db_jobs ?d)" by (simp add: set_update_where)
    moreover have "jb_id (if P j then f j else j) = rv_job_id r"
      "jb_cost_reservation_id (if P j then f j else j) = Some (rv_id r)" using j f [of j] by auto
    ultimately show "\<exists>j \<in> set (db_jobs ?d). jb_id j = rv_job_id r \<and> jb_cost_reservation_id j = Some (rv_id r)"
      by blast
  qed
  moreover have "cost_inv ?d" using inv by (simp add: plat_inv_def cost_inv_frame [of ?d d])
  ultimately show ?thesis using inv by (simp add: plat_inv_def prices_ok_def)
qed

lemma update_job_plat_inv:
  assumes "update_job d P f = Some (j, d')" "plat_inv d"
    and "\<And>j. j \<in> set (db_jobs d) \<Longrightarrow> P j \<Longrightarrow> jb_id (f j) = jb_id j
        \<and> jb_cost_reservation_id (f j) = jb_cost_reservation_id j
        \<and> (jb_final_asset_ids (f j) \<noteq> [] \<longrightarrow> jb_status (f j) = Completed)"
  shows "plat_inv d'"
  using update_job_SomeD [OF assms(1)] plat_inv_update_jobs [OF assms(2,3)] by blast

lemma live_no_final: "plat_inv d \<Longrightarrow> j \<in> set (db_jobs d) \<Longrightarrow> jb_status j \<noteq> Completed \<Longrightarrow> jb_final_asset_ids j = []"
  by (auto simp: plat_inv_def jobs_inv_def)

section \<open>Every transaction keeps it\<close>

lemma markGenerationJobRunning_inv: "markGenerationJobRunning d i t r = Some (j, d') \<Longrightarrow> plat_inv d \<Longrightarrow> plat_inv d'"
  unfolding markGenerationJobRunning_def by (erule (1) update_job_plat_inv) (simp add: live_no_final)

lemma claimPreviewFinalization_inv: "claimPreviewFinalization d i t r = Some (j, d') \<Longrightarrow> plat_inv d \<Longrightarrow> plat_inv d'"
  unfolding claimPreviewFinalization_def by (erule (1) update_job_plat_inv) simp

lemma markGenerationJobCompleted_inv: "markGenerationJobCompleted d i t f r = Some (j, d') \<Longrightarrow> plat_inv d \<Longrightarrow> plat_inv d'"
  unfolding markGenerationJobCompleted_def by (erule (1) update_job_plat_inv) simp

lemma markGenerationJobPreviewReady_inv: "markGenerationJobPreviewReady d i t f r = Some (j, d') \<Longrightarrow> plat_inv d \<Longrightarrow> plat_inv d'"
  unfolding markGenerationJobPreviewReady_def by (erule (1) update_job_plat_inv) (auto simp: live_no_final)

lemma markGenerationJobFailed_inv: "markGenerationJobFailed d i t c m b r = Some (j, d') \<Longrightarrow> plat_inv d \<Longrightarrow> plat_inv d'"
  unfolding markGenerationJobFailed_def
  by (erule (1) update_job_plat_inv) (auto simp: live_status_def live_no_final)

lemma finalize_plat_inv:
  assumes fin: "finalizeInTxForReservation d jid t rid lid eid = Inr d'" and inv: "plat_inv d"
  shows "plat_inv d'"
proof -
  have c: "cost_inv d" and b: "book_inv d" using inv by (simp_all add: plat_inv_def cost_inv_def)
  have c': "cost_inv d'" by (rule finalize_cost_inv [OF fin c])
  from fin b show ?thesis
  proof (cases rule: finalize_cases)
    case noop
    with inv show ?thesis by simp
  next
    case (settled r rep ls es dx)
    let ?f = "\<lambda>j. j\<lparr>jb_actual_cost := charge_of t r rep\<rparr>"
    have "\<exists>P. db_jobs d' = update_where P ?f (db_jobs d)"
    proof (cases "charge_of t r rep = None")
      case True
      then show ?thesis
        by (intro exI [of _ "\<lambda>_. False"]) (simp add: settled(4) charged_jobs_def update_where_none)
    qed (auto simp: settled(4) charged_jobs_def)
    then obtain P where js: "db_jobs d' = update_where P ?f (db_jobs d)" ..
    have p: "plat_inv (d\<lparr>db_jobs := update_where P ?f (db_jobs d)\<rparr>)"
      by (rule plat_inv_update_jobs [OF inv]) (use inv in \<open>auto simp: plat_inv_def jobs_inv_def\<close>)
    then have "jobs_inv d'" using js by (simp add: plat_inv_def jobs_inv_def)
    moreover have "owner_inv d'"
    proof -
      have sub: "x \<in> set (db_reservations d)" if "x \<in> set (db_reservations d')" "rv_status x = Reserved" for x
        using that settled(1) by (auto simp: settled(4) closed_books_def elim!: update_where_memE split: if_splits)
      show ?thesis
        using p sub js by (auto simp: plat_inv_def owner_inv_def)
    qed
    moreover have "prices_ok d'" using inv by (simp add: settled(4) closed_books_def plat_inv_def prices_ok_def)
    ultimately show ?thesis using c' by (simp add: plat_inv_def)
  qed
qed

lemma reconcile_plat_inv:
  assumes rec: "reconcileForReservation d jid rid lid = Inr d'" and inv: "plat_inv d"
  shows "plat_inv d'"
proof -
  have c': "cost_inv d'" using reconcile_cost_inv [OF rec] inv by (simp add: plat_inv_def)
  from rec show ?thesis
  proof (cases rule: reconcile_cases)
    case noop
    with inv show ?thesis by simp
  next
    case (moved r a bs ls)
    let ?P = "\<lambda>j. jb_id j = jid \<and> jb_cost_reservation_id j = Some rid"
    have p: "plat_inv (d\<lparr>db_jobs := update_where ?P (\<lambda>j. j\<lparr>jb_actual_cost := Some a\<rparr>) (db_jobs d)\<rparr>)"
      by (rule plat_inv_update_jobs [OF inv]) (use inv in \<open>auto simp: plat_inv_def jobs_inv_def\<close>)
    have "x \<in> set (db_reservations d)" if "x \<in> set (db_reservations d')" "rv_status x = Reserved" for x
      using that by (auto simp: moved(4) terminal_reservation_def elim!: update_where_memE split: if_splits)
    with p have "owner_inv d'" by (auto simp: plat_inv_def owner_inv_def moved(4))
    moreover from p have "jobs_inv d'" by (simp add: plat_inv_def jobs_inv_def moved(4))
    moreover have "prices_ok d'" using inv by (simp add: moved(4) plat_inv_def prices_ok_def)
    ultimately show ?thesis using c' by (simp add: plat_inv_def)
  qed
qed


lemma releaseInTx_inv: "releaseInTx d jid l e = Inr d' \<Longrightarrow> plat_inv d \<Longrightarrow> plat_inv d'"
  and commitInTx_inv: "commitInTx d jid l e = Inr d' \<Longrightarrow> plat_inv d \<Longrightarrow> plat_inv d'"
  and releaseForReservation_inv: "releaseForReservation d jid rid l e = Inr d' \<Longrightarrow> plat_inv d \<Longrightarrow> plat_inv d'"
  and commitForReservation_inv: "commitForReservation d jid rid l e = Inr d' \<Longrightarrow> plat_inv d \<Longrightarrow> plat_inv d'"
  by (simp_all add: releaseInTx_def commitInTx_def releaseForReservation_def commitForReservation_def finalize_plat_inv)

lemma asset_write_frame:
  "insertWithQueries d p = Inr (a, d') \<Longrightarrow> \<exists>as. d' = d\<lparr>db_assets := as\<rparr>"
  "insertPreviewWithQueries d p = Inr (a, d') \<Longrightarrow> \<exists>as. d' = d\<lparr>db_assets := as\<rparr>"
  "supersedeArtifactSlot d p s = Inr (a, d') \<Longrightarrow> \<exists>as. d' = d\<lparr>db_assets := as\<rparr>"
  "supersedeVariantSlotWithQueries d p v = Inr (a, d') \<Longrightarrow> \<exists>as. d' = d\<lparr>db_assets := as\<rparr>"
  by (auto simp: insertWithQueries_def insertPreviewWithQueries_def insertVisualAsset_def
      insertPreviewVisualAsset_def insertAssetRow_def supersede_defs archive_prior_def split: sum.splits prod.splits)

lemma attempt_jobs_kept [simp]:
  assumes "\<And>a. at_job_id (f a) = at_job_id a"
  shows "map at_job_id (update_where P f as) = map at_job_id as"
  using assms by (induction as) auto

lemma bookkeep_frame:
  "bookkeep d sp aid = Inr d' \<Longrightarrow> \<exists>ats es. d' = d\<lparr>db_attempts := ats, db_events := es\<rparr>
     \<and> map at_job_id ats = map at_job_id (db_attempts d)"
proof (cases sp)
  case None
  assume "bookkeep d sp aid = Inr d'"
  with None show ?thesis
    by (intro exI [of _ "db_attempts d"] exI [of _ "db_events d"]) (simp add: bookkeep_def)
next
  case (Some s)
  assume "bookkeep d sp aid = Inr d'"
  with Some obtain es where "d' = d\<lparr>db_attempts := update_where (\<lambda>a. at_id a = sp_attempt_id s)
      (\<lambda>a. a\<lparr>at_status := Succeeded, at_latency_ms := Some (sp_latency_ms s)\<rparr>) (db_attempts d), db_events := es\<rparr>"
    by (auto simp: bookkeep_def persistSuccessWithQueries_def insertCostEventWithQueries_def
        markProviderAttemptSucceeded_def split: if_splits sum.splits)
  then show ?thesis
    by (intro exI [of _ "update_where (\<lambda>a. at_id a = sp_attempt_id s)
      (\<lambda>a. a\<lparr>at_status := Succeeded, at_latency_ms := Some (sp_latency_ms s)\<rparr>) (db_attempts d)"] exI [of _ es]) simp
qed

lemma plat_inv_assets [simp]: "plat_inv (d\<lparr>db_assets := x\<rparr>) = plat_inv d"
  and plat_inv_bookkeeping [simp]: "plat_inv (d\<lparr>db_attempts := y, db_events := z\<rparr>) = plat_inv d"
  and plat_inv_attempts [simp]: "plat_inv (d\<lparr>db_attempts := y\<rparr>) = plat_inv d"
  and plat_inv_events [simp]: "plat_inv (d\<lparr>db_events := z\<rparr>) = plat_inv d"
  and plat_inv_packs [simp]: "plat_inv (d\<lparr>db_packs := p\<rparr>) = plat_inv d"
  and plat_inv_items [simp]: "plat_inv (d\<lparr>db_pack_items := q\<rparr>) = plat_inv d"
  and plat_inv_idem [simp]: "plat_inv (d\<lparr>db_idem := k\<rparr>) = plat_inv d"
  and plat_inv_now [simp]: "plat_inv (d\<lparr>db_now := n\<rparr>) = plat_inv d"
  by (rule plat_inv_frame; simp)+

text \<open>A guarded write does nothing, or writes the asset, marks the job and books the attempt.\<close>

lemma insertFinal_cases:
  assumes "insertFinalAssetAndCompleteJob d jid ten p forced slot success r = Inr (a, oc, d')"
  obtains (skipped) "d' = d" "oc \<noteq> PersistPersisted"
  | (written) as a1 k d2 ats es where
    "(if forced then supersedeArtifactSlot d p slot else insertWithQueries d p) = Inr (a1, d\<lparr>db_assets := as\<rparr>)"
    "markGenerationJobCompleted (d\<lparr>db_assets := as\<rparr>) jid ten [va_id a1] r = Some (k, d2)"
    "d' = d2\<lparr>db_attempts := ats, db_events := es\<rparr>" "map at_job_id ats = map at_job_id (db_attempts d2)"
    "oc = PersistPersisted" "a = Some a1"
proof (cases "oc = PersistPersisted")
  case False
  with assms skipped show thesis
    by (auto simp: insertFinalAssetAndCompleteJob_def split: option.splits job_status.splits sum.splits prod.splits if_splits)
next
  case True
  with assms obtain a1 d1 j d2 where
    w: "(if forced then supersedeArtifactSlot d p slot else insertWithQueries d p) = Inr (a1, d1)"
    and m: "markGenerationJobCompleted d1 jid ten [va_id a1] r = Some (j, d2)"
    and k: "bookkeep d2 success (va_id a1) = Inr d'" and a: "a = Some a1"
    by (auto simp: insertFinalAssetAndCompleteJob_def
        split: option.splits job_status.splits sum.splits prod.splits if_splits)
  from w asset_write_frame(1) [of d p a1 d1] asset_write_frame(3) [of d p slot a1 d1]
  obtain as where "d1 = d\<lparr>db_assets := as\<rparr>" by (cases forced) auto
  with w m bookkeep_frame [OF k] True a written show thesis by blast
qed

lemma insertPreview_cases:
  assumes "insertPreviewAssetAndMarkPreviewReady d jid ten p success r = Inr (a, oc, d')"
  obtains (skipped) "d' = d" "oc \<noteq> PersistPersisted"
  | (written) as a1 k d2 ats es where
    "insertPreviewWithQueries d p = Inr (a1, d\<lparr>db_assets := as\<rparr>)"
    "markGenerationJobPreviewReady (d\<lparr>db_assets := as\<rparr>) jid ten [va_id a1] r = Some (k, d2)"
    "d' = d2\<lparr>db_attempts := ats, db_events := es\<rparr>" "map at_job_id ats = map at_job_id (db_attempts d2)"
    "oc = PersistPersisted" "a = Some a1"
proof (cases "oc = PersistPersisted")
  case False
  with assms skipped show thesis
    by (auto simp: insertPreviewAssetAndMarkPreviewReady_def
        split: option.splits job_status.splits sum.splits prod.splits if_splits)
next
  case True
  with assms obtain a1 d1 j d2 where
    w: "insertPreviewWithQueries d p = Inr (a1, d1)"
    and m: "markGenerationJobPreviewReady d1 jid ten [va_id a1] r = Some (j, d2)"
    and k: "bookkeep d2 success (va_id a1) = Inr d'" and a: "a = Some a1"
    by (auto simp: insertPreviewAssetAndMarkPreviewReady_def
        split: option.splits job_status.splits sum.splits prod.splits if_splits)
  from asset_write_frame(2) [OF w] obtain as where "d1 = d\<lparr>db_assets := as\<rparr>" by auto
  with w m bookkeep_frame [OF k] True a written show thesis by blast
qed

lemma insertFinal_inv:
  assumes "insertFinalAssetAndCompleteJob d jid ten p forced slot success r = Inr (a, oc, d')" "plat_inv d"
  shows "plat_inv d'"
  using assms(1)
proof (cases rule: insertFinal_cases)
  case (written as a1 k d2 ats es)
  with markGenerationJobCompleted_inv [OF written(2)] assms(2) show ?thesis by simp
qed (use assms in simp)

lemma insertPreview_inv:
  assumes "insertPreviewAssetAndMarkPreviewReady d jid ten p success r = Inr (a, oc, d')" "plat_inv d"
  shows "plat_inv d'"
  using assms(1)
proof (cases rule: insertPreview_cases)
  case (written as a1 k d2 ats es)
  with markGenerationJobPreviewReady_inv [OF written(2)] assms(2) show ?thesis by simp
qed (use assms in simp)

lemma insertAssetPackItem_frame: "insertAssetPackItem d i = Inr d' \<Longrightarrow> \<exists>x. d' = d\<lparr>db_pack_items := x\<rparr>"
  by (auto simp: insertAssetPackItem_def split: if_splits sum.splits)

lemma insertPackItem_inv:
  assumes "insertPackItemWithAsset d p item success = Inr d'" "plat_inv d"
  shows "plat_inv d'"
proof -
  from assms(1) obtain a d1 d2 where s: "insertWithQueries d p = Inr (a, d1)"
    "insertAssetPackItem d1 item = Inr d2" "bookkeep d2 success (ap_id p) = Inr d'"
    by (auto simp: insertPackItemWithAsset_def split: sum.splits prod.splits)
  from asset_write_frame(1) [OF s(1)] insertAssetPackItem_frame [OF s(2)] bookkeep_frame [OF s(3)] assms(2)
  show ?thesis by auto
qed

lemma insertPackItemSuperseding_inv:
  assumes "insertPackItemWithAssetSuperseding d p item slot success = Inr d'" "plat_inv d"
  shows "plat_inv d'"
proof -
  from assms(1) obtain a d1 d2 where s: "supersedeVariantSlotWithQueries d p slot = Inr (a, d1)"
    "insertAssetPackItem d1 item = Inr d2" "bookkeep d2 success (ap_id p) = Inr d'"
    by (auto simp: insertPackItemWithAssetSuperseding_def split: sum.splits prod.splits)
  from asset_write_frame(4) [OF s(1)] insertAssetPackItem_frame [OF s(2)] bookkeep_frame [OF s(3)] assms(2)
  show ?thesis by auto
qed

lemma insertProviderAttempt_inv: "insertProviderAttempt d p = Inr d' \<Longrightarrow> plat_inv d \<Longrightarrow> plat_inv d'"
  by (auto simp: insertProviderAttempt_def split: if_splits sum.splits)

lemma insertCostEvent_inv: "insertCostEventWithQueries d e = Inr d' \<Longrightarrow> plat_inv d \<Longrightarrow> plat_inv d'"
  by (auto simp: insertCostEventWithQueries_def split: sum.splits)

lemma attempt_exec_inv [simp]:
  "plat_inv (markProviderAttemptSucceeded d i l) = plat_inv d"
  "plat_inv (markProviderAttemptFailed d i c l) = plat_inv d"
  "plat_inv (updateProviderAttemptCost d i a) = plat_inv d"
  "plat_inv (updateAssetPackStatusForJob d pid jid s) = plat_inv d"
  "plat_inv (updateAssetPackCompletenessForJob d pid jid x y) = plat_inv d"
  by (simp_all add: markProviderAttemptSucceeded_def markProviderAttemptFailed_def updateProviderAttemptCost_def
      updateAssetPackStatusForJob_def updateAssetPackCompletenessForJob_def)

section \<open>Reserving and linking\<close>

lemma holdBudgets_frame:
  "holdBudgets tr a rid hids bs d = Inr (Some d') \<Longrightarrow> \<exists>x y. d' = d\<lparr>db_budgets := x, db_holds := y\<rparr>"
proof (induction bs arbitrary: d)
  case Nil
  then show ?case by (intro exI [of _ "db_budgets d"] exI [of _ "db_holds d"]) simp
next
  case (Cons b bs)
  from Cons.prems obtain d1 d2 where
    t: "tryReserve (resetBudgetPeriodIfElapsed tr d (bg_id b)) a (bg_id b) (bg_status b) = Some d1"
    and h: "insertBudgetHold d1 (hids (length bs)) rid (bg_id b) a = Inr d2"
    and rest: "holdBudgets tr a rid hids bs d2 = Inr (Some d')"
    by (auto split: option.splits sum.splits)
  from t have "\<exists>x. d1 = d\<lparr>db_budgets := x\<rparr>"
    by (auto simp: tryReserve_def reservePausedBudget_def reserveActiveBudget_def update_budget_def
        resetBudgetPeriodIfElapsed_def split: if_splits option.splits)
  with insertBudgetHold_InrD(3) [OF h] Cons.IH [OF rest] show ?case by auto metis
qed

lemma reserve_shape:
  assumes "reserve tr d all inp rid hids = Inr (res, d')"
  shows "db_jobs d' = db_jobs d \<and> db_prices d' = db_prices d \<and> db_packs d' = db_packs d \<and> db_idem d' = db_idem d
    \<and> db_now d' = db_now d \<and> db_assets d' = db_assets d \<and> db_pack_items d' = db_pack_items d
    \<and> rr_id res = rid \<and> rid \<notin> rv_id ` set (db_reservations d)
    \<and> (\<exists>row. db_reservations d' = db_reservations d @ [row] \<and> rv_id row = rid \<and> rv_job_id row = ri_job_id inp
         \<and> (failed res \<longrightarrow> rv_status row = Res_failed) \<and> (\<not> failed res \<longrightarrow> rv_status row = Reserved))"
  using assms
proof (cases rule: reserve_cases)
  case denied
  then show ?thesis by (auto simp: denied_row_def)
next
  case (reserved d1)
  from holdBudgets_frame [OF reserved(6)] reserved show ?thesis
    by (auto simp: reserved_row_def failed_def)
qed

text \<open>Linking a job to a new reservation when no other live reservation belongs to it.\<close>

lemma link_plat_inv:
  assumes c: "cost_inv d" and j: "jobs_inv d" and p: "prices_ok d"
    and rs: "db_reservations d = rs @ [row]"
    and old: "\<And>r. r \<in> set rs \<Longrightarrow> rv_status r = Reserved \<Longrightarrow> rv_job_id r \<noteq> rv_job_id row \<and>
        (\<exists>j \<in> set (db_jobs d). jb_id j = rv_job_id r \<and> jb_cost_reservation_id j = Some (rv_id r))"
    and ex: "\<exists>j \<in> set (db_jobs d). P j" and P: "\<And>j. j \<in> set (db_jobs d) \<Longrightarrow> P j \<Longrightarrow> jb_id j = rv_job_id row"
    and f: "\<And>j. j \<in> set (db_jobs d) \<Longrightarrow> P j \<Longrightarrow> jb_id (f j) = jb_id j \<and> jb_cost_reservation_id (f j) = Some (rv_id row)
        \<and> (jb_final_asset_ids (f j) \<noteq> [] \<longrightarrow> jb_status (f j) = Completed)"
  shows "plat_inv (d\<lparr>db_jobs := update_where P f (db_jobs d)\<rparr>)"
proof -
  let ?d = "d\<lparr>db_jobs := update_where P f (db_jobs d)\<rparr>"
  have "jobs_inv ?d"
    using j f by (auto simp: jobs_inv_def keyed_update_where elim!: update_where_memE)
  moreover have "owner_inv ?d"
    unfolding owner_inv_def
  proof (intro ballI impI)
    fix r assume r: "r \<in> set (db_reservations ?d)" "rv_status r = Reserved"
    show "\<exists>j \<in> set (db_jobs ?d). jb_id j = rv_job_id r \<and> jb_cost_reservation_id j = Some (rv_id r)"
    proof (cases "r \<in> set rs")
      case True
      with old [OF True r(2)] obtain j where jj: "j \<in> set (db_jobs d)" "jb_id j = rv_job_id r"
        "jb_cost_reservation_id j = Some (rv_id r)" "rv_job_id r \<noteq> rv_job_id row" by blast
      then have "\<not> P j" using P by auto
      with jj show ?thesis by (auto simp: set_update_where intro!: bexI [of _ j] image_eqI [of _ _ j])
    next
      case False
      with r rs have [simp]: "r = row" by auto
      from ex obtain j where jj: "j \<in> set (db_jobs d)" "P j" by blast
      then have "f j \<in> set (db_jobs ?d)" by (auto simp: set_update_where intro!: image_eqI [of _ _ j])
      with f [OF jj] P [OF jj] show ?thesis by auto
    qed
  qed
  moreover have "cost_inv ?d" using c by (simp add: cost_inv_frame [of ?d d])
  ultimately show ?thesis using p by (simp add: plat_inv_def prices_ok_def)
qed

text \<open>
  Closing the linked reservation of a job leaves no live reservation of that job.
\<close>

lemma linked_finalize_clears:
  assumes fin: "finalizeInTxForReservation d jid t '''' lid eid = Inr d'" and inv: "plat_inv d"
    and r: "r \<in> set (db_reservations d')" "rv_job_id r = jid"
  shows "rv_status r \<noteq> Reserved"
proof
  assume s: "rv_status r = Reserved"
  have inv': "plat_inv d'" by (rule finalize_plat_inv [OF fin inv])
  have b: "book_inv d" using inv by (simp add: plat_inv_def cost_inv_def)
  have none: "find (finalizable d' jid '''') (db_reservations d') = None"
    using fin b
  proof (cases rule: finalize_cases)
    case (settled r rep ls es dx)
    show ?thesis by (rule finalizable_settled [OF _ settled(2,4)]) (use settled(1) in auto)
  qed simp
  from inv' s r obtain j where j: "j \<in> set (db_jobs d')" "jb_id j = jid" "jb_cost_reservation_id j = Some (rv_id r)"
    by (auto simp: plat_inv_def owner_inv_def)
  have "getGenerationJobByIDUnchecked d' jid = Some j"
    unfolding getGenerationJobByIDUnchecked_def
    by (rule find_keyed [where k = jb_id]) (use inv' j in \<open>auto simp: plat_inv_def jobs_inv_def\<close>)
  with r s j have "finalizable d' jid '''' r" by (simp add: finalizable_def)
  with none r(1) show False by (auto simp: find_None_conv)
qed

section \<open>Creating\<close>

lemma insertJobRow_inv:
  assumes "insertJobRow d j = Inr d'" "plat_inv d" "jb_final_asset_ids j \<noteq> [] \<longrightarrow> jb_status j = Completed"
  shows "plat_inv d' \<and> d' = d\<lparr>db_jobs := db_jobs d @ [j]\<rparr> \<and> jb_id j \<notin> jb_id ` set (db_jobs d)"
proof -
  from assms(1) have d': "d' = d\<lparr>db_jobs := db_jobs d @ [j]\<rparr>" and fr: "jb_id j \<notin> jb_id ` set (db_jobs d)"
    by (auto simp: insertJobRow_def split: sum.splits)
  have "cost_inv d'" using assms(2) by (simp add: plat_inv_def d' cost_inv_frame [of "d\<lparr>db_jobs := db_jobs d @ [j]\<rparr>" d])
  with assms(2,3) d' fr show ?thesis
    by (auto simp: plat_inv_def jobs_inv_def owner_inv_def prices_ok_def keyed_snoc)
qed

lemma worstCase_pos: "1 \<le> worstCaseBillableUnits c"
  by (auto simp: worstCaseBillableUnits_def Let_def split: option.splits)

lemma priced_units: "1 \<le> cp_units (priced_params d c)"
  using worstCase_pos by (simp add: priced_params_def Let_def)

lemma priced_fields [simp]:
  "cp_tenant_id (priced_params d c) = cp_tenant_id c"
  "cp_token_id (priced_params d c) = cp_token_id c"
  "cp_idempotency_key (priced_params d c) = cp_idempotency_key c"
  "cp_max_concurrent_jobs (priced_params d c) = cp_max_concurrent_jobs c"
  "cp_asset_pack (priced_params d c) = cp_asset_pack c"
  "cp_endpoint (priced_params d c) = cp_endpoint c"
  "cp_request_hash (priced_params d c) = cp_request_hash c"
  "cp_provider_id (priced_params d c) = cp_provider_id c"
  by (simp_all add: priced_params_def Let_def)

lemma new_job_simps [simp]:
  "jb_id (new_job i c) = i" "jb_status (new_job i c) = Queued" "jb_final_asset_ids (new_job i c) = []"
  "jb_cost_reservation_id (new_job i c) = None" "jb_tenant_id (new_job i c) = cp_tenant_id c"
  "jb_requested_by_token_id (new_job i c) = Some (cp_token_id c)"
  by (simp_all add: new_job_def)

lemma preflight_inv:
  assumes pf: "preflight tr d all f c = Inr (res, d')" and inv: "plat_inv d" and u: "0 \<le> cp_units c"
    and new: "new_job (fi_job f) c \<in> set (db_jobs d)"
  shows "plat_inv d'"
proof -
  let ?inp = "reserve_input_of (fi_job f) c"
  from pf obtain d1 where rv: "reserve tr d all ?inp (fi_reservation f) (fi_hold f) = Inr (res, d1)"
    by (auto simp: preflight_def Let_def split: sum.splits if_splits option.splits)
  have c1: "cost_inv d1"
    by (rule reserve_cost_inv [OF rv]) (use inv u in \<open>simp_all add: plat_inv_def reserve_input_of_def\<close>)
  note sh = reserve_shape [OF rv]
  then obtain row where row: "db_reservations d1 = db_reservations d @ [row]" "rv_id row = rr_id res"
    "rv_job_id row = fi_job f" by (auto simp: reserve_input_of_def)
  have jobs: "db_jobs d1 = db_jobs d" "db_prices d1 = db_prices d" using sh by simp_all
  let ?d2 = "setGenerationJobCost d1 (fi_job f) (rr_id res) (rr_estimated res)"
  have k: "keyed jb_id (db_jobs d)" using inv by (simp add: plat_inv_def jobs_inv_def)
  have only: "j = new_job (fi_job f) c" if "j \<in> set (db_jobs d)" "jb_id j = fi_job f" for j
    using keyed_unique [OF k that(1) new] that(2) by simp
  have "plat_inv ?d2"
    unfolding setGenerationJobCost_def
  proof (rule link_plat_inv [OF c1 _ _ row(1)])
    show "jobs_inv d1" "prices_ok d1" using inv jobs by (simp_all add: plat_inv_def jobs_inv_def prices_ok_def)
    show "\<exists>j \<in> set (db_jobs d1). jb_id j = fi_job f" using new jobs by (intro bexI [of _ "new_job (fi_job f) c"]) simp_all
    fix r assume r: "r \<in> set (db_reservations d)" "rv_status r = Reserved"
    then obtain j where j: "j \<in> set (db_jobs d)" "jb_id j = rv_job_id r" "jb_cost_reservation_id j = Some (rv_id r)"
      using inv by (auto simp: plat_inv_def owner_inv_def)
    then have "jb_id j \<noteq> fi_job f" using only [of j] by auto
    with j jobs row(3) show "rv_job_id r \<noteq> rv_job_id row \<and>
        (\<exists>j \<in> set (db_jobs d1). jb_id j = rv_job_id r \<and> jb_cost_reservation_id j = Some (rv_id r))" by auto
  next
    fix j assume "j \<in> set (db_jobs d1)" "jb_id j = fi_job f"
    then show "jb_id (j\<lparr>jb_cost_reservation_id := Some (rr_id res), jb_cost_estimate := Some (rr_estimated res)\<rparr>) = jb_id j
      \<and> jb_cost_reservation_id (j\<lparr>jb_cost_reservation_id := Some (rr_id res), jb_cost_estimate := Some (rr_estimated res)\<rparr>) = Some (rv_id row)
      \<and> (jb_final_asset_ids (j\<lparr>jb_cost_reservation_id := Some (rr_id res), jb_cost_estimate := Some (rr_estimated res)\<rparr>) \<noteq> []
         \<longrightarrow> jb_status (j\<lparr>jb_cost_reservation_id := Some (rr_id res), jb_cost_estimate := Some (rr_estimated res)\<rparr>) = Completed)"
      using only [of j] jobs row(2) by auto
  qed (use row(3) in simp)
  with pf rv show ?thesis
    by (auto simp: preflight_def Let_def dest: markGenerationJobFailed_inv split: if_splits option.splits)
qed

lemma insertReusedPackItems_frame:
  "insertReusedPackItems d pid iid is = Inr d' \<Longrightarrow> \<exists>x. d' = d\<lparr>db_pack_items := x\<rparr>"
proof (induction "is" arbitrary: d)
  case Nil
  then show ?case by (intro exI [of _ "db_pack_items d"]) simp
next
  case (Cons i "is")
  then obtain d1 where d1: "insertAssetPackItem d \<lparr>pi_id = iid (length is), pi_pack_id = pid,
        pi_asset_id = ru_asset_id i, pi_variant_key = ru_variant_key i, pi_sort_order = ru_sort_order i\<rparr> = Inr d1"
    "insertReusedPackItems d1 pid iid is = Inr d'" by (auto split: sum.splits)
  from Cons.IH [OF d1(2)] insertAssetPackItem_frame [OF d1(1)] show ?case by auto
qed

lemma insertPack_frame:
  "insertPack d pid jid iid c spec = Inr d' \<Longrightarrow> \<exists>p x. d' = d\<lparr>db_packs := p, db_pack_items := x\<rparr>"
  using insertReusedPackItems_frame
  by (fastforce simp: insertPack_def insertAssetPack_def split: sum.splits)

lemma setPack_inv: "plat_inv d \<Longrightarrow> plat_inv (setGenerationJobAssetPack d jid pid)"
  unfolding setGenerationJobAssetPack_def
  by (rule plat_inv_update_jobs) (auto simp: plat_inv_def jobs_inv_def)

lemma createPack_inv:
  assumes "createPack d f c res = Inr (pid, d')" "plat_inv d"
  shows "plat_inv d'"
proof (cases "cp_asset_pack c")
  case (Some spec)
  show ?thesis
  proof (cases "failed res")
    case False
    with Some assms(1) obtain d1 where d1: "insertPack d (fi_pack f) (fi_job f) (fi_item f) c spec = Inr d1"
      "d' = setGenerationJobAssetPack d1 (fi_job f) (fi_pack f)"
      by (auto simp: createPack_def split: sum.splits)
    from insertPack_frame [OF d1(1)] obtain p x where e: "d1 = d\<lparr>db_packs := p, db_pack_items := x\<rparr>" by blast
    have "plat_inv d1" using assms(2) plat_inv_items [of x "d\<lparr>db_packs := p\<rparr>"] unfolding e by simp
    then show ?thesis unfolding d1(2) by (rule setPack_inv)
  qed (use Some assms in \<open>simp add: createPack_def\<close>)
qed (use assms in \<open>simp add: createPack_def\<close>)

lemma claimKey_frame: "claimKey d k t key e h j n = Inr (Some d') \<Longrightarrow> \<exists>x. d' = d\<lparr>db_idem := x\<rparr>"
proof (cases "d' = d")
  case True
  then show ?thesis by (intro exI [of _ "db_idem d"]) simp
next
  case False
  assume "claimKey d k t key e h j n = Inr (Some d')"
  with False show ?thesis
    by (auto simp: claimKey_def insertIdempotencyKey_def split: if_splits option.splits sum.splits)
qed

text \<open>The steps of a committed create.\<close>

lemma createTx_committedD:
  assumes "createTx tr d all f c0 = TxCommitted res pid live d'"
  obtains d1 d2 d3 where
    "insertJobRow d (new_job (fi_job f) (priced_params d c0)) = Inr d1"
    "preflight tr d1 all f (priced_params d c0) = Inr (res, d2)"
    "createPack d2 f (priced_params d c0) res = Inr (pid, d3)"
    "claimKey d3 (fi_idem f) (cp_token_id c0) (cp_idempotency_key c0) (cp_endpoint c0) (cp_request_hash c0)
       (fi_job f) (fi_now f) = Inr (Some d')"
    "cp_tenant_id c0 \<noteq> ''''"
    "cp_idempotency_key c0 \<noteq> '''' \<longrightarrow> getIdempotencyKey d (cp_token_id c0) (cp_idempotency_key c0) = None"
    "cp_max_concurrent_jobs c0 > 0 \<longrightarrow> int (countLiveGenerationJobsByToken d (cp_token_id c0)) < cp_max_concurrent_jobs c0"
    "live = (if cp_max_concurrent_jobs c0 > 0 then int (countLiveGenerationJobsByToken d (cp_token_id c0)) else 0)"
  using assms
  by (auto simp: createTx_def insertJob_def Let_def split: if_splits sum.splits option.splits prod.splits)

lemma createTx_inv:
  assumes "createTx tr d all f c0 = TxCommitted res pid live d'" "plat_inv d"
  shows "plat_inv d'"
  using assms(1)
proof (rule createTx_committedD)
  fix d1 d2 d3
  let ?c = "priced_params d c0"
  assume i: "insertJobRow d (new_job (fi_job f) ?c) = Inr d1"
    and p: "preflight tr d1 all f ?c = Inr (res, d2)"
    and k: "createPack d2 f ?c res = Inr (pid, d3)"
    and l: "claimKey d3 (fi_idem f) (cp_token_id c0) (cp_idempotency_key c0) (cp_endpoint c0)
        (cp_request_hash c0) (fi_job f) (fi_now f) = Inr (Some d')"
  from insertJobRow_inv [OF i assms(2)] have d1: "plat_inv d1" "new_job (fi_job f) ?c \<in> set (db_jobs d1)" by auto
  have "plat_inv d2" by (rule preflight_inv [OF p d1(1) _ d1(2)]) (use priced_units [of d c0] in simp)
  from createPack_inv [OF k this] claimKey_frame [OF l] show ?thesis by auto
qed

lemma createCompletedCacheHitJob_inv:
  assumes "createCompletedCacheHitJob env d f c = (r, e, d')" "plat_inv d" "plat_inv (env d)"
  shows "plat_inv d'"
proof -
  let ?j = "completed_job (fi_job f) (ch_tenant_id c) (ch_world_id c) (ch_visual_identity_id c)
      (ch_job_type c) (ch_token_id c) (ch_input_payload c)
      (if ch_requested_outputs c = [] then [''default''] else ch_requested_outputs c)
      (ch_fallback_policy c) ''exact_match'' [ch_final_asset_id c] (db_now d)"
  have s: "jb_status ?j = Completed" by (simp add: completed_job_def)
  consider "d' = d" | "d' = env d" | d1 where "insertJobRow d ?j = Inr d1"
      "claimKey d1 (fi_idem f) (ch_token_id c) (ch_idempotency_key c) (ch_endpoint c) (ch_request_hash c)
         (fi_job f) (fi_now f) = Inr (Some d')"
    using assms(1) by (auto simp: createCompletedCacheHitJob_def split: if_splits sum.splits option.splits prod.splits)
  then show ?thesis
  proof cases
    case 3
    from insertJobRow_inv [OF 3(1) assms(2)] s claimKey_frame [OF 3(2)] show ?thesis by auto
  qed (use assms in simp_all)
qed

lemma packReuseTx_inv:
  assumes "packReuseTx d f c = Inr d'" "plat_inv d"
  shows "plat_inv d'"
proof -
  from assms(1) obtain j d1 p where s: "insertJobRow d j = Inr d1" "jb_status j = Completed"
      "insertReusedPackItems (setGenerationJobAssetPack (d1\<lparr>db_packs := p\<rparr>) (fi_job f) (fi_pack f)) (fi_pack f)
         (fi_item f) (pp_reused_items c) = Inr d'"
    unfolding packReuseTx_def insertAssetPack_def
    by (auto simp: completed_job_def split: sum.splits)
  have "plat_inv d1" using insertJobRow_inv [OF s(1) assms(2)] s(2) by blast
  then have "plat_inv (setGenerationJobAssetPack (d1\<lparr>db_packs := p\<rparr>) (fi_job f) (fi_pack f))"
    by (intro setPack_inv) simp
  with insertReusedPackItems_frame [OF s(3)] show ?thesis by auto
qed

lemma createCompletedPackReuseJob_inv:
  assumes "createCompletedPackReuseJob env d f c = (r, e, d')" "plat_inv d" "plat_inv (env d)"
  shows "plat_inv d'"
proof -
  consider "d' = d" | "d' = env d" | d1 where "packReuseTx d f c = Inr d1"
      "claimKey d1 (fi_idem f) (pp_token_id c) (pp_idempotency_key c) (pp_endpoint c) (pp_request_hash c)
         (fi_job f) (fi_now f) = Inr (Some d')"
    using assms(1) by (auto simp: createCompletedPackReuseJob_def split: if_splits sum.splits option.splits prod.splits)
  then show ?thesis
  proof cases
    case 3
    from packReuseTx_inv [OF 3(1) assms(2)] claimKey_frame [OF 3(2)] show ?thesis by auto
  qed (use assms in simp_all)
qed

section \<open>Cleaning up, cancelling, retrying\<close>

lemma enqueueCleanup_inv: "enqueueCleanup d jid ten pid rid msg l e = Inr d' \<Longrightarrow> plat_inv d \<Longrightarrow> plat_inv d'"
  by (auto simp: enqueueCleanup_def dest!: markGenerationJobFailed_inv releaseInTx_inv split: if_splits option.splits)

lemma enqueueRetryCleanup_inv: "enqueueRetryCleanup d jid ten pid rid msg l e = Inr d' \<Longrightarrow> plat_inv d \<Longrightarrow> plat_inv d'"
  by (auto simp: enqueueRetryCleanup_def dest!: markGenerationJobFailed_inv releaseInTx_inv split: if_splits option.splits)

lemma fail_pack_inv [simp]: "plat_inv (fail_pack_of d jid pid) = plat_inv d"
  by (cases pid) (simp_all add: fail_pack_of_def)

text \<open>The lock and the conditional read select the one row with the identifier.\<close>

lemma locked_row:
  assumes "lockGenerationJobForUpdate d jid ten = Some s"
  obtains j where "j \<in> set (db_jobs d)" "jb_id j = jid" "jb_tenant_id j = ten" "jb_status j = s"
proof -
  from assms obtain j where j: "getGenerationJobByID d jid ten = Some j" "jb_status j = s"
    by (auto simp: lockGenerationJobForUpdate_def)
  from j(1) [unfolded getGenerationJobByID_def] find_Some_iff [of _ "db_jobs d" j]
  have "j \<in> set (db_jobs d) \<and> jb_id j = jid \<and> jb_tenant_id j = ten" by (metis (mono_tags, lifting) nth_mem)
  with j(2) that show thesis by blast
qed

lemma locked_status:
  assumes "lockGenerationJobForUpdate d jid ten = Some s" "plat_inv d" "j \<in> set (db_jobs d)" "jb_id j = jid"
  shows "jb_status j = s"
proof -
  from assms(1) obtain j0 where j0: "j0 \<in> set (db_jobs d)" "jb_id j0 = jid" "jb_status j0 = s" by (rule locked_row)
  have "j = j0" using keyed_unique [of jb_id "db_jobs d" j j0] assms j0 by (auto simp: plat_inv_def jobs_inv_def)
  with j0 show ?thesis by simp
qed

lemma cancelGenerationJob_inv:
  assumes "cancelGenerationJob d jid ten msg = Some (j', d')" "plat_inv d"
    and "lockGenerationJobForUpdate d jid ten = Some s" "live_status s"
  shows "plat_inv d'"
proof -
  have "jb_final_asset_ids j = []" if "j \<in> set (db_jobs d)" "jb_id j = jid" for j
    using locked_status [OF assms(3,2) that] live_no_final [OF assms(2) that(1)] assms(4) by (auto simp: live_status_def)
  then show ?thesis
    using assms(1,2) unfolding cancelGenerationJob_def by (elim update_job_plat_inv) auto
qed

lemma cancelJob_InrD:
  assumes "cancelJob d ten jid lid eid = Inr (j, d')"
  obtains "lockGenerationJobForUpdate d jid ten = Some Cancelled" "releaseInTx d jid lid eid = Inr d'"
  | s d1 p where "lockGenerationJobForUpdate d jid ten = Some s" "live_status s"
      "cancelGenerationJob d jid ten (cancelMessage s) = Some (j, d1)"
      "releaseInTx (fail_pack_of d1 jid p) jid lid eid = Inr d'"
  using assms unfolding cancelJob_def
  by (simp split: if_split_asm option.split_asm sum.split_asm prod.split_asm) auto

lemma cancelJob_inv:
  assumes "cancelJob d ten jid lid eid = Inr (j, d')" "plat_inv d"
  shows "plat_inv d'"
  using assms(1)
proof (cases rule: cancelJob_InrD)
  case 1
  then show ?thesis using assms(2) releaseInTx_inv by blast
next
  case (2 s d1 p)
  then have "plat_inv d1" using cancelGenerationJob_inv assms(2) by blast
  then show ?thesis using releaseInTx_inv [OF 2(4)] by simp
qed

lemma reserveInput_units: "reserveInputFromRow jid ten row = Inr rin \<Longrightarrow> 0 \<le> ri_units rin \<and> ri_job_id rin = jid"
  by (auto simp: reserveInputFromRow_def Let_def split: if_splits)

lemma retryTx_InrD:
  assumes "retryTx tr d all ten jid rid hids lid eid = Inr (j, r, d')"
  obtains row d1 rin res d2 where "lockGenerationJobRowForUpdate d jid ten None = Some row" "jb_status row = Failed"
    "releaseInTx d jid lid eid = Inr d1" "reserveInputFromRow jid ten row = Inr rin"
    "reserve tr d1 all rin rid hids = Inr (res, d2)" "\<not> failed res" "r = rr_id res"
    "retryResetGenerationJob d2 jid ten (rr_id res) (rr_estimated res) = Some (j, d')"
  using assms by (auto simp: retryTx_def split: if_splits option.splits sum.splits prod.splits)

lemma retryTx_inv:
  assumes "retryTx tr d all ten jid rid hids lid eid = Inr (j, r, d')" and inv: "plat_inv d"
  shows "plat_inv d'"
  using assms(1)
proof (rule retryTx_InrD)
  fix row d1 rin res d2
  assume rel: "releaseInTx d jid lid eid = Inr d1" and rin: "reserveInputFromRow jid ten row = Inr rin"
    and rv: "reserve tr d1 all rin rid hids = Inr (res, d2)"
    and reset: "retryResetGenerationJob d2 jid ten (rr_id res) (rr_estimated res) = Some (j, d')"
  have i1: "plat_inv d1" using releaseInTx_inv [OF rel inv] .
  have c2: "cost_inv d2"
    by (rule reserve_cost_inv [OF rv]) (use i1 reserveInput_units [OF rin] in \<open>simp_all add: plat_inv_def\<close>)
  note sh = reserve_shape [OF rv]
  then obtain rw where rw: "db_reservations d2 = db_reservations d1 @ [rw]" "rv_id rw = rr_id res" "rv_job_id rw = jid"
    using reserveInput_units [OF rin] by auto
  have clear: "rv_job_id x \<noteq> jid" if "x \<in> set (db_reservations d1)" "rv_status x = Reserved" for x
    using linked_finalize_clears [OF rel [unfolded releaseInTx_def] inv that(1)] that(2) by blast
  let ?P = "\<lambda>j. jb_id j = jid \<and> jb_tenant_id j = ten"
  from update_job_SomeD [OF reset [unfolded retryResetGenerationJob_def]]
  have ex: "\<exists>j \<in> set (db_jobs d2). ?P j" and d': "d' = d2\<lparr>db_jobs := update_where ?P
     (\<lambda>j. j\<lparr>jb_status := Queued,
              jb_input_payload := (jb_input_payload j)(''preview_finalization_claimed'' := None),
              jb_error_code := None, jb_error_message := None, jb_retryable := None,
              jb_started_at := None, jb_completed_at := None, jb_final_asset_ids := [],
              jb_cost_reservation_id := Some (rr_id res), jb_cost_estimate := Some (rr_estimated res),
              jb_actual_cost := None\<rparr>) (db_jobs d2)\<rparr>" by auto
  show "plat_inv d'"
    unfolding d'
  proof (rule link_plat_inv [OF c2 _ _ rw(1) _ ex])
    show "jobs_inv d2" "prices_ok d2" using i1 sh by (simp_all add: plat_inv_def jobs_inv_def prices_ok_def)
    fix x assume x: "x \<in> set (db_reservations d1)" "rv_status x = Reserved"
    with i1 sh rw(3) clear [OF x]
    show "rv_job_id x \<noteq> rv_job_id rw \<and> (\<exists>j \<in> set (db_jobs d2). jb_id j = rv_job_id x \<and> jb_cost_reservation_id j = Some (rv_id x))"
      by (auto simp: plat_inv_def owner_inv_def)
  qed (use rw in auto)
qed

end
