(* ===== verification/Worker_Safety.thy ===== *)
theory Worker_Safety
  imports Invariants
begin

text \<open>
  What a worker run may do to the world. The locale names the steps a run is made of, each a
  transaction, a read, an identifier drawn, an event emitted or a walk of the provider chain,
  and the one law its client needs of them, that each keeps \<open>J\<close>; then every function of the
  worker keeps \<open>J\<close>. The ports and the job row the run has read are fixed.
\<close>

locale worker_steps =
  fixes J :: "world \<Rightarrow> bool" and pt :: ports and j :: job
  assumes markRunning_step: "\<And>i t r. holds J (tx (\<lambda>d. markRunning d i t r))"
    and claimPreview_step: "\<And>i t r. holds J (tx (\<lambda>d. claimPreview d i t r))"
    and markFailed_step: "\<And>i t c m b r. holds J (tx (\<lambda>d. markFailed d i t c m b r))"
    and insertFinal_step: "\<And>i t p f s sp r. holds J (tx (\<lambda>d.
          case insertFinalAssetAndCompleteJob d i t p f s sp r of
            Inl e \<Rightarrow> Inl e | Inr (a, oc, d') \<Rightarrow> Inr ((a, oc), d')))"
    and insertPreview_step: "\<And>i t p sp r. holds J (tx (\<lambda>d.
          case insertPreviewAssetAndMarkPreviewReady d i t p sp r of
            Inl e \<Rightarrow> Inl e | Inr (a, oc, d') \<Rightarrow> Inr ((a, oc), d')))"
    and attemptSucceeded_step: "\<And>i l. holds J (exec (\<lambda>d. markProviderAttemptSucceeded d i l))"
    and attemptFailed_step: "\<And>i c l. holds J (exec (\<lambda>d. markProviderAttemptFailed d i c l))"
    and insertCostEvent_step: "\<And>e. holds J (tx_unit (\<lambda>d. insertCostEventWithQueries d e))"
    and commit_step: "\<And>b i rid l e. holds J (tx_unit (\<lambda>d.
          if b then commitForReservation d i rid l e else commitInTx d i l e))"
    and release_step: "\<And>b i rid l e. holds J (tx_unit (\<lambda>d.
          if b then releaseForReservation d i rid l e else releaseInTx d i l e))"
    and reconcile_step: "\<And>i rid l. holds J (tx_unit (\<lambda>d. reconcileForReservation d i rid l))"
    and getByID_step: "\<And>i. holds J (query (\<lambda>d. getByID d i))"
    and newID_step: "holds J (newID pt)"
    and emit_step: "\<And>ev as c. holds J (emit j ev as c)"
    and anchor_step: "\<And>x. holds J (State (\<lambda>w. ((), w\<lparr>wd_anchors := wd_anchors w @ [x]\<rparr>)))"
    and walkRoutes_step: "\<And>req n0 le any rs. holds J (walkRoutes pt j req n0 le any rs)"
begin

lemma markJobFailed_holds [holds_intro]: "holds J (markJobFailed j c m b e)"
  unfolding markJobFailed_def by (rule markFailed_step)

lemma commitReservation_holds [holds_intro]: "holds J (commitReservation pt j)"
  unfolding commitReservation_def by (intro holds_intro newID_step commit_step)

lemma releaseReservation_holds [holds_intro]: "holds J (releaseReservation pt j)"
  unfolding releaseReservation_def by (intro holds_intro newID_step release_step)

lemma failTerminal_holds [holds_intro]: "holds J (failTerminal pt j c m e)"
  unfolding failTerminal_def by (intro holds_intro emit_step)

lemma failJob_holds [holds_intro]: "holds J (failJobOnFinalAttempt pt j err f e)"
  unfolding failJobOnFinalAttempt_def by (intro holds_intro emit_step)

lemma recordAttemptFailure_holds [holds_intro]: "holds J (recordAttemptFailureWithCost pt j a p m err l c)"
  unfolding recordAttemptFailureWithCost_def
  by (intro holds_intro newID_step attemptFailed_step insertCostEvent_step)

lemma recordFailure_holds [holds_intro]: "holds J (recordFailureWithCost pt j a p m err l f c e)"
  unfolding recordFailureWithCost_def by (intro holds_intro)

lemma discard_holds [holds_intro]: "holds J (recordDiscardedProviderSuccess pt j a r l res ph)"
  unfolding recordDiscardedProviderSuccess_def
  by (intro holds_intro newID_step attemptSucceeded_step insertCostEvent_step reconcile_step)

lemma finishCancelled_holds [holds_intro]: "holds J (finishCancelled pt j)"
  unfolding finishCancelled_def by (intro holds_intro getByID_step)

lemma claimQueuedJob_holds [holds_intro]: "holds J (claimQueuedJob j n e)"
  unfolding claimQueuedJob_def by (intro holds_intro markRunning_step)

lemma claimPreviewFinal_holds [holds_intro]: "holds J (claimPreviewFinal j n e)"
  unfolding claimPreviewFinal_def by (intro holds_intro claimPreview_step)

lemma generate_holds [holds_intro]: "holds J (generateWithFallback pt j p req n0)"
  unfolding generateWithFallback_def by (rule walkRoutes_step)

lemma references_holds [holds_intro]: "holds J (singleImageReferences pt j p e)"
  unfolding singleImageReferences_def by (intro holds_intro)

lemma render_holds [holds_intro]: "holds J (renderAndUpload pt j r req n0 f e)"
  unfolding renderAndUpload_def by (intro holds_intro newID_step)

lemma anchor_holds [holds_intro]: "holds J (attachGeneratedIdentityAnchor j fs)"
  unfolding attachGeneratedIdentityAnchor_def by (intro holds_intro anchor_step)

lemma outcome_holds [holds_intro]:
  "holds J (recordFailureOf pt j out err f e)" "holds J (discardOutput pt j out ph)"
  unfolding recordFailureOf_def discardOutput_def by (intro holds_intro)+

lemma persist_holds [holds_intro]: "holds J (persistFinal j p sp e)" "holds J (persistPreview j p sp e)"
  unfolding persistFinal_def persistPreview_def
  by (rule insertFinal_step insertPreview_step)+

lemma previewPhase_holds [holds_intro]: "holds J (previewPhase pt j r refs n0 f e)"
  unfolding previewPhase_def by (intro holds_intro newID_step emit_step)

lemma previewFinalPhase_holds [holds_intro]: "holds J (previewFinalPhase pt j r refs n0 f e)"
  unfolding previewFinalPhase_def by (intro holds_intro newID_step emit_step)

lemma previewFirst_holds [holds_intro]: "holds J (processPreviewFirst pt j r n0 f n e)"
  unfolding processPreviewFirst_def by (intro holds_intro)

lemma singlePhase_holds [holds_intro]: "holds J (processSinglePhase pt j r n0 f e)"
  unfolding processSinglePhase_def by (intro holds_intro newID_step emit_step)

lemma processFound_holds [holds_intro]: "holds J (processFound pt j e n)"
  unfolding processFound_def by (intro holds_intro)

end

text \<open>
  An invariant \<open>I\<close> of the database that each transaction keeps is such a \<open>J\<close>, under any
  interference that keeps it.
\<close>

locale worker_rely =
  fixes I :: "db \<Rightarrow> bool"
  assumes markRunning_keeps: "\<And>d i t r j d'. markRunning d i t r = Inr (j, d') \<Longrightarrow> I d \<Longrightarrow> I d'"
    and claimPreview_keeps: "\<And>d i t r j d'. claimPreview d i t r = Inr (j, d') \<Longrightarrow> I d \<Longrightarrow> I d'"
    and markFailed_keeps: "\<And>d i t c m b r j d'. markFailed d i t c m b r = Inr (j, d') \<Longrightarrow> I d \<Longrightarrow> I d'"
    and insertFinal_keeps: "\<And>d i t p f s sp r a oc d'.
          insertFinalAssetAndCompleteJob d i t p f s sp r = Inr (a, oc, d') \<Longrightarrow> I d \<Longrightarrow> I d'"
    and insertPreview_keeps: "\<And>d i t p sp r a oc d'.
          insertPreviewAssetAndMarkPreviewReady d i t p sp r = Inr (a, oc, d') \<Longrightarrow> I d \<Longrightarrow> I d'"
    and insertAttempt_keeps: "\<And>d p d'. insertProviderAttempt d p = Inr d' \<Longrightarrow> I d \<Longrightarrow> I d'"
    and attemptSucceeded_keeps: "\<And>d i l. I d \<Longrightarrow> I (markProviderAttemptSucceeded d i l)"
    and attemptFailed_keeps: "\<And>d i c l. I d \<Longrightarrow> I (markProviderAttemptFailed d i c l)"
    and attemptCost_keeps: "\<And>d i a. I d \<Longrightarrow> I (updateProviderAttemptCost d i a)"
    and insertCostEvent_keeps: "\<And>d e d'. insertCostEventWithQueries d e = Inr d' \<Longrightarrow> I d \<Longrightarrow> I d'"
    and finalize_keeps: "\<And>d i t rid l e d'. finalizeInTxForReservation d i t rid l e = Inr d' \<Longrightarrow> I d \<Longrightarrow> I d'"
    and reconcile_keeps: "\<And>d i rid l d'. reconcileForReservation d i rid l = Inr d' \<Longrightarrow> I d \<Longrightarrow> I d'"
begin

lemma finalizer_keeps:
  "commitInTx d i l e = Inr d' \<Longrightarrow> I d \<Longrightarrow> I d'" "releaseInTx d i l e = Inr d' \<Longrightarrow> I d \<Longrightarrow> I d'"
  "commitForReservation d i rid l e = Inr d' \<Longrightarrow> I d \<Longrightarrow> I d'"
  "releaseForReservation d i rid l e = Inr d' \<Longrightarrow> I d \<Longrightarrow> I d'"
  unfolding commitInTx_def commitForReservation_def releaseInTx_def releaseForReservation_def
  by (rule finalize_keeps, assumption+)+

lemma anchor_keeps: "keeps I (State (\<lambda>w. ((), w\<lparr>wd_anchors := wd_anchors w @ [x]\<rparr>)))"
  by (auto simp: holds_def stable_def)

lemma recordAttempt_keeps: "keeps I (recordAttemptFailureWithCost pt j a p m err l c)"
  unfolding recordAttemptFailureWithCost_def
  by (intro holds_intro keeps_newID keeps_exec keeps_tx_unit) (auto intro: attemptFailed_keeps insertCostEvent_keeps)

lemma walkRoutes_keeps: "keeps I (walkRoutes pt j req n0 le any rs)"
proof (induction rs arbitrary: le any)
  case Nil
  show ?case by (simp add: holds_intro)
next
  case (Cons r rs)
  show ?case
    unfolding walkRoutes.simps
    by (intro holds_intro Cons.IH recordAttempt_keeps keeps_query keeps_newID keeps_tx_unit keeps_exec keeps_generate)
      (auto intro: insertAttempt_keeps attemptCost_keeps)
qed

end

sublocale worker_rely \<subseteq> worker_steps "stable I" pt j for pt j
  by (unfold_locales;
    (rule keeps_query keeps_newID keeps_emit walkRoutes_keeps anchor_keeps
     | (rule keeps_tx keeps_tx_unit keeps_exec,
        auto split: sum.splits if_splits intro: markRunning_keeps claimPreview_keeps markFailed_keeps
          insertFinal_keeps insertPreview_keeps attemptSucceeded_keeps attemptFailed_keeps
          insertCostEvent_keeps finalizer_keeps reconcile_keeps)))

context worker_rely
begin

lemma process_keeps: "keeps I (process pt jid erid n)"
  unfolding process_def by (intro holds_intro keeps_query)

end

text \<open>The database invariant is kept, so it holds at every point of every run.\<close>

interpretation platform: worker_rely plat_inv
  by unfold_locales
    (auto simp: markRunning_def claimPreview_def markFailed_def
      intro: markGenerationJobRunning_inv claimPreviewFinalization_inv markGenerationJobFailed_inv
        insertFinal_inv insertPreview_inv insertProviderAttempt_inv insertCostEvent_inv
        finalize_plat_inv reconcile_plat_inv)

section \<open>Settled jobs stay settled\<close>

text \<open>
  A completed, failed or cancelled job keeps its status and its output through every step of every
  worker run; only the administrators' retry reopens a failed one.
\<close>

definition settled_job :: "string \<Rightarrow> job_status \<Rightarrow> string list \<Rightarrow> db \<Rightarrow> bool" where
  "settled_job i s fs d \<longleftrightarrow> terminal_status s
     \<and> (\<exists>j \<in> set (db_jobs d). jb_id j = i \<and> jb_status j = s \<and> jb_final_asset_ids j = fs)"

lemma settled_frame: "db_jobs d' = db_jobs d \<Longrightarrow> settled_job i s fs d' = settled_job i s fs d"
  by (simp add: settled_job_def)

lemma settled_update:
  assumes "settled_job i s fs d" "db_jobs d' = update_where P f (db_jobs d)"
    and "\<And>j. P j \<Longrightarrow> jb_id (f j) = jb_id j
        \<and> (terminal_status (jb_status j) \<longrightarrow> jb_status (f j) = jb_status j \<and> jb_final_asset_ids (f j) = jb_final_asset_ids j)"
  shows "settled_job i s fs d'"
proof -
  from assms(1) obtain j where j: "j \<in> set (db_jobs d)" "jb_id j = i" "jb_status j = s" "jb_final_asset_ids j = fs"
    and s: "terminal_status s" by (auto simp: settled_job_def)
  have "(if P j then f j else j) \<in> set (db_jobs d')" using j(1) by (simp add: assms(2) set_update_where)
  moreover have "jb_id (if P j then f j else j) = i \<and> jb_status (if P j then f j else j) = s
      \<and> jb_final_asset_ids (if P j then f j else j) = fs" using assms(3) [of j] j s by auto
  ultimately show ?thesis using s unfolding settled_job_def by blast
qed

lemma settled_mark:
  assumes "update_job d P f = Some (j', d')" "settled_job i s fs d"
    and "\<And>j. P j \<Longrightarrow> jb_id (f j) = jb_id j \<and> live_status (jb_status j)"
  shows "settled_job i s fs d'"
proof -
  from update_job_SomeD [OF assms(1)] have "db_jobs d' = update_where P f (db_jobs d)" by auto
  then show ?thesis by (rule settled_update [OF assms(2)]) (use assms(3) in \<open>auto simp: terminal_status_def\<close>)
qed

lemma settled_marks:
  "markGenerationJobRunning d k t r = Some (j, d') \<Longrightarrow> settled_job i s fs d \<Longrightarrow> settled_job i s fs d'"
  "claimPreviewFinalization d k t r = Some (j, d') \<Longrightarrow> settled_job i s fs d \<Longrightarrow> settled_job i s fs d'"
  "markGenerationJobFailed d k t c m b r = Some (j, d') \<Longrightarrow> settled_job i s fs d \<Longrightarrow> settled_job i s fs d'"
  "markGenerationJobCompleted d k t ids r = Some (j, d') \<Longrightarrow> settled_job i s fs d \<Longrightarrow> settled_job i s fs d'"
  "markGenerationJobPreviewReady d k t ids r = Some (j, d') \<Longrightarrow> settled_job i s fs d \<Longrightarrow> settled_job i s fs d'"
  unfolding job_query_defs by (erule (1) settled_mark, auto)+

lemma settled_guarded:
  "insertFinalAssetAndCompleteJob d k t p fd sl sp r = Inr (a, oc, d') \<Longrightarrow> settled_job i s fs d \<Longrightarrow> settled_job i s fs d'"
  "insertPreviewAssetAndMarkPreviewReady d k t p sp r = Inr (a, oc, d') \<Longrightarrow> settled_job i s fs d \<Longrightarrow> settled_job i s fs d'"
  by (erule insertFinal_cases insertPreview_cases,
      auto dest!: settled_marks(4,5) [where i = i and s = s and fs = fs] simp: settled_job_def)+

lemma settled_finalize:
  assumes "finalizeInTxForReservation d k t rid l e = Inr d'" "plat_inv d" "settled_job i s fs d"
  shows "settled_job i s fs d'"
proof -
  have "book_inv d" using assms(2) by (simp add: plat_inv_def cost_inv_def)
  with assms(1) show ?thesis
  proof (cases rule: finalize_cases)
    case (settled r rep ls es dx)
    show ?thesis
    proof (cases "charge_of t r rep")
      case (Some c)
      then have "db_jobs d' = update_where
          (\<lambda>j. jb_id j = k \<and> (rv_id r \<noteq> '''' \<longrightarrow> jb_cost_reservation_id j = Some (rv_id r))) (\<lambda>j. j\<lparr>jb_actual_cost := charge_of t r rep\<rparr>) (db_jobs d)"
        by (simp add: settled(4) charged_jobs_def)
      then show ?thesis by (rule settled_update [OF assms(3)]) simp
    qed (use assms(3) settled(4) in \<open>simp add: settled_job_def charged_jobs_def\<close>)
  qed (use assms in simp)
qed

lemma settled_reconcile:
  assumes "reconcileForReservation d k rid l = Inr d'" "settled_job i s fs d"
  shows "settled_job i s fs d'"
  using assms(1)
proof (cases rule: reconcile_cases)
  case (moved r a bs ls)
  then have "db_jobs d' = update_where (\<lambda>j. jb_id j = k \<and> jb_cost_reservation_id j = Some rid)
      (\<lambda>j. j\<lparr>jb_actual_cost := Some a\<rparr>) (db_jobs d)" by simp
  then show ?thesis by (rule settled_update [OF assms(2)]) simp
qed (use assms in simp)

lemma attempt_writes_jobs:
  "insertProviderAttempt d p = Inr d' \<Longrightarrow> db_jobs d' = db_jobs d"
  "insertCostEventWithQueries d ev = Inr d' \<Longrightarrow> db_jobs d' = db_jobs d"
  "db_jobs (markProviderAttemptSucceeded d x la) = db_jobs d"
  "db_jobs (markProviderAttemptFailed d x c la) = db_jobs d"
  "db_jobs (updateProviderAttemptCost d x act) = db_jobs d"
  by (auto simp: insertProviderAttempt_def insertCostEventWithQueries_def markProviderAttemptSucceeded_def
      markProviderAttemptFailed_def updateProviderAttemptCost_def split: if_splits sum.splits)

interpretation terminal: worker_rely "\<lambda>d. plat_inv d \<and> settled_job i s fs d" for i s fs
  by (unfold_locales; auto simp: markRunning_def claimPreview_def markFailed_def
      settled_frame [OF attempt_writes_jobs(1)] settled_frame [OF attempt_writes_jobs(2)]
      settled_frame [OF attempt_writes_jobs(3)] settled_frame [OF attempt_writes_jobs(4)] settled_frame [OF attempt_writes_jobs(5)]
    intro: platform.markRunning_keeps platform.claimPreview_keeps platform.markFailed_keeps settled_marks settled_guarded
      markGenerationJobRunning_inv claimPreviewFinalization_inv markGenerationJobFailed_inv insertFinal_inv insertPreview_inv
      insertProviderAttempt_inv insertCostEvent_inv finalize_plat_inv reconcile_plat_inv settled_finalize settled_reconcile)

section \<open>The ceiling on paid calls\<close>

text \<open>
  Without interference: one attempt row per provider call, and never more rows than the ceiling
  unless there were more before the run.
\<close>

definition capped :: "int \<Rightarrow> int \<Rightarrow> ports \<Rightarrow> job \<Rightarrow> world \<Rightarrow> bool" where
  "capped n0 base pt j w \<longleftrightarrow> wd_env w = [] \<and> plat_inv (wd_db w)
     \<and> countProviderAttempts (wd_db w) (jb_id j) \<le> max n0 (billableCallCap pt j)
     \<and> base + int (length (wd_calls w)) = countProviderAttempts (wd_db w) (jb_id j)"

abbreviation attempt_jobs :: "db \<Rightarrow> string list" where
  "attempt_jobs d \<equiv> map at_job_id (db_attempts d)"

lemma countProviderAttempts_cong:
  assumes "attempt_jobs d' = attempt_jobs d"
  shows "countProviderAttempts d' i = countProviderAttempts d i"
proof -
  have "countProviderAttempts x i = int (length (filter ((=) i) (attempt_jobs x)))" for x
    by (simp add: countProviderAttempts_def filter_map comp_def eq_commute)
  then show ?thesis using assms by metis
qed

lemma capped_dbcall:
  assumes "\<And>d a d'. f d = (a, d') \<Longrightarrow> plat_inv d \<Longrightarrow> plat_inv d' \<and> attempt_jobs d' = attempt_jobs d"
  shows "holds (capped n0 base pt j) (dbcall f)"
  unfolding holds_def
proof (intro allI impI)
  fix w a w' assume r: "run_state (dbcall f) w = (a, w')" and c: "capped n0 base pt j w"
  from r c have "f (wd_db w) = (a, wd_db w')" "w' = w\<lparr>wd_db := wd_db w'\<rparr>"
    by (auto simp: dbcall_def capped_def split: prod.splits)
  with assms [of "wd_db w" a "wd_db w'"] c countProviderAttempts_cong [of "wd_db w'" "wd_db w" "jb_id j"]
  show "capped n0 base pt j w'" unfolding capped_def by (metis world.select_convs(2,3) world.surjective world.update_convs(1))
qed

lemma capped_tx:
  assumes "\<And>d a d'. t d = Inr (a, d') \<Longrightarrow> plat_inv d \<Longrightarrow> plat_inv d' \<and> attempt_jobs d' = attempt_jobs d"
  shows "holds (capped n0 base pt j) (tx t)"
  unfolding tx_def using assms by (intro capped_dbcall) (auto split: sum.splits)

lemma capped_tx_unit:
  assumes "\<And>d d'. t d = Inr d' \<Longrightarrow> plat_inv d \<Longrightarrow> plat_inv d' \<and> attempt_jobs d' = attempt_jobs d"
  shows "holds (capped n0 base pt j) (tx_unit t)"
  unfolding tx_unit_def using assms by (intro capped_dbcall) (auto split: sum.splits)

lemma capped_exec:
  "(\<And>d. plat_inv d \<Longrightarrow> plat_inv (f d) \<and> attempt_jobs (f d) = attempt_jobs d) \<Longrightarrow> holds (capped n0 base pt j) (exec f)"
  unfolding exec_def by (intro capped_dbcall) auto

lemma capped_query: "holds (capped n0 base pt j) (query f)"
  unfolding query_def by (intro capped_dbcall) auto

lemma capped_outside:
  "holds (capped n0 base pt j) (newID q)" "holds (capped n0 base pt j) (emit k ev as c)"
  "holds (capped n0 base pt j) (State (\<lambda>w. ((), w\<lparr>wd_anchors := wd_anchors w @ [x]\<rparr>)))"
  by (auto simp: holds_def capped_def newID_def emit_def)

lemma update_job_attempts: "update_job d P f = Some (j, d') \<Longrightarrow> db_attempts d' = db_attempts d"
  using update_job_SomeD by fastforce

lemma mark_attempts:
  "markGenerationJobRunning d k t r = Some (j, d') \<Longrightarrow> db_attempts d' = db_attempts d"
  "claimPreviewFinalization d k t r = Some (j, d') \<Longrightarrow> db_attempts d' = db_attempts d"
  "markGenerationJobFailed d k t c m b r = Some (j, d') \<Longrightarrow> db_attempts d' = db_attempts d"
  "markGenerationJobCompleted d k t ids r = Some (j, d') \<Longrightarrow> db_attempts d' = db_attempts d"
  "markGenerationJobPreviewReady d k t ids r = Some (j, d') \<Longrightarrow> db_attempts d' = db_attempts d"
  unfolding job_query_defs by (erule update_job_attempts)+

lemma guarded_attempts:
  "insertFinalAssetAndCompleteJob d k t p fd sl sp r = Inr (a, oc, d') \<Longrightarrow> attempt_jobs d' = attempt_jobs d"
  "insertPreviewAssetAndMarkPreviewReady d k t p sp r = Inr (a, oc, d') \<Longrightarrow> attempt_jobs d' = attempt_jobs d"
  by (erule insertFinal_cases insertPreview_cases, auto dest!: mark_attempts(4,5))+

lemma cost_attempts:
  "finalizeInTxForReservation d k t rid l e = Inr d' \<Longrightarrow> plat_inv d \<Longrightarrow> attempt_jobs d' = attempt_jobs d"
  "reconcileForReservation d k rid l = Inr d' \<Longrightarrow> attempt_jobs d' = attempt_jobs d"
  "insertCostEventWithQueries d ev = Inr d' \<Longrightarrow> attempt_jobs d' = attempt_jobs d"
  "attempt_jobs (markProviderAttemptSucceeded d x la) = attempt_jobs d"
  "attempt_jobs (markProviderAttemptFailed d x c la) = attempt_jobs d"
  "attempt_jobs (updateProviderAttemptCost d x act) = attempt_jobs d"
  by (auto elim!: reconcile_cases finalize_cases simp: plat_inv_def cost_inv_def closed_books_def insertCostEventWithQueries_def
      markProviderAttemptSucceeded_def markProviderAttemptFailed_def updateProviderAttemptCost_def split: if_splits sum.splits)

lemma capped_record: "holds (capped n0 base pt j) (recordAttemptFailureWithCost q k a p m err l c)"
  unfolding recordAttemptFailureWithCost_def
  by (intro holds_intro capped_outside capped_exec capped_tx_unit) (auto simp: cost_attempts intro: insertCostEvent_inv)

text \<open>
  One paid call: when the ceiling is not reached the attempt row and the call raise both counts
  by one.
\<close>

lemma insertProviderAttempt_count:
  assumes "insertProviderAttempt d p = Inr d'"
  shows "countProviderAttempts d' i = countProviderAttempts d i + (if tp_generation_job_id p = i then 1 else 0)"
  using assms by (auto simp: insertProviderAttempt_def insert_row_def countProviderAttempts_def split: if_splits sum.splits)

definition triple :: "(world \<Rightarrow> bool) \<Rightarrow> 'a worker \<Rightarrow> ('a \<Rightarrow> world \<Rightarrow> bool) \<Rightarrow> bool" where
  "triple P m Q \<longleftrightarrow> (\<forall>w a w'. run_state m w = (a, w') \<longrightarrow> P w \<longrightarrow> Q a w')"

lemma tripleD: "triple P m Q \<Longrightarrow> run_state m w = (a, w') \<Longrightarrow> P w \<Longrightarrow> Q a w'"
  by (simp add: triple_def)

lemma triple_bind:
  assumes "triple P m R" "\<And>a. triple (R a) (f a) Q"
  shows "triple P (m \<bind> f) Q"
  using assms unfolding triple_def run_state_bind by (auto split: prod.splits)

lemma triple_holds: "holds J m \<Longrightarrow> triple J m (\<lambda>_. J)"
  by (simp add: triple_def holds_def)

lemma holds_triple: "triple J m (\<lambda>_. J) \<Longrightarrow> holds J m"
  by (simp add: triple_def holds_def)

lemma triple_pre: "triple P m Q \<Longrightarrow> (\<And>w. P' w \<Longrightarrow> P w) \<Longrightarrow> triple P' m Q"
  by (simp add: triple_def)

text \<open>After the attempt row is in and before the call is made, the row count is one ahead.\<close>

definition one_ahead :: "int \<Rightarrow> int \<Rightarrow> ports \<Rightarrow> job \<Rightarrow> world \<Rightarrow> bool" where
  "one_ahead n0 base pt j w \<longleftrightarrow> wd_env w = [] \<and> plat_inv (wd_db w)
     \<and> countProviderAttempts (wd_db w) (jb_id j) \<le> max n0 (billableCallCap pt j)
     \<and> base + int (length (wd_calls w)) + 1 = countProviderAttempts (wd_db w) (jb_id j)"

definition room :: "int \<Rightarrow> int \<Rightarrow> ports \<Rightarrow> job \<Rightarrow> world \<Rightarrow> bool" where
  "room n0 base pt j w \<longleftrightarrow> capped n0 base pt j w \<and> countProviderAttempts (wd_db w) (jb_id j) < billableCallCap pt j"

lemma query_room:
  "triple (capped n0 base pt j) (query (\<lambda>d. countProviderAttempts d (jb_id j)))
     (\<lambda>n w. capped n0 base pt j w \<and> (n < billableCallCap pt j \<longrightarrow> room n0 base pt j w))"
  by (auto simp: triple_def query_def dbcall_def capped_def room_def split: list.splits)

lemma newID_room: "triple (room n0 base pt j) (newID pt) (\<lambda>_. room n0 base pt j)"
  by (auto simp: triple_def newID_def capped_def room_def)

lemma insert_ahead:
  assumes "tp_generation_job_id p = jb_id j"
  shows "triple (room n0 base pt j) (tx_unit (\<lambda>d. insertProviderAttempt d p))
     (\<lambda>r. if r = None then one_ahead n0 base pt j else capped n0 base pt j)"
  unfolding triple_def
proof (intro allI impI)
  fix w a w' assume r: "run_state (tx_unit (\<lambda>d. insertProviderAttempt d p)) w = (a, w')" and c: "room n0 base pt j w"
  show "(if a = None then one_ahead n0 base pt j else capped n0 base pt j) w'"
  proof (cases "insertProviderAttempt (wd_db w) p")
    case (Inl e)
    with r c show ?thesis by (auto simp: tx_unit_def dbcall_def room_def capped_def)
  next
    case (Inr d')
    with r c have "a = None" "w' = w\<lparr>wd_db := d'\<rparr>" by (auto simp: tx_unit_def dbcall_def room_def capped_def)
    with c assms insertProviderAttempt_count [OF Inr, of "jb_id j"] insertProviderAttempt_inv [OF Inr]
    show ?thesis by (auto simp: room_def capped_def one_ahead_def)
  qed
qed

lemma generate_capped: "triple (one_ahead n0 base pt j) (generate pt prov req) (\<lambda>_. capped n0 base pt j)"
  by (auto simp: triple_def generate_def one_ahead_def capped_def Let_def split: prod.splits)

lemma capped_walkRoutes: "holds (capped n0 base pt j) (walkRoutes pt j req n le any rs)"
proof (induction rs arbitrary: le any)
  case Nil
  show ?case by (simp add: holds_intro)
next
  case (Cons r rs)
  have rest: "triple (capped n0 base pt j) (exec (\<lambda>d. updateProviderAttemptCost d aid c) \<bind> (\<lambda>_. case perr of
          None \<Rightarrow> State_Monad.return (Inr out)
        | Some pe \<Rightarrow> recordAttemptFailureWithCost pt j aid prov m (ProviderErr pe) lat rc \<bind> (\<lambda>_.
            if pe = ErrContentPolicyRejected then State_Monad.return (Inl (ProviderErr pe))
            else walkRoutes pt j req n (Some (ProviderErr pe)) True rs))) (\<lambda>_. capped n0 base pt j)"
    for aid c perr out prov m lat rc
    by (intro triple_holds holds_intro capped_record Cons.IH capped_exec) (simp add: cost_attempts)
  have call: "triple (room n0 base pt j) (newID pt \<bind> (\<lambda>aid. tx_unit (\<lambda>d. insertProviderAttempt d (ps aid)) \<bind> (\<lambda>ins. case ins of
        Some e \<Rightarrow> State_Monad.return (Inl (DbErr e)) | None \<Rightarrow> generate pt prov req \<bind> f aid))) (\<lambda>_. capped n0 base pt j)"
    if "\<And>aid. tp_generation_job_id (ps aid) = jb_id j" "\<And>aid x. triple (capped n0 base pt j) (f aid x) (\<lambda>_. capped n0 base pt j)"
    for ps prov f
    by (rule triple_bind [OF newID_room], rule triple_bind [OF insert_ahead [OF that(1)]])
      (auto split: option.split intro!: triple_bind [OF generate_capped] that triple_holds holds_return)
  show ?case
  proof (cases "pt_adapter pt (rt_provider_id r)")
    case (Some b)
    have "triple (capped n0 base pt j) (walkRoutes pt j req n le any (r # rs)) (\<lambda>_. capped n0 base pt j)"
      unfolding walkRoutes.simps Some option.case
      by (rule triple_bind [OF query_room]) (auto intro!: triple_pre [OF call] rest triple_pre [OF triple_holds [OF holds_return]]
          split: prod.splits)
    then show ?thesis by (rule holds_triple)
  qed (simp add: Cons.IH)
qed

interpretation billing: worker_steps "capped n0 base pt j" pt j for n0 base pt j
  by (unfold_locales;
    (rule capped_query capped_outside capped_walkRoutes
     | (rule capped_tx capped_tx_unit capped_exec,
        auto simp: markRunning_def claimPreview_def markFailed_def cost_attempts
          commitInTx_def commitForReservation_def releaseInTx_def releaseForReservation_def
          split: sum.splits if_splits
          dest: mark_attempts guarded_attempts
          intro: markGenerationJobRunning_inv claimPreviewFinalization_inv markGenerationJobFailed_inv
            insertFinal_inv insertPreview_inv insertCostEvent_inv finalize_plat_inv reconcile_plat_inv)))

lemma capped_process:
  assumes "getByID (wd_db w) jid = Inr j" "capped n0 base pt j w"
    and "run_state (process pt jid erid n) w = (x, w')"
  shows "capped n0 base pt j w'"
proof -
  have "run_state (query (\<lambda>d. getByID d jid)) w = (Inr j, w)"
    using assms by (simp add: query_def dbcall_def capped_def)
  with assms(3) have "run_state (processFound pt j erid n) w = (x, w')"
    by (simp add: process_def run_state_bind)
  then show ?thesis by (rule holdsD [OF billing.processFound_holds]) (rule assms(2))
qed

text \<open>
  A delivery that names a reservation its job no longer links is dropped after one read: no
  provider call, no event, no write of its own.
\<close>

lemma stale_delivery_dropped:
  assumes "run_state (query (\<lambda>d. getByID d jid)) w = (Inr j, w1)" "erid \<noteq> ''''" "jb_cost_reservation_id j \<noteq> Some erid"
  shows "run_state (process pt jid erid retry) w = (None, w1)"
  using assms by (simp add: process_def processFound_def run_state_bind Let_def)

end
