(* ===== verification/Samples.thy ===== *)
theory Samples
  imports Worker_Safety
begin

text \<open>
  One small installation: a tenant with a budget of its own and one for its token, a priced
  model, and a first job created through the create transaction, run step by step. The closed
  instances of the theorems with hypotheses are stated about it.
\<close>

definition sample_trunc :: date_trunc where
  "sample_trunc p t = 0"

definition sample_budget :: "string \<Rightarrow> scope_type \<Rightarrow> string \<Rightarrow> amount \<Rightarrow> amount \<Rightarrow> cost_budget" where
  "sample_budget i s sid x y = \<lparr>bg_id = i, bg_tenant_id = ''t'', bg_scope_type = s, bg_scope_id = sid,
     bg_period = Monthly, bg_limit = 50, bg_reserved = x, bg_spent = y, bg_currency = ''USD'',
     bg_status = Active, bg_period_start = 0\<rparr>"

lemma sample_budget_simps [simp]:
  "bg_id (sample_budget i s sid h p) = i" "bg_scope_type (sample_budget i s sid h p) = s"
  "bg_reserved (sample_budget i s sid h p) = h" "bg_spent (sample_budget i s sid h p) = p"
  "bg_limit (sample_budget i s sid h p) = 50" "bg_status (sample_budget i s sid h p) = Active"
  "bg_period_start (sample_budget i s sid h p) = 0"
  "(sample_budget i s sid h p)\<lparr>bg_reserved := x\<rparr> = sample_budget i s sid x p"
  "(sample_budget i s sid h p)\<lparr>bg_spent := x\<rparr> = sample_budget i s sid h x"
  by (simp_all add: sample_budget_def)

definition sample_db :: db where
  "sample_db = empty_db\<lparr>
     db_prices := [\<lparr>pr_id = ''p'', pr_provider_id = ''f'', pr_model_id = ''m'',
       pr_operation_type = ''o'', pr_unit_type = ''image'', pr_price_per_unit = 400,
       pr_currency = ''USD'', pr_effective_from = 0, pr_is_active = True,
       pr_effective_to = None, pr_source = None, pr_notes = None\<rparr>],
     db_budgets := [sample_budget ''b'' Tenant_scope ''t'' 0 0, sample_budget ''c'' Token_scope ''k'' 0 0],
     db_now := 10\<rparr>"

definition sample_params :: create_params where
  "sample_params = \<lparr>cp_tenant_id = ''t'', cp_token_id = ''k'', cp_job_type = ''artifact'', cp_world_id = ''w'',
     cp_input_payload = Map.empty, cp_fallback_policy = '''', cp_cache_result = '''',
     cp_asset_pack = None, cp_provider_id = ''f'', cp_model_id = ''m'', cp_route_id = ''q'',
     cp_operation_type = ''o'', cp_units = 1, cp_user_id = '''', cp_route_chain = [],
     cp_idempotency_key = ''i'', cp_endpoint = ''e'', cp_request_hash = ''h'', cp_max_concurrent_jobs = 2,
     cp_intent = None, cp_lazy = None, cp_anchor_asset_id = None, cp_derive_from = None,
     cp_visual_identity_id = None\<rparr>"

definition sample_ids :: fresh_ids where
  "sample_ids = \<lparr>fi_job = ''j'', fi_reservation = ''r'', fi_hold = (\<lambda>n. if n = 0 then ''g'' else ''h''),
     fi_pack = ''a'', fi_item = (\<lambda>n. ''x''), fi_idem = ''y'', fi_ledger = ''l'', fi_event = ''v'', fi_now = 10\<rparr>"

definition sample_job :: job where
  "sample_job = new_job ''j'' (priced_params sample_db sample_params)"

definition sample_res :: reservation_result where
  "sample_res = \<lparr>rr_id = ''r'', rr_status = Reserved, rr_failure_reason = '''', rr_estimated = 4, rr_reserved = 4,
     rr_currency = ''USD'', rr_estimate_usd = numeric_text 4\<rparr>"

definition sample_row :: cost_reservation where
  "sample_row = \<lparr>rv_id = ''r'', rv_job_id = ''j'', rv_tenant_id = ''t'', rv_estimated = 4, rv_reserved = 4,
     rv_actual = None, rv_currency = ''USD'', rv_status = Reserved, rv_failure_reason = None\<rparr>"

definition sample_hold :: "string \<Rightarrow> string \<Rightarrow> budget_hold" where
  "sample_hold i b = \<lparr>ho_id = i, ho_reservation_id = ''r'', ho_budget_id = b, ho_reserved = 4, ho_status = Reserved\<rparr>"

definition sample_inserted :: db where
  "sample_inserted = sample_db\<lparr>db_jobs := [sample_job]\<rparr>"

definition sample_reserved :: db where
  "sample_reserved = sample_inserted\<lparr>
     db_budgets := [sample_budget ''b'' Tenant_scope ''t'' 4 0, sample_budget ''c'' Token_scope ''k'' 4 0],
     db_reservations := [sample_row], db_holds := [sample_hold ''h'' ''b'', sample_hold ''g'' ''c'']\<rparr>"

definition sample_linked :: job where
  "sample_linked = sample_job\<lparr>jb_cost_reservation_id := Some ''r'', jb_cost_estimate := Some 4\<rparr>"

definition sample_created :: db where
  "sample_created = sample_reserved\<lparr>db_jobs := [sample_linked],
     db_idem := [\<lparr>ik_id = ''y'', ik_token_id = ''k'', ik_key = ''i'', ik_endpoint = ''e'', ik_request_hash = ''h'',
       ik_job_id = Some ''j'', ik_expires_at = 86410\<rparr>]\<rparr>"

lemma sample_fields [simp]:
  "cp_tenant_id sample_params = ''t''" "cp_token_id sample_params = ''k''" "cp_provider_id sample_params = ''f''"
  "cp_model_id sample_params = ''m''" "cp_operation_type sample_params = ''o''" "cp_idempotency_key sample_params = ''i''"
  "cp_endpoint sample_params = ''e''" "cp_request_hash sample_params = ''h''" "cp_max_concurrent_jobs sample_params = 2"
  "cp_asset_pack sample_params = None"
  by (simp_all add: sample_params_def)

lemma sample_priced:
  "cp_units (priced_params sample_db sample_params) = 1" "cp_provider_id (priced_params sample_db sample_params) = ''f''"
  "cp_model_id (priced_params sample_db sample_params) = ''m''" "cp_operation_type (priced_params sample_db sample_params) = ''o''"
  "cp_asset_pack (priced_params sample_db sample_params) = None" "cp_tenant_id (priced_params sample_db sample_params) = ''t''"
  "cp_token_id (priced_params sample_db sample_params) = ''k''" "cp_idempotency_key (priced_params sample_db sample_params) = ''i''"
  "cp_endpoint (priced_params sample_db sample_params) = ''e''" "cp_request_hash (priced_params sample_db sample_params) = ''h''"
  "cp_max_concurrent_jobs (priced_params sample_db sample_params) = 2"
  by (simp_all add: priced_params_def Let_def sample_params_def worstCaseBillableUnits_def withResolvedRoutePayload_def payloadString_def)

lemma sample_job_simps [simp]:
  "jb_id sample_job = ''j''" "jb_tenant_id sample_job = ''t''" "jb_status sample_job = Queued"
  "jb_cost_reservation_id sample_job = None" "jb_requested_by_token_id sample_job = Some ''k''"
  "jb_final_asset_ids sample_job = []"
  by (simp_all add: sample_job_def sample_params_def)

lemma sample_insert: "insertJob sample_db ''j'' (priced_params sample_db sample_params) = Inr sample_inserted"
  by (simp add: insertJob_def insertJobRow_def insert_row_def sample_job_def sample_inserted_def sample_db_def empty_db_def)

lemma sample_reserve:
  "reserve sample_trunc sample_inserted (db_budgets sample_db) (reserve_input_of ''j'' (priced_params sample_db sample_params))
     ''r'' (fi_hold sample_ids) = Inr (sample_res, sample_reserved)"
proof -
  have est: "estimateOperationCost sample_inserted 1 ''f'' ''m'' ''o'' = Inr \<lparr>es_price_id = ''p'', es_unit_type = ''image'',
      es_currency = ''USD'', es_estimated_amount = 4, es_estimated_text = numeric_text 4\<rparr>"
    by (simp add: estimateOperationCost_def active_price_def sample_inserted_def sample_db_def empty_db_def
        numeric14_4_def round_micro_def)
  have sel: "selectBudgets (db_budgets sample_db) = db_budgets sample_db"
    by (simp add: selectBudgets_def sample_db_def)
  have ins: "insertCostReservation sample_inserted sample_row = Inr (sample_inserted\<lparr>db_reservations := [sample_row]\<rparr>)"
    by (simp add: insertCostReservation_def insert_row_def sample_inserted_def sample_db_def empty_db_def sample_row_def)
  have hold: "holdBudgets sample_trunc 4 ''r'' (fi_hold sample_ids) (db_budgets sample_db)
      (sample_inserted\<lparr>db_reservations := [sample_row]\<rparr>) = Inr (Some sample_reserved)"
    by (simp add: sample_reserved_def sample_db_def sample_inserted_def empty_db_def sample_ids_def sample_trunc_def
        tryReserve_def reserveActiveBudget_def update_budget_def updating_one_def resetBudgetPeriodIfElapsed_def
        insertBudgetHold_def insert_row_def sample_row_def sample_hold_def)
  show ?thesis
    by (simp add: reserve_def reserve_input_of_def sample_priced est reserveBudgets_def sel
        ins [unfolded sample_row_def] hold [unfolded sample_row_def] sample_res_def)
qed

lemma sample_create:
  "createTx sample_trunc sample_db (db_budgets sample_db) sample_ids sample_params = TxCommitted sample_res '''' 0 sample_created"
proof -
  have ids: "fi_job sample_ids = ''j''" "fi_reservation sample_ids = ''r''" "fi_idem sample_ids = ''y''" "fi_now sample_ids = 10"
    by (simp_all add: sample_ids_def)
  have none: "getIdempotencyKey sample_db ''k'' ''i'' = None" "countLiveGenerationJobsByToken sample_db ''k'' = 0"
    by (simp_all add: getIdempotencyKey_def countLiveGenerationJobsByToken_def sample_db_def empty_db_def)
  have pre: "preflight sample_trunc sample_inserted (db_budgets sample_db) sample_ids (priced_params sample_db sample_params)
      = Inr (sample_res, sample_reserved\<lparr>db_jobs := [sample_linked]\<rparr>)"
    unfolding preflight_def ids sample_reserve
    by (simp add: setGenerationJobCost_def failed_def sample_res_def sample_linked_def sample_reserved_def sample_inserted_def)
  have key: "claimKey (sample_reserved\<lparr>db_jobs := [sample_linked]\<rparr>) ''y'' ''k'' ''i'' ''e'' ''h'' ''j'' 10 = Inr (Some sample_created)"
    by (simp add: claimKey_def insertIdempotencyKey_def sample_created_def sample_reserved_def sample_inserted_def
        sample_db_def empty_db_def insert_row_def IdempotencyTTL_def)
  show ?thesis
    by (simp add: createTx_def sample_priced none sample_insert ids pre createPack_def key)
qed

lemma sample_db_inv: "plat_inv sample_db"
  by (simp add: plat_inv_def cost_inv_def book_inv_def link_inv_def jobs_inv_def owner_inv_def prices_ok_def
      keyed_def held_def sum_where_def sample_db_def empty_db_def)

lemma sample_created_inv: "plat_inv sample_created"
  by (rule createTx_inv [OF sample_create sample_db_inv])

end
