(* ===== verification/Front_Door.thy ===== *)
theory Front_Door
  imports Prelude
begin

text \<open>
  What every request passes before a handler runs: the bearer token of \<open>internal/auth\<close> and the
  request-rate limit of \<open>internal/ratelimit\<close>. The token hash (SHA-256 over secret and pepper) and
  the text Go formats a minute or an hour as are parameters. The store of the limiter is a
  parameter too; \<open>redis_store\<close> is the one of \<open>redis.go\<close>, over the two commands its script uses.
  Times are milliseconds of one clock.
\<close>

text \<open>What a handler answers: a problem with its status and code, or a body.\<close>

datatype 'a reply =
    Problem int string
  | Reply 'a

section \<open>Principals and limits\<close>

record limits =
  li_requests_per_minute :: int
  li_requests_per_hour :: int
  li_max_concurrent_jobs :: int

record principal =
  pn_token_id :: string
  pn_tenant_id :: string
  pn_scopes :: "string list"
  pn_environment :: string
  pn_limits :: limits

definition hasScope :: "principal \<Rightarrow> string \<Rightarrow> bool" where
  "hasScope p s \<longleftrightarrow> s \<in> set (pn_scopes p)"

definition defaultLimits :: limits where
  "defaultLimits = \<lparr>li_requests_per_minute = 60, li_requests_per_hour = 1000, li_max_concurrent_jobs = 5\<rparr>"

record api_token =
  an_id :: string
  an_prefix :: string
  an_tenant_id :: string
  an_token_hash :: string
  an_scopes :: "string list"
  an_environment :: string
  an_status :: string
  an_expires_at :: "nat option"
  an_rate_limit_rpm :: "int option"
  an_rate_limit_rph :: "int option"
  an_max_concurrent_jobs :: "int option"

definition positive_override :: "int option \<Rightarrow> int \<Rightarrow> int" where
  "positive_override v d = (case v of None \<Rightarrow> d | Some x \<Rightarrow> if x > 0 then x else d)"

definition effectiveLimits :: "api_token \<Rightarrow> limits" where
  "effectiveLimits t =
     \<lparr>li_requests_per_minute = positive_override (an_rate_limit_rpm t) (li_requests_per_minute defaultLimits),
      li_requests_per_hour = positive_override (an_rate_limit_rph t) (li_requests_per_hour defaultLimits),
      li_max_concurrent_jobs = positive_override (an_max_concurrent_jobs t) (li_max_concurrent_jobs defaultLimits)\<rparr>"

section \<open>Bearer tokens\<close>

datatype reject_reason =
    ReasonMissing
  | ReasonMalformed
  | ReasonUnknownToken
  | ReasonHashMismatch
  | ReasonInactive
  | ReasonExpired
  | ReasonEnvironmentInvalid
  | ReasonBackendError error

text \<open>\<open>strings.LastIndex(raw, "_")\<close> with the two checks: both parts must be non-empty.\<close>

definition splitToken :: "string \<Rightarrow> (string \<times> string) option" where
  "splitToken raw =
     (let secret = rev (takeWhile (\<lambda>c. c \<noteq> CHR ''_'') (rev raw));
          idx = int (length raw) - int (length secret) - 1
      in if idx \<le> 0 \<or> idx = int (length raw) - 1 then None
         else Some (take (nat idx) raw, secret))"

definition hex_value :: "char \<Rightarrow> nat option" where
  "hex_value c =
     (let n = of_char c in
      if 48 \<le> n \<and> n \<le> 57 then Some (n - 48)
      else if 97 \<le> n \<and> n \<le> 102 then Some (n - 87)
      else if 65 \<le> n \<and> n \<le> 70 then Some (n - 55)
      else None)"

fun hexDecode :: "string \<Rightarrow> string option" where
  "hexDecode [] = Some []"
| "hexDecode [c] = None"
| "hexDecode (a # b # s) =
     (case hex_value a of
        None \<Rightarrow> None
      | Some x \<Rightarrow>
          (case hex_value b of
             None \<Rightarrow> None
           | Some y \<Rightarrow> (case hexDecode s of None \<Rightarrow> None | Some r \<Rightarrow> Some (char_of (16 * x + y) # r))))"

definition getActiveAPITokenByPrefix :: "api_token list \<Rightarrow> string \<Rightarrow> error + api_token" where
  "getActiveAPITokenByPrefix ts p =
     (case find (\<lambda>t. an_prefix t = p) ts of None \<Rightarrow> Inl ErrNotFound | Some t \<Rightarrow> Inr t)"

definition verify_token ::
    "(string \<Rightarrow> error + api_token) \<Rightarrow> (string \<Rightarrow> string) \<Rightarrow> nat \<Rightarrow> string \<Rightarrow> string \<Rightarrow> string \<Rightarrow> reject_reason + principal" where
  "verify_token lookup hash now authorization pepper environment =
     (if authorization = '''' then Inl ReasonMissing
      else if take 7 authorization \<noteq> ''Bearer '' then Inl ReasonMalformed
      else
        let raw = trimSpace (drop 7 authorization)
        in if raw = '''' then Inl ReasonMalformed
           else
             (case splitToken raw of
                None \<Rightarrow> Inl ReasonMalformed
              | Some (prefix, secret) \<Rightarrow>
                  (case lookup prefix of
                     Inl e \<Rightarrow> Inl (if e = ErrNotFound then ReasonUnknownToken else ReasonBackendError e)
                   | Inr t \<Rightarrow>
                       if hexDecode (an_token_hash t) \<noteq> Some (hash (secret @ pepper)) then Inl ReasonHashMismatch
                       else if an_status t \<noteq> ''active'' then Inl ReasonInactive
                       else if (case an_expires_at t of None \<Rightarrow> False | Some x \<Rightarrow> x \<le> now) then Inl ReasonExpired
                       else if an_environment t \<noteq> environment then Inl ReasonEnvironmentInvalid
                       else Inr \<lparr>pn_token_id = an_id t, pn_tenant_id = an_tenant_id t, pn_scopes = an_scopes t,
                                 pn_environment = an_environment t, pn_limits = effectiveLimits t\<rparr>)))"

definition requireScopes :: "string list \<Rightarrow> principal option \<Rightarrow> bool" where
  "requireScopes ss p = (case p of None \<Rightarrow> False | Some q \<Rightarrow> list_all (hasScope q) ss)"

section \<open>Request rates\<close>

type_synonym 's counter_store = "nat \<Rightarrow> string \<Rightarrow> nat \<Rightarrow> 's \<Rightarrow> error + int \<times> 's"

record window_result =
  wr_limit :: int
  wr_remaining :: int
  wr_reset :: nat

record rate_result =
  rl_allowed :: bool
  rl_minute :: window_result
  rl_hour :: window_result
  rl_retry_after :: int

definition remaining :: "int \<Rightarrow> int \<Rightarrow> int" where
  "remaining limit c = (if limit - c < 0 then 0 else limit - c)"

text \<open>\<open>Format\<close> with a layout down to the minute, or the hour, sees only the minute or the hour.\<close>

definition minuteKey :: "(nat \<Rightarrow> string) \<Rightarrow> string \<Rightarrow> nat \<Rightarrow> string" where
  "minuteKey fmt tok now = ''rate_limit:token:'' @ tok @ '':rpm:'' @ fmt (now div 60000)"

definition hourKey :: "(nat \<Rightarrow> string) \<Rightarrow> string \<Rightarrow> nat \<Rightarrow> string" where
  "hourKey fmt tok now = ''rate_limit:token:'' @ tok @ '':rph:'' @ fmt (now div 3600000)"

definition allow ::
    "'s counter_store \<Rightarrow> (nat \<Rightarrow> string) \<Rightarrow> (nat \<Rightarrow> string) \<Rightarrow> nat \<Rightarrow> string \<Rightarrow> limits \<Rightarrow> 's \<Rightarrow> (error + rate_result) \<times> 's" where
  "allow inc fm fh now tok l s =
     (let minReset = (now div 60000) * 60 + 60; hourReset = (now div 3600000) * 3600 + 3600
      in case inc now (minuteKey fm tok now) 60000 s of
           Inl e \<Rightarrow> (Inl e, s)
         | Inr (mc, s1) \<Rightarrow>
             (case inc now (hourKey fh tok now) 3600000 s1 of
                Inl e \<Rightarrow> (Inl e, s1)
              | Inr (hc, s2) \<Rightarrow>
                  let overMinute = mc > li_requests_per_minute l; overHour = hc > li_requests_per_hour l;
                      ok = \<not> overMinute \<and> \<not> overHour;
                      secs = int (if overHour then hourReset else minReset) - int (now div 1000)
                  in (Inr \<lparr>rl_allowed = ok,
                       rl_minute = \<lparr>wr_limit = li_requests_per_minute l,
                          wr_remaining = remaining (li_requests_per_minute l) mc, wr_reset = minReset\<rparr>,
                       rl_hour = \<lparr>wr_limit = li_requests_per_hour l,
                          wr_remaining = remaining (li_requests_per_hour l) hc, wr_reset = hourReset\<rparr>,
                       rl_retry_after = (if ok then 0 else if secs < 1 then 1 else secs)\<rparr>, s2)))"

text \<open>
  The middleware: a request passes with or without headers, or is rejected with 429. No
  limiter, no principal and a failing store all let it through.
\<close>

datatype gate_decision =
    PassThrough
  | PassCounted rate_result
  | TooManyRequests rate_result

definition rate_middleware ::
    "'s counter_store option \<Rightarrow> (nat \<Rightarrow> string) \<Rightarrow> (nat \<Rightarrow> string) \<Rightarrow> nat \<Rightarrow> principal option \<Rightarrow> 's \<Rightarrow> gate_decision \<times> 's" where
  "rate_middleware limiter fm fh now p s =
     (case limiter of
        None \<Rightarrow> (PassThrough, s)
      | Some inc \<Rightarrow>
          (case p of
             None \<Rightarrow> (PassThrough, s)
           | Some q \<Rightarrow>
               (case allow inc fm fh now (pn_token_id q) (pn_limits q) s of
                  (Inl e, s1) \<Rightarrow> (PassThrough, s1)
                | (Inr r, s1) \<Rightarrow> (if rl_allowed r then PassCounted r else TooManyRequests r, s1))))"

section \<open>The store in Redis\<close>

type_synonym redis = "string \<rightharpoonup> int \<times> nat option"

definition redis_live :: "nat \<Rightarrow> int \<times> nat option \<Rightarrow> bool" where
  "redis_live now v \<longleftrightarrow> (case snd v of None \<Rightarrow> True | Some e \<Rightarrow> now < e)"

definition redis_incr :: "nat \<Rightarrow> string \<Rightarrow> redis \<Rightarrow> int \<times> redis" where
  "redis_incr now k s =
     (case s k of
        Some v \<Rightarrow> if redis_live now v then (fst v + 1, s(k \<mapsto> (fst v + 1, snd v))) else (1, s(k \<mapsto> (1, None)))
      | None \<Rightarrow> (1, s(k \<mapsto> (1, None))))"

definition redis_pexpire :: "nat \<Rightarrow> string \<Rightarrow> nat \<Rightarrow> redis \<Rightarrow> redis" where
  "redis_pexpire now k ms s = (case s k of None \<Rightarrow> s | Some v \<Rightarrow> s(k \<mapsto> (fst v, Some (now + ms))))"

definition incrementScript :: "nat \<Rightarrow> string \<Rightarrow> nat \<Rightarrow> redis \<Rightarrow> int \<times> redis" where
  "incrementScript now k ms s =
     (case redis_incr now k s of (c, s1) \<Rightarrow> (c, if c = 1 then redis_pexpire now k ms s1 else s1))"

definition redis_store :: "redis counter_store" where
  "redis_store now k ms s = Inr (incrementScript now k ms s)"

section \<open>The way to a handler\<close>

definition auth_middleware :: "reject_reason + principal \<Rightarrow> principal reply" where
  "auth_middleware v =
     (case v of
        Inr p \<Rightarrow> Reply p
      | Inl (ReasonBackendError e) \<Rightarrow> Problem 500 ''internal_error''
      | Inl _ \<Rightarrow> Problem 401 ''unauthorized'')"

text \<open>
  A request under \<open>/v1\<close> as \<open>internal/http/router.go\<close> mounts it: the token, the rate limit, the scopes
  of the route, and only then the handler.
\<close>

definition admit ::
    "'s counter_store option \<Rightarrow> (nat \<Rightarrow> string) \<Rightarrow> (nat \<Rightarrow> string) \<Rightarrow> nat \<Rightarrow> string list \<Rightarrow> reject_reason + principal \<Rightarrow> 's
     \<Rightarrow> principal reply \<times> 's" where
  "admit limiter fm fh now scopes v s =
     (case auth_middleware v of
        Problem st e \<Rightarrow> (Problem st e, s)
      | Reply p \<Rightarrow>
          (case rate_middleware limiter fm fh now (Some p) s of
             (TooManyRequests r, s1) \<Rightarrow> (Problem 429 ''rate_limit_exceeded'', s1)
           | (_, s1) \<Rightarrow> (if requireScopes scopes (Some p) then Reply p else Problem 403 ''forbidden'', s1)))"

text \<open>The documentation pages: public outside the live environment, hidden or gated inside it.\<close>

definition docs_visible :: "bool \<Rightarrow> bool \<Rightarrow> reject_reason + principal \<Rightarrow> bool" where
  "docs_visible live enabled v \<longleftrightarrow>
     \<not> live \<or> enabled \<and> (case v of Inl _ \<Rightarrow> False | Inr p \<Rightarrow> hasScope p ''admin:read'')"

section \<open>What a token grants\<close>

lemma positive_override_pos: "0 < d \<Longrightarrow> 0 < positive_override v d"
  by (simp add: positive_override_def split: option.splits)

lemma splitToken_SomeD:
  assumes "splitToken raw = Some (p, s)"
  shows "raw = p @ ''_'' @ s \<and> p \<noteq> '''' \<and> s \<noteq> '''' \<and> CHR ''_'' \<notin> set s"
proof -
  define w where "w = rev (takeWhile (\<lambda>c. c \<noteq> CHR ''_'') (rev raw))"
  define r where "r = dropWhile (\<lambda>c. c \<noteq> CHR ''_'') (rev raw)"
  have raw: "raw = rev r @ w" unfolding w_def r_def by (metis rev_append rev_rev_ident takeWhile_dropWhile_id)
  have w: "CHR ''_'' \<notin> set w" unfolding w_def by (auto dest: set_takeWhileD)
  from assms have idx: "int (length raw) - int (length w) - 1 > 0" "w \<noteq> []" "s = w"
      "p = take (nat (int (length raw) - int (length w) - 1)) raw"
    by (auto simp: splitToken_def Let_def w_def [symmetric] split: if_splits)
  from idx(1) raw obtain c r' where r: "r = c # r'" by (cases r) auto
  with hd_dropWhile [of "\<lambda>c. c \<noteq> CHR ''_''" "rev raw"] have "c = CHR ''_''" by (simp add: r_def [symmetric])
  moreover have "p = rev r'" using idx(4) raw r by simp
  moreover have "r' \<noteq> []" using idx(1) raw r by auto
  ultimately show ?thesis using raw r w idx by simp
qed

lemma verify_token_sound:
  assumes "verify_token lookup hash now authorization pepper env = Inr q"
  shows "\<exists>t p s. lookup p = Inr t \<and> trimSpace (drop 7 authorization) = p @ ''_'' @ s
    \<and> hexDecode (an_token_hash t) = Some (hash (s @ pepper)) \<and> an_status t = ''active''
    \<and> (\<forall>x. an_expires_at t = Some x \<longrightarrow> now < x) \<and> an_environment t = env
    \<and> pn_token_id q = an_id t \<and> pn_tenant_id q = an_tenant_id t \<and> pn_scopes q = an_scopes t
    \<and> 0 < li_requests_per_minute (pn_limits q) \<and> 0 < li_requests_per_hour (pn_limits q)
    \<and> 0 < li_max_concurrent_jobs (pn_limits q)"
proof -
  from assms obtain p s t where sp: "splitToken (trimSpace (drop 7 authorization)) = Some (p, s)" and t: "lookup p = Inr t"
    and q: "q = \<lparr>pn_token_id = an_id t, pn_tenant_id = an_tenant_id t, pn_scopes = an_scopes t,
                 pn_environment = an_environment t, pn_limits = effectiveLimits t\<rparr>"
    and ok: "hexDecode (an_token_hash t) = Some (hash (s @ pepper))" "an_status t = ''active''"
      "\<forall>x. an_expires_at t = Some x \<longrightarrow> now < x" "an_environment t = env"
    by (auto simp: verify_token_def Let_def split: if_splits option.splits prod.splits sum.splits)
  from splitToken_SomeD [OF sp] t q ok show ?thesis
    by (intro exI [of _ t] exI [of _ p] exI [of _ s])
       (simp add: effectiveLimits_def positive_override_pos defaultLimits_def)
qed

lemma admit_sound:
  assumes "admit limiter fm fh now scopes v s = (Reply p, s')"
  shows "v = Inr p \<and> (\<forall>x \<in> set scopes. hasScope p x)"
  using assms
  by (auto simp: admit_def auth_middleware_def requireScopes_def list_all_iff
      split: reply.splits sum.splits reject_reason.splits prod.splits gate_decision.splits if_splits)

section \<open>One window, one bound\<close>

text \<open>Within the minute \<open>m\<close> the counter under \<open>k\<close> stands at \<open>n\<close>: absent or expired at zero.\<close>

definition counted :: "nat \<Rightarrow> string \<Rightarrow> redis \<Rightarrow> int \<Rightarrow> bool" where
  "counted m k s n \<longleftrightarrow>
     (if n = 0 then (case s k of None \<Rightarrow> True | Some v \<Rightarrow> \<not> redis_live (60000 * m) v)
      else n > 0 \<and> (\<exists>e. s k = Some (n, e) \<and> (\<forall>x. e = Some x \<longrightarrow> 60000 * (m + 1) \<le> x)))"

lemma incr_same:
  assumes "counted m k s n" "60000 * m \<le> t" "t < 60000 * (m + 1)" "60000 \<le> ms" "incrementScript t k ms s = (c, s')"
  shows "c = n + 1 \<and> counted m k s' (n + 1)"
  using assms
  by (auto simp: counted_def incrementScript_def redis_incr_def redis_pexpire_def redis_live_def
      split: if_splits option.splits)

lemma incr_other:
  assumes "counted m k s n" "incrementScript t k' ms s = (c, s')" "k' \<noteq> k"
  shows "counted m k s' n"
proof -
  have "s' k = s k" using assms(2,3)
    by (auto simp: incrementScript_def redis_incr_def redis_pexpire_def split: if_splits option.splits)
  with assms(1) show ?thesis by (simp only: counted_def)
qed

lemma incr_counted:
  assumes "counted m k s n" "60000 * m \<le> t" "t < 60000 * (m + 1)" "60000 \<le> ms" "incrementScript t k' ms s = (c, s')"
  shows "\<exists>n' \<ge> n. counted m k s' n'"
  using incr_same [OF assms(1-4)] incr_other [OF assms(1)] assms(5)
  by (cases "k' = k") (metis zle_add1_eq_le less_imp_le less_add_one, metis order_refl)

fun rate_run :: "'s counter_store \<Rightarrow> (nat \<Rightarrow> string) \<Rightarrow> (nat \<Rightarrow> string) \<Rightarrow> (nat \<times> principal) list \<Rightarrow> 's \<Rightarrow> (principal \<times> gate_decision) list" where
  "rate_run inc fm fh [] s = []"
| "rate_run inc fm fh ((t, p) # rs) s =
     (case rate_middleware (Some inc) fm fh t (Some p) s of (g, s') \<Rightarrow> (p, g) # rate_run inc fm fh rs s')"

definition passed :: "string \<Rightarrow> (principal \<times> gate_decision) list \<Rightarrow> nat" where
  "passed tok ds = length (filter (\<lambda>(p, g). pn_token_id p = tok \<and> (\<forall>r. g \<noteq> TooManyRequests r)) ds)"

lemma allow_redis:
  assumes "counted m (minuteKey fm tok (60000 * m)) s n" "60000 * m \<le> t" "t < 60000 * (m + 1)"
    "allow redis_store fm fh t u l s = (x, s')"
  shows "\<exists>r n'. x = Inr r \<and> n \<le> n' \<and> counted m (minuteKey fm tok (60000 * m)) s' n'
    \<and> (u = tok \<longrightarrow> n + 1 \<le> n' \<and> (rl_allowed r \<longrightarrow> n + 1 \<le> li_requests_per_minute l))"
proof -
  let ?k = "minuteKey fm tok (60000 * m)"
  have same: "minuteKey fm tok t = ?k"
  proof -
    have "t div 60000 = m" by (rule div_nat_eqI) (use assms(2,3) in simp_all)
    then show ?thesis by (simp add: minuteKey_def)
  qed
  obtain c s1 where 1: "incrementScript t (minuteKey fm u t) 60000 s = (c, s1)" by fastforce
  obtain c' s2 where 2: "incrementScript t (hourKey fh u t) 3600000 s1 = (c', s2)" by fastforce
  from assms(4) have x: "s' = s2" "\<exists>r. x = Inr r \<and> (rl_allowed r \<longrightarrow> c \<le> li_requests_per_minute l)"
    by (auto simp: allow_def redis_store_def 1 2 Let_def)
  from incr_counted [OF assms(1-3) _ 1] obtain n1 where n1: "n \<le> n1" "counted m ?k s1 n1" by auto
  from incr_counted [OF n1(2) assms(2,3) _ 2] obtain n2 where n2: "n1 \<le> n2" "counted m ?k s2 n2" by auto
  show ?thesis
  proof (cases "u = tok")
    case True
    with incr_same [OF assms(1-3) _ 1 [unfolded True same]] have c: "c = n + 1" "counted m ?k s1 (n + 1)" by simp_all
    from incr_counted [OF c(2) assms(2,3) _ 2] obtain n3 where "n + 1 \<le> n3" "counted m ?k s2 n3" by auto
    moreover from x c obtain r where "x = Inr r" "rl_allowed r \<longrightarrow> n + 1 \<le> li_requests_per_minute l" by auto
    ultimately show ?thesis using x(1) by (intro exI [of _ r] exI [of _ n3]) simp
  next
    case False
    from x obtain r where "x = Inr r" by auto
    with False x(1) n1 n2 show ?thesis by (intro exI [of _ r] exI [of _ n2]) simp
  qed
qed

lemma rate_run_bound:
  assumes "counted m (minuteKey fm tok (60000 * m)) s n"
    "\<And>t p. (t, p) \<in> set rs \<Longrightarrow> 60000 * m \<le> t \<and> t < 60000 * (m + 1)"
    "\<And>t p. (t, p) \<in> set rs \<Longrightarrow> pn_token_id p = tok \<Longrightarrow> li_requests_per_minute (pn_limits p) = l"
  shows "int (passed tok (rate_run redis_store fm fh rs s)) \<le> max 0 (l - n)"
  using assms
proof (induction rs arbitrary: s n)
  case Nil
  then show ?case by (simp add: passed_def)
next
  case (Cons a rs)
  obtain t p where a: "a = (t, p)" by fastforce
  obtain x s' where al: "allow redis_store fm fh t (pn_token_id p) (pn_limits p) s = (x, s')" by fastforce
  have "60000 * m \<le> t" "t < 60000 * (m + 1)" using Cons.prems(2) [of t p] a by auto
  from allow_redis [OF Cons.prems(1) this al] obtain r n' where r: "x = Inr r" "n \<le> n'"
      "counted m (minuteKey fm tok (60000 * m)) s' n'"
      "pn_token_id p = tok \<longrightarrow> n + 1 \<le> n' \<and> (rl_allowed r \<longrightarrow> n + 1 \<le> li_requests_per_minute (pn_limits p))"
    by blast
  have IH: "int (passed tok (rate_run redis_store fm fh rs s')) \<le> max 0 (l - n')"
    using Cons.prems(2,3) by (intro Cons.IH [OF r(3)]) auto
  have l: "pn_token_id p = tok \<Longrightarrow> li_requests_per_minute (pn_limits p) = l" using Cons.prems(3) [of t p] a by simp
  show ?case
    using IH r(2,4) l by (auto simp: a passed_def rate_middleware_def al r(1))
qed

end
