(* ===== verification/Admin_Cost.thy ===== *)
theory Admin_Cost
  imports Cost_Accounting Front_Door
begin

text \<open>
  The administrators' cost surface, \<open>internal/admincost/admincost.go\<close> with the statements of
  \<open>internal/db/queries/admin_cost.sql\<close>, and \<open>internal/http/handlers/admin_cost_handler.go\<close> over it:
  the price book and the budgets. Every mutation commits with its audit row or not at all;
  \<open>audit\<close> is the outcome of writing that row. \<open>scan\<close> reads a decimal text as \<open>pgtype.Numeric\<close>
  does, \<open>rfc3339\<close> and \<open>show_time\<close> read and print a time. A mutation first reads its row outside
  the transaction, in \<open>d0\<close>. The lists of reservations and cost events are not part of it.
\<close>

datatype admin_cost_error =
    ErrInvalid
  | ErrResourceNotFound
  | ErrDatabase error

section \<open>Vocabularies\<close>

definition validOperationTypes :: "string list" where
  "validOperationTypes = [''text_to_image'', ''image_to_image'', ''upscale'', ''variant_pack'', ''edit'']"

definition validUnitTypes :: "string list" where
  "validUnitTypes = [''image'', ''megapixel'', ''second'', ''credit'', ''request'']"

definition validScopeTypes :: "string \<Rightarrow> scope_type option" where
  "validScopeTypes s =
     (if s = ''tenant'' then Some Tenant_scope else if s = ''token'' then Some Token_scope
      else if s = ''world'' then Some World_scope else if s = ''user'' then Some User_scope else None)"

definition validBudgetPeriods :: "string \<Rightarrow> period option" where
  "validBudgetPeriods s = (if s = ''daily'' then Some Daily else if s = ''monthly'' then Some Monthly else None)"

definition validBudgetStatuses :: "string \<Rightarrow> budget_status option" where
  "validBudgetStatuses s =
     (if s = ''active'' then Some Active else if s = ''paused'' then Some Paused
      else if s = ''exceeded'' then Some Exceeded else None)"

section \<open>Storing a decimal\<close>

text \<open>
  Assigning to a \<open>numeric(14, k)\<close> column rounds half away from zero to \<open>k\<close> decimals and fails
  when fourteen digits are not enough; the integer counts units of the last decimal.
\<close>

definition to_numeric :: "nat \<Rightarrow> rat \<Rightarrow> error + int" where
  "to_numeric k q =
     (let x = (if q < 0 then - \<lfloor>- q * 10 ^ k + 1 / 2\<rfloor> else \<lfloor>q * 10 ^ k + 1 / 2\<rfloor>)
      in if \<bar>x\<bar> < 10 ^ 14 then Inr x else Inl NumericOverflow)"

lemma to_numeric_nonneg: "to_numeric k q = Inr x \<Longrightarrow> 0 \<le> q \<Longrightarrow> 0 \<le> x"
  by (auto simp: to_numeric_def Let_def split: if_splits)

section \<open>The audit row\<close>

record actor =
  ak_token_id :: string
  ak_tenant_id :: string
  ak_request_id :: string

record admin_event =
  av_tenant_id :: "string option"
  av_event_type :: string
  av_actor_token_id :: "string option"
  av_resource_type :: string
  av_resource_id :: string
  av_metadata :: payload

definition writeAudit :: "actor \<Rightarrow> string \<Rightarrow> string \<Rightarrow> string \<Rightarrow> string \<Rightarrow> payload \<Rightarrow> admin_event" where
  "writeAudit a event res rid ten m =
     (let m1 = m(''request_id'' \<mapsto> JStr (ak_request_id a), ''actor_token_id'' \<mapsto> JStr (ak_token_id a))
      in \<lparr>av_tenant_id = strPtr ten, av_event_type = event, av_actor_token_id = strPtr (ak_token_id a),
          av_resource_type = res, av_resource_id = rid,
          av_metadata = (if ten \<noteq> '''' then m1(''tenant_id'' \<mapsto> JStr ten) else m1)\<rparr>)"

text \<open>The end of \<open>inTx\<close>: the audit row is written, or everything is rolled back.\<close>

definition audited ::
    "(admin_event \<Rightarrow> error option) \<Rightarrow> admin_event \<Rightarrow> 'r \<times> db \<Rightarrow> admin_cost_error + 'r \<times> admin_event \<times> db" where
  "audited audit ev = (\<lambda>(r, d). case audit ev of Some e \<Rightarrow> Inl (ErrDatabase e) | None \<Rightarrow> Inr (r, ev, d))"

lemma audited_Inr [simp]: "audited audit ev rd = Inr (r, ev', d') \<longleftrightarrow> audit ev = None \<and> ev' = ev \<and> rd = (r, d')"
  by (cases rd) (auto simp: audited_def split: option.splits)

section \<open>The price book\<close>

definition priced_for :: "string \<Rightarrow> string \<Rightarrow> string \<Rightarrow> provider_price \<Rightarrow> bool" where
  "priced_for prov model op p \<longleftrightarrow>
     pr_provider_id p = prov \<and> pr_model_id p = model \<and> pr_operation_type p = op \<and> pr_is_active p"

definition end_price :: "nat \<Rightarrow> provider_price \<Rightarrow> provider_price" where
  "end_price now p = p\<lparr>pr_is_active := False, pr_effective_to := Some now\<rparr>"

definition supersedePreviousActivePrice :: "db \<Rightarrow> string \<Rightarrow> string \<Rightarrow> string \<Rightarrow> nat \<times> db" where
  "supersedePreviousActivePrice d prov model op =
     (length (filter (priced_for prov model op) (db_prices d)),
      d\<lparr>db_prices := update_where (priced_for prov model op) (end_price (db_now d)) (db_prices d)\<rparr>)"

text \<open>
  The constraints of the table: three letters of currency, the primary key, and the partial
  unique index \<open>uq_provider_model_prices_active\<close>.
\<close>

definition same_price_key :: "provider_price \<Rightarrow> provider_price \<Rightarrow> bool" where
  "same_price_key p = priced_for (pr_provider_id p) (pr_model_id p) (pr_operation_type p)"

definition insertProviderModelPrice :: "db \<Rightarrow> provider_price \<Rightarrow> error + db" where
  "insertProviderModelPrice d p =
     (if length (pr_currency p) \<noteq> 3 then Inl (ErrOther ''check_violation'')
      else if \<exists>x \<in> set (db_prices d). same_price_key p x then Inl unique_violation
      else (case insert_row pr_id p (db_prices d) of
              Inl e \<Rightarrow> Inl e
            | Inr ps \<Rightarrow> Inr (d\<lparr>db_prices := ps\<rparr>)))"

record create_price =
  ne_provider_id :: string
  ne_model_id :: string
  ne_operation_type :: string
  ne_unit_type :: string
  ne_price_per_unit :: string
  ne_currency :: string
  ne_source :: "string option"
  ne_notes :: "string option"

definition new_price :: "string \<Rightarrow> create_price \<Rightarrow> int \<Rightarrow> nat \<Rightarrow> provider_price" where
  "new_price i c price now =
     \<lparr>pr_id = i, pr_provider_id = ne_provider_id c, pr_model_id = ne_model_id c,
      pr_operation_type = ne_operation_type c, pr_unit_type = ne_unit_type c, pr_price_per_unit = price,
      pr_currency = (if ne_currency c = '''' then ''USD'' else ne_currency c), pr_effective_from = now,
      pr_is_active = True, pr_effective_to = None, pr_source = ne_source c, pr_notes = ne_notes c\<rparr>"

text \<open>\<open>show6\<close> prints a \<open>numeric(14, 6)\<close>.\<close>

definition price_created ::
    "(int \<Rightarrow> string) \<Rightarrow> actor \<Rightarrow> create_price \<Rightarrow> provider_price \<Rightarrow> nat \<Rightarrow> admin_event" where
  "price_created show6 a c p n =
     writeAudit a ''admin.price_book.created'' ''provider_model_price'' (pr_id p) (ak_tenant_id a)
       [''provider_id'' \<mapsto> JStr (ne_provider_id c), ''model_id'' \<mapsto> JStr (ne_model_id c),
        ''operation_type'' \<mapsto> JStr (ne_operation_type c), ''unit_type'' \<mapsto> JStr (ne_unit_type c),
        ''price_per_unit'' \<mapsto> JStr (show6 (pr_price_per_unit p)), ''currency'' \<mapsto> JStr (pr_currency p),
        ''superseded_rows'' \<mapsto> JNum (of_nat n)]"

definition createPrice ::
    "(string \<Rightarrow> rat option) \<Rightarrow> (int \<Rightarrow> string) \<Rightarrow> (admin_event \<Rightarrow> error option) \<Rightarrow> db \<Rightarrow> actor \<Rightarrow> string \<Rightarrow> create_price
     \<Rightarrow> admin_cost_error + provider_price \<times> admin_event \<times> db" where
  "createPrice scan show6 audit d a i c =
     (if ne_provider_id c = '''' \<or> ne_model_id c = '''' \<or> ne_operation_type c = '''' \<or> ne_unit_type c = ''''
         \<or> ne_price_per_unit c = '''' then Inl ErrInvalid
      else if ne_operation_type c \<notin> set validOperationTypes then Inl ErrInvalid
      else if ne_unit_type c \<notin> set validUnitTypes then Inl ErrInvalid
      else
        (case scan (ne_price_per_unit c) of
           None \<Rightarrow> Inl ErrInvalid
         | Some q \<Rightarrow>
             (case supersedePreviousActivePrice d (ne_provider_id c) (ne_model_id c) (ne_operation_type c) of
                (n, d1) \<Rightarrow>
                  (case to_numeric 6 q of
                     Inl e \<Rightarrow> Inl (ErrDatabase e)
                   | Inr price \<Rightarrow>
                       (case insertProviderModelPrice d1 (new_price i c price (db_now d1)) of
                          Inl e \<Rightarrow> Inl (ErrDatabase e)
                        | Inr d2 \<Rightarrow>
                            audited audit (price_created show6 a c (new_price i c price (db_now d1)) n)
                              (new_price i c price (db_now d1), d2))))))"

record update_price =
  up_set_effective_to :: bool
  up_effective_to :: "nat option"
  up_is_active :: "bool option"
  up_notes :: "string option"

definition getProviderModelPrice :: "db \<Rightarrow> string \<Rightarrow> provider_price option" where
  "getProviderModelPrice d i = find (\<lambda>p. pr_id p = i) (db_prices d)"

definition getPrice :: "db \<Rightarrow> string \<Rightarrow> admin_cost_error + provider_price" where
  "getPrice d i = (case getProviderModelPrice d i of None \<Rightarrow> Inl ErrResourceNotFound | Some p \<Rightarrow> Inr p)"

definition edited_price :: "update_price \<Rightarrow> provider_price \<Rightarrow> provider_price" where
  "edited_price u p =
     p\<lparr>pr_effective_to := (if up_set_effective_to u then up_effective_to u else pr_effective_to p),
       pr_is_active := (case up_is_active u of None \<Rightarrow> pr_is_active p | Some b \<Rightarrow> b),
       pr_notes := (case up_notes u of None \<Rightarrow> pr_notes p | Some n \<Rightarrow> Some n)\<rparr>"

definition updateProviderModelPrice :: "db \<Rightarrow> string \<Rightarrow> update_price \<Rightarrow> error + provider_price \<times> db" where
  "updateProviderModelPrice d i u =
     (case getProviderModelPrice d i of
        None \<Rightarrow> Inl ErrNoRows
      | Some p \<Rightarrow>
          if pr_is_active (edited_price u p)
             \<and> (\<exists>x \<in> set (db_prices d). pr_id x \<noteq> i \<and> same_price_key p x)
          then Inl unique_violation
          else Inr (edited_price u p,
             d\<lparr>db_prices := update_where (\<lambda>x. pr_id x = i) (edited_price u) (db_prices d)\<rparr>))"

definition optional_entry :: "bool \<Rightarrow> string \<Rightarrow> json \<Rightarrow> (string \<times> json) list" where
  "optional_entry b k v = (if b then [(k, v)] else [])"

definition updatePrice ::
    "(nat \<Rightarrow> string) \<Rightarrow> (admin_event \<Rightarrow> error option) \<Rightarrow> db \<Rightarrow> db \<Rightarrow> actor \<Rightarrow> string \<Rightarrow> update_price
     \<Rightarrow> admin_cost_error + provider_price \<times> admin_event \<times> db" where
  "updatePrice show_time audit d0 d a i u =
     (case getPrice d0 i of
        Inl e \<Rightarrow> Inl e
      | Inr _ \<Rightarrow>
          (case updateProviderModelPrice d i u of
             Inl e \<Rightarrow> Inl (ErrDatabase e)
           | Inr (p, d1) \<Rightarrow>
               audited audit
                 (writeAudit a ''admin.price_book.updated'' ''provider_model_price'' (pr_id p) (ak_tenant_id a)
                    [''changed'' \<mapsto> JObj (
                       optional_entry (up_set_effective_to u) ''effective_to''
                         (case up_effective_to u of None \<Rightarrow> JNull | Some t \<Rightarrow> JStr (show_time t))
                       @ (case up_is_active u of None \<Rightarrow> [] | Some b \<Rightarrow> [(''is_active'', JBool b)])
                       @ (case up_notes u of None \<Rightarrow> [] | Some n \<Rightarrow> [(''notes'', JStr n)]))])
                 (p, d1)))"

text \<open>\<open>lt\<close> is the collation of the database.\<close>

definition price_before :: "(string \<Rightarrow> string \<Rightarrow> bool) \<Rightarrow> provider_price \<Rightarrow> provider_price \<Rightarrow> bool" where
  "price_before lt p q \<longleftrightarrow>
     (if pr_provider_id p \<noteq> pr_provider_id q then lt (pr_provider_id p) (pr_provider_id q)
      else if pr_model_id p \<noteq> pr_model_id q then lt (pr_model_id p) (pr_model_id q)
      else if pr_operation_type p \<noteq> pr_operation_type q then lt (pr_operation_type p) (pr_operation_type q)
      else pr_effective_from q < pr_effective_from p)"

definition listPrices :: "(string \<Rightarrow> string \<Rightarrow> bool) \<Rightarrow> db \<Rightarrow> provider_price list" where
  "listPrices lt d = sort_by (price_before lt) (db_prices d)"

section \<open>Budgets\<close>

definition budget_key :: "cost_budget \<Rightarrow> string \<times> scope_type \<times> string \<times> period" where
  "budget_key b = (bg_tenant_id b, bg_scope_type b, bg_scope_id b, bg_period b)"

definition insertCostBudget :: "db \<Rightarrow> cost_budget \<Rightarrow> error + db" where
  "insertCostBudget d b =
     (if length (bg_currency b) \<noteq> 3 then Inl (ErrOther ''check_violation'')
      else if budget_key b \<in> budget_key ` set (db_budgets d) then Inl unique_violation
      else (case insert_row bg_id b (db_budgets d) of
              Inl e \<Rightarrow> Inl e
            | Inr bs \<Rightarrow> Inr (d\<lparr>db_budgets := bs\<rparr>)))"

record create_budget =
  cu_tenant_id :: string
  cu_scope_type :: string
  cu_scope_id :: string
  cu_period :: string
  cu_limit_amount :: string
  cu_currency :: string
  cu_status :: string
  cu_period_start :: "nat option"

definition currentWindowStart :: "date_trunc \<Rightarrow> string \<Rightarrow> nat \<Rightarrow> nat" where
  "currentWindowStart tr p now = (if p = ''monthly'' then tr Monthly now else tr Daily now)"

text \<open>The validated row. \<open>now\<close> is the clock of the process.\<close>

definition status_or_active :: "create_budget \<Rightarrow> string" where
  "status_or_active c = (if cu_status c = '''' then ''active'' else cu_status c)"

definition validate_budget ::
    "date_trunc \<Rightarrow> (string \<Rightarrow> rat option) \<Rightarrow> nat \<Rightarrow> string \<Rightarrow> create_budget \<Rightarrow> admin_cost_error + rat \<times> cost_budget" where
  "validate_budget tr scan now i c =
     (if cu_tenant_id c = '''' \<or> cu_scope_type c = '''' \<or> cu_scope_id c = '''' \<or> cu_period c = ''''
         \<or> cu_limit_amount c = '''' then Inl ErrInvalid
      else
        (case (validScopeTypes (cu_scope_type c), validBudgetPeriods (cu_period c),
               validBudgetStatuses (status_or_active c), scan (cu_limit_amount c)) of
           (Some sc, Some pe, Some st, Some q) \<Rightarrow>
             if sc = Tenant_scope \<and> cu_scope_id c \<noteq> cu_tenant_id c then Inl ErrInvalid
             else Inr (q, \<lparr>bg_id = i, bg_tenant_id = cu_tenant_id c, bg_scope_type = sc,
                bg_scope_id = cu_scope_id c, bg_period = pe, bg_limit = 0, bg_reserved = 0, bg_spent = 0,
                bg_currency = (if cu_currency c = '''' then ''USD'' else cu_currency c), bg_status = st,
                bg_period_start = (case cu_period_start c of
                    None \<Rightarrow> currentWindowStart tr (cu_period c) now | Some t \<Rightarrow> t)\<rparr>)
         | _ \<Rightarrow> Inl ErrInvalid))"

definition budget_created :: "actor \<Rightarrow> create_budget \<Rightarrow> cost_budget \<Rightarrow> admin_event" where
  "budget_created a c b =
     writeAudit a ''admin.cost_budget.created'' ''cost_budget'' (bg_id b) (bg_tenant_id b)
       [''scope_type'' \<mapsto> JStr (cu_scope_type c), ''scope_id'' \<mapsto> JStr (cu_scope_id c),
        ''period'' \<mapsto> JStr (cu_period c), ''limit_amount'' \<mapsto> JStr (numeric_text (bg_limit b)),
        ''currency'' \<mapsto> JStr (bg_currency b), ''status'' \<mapsto> JStr (status_or_active c)]"

definition createBudget ::
    "date_trunc \<Rightarrow> (string \<Rightarrow> rat option) \<Rightarrow> nat \<Rightarrow> (admin_event \<Rightarrow> error option) \<Rightarrow> db \<Rightarrow> actor \<Rightarrow> string \<Rightarrow> create_budget
     \<Rightarrow> admin_cost_error + cost_budget \<times> admin_event \<times> db" where
  "createBudget tr scan now audit d a i c =
     (case validate_budget tr scan now i c of
        Inl e \<Rightarrow> Inl e
      | Inr (q, b) \<Rightarrow>
          (case to_numeric 4 q of
             Inl e \<Rightarrow> Inl (ErrDatabase e)
           | Inr limit \<Rightarrow>
               (case insertCostBudget d (b\<lparr>bg_limit := limit\<rparr>) of
                  Inl e \<Rightarrow> Inl (ErrDatabase e)
                | Inr d1 \<Rightarrow>
                    audited audit (budget_created a c (b\<lparr>bg_limit := limit\<rparr>)) (b\<lparr>bg_limit := limit\<rparr>, d1))))"

record update_budget_input =
  ub_limit_amount :: "string option"
  ub_status :: "string option"

definition edited_budget :: "amount option \<Rightarrow> budget_status option \<Rightarrow> cost_budget \<Rightarrow> cost_budget" where
  "edited_budget l s b =
     b\<lparr>bg_limit := (case l of None \<Rightarrow> bg_limit b | Some x \<Rightarrow> x),
       bg_status := (case s of None \<Rightarrow> bg_status b | Some x \<Rightarrow> x)\<rparr>"

definition getCostBudget :: "db \<Rightarrow> string \<Rightarrow> cost_budget option" where
  "getCostBudget d i = find (\<lambda>b. bg_id b = i) (db_budgets d)"

definition updateCostBudget ::
    "db \<Rightarrow> string \<Rightarrow> rat option \<Rightarrow> budget_status option \<Rightarrow> error + cost_budget \<times> db" where
  "updateCostBudget d i limit st =
     (case getCostBudget d i of
        None \<Rightarrow> Inl ErrNoRows
      | Some b \<Rightarrow>
          (case (case limit of None \<Rightarrow> Inr None | Some q \<Rightarrow> map_sum id Some (to_numeric 4 q)) of
             Inl e \<Rightarrow> Inl e
           | Inr l \<Rightarrow> Inr (edited_budget l st b,
               d\<lparr>db_budgets := update_where (\<lambda>b. bg_id b = i) (edited_budget l st) (db_budgets d)\<rparr>)))"

definition updateBudget ::
    "(string \<Rightarrow> rat option) \<Rightarrow> (admin_event \<Rightarrow> error option) \<Rightarrow> db \<Rightarrow> db \<Rightarrow> actor \<Rightarrow> string \<Rightarrow> update_budget_input
     \<Rightarrow> admin_cost_error + cost_budget \<times> admin_event \<times> db" where
  "updateBudget scan audit d0 d a i u =
     (if getCostBudget d0 i = None then Inl ErrResourceNotFound
      else if \<exists>l. ub_limit_amount u = Some l \<and> scan l = None then Inl ErrInvalid
      else if \<exists>s. ub_status u = Some s \<and> validBudgetStatuses s = None then Inl ErrInvalid
      else
        (case updateCostBudget d i (Option.bind (ub_limit_amount u) scan)
                (Option.bind (ub_status u) validBudgetStatuses) of
           Inl e \<Rightarrow> Inl (ErrDatabase e)
         | Inr (b, d1) \<Rightarrow>
             audited audit
               (writeAudit a ''admin.cost_budget.updated'' ''cost_budget'' (bg_id b) (bg_tenant_id b)
                  [''changed'' \<mapsto> JObj (
                     (case ub_limit_amount u of None \<Rightarrow> [] | Some l \<Rightarrow> [(''limit_amount'', JStr l)])
                     @ (case ub_status u of None \<Rightarrow> [] | Some s \<Rightarrow> [(''status'', JStr s)]))])
               (b, d1)))"

definition scope_text :: "scope_type \<Rightarrow> string" where
  "scope_text s = (case s of Tenant_scope \<Rightarrow> ''tenant'' | Token_scope \<Rightarrow> ''token'' | World_scope \<Rightarrow> ''world''
     | User_scope \<Rightarrow> ''user'')"

definition period_text :: "period \<Rightarrow> string" where
  "period_text p = (case p of Daily \<Rightarrow> ''daily'' | Monthly \<Rightarrow> ''monthly'')"

definition budget_before :: "(string \<Rightarrow> string \<Rightarrow> bool) \<Rightarrow> cost_budget \<Rightarrow> cost_budget \<Rightarrow> bool" where
  "budget_before lt b c \<longleftrightarrow>
     (if bg_tenant_id b \<noteq> bg_tenant_id c then lt (bg_tenant_id b) (bg_tenant_id c)
      else if bg_scope_type b \<noteq> bg_scope_type c then lt (scope_text (bg_scope_type b)) (scope_text (bg_scope_type c))
      else if bg_scope_id b \<noteq> bg_scope_id c then lt (bg_scope_id b) (bg_scope_id c)
      else lt (period_text (bg_period b)) (period_text (bg_period c)))"

definition listBudgets :: "(string \<Rightarrow> string \<Rightarrow> bool) \<Rightarrow> db \<Rightarrow> cost_budget list" where
  "listBudgets lt d = sort_by (budget_before lt) (db_budgets d)"

section \<open>The handlers\<close>

text \<open>
  A body is a map from keys to raw messages: the text of a JSON value and the value. A key that is
  absent is a nil message.
\<close>

record raw_message =
  rw_text :: string
  rw_value :: json

type_synonym raw_body = "string \<rightharpoonup> raw_message"

definition isJSONNull :: "raw_message \<Rightarrow> bool" where
  "isJSONNull r \<longleftrightarrow> trimSpace (rw_text r) = ''null''"

definition rawStr :: "raw_message option \<Rightarrow> string" where
  "rawStr r = (case r of Some m \<Rightarrow> (case rw_value m of JStr s \<Rightarrow> s | _ \<Rightarrow> '''') | None \<Rightarrow> '''')"

definition rawStrPtr :: "raw_message option \<Rightarrow> string option" where
  "rawStrPtr r =
     (case r of
        None \<Rightarrow> None
      | Some m \<Rightarrow> if isJSONNull m then None else (case rw_value m of JStr s \<Rightarrow> Some s | _ \<Rightarrow> None))"

definition rawBoolPtr :: "raw_message option \<Rightarrow> bool option" where
  "rawBoolPtr r =
     (case r of
        None \<Rightarrow> None
      | Some m \<Rightarrow> if isJSONNull m then None else (case rw_value m of JBool b \<Rightarrow> Some b | _ \<Rightarrow> None))"

definition rawTimePtr :: "(string \<Rightarrow> nat option) \<Rightarrow> raw_message option \<Rightarrow> nat option" where
  "rawTimePtr rfc3339 r = Option.bind (rawStrPtr r) rfc3339"

definition rawDecimal :: "raw_message option \<Rightarrow> string option" where
  "rawDecimal r =
     (case r of
        None \<Rightarrow> None
      | Some m \<Rightarrow>
          (let s = trimSpace (rw_text m) in
           if s = '''' \<or> s = ''null'' then None
           else if hd s = CHR 0x22 then (case rw_value m of JStr str \<Rightarrow> Some str | _ \<Rightarrow> None)
           else Some s))"

definition forbidden_field :: "raw_body \<Rightarrow> string list \<Rightarrow> bool" where
  "forbidden_field body ks \<longleftrightarrow> (\<exists>k \<in> set ks. body k \<noteq> None)"

definition priceUpdateForbidden :: "string list" where
  "priceUpdateForbidden =
     [''provider_id'', ''model_id'', ''operation_type'', ''unit_type'', ''price_per_unit'', ''currency'']"

definition budgetCreateForbidden :: "string list" where
  "budgetCreateForbidden = [''reserved_amount'', ''spent_amount'']"

definition budgetUpdateForbidden :: "string list" where
  "budgetUpdateForbidden =
     [''reserved_amount'', ''spent_amount'', ''tenant_id'', ''scope_type'', ''scope_id'', ''period'']"

definition admin_actor :: "principal option \<Rightarrow> string \<Rightarrow> actor option" where
  "admin_actor p req =
     map_option (\<lambda>q. \<lparr>ak_token_id = pn_token_id q, ak_tenant_id = pn_tenant_id q, ak_request_id = req\<rparr>) p"

definition admin_problem :: "admin_cost_error \<Rightarrow> 'a reply" where
  "admin_problem e =
     (case e of
        ErrInvalid \<Rightarrow> Problem 400 ''invalid_request''
      | ErrResourceNotFound \<Rightarrow> Problem 404 ''not_found''
      | ErrDatabase _ \<Rightarrow> Problem 500 ''internal_error'')"

text \<open>The answer of a mutation, with the database after it.\<close>

definition answer_mutation :: "db \<Rightarrow> admin_cost_error + 'r \<times> admin_event \<times> db \<Rightarrow> 'r reply \<times> db" where
  "answer_mutation d r = (case r of Inl e \<Rightarrow> (admin_problem e, d) | Inr (x, _, d') \<Rightarrow> (Reply x, d'))"

definition handleCreatePrice ::
    "(string \<Rightarrow> rat option) \<Rightarrow> (int \<Rightarrow> string) \<Rightarrow> (admin_event \<Rightarrow> error option) \<Rightarrow> db \<Rightarrow> actor option \<Rightarrow> string \<Rightarrow> raw_body
     \<Rightarrow> provider_price reply \<times> db" where
  "handleCreatePrice scan show6 audit d ao i body =
     (case ao of
        None \<Rightarrow> (Problem 500 ''internal_error'', d)
      | Some a \<Rightarrow> answer_mutation d (createPrice scan show6 audit d a i
          \<lparr>ne_provider_id = rawStr (body ''provider_id''), ne_model_id = rawStr (body ''model_id''),
           ne_operation_type = rawStr (body ''operation_type''), ne_unit_type = rawStr (body ''unit_type''),
           ne_price_per_unit = (case rawDecimal (body ''price_per_unit'') of Some t \<Rightarrow> t | None \<Rightarrow> ''''),
           ne_currency = rawStr (body ''currency''), ne_source = rawStrPtr (body ''source''),
           ne_notes = rawStrPtr (body ''notes'')\<rparr>))"

text \<open>A time field that is present must be a time or null: \<open>None\<close> is the 400.\<close>

definition optional_time :: "(string \<Rightarrow> nat option) \<Rightarrow> raw_message option \<Rightarrow> nat option option" where
  "optional_time rfc3339 r =
     (case r of
        None \<Rightarrow> Some None
      | Some m \<Rightarrow>
          (case rawTimePtr rfc3339 (Some m) of
             Some t \<Rightarrow> Some (Some t)
           | None \<Rightarrow> if isJSONNull m then Some None else None))"

definition handleUpdatePrice ::
    "(string \<Rightarrow> nat option) \<Rightarrow> (nat \<Rightarrow> string) \<Rightarrow> (admin_event \<Rightarrow> error option) \<Rightarrow> db \<Rightarrow> db \<Rightarrow> actor option \<Rightarrow> string \<Rightarrow> raw_body
     \<Rightarrow> provider_price reply \<times> db" where
  "handleUpdatePrice rfc3339 show_time audit d0 d ao i body =
     (case ao of
        None \<Rightarrow> (Problem 500 ''internal_error'', d)
      | Some a \<Rightarrow>
          if i = '''' \<or> forbidden_field body priceUpdateForbidden then (Problem 400 ''invalid_request'', d)
          else
            (case optional_time rfc3339 (body ''effective_to'') of
               None \<Rightarrow> (Problem 400 ''invalid_request'', d)
             | Some t \<Rightarrow> answer_mutation d (updatePrice show_time audit d0 d a i
                 \<lparr>up_set_effective_to = (body ''effective_to'' \<noteq> None), up_effective_to = t,
                  up_is_active = rawBoolPtr (body ''is_active''), up_notes = rawStrPtr (body ''notes'')\<rparr>)))"

definition handleCreateBudget ::
    "date_trunc \<Rightarrow> (string \<Rightarrow> rat option) \<Rightarrow> (string \<Rightarrow> nat option) \<Rightarrow> nat \<Rightarrow> (admin_event \<Rightarrow> error option) \<Rightarrow> db
     \<Rightarrow> actor option \<Rightarrow> string \<Rightarrow> raw_body \<Rightarrow> cost_budget reply \<times> db" where
  "handleCreateBudget tr scan rfc3339 now audit d ao i body =
     (case ao of
        None \<Rightarrow> (Problem 500 ''internal_error'', d)
      | Some a \<Rightarrow>
          if forbidden_field body budgetCreateForbidden then (Problem 400 ''invalid_request'', d)
          else
            (case optional_time rfc3339 (body ''period_start'') of
               None \<Rightarrow> (Problem 400 ''invalid_request'', d)
             | Some t \<Rightarrow> answer_mutation d (createBudget tr scan now audit d a i
                 \<lparr>cu_tenant_id = rawStr (body ''tenant_id''), cu_scope_type = rawStr (body ''scope_type''),
                  cu_scope_id = rawStr (body ''scope_id''), cu_period = rawStr (body ''period''),
                  cu_limit_amount = (case rawDecimal (body ''limit_amount'') of Some x \<Rightarrow> x | None \<Rightarrow> ''''),
                  cu_currency = rawStr (body ''currency''), cu_status = rawStr (body ''status''),
                  cu_period_start = t\<rparr>)))"

definition handleUpdateBudget ::
    "(string \<Rightarrow> rat option) \<Rightarrow> (admin_event \<Rightarrow> error option) \<Rightarrow> db \<Rightarrow> db \<Rightarrow> actor option \<Rightarrow> string \<Rightarrow> raw_body
     \<Rightarrow> cost_budget reply \<times> db" where
  "handleUpdateBudget scan audit d0 d ao i body =
     (case ao of
        None \<Rightarrow> (Problem 500 ''internal_error'', d)
      | Some a \<Rightarrow>
          if i = '''' \<or> forbidden_field body budgetUpdateForbidden then (Problem 400 ''invalid_request'', d)
          else answer_mutation d (updateBudget scan audit d0 d a i
             \<lparr>ub_limit_amount = rawDecimal (body ''limit_amount''), ub_status = rawStrPtr (body ''status'')\<rparr>))"

section \<open>What the mutations do\<close>

lemma createPrice_InrD:
  assumes "createPrice scan show6 audit d a i c = Inr (p, ev, d')"
  obtains q price where "scan (ne_price_per_unit c) = Some q" "to_numeric 6 q = Inr price"
    "p = new_price i c price (db_now d)" "i \<notin> pr_id ` set (db_prices d)" "audit ev = None"
    "d' = d\<lparr>db_prices := update_where (priced_for (ne_provider_id c) (ne_model_id c) (ne_operation_type c))
        (end_price (db_now d)) (db_prices d) @ [p]\<rparr>"
    "ev = price_created show6 a c p
        (length (filter (priced_for (ne_provider_id c) (ne_model_id c) (ne_operation_type c)) (db_prices d)))"
proof -
  have ids: "pr_id ` set (update_where P (end_price n) ps) = pr_id ` set ps" for P n ps
    by (rule image_update_where) (simp add: end_price_def)
  from assms ids that show ?thesis
    by (auto simp: createPrice_def supersedePreviousActivePrice_def insertProviderModelPrice_def new_price_def
        split: if_splits option.splits sum.splits)
qed

lemma createPrice_prices_ok:
  assumes "createPrice scan show6 audit d a i c = Inr (p, ev, d')" "prices_ok d" "0 \<le> pr_price_per_unit p"
  shows "prices_ok d'"
  using assms(1)
proof (rule createPrice_InrD)
  fix q price
  let ?ps = "update_where (priced_for (ne_provider_id c) (ne_model_id c) (ne_operation_type c)) (end_price (db_now d)) (db_prices d)"
  assume p: "p = new_price i c price (db_now d)" "i \<notin> pr_id ` set (db_prices d)" "d' = d\<lparr>db_prices := ?ps @ [p]\<rparr>"
  have ids: "pr_id ` set ?ps = pr_id ` set (db_prices d)"
    by (rule image_update_where) (simp add: end_price_def)
  have old: "x \<in> set (db_prices d) \<and> \<not> priced_for (ne_provider_id c) (ne_model_id c) (ne_operation_type c) x"
    if "x \<in> set ?ps" "pr_is_active x" for x
    using that by (auto simp: end_price_def elim!: update_where_memE split: if_splits)
  have "keyed pr_id ?ps" using assms(2) by (simp add: prices_ok_def keyed_update_where end_price_def)
  moreover have "0 \<le> pr_price_per_unit x" if "x \<in> set ?ps" for x
    using that assms(2) by (auto simp: prices_ok_def end_price_def elim!: update_where_memE)
  moreover have "price_key x \<noteq> price_key p \<and> price_key p \<noteq> price_key x" if "x \<in> set ?ps" "pr_is_active x" for x
    using old [OF that] that(2) p(1) by (auto simp: price_key_def priced_for_def new_price_def)
  moreover have "x = y" if "x \<in> set ?ps" "y \<in> set ?ps" "pr_is_active x" "pr_is_active y" "price_key x = price_key y" for x y
    using old [OF that(1,3)] old [OF that(2,4)] that assms(2) by (auto simp: prices_ok_def)
  moreover have "pr_id p \<notin> pr_id ` set ?ps" using p(1,2) ids by (simp add: new_price_def)
  ultimately show ?thesis
    unfolding prices_ok_def p(3) using assms(3) by (auto simp: keyed_snoc)
qed

lemma updatePrice_InrD:
  assumes "updatePrice show_time audit d0 d a i u = Inr (p, ev, d')"
  obtains p0 where "p0 \<in> set (db_prices d)" "pr_id p0 = i" "p = edited_price u p0" "audit ev = None"
    "d' = d\<lparr>db_prices := update_where (\<lambda>x. pr_id x = i) (edited_price u) (db_prices d)\<rparr>"
    "pr_is_active p \<longrightarrow> (\<forall>x \<in> set (db_prices d). pr_id x \<noteq> i \<longrightarrow> \<not> same_price_key p0 x)"
  using assms that
  by (auto simp: updatePrice_def updateProviderModelPrice_def getProviderModelPrice_def
      dest!: find_SomeD split: if_splits option.splits sum.splits)

lemma edited_price_frame [simp]:
  "pr_id (edited_price u p) = pr_id p" "pr_price_per_unit (edited_price u p) = pr_price_per_unit p"
  "price_key (edited_price u p) = price_key p" "pr_effective_from (edited_price u p) = pr_effective_from p"
  by (simp_all add: edited_price_def price_key_def)

lemma updatePrice_prices_ok:
  assumes "updatePrice show_time audit d0 d a i u = Inr (p, ev, d')" "prices_ok d"
  shows "prices_ok d'"
  using assms(1)
proof (rule updatePrice_InrD)
  fix p0
  let ?ps = "update_where (\<lambda>x. pr_id x = i) (edited_price u) (db_prices d)"
  assume p: "p0 \<in> set (db_prices d)" "pr_id p0 = i" "p = edited_price u p0" "d' = d\<lparr>db_prices := ?ps\<rparr>"
    and alone: "pr_is_active p \<longrightarrow> (\<forall>x \<in> set (db_prices d). pr_id x \<noteq> i \<longrightarrow> \<not> same_price_key p0 x)"
  have k: "keyed pr_id (db_prices d)" using assms(2) by (simp add: prices_ok_def)
  have only: "x = p0" if "x \<in> set (db_prices d)" "pr_id x = i" for x
    using keyed_unique [OF k that(1) p(1)] that(2) p(2) by simp
  have mem: "x = p \<or> x \<in> set (db_prices d) \<and> pr_id x \<noteq> i" if "x \<in> set ?ps" for x
    using that only p(3) by (auto elim!: update_where_memE split: if_splits)
  have "\<not> (pr_is_active p \<and> pr_is_active x \<and> price_key x = price_key p)" if "x \<in> set (db_prices d)" "pr_id x \<noteq> i" for x
    using alone that p(3) by (auto simp: same_price_key_def priced_for_def price_key_def edited_price_def)
  moreover have "0 \<le> pr_price_per_unit p" using assms(2) p(1,3) by (simp add: prices_ok_def)
  moreover have "keyed pr_id ?ps" using k by (simp add: keyed_update_where)
  ultimately show ?thesis
    using assms(2) unfolding prices_ok_def p(4) by simp (metis mem)
qed

lemma validate_budget_InrD:
  assumes "validate_budget tr scan now i c = Inr (q, b)"
  shows "bg_id b = i" "bg_reserved b = 0" "bg_spent b = 0"
    "bg_scope_type b = Tenant_scope \<longrightarrow> bg_scope_id b = bg_tenant_id b"
  using assms unfolding validate_budget_def by (auto split: if_splits option.splits)

lemma createBudget_InrD:
  assumes "createBudget tr scan now audit d a i c = Inr (b, ev, d')"
  shows "bg_id b = i" "i \<notin> bg_id ` set (db_budgets d)" "budget_key b \<notin> budget_key ` set (db_budgets d)"
    "bg_reserved b = 0" "bg_spent b = 0" "audit ev = None" "d' = d\<lparr>db_budgets := db_budgets d @ [b]\<rparr>"
    "bg_scope_type b = Tenant_scope \<longrightarrow> bg_scope_id b = bg_tenant_id b"
proof -
  from assms obtain q x l where v: "validate_budget tr scan now i c = Inr (q, x)" "b = x\<lparr>bg_limit := l\<rparr>"
    and r: "insertCostBudget d b = Inr d'" "audit ev = None"
    by (auto simp: createBudget_def split: sum.splits)
  note v' = validate_budget_InrD [OF v(1)]
  from v' v(2) show "bg_id b = i" "bg_reserved b = 0" "bg_spent b = 0"
    "bg_scope_type b = Tenant_scope \<longrightarrow> bg_scope_id b = bg_tenant_id b" by simp_all
  with r show "i \<notin> bg_id ` set (db_budgets d)" "budget_key b \<notin> budget_key ` set (db_budgets d)" "audit ev = None"
    "d' = d\<lparr>db_budgets := db_budgets d @ [b]\<rparr>"
    by (auto simp: insertCostBudget_def split: if_splits sum.splits)
qed

lemma updateBudget_InrD:
  assumes "updateBudget scan audit d0 d a i u = Inr (b, ev, d')"
  obtains l s b0 where "b0 \<in> set (db_budgets d)" "bg_id b0 = i" "b = edited_budget l s b0" "audit ev = None"
    "d' = d\<lparr>db_budgets := update_where (\<lambda>x. bg_id x = i) (edited_budget l s) (db_budgets d)\<rparr>"
  using assms that
  by (auto simp: updateBudget_def updateCostBudget_def getCostBudget_def
      dest!: find_SomeD split: if_splits option.splits sum.splits)

text \<open>The platform owns the reserved and spent amounts; a limit or a status may change under them.\<close>

lemma edited_budget_frame [simp]:
  "bg_id (edited_budget l s b) = bg_id b" "bg_reserved (edited_budget l s b) = bg_reserved b"
  "bg_spent (edited_budget l s b) = bg_spent b" "budget_key (edited_budget l s b) = budget_key b"
  by (simp_all add: edited_budget_def budget_key_def)

lemma held_unknown:
  assumes "book_inv d" "i \<notin> bg_id ` set (db_budgets d)"
  shows "held d i = 0"
proof -
  have "\<not> live_hold i h" if "h \<in> set (db_holds d)" for h
    using book_invD(5) [OF assms(1) that] assms(2) by (auto simp: live_hold_def)
  then show ?thesis by (simp add: held_def sum_where_def cong: map_cong)
qed

lemma createBudget_cost_inv:
  assumes "createBudget tr scan now audit d a i c = Inr (b, ev, d')" "cost_inv d"
  shows "cost_inv d'"
proof -
  note b = createBudget_InrD [OF assms(1)]
  have "book_inv d" "link_inv d" using assms(2) by (simp_all add: cost_inv_def)
  with held_unknown [OF this(1) b(2)] b show ?thesis
    by (auto simp: cost_inv_def book_inv_def link_inv_def keyed_snoc)
qed

lemma updateBudget_cost_inv:
  assumes "updateBudget scan audit d0 d a i u = Inr (b, ev, d')" "cost_inv d"
  shows "cost_inv d'"
  using assms(1)
proof (rule updateBudget_InrD)
  fix l s b0
  assume d': "d' = d\<lparr>db_budgets := update_where (\<lambda>x. bg_id x = i) (edited_budget l s) (db_budgets d)\<rparr>"
  have "book_inv d'" unfolding d' using assms(2) by (intro book_inv_update_budgets) (simp_all add: cost_inv_def)
  then show ?thesis using assms(2) by (simp add: cost_inv_def link_inv_def d')
qed

lemma admin_cost_frame:
  "createPrice scan show6 audit d a i c = Inr (p, ev, d') \<Longrightarrow> d' = d\<lparr>db_prices := db_prices d'\<rparr>"
  "updatePrice show_time audit d0 d a i u = Inr (p, ev, d') \<Longrightarrow> d' = d\<lparr>db_prices := db_prices d'\<rparr>"
  "createBudget tr scan now audit d a i b = Inr (x, ev, d') \<Longrightarrow> d' = d\<lparr>db_budgets := db_budgets d'\<rparr>"
  "updateBudget scan audit d0 d a i e = Inr (x, ev, d') \<Longrightarrow> d' = d\<lparr>db_budgets := db_budgets d'\<rparr>"
  by (auto elim: createPrice_InrD updatePrice_InrD updateBudget_InrD dest: createBudget_InrD(7))

text \<open>A new entry is the one its key is priced by; other keys are priced as before.\<close>

lemma active_price_priced_for: "active_price d prov model op = max_by pr_effective_from (filter (priced_for prov model op) (db_prices d))"
  by (simp add: active_price_def priced_for_def [abs_def])

lemma createPrice_active:
  assumes "createPrice scan show6 audit d a i c = Inr (p, ev, d')" "prices_ok d" "0 \<le> pr_price_per_unit p"
  shows "active_price d' (ne_provider_id c) (ne_model_id c) (ne_operation_type c) = Some p"
  using assms(1)
proof (rule createPrice_InrD)
  fix q price
  assume p: "p = new_price i c price (db_now d)"
    and d': "d' = d\<lparr>db_prices := update_where (priced_for (ne_provider_id c) (ne_model_id c) (ne_operation_type c))
        (end_price (db_now d)) (db_prices d) @ [p]\<rparr>"
  have "p \<in> set (db_prices d')" "pr_is_active p" by (simp_all add: d' p new_price_def)
  from active_price_unique [OF createPrice_prices_ok [OF assms] this] show ?thesis by (simp add: p new_price_def)
qed

lemma filter_ended:
  assumes "(prov, model, op) \<noteq> (prov', model', op')"
  shows "filter (priced_for prov' model' op') (update_where (priced_for prov model op) (end_price n) ps)
       = filter (priced_for prov' model' op') ps"
  using assms by (induction ps) (auto simp: priced_for_def end_price_def)

lemma createPrice_other:
  assumes "createPrice scan show6 audit d a i c = Inr (p, ev, d')"
    and k: "(prov, model, op) \<noteq> (ne_provider_id c, ne_model_id c, ne_operation_type c)"
  shows "active_price d' prov model op = active_price d prov model op"
  using assms(1)
proof (rule createPrice_InrD)
  fix q price
  assume p: "p = new_price i c price (db_now d)"
    and d': "d' = d\<lparr>db_prices := update_where (priced_for (ne_provider_id c) (ne_model_id c) (ne_operation_type c))
        (end_price (db_now d)) (db_prices d) @ [p]\<rparr>"
  have "\<not> priced_for prov model op p" using k by (auto simp: p new_price_def priced_for_def)
  with filter_ended [OF k [symmetric]] show ?thesis by (simp add: active_price_priced_for d')
qed

lemma createPrice_history:
  assumes "createPrice scan show6 audit d a i c = Inr (p, ev, d')" "x \<in> set (db_prices d)"
  shows "(if priced_for (ne_provider_id c) (ne_model_id c) (ne_operation_type c) x then end_price (db_now d) x else x)
           \<in> set (db_prices d')"
  using assms by (elim createPrice_InrD) (auto simp: set_update_where)

lemma createPrice_unaudited:
  assumes "createPrice scan show6 audit d a i c = Inr (p, ev, d')" "audit' ev = Some e"
  shows "createPrice scan show6 audit' d a i c = Inl (ErrDatabase e)"
  using assms
  by (auto simp: createPrice_def audited_def split: if_splits option.splits sum.splits prod.splits)

text \<open>An ended entry cannot be made active again beside the current one.\<close>

lemma updatePrice_second_active:
  assumes "x \<in> set (db_prices d)" "keyed pr_id (db_prices d)" "up_is_active u = Some True"
    and y: "y \<in> set (db_prices d)" "pr_is_active y" "price_key y = price_key x" "pr_id y \<noteq> pr_id x"
  shows "updatePrice show_time audit d d a (pr_id x) u = Inl (ErrDatabase unique_violation)"
proof -
  have "find (\<lambda>z. pr_id z = pr_id x) (db_prices d) = Some x" by (rule find_keyed [OF assms(2,1)]) simp_all
  moreover have "same_price_key x y" using y by (simp add: same_price_key_def priced_for_def price_key_def)
  ultimately show ?thesis using assms(3) y(1,4)
    by (auto simp: updatePrice_def getPrice_def getProviderModelPrice_def updateProviderModelPrice_def edited_price_def)
qed

end
