(* ===== verification/Platform.thy ===== *)
theory Platform
  imports Worker_Safety Admin_Cost
begin

text \<open>
  The platform as a transition system: one rule per transaction that the API process, the
  administrators' API and the workers commit, from any interleaving of them. A created job, a
  claim, an output, a failure, a terminal transition of the books, a change of the price book or of
  a budget: each is one step. The administrators are taken to enter no negative price, which the
  code does not check.
\<close>

section \<open>Steps\<close>

inductive platform_step :: "date_trunc \<Rightarrow> db \<Rightarrow> db \<Rightarrow> bool" for tr where
  create: "createTx tr d all f c = TxCommitted res pid live d' \<Longrightarrow> platform_step tr d d'"
| cache_hit: "createCompletedCacheHitJob (\<lambda>x. x) d f h = (r, e, d') \<Longrightarrow> platform_step tr d d'"
| pack_reuse: "createCompletedPackReuseJob (\<lambda>x. x) d f p = (r, e, d') \<Longrightarrow> platform_step tr d d'"
| cleanup: "enqueueCleanup d jid ten pid rid msg l e' = Inr d' \<Longrightarrow> platform_step tr d d'"
| cancel: "cancelJob d ten jid l e' = Inr (j, d') \<Longrightarrow> platform_step tr d d'"
| retry: "retryTx tr d all ten jid rid hids l e' = Inr (j, r', d') \<Longrightarrow> platform_step tr d d'"
| retry_cleanup: "enqueueRetryCleanup d jid ten pid rid msg l e' = Inr d' \<Longrightarrow> platform_step tr d d'"
| claim: "markRunning d jid ten ri = Inr (j, d') \<Longrightarrow> platform_step tr d d'"
| claim_final: "claimPreview d jid ten ri = Inr (j, d') \<Longrightarrow> platform_step tr d d'"
| preview: "insertPreviewAssetAndMarkPreviewReady d jid ten ap sp ri = Inr (a, oc, d') \<Longrightarrow> platform_step tr d d'"
| final: "insertFinalAssetAndCompleteJob d jid ten ap forced sl sp ri = Inr (a, oc, d') \<Longrightarrow> platform_step tr d d'"
| complete: "markCompleted d jid ten ids ri = Inr (j, d') \<Longrightarrow> platform_step tr d d'"
| fail: "markFailed d jid ten code msg b ri = Inr (j, d') \<Longrightarrow> platform_step tr d d'"
| pack_item: "insertPackItemWithAsset d ap item sp = Inr d' \<Longrightarrow> platform_step tr d d'"
| pack_item_superseding: "insertPackItemWithAssetSuperseding d ap item vs sp = Inr d' \<Longrightarrow> platform_step tr d d'"
| pack_status: "platform_step tr d (updateAssetPackStatusForJob d pid jid s)"
| pack_completeness: "platform_step tr d (updateAssetPackCompletenessForJob d pid jid xs ys)"
| attempt: "insertProviderAttempt d tp = Inr d' \<Longrightarrow> platform_step tr d d'"
| attempt_succeeded: "platform_step tr d (markProviderAttemptSucceeded d i lat)"
| attempt_failed: "platform_step tr d (markProviderAttemptFailed d i code lat)"
| attempt_cost: "platform_step tr d (updateProviderAttemptCost d i act)"
| cost_event: "insertCostEventWithQueries d ev = Inr d' \<Longrightarrow> platform_step tr d d'"
| finalize: "finalizeInTxForReservation d jid t rid l e' = Inr d' \<Longrightarrow> platform_step tr d d'"
| reconcile: "reconcileForReservation d jid rid l = Inr d' \<Longrightarrow> platform_step tr d d'"
| price_created: "createPrice scan show6 au d a i c = Inr (p, ev, d') \<Longrightarrow> 0 \<le> pr_price_per_unit p \<Longrightarrow> platform_step tr d d'"
| price_updated: "updatePrice show_time au d0 d a i u = Inr (p, ev, d') \<Longrightarrow> platform_step tr d d'"
| budget_created: "createBudget tr scan n au d a i cb = Inr (b, ev, d') \<Longrightarrow> platform_step tr d d'"
| budget_updated: "updateBudget scan au d0 d a i ub = Inr (b, ev, d') \<Longrightarrow> platform_step tr d d'"
| tick: "db_now d \<le> n \<Longrightarrow> platform_step tr d (d\<lparr>db_now := n\<rparr>)"

text \<open>An installation before its first job: prices and untouched budgets only.\<close>

definition fresh_install :: "db \<Rightarrow> bool" where
  "fresh_install d \<longleftrightarrow> keyed bg_id (db_budgets d) \<and> (\<forall>b \<in> set (db_budgets d). bg_reserved b = 0)
     \<and> prices_ok d \<and> db_reservations d = [] \<and> db_holds d = [] \<and> db_jobs d = []"

definition reachable :: "date_trunc \<Rightarrow> db \<Rightarrow> bool" where
  "reachable tr d \<longleftrightarrow> (\<exists>d0. fresh_install d0 \<and> (platform_step tr)\<^sup>*\<^sup>* d0 d)"

section \<open>The invariant holds in every reachable state\<close>

lemma admin_cost_inv:
  "createPrice scan show6 au d a i c = Inr (p, ev, d') \<Longrightarrow> 0 \<le> pr_price_per_unit p \<Longrightarrow> plat_inv d \<Longrightarrow> plat_inv d'"
  "updatePrice show_time au d0 d a i u = Inr (p, ev, d') \<Longrightarrow> plat_inv d \<Longrightarrow> plat_inv d'"
  "createBudget tr scan n au d a i cb = Inr (b, ev, d') \<Longrightarrow> plat_inv d \<Longrightarrow> plat_inv d'"
  "updateBudget scan au d0 d a i ub = Inr (b, ev, d') \<Longrightarrow> plat_inv d \<Longrightarrow> plat_inv d'"
proof -
  have prices: "plat_inv d'" if "d' = d\<lparr>db_prices := ps\<rparr>" "prices_ok d'" "plat_inv d" for d d' ps
    using that cost_inv_frame [of d' d] by (simp add: plat_inv_def jobs_inv_def owner_inv_def)
  have budgets: "plat_inv d'" if "d' = d\<lparr>db_budgets := bs\<rparr>" "cost_inv d'" "plat_inv d" for d d' bs
    using that by (simp add: plat_inv_def jobs_inv_def owner_inv_def prices_ok_def)
  show "createPrice scan show6 au d a i c = Inr (p, ev, d') \<Longrightarrow> 0 \<le> pr_price_per_unit p \<Longrightarrow> plat_inv d \<Longrightarrow> plat_inv d'"
    using prices [OF admin_cost_frame(1)] createPrice_prices_ok by (auto simp: plat_inv_def)
  show "updatePrice show_time au d0 d a i u = Inr (p, ev, d') \<Longrightarrow> plat_inv d \<Longrightarrow> plat_inv d'"
    using prices [OF admin_cost_frame(2)] updatePrice_prices_ok by (auto simp: plat_inv_def)
  show "createBudget tr scan n au d a i cb = Inr (b, ev, d') \<Longrightarrow> plat_inv d \<Longrightarrow> plat_inv d'"
    using budgets [OF admin_cost_frame(3)] createBudget_cost_inv by (auto simp: plat_inv_def)
  show "updateBudget scan au d0 d a i ub = Inr (b, ev, d') \<Longrightarrow> plat_inv d \<Longrightarrow> plat_inv d'"
    using budgets [OF admin_cost_frame(4)] updateBudget_cost_inv by (auto simp: plat_inv_def)
qed

lemma platform_step_inv:
  assumes "platform_step tr d d'" "plat_inv d"
  shows "plat_inv d'"
  using assms
proof (cases rule: platform_step.cases)
  case create
  then show ?thesis using assms(2) by (rule createTx_inv)
next
  case cache_hit
  then show ?thesis using assms(2) by (rule createCompletedCacheHitJob_inv) (rule assms(2))
next
  case pack_reuse
  then show ?thesis using assms(2) by (rule createCompletedPackReuseJob_inv) (rule assms(2))
next
  case cleanup
  then show ?thesis using assms(2) by (rule enqueueCleanup_inv)
next
  case cancel
  then show ?thesis using assms(2) by (rule cancelJob_inv)
next
  case retry
  then show ?thesis using assms(2) by (rule retryTx_inv)
next
  case retry_cleanup
  then show ?thesis using assms(2) by (rule enqueueRetryCleanup_inv)
next
  case complete
  then show ?thesis using assms(2) markGenerationJobCompleted_inv by (auto simp: markCompleted_def)
next
  case pack_item
  then show ?thesis using assms(2) by (rule insertPackItem_inv)
next
  case pack_item_superseding
  then show ?thesis using assms(2) by (rule insertPackItemSuperseding_inv)
next
  case price_created
  then show ?thesis using assms(2) by (rule admin_cost_inv)
next
  case price_updated
  then show ?thesis using assms(2) by (rule admin_cost_inv)
next
  case budget_created
  then show ?thesis using assms(2) by (rule admin_cost_inv)
next
  case budget_updated
  then show ?thesis using assms(2) by (rule admin_cost_inv)
qed (use assms(2) platform.markRunning_keeps platform.claimPreview_keeps platform.markFailed_keeps insertFinal_inv
      insertPreview_inv insertProviderAttempt_inv insertCostEvent_inv finalize_plat_inv reconcile_plat_inv in auto)

lemma fresh_install_inv: "fresh_install d \<Longrightarrow> plat_inv d"
  by (auto simp: fresh_install_def plat_inv_def cost_inv_def book_inv_def link_inv_def jobs_inv_def owner_inv_def
      keyed_def held_def sum_where_def)

lemma reachable_inv:
  assumes "reachable tr d"
  shows "plat_inv d"
proof -
  from assms obtain d0 where "fresh_install d0" "(platform_step tr)\<^sup>*\<^sup>* d0 d" by (auto simp: reachable_def)
  from this(2,1) show ?thesis
    by (induction rule: rtranclp_induct) (auto intro: fresh_install_inv platform_step_inv)
qed

lemma reachable_step: "reachable tr d \<Longrightarrow> platform_step tr d d' \<Longrightarrow> reachable tr d'"
  unfolding reachable_def by (blast intro: rtranclp.rtrancl_into_rtrancl)

text \<open>
  Every transaction of a worker run is a step, so a run among other steps stays reachable.
\<close>

interpretation run: worker_rely "reachable tr" for tr
  by (unfold_locales; blast intro: reachable_step platform_step.claim platform_step.claim_final platform_step.fail
      platform_step.final platform_step.preview platform_step.attempt platform_step.attempt_succeeded
      platform_step.attempt_failed platform_step.attempt_cost platform_step.cost_event platform_step.finalize
      platform_step.reconcile)

section \<open>Jobs move along their state machine\<close>

text \<open>
  No step loses a job; a step leaves its identity, its tenant, its token and its status, or
  moves the status along one edge of the state machine.
\<close>

definition job_same :: "job \<Rightarrow> job \<Rightarrow> bool" where
  "job_same j j' \<longleftrightarrow> jb_id j' = jb_id j \<and> jb_tenant_id j' = jb_tenant_id j
     \<and> jb_requested_by_token_id j' = jb_requested_by_token_id j \<and> jb_status j' = jb_status j"

definition jobs_related :: "(job \<Rightarrow> job \<Rightarrow> bool) \<Rightarrow> db \<Rightarrow> db \<Rightarrow> bool" where
  "jobs_related R d d' \<longleftrightarrow> (\<forall>j \<in> set (db_jobs d). \<exists>j' \<in> set (db_jobs d'). R j j')"

abbreviation jobs_kept :: "db \<Rightarrow> db \<Rightarrow> bool" where
  "jobs_kept \<equiv> jobs_related job_same"

abbreviation jobs_advance :: "db \<Rightarrow> db \<Rightarrow> bool" where
  "jobs_advance \<equiv> jobs_related job_evolves"

lemma kept_advance: "jobs_kept d d' \<Longrightarrow> jobs_advance d d'"
  by (fastforce simp: jobs_related_def job_same_def job_evolves_def)

lemma kept_then_advance: "jobs_kept d d1 \<Longrightarrow> jobs_advance d1 d' \<Longrightarrow> jobs_advance d d'"
  by (fastforce simp: jobs_related_def job_same_def job_evolves_def)

lemma advance_then_kept: "jobs_advance d d1 \<Longrightarrow> jobs_kept d1 d' \<Longrightarrow> jobs_advance d d'"
  by (fastforce simp: jobs_related_def job_same_def job_evolves_def)

lemma kept_trans: "jobs_kept d d1 \<Longrightarrow> jobs_kept d1 d' \<Longrightarrow> jobs_kept d d'"
  by (fastforce simp: jobs_related_def job_same_def)

lemma kept_same: "db_jobs d' = db_jobs d \<Longrightarrow> jobs_kept d d'"
  by (auto simp: jobs_related_def job_same_def)

lemma kept_more: "db_jobs d' = db_jobs d @ js \<Longrightarrow> jobs_kept d d'"
  by (auto simp: jobs_related_def job_same_def)

lemma related_update:
  assumes "db_jobs d' = update_where P f (db_jobs d)" "\<And>j. j \<in> set (db_jobs d) \<Longrightarrow> P j \<Longrightarrow> R j (f j)" "\<And>j. R j j"
  shows "jobs_related R d d'"
  unfolding jobs_related_def
proof
  fix j assume "j \<in> set (db_jobs d)"
  with assms show "\<exists>j' \<in> set (db_jobs d'). R j j'"
    by (intro bexI [of _ "if P j then f j else j"]) (auto simp: set_update_where)
qed

lemma advance_evolve: "jobs_evolve d d' \<Longrightarrow> jobs_advance d d'"
  by (fastforce simp: jobs_evolve_def jobs_related_def list_all2_conv_all_nth set_conv_nth)

lemma finalize_kept:
  assumes "finalizeInTxForReservation d k t rid l e = Inr d'" "plat_inv d"
  shows "jobs_kept d d'"
proof -
  have "book_inv d" using assms(2) by (simp add: plat_inv_def cost_inv_def)
  with assms(1) show ?thesis
  proof (cases rule: finalize_cases)
    case (settled r rep ls es dx)
    show ?thesis
    proof (cases "charge_of t r rep")
      case None
      then show ?thesis using settled(4) by (intro kept_same) (simp add: charged_jobs_def)
    next
      case (Some c)
      then have "db_jobs d' = update_where (\<lambda>j. jb_id j = k \<and> (rv_id r \<noteq> [] \<longrightarrow> jb_cost_reservation_id j = Some (rv_id r)))
          (\<lambda>j. j\<lparr>jb_actual_cost := charge_of t r rep\<rparr>) (db_jobs d)"
        by (simp add: settled(4) charged_jobs_def)
      then show ?thesis by (rule related_update) (auto simp: job_same_def)
    qed
  qed (auto intro: kept_same)
qed

lemma reconcile_kept:
  assumes "reconcileForReservation d k rid l = Inr d'"
  shows "jobs_kept d d'"
  using assms
proof (cases rule: reconcile_cases)
  case (moved r a bs ls)
  then have "db_jobs d' = update_where (\<lambda>j. jb_id j = k \<and> jb_cost_reservation_id j = Some rid)
      (\<lambda>j. j\<lparr>jb_actual_cost := Some a\<rparr>) (db_jobs d)" by simp
  then show ?thesis by (rule related_update) (auto simp: job_same_def)
qed (auto intro: kept_same)

lemma marks_advance:
  "markRunning d i t r = Inr (j, d') \<Longrightarrow> jobs_advance d d'"
  "claimPreview d i t r = Inr (j, d') \<Longrightarrow> jobs_advance d d'"
  "markCompleted d i t ids r = Inr (j, d') \<Longrightarrow> jobs_advance d d'"
  "markFailed d i t c m b r = Inr (j, d') \<Longrightarrow> jobs_advance d d'"
  by (auto simp: job_method_defs split: option.splits intro!: advance_evolve
      dest: markGenerationJobRunning_evolve claimPreviewFinalization_evolve markGenerationJobCompleted_evolve
        markGenerationJobFailed_evolve)

lemma final_advance:
  assumes "insertFinalAssetAndCompleteJob d k t p fd sl sp r = Inr (a, oc, d')"
  shows "jobs_advance d d'"
  using assms
proof (cases rule: insertFinal_cases)
  case (written as a1 j d2 ats es)
  from advance_evolve [OF markGenerationJobCompleted_evolve [OF written(2)]] written(3)
  show ?thesis by (simp add: jobs_related_def)
qed (auto intro: kept_advance kept_same)

lemma preview_advance:
  assumes "insertPreviewAssetAndMarkPreviewReady d k t p sp r = Inr (a, oc, d')"
  shows "jobs_advance d d'"
  using assms
proof (cases rule: insertPreview_cases)
  case (written as a1 j d2 ats es)
  from advance_evolve [OF markGenerationJobPreviewReady_evolve [OF written(2)]] written(3)
  show ?thesis by (simp add: jobs_related_def)
qed (auto intro: kept_advance kept_same)

lemma cleanup_advance:
  assumes "markGenerationJobFailed d jid ten c m b r = Some (j, d1)" "releaseInTx d2 jid l e = Inr d'"
    "db_jobs d2 = db_jobs d1" "plat_inv d2"
  shows "jobs_advance d d'"
proof -
  have "jobs_advance d d1" using markGenerationJobFailed_evolve [OF assms(1)] by (rule advance_evolve)
  moreover have "jobs_kept d1 d2" by (rule kept_same [OF assms(3)])
  moreover have "jobs_kept d2 d'" using assms(2,4) finalize_kept by (auto simp: releaseInTx_def)
  ultimately show ?thesis using advance_then_kept by blast
qed

lemma enqueueCleanup_advance:
  assumes "enqueueCleanup d jid ten pid rid msg l e = Inr d'" "plat_inv d"
  shows "jobs_advance d d'"
proof -
  from assms(1) obtain j d1 where m: "markGenerationJobFailed d jid ten ''enqueue_failed'' msg False (strPtr rid) = Some (j, d1)"
    and r: "releaseInTx (if pid \<noteq> '''' then updateAssetPackStatusForJob d1 pid jid Pack_failed else d1) jid l e = Inr d'"
    by (auto simp: enqueueCleanup_def split: if_splits option.splits)
  show ?thesis
    by (rule cleanup_advance [OF m r])
      (use markGenerationJobFailed_inv [OF m assms(2)] in \<open>auto simp: updateAssetPackStatusForJob_def\<close>)
qed

lemma enqueueRetryCleanup_advance:
  "enqueueRetryCleanup d jid ten pid rid msg l e = Inr d' \<Longrightarrow> plat_inv d \<Longrightarrow> jobs_advance d d'"
  using enqueueCleanup_advance by (simp add: enqueueCleanup_def enqueueRetryCleanup_def)

lemma cancel_advance:
  assumes "cancelJob d ten jid l e = Inr (j, d')" "plat_inv d"
  shows "jobs_advance d d'"
  using assms(1)
proof (cases rule: cancelJob_InrD)
  case 1
  with assms(2) show ?thesis unfolding releaseInTx_def by (intro kept_advance) (rule finalize_kept)
next
  case (2 s d1 p)
  from update_job_SomeD [OF 2(3) [unfolded cancelGenerationJob_def]]
  have "db_jobs d1 = update_where (\<lambda>j. jb_id j = jid \<and> jb_tenant_id j = ten)
      (\<lambda>j. j\<lparr>jb_status := Cancelled, jb_error_code := Some ''cancelled'', jb_error_message := Some (cancelMessage s),
         jb_retryable := Some False, jb_completed_at := Some (db_now d)\<rparr>) (db_jobs d)" by auto
  then have "jobs_advance d d1"
    by (rule related_update)
      (use 2(2) locked_status [OF 2(1) assms(2)] in \<open>auto simp: job_evolves_def intro: job_step.cancel\<close>)
  moreover have "jobs_kept d1 (fail_pack_of d1 jid p)"
    by (rule kept_same) (auto simp: fail_pack_of_def updateAssetPackStatusForJob_def split: option.splits)
  moreover have "jobs_kept (fail_pack_of d1 jid p) d'"
    using 2(4) cancelGenerationJob_inv [OF 2(3) assms(2) 2(1,2)] finalize_kept by (simp add: releaseInTx_def)
  ultimately show ?thesis using advance_then_kept by blast
qed

lemma reserve_kept: "reserve tr d all inp rid hids = Inr (res, d') \<Longrightarrow> jobs_kept d d'"
  using reserve_shape by (intro kept_same) blast

lemma retry_advance:
  assumes "retryTx tr d all ten jid rid hids l e = Inr (j, r, d')" "plat_inv d"
  shows "jobs_advance d d'"
  using assms(1)
proof (rule retryTx_InrD)
  fix row d1 rin res d2
  assume row: "lockGenerationJobRowForUpdate d jid ten None = Some row" "jb_status row = Failed"
    and rel: "releaseInTx d jid l e = Inr d1" and rv: "reserve tr d1 all rin rid hids = Inr (res, d2)"
    and reset: "retryResetGenerationJob d2 jid ten (rr_id res) (rr_estimated res) = Some (j, d')"
  have inv1: "plat_inv d1" by (rule releaseInTx_inv [OF rel assms(2)])
  have k1: "jobs_kept d d1" using rel assms(2) by (simp add: releaseInTx_def finalize_kept)
  have js: "db_jobs d2 = db_jobs d1" using reserve_shape [OF rv] by simp
  have "row \<in> set (db_jobs d)" "jb_id row = jid"
    using row(1) find_SomeD by (fastforce simp: lockGenerationJobRowForUpdate_def)+
  with k1 row(2) obtain row1 where row1: "row1 \<in> set (db_jobs d1)" "jb_id row1 = jid" "jb_status row1 = Failed"
    by (fastforce simp: jobs_related_def job_same_def)
  have failed: "jb_status x = Failed" if "x \<in> set (db_jobs d2)" "jb_id x = jid" for x
    using keyed_unique [of jb_id "db_jobs d1" x row1] that row1 inv1 js by (auto simp: plat_inv_def jobs_inv_def)
  have "jobs_advance d2 d'"
    using reset unfolding retryResetGenerationJob_def
    by (elim update_job_evolve [THEN advance_evolve]) (auto simp: job_evolves_def failed intro: job_step.retry)
  with k1 kept_same [OF js] show ?thesis using kept_then_advance by blast
qed

lemma links_kept:
  "jobs_kept d (setGenerationJobCost d i r a)" "jobs_kept d (setGenerationJobAssetPack d i p)"
  unfolding setGenerationJobCost_def setGenerationJobAssetPack_def
  by (rule related_update, simp, auto simp: job_same_def)+

lemma preflight_advance:
  assumes "preflight tr d all f c = Inr (res, d')"
  shows "jobs_advance d d'"
proof -
  from assms obtain d1 where r: "reserve tr d all (reserve_input_of (fi_job f) c) (fi_reservation f) (fi_hold f) = Inr (res, d1)"
    and c: "d' = setGenerationJobCost d1 (fi_job f) (rr_id res) (rr_estimated res) \<or>
      (\<exists>k m. markGenerationJobFailed (setGenerationJobCost d1 (fi_job f) (rr_id res) (rr_estimated res)) (fi_job f)
        (cp_tenant_id c) (rr_failure_reason res) m False (Some (rr_id res)) = Some (k, d'))"
    by (auto simp: preflight_def Let_def split: sum.splits option.splits if_splits prod.splits)
  from kept_trans [OF reserve_kept [OF r] links_kept(1)] c show ?thesis
    by (auto intro: kept_advance kept_then_advance dest!: markGenerationJobFailed_evolve advance_evolve)
qed

lemma createPack_kept:
  assumes "createPack d f c res = Inr (pid, d')"
  shows "jobs_kept d d'"
proof (cases "\<exists>spec. cp_asset_pack c = Some spec \<and> \<not> failed res")
  case True
  with assms obtain spec d1 where d1: "insertPack d (fi_pack f) (fi_job f) (fi_item f) c spec = Inr d1"
    "d' = setGenerationJobAssetPack d1 (fi_job f) (fi_pack f)"
    by (auto simp: createPack_def split: sum.splits)
  from insertPack_frame [OF d1(1)] have "jobs_kept d d1" by (auto intro: kept_same)
  then show ?thesis unfolding d1(2) by (rule kept_trans) (rule links_kept)
next
  case False
  with assms have "d' = d" by (auto simp: createPack_def split: option.splits)
  then show ?thesis by (auto intro: kept_same)
qed

lemma insertJobRow_kept: "insertJobRow d j = Inr d' \<Longrightarrow> jobs_kept d d'"
  by (auto simp: insertJobRow_def split: sum.splits intro: kept_more)

lemma claimKey_kept: "claimKey d k t key e h j n = Inr (Some d') \<Longrightarrow> jobs_kept d d'"
  using claimKey_frame by (fastforce intro: kept_same)

lemma create_advance:
  assumes "createTx tr d all f c = TxCommitted res pid live d'"
  shows "jobs_advance d d'"
  using assms
proof (rule createTx_committedD)
  fix d1 d2 d3
  let ?c = "priced_params d c"
  assume i: "insertJobRow d (new_job (fi_job f) ?c) = Inr d1" and p: "preflight tr d1 all f ?c = Inr (res, d2)"
    and k: "createPack d2 f ?c res = Inr (pid, d3)"
    and l: "claimKey d3 (fi_idem f) (cp_token_id c) (cp_idempotency_key c) (cp_endpoint c) (cp_request_hash c)
        (fi_job f) (fi_now f) = Inr (Some d')"
  from kept_trans [OF createPack_kept [OF k] claimKey_kept [OF l]] show ?thesis
    using insertJobRow_kept [OF i] preflight_advance [OF p] advance_then_kept kept_then_advance by blast
qed

lemma cache_hit_kept:
  assumes "createCompletedCacheHitJob (\<lambda>x. x) d f c = (r, e, d')"
  shows "jobs_kept d d'"
proof -
  consider "d' = d" | j d1 where "insertJobRow d j = Inr d1"
      "claimKey d1 (fi_idem f) (ch_token_id c) (ch_idempotency_key c) (ch_endpoint c) (ch_request_hash c)
         (fi_job f) (fi_now f) = Inr (Some d')"
    using assms by (auto simp: createCompletedCacheHitJob_def split: if_splits sum.splits option.splits prod.splits)
  then show ?thesis
  proof cases
    case 2
    then show ?thesis using insertJobRow_kept claimKey_kept kept_trans by blast
  qed (simp add: kept_same)
qed

lemma packReuseTx_kept:
  assumes "packReuseTx d f c = Inr d'"
  shows "jobs_kept d d'"
proof -
  from assms obtain j d1 p where s: "insertJobRow d j = Inr d1"
      "insertReusedPackItems (setGenerationJobAssetPack (d1\<lparr>db_packs := p\<rparr>) (fi_job f) (fi_pack f)) (fi_pack f)
         (fi_item f) (pp_reused_items c) = Inr d'"
    unfolding packReuseTx_def insertAssetPack_def by (auto split: sum.splits)
  have a: "jobs_kept d1 (d1\<lparr>db_packs := p\<rparr>)" by (rule kept_same) simp
  have b: "jobs_kept (setGenerationJobAssetPack (d1\<lparr>db_packs := p\<rparr>) (fi_job f) (fi_pack f)) d'"
    using insertReusedPackItems_frame [OF s(2)] by (auto intro: kept_same)
  show ?thesis by (rule kept_trans [OF insertJobRow_kept [OF s(1)] kept_trans [OF a kept_trans [OF links_kept(2) b]]])
qed

lemma pack_reuse_kept:
  assumes "createCompletedPackReuseJob (\<lambda>x. x) d f c = (r, e, d')"
  shows "jobs_kept d d'"
proof -
  consider "d' = d" | d1 where "packReuseTx d f c = Inr d1"
      "claimKey d1 (fi_idem f) (pp_token_id c) (pp_idempotency_key c) (pp_endpoint c) (pp_request_hash c)
         (fi_job f) (fi_now f) = Inr (Some d')"
    using assms by (auto simp: createCompletedPackReuseJob_def split: if_splits sum.splits option.splits prod.splits)
  then show ?thesis
  proof cases
    case 2
    then show ?thesis using packReuseTx_kept claimKey_kept kept_trans by blast
  qed (simp add: kept_same)
qed

lemma pack_item_kept:
  "insertPackItemWithAsset d p item success = Inr d' \<Longrightarrow> jobs_kept d d'"
  "insertPackItemWithAssetSuperseding d p item slot success = Inr d' \<Longrightarrow> jobs_kept d d'"
  by (auto simp: insertPackItemWithAsset_def insertPackItemWithAssetSuperseding_def split: sum.splits prod.splits
      dest!: asset_write_frame(1,4) insertAssetPackItem_frame bookkeep_frame intro!: kept_same)

lemma admin_cost_jobs:
  "createPrice scan show6 au d a i c = Inr (p, ev, d') \<Longrightarrow> db_jobs d' = db_jobs d"
  "updatePrice show_time au d0 d a i u = Inr (p, ev, d') \<Longrightarrow> db_jobs d' = db_jobs d"
  "createBudget tr scan n au d a i cb = Inr (b, ev, d') \<Longrightarrow> db_jobs d' = db_jobs d"
  "updateBudget scan au d0 d a i ub = Inr (b, ev, d') \<Longrightarrow> db_jobs d' = db_jobs d"
  by (auto elim: createPrice_InrD updatePrice_InrD updateBudget_InrD dest: createBudget_InrD(7))

lemma platform_step_advance:
  assumes "platform_step tr d d'" "plat_inv d"
  shows "jobs_advance d d'"
  using assms(1)
proof cases
  case cache_hit
  then show ?thesis by (intro kept_advance) (rule cache_hit_kept)
next
  case pack_reuse
  then show ?thesis by (intro kept_advance) (rule pack_reuse_kept)
next
  case pack_item
  then show ?thesis by (intro kept_advance) (rule pack_item_kept)
next
  case pack_item_superseding
  then show ?thesis by (intro kept_advance) (rule pack_item_kept)
next
  case finalize
  then show ?thesis using assms(2) by (intro kept_advance) (rule finalize_kept)
next
  case reconcile
  then show ?thesis by (intro kept_advance) (rule reconcile_kept)
next
  case attempt
  then show ?thesis by (intro kept_advance kept_same) (rule attempt_writes_jobs)
next
  case cost_event
  then show ?thesis by (intro kept_advance kept_same) (rule attempt_writes_jobs)
next
  case price_created
  then show ?thesis by (intro kept_advance kept_same) (rule admin_cost_jobs)
next
  case price_updated
  then show ?thesis by (intro kept_advance kept_same) (rule admin_cost_jobs)
next
  case budget_created
  then show ?thesis by (intro kept_advance kept_same) (rule admin_cost_jobs)
next
  case budget_updated
  then show ?thesis by (intro kept_advance kept_same) (rule admin_cost_jobs)
next
  case create
  then show ?thesis by (rule create_advance)
next
  case cleanup
  then show ?thesis using assms(2) by (rule enqueueCleanup_advance)
next
  case cancel
  then show ?thesis using assms(2) by (rule cancel_advance)
next
  case retry
  then show ?thesis using assms(2) by (rule retry_advance)
next
  case retry_cleanup
  then show ?thesis using assms(2) by (rule enqueueRetryCleanup_advance)
next
  case claim
  then show ?thesis by (rule marks_advance)
next
  case claim_final
  then show ?thesis by (rule marks_advance)
next
  case preview
  then show ?thesis by (rule preview_advance)
next
  case final
  then show ?thesis by (rule final_advance)
next
  case complete
  then show ?thesis by (rule marks_advance)
next
  case fail
  then show ?thesis by (rule marks_advance)
qed (auto intro!: kept_advance kept_same
      simp: attempt_writes_jobs updateAssetPackStatusForJob_def updateAssetPackCompletenessForJob_def)

section \<open>Counting live jobs\<close>

lemma filter_update_le:
  assumes "\<And>x. Q x \<Longrightarrow> P (f x) \<Longrightarrow> P x"
  shows "length (filter P (update_where Q f xs)) \<le> length (filter P xs)"
  using assms by (induction xs) auto

lemma live_count_update:
  assumes "db_jobs d' = update_where Q f (db_jobs d)"
    and "\<And>j. Q j \<Longrightarrow> jb_requested_by_token_id (f j) = jb_requested_by_token_id j
      \<and> (live_status (jb_status (f j)) \<longrightarrow> live_status (jb_status j))"
  shows "countLiveGenerationJobsByToken d' tok \<le> countLiveGenerationJobsByToken d tok"
  unfolding countLiveGenerationJobsByToken_def assms(1) by (rule filter_update_le) (use assms(2) in auto)

lemma live_count_cong: "db_jobs d' = db_jobs d \<Longrightarrow> countLiveGenerationJobsByToken d' tok = countLiveGenerationJobsByToken d tok"
  by (simp add: countLiveGenerationJobsByToken_def)

lemma links_live_count:
  "countLiveGenerationJobsByToken (setGenerationJobCost d i r a) tok \<le> countLiveGenerationJobsByToken d tok"
  "countLiveGenerationJobsByToken (setGenerationJobAssetPack d i p) tok \<le> countLiveGenerationJobsByToken d tok"
  unfolding setGenerationJobCost_def setGenerationJobAssetPack_def
  by (rule live_count_update, simp, simp)+

lemma failed_live_count:
  assumes "markGenerationJobFailed d i t c m b r = Some (j, d')"
  shows "countLiveGenerationJobsByToken d' tok \<le> countLiveGenerationJobsByToken d tok"
proof -
  from update_job_SomeD [OF assms [unfolded markGenerationJobFailed_def]] obtain Q f where
    "db_jobs d' = update_where Q f (db_jobs d)"
    "\<And>j. jb_requested_by_token_id (f j) = jb_requested_by_token_id j" "\<And>j. jb_status (f j) = Failed"
    by force
  then show ?thesis by (intro live_count_update [of d' Q f d]) auto
qed

lemma preflight_live_count:
  assumes "preflight tr d all f c = Inr (res, d')"
  shows "countLiveGenerationJobsByToken d' tok \<le> countLiveGenerationJobsByToken d tok"
proof -
  from assms obtain d1 where r: "reserve tr d all (reserve_input_of (fi_job f) c) (fi_reservation f) (fi_hold f) = Inr (res, d1)"
    and c: "d' = setGenerationJobCost d1 (fi_job f) (rr_id res) (rr_estimated res) \<or>
      (\<exists>k m. markGenerationJobFailed (setGenerationJobCost d1 (fi_job f) (rr_id res) (rr_estimated res)) (fi_job f)
        (cp_tenant_id c) (rr_failure_reason res) m False (Some (rr_id res)) = Some (k, d'))"
    by (auto simp: preflight_def Let_def split: sum.splits option.splits if_splits prod.splits)
  have "countLiveGenerationJobsByToken d1 tok = countLiveGenerationJobsByToken d tok"
    using reserve_shape [OF r] by (intro live_count_cong) blast
  then have l: "countLiveGenerationJobsByToken (setGenerationJobCost d1 (fi_job f) (rr_id res) (rr_estimated res)) tok
      \<le> countLiveGenerationJobsByToken d tok"
    using links_live_count(1) [of d1 "fi_job f" "rr_id res" "rr_estimated res" tok] by simp
  from c show ?thesis
  proof
    assume "\<exists>k m. markGenerationJobFailed (setGenerationJobCost d1 (fi_job f) (rr_id res) (rr_estimated res)) (fi_job f)
        (cp_tenant_id c) (rr_failure_reason res) m False (Some (rr_id res)) = Some (k, d')"
    then show ?thesis using l failed_live_count order_trans by blast
  qed (use l in simp)
qed

lemma createPack_live_count:
  assumes "createPack d f c res = Inr (pid, d')"
  shows "countLiveGenerationJobsByToken d' tok \<le> countLiveGenerationJobsByToken d tok"
proof (cases "\<exists>spec. cp_asset_pack c = Some spec \<and> \<not> failed res")
  case True
  with assms obtain spec d1 where d1: "insertPack d (fi_pack f) (fi_job f) (fi_item f) c spec = Inr d1"
    "d' = setGenerationJobAssetPack d1 (fi_job f) (fi_pack f)"
    by (auto simp: createPack_def split: sum.splits)
  from insertPack_frame [OF d1(1)] have "countLiveGenerationJobsByToken d1 tok = countLiveGenerationJobsByToken d tok"
    by (auto intro: live_count_cong)
  with links_live_count(2) [of d1 "fi_job f" "fi_pack f" tok] show ?thesis unfolding d1(2) by simp
next
  case False
  with assms show ?thesis by (auto simp: createPack_def split: option.splits)
qed

lemma create_live_count:
  assumes "createTx tr d all f c = TxCommitted res pid live d'"
  shows "countLiveGenerationJobsByToken d' tok \<le> Suc (countLiveGenerationJobsByToken d tok)"
  using assms
proof (rule createTx_committedD)
  fix d1 d2 d3
  let ?c = "priced_params d c"
  assume i: "insertJobRow d (new_job (fi_job f) ?c) = Inr d1" and p: "preflight tr d1 all f ?c = Inr (res, d2)"
    and k: "createPack d2 f ?c res = Inr (pid, d3)"
    and l: "claimKey d3 (fi_idem f) (cp_token_id c) (cp_idempotency_key c) (cp_endpoint c) (cp_request_hash c)
        (fi_job f) (fi_now f) = Inr (Some d')"
  have "countLiveGenerationJobsByToken d1 tok \<le> Suc (countLiveGenerationJobsByToken d tok)"
    using i by (auto simp: insertJobRow_def countLiveGenerationJobsByToken_def split: sum.splits)
  moreover have "countLiveGenerationJobsByToken d' tok = countLiveGenerationJobsByToken d3 tok"
    using claimKey_frame [OF l] by (auto intro: live_count_cong)
  ultimately show ?thesis
    using preflight_live_count [OF p, of tok] createPack_live_count [OF k, of tok] by linarith
qed

section \<open>Idempotency keys\<close>

text \<open>A committed create owns its key until it expires.\<close>

lemma insertIdempotencyKey_owns:
  assumes "insertIdempotencyKey d k = Inr (Some d')"
  shows "find (\<lambda>x. ik_token_id x = ik_token_id k \<and> ik_key x = ik_key k) (db_idem d') = Some k"
proof (cases "find (\<lambda>x. ik_token_id x = ik_token_id k \<and> ik_key x = ik_key k) (db_idem d)")
  case None
  with assms have "db_idem d' = db_idem d @ [k]"
    by (auto simp: insertIdempotencyKey_def split: sum.splits)
  moreover have "find P (xs @ [k]) = Some k" if "find P xs = None" "P k" for P and xs :: "idempotency_key list"
    using that by (induction xs) (auto split: if_splits)
  from this [OF None] have "find (\<lambda>x. ik_token_id x = ik_token_id k \<and> ik_key x = ik_key k) (db_idem d @ [k]) = Some k" by simp
  ultimately show ?thesis by simp
next
  case (Some old)
  with assms have d': "db_idem d' = update_where (\<lambda>x. ik_token_id x = ik_token_id k \<and> ik_key x = ik_key k) (\<lambda>_. k) (db_idem d)"
    by (auto simp: insertIdempotencyKey_def split: if_splits)
  have "find P (update_where P (\<lambda>_. k) xs) = Some k" if "find P xs = Some old" "P k" for P and xs :: "idempotency_key list"
    using that by (induction xs) (auto split: if_splits)
  from this [OF Some] show ?thesis unfolding d' by simp
qed

lemma create_owns_key:
  assumes "createTx tr d all f c = TxCommitted res pid live d1" "cp_idempotency_key c \<noteq> ''''"
    and "db_idem d2 = db_idem d1" "db_now d2 < fi_now f + IdempotencyTTL"
  obtains k where "getIdempotencyKey d2 (cp_token_id c) (cp_idempotency_key c) = Some k" "ik_job_id k = Some (fi_job f)"
    "ik_endpoint k = cp_endpoint c" "ik_request_hash k = cp_request_hash c"
  using assms(1)
proof (rule createTx_committedD)
  fix d0 d2' d3
  assume "claimKey d3 (fi_idem f) (cp_token_id c) (cp_idempotency_key c) (cp_endpoint c) (cp_request_hash c)
      (fi_job f) (fi_now f) = Inr (Some d1)"
  with assms(2) have i: "insertIdempotencyKey d3 \<lparr>ik_id = fi_idem f, ik_token_id = cp_token_id c, ik_key = cp_idempotency_key c,
      ik_endpoint = cp_endpoint c, ik_request_hash = cp_request_hash c, ik_job_id = Some (fi_job f),
      ik_expires_at = fi_now f + IdempotencyTTL\<rparr> = Inr (Some d1)" by (simp add: claimKey_def)
  have "find (\<lambda>k. ik_token_id k = cp_token_id c \<and> ik_key k = cp_idempotency_key c \<and> ik_expires_at k > db_now d2) xs = Some k"
    if "find (\<lambda>k. ik_token_id k = cp_token_id c \<and> ik_key k = cp_idempotency_key c) xs = Some k"
      "ik_expires_at k > db_now d2" for xs k
    using that by (induction xs) (auto split: if_splits)
  from this [OF insertIdempotencyKey_owns [OF i, simplified]] assms(3,4) that show thesis
    by (simp add: getIdempotencyKey_def)
qed

lemma create_inserts_job:
  assumes "createTx tr d all f c = TxCommitted res pid live d'"
  shows "\<exists>j \<in> set (db_jobs d'). jb_id j = fi_job f"
  using assms
proof (rule createTx_committedD)
  fix d1 d2 d3
  let ?c = "priced_params d c"
  assume i: "insertJobRow d (new_job (fi_job f) ?c) = Inr d1" and p: "preflight tr d1 all f ?c = Inr (res, d2)"
    and k: "createPack d2 f ?c res = Inr (pid, d3)"
    and l: "claimKey d3 (fi_idem f) (cp_token_id c) (cp_idempotency_key c) (cp_endpoint c) (cp_request_hash c)
        (fi_job f) (fi_now f) = Inr (Some d')"
  have "new_job (fi_job f) ?c \<in> set (db_jobs d1)" using i by (auto simp: insertJobRow_def split: sum.splits)
  moreover have "jobs_advance d1 d'"
    using preflight_advance [OF p] kept_trans [OF createPack_kept [OF k] claimKey_kept [OF l]] advance_then_kept by blast
  ultimately show ?thesis by (fastforce simp: jobs_related_def job_evolves_def)
qed

section \<open>Cancelling and retrying\<close>

lemma getGenerationJobByID_SomeD:
  "getGenerationJobByID d i t = Some j \<Longrightarrow> j \<in> set (db_jobs d) \<and> jb_id j = i \<and> jb_tenant_id j = t"
  unfolding getGenerationJobByID_def using find_SomeD by fastforce

lemma cancelJob_row:
  assumes "cancelJob d ten jid lid eid = Inr (j, d')" "plat_inv d"
  shows "jb_id j = jid \<and> jb_status j = Cancelled"
proof (cases "lockGenerationJobForUpdate d jid ten = Some Cancelled")
  case True
  with assms(1) have rel: "releaseInTx d jid lid eid = Inr d'" and g: "getGenerationJobByID d' jid ten = Some j"
    by (auto simp: cancelJob_def split: if_splits sum.splits option.splits)
  from True obtain j0 where j0: "j0 \<in> set (db_jobs d)" "jb_id j0 = jid" "jb_status j0 = Cancelled" by (rule locked_row)
  have "jobs_kept d d'" using finalize_kept rel assms(2) by (simp add: releaseInTx_def)
  with j0 obtain j1 where j1: "j1 \<in> set (db_jobs d')" "jb_id j1 = jid" "jb_status j1 = Cancelled"
    by (fastforce simp: jobs_related_def job_same_def)
  from getGenerationJobByID_SomeD [OF g] have j: "j \<in> set (db_jobs d')" "jb_id j = jid" by auto
  have "keyed jb_id (db_jobs d')" using releaseInTx_inv [OF rel assms(2)] by (simp add: plat_inv_def jobs_inv_def)
  with j j1 have "j = j1" using keyed_unique by metis
  with j1 show ?thesis by simp
next
  case False
  with assms(1) show ?thesis
  proof (cases rule: cancelJob_InrD)
    case (2 s d1 p)
    from update_job_SomeD [OF 2(3) [unfolded cancelGenerationJob_def]] show ?thesis by auto
  qed simp
qed

lemma retryTx_effect:
  assumes tx: "retryTx tr d all ten jid rid hids lid eid = Inr (j, r, d')" and inv: "plat_inv d"
  shows "jb_id j = jid \<and> jb_status j = Queued \<and> jb_final_asset_ids j = [] \<and> jb_error_code j = None
    \<and> jb_input_payload j ''preview_finalization_claimed'' = None \<and> jb_cost_reservation_id j = Some r \<and> r = rid
    \<and> map rv_id (filter (\<lambda>x. rv_job_id x = jid \<and> rv_status x = Reserved) (db_reservations d')) = [rid]
    \<and> (\<exists>old \<in> set (db_jobs d). jb_id old = jid \<and> jb_status old = Failed)"
  using tx
proof (rule retryTx_InrD)
  fix row d1 rin res d2
  assume row: "lockGenerationJobRowForUpdate d jid ten None = Some row" "jb_status row = Failed"
    and rel: "releaseInTx d jid lid eid = Inr d1" and rin: "reserveInputFromRow jid ten row = Inr rin"
    and rv: "reserve tr d1 all rin rid hids = Inr (res, d2)" and ok: "\<not> failed res" "r = rr_id res"
    and reset: "retryResetGenerationJob d2 jid ten (rr_id res) (rr_estimated res) = Some (j, d')"
  have old: "row \<in> set (db_jobs d)" "jb_id row = jid"
    using row(1) find_SomeD by (fastforce simp: lockGenerationJobRowForUpdate_def)+
  have clear: "rv_status x \<noteq> Reserved" if "x \<in> set (db_reservations d1)" "rv_job_id x = jid" for x
    using linked_finalize_clears [OF rel [unfolded releaseInTx_def] inv that] .
  from update_job_SomeD [OF reset [unfolded retryResetGenerationJob_def]]
  have j: "jb_id j = jid \<and> jb_status j = Queued \<and> jb_final_asset_ids j = [] \<and> jb_error_code j = None
      \<and> jb_input_payload j ''preview_finalization_claimed'' = None \<and> jb_cost_reservation_id j = Some (rr_id res)"
    and d': "db_reservations d' = db_reservations d2" by auto
  from rv ok(1) have id: "rr_id res = rid" by (cases rule: reserve_cases) auto
  have "filter (\<lambda>x. rv_job_id x = jid \<and> rv_status x = Reserved) (db_reservations d1) = []"
    using clear by (auto simp: filter_empty_conv)
  moreover from rv have "\<exists>x. db_reservations d2 = db_reservations d1 @ [x] \<and> rv_id x = rid \<and> rv_job_id x = jid \<and> rv_status x = Reserved"
  proof (cases rule: reserve_cases)
    case (reserved d3)
    then show ?thesis
      using reserveInput_units [OF rin] holdBudgets_frame [OF reserved(6)] by (auto simp: reserved_row_def)
  qed (use ok in simp)
  ultimately have "map rv_id (filter (\<lambda>x. rv_job_id x = jid \<and> rv_status x = Reserved) (db_reservations d')) = [rid]"
    using d' by auto
  with j id ok(2) old row(2) show ?thesis by blast
qed

end
