(* ===== verification/Worker_Progress.thy ===== *)
theory Worker_Progress
  imports Platform
begin

text \<open>
  That the worker gets there: the effect of the guarded final write, and a run of the one-phase
  path with a provider that answers, which ends with the job completed, its asset stored and
  the event emitted.
\<close>

section \<open>The effect of the final write\<close>

lemma insertFinal_effect:
  assumes "insertFinalAssetAndCompleteJob d jid ten p forced slot success r = Inr (a, oc, d')"
  shows "if oc = PersistPersisted
    then \<exists>x old new. a = Some x \<and> x \<in> set (db_assets d') \<and> va_status x = Ready
      \<and> old \<in> set (db_jobs d) \<and> jb_id old = jid \<and> jb_tenant_id old = ten
      \<and> (jb_status old = Running \<or> jb_status old = Preview_ready) \<and> reservation_matches r old
      \<and> new \<in> set (db_jobs d') \<and> jb_id new = jid \<and> jb_status new = Completed \<and> jb_final_asset_ids new = [va_id x]
    else d' = d"
  using assms
proof (cases rule: insertFinal_cases)
  case (written as a1 k d2 ats es)
  have x: "a1 \<in> set as" "va_status a1 = Ready"
  proof -
    show "a1 \<in> set as"
    proof (cases forced)
      case False
      with written(1) have "insertWithQueries d p = Inr (a1, d\<lparr>db_assets := as\<rparr>)" by simp
      from arg_cong [OF insertWithQueries_InrD(3) [OF this], of db_assets] show ?thesis by simp
    next
      case True
      with written(1) have "supersedeArtifactSlot d p slot = Inr (a1, d\<lparr>db_assets := as\<rparr>)" by simp
      from arg_cong [OF supersedeArtifactSlot_InrD(4) [OF this], of db_assets]
      show ?thesis by (auto simp: archive_prior_def set_update_where image_iff)
    qed
    show "va_status a1 = Ready" using written(1) supersedeArtifactSlot_InrD(2) [of d p slot a1]
      by (auto simp: new_asset_def dest!: insertWithQueries_InrD(1) split: if_splits)
  qed
  from update_job_SomeD [OF written(2) [unfolded markGenerationJobCompleted_def]]
  obtain old where old: "old \<in> set (db_jobs d)" "jb_id old = jid" "jb_tenant_id old = ten"
    "jb_status old = Running \<or> jb_status old = Preview_ready" "reservation_matches r old"
    "k = old\<lparr>jb_status := Completed, jb_final_asset_ids := [va_id a1], jb_completed_at := Some (db_now d)\<rparr>"
    "d2 = d\<lparr>db_assets := as, db_jobs := update_where (\<lambda>j. jb_id j = jid \<and> jb_tenant_id j = ten
          \<and> (jb_status j = Running \<or> jb_status j = Preview_ready) \<and> reservation_matches r j)
       (\<lambda>j. j\<lparr>jb_status := Completed, jb_final_asset_ids := [va_id a1], jb_completed_at := Some (db_now d)\<rparr>) (db_jobs d)\<rparr>"
    by auto
  have "k \<in> set (db_jobs d2)" using old by (simp add: set_update_where image_iff) (use old in blast)
  then have new: "k \<in> set (db_jobs d')" "jb_id k = jid" "jb_status k = Completed" "jb_final_asset_ids k = [va_id a1]"
    using written(3) old(2,6) by simp_all
  have "a1 \<in> set (db_assets d')" using written(3) old(7) x(1) by simp
  with old(1-5) new x(2) written(5,6) show ?thesis by (simp only: if_True refl) blast
qed simp

section \<open>Steps without interference\<close>

lemma run_query: "wd_env w = [] \<Longrightarrow> run_state (query f) w = (f (wd_db w), w)"
  by (simp add: query_def dbcall_def)

lemma run_exec: "wd_env w = [] \<Longrightarrow> run_state (exec f) w = ((), w\<lparr>wd_db := f (wd_db w)\<rparr>)"
  by (simp add: exec_def dbcall_def)

lemma run_tx_Inr: "wd_env w = [] \<Longrightarrow> t (wd_db w) = Inr (a, d) \<Longrightarrow> run_state (tx t) w = (Inr a, w\<lparr>wd_db := d\<rparr>)"
  by (simp add: tx_def dbcall_def)

lemma run_tx_unit_Inr: "wd_env w = [] \<Longrightarrow> t (wd_db w) = Inr d \<Longrightarrow> run_state (tx_unit t) w = (None, w\<lparr>wd_db := d\<rparr>)"
  by (simp add: tx_unit_def dbcall_def)

lemma run_newID: "run_state (newID pt) w = (pt_id pt (wd_fresh w), w\<lparr>wd_fresh := Suc (wd_fresh w)\<rparr>)"
  by (simp add: newID_def)

lemma run_return: "run_state (State_Monad.return a) w = (a, w)"
  by (simp add: State_Monad.return_def)

lemmas run_steps = run_state_bind run_query run_exec run_newID run_return

text \<open>A table the final write can use: the job is running under this reservation, the identifiers are new.\<close>

lemma insertFinal_succeeds:
  assumes "keyed jb_id (db_jobs d)" "k \<in> set (db_jobs d)" "jb_id k = jid" "jb_tenant_id k = ten" "jb_status k = Running"
    and "reservation_matches r k" "ap_id p \<notin> va_id ` set (db_assets d)"
    and "sp_attempt_id sp \<noteq> ''''" "ce_id (sp_cost_event sp) \<notin> ce_id ` set (db_events d)"
  shows "\<exists>a d'. insertFinalAssetAndCompleteJob d jid ten p forced slot (Some sp) r = Inr (Some a, PersistPersisted, d')
    \<and> va_id a = ap_id p"
proof -
  have lock: "lockGenerationJobRowForUpdate d jid ten r = Some k"
    unfolding lockGenerationJobRowForUpdate_def using assms(2-6)
    by (intro find_keyed [OF assms(1)]) auto
  have "\<exists>a d1. (if forced then supersedeArtifactSlot d p slot else insertWithQueries d p) = Inr (a, d1) \<and> va_id a = ap_id p"
    using assms(7) by (cases forced) (simp_all add: supersede_defs insertWithQueries_def insertVisualAsset_def insertAssetRow_def insert_row_def new_asset_def)
  then obtain a d1 where a: "(if forced then supersedeArtifactSlot d p slot else insertWithQueries d p) = Inr (a, d1)" "va_id a = ap_id p" by blast
  moreover have "\<exists>as. d1 = d\<lparr>db_assets := as\<rparr>"
    using a(1) asset_write_frame(1) [of d p a d1] asset_write_frame(3) [of d p slot a d1] by (cases forced) auto
  ultimately obtain as where w: "(if forced then supersedeArtifactSlot d p slot else insertWithQueries d p) = Inr (a, d\<lparr>db_assets := as\<rparr>)" "va_id a = ap_id p"
    by blast
  have upd: "\<exists>j d2. update_job x P f = Some (j, d2) \<and> db_events d2 = db_events x \<and> db_attempts d2 = db_attempts x" if "k \<in> set (db_jobs x)" "P k" for x P f
  proof -
    have "find P (db_jobs x) \<noteq> None" using that by (auto simp: find_None_conv)
    then show ?thesis by (auto simp: update_job_def updating_one_def)
  qed
  have "\<exists>j d2. markGenerationJobCompleted (d\<lparr>db_assets := as\<rparr>) jid ten [va_id a] r = Some (j, d2) \<and> db_events d2 = db_events d \<and> db_attempts d2 = db_attempts d"
    unfolding markGenerationJobCompleted_def using upd [of "d\<lparr>db_assets := as\<rparr>"] assms(2-6) by simp
  then obtain j d2 where m: "markGenerationJobCompleted (d\<lparr>db_assets := as\<rparr>) jid ten [va_id a] r = Some (j, d2)" "db_events d2 = db_events d" by blast
  obtain d3 where b: "bookkeep d2 (Some sp) (va_id a) = Inr d3"
    using assms(8,9) m(2) by (auto simp: bookkeep_def persistSuccessWithQueries_def insertCostEventWithQueries_def insert_row_def
        markProviderAttemptSucceeded_def)
  show ?thesis using lock assms(5) w m(1) b by (simp add: insertFinalAssetAndCompleteJob_def)
qed

section \<open>The one-phase run\<close>

text \<open>
  A job ready to run: queued under the reservation its task names, priced and routed, with no
  attempts beyond the ceiling; and ports that serve it: the provider of its route is
  registered, needs no references and answers with valid images, the upload succeeds, and the
  three identifiers the run draws are new.
\<close>

definition ready_job :: "ports \<Rightarrow> job \<Rightarrow> resolved_route \<Rightarrow> string \<Rightarrow> db \<Rightarrow> bool" where
  "ready_job pt j rt erid d \<longleftrightarrow>
     plat_inv d \<and> j \<in> set (db_jobs d) \<and> jb_status j = Queued \<and> (erid = '''' \<or> jb_cost_reservation_id j = Some erid)
     \<and> jb_tenant_id j \<noteq> '''' \<and> \<not> isPreviewFirst j \<and> resolvedRouteFromPayload (jb_input_payload j) = Some rt
     \<and> maxMegapixelsForWorker pt (jb_input_payload j) \<noteq> None
     \<and> countProviderAttempts d (jb_id j) < billableCallCap pt j"

definition serving :: "ports \<Rightarrow> job \<Rightarrow> resolved_route \<Rightarrow> gen_result \<Rightarrow> world \<Rightarrow> bool" where
  "serving pt j rt res w \<longleftrightarrow>
     pt_adapter pt (rt_provider_id rt) = Some False
     \<and> list_all (\<lambda>r. pt_adapter pt (rt_provider_id r) \<noteq> Some True) (fallbackRoutesFromPayload (jb_input_payload j))
     \<and> pt_generate pt (length (wd_calls w)) (rt_provider_id rt) (single_request pt j [] deliveryRenderEdge) = (res, None)
     \<and> validateProviderImages pt j (rs_images res) = None
     \<and> pt_upload pt (pt_id pt (Suc (wd_fresh w))) (rs_images res) = None
     \<and> pt_id pt (wd_fresh w) \<noteq> '''' \<and> pt_id pt (wd_fresh w) \<notin> at_id ` set (db_attempts (wd_db w))
     \<and> pt_id pt (Suc (wd_fresh w)) \<notin> va_id ` set (db_assets (wd_db w))
     \<and> pt_id pt (Suc (Suc (wd_fresh w))) \<notin> ce_id ` set (db_events (wd_db w))"

lemma ready_found: "ready_job pt j rt erid d \<Longrightarrow> getByID d (jb_id j) = Inr j"
  unfolding getByID_def getGenerationJobByIDUnchecked_def or_not_found_Inr
  by (rule find_keyed [of jb_id]) (auto simp: ready_job_def plat_inv_def jobs_inv_def)

definition running_row :: "job \<Rightarrow> string \<Rightarrow> db \<Rightarrow> bool" where
  "running_row j erid d \<longleftrightarrow> plat_inv d \<and> (\<exists>k \<in> set (db_jobs d). jb_id k = jb_id j \<and> jb_tenant_id k = jb_tenant_id j
     \<and> jb_status k = Running \<and> reservation_matches (strPtr erid) k)"

lemma claim_runs:
  assumes "ready_job pt j rt erid (wd_db w)" "wd_env w = []"
  shows "\<exists>js. run_state (claimQueuedJob j retry erid) w = (Inr True, w\<lparr>wd_db := (wd_db w)\<lparr>db_jobs := js\<rparr>\<rparr>)
    \<and> running_row j erid ((wd_db w)\<lparr>db_jobs := js\<rparr>)"
proof -
  let ?d = "wd_db w"
  let ?P = "\<lambda>x. jb_id x = jb_id j \<and> jb_tenant_id x = jb_tenant_id j \<and> jb_status x = Queued \<and> reservation_matches (strPtr erid) x"
  let ?f = "\<lambda>x. x\<lparr>jb_status := Running, jb_started_at := Some (db_now ?d)\<rparr>"
  let ?js = "update_where ?P ?f (db_jobs ?d)"
  from assms(1) have j: "j \<in> set (db_jobs ?d)" "?P j" and inv: "plat_inv ?d" and keyed: "keyed jb_id (db_jobs ?d)"
    by (auto simp: ready_job_def reservation_matches_def strPtr_def plat_inv_def jobs_inv_def)
  have "find ?P (db_jobs ?d) = Some j" by (rule find_keyed [OF keyed]) (use j in auto)
  then have mark: "markGenerationJobRunning ?d (jb_id j) (jb_tenant_id j) (strPtr erid) = Some (?f j, ?d\<lparr>db_jobs := ?js\<rparr>)"
    by (simp add: markGenerationJobRunning_def update_job_def updating_one_def)
  have inv': "plat_inv (?d\<lparr>db_jobs := ?js\<rparr>)" by (rule markGenerationJobRunning_inv [OF mark inv])
  have mem: "?f j \<in> set (db_jobs (?d\<lparr>db_jobs := ?js\<rparr>))" using j by (auto simp: set_update_where)
  have "jb_id (?f j) = jb_id j \<and> jb_tenant_id (?f j) = jb_tenant_id j \<and> jb_status (?f j) = Running
      \<and> reservation_matches (strPtr erid) (?f j)" using j(2) by (cases "strPtr erid") (simp_all add: reservation_matches_def)
  with inv' mem have "running_row j erid (?d\<lparr>db_jobs := ?js\<rparr>)" unfolding running_row_def by blast
  moreover have "run_state (claimQueuedJob j retry erid) w = (Inr True, w\<lparr>wd_db := ?d\<lparr>db_jobs := ?js\<rparr>\<rparr>)"
    using j(2) mark assms(2) by (simp add: claimQueuedJob_def run_steps run_tx_Inr [of w _ "?f j" "?d\<lparr>db_jobs := ?js\<rparr>"] markRunning_def)
  ultimately show ?thesis by blast
qed

lemma walk_runs:
  assumes "running_row j erid (wd_db w)" "wd_env w = []" "countProviderAttempts (wd_db w) (jb_id j) < billableCallCap pt j"
    and "pt_adapter pt (rt_provider_id rt) = Some b" "pt_id pt (wd_fresh w) \<notin> at_id ` set (db_attempts (wd_db w))"
    and "pt_generate pt (length (wd_calls w)) (rt_provider_id rt) req = (res, None)"
  shows "\<exists>as cs lat. run_state (generateWithFallback pt j rt req n) w
      = (Inr \<lparr>go_result = res, go_route = rt, go_attempt_id = pt_id pt (wd_fresh w), go_latency = lat\<rparr>,
         w\<lparr>wd_db := (wd_db w)\<lparr>db_attempts := as\<rparr>, wd_fresh := Suc (wd_fresh w), wd_calls := cs\<rparr>)
    \<and> running_row j erid ((wd_db w)\<lparr>db_attempts := as\<rparr>)"
proof -
  let ?d = "wd_db w"
  let ?p = "\<lparr>tp_id = pt_id pt (wd_fresh w), tp_generation_job_id = jb_id j, tp_provider_id = rt_provider_id rt,
      tp_model_id = strPtr (rt_model_id rt), tp_provider_route_id = strPtr (rt_route_id rt), tp_attempt_number = n\<rparr>"
  have "jb_id j \<in> jb_id ` set (db_jobs ?d)" using assms(1) by (auto simp: running_row_def intro: rev_image_eqI)
  then obtain as where ins: "insertProviderAttempt ?d ?p = Inr (?d\<lparr>db_attempts := as\<rparr>)"
    using assms(5) by (auto simp: insertProviderAttempt_def insert_row_def)
  let ?d2 = "updateProviderAttemptCost (?d\<lparr>db_attempts := as\<rparr>) (pt_id pt (wd_fresh w)) (rs_actual_cost res)"
  obtain bs where d2: "?d2 = ?d\<lparr>db_attempts := bs\<rparr>" by (simp add: updateProviderAttemptCost_def)
  have "plat_inv ?d2"
    using assms(1) insertProviderAttempt_inv [OF ins] platform.attemptCost_keeps by (simp add: running_row_def)
  with d2 assms(1) have "running_row j erid (?d\<lparr>db_attempts := bs\<rparr>)" by (simp add: running_row_def)
  moreover have "\<exists>lat cs. run_state (generateWithFallback pt j rt req n) w
      = (Inr \<lparr>go_result = res, go_route = rt, go_attempt_id = pt_id pt (wd_fresh w), go_latency = lat\<rparr>,
         w\<lparr>wd_db := ?d2, wd_fresh := Suc (wd_fresh w), wd_calls := cs\<rparr>)"
    using assms(2,3,4,6) ins
    by (simp add: generateWithFallback_def run_steps run_tx_unit_Inr [of _ _ "?d\<lparr>db_attempts := as\<rparr>"] generate_def Let_def)
      (rule exI [of _ "wd_calls w @ [(rt_provider_id rt, req)]"], simp)
  ultimately show ?thesis unfolding d2 by blast
qed

lemma render_runs:
  assumes "running_row j erid (wd_db w)" "wd_env w = []" "countProviderAttempts (wd_db w) (jb_id j) < billableCallCap pt j"
    and "serving pt j rt res w"
  shows "\<exists>as cs out. run_state (renderAndUpload pt j rt (single_request pt j [] deliveryRenderEdge) n f erid) w
      = (Inr (out, pt_id pt (Suc (wd_fresh w))),
         w\<lparr>wd_db := (wd_db w)\<lparr>db_attempts := as\<rparr>, wd_fresh := Suc (Suc (wd_fresh w)), wd_calls := cs\<rparr>)
    \<and> running_row j erid ((wd_db w)\<lparr>db_attempts := as\<rparr>)
    \<and> go_attempt_id out = pt_id pt (wd_fresh w) \<and> go_result out = res"
proof -
  from assms(4) have s: "pt_adapter pt (rt_provider_id rt) = Some False" "pt_id pt (wd_fresh w) \<notin> at_id ` set (db_attempts (wd_db w))"
    "pt_generate pt (length (wd_calls w)) (rt_provider_id rt) (single_request pt j [] deliveryRenderEdge) = (res, None)"
    by (simp_all add: serving_def)
  from walk_runs [OF assms(1-3) s, of n] obtain as cs lat where
    g: "run_state (generateWithFallback pt j rt (single_request pt j [] deliveryRenderEdge) n) w
      = (Inr \<lparr>go_result = res, go_route = rt, go_attempt_id = pt_id pt (wd_fresh w), go_latency = lat\<rparr>,
         w\<lparr>wd_db := (wd_db w)\<lparr>db_attempts := as\<rparr>, wd_fresh := Suc (wd_fresh w), wd_calls := cs\<rparr>)"
    and r: "running_row j erid ((wd_db w)\<lparr>db_attempts := as\<rparr>)" by blast
  have "run_state (renderAndUpload pt j rt (single_request pt j [] deliveryRenderEdge) n f erid) w
      = (Inr (\<lparr>go_result = res, go_route = rt, go_attempt_id = pt_id pt (wd_fresh w), go_latency = lat\<rparr>, pt_id pt (Suc (wd_fresh w))),
         w\<lparr>wd_db := (wd_db w)\<lparr>db_attempts := as\<rparr>, wd_fresh := Suc (Suc (wd_fresh w)), wd_calls := cs\<rparr>)"
    using assms(4) by (simp add: renderAndUpload_def run_steps g serving_def)
  with r show ?thesis by fastforce
qed

text \<open>The tail of the run after the final write: whatever the commit of the books does, the job stays completed.\<close>

lemma single_phase_runs:
  assumes "running_row j erid (wd_db w)" "wd_env w = []" "countProviderAttempts (wd_db w) (jb_id j) < billableCallCap pt j"
    and "serving pt j rt res w" "run_state (processSinglePhase pt j rt n f erid) w = (r, w')"
  shows "settled_job (jb_id j) Completed [pt_id pt (Suc (wd_fresh w))] (wd_db w')
    \<and> \<lparr>we_tenant = jb_tenant_id j, we_event = ''generation_job.completed'', we_job_id = jb_id j,
         we_asset_ids = [pt_id pt (Suc (wd_fresh w))], we_error_code = ''''\<rparr> \<in> set (wd_webhooks w')"
proof -
  let ?aid = "pt_id pt (Suc (wd_fresh w))" and ?eid = "pt_id pt (Suc (Suc (wd_fresh w)))"
  from render_runs [OF assms(1-4), of n f] obtain as cs out w1 where
    g: "run_state (renderAndUpload pt j rt (single_request pt j [] deliveryRenderEdge) n f erid) w = (Inr (out, ?aid), w1)"
    and w1: "w1 = w\<lparr>wd_db := (wd_db w)\<lparr>db_attempts := as\<rparr>, wd_fresh := Suc (Suc (wd_fresh w)), wd_calls := cs\<rparr>"
    and row: "running_row j erid ((wd_db w)\<lparr>db_attempts := as\<rparr>)" and out: "go_attempt_id out = pt_id pt (wd_fresh w)" by blast
  define v where "v = w1\<lparr>wd_fresh := Suc (wd_fresh w1)\<rparr>"
  have v: "run_state (newID pt) w1 = (?eid, v)" "wd_env v = []" "wd_db v = (wd_db w)\<lparr>db_attempts := as\<rparr>"
    using assms(2) by (simp_all add: v_def w1 run_newID)
  let ?d = "(wd_db w)\<lparr>db_attempts := as\<rparr>"
  let ?p = "buildArtifactInsertParams j ?aid (go_result out)" and ?sp = "success_of j out ?aid ?eid ''final_call''"
  from row obtain k where k: "k \<in> set (db_jobs ?d)" "jb_id k = jb_id j" "jb_tenant_id k = jb_tenant_id j"
    "jb_status k = Running" "reservation_matches (strPtr erid) k" and inv: "plat_inv ?d" by (auto simp: running_row_def)
  then have "keyed jb_id (db_jobs ?d)" by (simp add: plat_inv_def jobs_inv_def)
  moreover have "ap_id ?p = ?aid" "sp_attempt_id ?sp = pt_id pt (wd_fresh w)" "ce_id (sp_cost_event ?sp) = ?eid"
    by (simp_all add: buildArtifactInsertParams_def success_of_def worker_event_def out Let_def)
  ultimately obtain a d' where fin: "insertFinalAssetAndCompleteJob ?d (jb_id j) (jb_tenant_id j) ?p
      (payloadBool (jb_input_payload j) ''force_regenerate'') (artifactSlotFor j ?p) (Some ?sp) (strPtr erid) = Inr (Some a, PersistPersisted, d')"
    "va_id a = ?aid"
    using insertFinal_succeeds [of ?d k "jb_id j" "jb_tenant_id j" "strPtr erid" ?p ?sp] k assms(4) by (force simp: serving_def)
  have settled: "plat_inv d' \<and> settled_job (jb_id j) Completed [?aid] d'"
    using insertFinal_effect [OF fin(1)] insertFinal_inv [OF fin(1) inv] fin(2) by (auto simp: settled_job_def terminal_status_def)
  let ?w2 = "v\<lparr>wd_db := d'\<rparr>"
  have persist: "run_state (persistFinal j ?p ?sp erid) v = (Inr (Some a, PersistPersisted), ?w2)"
    unfolding persistFinal_def using v fin(1) by (subst run_tx_Inr [where a = "(Some a, PersistPersisted)" and d = d']) simp_all
  have refs: "run_state (singleImageReferences pt j rt erid) w = (Inr [], w)"
    using assms(4) by (simp add: singleImageReferences_def Let_def serving_def list_ex_iff list_all_iff run_return)
  have tail: "run_state (emit j ''generation_job.completed'' [?aid] '''' \<bind> (\<lambda>_. attachGeneratedIdentityAnchor j [?aid] \<bind> (\<lambda>_. commitReservation pt j))) ?w2 = (r, w')"
    using assms(5) by (simp add: processSinglePhase_def run_state_bind refs g v(1) persist)
  have "settled_job (jb_id j) Completed [?aid] (wd_db w')"
  proof -
    have "stable (\<lambda>d. plat_inv d \<and> settled_job (jb_id j) Completed [?aid] d) ?w2" using settled v(2) by (simp add: stable_def)
    moreover have "keeps (\<lambda>d. plat_inv d \<and> settled_job (jb_id j) Completed [?aid] d)
        (emit j ''generation_job.completed'' [?aid] '''' \<bind> (\<lambda>_. attachGeneratedIdentityAnchor j [?aid] \<bind> (\<lambda>_. commitReservation pt j)))"
      by (intro holds_bind terminal.emit_step terminal.anchor_holds terminal.commitReservation_holds)
    ultimately show ?thesis using holdsD [OF _ tail] by (fastforce simp: stable_def)
  qed
  moreover have "wd_webhooks v' = wd_webhooks v" if "run_state (commitReservation pt j) v = (x, v')" for v x v'
    using that by (auto simp: commitReservation_def run_steps tx_unit_def dbcall_def split: list.splits prod.splits sum.splits)
  ultimately show ?thesis using tail
    by (auto simp: run_steps emit_def attachGeneratedIdentityAnchor_def Let_def split: if_splits prod.splits dest!: meta_spec)
qed

lemma ready_run_delivers:
  assumes "ready_job pt j rt erid (wd_db w)" "wd_env w = []" "serving pt j rt res w"
    and "run_state (process pt (jb_id j) erid retry) w = (r, w')"
  shows "settled_job (jb_id j) Completed [pt_id pt (Suc (wd_fresh w))] (wd_db w')
    \<and> \<lparr>we_tenant = jb_tenant_id j, we_event = ''generation_job.completed'', we_job_id = jb_id j,
         we_asset_ids = [pt_id pt (Suc (wd_fresh w))], we_error_code = ''''\<rparr> \<in> set (wd_webhooks w')"
proof -
  from claim_runs [OF assms(1,2), of retry] obtain js where
    c: "run_state (claimQueuedJob j retry erid) w = (Inr True, w\<lparr>wd_db := (wd_db w)\<lparr>db_jobs := js\<rparr>\<rparr>)"
    and row: "running_row j erid ((wd_db w)\<lparr>db_jobs := js\<rparr>)" by blast
  define v where "v = w\<lparr>wd_db := (wd_db w)\<lparr>db_jobs := js\<rparr>\<rparr>"
  have v: "running_row j erid (wd_db v)" "wd_env v = []" "countProviderAttempts (wd_db v) (jb_id j) < billableCallCap pt j"
    "serving pt j rt res v" "wd_fresh v = wd_fresh w"
    using row assms(1-3) by (simp_all add: v_def ready_job_def serving_def countProviderAttempts_def)
  from assms(1) have j: "\<not> (erid \<noteq> '''' \<and> jb_cost_reservation_id j \<noteq> Some erid)" "jb_status j = Queued" "\<not> isPreviewFirst j"
    "resolvedRouteFromPayload (jb_input_payload j) = Some rt" "maxMegapixelsForWorker pt (jb_input_payload j) \<noteq> None"
    by (auto simp: ready_job_def)
  have "run_state (processSinglePhase pt j rt (int32 (retry + 1)) (int32 (retry + 1) \<ge> int MaxAttempts) erid) v = (r, w')"
    using assms(4) j c
    by (simp add: process_def run_steps run_query [OF assms(2)] ready_found [OF assms(1)] processFound_def Let_def v_def [symmetric])
  from single_phase_runs [OF v(1-4) this] show ?thesis by (simp add: v(5))
qed

end
