(* ===== verification/Variants.thy ===== *)
theory Variants
  imports Assets
begin

text \<open>
  The vocabulary of pack roles: \<open>internal/assets/variants.go\<close> classifies a variant key (family,
  tags, fallback eligibility), \<open>internal/assets/packtemplates.go\<close> names the role sets, and
  \<open>internal/assets/compatibility.go\<close> decides whether one variant may stand in for another.
  The tables are those of the source, row by row; a Go map read at a missing key gives the
  empty string, here \<open>tag\<close>. Scores are rationals.
\<close>

section \<open>Classification\<close>

datatype variant_family =
    FamilyUnknown
  | FamilyNeutral | FamilyWarm | FamilyTense | FamilyStrongEmotion | FamilyOutfit | FamilyState
  | FamilyPortraitCrop | FamilyFullBody
  | FamilyEstablishing | FamilyTimeOfDay | FamilyCrowd | FamilyWeather | FamilyPlaceFraming | FamilyPlaceState

fun family_text :: "variant_family \<Rightarrow> string" where
  "family_text FamilyUnknown = ''unknown''"
| "family_text FamilyNeutral = ''neutral''"
| "family_text FamilyWarm = ''warm''"
| "family_text FamilyTense = ''tense''"
| "family_text FamilyStrongEmotion = ''strong_emotion''"
| "family_text FamilyOutfit = ''outfit''"
| "family_text FamilyState = ''state''"
| "family_text FamilyPortraitCrop = ''portrait_crop''"
| "family_text FamilyFullBody = ''full_body''"
| "family_text FamilyEstablishing = ''establishing''"
| "family_text FamilyTimeOfDay = ''time_of_day''"
| "family_text FamilyCrowd = ''crowd''"
| "family_text FamilyWeather = ''weather''"
| "family_text FamilyPlaceFraming = ''place_framing''"
| "family_text FamilyPlaceState = ''place_state''"

abbreviation EntityCharacter :: string where "EntityCharacter \<equiv> ''character''"
abbreviation EntityPlace :: string where "EntityPlace \<equiv> ''place''"

abbreviation TagGenericPresence :: string where "TagGenericPresence \<equiv> ''generic_presence''"
abbreviation TagPreviewSafe :: string where "TagPreviewSafe \<equiv> ''preview_safe''"
abbreviation TagIdentityAnchorEligible :: string where
  "TagIdentityAnchorEligible \<equiv> ''identity_anchor_eligible''"

abbreviation fallbackRankPrimary :: int where "fallbackRankPrimary \<equiv> 10"
abbreviation fallbackRankSecondary :: int where "fallbackRankSecondary \<equiv> 20"
abbreviation fallbackRankTertiary :: int where "fallbackRankTertiary \<equiv> 30"
abbreviation fallbackRankMild :: int where "fallbackRankMild \<equiv> 40"
abbreviation fallbackRankWeak :: int where "fallbackRankWeak \<equiv> 60"
abbreviation fallbackRankNever :: int where "fallbackRankNever \<equiv> 1000"

record variant_spec =
  sp_family :: variant_family
  sp_tags :: "(string \<times> string) list"
  sp_compatibility_tags :: "string list"
  sp_fallback_allowed :: bool
  sp_fallback_rank :: int

definition spec ::
    "variant_family \<Rightarrow> (string \<times> string) list \<Rightarrow> string list \<Rightarrow> bool \<Rightarrow> int \<Rightarrow> variant_spec" where
  "spec f ts cs b r = \<lparr>sp_family = f, sp_tags = ts, sp_compatibility_tags = cs,
     sp_fallback_allowed = b, sp_fallback_rank = r\<rparr>"

definition strongEmotion :: "string \<Rightarrow> variant_spec" where
  "strongEmotion x = spec FamilyStrongEmotion [(''expression'', x)] [] False fallbackRankNever"

definition outfit :: "string \<Rightarrow> variant_spec" where
  "outfit x = spec FamilyOutfit [(''outfit'', x)] [] False fallbackRankNever"

definition characterState :: "string \<Rightarrow> variant_spec" where
  "characterState x = spec FamilyState [(''state'', x)] [] False fallbackRankNever"

definition strongWeather :: "string \<Rightarrow> variant_spec" where
  "strongWeather x = spec FamilyWeather [(''weather'', x)] [] False fallbackRankNever"

definition placeFraming :: "string \<Rightarrow> variant_spec" where
  "placeFraming x = spec FamilyPlaceFraming [(''framing'', x)] [] False fallbackRankNever"

definition placeState :: "string \<Rightarrow> variant_spec" where
  "placeState x = spec FamilyPlaceState [(''state'', x)] [] False fallbackRankNever"

definition characterVariants :: "(string \<times> variant_spec) list" where
  "characterVariants = [
     (''neutral_front_portrait'', spec FamilyNeutral [(''angle'', ''front''), (''expression'', ''neutral'')]
         [TagGenericPresence, TagPreviewSafe, TagIdentityAnchorEligible] True fallbackRankPrimary),
     (''neutral_front'', spec FamilyNeutral [(''angle'', ''front''), (''expression'', ''neutral'')]
         [TagGenericPresence, TagPreviewSafe, TagIdentityAnchorEligible] True fallbackRankPrimary),
     (''neutral_three_quarter_portrait'', spec FamilyNeutral [(''angle'', ''three_quarter''), (''expression'', ''neutral'')]
         [TagGenericPresence, TagPreviewSafe, TagIdentityAnchorEligible] True fallbackRankSecondary),
     (''neutral_three_quarter'', spec FamilyNeutral [(''angle'', ''three_quarter''), (''expression'', ''neutral'')]
         [TagGenericPresence, TagPreviewSafe, TagIdentityAnchorEligible] True fallbackRankSecondary),
     (''neutral_bust'', spec FamilyNeutral [(''angle'', ''front''), (''framing'', ''bust''), (''expression'', ''neutral'')]
         [TagGenericPresence, TagPreviewSafe] True fallbackRankTertiary),
     (''side_angle_portrait'', spec FamilyNeutral [(''angle'', ''side_profile''), (''expression'', ''neutral'')]
         [TagPreviewSafe] True fallbackRankWeak),
     (''side_profile'', spec FamilyNeutral [(''angle'', ''side_profile''), (''expression'', ''neutral'')]
         [TagPreviewSafe] True fallbackRankWeak),
     (''expression_warm'', spec FamilyWarm [(''expression'', ''warm'')]
         [TagPreviewSafe] True fallbackRankMild),
     (''warm_expression'', spec FamilyWarm [(''expression'', ''warm'')]
         [TagPreviewSafe] True fallbackRankMild),
     (''expression_smiling'', spec FamilyWarm [(''expression'', ''smiling'')]
         [TagPreviewSafe] True fallbackRankMild),
     (''smiling'', spec FamilyWarm [(''expression'', ''smiling'')]
         [TagPreviewSafe] True fallbackRankMild),
     (''warm_or_smiling_expression'', spec FamilyWarm [(''expression'', ''warm'')]
         [TagPreviewSafe] True fallbackRankMild),
     (''expression_serious'', spec FamilyTense [(''expression'', ''serious'')]
         [TagPreviewSafe] True fallbackRankMild),
     (''serious'', spec FamilyTense [(''expression'', ''serious'')]
         [TagPreviewSafe] True fallbackRankMild),
     (''expression_tense'', spec FamilyTense [(''expression'', ''tense'')]
         [TagPreviewSafe] True fallbackRankMild),
     (''tense_expression'', spec FamilyTense [(''expression'', ''tense'')]
         [TagPreviewSafe] True fallbackRankMild),
     (''serious_or_tense_expression'', spec FamilyTense [(''expression'', ''serious'')]
         [TagPreviewSafe] True fallbackRankMild),
     (''expression_angry'', strongEmotion ''angry''),
     (''angry_expression'', strongEmotion ''angry''),
     (''expression_surprised'', strongEmotion ''surprised''),
     (''surprised_expression'', strongEmotion ''surprised''),
     (''angry_or_defensive_expression'', strongEmotion ''angry''),
     (''surprised_or_shocked_expression'', strongEmotion ''surprised''),
     (''expression_sad'', strongEmotion ''sad''),
     (''expression_afraid'', strongEmotion ''afraid''),
     (''expression_terrified'', strongEmotion ''terrified''),
     (''expression_crying'', strongEmotion ''crying''),
     (''expression_romantic'', strongEmotion ''romantic''),
     (''outfit_formal'', outfit ''formal''),
     (''outfit_travel'', outfit ''travel''),
     (''outfit_work'', outfit ''work''),
     (''state_injured'', characterState ''injured''),
     (''state_disguised'', characterState ''disguised''),
     (''battle_damaged'', characterState ''battle_damaged''),
     (''profile_icon'', spec FamilyPortraitCrop [(''framing'', ''icon'')]
         [] False fallbackRankNever),
     (''full_body_reference'', spec FamilyFullBody [(''framing'', ''full_body'')]
         [] False fallbackRankNever)]"

definition placeVariants :: "(string \<times> variant_spec) list" where
  "placeVariants = [
     (''establishing_wide_view'', spec FamilyEstablishing [(''framing'', ''wide'')]
         [TagGenericPresence, TagPreviewSafe] True fallbackRankPrimary),
     (''establishing_wide'', spec FamilyEstablishing [(''framing'', ''wide'')]
         [TagGenericPresence, TagPreviewSafe] True fallbackRankPrimary),
     (''establishing_wide_day'', spec FamilyEstablishing [(''framing'', ''wide''), (''time_of_day'', ''day'')]
         [TagGenericPresence, TagPreviewSafe] True fallbackRankPrimary),
     (''closer_atmospheric_view'', spec FamilyEstablishing [(''framing'', ''close'')]
         [TagPreviewSafe] True fallbackRankMild),
     (''closer_atmospheric'', spec FamilyEstablishing [(''framing'', ''close'')]
         [TagPreviewSafe] True fallbackRankMild),
     (''day_view'', spec FamilyTimeOfDay [(''time_of_day'', ''day'')]
         [TagPreviewSafe] True fallbackRankMild),
     (''night_view'', spec FamilyTimeOfDay [(''time_of_day'', ''night'')]
         [] False fallbackRankNever),
     (''dawn_view'', spec FamilyTimeOfDay [(''time_of_day'', ''dawn'')] [] False fallbackRankNever),
     (''dusk_view'', spec FamilyTimeOfDay [(''time_of_day'', ''dusk'')] [] False fallbackRankNever),
     (''calm_empty_view'', spec FamilyCrowd [(''crowd'', ''empty''), (''mood'', ''calm'')]
         [TagPreviewSafe] True fallbackRankMild),
     (''calm_or_empty_view'', spec FamilyCrowd [(''crowd'', ''empty''), (''mood'', ''calm'')]
         [TagPreviewSafe] True fallbackRankMild),
     (''empty_view'', spec FamilyCrowd [(''crowd'', ''empty''), (''mood'', ''calm'')]
         [TagPreviewSafe] True fallbackRankMild),
     (''busy_active_view'', spec FamilyCrowd [(''crowd'', ''busy''), (''mood'', ''active'')]
         [] False fallbackRankNever),
     (''busy_or_active_view'', spec FamilyCrowd [(''crowd'', ''busy''), (''mood'', ''active'')]
         [] False fallbackRankNever),
     (''active_view'', spec FamilyCrowd [(''crowd'', ''busy''), (''mood'', ''active'')]
         [] False fallbackRankNever),
     (''clear_day_view'', spec FamilyWeather [(''weather'', ''clear''), (''time_of_day'', ''day'')]
         [TagPreviewSafe] True fallbackRankMild),
     (''overcast_view'', spec FamilyWeather [(''weather'', ''overcast'')]
         [TagPreviewSafe] True fallbackRankMild),
     (''weather_rain'', strongWeather ''rain''),
     (''rainy_view'', strongWeather ''rain''),
     (''weather_snow'', strongWeather ''snow''),
     (''weather_storm'', strongWeather ''storm''),
     (''storm_view'', strongWeather ''storm''),
     (''interior_view'', placeFraming ''interior''),
     (''exterior_view'', placeFraming ''exterior''),
     (''landmark_detail'', placeFraming ''landmark_detail''),
     (''state_damaged'', placeState ''damaged''),
     (''state_rebuilt'', placeState ''rebuilt''),
     (''state_occupied'', placeState ''occupied'')]"

record classified_variant =
  cv_key :: string
  cv_entity_type :: string
  cv_family :: variant_family
  cv_tags :: "(string \<times> string) list"
  cv_compatibility_tags :: "string list"
  cv_fallback_allowed :: bool
  cv_fallback_rank :: int

definition tag :: "classified_variant \<Rightarrow> string \<Rightarrow> string" where
  "tag c k = (case map_of (cv_tags c) k of None \<Rightarrow> '''' | Some v \<Rightarrow> v)"

definition tableFor :: "string \<Rightarrow> (string \<times> variant_spec) list" where
  "tableFor e = (if e = EntityCharacter then characterVariants else if e = EntityPlace then placeVariants else [])"

definition classifyVariant :: "string \<Rightarrow> string \<Rightarrow> classified_variant" where
  "classifyVariant e k =
     (case map_of (tableFor e) k of
        Some s \<Rightarrow> \<lparr>cv_key = k, cv_entity_type = e, cv_family = sp_family s, cv_tags = sp_tags s,
           cv_compatibility_tags = sp_compatibility_tags s, cv_fallback_allowed = sp_fallback_allowed s,
           cv_fallback_rank = sp_fallback_rank s\<rparr>
      | None \<Rightarrow> \<lparr>cv_key = k, cv_entity_type = e, cv_family = FamilyUnknown, cv_tags = [],
           cv_compatibility_tags = [], cv_fallback_allowed = False, cv_fallback_rank = fallbackRankNever\<rparr>)"

text \<open>\<open>ApplyTo\<close>; the metadata blob it also sets is not a column of the model.\<close>

definition applyTo :: "classified_variant \<Rightarrow> asset_params \<Rightarrow> asset_params" where
  "applyTo c p = p\<lparr>ap_variant_family := Some (family_text (cv_family c)),
     ap_compatibility_tags := cv_compatibility_tags c, ap_fallback_allowed := cv_fallback_allowed c,
     ap_fallback_rank := Some (cv_fallback_rank c)\<rparr>"

section \<open>Pack templates\<close>

definition characterPackTemplates :: "(string \<times> string list) list" where
  "characterPackTemplates = [
     (''character_minimal_portrait_pack'', [''neutral_front_portrait'',
        ''neutral_three_quarter_portrait'', ''side_angle_portrait'', ''warm_or_smiling_expression'',
        ''serious_or_tense_expression'', ''angry_or_defensive_expression'',
        ''surprised_or_shocked_expression'']),
     (''character_expression_pack'', [''neutral_front_portrait'', ''expression_warm'',
        ''expression_serious'', ''expression_angry'', ''expression_surprised'']),
     (''character_full_reference_pack'', [''neutral_front_portrait'',
        ''neutral_three_quarter_portrait'', ''side_angle_portrait'', ''expression_warm'',
        ''expression_serious'', ''expression_angry'', ''expression_surprised'',
        ''full_body_reference'', ''profile_icon''])]"

definition placePackTemplates :: "(string \<times> string list) list" where
  "placePackTemplates = [
     (''place_minimal_scene_pack'', [''establishing_wide_view'', ''closer_atmospheric_view'',
        ''day_view'', ''night_view'', ''calm_or_empty_view'', ''busy_or_active_view'']),
     (''place_time_of_day_pack'', [''day_view'', ''night_view'', ''dawn_view'', ''dusk_view'']),
     (''place_state_pack'', [''state_damaged'', ''state_rebuilt'', ''state_occupied''])]"

definition packTemplateRoles :: "string \<Rightarrow> string \<Rightarrow> string list option" where
  "packTemplateRoles e t =
     (if e = EntityCharacter then map_of characterPackTemplates t
      else if e = EntityPlace then map_of placePackTemplates t else None)"

section \<open>The compatibility matrix\<close>

datatype outcome =
    OutcomeExactMatch | OutcomeCompatibleMatch | OutcomePreviewFallback | OutcomeInvalidMatch
  | OutcomeGeneratedRequired

type_synonym compatibility_result = "outcome \<times> rat"

abbreviation exact :: compatibility_result where "exact \<equiv> (OutcomeExactMatch, 1)"
abbreviation invalid :: compatibility_result where "invalid \<equiv> (OutcomeInvalidMatch, 0)"
abbreviation compatible :: "rat \<Rightarrow> compatibility_result" where "compatible s \<equiv> (OutcomeCompatibleMatch, s)"
abbreviation preview :: "rat \<Rightarrow> compatibility_result" where "preview s \<equiv> (OutcomePreviewFallback, s)"

definition strictCharacterFamilies :: "variant_family list" where
  "strictCharacterFamilies = [FamilyStrongEmotion, FamilyOutfit, FamilyState, FamilyPortraitCrop, FamilyFullBody]"

definition strictPlaceFamilies :: "variant_family list" where
  "strictPlaceFamilies = [FamilyPlaceFraming, FamilyPlaceState]"

definition strongWeatherValues :: "string list" where
  "strongWeatherValues = [''rain'', ''snow'', ''storm'', ''fog'', ''fire'', ''flood'']"

definition isMildExpression :: "variant_family \<Rightarrow> bool" where
  "isMildExpression f \<longleftrightarrow> f = FamilyWarm \<or> f = FamilyTense"

definition isFrontish :: "string \<Rightarrow> bool" where
  "isFrontish a \<longleftrightarrow> a = ''front'' \<or> a = ''three_quarter'' \<or> a = ''bust''"

definition isTwilight :: "string \<Rightarrow> bool" where
  "isTwilight t \<longleftrightarrow> t = ''dawn'' \<or> t = ''dusk''"

definition characterAngle :: "classified_variant \<Rightarrow> classified_variant \<Rightarrow> compatibility_result" where
  "characterAngle r c =
     (let ra = tag r ''angle''; ca = tag c ''angle''
      in if ra = ca then compatible (9 / 10)
         else if isFrontish ra \<and> isFrontish ca then compatible (85 / 100)
         else if ra = ''side_profile'' \<or> ca = ''side_profile'' then preview (5 / 10)
         else if ra = ''back'' \<or> ca = ''back'' then invalid
         else invalid)"

definition compareCharacter :: "classified_variant \<Rightarrow> classified_variant \<Rightarrow> compatibility_result" where
  "compareCharacter r c =
     (if cv_family r \<in> set strictCharacterFamilies \<or> cv_family c \<in> set strictCharacterFamilies then invalid
      else if cv_family r = cv_family c then
        (if cv_family r = FamilyNeutral then characterAngle r c else compatible (85 / 100))
      else if isMildExpression (cv_family r) \<and> cv_family c = FamilyNeutral then
        (if cv_fallback_allowed c then compatible (65 / 100) else invalid)
      else if cv_family r = FamilyNeutral \<and> isMildExpression (cv_family c) then
        (if cv_fallback_allowed c then compatible (65 / 100) else invalid)
      else invalid)"

definition placeTimeOfDay :: "classified_variant \<Rightarrow> classified_variant \<Rightarrow> compatibility_result" where
  "placeTimeOfDay r c =
     (let rt = tag r ''time_of_day''; ct = tag c ''time_of_day''
      in if rt = ct then compatible (9 / 10)
         else if isTwilight rt \<and> isTwilight ct then compatible (7 / 10)
         else invalid)"

definition placeWeather :: "classified_variant \<Rightarrow> classified_variant \<Rightarrow> compatibility_result" where
  "placeWeather r c =
     (if tag r ''weather'' \<in> set strongWeatherValues then invalid
      else if tag c ''weather'' \<in> set strongWeatherValues then invalid
      else compatible (7 / 10))"

definition placeCrowd :: "classified_variant \<Rightarrow> classified_variant \<Rightarrow> compatibility_result" where
  "placeCrowd r c = (if tag r ''crowd'' = tag c ''crowd'' then compatible (8 / 10) else invalid)"

definition comparePlace :: "classified_variant \<Rightarrow> classified_variant \<Rightarrow> compatibility_result" where
  "comparePlace r c =
     (if cv_family r \<in> set strictPlaceFamilies \<or> cv_family c \<in> set strictPlaceFamilies then invalid
      else if cv_family r = cv_family c then
        (case cv_family r of
           FamilyTimeOfDay \<Rightarrow> placeTimeOfDay r c
         | FamilyWeather \<Rightarrow> placeWeather r c
         | FamilyCrowd \<Rightarrow> placeCrowd r c
         | FamilyEstablishing \<Rightarrow> compatible (8 / 10)
         | _ \<Rightarrow> invalid)
      else if cv_family r = FamilyTimeOfDay \<and> cv_family c = FamilyEstablishing then
        (if cv_fallback_allowed c \<and> tag c ''time_of_day'' = '''' then preview (4 / 10) else invalid)
      else invalid)"

definition compareVariants :: "string \<Rightarrow> classified_variant \<Rightarrow> classified_variant \<Rightarrow> compatibility_result" where
  "compareVariants e r c =
     (if cv_key r = cv_key c then exact
      else if cv_family r = FamilyUnknown \<or> cv_family c = FamilyUnknown then invalid
      else if e = EntityCharacter then compareCharacter r c
      else if e = EntityPlace then comparePlace r c
      else invalid)"

section \<open>What the tables and the matrix promise\<close>

lemmas spec_defs = spec_def strongEmotion_def outfit_def characterState_def strongWeather_def
  placeFraming_def placeState_def

text \<open>One pass over the tables: which families they use, and who may be a fallback.\<close>

definition character_row :: "variant_spec \<Rightarrow> bool" where
  "character_row s \<longleftrightarrow>
     (if sp_fallback_allowed s
      then sp_family s \<in> {FamilyNeutral, FamilyWarm, FamilyTense} \<and> sp_fallback_rank s < fallbackRankNever
      else sp_family s \<in> set strictCharacterFamilies \<and> sp_fallback_rank s = fallbackRankNever)"

definition place_row :: "variant_spec \<Rightarrow> bool" where
  "place_row s \<longleftrightarrow>
     sp_family s \<in> {FamilyEstablishing, FamilyTimeOfDay, FamilyCrowd, FamilyWeather, FamilyPlaceFraming, FamilyPlaceState}
     \<and> (sp_fallback_allowed s \<longrightarrow> sp_family s \<notin> set strictPlaceFamilies \<and> sp_fallback_rank s < fallbackRankNever)
     \<and> (\<not> sp_fallback_allowed s \<longrightarrow> sp_fallback_rank s = fallbackRankNever)"

lemma character_rows: "list_all (\<lambda>(k, s). character_row s) characterVariants"
  by code_simp

lemma place_rows: "list_all (\<lambda>(k, s). place_row s) placeVariants"
  by code_simp

lemma character_rowD: "map_of characterVariants k = Some s \<Longrightarrow> character_row s"
  using character_rows by (auto simp: list_all_iff dest!: map_of_SomeD)

lemma place_rowD: "map_of placeVariants k = Some s \<Longrightarrow> place_row s"
  using place_rows by (auto simp: list_all_iff dest!: map_of_SomeD)

lemma classify_key [simp]: "cv_key (classifyVariant e k) = k" "cv_entity_type (classifyVariant e k) = e"
  by (simp_all add: classifyVariant_def split: option.split)

lemma classify_unknown: "map_of (tableFor e) k = None \<Longrightarrow>
    cv_family (classifyVariant e k) = FamilyUnknown \<and> \<not> cv_fallback_allowed (classifyVariant e k)
    \<and> cv_compatibility_tags (classifyVariant e k) = [] \<and> cv_fallback_rank (classifyVariant e k) = fallbackRankNever"
  by (simp add: classifyVariant_def)

lemma classify_character:
  "cv_family (classifyVariant EntityCharacter k) \<in> {FamilyNeutral, FamilyWarm, FamilyTense} \<longleftrightarrow>
     cv_fallback_allowed (classifyVariant EntityCharacter k)"
  using character_rowD [of k]
  by (auto simp: classifyVariant_def tableFor_def character_row_def strictCharacterFamilies_def split: option.splits if_splits)

text \<open>
  The verdicts. \<open>result_ok\<close> ties outcome and score: 1 only and always for an exact key, 0 only
  and always for an invalid one.
\<close>

fun result_ok :: "compatibility_result \<Rightarrow> bool" where
  "result_ok (oc, s) \<longleftrightarrow>
     (case oc of OutcomeExactMatch \<Rightarrow> s = 1 | OutcomeInvalidMatch \<Rightarrow> s = 0
      | OutcomeCompatibleMatch \<Rightarrow> 6 / 10 < s \<and> s < 1 | OutcomePreviewFallback \<Rightarrow> 0 < s \<and> s < 6 / 10
      | OutcomeGeneratedRequired \<Rightarrow> False)"

lemmas matrix_defs = compareCharacter_def characterAngle_def comparePlace_def placeTimeOfDay_def
  placeWeather_def placeCrowd_def Let_def

lemma compareVariants_ok: "result_ok (compareVariants e r c)"
  by (simp add: compareVariants_def matrix_defs split: variant_family.split)

lemma compareVariants_exact: "fst (compareVariants e r c) = OutcomeExactMatch \<longleftrightarrow> cv_key r = cv_key c"
  by (simp add: compareVariants_def matrix_defs split: variant_family.split)

definition strict_family :: "string \<Rightarrow> variant_family \<Rightarrow> bool" where
  "strict_family e f \<longleftrightarrow> f = FamilyUnknown
     \<or> (if e = EntityCharacter then f \<in> set strictCharacterFamilies
        else if e = EntityPlace then f \<in> set strictPlaceFamilies else True)"

lemma compareVariants_strict:
  assumes "strict_family e (cv_family r) \<or> strict_family e (cv_family c)" "cv_key r \<noteq> cv_key c"
  shows "compareVariants e r c = invalid"
  using assms by (auto simp: compareVariants_def strict_family_def compareCharacter_def comparePlace_def split: if_splits)

lemma characterAngle_symmetric: "characterAngle r c = characterAngle c r"
  unfolding characterAngle_def Let_def
    conj_commute [of "isFrontish (tag c ''angle'')"] disj_commute [of "tag c ''angle'' = x" for x] eq_commute [of "tag c ''angle''" "tag r ''angle''"]
  by (rule refl)

lemma compareCharacter_symmetric:
  assumes "cv_family r \<in> {FamilyNeutral, FamilyWarm, FamilyTense} \<longleftrightarrow> cv_fallback_allowed r"
    and "cv_family c \<in> {FamilyNeutral, FamilyWarm, FamilyTense} \<longleftrightarrow> cv_fallback_allowed c"
  shows "compareCharacter r c = compareCharacter c r"
  using assms characterAngle_symmetric [of r c]
  by (cases "cv_family r"; cases "cv_family c") (simp_all add: compareCharacter_def strictCharacterFamilies_def isMildExpression_def)

lemma template_roles_known:
  assumes "packTemplateRoles e t = Some rs"
  shows "distinct rs \<and> list_all (\<lambda>k. map_of (tableFor e) k \<noteq> None) rs"
proof -
  have "list_all (\<lambda>(t, rs). distinct rs \<and> list_all (\<lambda>k. map_of characterVariants k \<noteq> None) rs) characterPackTemplates"
    by code_simp
  moreover have "list_all (\<lambda>(t, rs). distinct rs \<and> list_all (\<lambda>k. map_of placeVariants k \<noteq> None) rs) placePackTemplates"
    by code_simp
  ultimately show ?thesis
    using assms by (fastforce simp: packTemplateRoles_def tableFor_def list_all_iff dest!: map_of_SomeD split: if_splits)
qed

end
