(* ===== verification/Worker_Pack.thy ===== *)
theory Worker_Pack
  imports Platform Variants "HOL-Library.Sublist"
begin

text \<open>
  The worker of pack jobs, \<open>internal/jobs/worker_pack.go\<close>: one run fans out over the variant keys
  of the job, skips the roles that already have an item, renders the others through the same
  provider walk as a single image, and ends the pack and the job in one pass. The messages of
  failed plans are one text; the time of the whole fan-out is read from the ports.
\<close>

section \<open>The plan\<close>

record pack_plan =
  pp_pack_id :: string
  pp_variant_keys :: "string list"
  pp_world_id :: string
  pp_visual_identity_id :: string
  pp_display_name :: string
  pp_asset_type :: string
  pp_entity_type :: string
  pp_quality_tier :: string
  pp_style_profile_id :: "string option"
  pp_style_profile_version :: "int option"
  pp_force_regenerate :: bool
  pp_variant_prompts :: "string \<Rightarrow> string option"
  pp_aspect_ratio :: string

definition packSupersedeStateVersion :: int where
  "packSupersedeStateVersion = 1"

definition derefStr :: "string option \<Rightarrow> string" where
  "derefStr s = (case s of None \<Rightarrow> '''' | Some x \<Rightarrow> x)"

definition missingRoles :: "string list \<Rightarrow> string list \<Rightarrow> string list" where
  "missingRoles required delivered = filter (\<lambda>r. r \<notin> set delivered) required"

text \<open>The strings of a JSON array, the empty ones and the other kinds left out.\<close>

fun json_strings :: "json list \<Rightarrow> string list" where
  "json_strings [] = []"
| "json_strings (JStr s # js) = (if s \<noteq> '''' then s # json_strings js else json_strings js)"
| "json_strings (_ # js) = json_strings js"

definition variant_prompts :: "payload \<Rightarrow> string \<Rightarrow> string option" where
  "variant_prompts p k =
     (case p ''variant_prompts'' of
        Some (JObj kvs) \<Rightarrow>
          (case obj_payload kvs k of Some (JStr s) \<Rightarrow> (if s \<noteq> '''' then Some s else None) | _ \<Rightarrow> None)
      | _ \<Rightarrow> None)"

definition packPlanFromJob :: "job \<Rightarrow> pack_plan option" where
  "packPlanFromJob j =
     (let p = jb_input_payload j;
          kind = (if jb_job_type j = ''character_pack'' then Some (''character_portrait'', EntityCharacter)
                  else if jb_job_type j = ''place_pack'' then Some (''place_scene'', EntityPlace)
                  else None);
          keys = (case p ''variant_keys'' of Some (JArr js) \<Rightarrow> json_strings js | _ \<Rightarrow> []);
          ident = payloadString p ''visual_identity_id'';
          tier = payloadString p ''quality_tier''
      in if derefStr (jb_asset_pack_id j) = '''' then None
         else
           (case kind of
              None \<Rightarrow> None
            | Some (atype, entity) \<Rightarrow>
                if keys = [] then None
                else if ident = '''' then None
                else Some \<lparr>pp_pack_id = derefStr (jb_asset_pack_id j), pp_variant_keys = keys,
                       pp_world_id = derefStr (jb_world_id j), pp_visual_identity_id = ident,
                       pp_display_name = payloadString p ''display_name'', pp_asset_type = atype,
                       pp_entity_type = entity,
                       pp_quality_tier = (if tier = '''' then ''standard'' else tier),
                       pp_style_profile_id = strPtr (payloadString p ''style_profile_id''),
                       pp_style_profile_version = payloadInt32Ptr p ''style_profile_version'',
                       pp_force_regenerate = payloadBool p ''force_regenerate'',
                       pp_variant_prompts = variant_prompts p,
                       pp_aspect_ratio = payloadString p ''aspect_ratio''\<rparr>))"

section \<open>Pack rows\<close>

definition updatePackStatus :: "string \<Rightarrow> string \<Rightarrow> pack_status \<Rightarrow> unit worker" where
  "updatePackStatus pid jid s = exec (\<lambda>d. updateAssetPackStatusForJob d pid jid s)"

definition updatePackCompleteness :: "string \<Rightarrow> string \<Rightarrow> string list \<Rightarrow> string list \<Rightarrow> unit worker" where
  "updatePackCompleteness pid jid delivered missing =
     exec (\<lambda>d. updateAssetPackCompletenessForJob d pid jid delivered missing)"

text \<open>Rows come in the order of \<open>sort_order\<close>; rows of equal order keep their order of insertion.\<close>

definition listAssetPackItems :: "db \<Rightarrow> string \<Rightarrow> asset_pack_item list" where
  "listAssetPackItems d pid = sort_key pi_sort_order (filter (\<lambda>i. pi_pack_id i = pid) (db_pack_items d))"

definition delivered_map :: "asset_pack_item list \<Rightarrow> string \<Rightarrow> string option" where
  "delivered_map items = map_of (rev (map (\<lambda>i. (pi_variant_key i, pi_asset_id i)) items))"

definition failPackTerminal :: "ports \<Rightarrow> job \<Rightarrow> string \<Rightarrow> string \<Rightarrow> string \<Rightarrow> string \<Rightarrow> (work_error option) worker" where
  "failPackTerminal pt j pid code msg erid = do {
     r \<leftarrow> markJobFailed j code msg False erid;
     case r of
       Inl e \<Rightarrow> State_Monad.return (Some (DbErr e))
     | Inr _ \<Rightarrow> do {
         emit j ''generation_job.failed'' [] code;
         updatePackStatus pid (jb_id j) Pack_failed;
         releaseReservation pt j } }"

definition packAggregateCostEventID :: "job \<Rightarrow> string" where
  "packAggregateCostEventID j =
     ''ce_pack_'' @ jb_id j @ ''_'' @ (if derefStr (jb_cost_reservation_id j) = '''' then ''none'' else derefStr (jb_cost_reservation_id j))"

section \<open>Backgrounds\<close>

definition chromaBackdropInstruction :: string where
  "chromaBackdropInstruction =
     ''The background must be a completely flat, uniform, solid magenta '' @
     ''(hex #FF00FF) chroma-key backdrop: a single even colour with no gradient, '' @
     ''no shading, no texture, no vignette, and no shadows cast onto it. The '' @
     ''subject must not be magenta and must not touch the edges of the frame.''"

definition composeChromaBackdrop :: "string \<Rightarrow> string" where
  "composeChromaBackdrop prompt =
     (if trimSpace prompt = '''' then chromaBackdropInstruction
      else prompt @ [CHR 0x0A, CHR 0x0A] @ chromaBackdropInstruction)"

fun remove_all :: "(image \<Rightarrow> image option) \<Rightarrow> image list \<Rightarrow> image list option" where
  "remove_all f [] = Some []"
| "remove_all f (i # is) =
     (case f i of
        None \<Rightarrow> None
      | Some c \<Rightarrow> (case remove_all f is of None \<Rightarrow> None | Some cs \<Rightarrow> Some (c # cs)))"

definition removeBackgrounds :: "ports \<Rightarrow> image list \<Rightarrow> work_error + image list" where
  "removeBackgrounds pt is =
     (case pt_background pt of
        None \<Rightarrow> Inl BackgroundRemoval
      | Some f \<Rightarrow> (case remove_all f is of None \<Rightarrow> Inl BackgroundRemoval | Some cs \<Rightarrow> Inr cs))"

section \<open>One cell\<close>

definition transparent :: "job \<Rightarrow> bool" where
  "transparent j \<longleftrightarrow> payloadString (jb_input_payload j) ''output_background'' = ''transparent''"

definition pack_subject :: "pack_plan \<Rightarrow> string \<Rightarrow> string" where
  "pack_subject plan key =
     (case pp_variant_prompts plan key of
        Some p \<Rightarrow> if trimSpace p \<noteq> '''' then p
                  else pp_display_name plan @ [CHR 0x20, CHR 0xE2, CHR 0x80, CHR 0x94, CHR 0x20] @ key
      | None \<Rightarrow> pp_display_name plan @ [CHR 0x20, CHR 0xE2, CHR 0x80, CHR 0x94, CHR 0x20] @ key)"

definition pack_request :: "ports \<Rightarrow> job \<Rightarrow> pack_plan \<Rightarrow> string \<Rightarrow> string list \<Rightarrow> gen_request" where
  "pack_request pt j plan key refs =
     (let prompt = composePromptWithStyle (pack_subject plan key) (payloadString (jb_input_payload j) ''style_positive_prompt'')
      in \<lparr>gr_prompt = (if transparent j \<and> pt_chroma_key pt then composeChromaBackdrop prompt else prompt),
          gr_negative_prompt = payloadString (jb_input_payload j) ''style_negative_prompt'',
          gr_width = renderEdgeForMax pt j deliveryRenderEdge, gr_height = renderEdgeForMax pt j deliveryRenderEdge,
          gr_aspect_ratio = pp_aspect_ratio plan, gr_reference_urls = refs\<rparr>)"

definition pack_asset :: "job \<Rightarrow> pack_plan \<Rightarrow> string \<Rightarrow> string \<Rightarrow> gen_result \<Rightarrow> asset_params" where
  "pack_asset j plan key aid result =
     applyTo (classifyVariant (pp_entity_type plan) key)
       \<lparr>ap_id = aid, ap_tenant_id = jb_tenant_id j, ap_world_id = pp_world_id plan,
        ap_visual_identity_id = Some (pp_visual_identity_id plan), ap_asset_type = pp_asset_type plan,
        ap_variant_key = key, ap_variant_family = None, ap_compatibility_tags = [], ap_fallback_allowed = False,
        ap_fallback_rank = None, ap_style_profile_id = pp_style_profile_id plan,
        ap_style_profile_version = pp_style_profile_version plan, ap_quality_tier = pp_quality_tier plan,
        ap_prompt_hash = strPtr (rs_prompt_hash result), ap_generation_job_id = Some (jb_id j), ap_version = 0\<rparr>"

definition pack_slot :: "job \<Rightarrow> pack_plan \<Rightarrow> string \<Rightarrow> variant_slot" where
  "pack_slot j plan key =
     \<lparr>vs_tenant_id = jb_tenant_id j, vs_world_id = pp_world_id plan,
      vs_visual_identity_id = pp_visual_identity_id plan, vs_variant_key = key,
      vs_state_version = packSupersedeStateVersion, vs_style_profile_id = derefStr (pp_style_profile_id plan),
      vs_quality_tier = pp_quality_tier plan\<rparr>"

definition persistPackItem ::
    "job \<Rightarrow> pack_plan \<Rightarrow> string \<Rightarrow> asset_params \<Rightarrow> asset_pack_item \<Rightarrow> persist_success \<Rightarrow> (error option) worker" where
  "persistPackItem j plan key p item success =
     tx_unit (\<lambda>d. if pp_force_regenerate plan
        then insertPackItemWithAssetSuperseding d p item (pack_slot j plan key) (Some success)
        else insertPackItemWithAsset d p item (Some success))"

definition pack_success :: "job \<Rightarrow> string \<Rightarrow> gen_out \<Rightarrow> string \<Rightarrow> string \<Rightarrow> persist_success" where
  "pack_success j key out aid eid =
     \<lparr>sp_attempt_id = go_attempt_id out, sp_latency_ms = int32 (go_latency out),
      sp_cost_event = worker_event eid j (Some aid) (rt_provider_id (go_route out)) (rt_model_id (go_route out))
        (Some (go_attempt_id out)) (reportedProviderCostPtr (go_result out)) (int32 (go_latency out))
        ''completed'' ((billableMetadata ''pack_cell'')(''variant_key'' \<mapsto> JStr key))\<rparr>"

definition recordCellFailure :: "ports \<Rightarrow> job \<Rightarrow> gen_out \<Rightarrow> work_error \<Rightarrow> int \<Rightarrow> unit worker" where
  "recordCellFailure pt j out e latency =
     recordAttemptFailureWithCost pt j (go_attempt_id out) (rt_provider_id (go_route out)) (rt_model_id (go_route out))
       e latency (reportedProviderCostPtr (go_result out))"

definition generatePackItem ::
    "ports \<Rightarrow> job \<Rightarrow> pack_plan \<Rightarrow> resolved_route \<Rightarrow> string \<Rightarrow> nat \<Rightarrow> string list \<Rightarrow> (work_error + string) worker" where
  "generatePackItem pt j plan resolved key index refs = do {
     g \<leftarrow> generateWithFallback pt j resolved (pack_request pt j plan key refs) (int32 (int index + 1));
     case g of
       Inl e \<Rightarrow> State_Monad.return (Inl e)
     | Inr out \<Rightarrow>
         (case validateProviderImages pt j (rs_images (go_result out)) of
            Some se \<Rightarrow> do {
              recordCellFailure pt j out se (go_latency out);
              State_Monad.return (Inl se) }
          | None \<Rightarrow>
              (case (if transparent j then removeBackgrounds pt (rs_images (go_result out))
                     else Inr (rs_images (go_result out))) of
                 Inl re \<Rightarrow> do {
                   recordCellFailure pt j out re (go_latency out);
                   State_Monad.return (Inl re) }
               | Inr images \<Rightarrow> do {
                   aid \<leftarrow> newID pt;
                   (case pt_upload pt aid images of
                      Some ue \<Rightarrow> do {
                        recordCellFailure pt j out StorageFailure (go_latency out);
                        State_Monad.return (Inl ue) }
                    | None \<Rightarrow> do {
                        iid \<leftarrow> newID pt;
                        eid \<leftarrow> newID pt;
                        r \<leftarrow> persistPackItem j plan key (pack_asset j plan key aid (go_result out))
                               \<lparr>pi_id = iid, pi_pack_id = pp_pack_id plan, pi_asset_id = aid, pi_variant_key = key,
                                pi_sort_order = int32 (int index)\<rparr>
                               (pack_success j key out aid eid);
                        case r of
                          None \<Rightarrow> State_Monad.return (Inr aid)
                        | Some e \<Rightarrow>
                            if e = errPackJobNotActive
                            then do {
                              recordDiscardedProviderSuccess pt j (go_attempt_id out) (go_route out)
                                (int32 (go_latency out)) (go_result out) ''pack_cell'';
                              State_Monad.return (Inl PackJobNotActive) }
                            else do {
                              recordCellFailure pt j out (PersistenceErr e) (int32 (go_latency out));
                              State_Monad.return (Inl (DbErr e)) } }) })) }"

section \<open>The fan-out\<close>

record pack_tally =
  ta_succeeded :: "string list"
  ta_delivered :: "string list"
  ta_failed :: nat

text \<open>\<open>keys\<close> are the roles from position \<open>i\<close> on; \<open>Inl\<close> is a return from inside the loop.\<close>

fun packLoop ::
    "ports \<Rightarrow> job \<Rightarrow> pack_plan \<Rightarrow> resolved_route \<Rightarrow> string list \<Rightarrow> string \<Rightarrow> (string \<Rightarrow> string option)
     \<Rightarrow> nat \<Rightarrow> string list \<Rightarrow> pack_tally \<Rightarrow> (work_error option + pack_tally) worker" where
  "packLoop pt j plan resolved refs erid delivered i [] t = State_Monad.return (Inr t)"
| "packLoop pt j plan resolved refs erid delivered i (key # keys) t =
     (case delivered key of
        Some aid \<Rightarrow> packLoop pt j plan resolved refs erid delivered (Suc i) keys
                     (t\<lparr>ta_succeeded := ta_succeeded t @ [aid], ta_delivered := ta_delivered t @ [key]\<rparr>)
      | None \<Rightarrow> do {
          r \<leftarrow> generatePackItem pt j plan resolved key i refs;
          case r of
            Inr aid \<Rightarrow> packLoop pt j plan resolved refs erid delivered (Suc i) keys
                     (t\<lparr>ta_succeeded := ta_succeeded t @ [aid], ta_delivered := ta_delivered t @ [key]\<rparr>)
          | Inl e \<Rightarrow>
              if e = PackJobNotActive
              then do { c \<leftarrow> finishCancelled pt j; State_Monad.return (Inl c) }
              else if e = ProviderErr ErrContentPolicyRejected
              then do {
                updatePackCompleteness (pp_pack_id plan) (jb_id j) (ta_delivered t)
                  (missingRoles (pp_variant_keys plan) (ta_delivered t));
                c \<leftarrow> failPackTerminal pt j (pp_pack_id plan) ''provider_content_rejected'' ''provider_content_rejected'' erid;
                State_Monad.return (Inl c) }
              else if e = BillableCapReached
              then do {
                updatePackCompleteness (pp_pack_id plan) (jb_id j) (ta_delivered t)
                  (missingRoles (pp_variant_keys plan) (ta_delivered t));
                c \<leftarrow> failPackTerminal pt j (pp_pack_id plan) (errorCodeFor e) (errorCodeFor e) erid;
                State_Monad.return (Inl c) }
              else packLoop pt j plan resolved refs erid delivered (Suc i) keys
                     (t\<lparr>ta_failed := Suc (ta_failed t)\<rparr>) })"

text \<open>The time the fan-out took, another answer of the run's clock.\<close>

definition elapsed :: "ports \<Rightarrow> int worker" where
  "elapsed pt = State (\<lambda>w. (pt_latency pt (length (wd_calls w)), w))"

text \<open>After the loop: completeness, the aggregate event, and the terminal rule.\<close>

definition finishPack ::
    "ports \<Rightarrow> job \<Rightarrow> pack_plan \<Rightarrow> resolved_route \<Rightarrow> string \<Rightarrow> pack_tally \<Rightarrow> (work_error option) worker" where
  "finishPack pt j plan resolved erid t = do {
     updatePackCompleteness (pp_pack_id plan) (jb_id j) (ta_delivered t) (missingRoles (pp_variant_keys plan) (ta_delivered t));
     latency \<leftarrow> elapsed pt;
     _ \<leftarrow> tx_unit (\<lambda>d. insertCostEventWithQueries d (worker_event (packAggregateCostEventID j) j None
            (rt_provider_id resolved) (rt_model_id resolved) None None (int32 latency)
            (if ta_succeeded t = [] then ''failed'' else ''completed'') (billableMetadata ''pack'')));
     if ta_succeeded t = []
     then do {
       updatePackStatus (pp_pack_id plan) (jb_id j) Pack_failed;
       r \<leftarrow> markJobFailed j ''pack_all_items_failed'' ''all pack items failed to generate'' False erid;
       case r of
         Inl e \<Rightarrow> State_Monad.return (Some (DbErr e))
       | Inr _ \<Rightarrow> do {
           emit j ''generation_job.failed'' [] ''pack_all_items_failed'';
           releaseReservation pt j } }
     else do {
       updatePackStatus (pp_pack_id plan) (jb_id j) (if ta_failed t > 0 then Completed_with_warnings else Pack_completed);
       r \<leftarrow> markJobCompleted j (ta_succeeded t) erid;
       case r of
         Inl e \<Rightarrow> State_Monad.return (Some (DbErr e))
       | Inr _ \<Rightarrow> do {
           emit j ''generation_job.completed'' (ta_succeeded t) '''';
           commitReservation pt j } } }"

text \<open>The references of the identity, gathered when any route of the chain needs them.\<close>

definition packReferences :: "ports \<Rightarrow> job \<Rightarrow> pack_plan \<Rightarrow> resolved_route \<Rightarrow> string \<Rightarrow> (work_error option + string list) worker" where
  "packReferences pt j plan resolved erid =
     (if \<not> list_ex (\<lambda>r. pt_adapter pt (rt_provider_id r) = Some True)
            (resolved # fallbackRoutesFromPayload (jb_input_payload j))
      then State_Monad.return (Inr [])
      else
        (case pt_refs pt (pp_visual_identity_id plan) (jb_tenant_id j) of
           Inl bad \<Rightarrow> do {
             c \<leftarrow> failPackTerminal pt j (pp_pack_id plan)
                    (if bad then ''invalid_reference_asset'' else ''missing_reference_assets'')
                    ''reference assets could not be gathered'' erid;
             State_Monad.return (Inl c) }
         | Inr refs \<Rightarrow>
             if refs = [] then do {
               c \<leftarrow> failPackTerminal pt j (pp_pack_id plan) ''missing_reference_assets''
                      ''visual identity has no reference assets'' erid;
               State_Monad.return (Inl c) }
             else State_Monad.return (Inr refs)))"

definition runPack :: "ports \<Rightarrow> job \<Rightarrow> pack_plan \<Rightarrow> resolved_route \<Rightarrow> string \<Rightarrow> (work_error option) worker" where
  "runPack pt j plan resolved erid = do {
     rf \<leftarrow> packReferences pt j plan resolved erid;
     case rf of
       Inl e \<Rightarrow> State_Monad.return e
     | Inr refs \<Rightarrow> do {
         updatePackStatus (pp_pack_id plan) (jb_id j) In_progress;
         existing \<leftarrow> query (\<lambda>d. listAssetPackItems d (pp_pack_id plan));
         l \<leftarrow> packLoop pt j plan resolved refs erid (delivered_map existing) 0 (pp_variant_keys plan)
                \<lparr>ta_succeeded = [], ta_delivered = [], ta_failed = 0\<rparr>;
         case l of
           Inl e \<Rightarrow> State_Monad.return e
         | Inr t \<Rightarrow> finishPack pt j plan resolved erid t } }"

definition processPackFound :: "ports \<Rightarrow> job \<Rightarrow> string \<Rightarrow> int \<Rightarrow> (work_error option) worker" where
  "processPackFound pt j erid retry =
     (if erid \<noteq> '''' \<and> jb_cost_reservation_id j \<noteq> Some erid then State_Monad.return None
      else if jb_status j = Completed then commitReservation pt j
      else if jb_status j = Failed then do {
        (if derefStr (jb_asset_pack_id j) \<noteq> ''''
         then updatePackStatus (derefStr (jb_asset_pack_id j)) (jb_id j) Pack_failed
         else State_Monad.return ());
        releaseReservation pt j }
      else if jb_status j = Cancelled then releaseReservation pt j
      else do {
        c \<leftarrow> claimQueuedJob j retry erid;
        case c of
          Inl e \<Rightarrow> State_Monad.return (Some e)
        | Inr claimed \<Rightarrow>
            if \<not> claimed then State_Monad.return None
            else
              (case packPlanFromJob j of
                 None \<Rightarrow> failTerminal pt j ''pack_invalid_job'' ''invalid pack job'' erid
               | Some plan \<Rightarrow>
                   if maxMegapixelsForWorker pt (jb_input_payload j) = None
                   then failPackTerminal pt j (pp_pack_id plan) ''max_megapixels_exceeded'' ''max_megapixels_exceeded'' erid
                   else
                     (case resolvedRouteFromPayload (jb_input_payload j) of
                        None \<Rightarrow> failPackTerminal pt j (pp_pack_id plan) ''invalid_resolved_route''
                                 ''job payload missing resolved provider_id/model_id'' erid
                      | Some resolved \<Rightarrow> runPack pt j plan resolved erid)) })"

definition processPack :: "ports \<Rightarrow> string \<Rightarrow> string \<Rightarrow> int \<Rightarrow> (work_error option) worker" where
  "processPack pt jid erid retry = do {
     found \<leftarrow> query (\<lambda>d. getByID d jid);
     case found of
       Inl e \<Rightarrow> State_Monad.return (Some (DbErr e))
     | Inr j \<Rightarrow> processPackFound pt j erid retry }"

section \<open>What a pack run keeps\<close>

text \<open>
  The steps a pack run adds to those of a single-image run; again every function of the pack
  worker keeps what these steps keep.
\<close>

locale pack_steps = worker_steps +
  assumes complete_step: "\<And>i t fs r. holds J (tx (\<lambda>d. markCompleted d i t fs r))"
    and item_step: "\<And>b p item slot sp. holds J (tx_unit (\<lambda>d. if b then insertPackItemWithAssetSuperseding d p item slot sp
          else insertPackItemWithAsset d p item sp))"
    and status_step: "\<And>pid i s. holds J (exec (\<lambda>d. updateAssetPackStatusForJob d pid i s))"
    and completeness_step: "\<And>pid i xs ys. holds J (exec (\<lambda>d. updateAssetPackCompletenessForJob d pid i xs ys))"
    and items_step: "\<And>pid. holds J (query (\<lambda>d. listAssetPackItems d pid))"
begin

lemma packRows_holds [holds_intro]:
  "holds J (updatePackStatus pid i s)" "holds J (updatePackCompleteness pid i xs ys)"
  unfolding updatePackStatus_def updatePackCompleteness_def by (rule status_step completeness_step)+

lemma failPack_holds [holds_intro]: "holds J (failPackTerminal pt j pid c m e)"
  unfolding failPackTerminal_def by (intro holds_intro emit_step)

lemma cellFailure_holds [holds_intro]: "holds J (recordCellFailure pt j out e l)"
  unfolding recordCellFailure_def by (intro holds_intro)

lemma persistItem_holds [holds_intro]: "holds J (persistPackItem j plan k p item sp)"
  unfolding persistPackItem_def by (rule item_step)

lemma packItem_holds [holds_intro]: "holds J (generatePackItem pt j plan r k i refs)"
  unfolding generatePackItem_def by (intro holds_intro newID_step)

lemma packLoop_holds [holds_intro]: "holds J (packLoop pt j plan r refs e dl i ks t)"
proof (induction ks arbitrary: i t)
  case Nil
  show ?case by (simp add: holds_intro)
next
  case (Cons k ks)
  show ?case unfolding packLoop.simps by (intro holds_intro Cons.IH)
qed

lemma elapsed_holds [holds_intro]: "holds J (elapsed pt)"
  by (simp add: holds_def elapsed_def)

lemma finishPack_holds [holds_intro]: "holds J (finishPack pt j plan r e t)"
  unfolding finishPack_def markJobCompleted_def by (intro holds_intro insertCostEvent_step complete_step emit_step)

lemma packReferences_holds [holds_intro]: "holds J (packReferences pt j plan r e)"
  unfolding packReferences_def by (intro holds_intro)

lemma runPack_holds [holds_intro]: "holds J (runPack pt j plan r e)"
  unfolding runPack_def by (intro holds_intro items_step)

lemma processPackFound_holds [holds_intro]: "holds J (processPackFound pt j e n)"
  unfolding processPackFound_def by (intro holds_intro)

end

locale pack_rely = worker_rely +
  assumes complete_keeps: "\<And>d i t fs r j d'. markCompleted d i t fs r = Inr (j, d') \<Longrightarrow> I d \<Longrightarrow> I d'"
    and item_keeps: "\<And>d p item sp d'. insertPackItemWithAsset d p item sp = Inr d' \<Longrightarrow> I d \<Longrightarrow> I d'"
    and item_superseding_keeps: "\<And>d p item vs sp d'. insertPackItemWithAssetSuperseding d p item vs sp = Inr d' \<Longrightarrow> I d \<Longrightarrow> I d'"
    and status_keeps: "\<And>d pid i s. I d \<Longrightarrow> I (updateAssetPackStatusForJob d pid i s)"
    and completeness_keeps: "\<And>d pid i xs ys. I d \<Longrightarrow> I (updateAssetPackCompletenessForJob d pid i xs ys)"

sublocale pack_rely \<subseteq> pack_steps "stable I" pt j for pt j
  by (unfold_locales;
    (rule keeps_query
     | (rule keeps_tx keeps_tx_unit keeps_exec,
        auto split: sum.splits if_splits intro: complete_keeps item_keeps item_superseding_keeps status_keeps completeness_keeps)))

context pack_rely
begin

lemma processPack_keeps: "keeps I (processPack pt jid erid n)"
  unfolding processPack_def by (intro holds_intro keeps_query)

end

interpretation pack_run: pack_rely "reachable tr" for tr
  by (unfold_locales; blast intro: reachable_step platform_step.complete platform_step.pack_item
      platform_step.pack_item_superseding platform_step.pack_status platform_step.pack_completeness)

lemma pack_rows_frame:
  "db_jobs (updateAssetPackStatusForJob d pid i s) = db_jobs d"
  "db_jobs (updateAssetPackCompletenessForJob d pid i xs ys) = db_jobs d"
  "attempt_jobs (updateAssetPackStatusForJob d pid i s) = attempt_jobs d"
  "attempt_jobs (updateAssetPackCompletenessForJob d pid i xs ys) = attempt_jobs d"
  by (simp_all add: updateAssetPackStatusForJob_def updateAssetPackCompletenessForJob_def)

lemma pack_item_jobs:
  "insertPackItemWithAsset d p item sp = Inr d' \<Longrightarrow> db_jobs d' = db_jobs d \<and> attempt_jobs d' = attempt_jobs d"
  "insertPackItemWithAssetSuperseding d p item vs sp = Inr d' \<Longrightarrow> db_jobs d' = db_jobs d \<and> attempt_jobs d' = attempt_jobs d"
  by (auto simp: insertPackItemWithAsset_def insertPackItemWithAssetSuperseding_def split: sum.splits prod.splits
      dest!: asset_write_frame(1,4) insertAssetPackItem_frame bookkeep_frame)

interpretation pack_terminal: pack_rely "\<lambda>d. plat_inv d \<and> settled_job i s fs d" for i s fs
  by (unfold_locales; auto simp: markCompleted_def settled_frame [OF pack_rows_frame(1)] settled_frame [OF pack_rows_frame(2)]
      dest: settled_frame [OF conjunct1 [OF pack_item_jobs(1)]] settled_frame [OF conjunct1 [OF pack_item_jobs(2)]]
      intro: settled_marks(4) markGenerationJobCompleted_inv insertPackItem_inv insertPackItemSuperseding_inv)

interpretation pack_billing: pack_steps "capped n0 base pt j" pt j for n0 base pt j
  by (unfold_locales;
    (rule capped_query
     | (rule capped_tx capped_tx_unit capped_exec,
        auto simp: markCompleted_def pack_rows_frame split: if_splits
          dest: mark_attempts pack_item_jobs
          intro: markGenerationJobCompleted_inv insertPackItem_inv insertPackItemSuperseding_inv)))

lemma capped_processPack:
  assumes "getByID (wd_db w) jid = Inr j" "capped n0 base pt j w"
    and "run_state (processPack pt jid erid n) w = (x, w')"
  shows "capped n0 base pt j w'"
proof -
  have "run_state (query (\<lambda>d. getByID d jid)) w = (Inr j, w)"
    using assms by (simp add: query_def dbcall_def capped_def)
  with assms(3) have "run_state (processPackFound pt j erid n) w = (x, w')"
    by (simp add: processPack_def run_state_bind)
  then show ?thesis by (rule holdsD [OF pack_billing.processPackFound_holds]) (rule assms(2))
qed

text \<open>Every role of a fan-out ends delivered or failed.\<close>

lemma packLoop_tally:
  assumes "run_state (packLoop pt j plan resolved refs erid delivered i keys t) w = (Inr t', w')"
  shows "\<exists>ds. ta_delivered t' = ta_delivered t @ ds \<and> subseq ds keys
    \<and> length (ta_succeeded t') = length (ta_succeeded t) + length ds \<and> ta_failed t' + length ds = ta_failed t + length keys"
  using assms
proof (induction keys arbitrary: i t w)
  case (Cons k ks)
  have delivered: ?case
    if "run_state (packLoop pt j plan resolved refs erid delivered (Suc i) ks
        (t\<lparr>ta_succeeded := ta_succeeded t @ [a], ta_delivered := ta_delivered t @ [k]\<rparr>)) v = (Inr t', w')" for a v
  proof -
    from Cons.IH [OF that] obtain ds where "ta_delivered t' = ta_delivered t @ k # ds" "subseq ds ks"
      "length (ta_succeeded t') = length (ta_succeeded t) + length (k # ds)"
      "ta_failed t' + length (k # ds) = ta_failed t + length (k # ks)" by auto
    then show ?thesis by (intro exI [of _ "k # ds"]) simp
  qed
  show ?case
  proof (cases "delivered k")
    case (Some a)
    with Cons.prems delivered show ?thesis by simp
  next
    case None
    obtain g v where g: "run_state (generatePackItem pt j plan resolved k i refs) w = (g, v)" by (cases "run_state (generatePackItem pt j plan resolved k i refs) w")
    show ?thesis
    proof (cases g)
      case (Inr a)
      with Cons.prems None g delivered show ?thesis by (simp add: run_state_bind)
    next
      case (Inl e)
      with Cons.prems None g have "run_state (packLoop pt j plan resolved refs erid delivered (Suc i) ks
          (t\<lparr>ta_failed := Suc (ta_failed t)\<rparr>)) v = (Inr t', w')"
        by (auto simp: run_state_bind split: if_splits prod.splits)
      from Cons.IH [OF this] show ?thesis by (auto intro: list_emb_Cons)
    qed
  qed
qed auto

section \<open>A fan-out that ends after a cancel\<close>

lemma cost_event_frame:
  assumes "run_state (tx_unit (\<lambda>d. insertCostEventWithQueries d e)) w = (x, v)" "wd_env w = []"
  shows "wd_env v = [] \<and> db_jobs (wd_db v) = db_jobs (wd_db w) \<and> db_packs (wd_db v) = db_packs (wd_db w)"
  using assms by (auto simp: tx_unit_def dbcall_def insertCostEventWithQueries_def split: sum.splits)

lemma finishPack_after_cancel:
  assumes "plat_inv (wd_db w)" "wd_env w = []" "k \<in> set (db_jobs (wd_db w))" "jb_id k = jb_id j" "jb_status k = Cancelled"
    and "p \<in> set (db_packs (wd_db w))" "pk_id p = pp_pack_id plan" "pk_created_by_job_id p = Some (jb_id j)" "pk_status p = Pack_failed"
    and "ta_succeeded t \<noteq> []" "run_state (finishPack pt j plan resolved erid t) w = (r, w')"
  shows "r = Some (DbErr ErrNotFound) \<and> db_jobs (wd_db w') = db_jobs (wd_db w)
    \<and> (\<exists>p' \<in> set (db_packs (wd_db w')). pk_id p' = pp_pack_id plan
         \<and> pk_status p' = (if ta_failed t > 0 then Completed_with_warnings else Pack_completed))"
proof -
  let ?s = "if ta_failed t > 0 then Completed_with_warnings else Pack_completed"
  let ?d1 = "updateAssetPackCompletenessForJob (wd_db w) (pp_pack_id plan) (jb_id j) (ta_delivered t)
      (missingRoles (pp_variant_keys plan) (ta_delivered t))"
  let ?e = "worker_event (packAggregateCostEventID j) j None (rt_provider_id resolved) (rt_model_id resolved) None None
      (int32 (pt_latency pt (length (wd_calls w)))) ''completed'' (billableMetadata ''pack'')"
  obtain x v where v: "run_state (tx_unit (\<lambda>d. insertCostEventWithQueries d ?e)) (w\<lparr>wd_db := ?d1\<rparr>) = (x, v)" by fastforce
  from cost_event_frame [OF v] assms(2) have f: "wd_env v = []" "db_jobs (wd_db v) = db_jobs (wd_db w)" "db_packs (wd_db v) = db_packs ?d1"
    by (simp_all add: updateAssetPackCompletenessForJob_def)
  let ?d2 = "updateAssetPackStatusForJob (wd_db v) (pp_pack_id plan) (jb_id j) ?s"
  have jobs: "db_jobs ?d2 = db_jobs (wd_db w)" by (simp add: pack_rows_frame f(2))
  have keyed: "keyed jb_id (db_jobs (wd_db w))" using assms(1) by (simp add: plat_inv_def jobs_inv_def)
  have cancelled: "jb_status x = Cancelled" if "x \<in> set (db_jobs (wd_db w))" "jb_id x = jb_id j" for x
    using keyed_unique [OF keyed that(1) assms(3)] that assms(4,5) by simp
  have none: "markGenerationJobCompleted ?d2 (jb_id j) (jb_tenant_id j) (ta_succeeded t) (strPtr erid) = None"
    unfolding markGenerationJobCompleted_def update_job_def jobs
    by (subst iffD2 [OF updating_one_None]) (auto dest: cancelled)
  have run: "r = Some (DbErr ErrNotFound) \<and> w' = v\<lparr>wd_db := ?d2\<rparr>"
    using assms(10,11) v f(1) assms(2) none
    by (simp add: finishPack_def updatePackStatus_def updatePackCompleteness_def run_state_bind exec_def dbcall_def elapsed_def
        markJobCompleted_def tx_def markCompleted_def or_not_found_def State_Monad.return_def)
  let ?p1 = "p\<lparr>pk_delivered_roles := ta_delivered t, pk_missing_roles := missingRoles (pp_variant_keys plan) (ta_delivered t)\<rparr>"
  have "?p1 \<in> set (db_packs (wd_db v))"
    using assms(6-8) by (auto simp: f(3) updateAssetPackCompletenessForJob_def set_update_where intro!: rev_image_eqI [of p])
  then have "?p1\<lparr>pk_status := ?s\<rparr> \<in> set (db_packs ?d2)"
    using assms(7-9) by (auto simp: updateAssetPackStatusForJob_def set_update_where intro!: rev_image_eqI [of ?p1])
  then show ?thesis using run jobs assms(7) by (auto intro!: bexI [of _ "?p1\<lparr>pk_status := ?s\<rparr>"])
qed

text \<open>A redelivered task takes over every role that has an item and changes nothing.\<close>

lemma delivered_roles_not_rendered:
  assumes "\<forall>k \<in> set keys. delivered k \<noteq> None"
  shows "run_state (packLoop pt j plan resolved refs erid delivered i keys t) w
    = (Inr (t\<lparr>ta_succeeded := ta_succeeded t @ map (\<lambda>k. the (delivered k)) keys, ta_delivered := ta_delivered t @ keys\<rparr>), w)"
  using assms
proof (induction keys arbitrary: i t)
  case (Cons k ks)
  then obtain a where "delivered k = Some a" by auto
  with Cons show ?case by simp
qed simp

end
