(* ===== verification/Governance.thy ===== *)
theory Governance
  imports Job_Service Front_Door
begin

text \<open>
  The media-eligibility gate: \<open>internal/governance/governance.go\<close> and \<open>signature.go\<close>, and the gate
  of the generation handlers, \<open>http/handlers/governance_gate.go\<close>. A real signature verifier is a
  parameter; the stub of the code accepts every signature. Times are milliseconds, a zero time
  is \<open>None\<close>. The governance columns of a job only carry the envelope through and are not part of
  the job row; the gate's outcome keeps them.
\<close>

section \<open>Verification\<close>

datatype governance_mode = ModeLogOnly | ModeEnforce

datatype governance_event = EventVerified | EventBlocked

datatype block_reason =
    ReasonMissingField
  | ReasonMissingSchemaVersion
  | ReasonStale
  | ReasonUnknownIssuer
  | ReasonBadSignature

record envelope =
  ev_schema_version :: string
  ev_classification_id :: string
  ev_visibility :: string
  ev_content_class :: string
  ev_authorized_by :: string
  ev_issued_at :: "int option"
  ev_signature :: string

definition zero_envelope :: envelope where
  "zero_envelope = \<lparr>ev_schema_version = '''', ev_classification_id = '''', ev_visibility = '''',
     ev_content_class = '''', ev_authorized_by = '''', ev_issued_at = None, ev_signature = ''''\<rparr>"

text \<open>The result of a verification: \<open>None\<close> is OK.\<close>

type_synonym verdict = "block_reason option"

datatype signature_verifier =
    StubSignatureVerifier
  | RealSignatureVerifier "envelope \<Rightarrow> error + bool"

definition isStub :: "signature_verifier \<Rightarrow> bool" where
  "isStub s \<longleftrightarrow> (case s of StubSignatureVerifier \<Rightarrow> True | RealSignatureVerifier _ \<Rightarrow> False)"

definition verifySignature :: "signature_verifier \<Rightarrow> envelope \<Rightarrow> error + bool" where
  "verifySignature s env = (case s of StubSignatureVerifier \<Rightarrow> Inr True | RealSignatureVerifier f \<Rightarrow> f env)"

record verifier =
  vf_sig :: signature_verifier
  vf_max_age :: int
  vf_issuers :: "string list"

definition clockSkew :: int where
  "clockSkew = 2 * 60 * 1000"

definition verify :: "verifier \<Rightarrow> int \<Rightarrow> envelope \<Rightarrow> verdict" where
  "verify v now env =
     (if ev_schema_version env = '''' then Some ReasonMissingSchemaVersion
      else if ev_classification_id env = '''' \<or> ev_visibility env = '''' \<or> ev_content_class env = ''''
           \<or> ev_authorized_by env = '''' \<or> ev_signature env = '''' \<or> ev_issued_at env = None
      then Some ReasonMissingField
      else if the (ev_issued_at env) < now - vf_max_age v \<or> the (ev_issued_at env) > now + clockSkew
      then Some ReasonStale
      else if ev_authorized_by env \<notin> set (vf_issuers v) then Some ReasonUnknownIssuer
      else
        (case verifySignature (vf_sig v) env of
           Inr True \<Rightarrow> None
         | _ \<Rightarrow> Some ReasonBadSignature))"

definition decide :: "governance_mode \<Rightarrow> verdict \<Rightarrow> bool \<times> governance_event" where
  "decide mode res =
     (case res of
        None \<Rightarrow> (True, EventVerified)
      | Some _ \<Rightarrow> if mode = ModeEnforce then (False, EventBlocked) else (True, EventBlocked))"

definition enforceWithStubWarning :: "governance_mode \<Rightarrow> signature_verifier \<Rightarrow> bool" where
  "enforceWithStubWarning mode s \<longleftrightarrow> mode = ModeEnforce \<and> isStub s"

definition enforceWithStubError :: "bool \<Rightarrow> governance_mode \<Rightarrow> signature_verifier \<Rightarrow> bool" where
  "enforceWithStubError live mode s \<longleftrightarrow> live \<and> mode = ModeEnforce \<and> isStub s"

section \<open>The gate of the handlers\<close>

record governance_gate =
  gg_verifier :: "verifier option"
  gg_mode :: governance_mode

record audit_event =
  ae_event_type :: governance_event
  ae_tenant_id :: string
  ae_actor_token_id :: string
  ae_reason :: verdict
  ae_mode :: governance_mode
  ae_classification :: "(string \<times> string) option"

record gate_outcome =
  gt_verified_at :: "int option"
  gt_envelope :: "envelope option"

text \<open>The reply and the events sent to the audit sink, whose errors are ignored.\<close>

definition run_gate ::
    "governance_gate \<Rightarrow> int \<Rightarrow> string \<Rightarrow> string \<Rightarrow> envelope option \<Rightarrow> gate_outcome reply \<times> audit_event list" where
  "run_gate g now ten tok env =
     (case gg_verifier g of
        None \<Rightarrow> (Reply \<lparr>gt_verified_at = None, gt_envelope = env\<rparr>, [])
      | Some v \<Rightarrow>
          let genv = (case env of None \<Rightarrow> zero_envelope | Some e \<Rightarrow> e);
              res = verify v now genv;
              ev = \<lparr>ae_event_type = snd (decide (gg_mode g) res), ae_tenant_id = ten, ae_actor_token_id = tok,
                    ae_reason = res, ae_mode = gg_mode g,
                    ae_classification = (case env of None \<Rightarrow> None
                       | Some e \<Rightarrow> Some (ev_classification_id e, ev_content_class e))\<rparr>
          in (if \<not> fst (decide (gg_mode g) res) then Problem 403 ''governance_blocked''
              else Reply \<lparr>gt_verified_at = (if res = None then Some now else None), gt_envelope = env\<rparr>, [ev]))"

text \<open>\<open>any_existing\<close> is a debug facility: only with the administrators' read scope.\<close>

definition requireAdminForAnyExisting :: "bool \<Rightarrow> string \<Rightarrow> bool" where
  "requireAdminForAnyExisting admin policy \<longleftrightarrow> policy \<noteq> ''any_existing'' \<or> admin"

section \<open>What the gate lets through\<close>

lemma verify_None:
  "verify v now env = None \<longleftrightarrow>
     ev_schema_version env \<noteq> '''' \<and> ev_classification_id env \<noteq> '''' \<and> ev_visibility env \<noteq> ''''
     \<and> ev_content_class env \<noteq> '''' \<and> ev_authorized_by env \<noteq> '''' \<and> ev_signature env \<noteq> ''''
     \<and> (\<exists>t. ev_issued_at env = Some t \<and> now - vf_max_age v \<le> t \<and> t \<le> now + clockSkew)
     \<and> ev_authorized_by env \<in> set (vf_issuers v) \<and> verifySignature (vf_sig v) env = Inr True"
  by (auto simp: verify_def split: sum.splits bool.splits)

lemma gate_blocks:
  "run_gate g now ten tok env = (Problem c s, evs) \<longleftrightarrow>
     c = 403 \<and> s = ''governance_blocked'' \<and> gg_mode g = ModeEnforce
     \<and> (\<exists>v res. gg_verifier g = Some v \<and> verify v now (case env of None \<Rightarrow> zero_envelope | Some e \<Rightarrow> e) = Some res
          \<and> evs = [\<lparr>ae_event_type = EventBlocked, ae_tenant_id = ten, ae_actor_token_id = tok, ae_reason = Some res,
               ae_mode = ModeEnforce, ae_classification = (case env of None \<Rightarrow> None
                 | Some e \<Rightarrow> Some (ev_classification_id e, ev_content_class e))\<rparr>])"
  by (auto simp: run_gate_def Let_def decide_def split: option.splits if_splits)

lemma enforced_gate:
  assumes "run_gate g now ten tok env = (Reply r, evs)" "gg_verifier g = Some v" "gg_mode g = ModeEnforce"
  shows "\<exists>e. env = Some e \<and> verify v now e = None \<and> gt_verified_at r = Some now \<and> gt_envelope r = env"
  using assms
  by (auto simp: run_gate_def Let_def decide_def verify_None zero_envelope_def split: option.splits if_splits)

end
