(* ===== verification/Identities.thy ===== *)
theory Identities
  imports Governance
begin

text \<open>
  Style profiles and visual identities: \<open>internal/styles/repository.go\<close>,
  \<open>internal/identities/repository.go\<close> and the parts of their handlers that decide. Canonical
  traits are JSON values; \<open>jsonEqual\<close> compares two of them by value, so an object of the model is
  kept with sorted keys, as Go marshals it. The rows are in a catalogue of their own.
\<close>

record style_profile =
  sy_id :: string
  sy_tenant_id :: string
  sy_world_id :: "string option"
  sy_name :: string
  sy_style_mode :: string
  sy_positive_prompt :: string
  sy_negative_prompt :: "string option"
  sy_default_quality_tier :: string
  sy_status :: string

record visual_identity =
  vi_id :: string
  vi_tenant_id :: string
  vi_world_id :: string
  vi_owner_type :: string
  vi_owner_id :: string
  vi_display_name :: string
  vi_traits :: json
  vi_style_profile_id :: string
  vi_consistency_key :: "string option"
  vi_anchor_asset_ids :: "string list"
  vi_current_version :: int
  vi_status :: string

record identity_version =
  vv_identity_id :: string
  vv_version :: int
  vv_reason :: string
  vv_traits :: json

record catalog =
  ct_styles :: "style_profile list"
  ct_identities :: "visual_identity list"
  ct_versions :: "identity_version list"

section \<open>Styles\<close>

definition getStyleProfileByID :: "catalog \<Rightarrow> string \<Rightarrow> string \<Rightarrow> style_profile option" where
  "getStyleProfileByID c sid ten =
     find (\<lambda>s. sy_id s = sid \<and> sy_tenant_id s = ten \<and> sy_status s = ''active'') (ct_styles c)"

definition getStyle :: "catalog \<Rightarrow> string \<Rightarrow> string \<Rightarrow> error + style_profile" where
  "getStyle c sid ten =
     (if ten = '''' then Inl ErrNoTenant
      else case getStyleProfileByID c sid ten of None \<Rightarrow> Inl ErrNotFound | Some s \<Rightarrow> Inr s)"

text \<open>\<open>ORDER BY created_at DESC\<close>: the last inserted first.\<close>

definition listStyleProfilesByTenant :: "catalog \<Rightarrow> string \<Rightarrow> style_profile list" where
  "listStyleProfilesByTenant c ten =
     rev (filter (\<lambda>s. sy_tenant_id s = ten \<and> sy_status s = ''active'' \<and> sy_world_id s = None) (ct_styles c))"

definition validStyleMode :: "string \<Rightarrow> bool" where
  "validStyleMode m \<longleftrightarrow> m \<in> {''open_prompt'', ''preset_style'', ''creator_style'', ''provider_native''}"

definition validQualityTier :: "string \<Rightarrow> bool" where
  "validQualityTier q \<longleftrightarrow> q \<in> {''draft'', ''standard'', ''high''}"

record create_style =
  cs_name :: string
  cs_style_mode :: string
  cs_positive_prompt :: string
  cs_negative_prompt :: "string option"
  cs_default_quality_tier :: "string option"

definition insertStyle :: "catalog \<Rightarrow> style_profile \<Rightarrow> error + catalog" where
  "insertStyle c s =
     (if sy_tenant_id s = '''' then Inl ErrNoTenant
      else if \<not> validStyleMode (sy_style_mode s) \<or> \<not> validQualityTier (sy_default_quality_tier s)
      then Inl (ErrOther ''check_violation'')
      else case insert_row sy_id s (ct_styles c) of Inl e \<Rightarrow> Inl e | Inr ss \<Rightarrow> Inr (c\<lparr>ct_styles := ss\<rparr>))"

definition createStyle :: "catalog \<Rightarrow> principal \<Rightarrow> string \<Rightarrow> create_style \<Rightarrow> style_profile reply \<times> catalog" where
  "createStyle c p nid r =
     (let tier = (case cs_default_quality_tier r of None \<Rightarrow> ''standard'' | Some t \<Rightarrow> if t = '''' then ''standard'' else t);
          row = \<lparr>sy_id = nid, sy_tenant_id = pn_tenant_id p, sy_world_id = None, sy_name = cs_name r,
                 sy_style_mode = cs_style_mode r, sy_positive_prompt = cs_positive_prompt r,
                 sy_negative_prompt = cs_negative_prompt r, sy_default_quality_tier = tier, sy_status = ''active''\<rparr>
      in if cs_name r = '''' \<or> cs_positive_prompt r = '''' \<or> cs_style_mode r = '''' \<or> \<not> validStyleMode (cs_style_mode r)
            \<or> \<not> validQualityTier tier
         then (Problem 400 ''invalid_request'', c)
         else (case insertStyle c row of
                 Inl e \<Rightarrow> (Problem 500 ''internal_error'', c)
               | Inr c' \<Rightarrow> (Reply row, c')))"

section \<open>Identities\<close>

record upsert_params =
  up_new_id :: string
  up_tenant_id :: string
  up_world_id :: string
  up_owner_type :: string
  up_owner_id :: string
  up_display_name :: string
  up_traits :: json
  up_style_profile_id :: string
  up_consistency_key :: "string option"

definition same_owner_key :: "string \<Rightarrow> string \<Rightarrow> string \<Rightarrow> string \<Rightarrow> visual_identity \<Rightarrow> bool" where
  "same_owner_key ten world otype oid v \<longleftrightarrow>
     vi_tenant_id v = ten \<and> vi_world_id v = world \<and> vi_owner_type v = otype \<and> vi_owner_id v = oid"

definition getVisualIdentityByOwner :: "catalog \<Rightarrow> string \<Rightarrow> string \<Rightarrow> string \<Rightarrow> string \<Rightarrow> visual_identity option" where
  "getVisualIdentityByOwner c ten world otype oid = find (same_owner_key ten world otype oid) (ct_identities c)"

definition getByOwner :: "catalog \<Rightarrow> string \<Rightarrow> string \<Rightarrow> string \<Rightarrow> string \<Rightarrow> error + visual_identity" where
  "getByOwner c ten world otype oid =
     (if ten = '''' then Inl ErrNoTenant
      else case getVisualIdentityByOwner c ten world otype oid of None \<Rightarrow> Inl ErrNotFound | Some v \<Rightarrow> Inr v)"

definition getIdentityForTenant :: "catalog \<Rightarrow> string \<Rightarrow> string \<Rightarrow> error + visual_identity" where
  "getIdentityForTenant c vid ten =
     (if ten = '''' then Inl ErrNoTenant
      else case find (\<lambda>v. vi_id v = vid \<and> vi_tenant_id v = ten) (ct_identities c) of
             None \<Rightarrow> Inl ErrNotFound | Some v \<Rightarrow> Inr v)"

text \<open>The primary key, the unique owner, the checked owner type and the foreign key to the style.\<close>

definition insertVisualIdentity :: "catalog \<Rightarrow> upsert_params \<Rightarrow> error + visual_identity \<times> catalog" where
  "insertVisualIdentity c p =
     (let row = \<lparr>vi_id = up_new_id p, vi_tenant_id = up_tenant_id p, vi_world_id = up_world_id p,
                 vi_owner_type = up_owner_type p, vi_owner_id = up_owner_id p, vi_display_name = up_display_name p,
                 vi_traits = up_traits p, vi_style_profile_id = up_style_profile_id p,
                 vi_consistency_key = up_consistency_key p, vi_anchor_asset_ids = [], vi_current_version = 1,
                 vi_status = ''active''\<rparr>
      in if up_owner_type p \<notin> {''character'', ''place'', ''artifact''} then Inl (ErrOther ''check_violation'')
         else if list_ex (same_owner_key (up_tenant_id p) (up_world_id p) (up_owner_type p) (up_owner_id p)) (ct_identities c)
         then Inl unique_violation
         else if up_style_profile_id p \<notin> set (map sy_id (ct_styles c)) then Inl foreign_key_violation
         else (case insert_row vi_id row (ct_identities c) of
                 Inl e \<Rightarrow> Inl e
               | Inr vs \<Rightarrow> Inr (row, c\<lparr>ct_identities := vs\<rparr>)))"

definition insertVisualIdentityVersion :: "catalog \<Rightarrow> string \<Rightarrow> int \<Rightarrow> string \<Rightarrow> json \<Rightarrow> error + catalog" where
  "insertVisualIdentityVersion c vid n reason traits =
     (if vid \<notin> set (map vi_id (ct_identities c)) then Inl foreign_key_violation
      else (case insert_row (\<lambda>v. (vv_identity_id v, vv_version v))
                   \<lparr>vv_identity_id = vid, vv_version = n, vv_reason = reason, vv_traits = traits\<rparr> (ct_versions c) of
              Inl e \<Rightarrow> Inl e
            | Inr vs \<Rightarrow> Inr (c\<lparr>ct_versions := vs\<rparr>)))"

text \<open>\<open>current_version\<close> is an \<open>INT\<close> column: the increment fails at the end of its range.\<close>

definition updateVisualIdentityWithVersionBump ::
    "catalog \<Rightarrow> string \<Rightarrow> upsert_params \<Rightarrow> error + visual_identity \<times> catalog" where
  "updateVisualIdentityWithVersionBump c vid p =
     (if list_ex (\<lambda>v. vi_id v = vid \<and> vi_current_version v + 1 > 2 ^ 31 - 1) (ct_identities c) then Inl NumericOverflow
      else if up_style_profile_id p \<notin> set (map sy_id (ct_styles c)) then Inl foreign_key_violation
      else
        (case updating_one (\<lambda>v. vi_id v = vid)
                (\<lambda>v. v\<lparr>vi_display_name := up_display_name p, vi_traits := up_traits p,
                       vi_style_profile_id := up_style_profile_id p, vi_consistency_key := up_consistency_key p,
                       vi_current_version := vi_current_version v + 1\<rparr>) (ct_identities c) of
           None \<Rightarrow> Inl ErrNoRows
         | Some (v, vs) \<Rightarrow> Inr (v, c\<lparr>ct_identities := vs\<rparr>)))"

definition identityUnchanged :: "visual_identity \<Rightarrow> upsert_params \<Rightarrow> bool" where
  "identityUnchanged v p \<longleftrightarrow>
     vi_style_profile_id v = up_style_profile_id p \<and> vi_consistency_key v = up_consistency_key p
     \<and> vi_traits v = up_traits p"

datatype identity_error = ErrInvalidStyle | IdentityErr error

definition upsert :: "catalog \<Rightarrow> upsert_params \<Rightarrow> identity_error + visual_identity \<times> catalog" where
  "upsert c p =
     (if up_tenant_id p = '''' then Inl (IdentityErr ErrNoTenant)
      else if getStyleProfileByID c (up_style_profile_id p) (up_tenant_id p) = None then Inl ErrInvalidStyle
      else
        (case getVisualIdentityByOwner c (up_tenant_id p) (up_world_id p) (up_owner_type p) (up_owner_id p) of
           None \<Rightarrow>
             (case insertVisualIdentity c p of
                Inl e \<Rightarrow> Inl (IdentityErr e)
              | Inr (v, c1) \<Rightarrow>
                  (case insertVisualIdentityVersion c1 (vi_id v) 1 ''initial'' (up_traits p) of
                     Inl e \<Rightarrow> Inl (IdentityErr e)
                   | Inr c2 \<Rightarrow> Inr (v, c2)))
         | Some old \<Rightarrow>
             if identityUnchanged old p then Inr (old, c)
             else
               (case updateVisualIdentityWithVersionBump c (vi_id old) p of
                  Inl e \<Rightarrow> Inl (IdentityErr e)
                | Inr (v, c1) \<Rightarrow>
                    (case insertVisualIdentityVersion c1 (vi_id v) (vi_current_version v) ''canonical_change'' (up_traits p) of
                       Inl e \<Rightarrow> Inl (IdentityErr e)
                     | Inr c2 \<Rightarrow> Inr (v, c2)))))"

definition setAnchorAssets :: "catalog \<Rightarrow> string \<Rightarrow> string \<Rightarrow> string list \<Rightarrow> error + visual_identity \<times> catalog" where
  "setAnchorAssets c vid ten anchors =
     (if ten = '''' then Inl ErrNoTenant
      else
        (case updating_one (\<lambda>v. vi_id v = vid \<and> vi_tenant_id v = ten)
                (\<lambda>v. v\<lparr>vi_anchor_asset_ids := anchors\<rparr>) (ct_identities c) of
           None \<Rightarrow> Inl ErrNotFound
         | Some (v, vs) \<Rightarrow> Inr (v, c\<lparr>ct_identities := vs\<rparr>)))"

section \<open>The handlers\<close>

record upsert_request =
  ur_owner_type :: string
  ur_owner_id :: string
  ur_world_id :: string
  ur_display_name :: string
  ur_style_profile_id :: string
  ur_traits :: "json option"
  ur_consistency_key :: "string option"

definition upsertIdentity ::
    "catalog \<Rightarrow> principal \<Rightarrow> string \<Rightarrow> string \<Rightarrow> string \<Rightarrow> upsert_request \<Rightarrow> visual_identity reply \<times> catalog" where
  "upsertIdentity c p nid expected oid r =
     (case ur_traits r of
        None \<Rightarrow> (Problem 400 ''invalid_request'', c)
      | Some traits \<Rightarrow>
          if oid = '''' \<or> ur_owner_type r \<noteq> expected \<or> ur_owner_id r \<noteq> oid \<or> ur_world_id r = ''''
             \<or> ur_display_name r = '''' \<or> ur_style_profile_id r = ''''
          then (Problem 400 ''invalid_request'', c)
          else
            (case upsert c \<lparr>up_new_id = nid, up_tenant_id = pn_tenant_id p, up_world_id = ur_world_id r,
                     up_owner_type = ur_owner_type r, up_owner_id = ur_owner_id r, up_display_name = ur_display_name r,
                     up_traits = traits, up_style_profile_id = ur_style_profile_id r,
                     up_consistency_key = ur_consistency_key r\<rparr> of
               Inl ErrInvalidStyle \<Rightarrow> (Problem 422 ''invalid_style_profile'', c)
             | Inl (IdentityErr e) \<Rightarrow> (Problem 500 ''internal_error'', c)
             | Inr (v, c') \<Rightarrow> (Reply v, c')))"

definition getIdentity :: "catalog \<Rightarrow> principal \<Rightarrow> string \<Rightarrow> string \<Rightarrow> string \<Rightarrow> visual_identity reply" where
  "getIdentity c p expected oid world =
     (if oid = '''' \<or> world = '''' then Problem 400 ''invalid_request''
      else
        (case getByOwner c (pn_tenant_id p) world expected oid of
           Inl e \<Rightarrow> if e = ErrNotFound then Problem 404 ''not_found'' else Problem 500 ''internal_error''
         | Inr v \<Rightarrow> Reply v))"

definition listStyles :: "catalog \<Rightarrow> principal \<Rightarrow> style_profile list reply" where
  "listStyles c p =
     (if pn_tenant_id p = '''' then Problem 500 ''internal_error''
      else Reply (listStyleProfilesByTenant c (pn_tenant_id p)))"

text \<open>
  The loop of \<open>attachAnchors\<close> over the candidate assets. \<open>high_res\<close> says whether an asset has a
  high-resolution object, a column that only carries data through elsewhere.
\<close>

fun anchor_candidates ::
    "(visual_asset \<Rightarrow> bool) \<Rightarrow> db \<Rightarrow> string \<Rightarrow> visual_identity \<Rightarrow> string list \<Rightarrow> string list \<Rightarrow> string list reply" where
  "anchor_candidates high_res d ten v seen [] = Reply seen"
| "anchor_candidates high_res d ten v seen (a # as) =
     (if a = '''' then Problem 400 ''invalid_request''
      else if a \<in> set seen then anchor_candidates high_res d ten v seen as
      else
        (case find (\<lambda>x. va_id x = a \<and> va_tenant_id x = ten) (db_assets d) of
           None \<Rightarrow> Problem 422 ''invalid_anchor_asset''
         | Some x \<Rightarrow>
             if va_status x \<noteq> Ready \<or> \<not> high_res x \<or> va_world_id x \<noteq> '''' \<and> va_world_id x \<noteq> vi_world_id v
                \<or> (case va_visual_identity_id x of None \<Rightarrow> False | Some i \<Rightarrow> i \<noteq> '''' \<and> i \<noteq> vi_id v)
             then Problem 422 ''invalid_anchor_asset''
             else anchor_candidates high_res d ten v (seen @ [a]) as))"

definition attachAnchors ::
    "(visual_asset \<Rightarrow> bool) \<Rightarrow> db \<Rightarrow> catalog \<Rightarrow> principal \<Rightarrow> string \<Rightarrow> string \<Rightarrow> string \<Rightarrow> string list
     \<Rightarrow> visual_identity reply \<times> catalog" where
  "attachAnchors high_res d c p otype oid world anchors =
     (if oid = '''' \<or> world = '''' \<or> anchors = [] then (Problem 400 ''invalid_request'', c)
      else
        (case getByOwner c (pn_tenant_id p) world otype oid of
           Inl e \<Rightarrow> (if e = ErrNotFound then Problem 404 ''not_found'' else Problem 500 ''internal_error'', c)
         | Inr v \<Rightarrow>
             (case anchor_candidates high_res d (pn_tenant_id p) v [] anchors of
                Problem s e \<Rightarrow> (Problem s e, c)
              | Reply ids \<Rightarrow>
                  (case setAnchorAssets c (vi_id v) (pn_tenant_id p) ids of
                     Inl e \<Rightarrow> (if e = ErrNotFound then Problem 404 ''not_found'' else Problem 500 ''internal_error'', c)
                   | Inr (w, c') \<Rightarrow> (Reply w, c')))))"

section \<open>The version history\<close>

text \<open>
  The history of every identity is complete: its versions are exactly one to the current one,
  the traits of the current version are the row's, and no owner has two identities.
\<close>

definition versions_of :: "catalog \<Rightarrow> string \<Rightarrow> identity_version list" where
  "versions_of c i = filter (\<lambda>v. vv_identity_id v = i) (ct_versions c)"

definition owner_key :: "visual_identity \<Rightarrow> string \<times> string \<times> string \<times> string" where
  "owner_key v = (vi_tenant_id v, vi_world_id v, vi_owner_type v, vi_owner_id v)"

definition history_inv :: "catalog \<Rightarrow> bool" where
  "history_inv c \<longleftrightarrow> keyed vi_id (ct_identities c) \<and> keyed owner_key (ct_identities c)
     \<and> (\<forall>v \<in> set (ct_identities c). 1 \<le> vi_current_version v
          \<and> map vv_version (versions_of c (vi_id v)) = [1 .. vi_current_version v]
          \<and> vv_traits (last (versions_of c (vi_id v))) = vi_traits v)
     \<and> (\<forall>w \<in> set (ct_versions c). vv_identity_id w \<in> vi_id ` set (ct_identities c))"

lemma versions_of_append:
  "versions_of (c\<lparr>ct_identities := vs, ct_versions := ct_versions c @ [w]\<rparr>) i
   = versions_of c i @ (if vv_identity_id w = i then [w] else [])"
  by (simp add: versions_of_def)

lemma history_foreign: "history_inv c \<Longrightarrow> i \<notin> vi_id ` set (ct_identities c) \<Longrightarrow> versions_of c i = []"
  by (auto simp: history_inv_def versions_of_def filter_empty_conv)

lemma insertVisualIdentityVersion_InrD:
  "insertVisualIdentityVersion c i n reason t = Inr c' \<Longrightarrow>
   c' = c\<lparr>ct_versions := ct_versions c @ [\<lparr>vv_identity_id = i, vv_version = n, vv_reason = reason, vv_traits = t\<rparr>]\<rparr>
   \<and> i \<in> vi_id ` set (ct_identities c)"
  by (auto simp: insertVisualIdentityVersion_def split: if_splits sum.splits)

lemma history_insert:
  assumes inv: "history_inv c" and new: "vi_id v \<notin> vi_id ` set (ct_identities c)"
    and own: "owner_key v \<notin> owner_key ` set (ct_identities c)" and v: "vi_current_version v = 1"
  shows "history_inv (c\<lparr>ct_identities := ct_identities c @ [v],
      ct_versions := ct_versions c @ [\<lparr>vv_identity_id = vi_id v, vv_version = 1, vv_reason = r, vv_traits = vi_traits v\<rparr>]\<rparr>)"
proof -
  have *: "map vv_version (versions_of c (vi_id u)) = [1 .. vi_current_version u]
      \<and> vv_traits (last (versions_of c (vi_id u))) = vi_traits u \<and> 1 \<le> vi_current_version u" if "u \<in> set (ct_identities c)" for u
    using inv that by (simp add: history_inv_def)
  have "vi_id u \<noteq> vi_id v" if "u \<in> set (ct_identities c)" for u using new that by (metis image_eqI)
  with * inv new own v history_foreign [OF inv new] show ?thesis
    by (auto simp: history_inv_def keyed_snoc versions_of_append)
qed

lemma history_bump:
  assumes inv: "history_inv c" and old: "old \<in> set (ct_identities c)"
    and f: "\<And>u. vi_id (f u) = vi_id u \<and> owner_key (f u) = owner_key u \<and> vi_current_version (f u) = vi_current_version u + 1"
    and t: "vi_traits (f old) = t"
  shows "history_inv (c\<lparr>ct_identities := update_where (\<lambda>u. vi_id u = vi_id old) f (ct_identities c),
      ct_versions := ct_versions c @ [\<lparr>vv_identity_id = vi_id old, vv_version = vi_current_version old + 1, vv_reason = r, vv_traits = t\<rparr>]\<rparr>)"
    (is "history_inv ?c")
proof -
  have key: "keyed vi_id (ct_identities c)" using inv by (simp add: history_inv_def)
  have one: "u = old" if "u \<in> set (ct_identities c)" "vi_id u = vi_id old" for u
    using keyed_unique [OF key that(1) old that(2)] .
  have *: "map vv_version (versions_of c (vi_id u)) = [1 .. vi_current_version u]
      \<and> vv_traits (last (versions_of c (vi_id u))) = vi_traits u \<and> 1 \<le> vi_current_version u" if "u \<in> set (ct_identities c)" for u
    using inv that by (simp add: history_inv_def)
  have up: "[1 .. vi_current_version old] @ [vi_current_version old + 1] = [1 .. vi_current_version old + 1]"
    using * [OF old] by (simp add: upto_rec2)
  have row: "1 \<le> vi_current_version w \<and> map vv_version (versions_of ?c (vi_id w)) = [1 .. vi_current_version w]
      \<and> vv_traits (last (versions_of ?c (vi_id w))) = vi_traits w" if w: "w \<in> set (ct_identities ?c)" for w
  proof -
    from w obtain u where u: "u \<in> set (ct_identities c)" "w = (if vi_id u = vi_id old then f u else u)"
      by (auto elim: update_where_memE)
    show ?thesis
    proof (cases "vi_id u = vi_id old")
      case True
      with u one have "w = f old" by auto
      then show ?thesis using * [OF old] f t up by (simp add: versions_of_append)
    next
      case False
      with u * [OF u(1)] show ?thesis by (auto simp: versions_of_append)
    qed
  qed
  have ids: "vi_id ` set (update_where (\<lambda>u. vi_id u = vi_id old) f (ct_identities c)) = vi_id ` set (ct_identities c)"
    by (rule image_update_where) (use f in simp)
  show ?thesis
    using inv row old f unfolding history_inv_def
    by (simp add: keyed_update_where ids)
qed

lemma owner_free:
  "\<not> list_ex (same_owner_key a b x y) vs \<longleftrightarrow> (a, b, x, y) \<notin> owner_key ` set vs"
  by (auto simp: list_ex_iff same_owner_key_def owner_key_def image_iff)

lemma upsert_history:
  assumes "history_inv c" "upsert c p = Inr (v, c')"
  shows "history_inv c' \<and> v \<in> set (ct_identities c')
    \<and> same_owner_key (up_tenant_id p) (up_world_id p) (up_owner_type p) (up_owner_id p) v \<and> identityUnchanged v p"
proof (cases "getVisualIdentityByOwner c (up_tenant_id p) (up_world_id p) (up_owner_type p) (up_owner_id p)")
  case None
  with assms(2) obtain c1 where 1: "insertVisualIdentity c p = Inr (v, c1)"
    and 2: "insertVisualIdentityVersion c1 (vi_id v) 1 ''initial'' (up_traits p) = Inr c'"
    by (auto simp: upsert_def split: if_splits sum.splits prod.splits)
  from 1 have v: "vi_id v \<notin> vi_id ` set (ct_identities c)" "c1 = c\<lparr>ct_identities := ct_identities c @ [v]\<rparr>"
      "vi_traits v = up_traits p" "vi_current_version v = 1" "owner_key v \<notin> owner_key ` set (ct_identities c)"
      "same_owner_key (up_tenant_id p) (up_world_id p) (up_owner_type p) (up_owner_id p) v" "identityUnchanged v p"
    by (auto simp: insertVisualIdentity_def Let_def owner_free owner_key_def same_owner_key_def identityUnchanged_def
        split: if_splits sum.splits)
  from insertVisualIdentityVersion_InrD [OF 2] v(2,3) history_insert [OF assms(1) v(1,5,4), of "''initial''"] v(6,7)
  show ?thesis by simp
next
  case (Some old)
  then have old: "old \<in> set (ct_identities c)" "same_owner_key (up_tenant_id p) (up_world_id p) (up_owner_type p) (up_owner_id p) old"
    by (auto simp: getVisualIdentityByOwner_def dest: find_SomeD)
  show ?thesis
  proof (cases "identityUnchanged old p")
    case True
    with assms Some old show ?thesis by (auto simp: upsert_def split: if_splits)
  next
    case False
    with assms(2) Some obtain c1 where 1: "updateVisualIdentityWithVersionBump c (vi_id old) p = Inr (v, c1)"
      and 2: "insertVisualIdentityVersion c1 (vi_id v) (vi_current_version v) ''canonical_change'' (up_traits p) = Inr c'"
      by (auto simp: upsert_def split: if_splits sum.splits prod.splits)
    let ?f = "\<lambda>v. v\<lparr>vi_display_name := up_display_name p, vi_traits := up_traits p,
                       vi_style_profile_id := up_style_profile_id p, vi_consistency_key := up_consistency_key p,
                       vi_current_version := vi_current_version v + 1\<rparr>"
    from 1 obtain u where u: "find (\<lambda>v. vi_id v = vi_id old) (ct_identities c) = Some u" "v = ?f u"
      "c1 = c\<lparr>ct_identities := update_where (\<lambda>v. vi_id v = vi_id old) ?f (ct_identities c)\<rparr>"
      by (auto simp: updateVisualIdentityWithVersionBump_def updating_one_def split: if_splits option.splits)
    have key: "keyed vi_id (ct_identities c)" using assms(1) by (simp add: history_inv_def)
    from find_SomeD [OF u(1)] keyed_unique [OF key _ old(1)] have "u = old" by blast
    with u have v: "v = ?f old" by simp
    have "history_inv c'"
      using insertVisualIdentityVersion_InrD [OF 2] v u(3)
        history_bump [OF assms(1) old(1), of ?f "up_traits p" "''canonical_change''"]
      by (simp add: owner_key_def)
    moreover have "v \<in> set (ct_identities c')"
      using insertVisualIdentityVersion_InrD [OF 2] u(3) old(1) v by (auto simp: set_update_where image_iff)
    moreover have "same_owner_key (up_tenant_id p) (up_world_id p) (up_owner_type p) (up_owner_id p) v" "identityUnchanged v p"
      using old(2) by (simp_all add: v same_owner_key_def identityUnchanged_def)
    ultimately show ?thesis by blast
  qed
qed

lemma setAnchorAssets_history:
  assumes "history_inv c" "setAnchorAssets c i ten as = Inr (v, c')"
  shows "history_inv c'"
proof -
  from assms(2) have c': "c' = c\<lparr>ct_identities := update_where (\<lambda>v. vi_id v = i \<and> vi_tenant_id v = ten)
      (\<lambda>v. v\<lparr>vi_anchor_asset_ids := as\<rparr>) (ct_identities c)\<rparr>"
    by (auto simp: setAnchorAssets_def updating_one_def split: if_splits option.splits)
  have ver: "versions_of c' i = versions_of c i" "ct_versions c' = ct_versions c" for i
    by (simp_all add: c' versions_of_def)
  moreover have "vi_id ` set (ct_identities c') = vi_id ` set (ct_identities c)"
    by (simp add: c' image_update_where)
  moreover have "keyed vi_id (ct_identities c') = keyed vi_id (ct_identities c)"
      "keyed owner_key (ct_identities c') = keyed owner_key (ct_identities c)"
    by (simp_all add: c' keyed_update_where owner_key_def)
  moreover have "\<exists>u \<in> set (ct_identities c). vi_id u = vi_id v \<and> vi_current_version u = vi_current_version v \<and> vi_traits u = vi_traits v"
    if "v \<in> set (ct_identities c')" for v
    using that by (auto simp: c' elim!: update_where_memE)
  ultimately show ?thesis
    using assms(1) ver unfolding history_inv_def by metis
qed

text \<open>Setting the same identity twice writes no second version, and a lookup by owner finds it.\<close>

lemma upsert_twice:
  assumes "history_inv c" "upsert c p = Inr (v, c')"
  shows "upsert c' p = Inr (v, c') \<and> getByOwner c' (up_tenant_id p) (up_world_id p) (up_owner_type p) (up_owner_id p) = Inr v"
proof -
  note h = upsert_history [OF assms]
  have "find (same_owner_key (up_tenant_id p) (up_world_id p) (up_owner_type p) (up_owner_id p)) (ct_identities c') = Some v"
  proof -
    have "keyed owner_key (ct_identities c')" using h by (simp add: history_inv_def)
    then have "u = v" if "u \<in> set (ct_identities c')" "same_owner_key (up_tenant_id p) (up_world_id p) (up_owner_type p) (up_owner_id p) u" for u
      using keyed_unique [of owner_key "ct_identities c'" u v] h that by (simp add: same_owner_key_def owner_key_def)
    with h show ?thesis
      by (metis (no_types, lifting) find_None_conv find_SomeD not_None_eq)
  qed
  moreover have "ct_styles c' = ct_styles c" "up_tenant_id p \<noteq> ''''"
      "getStyleProfileByID c (up_style_profile_id p) (up_tenant_id p) \<noteq> None"
    using assms(2)
    by (auto simp: upsert_def insertVisualIdentity_def insertVisualIdentityVersion_def updateVisualIdentityWithVersionBump_def Let_def
        split: if_splits option.splits sum.splits)
  ultimately show ?thesis
    using h by (simp add: upsert_def getVisualIdentityByOwner_def getByOwner_def getStyleProfileByID_def)
qed

end
