(* ===== verification/Retrieval.thy ===== *)
theory Retrieval
  imports Variants "HOL-Library.Char_ord" "HOL-Library.List_Lexorder" "HOL-Library.Product_Lexorder"
begin

text \<open>
  Retrieval before generation, \<open>internal/assets/retrieval.go\<close> over the two queries of
  \<open>internal/assets/repository.go\<close>: an exact hit, else the best substitute the matrix and the
  fallback policy allow, else a request to generate. The retriever is a function of its
  candidate source, as in the code; the laws the source promises are a locale.
\<close>

section \<open>Queries\<close>

record retrieval_query =
  rq_tenant_id :: string
  rq_world_id :: string
  rq_visual_identity_id :: string
  rq_entity_type :: string
  rq_variant_key :: string
  rq_style_profile_id :: string
  rq_style_profile_version :: "int option"
  rq_state_version :: int
  rq_quality_tier :: string
  rq_fallback_policy :: string

text \<open>The conditions the two queries share.\<close>

definition same_owner :: "retrieval_query \<Rightarrow> visual_asset \<Rightarrow> bool" where
  "same_owner q a \<longleftrightarrow>
     va_tenant_id a = rq_tenant_id q \<and> va_world_id a = rq_world_id q
     \<and> sql_eq (va_visual_identity_id a) (strPtr (rq_visual_identity_id q))
     \<and> va_state_version a = rq_state_version q
     \<and> sql_eq (va_style_profile_id a) (strPtr (rq_style_profile_id q)) \<and> va_status a = Ready"

definition findExact :: "collation \<Rightarrow> db \<Rightarrow> retrieval_query \<Rightarrow> error + visual_asset" where
  "findExact coll d q =
     (if rq_tenant_id q = '''' then Inl ErrNoTenant
      else
        (case first_by (\<lambda>a b. coll (va_id a) (va_id b))
                (filter (\<lambda>a. same_owner q a \<and> va_variant_key a = rq_variant_key q
                   \<and> (rq_style_profile_version q = None \<or> va_style_profile_version a = rq_style_profile_version q)
                   \<and> (strPtr (rq_quality_tier q) = None \<or> Some (va_quality_tier a) = strPtr (rq_quality_tier q)))
                   (db_assets d)) of
           None \<Rightarrow> Inl ErrNotFound
         | Some a \<Rightarrow> Inr a))"

text \<open>\<open>ORDER BY fallback_rank ASC NULLS LAST, id ASC\<close>.\<close>

definition rank_before :: "collation \<Rightarrow> visual_asset \<Rightarrow> visual_asset \<Rightarrow> bool" where
  "rank_before coll a b =
     (case (va_fallback_rank a, va_fallback_rank b) of
        (Some x, Some y) \<Rightarrow> x < y \<or> x = y \<and> va_id a \<noteq> va_id b \<and> coll (va_id a) (va_id b)
      | (Some _, None) \<Rightarrow> True
      | (None, Some _) \<Rightarrow> False
      | (None, None) \<Rightarrow> va_id a \<noteq> va_id b \<and> coll (va_id a) (va_id b))"

definition listRetrievalCandidates :: "collation \<Rightarrow> db \<Rightarrow> retrieval_query \<Rightarrow> error + visual_asset list" where
  "listRetrievalCandidates coll d q =
     (if rq_tenant_id q = '''' then Inl ErrNoTenant
      else Inr (sort_by (rank_before coll)
             (filter (\<lambda>a. same_owner q a \<and> \<not> va_is_identity_anchor a) (db_assets d))))"

definition listRetrievalCandidatesByCompatTag ::
    "collation \<Rightarrow> db \<Rightarrow> retrieval_query \<Rightarrow> string list \<Rightarrow> error + visual_asset list" where
  "listRetrievalCandidatesByCompatTag coll d q tags =
     (if rq_tenant_id q = '''' then Inl ErrNoTenant
      else Inr (sort_by (rank_before coll)
             (filter (\<lambda>a. same_owner q a \<and> \<not> va_is_identity_anchor a
                \<and> list_ex (\<lambda>t. t \<in> set tags) (va_compatibility_tags a)) (db_assets d))))"

section \<open>The decision\<close>

abbreviation FallbackPolicyNone :: string where "FallbackPolicyNone \<equiv> ''none''"
abbreviation FallbackPolicyCompatibleOnly :: string where "FallbackPolicyCompatibleOnly \<equiv> ''compatible_only''"
abbreviation FallbackPolicyPreviewAllowed :: string where "FallbackPolicyPreviewAllowed \<equiv> ''preview_allowed''"
abbreviation FallbackPolicyAnyExisting :: string where "FallbackPolicyAnyExisting \<equiv> ''any_existing''"

definition validFallbackPolicy :: "string \<Rightarrow> bool" where
  "validFallbackPolicy p \<longleftrightarrow> p = FallbackPolicyNone \<or> p = FallbackPolicyCompatibleOnly
     \<or> p = FallbackPolicyPreviewAllowed \<or> p = FallbackPolicyAnyExisting"

record retrieval_result =
  re_match_type :: outcome
  re_asset :: "visual_asset option"
  re_compatibility_score :: rat
  re_fallback_reason :: string
  re_generation_recommended :: bool

definition generatedRequired :: retrieval_result where
  "generatedRequired = \<lparr>re_match_type = OutcomeGeneratedRequired, re_asset = None,
     re_compatibility_score = 0, re_fallback_reason = '''', re_generation_recommended = True\<rparr>"

record scored_candidate =
  sd_asset :: visual_asset
  sd_outcome :: outcome
  sd_score :: rat
  sd_reason :: string

definition candidateReusable :: "visual_asset \<Rightarrow> bool" where
  "candidateReusable c \<longleftrightarrow> va_status c = Ready \<and> \<not> va_is_identity_anchor c"

definition outcomeAllowedByPolicy :: "outcome \<Rightarrow> string \<Rightarrow> bool" where
  "outcomeAllowedByPolicy oc p =
     (if p = FallbackPolicyNone then False
      else if p = FallbackPolicyCompatibleOnly then oc = OutcomeCompatibleMatch
      else if p = FallbackPolicyPreviewAllowed \<or> p = FallbackPolicyAnyExisting
      then oc = OutcomeCompatibleMatch \<or> oc = OutcomePreviewFallback
      else False)"

fun outcomeTier :: "outcome \<Rightarrow> int" where
  "outcomeTier OutcomeExactMatch = 3"
| "outcomeTier OutcomeCompatibleMatch = 2"
| "outcomeTier OutcomePreviewFallback = 1"
| "outcomeTier _ = 0"

definition fallbackRankOf :: "visual_asset \<Rightarrow> int" where
  "fallbackRankOf a = (case va_fallback_rank a of None \<Rightarrow> fallbackRankNever | Some r \<Rightarrow> r)"

fun outcome_text :: "outcome \<Rightarrow> string" where
  "outcome_text OutcomeExactMatch = ''exact_match''"
| "outcome_text OutcomeCompatibleMatch = ''compatible_match''"
| "outcome_text OutcomePreviewFallback = ''preview_fallback''"
| "outcome_text OutcomeInvalidMatch = ''invalid_match''"
| "outcome_text OutcomeGeneratedRequired = ''generated_required''"

text \<open>The arrow between the families is one character of three bytes.\<close>

definition fallbackReason :: "string \<Rightarrow> classified_variant \<Rightarrow> classified_variant \<Rightarrow> outcome \<Rightarrow> string" where
  "fallbackReason e r c oc = e @ ''.'' @ family_text (cv_family r) @ [CHR 0xE2, CHR 0x86, CHR 0x92]
     @ family_text (cv_family c) @ ''.'' @ outcome_text oc"

definition passesWorldStateSafetyFilter ::
    "retrieval_query \<Rightarrow> visual_asset \<Rightarrow> classified_variant \<Rightarrow> classified_variant \<Rightarrow> bool" where
  "passesWorldStateSafetyFilter q a r c = True"

definition candidate_less :: "scored_candidate \<Rightarrow> scored_candidate \<Rightarrow> bool" where
  "candidate_less a b =
     (if outcomeTier (sd_outcome a) \<noteq> outcomeTier (sd_outcome b)
      then outcomeTier (sd_outcome a) > outcomeTier (sd_outcome b)
      else if sd_score a \<noteq> sd_score b then sd_score a > sd_score b
      else if fallbackRankOf (sd_asset a) \<noteq> fallbackRankOf (sd_asset b)
      then fallbackRankOf (sd_asset a) < fallbackRankOf (sd_asset b)
      else va_id (sd_asset a) < va_id (sd_asset b))"

definition pickBest :: "scored_candidate list \<Rightarrow> scored_candidate" where
  "pickBest xs = hd (sort_by candidate_less xs)"

text \<open>One round of the loop of \<open>bestMatch\<close>: \<open>None\<close> is its \<open>continue\<close>.\<close>

definition score_match :: "retrieval_query \<Rightarrow> classified_variant \<Rightarrow> visual_asset \<Rightarrow> scored_candidate option" where
  "score_match q r c =
     (if \<not> candidateReusable c then None
      else
        let candidate = classifyVariant (rq_entity_type q) (va_variant_key c);
            (oc, score) = compareVariants (rq_entity_type q) r candidate
        in if oc = OutcomeExactMatch then None
           else if \<not> outcomeAllowedByPolicy oc (rq_fallback_policy q) then None
           else if \<not> passesWorldStateSafetyFilter q c r candidate then None
           else Some \<lparr>sd_asset = c, sd_outcome = oc, sd_score = score,
                  sd_reason = fallbackReason (rq_entity_type q) r candidate oc\<rparr>)"

definition bestMatch :: "retrieval_query \<Rightarrow> classified_variant \<Rightarrow> visual_asset list \<Rightarrow> retrieval_result option" where
  "bestMatch q r cs =
     (let qualifying = List.map_filter (score_match q r) cs
      in if qualifying = [] then None
         else let best = pickBest qualifying
              in Some \<lparr>re_match_type = sd_outcome best, re_asset = Some (sd_asset best),
                   re_compatibility_score = sd_score best, re_fallback_reason = sd_reason best,
                   re_generation_recommended = True\<rparr>)"

definition score_existing :: "retrieval_query \<Rightarrow> classified_variant \<Rightarrow> visual_asset \<Rightarrow> scored_candidate option" where
  "score_existing q r c =
     (if \<not> candidateReusable c then None
      else
        let (oc, score) = compareVariants (rq_entity_type q) r (classifyVariant (rq_entity_type q) (va_variant_key c))
        in if oc = OutcomeExactMatch then None
           else Some \<lparr>sd_asset = c, sd_outcome = OutcomePreviewFallback, sd_score = score,
                  sd_reason = ''any_existing.debug: best existing candidate (matrix produced no normal match)''\<rparr>)"

definition bestAnyExisting ::
    "retrieval_query \<Rightarrow> classified_variant \<Rightarrow> visual_asset list \<Rightarrow> retrieval_result option" where
  "bestAnyExisting q r cs =
     (let pool = List.map_filter (score_existing q r) cs
      in if pool = [] then None
         else let best = pickBest pool
              in Some \<lparr>re_match_type = OutcomePreviewFallback, re_asset = Some (sd_asset best),
                   re_compatibility_score = sd_score best, re_fallback_reason = sd_reason best,
                   re_generation_recommended = True\<rparr>)"

abbreviation errInvalidFallbackPolicy :: error where
  "errInvalidFallbackPolicy \<equiv> ErrOther ''assets: invalid fallback_policy''"

text \<open>\<open>fe\<close> and \<open>lc\<close> are the two methods of the \<open>CandidateSource\<close>.\<close>

definition retrieve ::
    "(retrieval_query \<Rightarrow> error + visual_asset) \<Rightarrow> (retrieval_query \<Rightarrow> error + visual_asset list)
     \<Rightarrow> retrieval_query \<Rightarrow> error + retrieval_result" where
  "retrieve fe lc q0 =
     (let policy = (if rq_fallback_policy q0 = '''' then FallbackPolicyCompatibleOnly else rq_fallback_policy q0)
      in if \<not> validFallbackPolicy policy then Inl errInvalidFallbackPolicy
         else
           let q = q0\<lparr>rq_fallback_policy := policy\<rparr>
           in (case fe q of
                 Inr a \<Rightarrow> Inr \<lparr>re_match_type = OutcomeExactMatch, re_asset = Some a, re_compatibility_score = 1,
                            re_fallback_reason = '''', re_generation_recommended = False\<rparr>
               | Inl e \<Rightarrow>
                   if e \<noteq> ErrNotFound then Inl e
                   else if policy = FallbackPolicyNone then Inr generatedRequired
                   else
                     (case lc q of
                        Inl e' \<Rightarrow> Inl e'
                      | Inr cs \<Rightarrow>
                          let r = classifyVariant (rq_entity_type q) (rq_variant_key q)
                          in (case bestMatch q r cs of
                                Some best \<Rightarrow> Inr best
                              | None \<Rightarrow>
                                  if policy = FallbackPolicyAnyExisting
                                  then (case bestAnyExisting q r cs of
                                          Some best \<Rightarrow> Inr best
                                        | None \<Rightarrow> Inr generatedRequired)
                                  else Inr generatedRequired))))"

section \<open>The best candidate\<close>

text \<open>The comparison is the lexicographic order of one key, with the identifier last.\<close>

definition candidate_key :: "scored_candidate \<Rightarrow> int \<times> rat \<times> int \<times> string" where
  "candidate_key s = (- outcomeTier (sd_outcome s), - sd_score s, fallbackRankOf (sd_asset s), va_id (sd_asset s))"

lemma candidate_less_key: "candidate_less a b \<longleftrightarrow> candidate_key a < candidate_key b"
  by (auto simp: candidate_less_def candidate_key_def less_prod_def)

lemma pickBest_key: "pickBest xs = hd (sort_key candidate_key xs)"
  by (simp add: pickBest_def sort_by_key [OF candidate_less_key])

lemma pickBest_in: "xs \<noteq> [] \<Longrightarrow> pickBest xs \<in> set xs"
  unfolding pickBest_key by (metis hd_in_set set_sort set_empty)

lemma pickBest_least:
  assumes "x \<in> set xs"
  shows "candidate_key (pickBest xs) \<le> candidate_key x"
proof -
  from assms obtain y ys where ys: "sort_key candidate_key xs = y # ys"
    by (metis list.exhaust list.set_cases set_sort set_empty)
  have "sorted (map candidate_key (y # ys))" using sorted_sort_key [of candidate_key xs] by (simp only: ys)
  then show ?thesis using assms set_sort [of candidate_key xs] by (auto simp: pickBest_key ys)
qed

lemma pickBest_unique:
  assumes "set xs = set ys" "xs \<noteq> []" "\<And>a b. a \<in> set xs \<Longrightarrow> b \<in> set xs \<Longrightarrow> va_id (sd_asset a) = va_id (sd_asset b) \<Longrightarrow> a = b"
  shows "pickBest xs = pickBest ys"
proof -
  have ne: "ys \<noteq> []" using assms(1,2) by auto
  note ins = pickBest_in [OF assms(2)] pickBest_in [OF ne]
  have "candidate_key (pickBest xs) = candidate_key (pickBest ys)"
    using pickBest_least ins assms(1) by (intro antisym) auto
  then have "va_id (sd_asset (pickBest xs)) = va_id (sd_asset (pickBest ys))" by (simp add: candidate_key_def)
  with assms(1,3) ins show ?thesis by blast
qed

lemma score_match_SomeD:
  assumes "score_match q r c = Some s"
  shows "sd_asset s = c \<and> candidateReusable c \<and> va_variant_key c \<noteq> cv_key r
    \<and> (sd_outcome s, sd_score s) = compareVariants (rq_entity_type q) r (classifyVariant (rq_entity_type q) (va_variant_key c))
    \<and> outcomeAllowedByPolicy (sd_outcome s) (rq_fallback_policy q)"
  using assms compareVariants_exact [of "rq_entity_type q" r "classifyVariant (rq_entity_type q) (va_variant_key c)"]
  by (auto simp: score_match_def Let_def split: if_splits prod.splits)

lemma score_existing_SomeD:
  "score_existing q r c = Some s \<Longrightarrow> sd_asset s = c \<and> candidateReusable c \<and> sd_outcome s = OutcomePreviewFallback
     \<and> va_variant_key c \<noteq> cv_key r"
  using compareVariants_exact [of "rq_entity_type q" r "classifyVariant (rq_entity_type q) (va_variant_key c)"]
  by (auto simp: score_existing_def Let_def split: if_splits prod.splits)

lemma bestMatch_SomeD:
  assumes "bestMatch q r cs = Some x"
  obtains c s where "c \<in> set cs" "score_match q r c = Some s" "re_asset x = Some c" "re_match_type x = sd_outcome s"
    "re_compatibility_score x = sd_score s" "re_generation_recommended x"
    "\<And>c' s'. c' \<in> set cs \<Longrightarrow> score_match q r c' = Some s' \<Longrightarrow> candidate_key s \<le> candidate_key s'"
proof -
  let ?xs = "List.map_filter (score_match q r) cs"
  from assms have ne: "?xs \<noteq> []" and x: "x = \<lparr>re_match_type = sd_outcome (pickBest ?xs), re_asset = Some (sd_asset (pickBest ?xs)),
      re_compatibility_score = sd_score (pickBest ?xs), re_fallback_reason = sd_reason (pickBest ?xs), re_generation_recommended = True\<rparr>"
    by (auto simp: bestMatch_def Let_def split: if_splits)
  from pickBest_in [OF ne] obtain c where c: "c \<in> set cs" "score_match q r c = Some (pickBest ?xs)"
    by (auto simp: List.map_filter_def)
  have least: "candidate_key (pickBest ?xs) \<le> candidate_key s'"
    if "c' \<in> set cs" "score_match q r c' = Some s'" for c' s'
    using that by (intro pickBest_least) (force simp: List.map_filter_def)
  show thesis using that [OF c _ _ _ _ least] x score_match_SomeD [OF c(2)] by simp
qed

lemma bestMatch_NoneD: "bestMatch q r cs = None \<Longrightarrow> c \<in> set cs \<Longrightarrow> score_match q r c = None"
  by (auto simp: bestMatch_def Let_def List.map_filter_def filter_empty_conv split: if_splits)

lemma bestAnyExisting_SomeD:
  assumes "bestAnyExisting q r cs = Some x"
  obtains c where "c \<in> set cs" "candidateReusable c" "va_variant_key c \<noteq> cv_key r" "re_asset x = Some c"
    "re_match_type x = OutcomePreviewFallback" "re_generation_recommended x"
proof -
  let ?xs = "List.map_filter (score_existing q r) cs"
  from assms have ne: "?xs \<noteq> []" and x: "x = \<lparr>re_match_type = OutcomePreviewFallback, re_asset = Some (sd_asset (pickBest ?xs)),
      re_compatibility_score = sd_score (pickBest ?xs), re_fallback_reason = sd_reason (pickBest ?xs), re_generation_recommended = True\<rparr>"
    by (auto simp: bestAnyExisting_def Let_def split: if_splits)
  from pickBest_in [OF ne] obtain c where "c \<in> set cs" "score_existing q r c = Some (pickBest ?xs)"
    by (auto simp: List.map_filter_def)
  with x that score_existing_SomeD [OF this(2)] show thesis by auto
qed

section \<open>The candidate source\<close>

text \<open>
  What the retriever relies on, for the database the source reads: both methods answer only for
  the asked owner, identity, state and style, with ready rows; the exact one with the asked
  key, the candidate list without identity anchors. Under this contract every answer of the
  retriever is a ready asset of the asked identity, and a substitute is never an anchor, never
  of the asked key and never outside the fallback policy.
\<close>

locale candidate_source =
  fixes fe :: "retrieval_query \<Rightarrow> error + visual_asset" and lc :: "retrieval_query \<Rightarrow> error + visual_asset list"
  assumes exact_law: "fe q = Inr a \<Longrightarrow> same_owner q a \<and> va_variant_key a = rq_variant_key q"
    and list_law: "lc q = Inr cs \<Longrightarrow> c \<in> set cs \<Longrightarrow> same_owner q c \<and> \<not> va_is_identity_anchor c"
begin

lemma same_owner_policy [simp]: "same_owner (q\<lparr>rq_fallback_policy := p\<rparr>) a = same_owner q a"
  by (simp add: same_owner_def)

lemma retrieve_sound:
  assumes "retrieve fe lc q = Inr x" "re_asset x = Some a"
  shows "same_owner q a
    \<and> (if va_variant_key a = rq_variant_key q then re_match_type x = OutcomeExactMatch \<and> \<not> re_generation_recommended x
       else \<not> va_is_identity_anchor a \<and> re_generation_recommended x
         \<and> rq_fallback_policy q \<noteq> FallbackPolicyNone
         \<and> (rq_fallback_policy q \<noteq> FallbackPolicyAnyExisting \<longrightarrow>
              fst (compareVariants (rq_entity_type q) (classifyVariant (rq_entity_type q) (rq_variant_key q))
                    (classifyVariant (rq_entity_type q) (va_variant_key a))) = re_match_type x
              \<and> outcomeAllowedByPolicy (re_match_type x)
                    (if rq_fallback_policy q = '''' then FallbackPolicyCompatibleOnly else rq_fallback_policy q)))"
proof -
  define policy where "policy = (if rq_fallback_policy q = '''' then FallbackPolicyCompatibleOnly else rq_fallback_policy q)"
  let ?q = "q\<lparr>rq_fallback_policy := policy\<rparr>"
  let ?r = "classifyVariant (rq_entity_type q) (rq_variant_key q)"
  from assms(1) have valid: "validFallbackPolicy policy" by (auto simp: retrieve_def policy_def Let_def split: if_splits)
  show ?thesis
  proof (cases "fe ?q")
    case (Inr b)
    with assms valid have "b = a" "re_match_type x = OutcomeExactMatch" "\<not> re_generation_recommended x"
      by (auto simp: retrieve_def policy_def [symmetric] Let_def)
    with exact_law [OF Inr] show ?thesis by simp
  next
    case (Inl e)
    with assms valid obtain cs where cs: "policy \<noteq> FallbackPolicyNone" "lc ?q = Inr cs"
      and alt: "bestMatch ?q ?r cs = Some x \<or> policy = FallbackPolicyAnyExisting \<and> bestAnyExisting ?q ?r cs = Some x"
      by (auto simp: retrieve_def policy_def [symmetric] Let_def generatedRequired_def split: if_splits sum.splits option.splits)
    have pol: "rq_fallback_policy q \<noteq> FallbackPolicyNone" using cs(1) by (auto simp: policy_def)
    from alt show ?thesis
    proof
      assume "bestMatch ?q ?r cs = Some x"
      then obtain c s where c: "c \<in> set cs" "score_match ?q ?r c = Some s" "re_asset x = Some c" "re_match_type x = sd_outcome s"
        "re_generation_recommended x" by (rule bestMatch_SomeD)
      from score_match_SomeD [OF c(2)] c assms(2) list_law [OF cs(2) c(1)] pol show ?thesis
        by (auto simp: policy_def [symmetric] dest!: arg_cong [of _ _ fst])
    next
      assume any: "policy = FallbackPolicyAnyExisting \<and> bestAnyExisting ?q ?r cs = Some x"
      then obtain c where c: "c \<in> set cs" "va_variant_key c \<noteq> cv_key ?r" "re_asset x = Some c" "re_generation_recommended x"
        using bestAnyExisting_SomeD by blast
      from any have "rq_fallback_policy q = FallbackPolicyAnyExisting" by (auto simp: policy_def split: if_splits)
      with c assms(2) list_law [OF cs(2) c(1)] show ?thesis by auto
    qed
  qed
qed

end

interpretation repository: candidate_source "findExact coll d" "listRetrievalCandidates coll d" for coll d
  by unfold_locales
    (auto simp: findExact_def listRetrievalCandidates_def dest!: first_by_SomeD split: if_splits option.splits)

end
