(* ===== verification/Routing.thy ===== *)
theory Routing
  imports Prelude "HOL-Library.Char_ord" "HOL-Library.List_Lexorder" "HOL-Library.Product_Lexorder"
    "HOL-Library.Multiset"
begin

text \<open>
  Choosing a provider route, \<open>internal/providers/routing/routing.go\<close>, over the capability
  hierarchy of \<open>internal/providers/capability.go\<close>, and the reconciliation of the configured
  routes with what the adapters advertise, \<open>reconcile.go\<close>. The route source (a query joined
  to model status and active price) is a parameter; prices are rationals. The identifiers are
  compared by bytes, as Go compares strings.
\<close>

section \<open>Capabilities\<close>

abbreviation CapabilityDraftOnly :: string where "CapabilityDraftOnly \<equiv> ''draft_only''"
abbreviation CapabilitySceneCapable :: string where "CapabilitySceneCapable \<equiv> ''scene_capable''"
abbreviation CapabilityIdentityCapable :: string where "CapabilityIdentityCapable \<equiv> ''identity_capable''"
abbreviation CapabilityPackCapable :: string where "CapabilityPackCapable \<equiv> ''pack_capable''"
abbreviation CapabilityProductionCapable :: string where "CapabilityProductionCapable \<equiv> ''production_capable''"

definition capabilityImplications :: "string \<Rightarrow> string list" where
  "capabilityImplications h =
     (if h = CapabilityProductionCapable
      then [CapabilityProductionCapable, CapabilityPackCapable, CapabilityIdentityCapable]
      else if h = CapabilityPackCapable then [CapabilityPackCapable, CapabilityIdentityCapable]
      else if h = CapabilityIdentityCapable then [CapabilityIdentityCapable]
      else if h = CapabilitySceneCapable then [CapabilitySceneCapable]
      else if h = CapabilityDraftOnly then [CapabilityDraftOnly]
      else [])"

definition capabilitySatisfies :: "string \<Rightarrow> string \<Rightarrow> bool" where
  "capabilitySatisfies h n \<longleftrightarrow> h = n \<or> n \<in> set (capabilityImplications h)"

definition capabilitiesSatisfy :: "string list \<Rightarrow> string \<Rightarrow> bool" where
  "capabilitiesSatisfy hs n \<longleftrightarrow> list_ex (\<lambda>h. capabilitySatisfies h n) hs"

definition isIdentityAxisCapability :: "string \<Rightarrow> bool" where
  "isIdentityAxisCapability n \<longleftrightarrow> capabilitySatisfies CapabilityProductionCapable n"

text \<open>The fields of \<open>ProviderCapabilities\<close> that routing reads; a missing map entry is the zero value.\<close>

record provider_capabilities =
  pc_capabilities :: "string list"
  pc_synthetic :: bool

type_synonym capability_index = "(string \<times> provider_capabilities) list"

definition caps_of :: "capability_index \<Rightarrow> string \<Rightarrow> provider_capabilities" where
  "caps_of index p = (case map_of index p of None \<Rightarrow> \<lparr>pc_capabilities = [], pc_synthetic = False\<rparr> | Some c \<Rightarrow> c)"

definition providerSatisfiesRoute :: "provider_capabilities \<Rightarrow> string \<Rightarrow> bool \<Rightarrow> bool" where
  "providerSatisfiesRoute c n allow \<longleftrightarrow>
     (if pc_synthetic c \<and> \<not> allow then False else capabilitiesSatisfy (pc_capabilities c) n)"

section \<open>Routes and requests\<close>

record route =
  ro_route_id :: string
  ro_provider_id :: string
  ro_model_id :: string
  ro_operation_type :: string
  ro_required_capability :: string
  ro_preview_capability :: string
  ro_quality_tier :: string
  ro_latency_tier :: string
  ro_priority :: int
  ro_enabled :: bool
  ro_model_active :: bool
  ro_price :: "rat option"

record resolve_request =
  qr_operation_type :: string
  qr_quality_tier :: string
  qr_latency_tier :: string
  qr_required_capability :: string
  qr_required_preview_capability :: string
  qr_provider_preference :: string
  qr_provider_id :: string
  qr_intent :: string

record routed =
  rw_provider_id :: string
  rw_route_id :: string
  rw_model_id :: string
  rw_operation_type :: string
  rw_preview_capability :: string
  rw_quality_tier :: string

datatype routing_error =
    ErrNoRoute
  | ErrUnsupportedCapability
  | ErrProviderUnavailableForRoute
  | ErrRouteProviderCapabilityMismatch
  | ErrRequestedProviderUnavailable
  | RouteSourceErr error

record resolver =
  rs_source :: "string \<Rightarrow> error + route list"
  rs_available :: "string list"
  rs_capabilities :: capability_index
  rs_allow_synthetic :: bool

section \<open>The hard filters\<close>

text \<open>One stage: filter, and fail with \<open>e\<close> when nothing survives.\<close>

definition stage :: "routing_error \<Rightarrow> (route \<Rightarrow> bool) \<Rightarrow> route list \<Rightarrow> routing_error + route list" where
  "stage e P rs = (let fs = filter P rs in if fs = [] then Inl e else Inr fs)"

definition stage_if :: "bool \<Rightarrow> routing_error \<Rightarrow> (route \<Rightarrow> bool) \<Rightarrow> route list \<Rightarrow> routing_error + route list" where
  "stage_if b e P rs = (if b then stage e P rs else Inr rs)"

definition andThen :: "'e + 'a \<Rightarrow> ('a \<Rightarrow> 'e + 'b) \<Rightarrow> 'e + 'b" where
  "andThen m f = (case m of Inl e \<Rightarrow> Inl e | Inr a \<Rightarrow> f a)"

definition meets_capability :: "resolve_request \<Rightarrow> route \<Rightarrow> bool" where
  "meets_capability req rt \<longleftrightarrow>
     (if qr_intent req \<noteq> '''' then capabilitySatisfies (ro_required_capability rt) (qr_required_capability req)
      else ro_required_capability rt = qr_required_capability req)"

definition backed :: "resolver \<Rightarrow> route \<Rightarrow> bool" where
  "backed r rt \<longleftrightarrow> ro_required_capability rt = ''''
     \<or> providerSatisfiesRoute (caps_of (rs_capabilities r) (ro_provider_id rt)) (ro_required_capability rt) (rs_allow_synthetic r)"

definition candidates :: "resolver \<Rightarrow> resolve_request \<Rightarrow> routing_error + route list" where
  "candidates r req =
     (case rs_source r (qr_operation_type req) of
        Inl e \<Rightarrow> Inl (RouteSourceErr e)
      | Inr routes \<Rightarrow>
          andThen (stage ErrNoRoute (\<lambda>rt. ro_enabled rt \<and> ro_model_active rt
                     \<and> ro_operation_type rt = qr_operation_type req) routes) (\<lambda>active.
          andThen (if qr_provider_id req = '''' then Inr active
                   else if qr_provider_id req \<notin> set (rs_available r) then Inl ErrRequestedProviderUnavailable
                   else stage ErrNoRoute (\<lambda>rt. ro_provider_id rt = qr_provider_id req) active) (\<lambda>pinned.
          andThen (stage ErrProviderUnavailableForRoute (\<lambda>rt. ro_provider_id rt \<in> set (rs_available r)) pinned) (\<lambda>avail.
          andThen (stage_if (qr_quality_tier req \<noteq> '''') ErrNoRoute
                     (\<lambda>rt. ro_quality_tier rt = qr_quality_tier req) avail) (\<lambda>tiered.
          andThen (stage_if (qr_required_capability req \<noteq> '''') ErrUnsupportedCapability
                     (meets_capability req) tiered) (\<lambda>capable.
          andThen (stage_if (qr_required_preview_capability req \<noteq> '''' \<and> qr_required_preview_capability req \<noteq> ''no_preview'')
                     ErrUnsupportedCapability
                     (\<lambda>rt. ro_preview_capability rt = qr_required_preview_capability req) capable) (\<lambda>previewed.
          stage_if (rs_capabilities r \<noteq> []) ErrRouteProviderCapabilityMismatch (backed r) previewed)))))))"

section \<open>Ranking\<close>

definition qualityTierRank :: "string \<Rightarrow> int" where
  "qualityTierRank t = (if t = ''high'' then 3 else if t = ''standard'' then 2 else if t = ''draft'' then 1 else 0)"

text \<open>The tie-break shared by all intents.\<close>

definition tie_before :: "resolve_request \<Rightarrow> route \<Rightarrow> route \<Rightarrow> bool" where
  "tie_before req a b =
     (let am = ro_latency_tier a = qr_latency_tier req; bm = ro_latency_tier b = qr_latency_tier req;
          ap = ro_provider_id a = qr_provider_preference req; bp = ro_provider_id b = qr_provider_preference req
      in if qr_latency_tier req \<noteq> '''' \<and> am \<noteq> bm then am
         else if qr_provider_preference req \<noteq> '''' \<and> ap \<noteq> bp then ap
         else if ro_priority a \<noteq> ro_priority b then ro_priority a < ro_priority b
         else if ro_provider_id a \<noteq> ro_provider_id b then ro_provider_id a < ro_provider_id b
         else if ro_model_id a \<noteq> ro_model_id b then ro_model_id a < ro_model_id b
         else ro_route_id a < ro_route_id b)"

definition ranksBefore :: "resolve_request \<Rightarrow> route \<Rightarrow> route \<Rightarrow> bool" where
  "ranksBefore req a b =
     (if qr_intent req = ''draft'' then
        (case (ro_price a, ro_price b) of
           (None, None) \<Rightarrow> tie_before req a b
         | (None, Some _) \<Rightarrow> False
         | (Some _, None) \<Rightarrow> True
         | (Some x, Some y) \<Rightarrow> if x \<noteq> y then x < y else tie_before req a b)
      else if qr_intent req = ''commit'' then
        (let ar = qualityTierRank (ro_quality_tier a); br = qualityTierRank (ro_quality_tier b);
             ai = isIdentityAxisCapability (ro_required_capability a);
             bi = isIdentityAxisCapability (ro_required_capability b)
         in if ar \<noteq> br then ar > br
            else if ai \<noteq> bi then ai
            else tie_before req a b)
      else tie_before req a b)"

definition resolvedRouteFrom :: "route \<Rightarrow> routed" where
  "resolvedRouteFrom rt =
     \<lparr>rw_provider_id = ro_provider_id rt, rw_route_id = ro_route_id rt, rw_model_id = ro_model_id rt,
      rw_operation_type = ro_operation_type rt, rw_preview_capability = ro_preview_capability rt,
      rw_quality_tier = ro_quality_tier rt\<rparr>"

text \<open>The scan for the best candidate.\<close>

fun best_of :: "resolve_request \<Rightarrow> route \<Rightarrow> route list \<Rightarrow> route" where
  "best_of req best [] = best"
| "best_of req best (rt # rts) = best_of req (if ranksBefore req rt best then rt else best) rts"

definition resolve :: "resolver \<Rightarrow> resolve_request \<Rightarrow> routing_error + routed" where
  "resolve r req =
     (case candidates r req of
        Inl e \<Rightarrow> Inl e
      | Inr cs \<Rightarrow> Inr (resolvedRouteFrom (best_of req (hd cs) (tl cs))))"

definition resolveChain :: "resolver \<Rightarrow> resolve_request \<Rightarrow> routing_error + routed list" where
  "resolveChain r req =
     (case candidates r req of
        Inl e \<Rightarrow> Inl e
      | Inr cs \<Rightarrow> Inr (map resolvedRouteFrom (sort_by (ranksBefore req) cs)))"

section \<open>Reconciliation\<close>

record identity_readiness =
  ir_real_identity_capable :: bool
  ir_synthetic_identity_capable :: bool
  ir_real_providers :: "string list"
  ir_synthetic_providers :: "string list"

definition assessIdentityReadiness :: "capability_index \<Rightarrow> identity_readiness" where
  "assessIdentityReadiness index =
     (let able = filter (\<lambda>(p, c). capabilitiesSatisfy (pc_capabilities c) CapabilityIdentityCapable) index;
          real = map fst (filter (\<lambda>(p, c). \<not> pc_synthetic c) able);
          synth = map fst (filter (\<lambda>(p, c). pc_synthetic c) able)
      in \<lparr>ir_real_identity_capable = real \<noteq> [], ir_synthetic_identity_capable = synth \<noteq> [],
          ir_real_providers = real, ir_synthetic_providers = synth\<rparr>)"

record route_decision =
  rd_route_id :: string
  rd_provider_id :: string
  rd_model_id :: string
  rd_required_capability :: string
  rd_provider_capabilities :: "string list"
  rd_valid :: bool
  rd_reason :: string

definition decide_route :: "capability_index \<Rightarrow> bool \<Rightarrow> route \<Rightarrow> route_decision" where
  "decide_route index allow rt =
     (let caps = caps_of index (ro_provider_id rt);
          verdict =
            (if pc_capabilities caps = [] then (False, ''provider_not_registered'')
             else if ro_required_capability rt = '''' \<or> providerSatisfiesRoute caps (ro_required_capability rt) allow
             then (True, '''')
             else if pc_synthetic caps \<and> capabilitiesSatisfy (pc_capabilities caps) (ro_required_capability rt)
             then (False, ''synthetic_identity_disabled'')
             else (False, ''provider_capability_mismatch''))
      in \<lparr>rd_route_id = ro_route_id rt, rd_provider_id = ro_provider_id rt, rd_model_id = ro_model_id rt,
          rd_required_capability = ro_required_capability rt, rd_provider_capabilities = pc_capabilities caps,
          rd_valid = fst verdict, rd_reason = snd verdict\<rparr>)"

record reconcile_report =
  rp_decisions :: "route_decision list"
  rp_readiness :: identity_readiness
  rp_allow_synthetic :: bool

definition reconcile :: "route list \<Rightarrow> capability_index \<Rightarrow> bool \<Rightarrow> reconcile_report" where
  "reconcile routes index allow =
     \<lparr>rp_decisions = map (decide_route index allow) routes, rp_readiness = assessIdentityReadiness index,
      rp_allow_synthetic = allow\<rparr>"

definition invalidCount :: "reconcile_report \<Rightarrow> nat" where
  "invalidCount r = length (filter (\<lambda>d. \<not> rd_valid d) (rp_decisions r))"

fun gatherRoutes :: "(string \<Rightarrow> error + route list) \<Rightarrow> string list \<Rightarrow> error + route list" where
  "gatherRoutes src [] = Inr []"
| "gatherRoutes src (p # ps) =
     (case src p of
        Inl e \<Rightarrow> Inl e
      | Inr rs \<Rightarrow> (case gatherRoutes src ps of Inl e \<Rightarrow> Inl e | Inr rest \<Rightarrow> Inr (rs @ rest)))"

section \<open>The hierarchy is an order\<close>

lemma capabilitySatisfies_iff:
  "capabilitySatisfies h n \<longleftrightarrow> h = n
     \<or> h = CapabilityProductionCapable \<and> (n = CapabilityPackCapable \<or> n = CapabilityIdentityCapable)
     \<or> h = CapabilityPackCapable \<and> n = CapabilityIdentityCapable"
proof (cases "h \<in> {CapabilityProductionCapable, CapabilityPackCapable, CapabilityIdentityCapable, CapabilitySceneCapable, CapabilityDraftOnly}")
  case True
  then show ?thesis
    by (elim insertE emptyE) (simp_all add: capabilitySatisfies_def capabilityImplications_def eq_commute [of n])
next
  case False
  then show ?thesis by (simp add: capabilitySatisfies_def capabilityImplications_def)
qed

lemma capabilitySatisfies_refl [simp]: "capabilitySatisfies h h"
  by (simp add: capabilitySatisfies_def)

lemma capabilitySatisfies_trans:
  "capabilitySatisfies x y \<Longrightarrow> capabilitySatisfies y z \<Longrightarrow> capabilitySatisfies x z"
  unfolding capabilitySatisfies_iff by (elim disjE conjE) simp_all

lemma capabilitySatisfies_antisym:
  "capabilitySatisfies x y \<Longrightarrow> capabilitySatisfies y x \<Longrightarrow> x = y"
  unfolding capabilitySatisfies_iff by (elim disjE conjE) simp_all

lemma capabilitiesSatisfy_mono:
  "capabilitiesSatisfy hs y \<Longrightarrow> capabilitySatisfies y z \<Longrightarrow> capabilitiesSatisfy hs z"
  by (auto simp: capabilitiesSatisfy_def list_ex_iff intro: capabilitySatisfies_trans)
section \<open>What survives the filters\<close>

definition survives :: "resolver \<Rightarrow> resolve_request \<Rightarrow> route \<Rightarrow> bool" where
  "survives r req rt \<longleftrightarrow>
     ro_enabled rt \<and> ro_model_active rt \<and> ro_operation_type rt = qr_operation_type req
     \<and> (qr_provider_id req = '''' \<or> ro_provider_id rt = qr_provider_id req)
     \<and> ro_provider_id rt \<in> set (rs_available r)
     \<and> (qr_quality_tier req = '''' \<or> ro_quality_tier rt = qr_quality_tier req)
     \<and> (qr_required_capability req = '''' \<or> meets_capability req rt)
     \<and> (qr_required_preview_capability req = '''' \<or> qr_required_preview_capability req = ''no_preview''
         \<or> ro_preview_capability rt = qr_required_preview_capability req)
     \<and> (rs_capabilities r = [] \<or> backed r rt)"

lemma andThen_Inr [simp]: "andThen m f = Inr b \<longleftrightarrow> (\<exists>a. m = Inr a \<and> f a = Inr b)"
  by (simp add: andThen_def split: sum.splits)

lemma stage_Inr [simp]: "stage e P rs = Inr fs \<longleftrightarrow> fs = filter P rs \<and> fs \<noteq> []"
  by (auto simp: stage_def Let_def)

lemma stage_if_Inr:
  "rs \<noteq> [] \<Longrightarrow> stage_if b e P rs = Inr fs \<longleftrightarrow> fs = filter (\<lambda>x. \<not> b \<or> P x) rs \<and> fs \<noteq> []"
  by (auto simp: stage_if_def)

lemma pin_Inr:
  assumes "rs \<noteq> []"
  shows "(if p = '''' then Inr rs else if A then Inl e else stage e' (\<lambda>rt. ro_provider_id rt = p) rs) = Inr fs
    \<Longrightarrow> fs = filter (\<lambda>rt. p = '''' \<or> ro_provider_id rt = p) rs \<and> fs \<noteq> []"
  using assms by (auto split: if_splits)

lemma candidates_Inr:
  assumes "candidates r req = Inr cs"
  shows "\<exists>routes. rs_source r (qr_operation_type req) = Inr routes \<and> cs = filter (survives r req) routes \<and> cs \<noteq> []"
proof -
  from assms obtain routes where src: "rs_source r (qr_operation_type req) = Inr routes"
    by (auto simp: candidates_def split: sum.splits)
  let ?a1 = "filter (\<lambda>rt. ro_enabled rt \<and> ro_model_active rt \<and> ro_operation_type rt = qr_operation_type req) routes"
  from assms src obtain a2 a3 a4 a5 a6 where a1: "?a1 \<noteq> []"
    and s2: "(if qr_provider_id req = '''' then Inr ?a1
                   else if qr_provider_id req \<notin> set (rs_available r) then Inl ErrRequestedProviderUnavailable
                   else stage ErrNoRoute (\<lambda>rt. ro_provider_id rt = qr_provider_id req) ?a1) = Inr a2"
    and s3: "stage ErrProviderUnavailableForRoute (\<lambda>rt. ro_provider_id rt \<in> set (rs_available r)) a2 = Inr a3"
    and s4: "stage_if (qr_quality_tier req \<noteq> '''') ErrNoRoute
                     (\<lambda>rt. ro_quality_tier rt = qr_quality_tier req) a3 = Inr a4"
    and s5: "stage_if (qr_required_capability req \<noteq> '''') ErrUnsupportedCapability
                     (meets_capability req) a4 = Inr a5"
    and s6: "stage_if (qr_required_preview_capability req \<noteq> '''' \<and> qr_required_preview_capability req \<noteq> ''no_preview'')
                     ErrUnsupportedCapability
                     (\<lambda>rt. ro_preview_capability rt = qr_required_preview_capability req) a5 = Inr a6"
    and s7: "stage_if (rs_capabilities r \<noteq> []) ErrRouteProviderCapabilityMismatch (backed r) a6 = Inr cs"
    unfolding candidates_def by (simp only: sum.case andThen_Inr stage_Inr) blast
  note a2 = conjunct1 [OF pin_Inr [OF a1 s2]]
  note a3 = conjunct1 [OF iffD1 [OF stage_Inr s3]]
  note n3 = conjunct2 [OF iffD1 [OF stage_Inr s3]]
  note a4 = s4 [unfolded stage_if_Inr [OF n3]]
  note a5 = s5 [unfolded stage_if_Inr [OF conjunct2 [OF a4]]]
  note a6 = s6 [unfolded stage_if_Inr [OF conjunct2 [OF a5]]]
  note a7 = s7 [unfolded stage_if_Inr [OF conjunct2 [OF a6]]]
  have "cs = filter (survives r req) routes"
    unfolding conjunct1 [OF a7] conjunct1 [OF a6] conjunct1 [OF a5] conjunct1 [OF a4] a3 a2 filter_filter
    by (rule filter_cong [OF refl]) (auto simp only: survives_def not_not de_Morgan_conj)
  with src a7 show ?thesis by blast
qed

lemma candidates_Inl_aux:
  assumes "candidates r req = Inl e" "rs_source r (qr_operation_type req) = Inr routes"
    "qr_provider_id req = '''' \<or> qr_provider_id req \<in> set (rs_available r)"
  shows "filter (survives r req) routes = []"
proof (rule filter_False, rule ballI, rule notI)
  fix rt assume rt: "rt \<in> set routes" and s: "survives r req rt"
  have ne: "rt \<in> set rs \<Longrightarrow> P rt \<Longrightarrow> \<exists>fs. stage e' P rs = Inr fs \<and> rt \<in> set fs" for e' P rs
    by (auto simp: filter_empty_conv)
  have ni: "rt \<in> set rs \<Longrightarrow> \<not> b \<or> P rt \<Longrightarrow> \<exists>fs. stage_if b e' P rs = Inr fs \<and> rt \<in> set fs" for b e' P rs
    using ne by (auto simp: stage_if_def filter_empty_conv)
  let ?a1 = "filter (\<lambda>rt. ro_enabled rt \<and> ro_model_active rt \<and> ro_operation_type rt = qr_operation_type req) routes"
  have m1: "rt \<in> set ?a1" using rt s by (simp add: survives_def)
  have "\<exists>a2. (if qr_provider_id req = '''' then Inr ?a1
                   else if qr_provider_id req \<notin> set (rs_available r) then Inl ErrRequestedProviderUnavailable
                   else stage ErrNoRoute (\<lambda>rt. ro_provider_id rt = qr_provider_id req) ?a1) = Inr a2 \<and> rt \<in> set a2"
    using assms(3) s m1 ne [OF m1, of "\<lambda>rt. ro_provider_id rt = qr_provider_id req" ErrNoRoute] by (auto simp: survives_def)
  then obtain a2 where s2: "(if qr_provider_id req = '''' then Inr ?a1
                   else if qr_provider_id req \<notin> set (rs_available r) then Inl ErrRequestedProviderUnavailable
                   else stage ErrNoRoute (\<lambda>rt. ro_provider_id rt = qr_provider_id req) ?a1) = Inr a2" and m2: "rt \<in> set a2" by blast
  obtain a3 where s3: "stage ErrProviderUnavailableForRoute (\<lambda>rt. ro_provider_id rt \<in> set (rs_available r)) a2 = Inr a3" "rt \<in> set a3"
    using ne [OF m2, of "\<lambda>rt. ro_provider_id rt \<in> set (rs_available r)"] s by (auto simp: survives_def)
  from s have c4: "\<not> qr_quality_tier req \<noteq> '''' \<or> ro_quality_tier rt = qr_quality_tier req" by (simp add: survives_def)
  obtain a4 where s4: "stage_if (qr_quality_tier req \<noteq> '''') ErrNoRoute
                     (\<lambda>rt. ro_quality_tier rt = qr_quality_tier req) a3 = Inr a4" "rt \<in> set a4"
    using ni [where P = "\<lambda>rt. ro_quality_tier rt = qr_quality_tier req", OF s3(2) c4] by blast
  from s have c5: "\<not> qr_required_capability req \<noteq> '''' \<or> meets_capability req rt" by (simp add: survives_def)
  obtain a5 where s5: "stage_if (qr_required_capability req \<noteq> '''') ErrUnsupportedCapability
                     (meets_capability req) a4 = Inr a5" "rt \<in> set a5"
    using ni [where P = "meets_capability req", OF s4(2) c5] by blast
  from s have c6: "\<not> (qr_required_preview_capability req \<noteq> '''' \<and> qr_required_preview_capability req \<noteq> ''no_preview'') \<or> ro_preview_capability rt = qr_required_preview_capability req" by (simp add: survives_def)
  obtain a6 where s6: "stage_if (qr_required_preview_capability req \<noteq> '''' \<and> qr_required_preview_capability req \<noteq> ''no_preview'')
                     ErrUnsupportedCapability
                     (\<lambda>rt. ro_preview_capability rt = qr_required_preview_capability req) a5 = Inr a6" "rt \<in> set a6"
    using ni [where P = "\<lambda>rt. ro_preview_capability rt = qr_required_preview_capability req", OF s5(2) c6] by blast
  from s have c7: "\<not> rs_capabilities r \<noteq> [] \<or> backed r rt" by (simp add: survives_def)
  obtain a7 where s7: "stage_if (rs_capabilities r \<noteq> []) ErrRouteProviderCapabilityMismatch (backed r) a6 = Inr a7"
    using ni [where P = "backed r", OF s6(2) c7] by blast
  have "?a1 \<noteq> []" using m1 by (auto simp del: set_filter)
  then have s1: "stage ErrNoRoute (\<lambda>rt. ro_enabled rt \<and> ro_model_active rt \<and> ro_operation_type rt = qr_operation_type req) routes = Inr ?a1"
    by (simp only: stage_Inr) simp
  have "candidates r req = Inr a7"
    unfolding candidates_def assms(2) sum.case andThen_Inr
    by (intro exI conjI) (rule s1 s2 s3(1) s4(1) s5(1) s6(1) s7)+
  with assms(1) show False by simp
qed
lemma candidates_Inl:
  assumes "candidates r req = Inl e" "rs_source r (qr_operation_type req) = Inr routes"
  shows "filter (survives r req) routes = []"
proof (cases "qr_provider_id req = '''' \<or> qr_provider_id req \<in> set (rs_available r)")
  case False
  then show ?thesis by (auto simp: survives_def filter_empty_conv)
qed (rule candidates_Inl_aux [OF assms])

lemma candidates_iff:
  assumes "rs_source r (qr_operation_type req) = Inr routes" "filter (survives r req) routes \<noteq> []"
  shows "candidates r req = Inr (filter (survives r req) routes)"
  using candidates_Inl [OF _ assms(1)] candidates_Inr [of r req] assms by (cases "candidates r req") auto

section \<open>The ranking is a linear order\<close>

definition intent_key :: "resolve_request \<Rightarrow> route \<Rightarrow> int \<times> rat" where
  "intent_key req a =
     (if qr_intent req = ''draft'' then (case ro_price a of None \<Rightarrow> (1, 0) | Some x \<Rightarrow> (0, x))
      else if qr_intent req = ''commit''
      then (- qualityTierRank (ro_quality_tier a), if isIdentityAxisCapability (ro_required_capability a) then 0 else 1)
      else (0, 0))"

definition rank_key :: "resolve_request \<Rightarrow> route \<Rightarrow> (int \<times> rat) \<times> nat \<times> nat \<times> int \<times> string \<times> string \<times> string" where
  "rank_key req a =
     (intent_key req a,
      of_bool (qr_latency_tier req \<noteq> '''' \<and> ro_latency_tier a \<noteq> qr_latency_tier req),
      of_bool (qr_provider_preference req \<noteq> '''' \<and> ro_provider_id a \<noteq> qr_provider_preference req),
      ro_priority a, ro_provider_id a, ro_model_id a, ro_route_id a)"

lemma tie_before_key:
  "tie_before req a b \<longleftrightarrow> snd (rank_key req a) < snd (rank_key req b)"
  by (auto simp: tie_before_def rank_key_def Let_def of_bool_def)

lemma ranksBefore_intent:
  "ranksBefore req a b \<longleftrightarrow>
     intent_key req a < intent_key req b \<or> intent_key req a = intent_key req b \<and> tie_before req a b"
  by (auto simp: ranksBefore_def intent_key_def Let_def split: option.splits)

lemma ranksBefore_key: "ranksBefore req a b \<longleftrightarrow> rank_key req a < rank_key req b"
  unfolding ranksBefore_intent tie_before_key by (auto simp: rank_key_def)

lemma hd_insort_key:
  fixes k :: "'a \<Rightarrow> 'k :: linorder"
  shows "hd (insort_key k x ys) = (if ys = [] \<or> k x \<le> k (hd ys) then x else hd ys)"
  by (cases ys) auto

lemma sort_by_ranksBefore: "sort_by (ranksBefore req) = sort_key (rank_key req)"
  by (rule ext, rule sort_by_key, rule ranksBefore_key)

lemma best_of_hd: "best_of req b xs = hd (sort_key (rank_key req) (b # xs))"
proof (induction xs arbitrary: b)
  case (Cons x xs)
  have "hd (sort_key (rank_key req) ((if rank_key req x < rank_key req b then x else b) # xs))
      = hd (sort_key (rank_key req) (b # x # xs))"
    by (auto simp: hd_insort_key)
  then show ?case by (simp add: Cons.IH ranksBefore_key del: sort_key_simps)
qed simp

lemma resolve_hd_chain:
  "resolve r req = (case resolveChain r req of Inl e \<Rightarrow> Inl e | Inr chain \<Rightarrow> Inr (hd chain))"
proof (cases "candidates r req")
  case (Inr cs)
  then obtain c cs' where "cs = c # cs'" using candidates_Inr by (metis list.exhaust)
  moreover have "hd (map resolvedRouteFrom (sort_key (rank_key req) (c # cs')))
      = resolvedRouteFrom (hd (sort_key (rank_key req) (c # cs')))"
    by (rule hd_map) (metis list.distinct(1) length_0_conv length_sort)
  ultimately show ?thesis
    using Inr by (simp add: resolve_def resolveChain_def best_of_hd sort_by_ranksBefore del: sort_key_simps)
qed (simp add: resolve_def resolveChain_def)

lemma resolveChain_survivors:
  assumes "rs_source r (qr_operation_type req) = Inr routes" "filter (survives r req) routes \<noteq> []"
  shows "resolveChain r req = Inr (map resolvedRouteFrom (sort_key (rank_key req) (filter (survives r req) routes)))"
  by (simp add: resolveChain_def candidates_iff [OF assms] sort_by_ranksBefore)

lemma resolveChain_fails:
  assumes "rs_source r (qr_operation_type req) = Inr routes" "filter (survives r req) routes = []"
  shows "\<exists>e. resolveChain r req = Inl e"
  using candidates_Inr [of r req] assms by (cases "candidates r req") (auto simp: resolveChain_def)

section \<open>The order of the source does not matter\<close>

lemma stage_perm:
  "mset rs = mset rs' \<Longrightarrow> rel_sum (=) (\<lambda>a b. mset a = mset b) (stage e P rs) (stage e P rs')"
  by (auto simp: stage_def Let_def dest: arg_cong [of _ _ "filter_mset P"])
     (metis mset.simps(1) mset_filter mset_zero_iff)+
lemma stage_if_perm:
  "mset rs = mset rs' \<Longrightarrow> rel_sum (=) (\<lambda>a b. mset a = mset b) (stage_if b e P rs) (stage_if b e P rs')"
  by (simp add: stage_if_def stage_perm)

lemma andThen_perm:
  assumes "rel_sum (=) R m m'" "\<And>a b. R a b \<Longrightarrow> rel_sum (=) Q (f a) (f b)"
  shows "rel_sum (=) Q (andThen m f) (andThen m' f)"
  using assms by (auto simp: andThen_def split: sum.splits)

lemma candidates_perm:
  assumes "rs_source r (qr_operation_type req) = Inr routes" "mset routes' = mset routes"
  shows "rel_sum (=) (\<lambda>a b. mset a = mset b) (candidates r req) (candidates (r\<lparr>rs_source := \<lambda>_. Inr routes'\<rparr>) req)"
proof -
  let ?r = "r\<lparr>rs_source := \<lambda>_. Inr routes'\<rparr>"
  have same: "backed ?r = backed r" "rs_available ?r = rs_available r" "rs_capabilities ?r = rs_capabilities r"
      "rs_source ?r (qr_operation_type req) = Inr routes'"
    by (simp_all add: backed_def fun_eq_iff)
  let ?R = "\<lambda>a b :: route list. mset a = mset b"
  have pin: "?R a b \<Longrightarrow> rel_sum (=) ?R
      (if qr_provider_id req = '''' then Inr a
       else if qr_provider_id req \<notin> set (rs_available r) then Inl ErrRequestedProviderUnavailable
       else stage ErrNoRoute (\<lambda>rt. ro_provider_id rt = qr_provider_id req) a)
      (if qr_provider_id req = '''' then Inr b
       else if qr_provider_id req \<notin> set (rs_available r) then Inl ErrRequestedProviderUnavailable
       else stage ErrNoRoute (\<lambda>rt. ro_provider_id rt = qr_provider_id req) b)" for a b
    by (simp add: stage_perm)
  show ?thesis
    unfolding candidates_def same assms(1) sum.case
    by (intro andThen_perm [where R = ?R] pin stage_if_perm stage_perm) (simp_all add: assms(2))
qed

lemma rank_key_inj: "distinct (map ro_route_id cs) \<Longrightarrow> inj_on (rank_key req) (set cs)"
  by (rule inj_onI) (auto simp: rank_key_def distinct_map dest: inj_onD)

lemma sort_key_unique:
  assumes "inj_on k (set xs)" "mset xs = mset ys"
  shows "sort_key k ys = sort_key k xs"
proof (rule inj_on_map_eq_map [THEN iffD1])
  have "set ys = set xs" using assms(2) by (metis mset_eq_setD)
  then show "inj_on k (set (sort_key k ys) \<union> set (sort_key k xs))" using assms(1) by simp
  have "mset (map k ys) = mset (map k xs)" by (simp add: assms(2))
  then show "map k (sort_key k ys) = map k (sort_key k xs)"
    using properties_for_sort [of "map k (sort_key k ys)" "map k (sort_key k xs)"] by (simp add: sorted_sort_id)
qed

lemma resolveChain_perm:
  assumes "rs_source r (qr_operation_type req) = Inr routes" "mset routes' = mset routes"
    "distinct (map ro_route_id routes)"
  shows "resolveChain (r\<lparr>rs_source := \<lambda>_. Inr routes'\<rparr>) req = resolveChain r req"
  using candidates_perm [OF assms(1,2)]
proof (cases rule: rel_sum.cases)
  case (2 cs cs')
  have "cs = filter (survives r req) routes" using candidates_Inr [OF 2(1)] assms(1) by auto
  then have "distinct (map ro_route_id cs)" using assms(3) by (simp add: distinct_map_filter)
  from rank_key_inj [OF this, of req]
  have "sort_key (rank_key req) cs' = sort_key (rank_key req) cs"
    by (rule sort_key_unique) (rule 2(3))
  with 2 show ?thesis by (simp add: resolveChain_def sort_by_ranksBefore)
qed (simp add: resolveChain_def)

section \<open>What reconciliation promises\<close>

lemma decide_route_valid:
  "rd_valid (decide_route index allow rt) \<longleftrightarrow>
     pc_capabilities (caps_of index (ro_provider_id rt)) \<noteq> []
     \<and> (ro_required_capability rt = ''''
         \<or> providerSatisfiesRoute (caps_of index (ro_provider_id rt)) (ro_required_capability rt) allow)"
  by (simp add: decide_route_def Let_def)

lemma satisfied_registered: "providerSatisfiesRoute c n allow \<Longrightarrow> pc_capabilities c \<noteq> []"
  by (auto simp: providerSatisfiesRoute_def capabilitiesSatisfy_def split: if_splits)

lemma valid_backed:
  "ro_required_capability rt \<noteq> '''' \<Longrightarrow>
   rd_valid (decide_route (rs_capabilities r) (rs_allow_synthetic r) rt) = backed r rt"
  using satisfied_registered by (auto simp: decide_route_valid backed_def)

lemma readiness_serves:
  "ir_real_identity_capable (assessIdentityReadiness index) \<longleftrightarrow>
     (\<exists>(p, c) \<in> set index. \<not> pc_synthetic c \<and> providerSatisfiesRoute c CapabilityIdentityCapable False)"
  by (auto simp: assessIdentityReadiness_def Let_def filter_empty_conv providerSatisfiesRoute_def)

lemma resolveChain_nonempty:
  assumes "resolveChain r req = Inr chain"
  shows "chain \<noteq> []"
proof -
  from assms obtain cs where cs: "candidates r req = Inr cs" "chain = map resolvedRouteFrom (sort_by (ranksBefore req) cs)"
    by (simp add: resolveChain_def split: sum.splits)
  from candidates_Inr [OF cs(1)] have "cs \<noteq> []" by blast
  moreover have "set chain = resolvedRouteFrom ` set cs" by (simp add: cs(2))
  ultimately show ?thesis by (metis image_is_empty set_empty)
qed

text \<open>
  Fail-closed capabilities: with the capability index wired, a candidate that names a capability is
  served by a provider that advertises it (or one above it), is not synthetic unless that is
  allowed, and is one the boot-time reconciliation under the same policy reports valid.
\<close>

lemma routed_capability_backed:
  assumes "candidates r req = Inr cs" "rs_capabilities r \<noteq> []" "rt \<in> set cs" "ro_required_capability rt \<noteq> ''''"
  shows "rd_valid (decide_route (rs_capabilities r) (rs_allow_synthetic r) rt)
    \<and> (\<exists>c \<in> set (pc_capabilities (caps_of (rs_capabilities r) (ro_provider_id rt))). capabilitySatisfies c (ro_required_capability rt))
    \<and> (pc_synthetic (caps_of (rs_capabilities r) (ro_provider_id rt)) \<longrightarrow> rs_allow_synthetic r)"
proof -
  from candidates_Inr [OF assms(1)] assms(3) have "survives r req rt" by auto
  with assms(2) have "backed r rt" by (simp add: survives_def)
  with assms(4) have v: "rd_valid (decide_route (rs_capabilities r) (rs_allow_synthetic r) rt)"
    and p: "providerSatisfiesRoute (caps_of (rs_capabilities r) (ro_provider_id rt)) (ro_required_capability rt) (rs_allow_synthetic r)"
    by (simp_all add: valid_backed) (simp add: backed_def)
  from p show ?thesis using v unfolding providerSatisfiesRoute_def capabilitiesSatisfy_def list_ex_iff by metis
qed

end
