(* ===== verification/Request_Flow.thy ===== *)
theory Request_Flow
  imports Identities Retrieval Routing Platform
begin

text \<open>
  The steps the generation handlers share, \<open>internal/http/handlers/routing.go\<close> and
  \<open>artifacts_handler.go\<close>: the replay check, the choice of a route and of its fallbacks, the
  create call and the answer. A handler reads the database several times before its create
  transaction; \<open>rd i\<close> is the database at its \<open>i\<close>-th read, so others may commit in between. Bodies
  arrive decoded; their hash and the endpoint are inputs.
\<close>

section \<open>Answers\<close>

record accepted =
  ac_job_id :: string
  ac_status :: string
  ac_estimated_cost_usd :: "string option"
  ac_currency :: "string option"
  ac_cost_reservation_id :: "string option"
  ac_asset_pack_id :: "string option"

text \<open>An answer is the reply and the two concurrency headers, limit and remaining.\<close>

type_synonym answer = "accepted reply \<times> (int \<times> int) option"

definition setConcurrentHeaders :: "int \<Rightarrow> int \<Rightarrow> (int \<times> int) option" where
  "setConcurrentHeaders limit used =
     (if limit \<le> 0 then None else Some (limit, if limit - used < 0 then 0 else limit - used))"

definition problem :: "int \<Rightarrow> string \<Rightarrow> answer" where
  "problem status code = (Problem status code, None)"

definition writeJobAccepted :: "create_result \<Rightarrow> answer" where
  "writeJobAccepted r =
     (Reply \<lparr>ac_job_id = cr_job_id r, ac_status = (if cr_status r = '''' then ''queued'' else cr_status r),
        ac_estimated_cost_usd = strPtr (cr_estimated_cost_usd r), ac_currency = strPtr (cr_currency r),
        ac_cost_reservation_id = strPtr (cr_cost_reservation_id r), ac_asset_pack_id = strPtr (cr_asset_pack_id r)\<rparr>,
      setConcurrentHeaders (cr_concurrent_limit r) (cr_concurrent_used r))"

definition writeJobServiceError :: "error \<Rightarrow> answer" where
  "writeJobServiceError e =
     (if e = ErrConcurrentJobsExceeded then problem 429 ''concurrent_jobs_exceeded''
      else if e = ErrNoPriceEntry then problem 422 ''no_price_entry''
      else if e = ErrBudgetExceeded then problem 422 ''budget_exceeded''
      else if e = ErrIdempotencyConflict then problem 409 ''idempotency_conflict''
      else problem 500 ''internal_error'')"

fun writeRouteError :: "routing_error \<Rightarrow> answer" where
  "writeRouteError ErrRequestedProviderUnavailable = problem 422 ''provider_preference_unavailable''"
| "writeRouteError ErrRouteProviderCapabilityMismatch = problem 422 ''route_capability_mismatch''"
| "writeRouteError ErrUnsupportedCapability = problem 422 ''unsupported_capability''"
| "writeRouteError ErrProviderUnavailableForRoute = problem 422 ''provider_unavailable_for_route''"
| "writeRouteError ErrNoRoute = problem 422 ''no_route''"
| "writeRouteError (RouteSourceErr e) = problem 500 ''internal_error''"

section \<open>The idempotency context\<close>

record idem_context =
  ix_key :: string
  ix_endpoint :: string
  ix_request_hash :: string

text \<open>\<open>None\<close>: a new request the handler goes on with.\<close>

definition handleReplay :: "db \<Rightarrow> string \<Rightarrow> idem_context \<Rightarrow> answer option" where
  "handleReplay d tok ix =
     (case lookupReplay d tok (ix_key ix) (ix_endpoint ix) (ix_request_hash ix) of
        (r, found, Some e) \<Rightarrow> Some (writeJobServiceError e)
      | (r, found, None) \<Rightarrow> if found then Some (writeJobAccepted r) else None)"

definition replay_check :: "db \<Rightarrow> string \<Rightarrow> idem_context \<Rightarrow> answer option" where
  "replay_check d tok ix = (if ix_key ix = '''' then None else handleReplay d tok ix)"

section \<open>Routes\<close>

definition applyResolvedRoute :: "create_params \<Rightarrow> routed \<Rightarrow> create_params" where
  "applyResolvedRoute c r =
     (let p = (cp_input_payload c)(''provider_id'' \<mapsto> JStr (rw_provider_id r), ''model_id'' \<mapsto> JStr (rw_model_id r),
                ''provider_route_id'' \<mapsto> JStr (rw_route_id r))
      in c\<lparr>cp_provider_id := rw_provider_id r, cp_model_id := rw_model_id r, cp_route_id := rw_route_id r,
           cp_operation_type := rw_operation_type r,
           cp_input_payload := (if rw_preview_capability r \<noteq> ''''
              then p(''preview_capability'' \<mapsto> JStr (rw_preview_capability r)) else p)\<rparr>)"

definition fallback_of :: "routed \<Rightarrow> fallback_route" where
  "fallback_of r = \<lparr>fr_provider_id = rw_provider_id r, fr_model_id = rw_model_id r, fr_route_id = rw_route_id r,
     fr_preview_capability = rw_preview_capability r\<rparr>"

definition applyFallbackChain :: "create_params \<Rightarrow> routed list \<Rightarrow> create_params" where
  "applyFallbackChain c chain =
     (if chain = [] then c
      else c\<lparr>cp_route_chain := map fallback_of (filter (\<lambda>r. rw_route_id r \<noteq> cp_route_id c) chain)\<rparr>)"

definition resolveFallbackChain :: "resolver \<Rightarrow> resolve_request \<Rightarrow> routed list" where
  "resolveFallbackChain r req = (case resolveChain r req of Inl e \<Rightarrow> [] | Inr chain \<Rightarrow> chain)"

section \<open>Creating the job\<close>

text \<open>
  The surroundings of one call: the queue client, what others commit between the create
  transaction and the next one, the budgets read before it, and the identifiers it draws.
\<close>

record surroundings =
  su_trunc :: date_trunc
  su_client :: queue_client
  su_env :: "db \<Rightarrow> db"
  su_budgets :: "cost_budget list"
  su_ids :: fresh_ids

text \<open>\<open>headers\<close>: whether a denial for concurrency carries the two headers.\<close>

definition create_and_answer :: "surroundings \<Rightarrow> bool \<Rightarrow> db \<Rightarrow> create_params \<Rightarrow> answer \<times> db" where
  "create_and_answer su headers d c =
     (case createAndEnqueue (su_trunc su) (su_client su) (su_env su) d (su_budgets su) (su_ids su) c of
        (r, Some e, d') \<Rightarrow>
          ((fst (writeJobServiceError e),
            if headers \<and> e = ErrConcurrentJobsExceeded
            then setConcurrentHeaders (cp_max_concurrent_jobs c) (cp_max_concurrent_jobs c) else None), d')
      | (r, None, d') \<Rightarrow> (writeJobAccepted r, d'))"

definition route_and_create ::
    "surroundings \<Rightarrow> bool \<Rightarrow> resolver \<Rightarrow> resolve_request \<Rightarrow> (routed \<Rightarrow> create_params) \<Rightarrow> db \<Rightarrow> answer \<times> db" where
  "route_and_create su headers rs req mk d =
     (case resolve rs req of
        Inl e \<Rightarrow> (writeRouteError e, d)
      | Inr r \<Rightarrow>
          create_and_answer su headers d
            (applyFallbackChain (applyResolvedRoute (mk r) r) (resolveFallbackChain rs req)))"

section \<open>What the shared steps keep\<close>

lemma resolve_chain_head:
  assumes "resolve rs req = Inr r"
  shows "\<exists>chain. resolveFallbackChain rs req = r # chain"
proof -
  from assms obtain chain where c: "resolveChain rs req = Inr chain" "r = hd chain"
    by (auto simp: resolve_hd_chain split: sum.splits)
  from resolveChain_nonempty [OF c(1)] c show ?thesis by (cases chain) (simp_all add: resolveFallbackChain_def)
qed

lemma alternates_differ:
  "f \<in> set (cp_route_chain (applyFallbackChain c chain)) \<Longrightarrow> chain \<noteq> [] \<Longrightarrow> fr_route_id f \<noteq> cp_route_id c"
  by (auto simp: applyFallbackChain_def fallback_of_def)

text \<open>A call of the create service is a step, then perhaps others' steps, then perhaps the cleanup.\<close>

lemma createAndEnqueue_steps:
  assumes "createAndEnqueue tr client env d all f c = (r, e, d')"
  shows "d' = d \<or> d' = env d \<or> (\<exists>d1. platform_step tr d d1 \<and> (d' = d1 \<or> d' = env d1 \<or> platform_step tr (env d1) d'))"
  using assms
  by (auto simp: createAndEnqueue_def enqueue_def intro: platform_step.create platform_step.cleanup
      split: create_tx.splits if_splits option.splits sum.splits prod.splits)

lemma create_and_answer_reachable:
  assumes "create_and_answer su h d c = (a, d')" "reachable (su_trunc su) d"
    and env: "\<And>x. reachable (su_trunc su) x \<Longrightarrow> reachable (su_trunc su) (su_env su x)"
  shows "reachable (su_trunc su) d'"
proof -
  obtain r e where "createAndEnqueue (su_trunc su) (su_client su) (su_env su) d (su_budgets su) (su_ids su) c = (r, e, d')"
    using assms(1) by (auto simp: create_and_answer_def split: prod.splits option.splits)
  from createAndEnqueue_steps [OF this] show ?thesis
    using assms(2) env reachable_step by blast
qed

lemma route_and_create_reachable:
  assumes "route_and_create su h rs req mk d = (a, d')" "reachable (su_trunc su) d"
    and "\<And>x. reachable (su_trunc su) x \<Longrightarrow> reachable (su_trunc su) (su_env su x)"
  shows "reachable (su_trunc su) d'"
  using assms create_and_answer_reachable by (auto simp: route_and_create_def split: sum.splits)

end
