(* ===== verification/Pack_Handler.thy ===== *)
theory Pack_Handler
  imports Request_Flow
begin

text \<open>
  The pack request, \<open>internal/http/handlers/packs_handler.go\<close>: planning the roles, reusing what
  exists, and creating a job priced for the missing roles only, or a job that is complete at
  creation when nothing is missing. Texts of error messages are left out.
\<close>

section \<open>Kinds and requests\<close>

record pack_kind =
  pd_owner_type :: string
  pd_payload_id_key :: string
  pd_job_type :: string
  pd_pack_type :: string
  pd_custom_pack_type :: string
  pd_default_variants :: "string list"

text \<open>At start-up an undefined minimal template panics; both are defined (\<open>minimal_templates\<close>).\<close>

definition minimalTemplateRoles :: "string \<Rightarrow> string \<Rightarrow> string list" where
  "minimalTemplateRoles e t = (case packTemplateRoles e t of None \<Rightarrow> [] | Some rs \<Rightarrow> rs)"

definition characterPackKind :: pack_kind where
  "characterPackKind =
     \<lparr>pd_owner_type = ''character'', pd_payload_id_key = ''character_id'', pd_job_type = ''character_pack'',
      pd_pack_type = ''character_minimal_portrait_pack'', pd_custom_pack_type = ''character_custom_pack'',
      pd_default_variants = minimalTemplateRoles ''character'' ''character_minimal_portrait_pack''\<rparr>"

definition placePackKind :: pack_kind where
  "placePackKind =
     \<lparr>pd_owner_type = ''place'', pd_payload_id_key = ''place_id'', pd_job_type = ''place_pack'',
      pd_pack_type = ''place_minimal_scene_pack'', pd_custom_pack_type = ''place_custom_pack'',
      pd_default_variants = minimalTemplateRoles ''place'' ''place_minimal_scene_pack''\<rparr>"

definition maxPackVariants :: nat where
  "maxPackVariants = 12"

record pack_request =
  kr_world_id :: string
  kr_style_profile_id :: string
  kr_quality_tier :: "string option"
  kr_latency_tier :: "string option"
  kr_fallback_policy :: "string option"
  kr_background :: "string option"
  kr_variant_keys :: "string list option"
  kr_pack_template :: "string option"
  kr_variants :: "(string \<times> string) list option"
  kr_aspect_ratio :: "string option"
  kr_provider_id :: "string option"
  kr_force_regenerate :: "bool option"
  kr_governance :: "envelope option"

section \<open>Planning the roles\<close>

datatype plan_error = BadVariants | UnknownPackTemplate

fun dedup_loop :: "string list \<Rightarrow> string list \<Rightarrow> string list option" where
  "dedup_loop out [] = Some out"
| "dedup_loop out (k # ks) =
     (if k = '''' then None
      else if k \<in> set out then dedup_loop out ks
      else dedup_loop (out @ [k]) ks)"

definition dedupVariants :: "string list \<Rightarrow> plan_error + string list" where
  "dedupVariants source =
     (case dedup_loop [] source of
        None \<Rightarrow> Inl BadVariants
      | Some out \<Rightarrow> if length out > maxPackVariants then Inl BadVariants else Inr out)"

definition resolvePackPlan :: "pack_kind \<Rightarrow> string list \<Rightarrow> string \<Rightarrow> plan_error + string list \<times> string" where
  "resolvePackPlan kind override template =
     (if override \<noteq> [] then
        (case dedupVariants override of Inl e \<Rightarrow> Inl e | Inr ks \<Rightarrow> Inr (ks, pd_custom_pack_type kind))
      else if template \<noteq> '''' then
        (case packTemplateRoles (pd_owner_type kind) template of
           None \<Rightarrow> Inl UnknownPackTemplate
         | Some roles \<Rightarrow> (case dedupVariants roles of Inl e \<Rightarrow> Inl e | Inr ks \<Rightarrow> Inr (ks, template)))
      else
        (case dedupVariants (pd_default_variants kind) of
           Inl e \<Rightarrow> Inl e | Inr ks \<Rightarrow> Inr (ks, pd_pack_type kind)))"

text \<open>The loop of \<open>callerVariantPlan\<close>; the prompts are an association list without duplicates.\<close>

fun caller_cells :: "(string \<times> string) list \<Rightarrow> (string \<times> string) list \<Rightarrow> (string \<times> string) list option" where
  "caller_cells acc [] = Some acc"
| "caller_cells acc ((k, p) # vs) =
     (let key = trimSpace k; prompt = trimSpace p
      in if key = '''' \<or> prompt = '''' \<or> length prompt > 600 \<or> key \<in> fst ` set acc then None
         else caller_cells (acc @ [(key, prompt)]) vs)"

definition callerVariantPlan :: "(string \<times> string) list \<Rightarrow> plan_error + string list \<times> (string \<times> string) list" where
  "callerVariantPlan variants =
     (case caller_cells [] variants of
        None \<Rightarrow> Inl BadVariants
      | Some cells \<Rightarrow> (case dedupVariants (map fst cells) of Inl e \<Rightarrow> Inl e | Inr ks \<Rightarrow> Inr (ks, cells)))"

text \<open>\<open>^\d{1,2}:\d{1,2}$\<close>.\<close>

definition aspect_ratio_ok :: "string \<Rightarrow> bool" where
  "aspect_ratio_ok s =
     (let a = takeWhile is_digit s; r = dropWhile is_digit s
      in (length a = 1 \<or> length a = 2)
         \<and> (case r of [] \<Rightarrow> False
            | c # b \<Rightarrow> c = CHR '':'' \<and> (length b = 1 \<or> length b = 2) \<and> list_all is_digit b))"

section \<open>Validation\<close>

definition validLatencyTier :: "string \<Rightarrow> bool" where
  "validLatencyTier l \<longleftrightarrow> l \<in> {''fast'', ''balanced'', ''quality''}"

definition opt_ok :: "('a \<Rightarrow> bool) \<Rightarrow> 'a option \<Rightarrow> bool" where
  "opt_ok P x \<longleftrightarrow> (case x of None \<Rightarrow> True | Some a \<Rightarrow> P a)"

text \<open>What the body asks for, once it is valid.\<close>

record pack_input =
  pl_background :: string
  pl_keys :: "string list"
  pl_prompts :: "(string \<times> string) list"
  pl_pack_type :: string
  pl_aspect_ratio :: string

definition validate_pack :: "pack_kind \<Rightarrow> string \<Rightarrow> pack_request \<Rightarrow> pack_input reply" where
  "validate_pack kind oid r =
     (if oid = '''' \<or> kr_world_id r = '''' \<or> kr_style_profile_id r = '''' \<or> \<not> opt_ok validQualityTier (kr_quality_tier r)
         \<or> \<not> opt_ok validLatencyTier (kr_latency_tier r) \<or> \<not> opt_ok validFallbackPolicy (kr_fallback_policy r)
      then Problem 400 ''invalid_request''
      else
        let background = (case kr_background r of None \<Rightarrow> ''opaque'' | Some b \<Rightarrow> trimSpace b)
        in if background \<noteq> ''opaque'' \<and> background \<noteq> ''transparent'' then Problem 422 ''invalid_request''
           else if pd_owner_type kind \<noteq> ''character'' \<and> kr_background r \<noteq> None then Problem 422 ''invalid_request''
           else
             (case (case kr_variants r of
                      Some (v # vs) \<Rightarrow>
                        (case callerVariantPlan (v # vs) of
                           Inl e \<Rightarrow> Inl e | Inr (ks, ps) \<Rightarrow> Inr (ks, ps, pd_custom_pack_type kind))
                    | _ \<Rightarrow>
                        (case resolvePackPlan kind (case kr_variant_keys r of None \<Rightarrow> [] | Some ks \<Rightarrow> ks)
                                (case kr_pack_template r of None \<Rightarrow> '''' | Some t \<Rightarrow> t) of
                           Inl e \<Rightarrow> Inl e | Inr (ks, t) \<Rightarrow> Inr (ks, [], t))) of
                Inl e \<Rightarrow> Problem 400 ''invalid_request''
              | Inr (ks, ps, t) \<Rightarrow>
                  let ratio = (case kr_aspect_ratio r of None \<Rightarrow> '''' | Some x \<Rightarrow> trimSpace x)
                  in if ratio \<noteq> '''' \<and> \<not> aspect_ratio_ok ratio then Problem 422 ''invalid_request''
                     else Reply \<lparr>pl_background = background, pl_keys = ks, pl_prompts = ps, pl_pack_type = t,
                            pl_aspect_ratio = ratio\<rparr>))"

section \<open>The payload\<close>

definition requested_provider :: "string option \<Rightarrow> string" where
  "requested_provider p = (case p of None \<Rightarrow> '''' | Some s \<Rightarrow> trimSpace s)"

definition put_if :: "bool \<Rightarrow> string \<Rightarrow> json \<Rightarrow> payload \<Rightarrow> payload" where
  "put_if b k v p = (if b then p(k \<mapsto> v) else p)"

definition forceRegenerate :: "pack_request \<Rightarrow> bool" where
  "forceRegenerate r \<longleftrightarrow> kr_force_regenerate r = Some True"

definition fallback_policy_of :: "pack_request \<Rightarrow> string" where
  "fallback_policy_of r = (case kr_fallback_policy r of None \<Rightarrow> ''compatible_only'' | Some p \<Rightarrow> p)"

definition pack_payload :: "pack_kind \<Rightarrow> string \<Rightarrow> pack_request \<Rightarrow> pack_input \<Rightarrow> visual_identity \<Rightarrow> payload" where
  "pack_payload kind oid r i v =
     put_if (forceRegenerate r) ''force_regenerate'' (JBool True)
     (put_if (kr_latency_tier r \<noteq> None) ''latency_tier'' (JStr (the (kr_latency_tier r)))
     (put_if (kr_quality_tier r \<noteq> None) ''quality_tier'' (JStr (the (kr_quality_tier r)))
     (put_if (requested_provider (kr_provider_id r) \<noteq> '''') ''requested_provider_id'' (JStr (requested_provider (kr_provider_id r)))
     (put_if (pl_aspect_ratio i \<noteq> '''') ''aspect_ratio'' (JStr (pl_aspect_ratio i))
     (put_if (pl_prompts i \<noteq> []) ''variant_prompts'' (JObj (map (\<lambda>(k, p). (k, JStr p)) (pl_prompts i)))
     [pd_payload_id_key kind \<mapsto> JStr oid, ''world_id'' \<mapsto> JStr (kr_world_id r),
      ''style_profile_id'' \<mapsto> JStr (kr_style_profile_id r), ''variant_keys'' \<mapsto> JArr (map JStr (pl_keys i)),
      ''visual_identity_id'' \<mapsto> JStr (vi_id v), ''display_name'' \<mapsto> JStr (vi_display_name v),
      ''fallback_policy'' \<mapsto> JStr (fallback_policy_of r), ''output_background'' \<mapsto> JStr (pl_background i)])))))"

section \<open>Reuse\<close>

text \<open>
  The retriever is a function of the read it makes: \<open>rt i\<close> is \<open>Retrieve\<close> on the database as the
  \<open>i\<close>-th role finds it. \<open>None\<close> is the 500 of a failed read.
\<close>

fun plan_reuse ::
    "(nat \<Rightarrow> retrieval_query \<Rightarrow> error + retrieval_result) \<Rightarrow> (string \<Rightarrow> retrieval_query) \<Rightarrow> nat \<Rightarrow> string list
     \<Rightarrow> pack_reuse_item list \<Rightarrow> string list \<Rightarrow> (pack_reuse_item list \<times> string list) option" where
  "plan_reuse rt q i [] items miss = Some (items, miss)"
| "plan_reuse rt q i (role # roles) items miss =
     (case rt i (q role) of
        Inl e \<Rightarrow> None
      | Inr res \<Rightarrow>
          (case re_asset res of
             Some a \<Rightarrow>
               if re_match_type res \<noteq> OutcomeGeneratedRequired \<and> va_id a \<notin> ru_asset_id ` set items
               then plan_reuse rt q (i + 1) roles
                      (items @ [\<lparr>ru_variant_key = role, ru_asset_id = va_id a,
                         ru_match_type = outcome_text (re_match_type res), ru_sort_order = int32 (int i)\<rparr>]) miss
               else plan_reuse rt q (i + 1) roles items (miss @ [role])
           | None \<Rightarrow> plan_reuse rt q (i + 1) roles items (miss @ [role])))"

definition planPackReuse ::
    "(nat \<Rightarrow> retrieval_query \<Rightarrow> error + retrieval_result) option \<Rightarrow> (string \<Rightarrow> retrieval_query) \<Rightarrow> string list
     \<Rightarrow> (pack_reuse_item list \<times> string list) option" where
  "planPackReuse rt q roles =
     (case rt of None \<Rightarrow> Some ([], roles) | Some f \<Rightarrow> plan_reuse f q 0 roles [] [])"

definition reuse_rank :: "string \<Rightarrow> int" where
  "reuse_rank m = (if m = ''exact_match'' then 3 else if m = ''compatible_match'' then 2
     else if m = ''preview_fallback'' then 1 else 0)"

fun aggregate_loop :: "string \<Rightarrow> int \<Rightarrow> pack_reuse_item list \<Rightarrow> string" where
  "aggregate_loop best m [] = best"
| "aggregate_loop best m (i # is) =
     (if reuse_rank (ru_match_type i) < m then aggregate_loop (ru_match_type i) (reuse_rank (ru_match_type i)) is
      else aggregate_loop best m is)"

definition aggregatePackCacheResult :: "pack_reuse_item list \<Rightarrow> string" where
  "aggregatePackCacheResult items = aggregate_loop ''exact_match'' (reuse_rank ''exact_match'') items"

section \<open>The request\<close>

record pack_handler =
  ph_resolver :: resolver
  ph_provider_preference :: string
  ph_retriever :: "((db \<Rightarrow> retrieval_query \<Rightarrow> error + visual_asset) \<times> (db \<Rightarrow> retrieval_query \<Rightarrow> error + visual_asset list)) option"
  ph_gate :: governance_gate

definition pack_query :: "pack_kind \<Rightarrow> principal \<Rightarrow> pack_request \<Rightarrow> visual_identity \<Rightarrow> string \<Rightarrow> retrieval_query" where
  "pack_query kind p r v role =
     \<lparr>rq_tenant_id = pn_tenant_id p, rq_world_id = kr_world_id r, rq_visual_identity_id = vi_id v,
      rq_entity_type = pd_owner_type kind, rq_variant_key = role, rq_style_profile_id = kr_style_profile_id r,
      rq_style_profile_version = None, rq_state_version = 1,
      rq_quality_tier = (case kr_quality_tier r of None \<Rightarrow> ''standard'' | Some t \<Rightarrow> t),
      rq_fallback_policy = fallback_policy_of r\<rparr>"

definition pack_route_request :: "pack_handler \<Rightarrow> pack_request \<Rightarrow> resolve_request" where
  "pack_route_request h r =
     \<lparr>qr_operation_type = ''text_to_image'', qr_quality_tier = (case kr_quality_tier r of None \<Rightarrow> ''standard'' | Some t \<Rightarrow> t),
      qr_latency_tier = (case kr_latency_tier r of None \<Rightarrow> '''' | Some l \<Rightarrow> l),
      qr_required_capability = CapabilityPackCapable, qr_required_preview_capability = '''',
      qr_provider_preference = ph_provider_preference h, qr_provider_id = requested_provider (kr_provider_id r),
      qr_intent = ''''\<rparr>"

definition pack_params ::
    "pack_kind \<Rightarrow> principal \<Rightarrow> pack_request \<Rightarrow> pack_input \<Rightarrow> visual_identity \<Rightarrow> payload \<Rightarrow> idem_context
     \<Rightarrow> pack_reuse_item list \<Rightarrow> string list \<Rightarrow> create_params" where
  "pack_params kind p r i v payload ix items missing =
     \<lparr>cp_tenant_id = pn_tenant_id p, cp_token_id = pn_token_id p, cp_job_type = pd_job_type kind,
      cp_world_id = kr_world_id r, cp_input_payload = payload, cp_fallback_policy = fallback_policy_of r,
      cp_cache_result = ''generated_required'',
      cp_asset_pack = Some \<lparr>sc_pack_type = pl_pack_type i, sc_visual_identity_id = vi_id v,
         sc_quality_tier = (case kr_quality_tier r of None \<Rightarrow> '''' | Some t \<Rightarrow> t),
         sc_required_roles = pl_keys i, sc_missing_roles = missing, sc_reused_items = items\<rparr>,
      cp_provider_id = '''', cp_model_id = '''', cp_route_id = '''', cp_operation_type = '''',
      cp_units = int32 (int (length missing)), cp_user_id = '''', cp_route_chain = [],
      cp_idempotency_key = ix_key ix,
      cp_endpoint = (if ix_key ix = '''' then '''' else ix_endpoint ix),
      cp_request_hash = (if ix_key ix = '''' then '''' else ix_request_hash ix),
      cp_max_concurrent_jobs = li_max_concurrent_jobs (pn_limits p), cp_intent = None, cp_lazy = None,
      cp_anchor_asset_id = None, cp_derive_from = None, cp_visual_identity_id = None\<rparr>"

text \<open>
  The all-hits answer: the envelope says queued for a fresh completion, and a replay echoes the
  status of the job it found.
\<close>

definition respondPackAllHits ::
    "surroundings \<Rightarrow> db \<Rightarrow> pack_kind \<Rightarrow> principal \<Rightarrow> pack_request \<Rightarrow> pack_input \<Rightarrow> visual_identity \<Rightarrow> payload
     \<Rightarrow> idem_context \<Rightarrow> pack_reuse_item list \<Rightarrow> answer \<times> db" where
  "respondPackAllHits su d kind p r i v payload ix items =
     (case createCompletedPackReuseJob (su_env su) d (su_ids su)
             \<lparr>pp_tenant_id = pn_tenant_id p, pp_token_id = pn_token_id p, pp_job_type = pd_job_type kind,
              pp_world_id = kr_world_id r, pp_input_payload = payload, pp_fallback_policy = fallback_policy_of r,
              pp_cache_result = aggregatePackCacheResult items, pp_pack_type = pl_pack_type i,
              pp_visual_identity_id = vi_id v,
              pp_quality_tier = (case kr_quality_tier r of None \<Rightarrow> '''' | Some t \<Rightarrow> t),
              pp_required_roles = pl_keys i, pp_reused_items = items, pp_idempotency_key = ix_key ix,
              pp_endpoint = (if ix_key ix = '''' then '''' else ix_endpoint ix),
              pp_request_hash = (if ix_key ix = '''' then '''' else ix_request_hash ix)\<rparr> of
        (res, Some e, d') \<Rightarrow> (writeJobServiceError e, d')
      | (res, None, d') \<Rightarrow>
          ((Reply \<lparr>ac_job_id = cr_job_id res,
              ac_status = (if cr_replayed res \<and> cr_status res \<noteq> '''' then cr_status res else ''queued''),
              ac_estimated_cost_usd = Some (if cr_estimated_cost_usd res \<noteq> '''' then cr_estimated_cost_usd res else ''0.0000''),
              ac_currency = None, ac_cost_reservation_id = None, ac_asset_pack_id = strPtr (cr_asset_pack_id res)\<rparr>, None), d'))"

text \<open>After validation, the lookups and the gate: reuse, then all hits or a priced job.\<close>

definition plan_roles ::
    "pack_handler \<Rightarrow> (nat \<Rightarrow> db) \<Rightarrow> pack_kind \<Rightarrow> principal \<Rightarrow> pack_request \<Rightarrow> pack_input \<Rightarrow> visual_identity
     \<Rightarrow> (pack_reuse_item list \<times> string list) option" where
  "plan_roles h rd kind p r i v =
     (if forceRegenerate r \<or> pd_owner_type kind = ''character'' \<and> pl_background i = ''transparent'' then Some ([], pl_keys i)
      else planPackReuse
             (case ph_retriever h of None \<Rightarrow> None | Some (fe, lc) \<Rightarrow> Some (\<lambda>n. retrieve (fe (rd (n + 1))) (lc (rd (n + 1)))))
             (pack_query kind p r v) (pl_keys i))"

definition fulfil_pack ::
    "pack_handler \<Rightarrow> surroundings \<Rightarrow> (nat \<Rightarrow> db) \<Rightarrow> db \<Rightarrow> pack_kind \<Rightarrow> principal \<Rightarrow> string \<Rightarrow> pack_request
     \<Rightarrow> pack_input \<Rightarrow> visual_identity \<Rightarrow> idem_context \<Rightarrow> answer \<times> db" where
  "fulfil_pack h su rd d kind p oid r i v ix =
     (case plan_roles h rd kind p r i v of
        None \<Rightarrow> (problem 500 ''internal_error'', d)
      | Some (items, missing) \<Rightarrow>
          let payload = pack_payload kind oid r i v
          in if ph_retriever h \<noteq> None \<and> missing = []
             then respondPackAllHits su d kind p r i v payload ix items
             else route_and_create su True (ph_resolver h) (pack_route_request h r)
                    (\<lambda>_. pack_params kind p r i v payload ix items missing) d)"

definition generatePack ::
    "pack_handler \<Rightarrow> surroundings \<Rightarrow> catalog \<Rightarrow> (nat \<Rightarrow> db) \<Rightarrow> int \<Rightarrow> db \<Rightarrow> pack_kind \<Rightarrow> principal \<Rightarrow> string
     \<Rightarrow> pack_request \<Rightarrow> idem_context \<Rightarrow> answer \<times> audit_event list \<times> db" where
  "generatePack h su c rd now d kind p oid r ix =
     (case validate_pack kind oid r of
        Problem s e \<Rightarrow> (problem s e, [], d)
      | Reply i \<Rightarrow>
          (case getStyle c (kr_style_profile_id r) (pn_tenant_id p) of
             Inl e \<Rightarrow> (if e = ErrNotFound then problem 422 ''invalid_style_profile'' else problem 500 ''internal_error'', [], d)
           | Inr _ \<Rightarrow>
               (case getByOwner c (pn_tenant_id p) (kr_world_id r) (pd_owner_type kind) oid of
                  Inl e \<Rightarrow> (if e = ErrNotFound then problem 422 ''invalid_request'' else problem 500 ''internal_error'', [], d)
                | Inr v \<Rightarrow>
                    if \<not> requireAdminForAnyExisting (hasScope p ''admin:read'') (fallback_policy_of r)
                    then (problem 403 ''forbidden'', [], d)
                    else
                      (case replay_check (rd 0) (pn_token_id p) ix of
                         Some a \<Rightarrow> (a, [], d)
                       | None \<Rightarrow>
                           (case run_gate (ph_gate h) now (pn_tenant_id p) (pn_token_id p) (kr_governance r) of
                              (Problem s e, evs) \<Rightarrow> (problem s e, evs, d)
                            | (Reply g, evs) \<Rightarrow>
                                (case fulfil_pack h su rd d kind p oid r i v ix of (a, d') \<Rightarrow> (a, evs, d')))))))"

section \<open>Plans\<close>

lemma minimal_templates:
  "packTemplateRoles ''character'' ''character_minimal_portrait_pack'' = Some (pd_default_variants characterPackKind)"
  "packTemplateRoles ''place'' ''place_minimal_scene_pack'' = Some (pd_default_variants placePackKind)"
  by (simp_all add: characterPackKind_def placePackKind_def minimalTemplateRoles_def packTemplateRoles_def
      characterPackTemplates_def placePackTemplates_def)

lemma minimal_nonempty:
  "pd_default_variants characterPackKind \<noteq> []" "pd_default_variants placePackKind \<noteq> []"
  by (simp_all add: characterPackKind_def placePackKind_def minimalTemplateRoles_def packTemplateRoles_def
      characterPackTemplates_def placePackTemplates_def)

lemma templates_nonempty: "packTemplateRoles e t = Some rs \<Longrightarrow> rs \<noteq> []"
  by (auto simp: packTemplateRoles_def characterPackTemplates_def placePackTemplates_def split: if_splits)

lemma dedup_loop_SomeD:
  "dedup_loop out ks = Some r \<Longrightarrow> distinct out \<Longrightarrow> '''' \<notin> set out \<Longrightarrow>
   distinct r \<and> set r = set out \<union> set ks \<and> '''' \<notin> set r"
  by (induction out ks rule: dedup_loop.induct) (auto split: if_splits)

lemma dedupVariants_InrD:
  assumes "dedupVariants ks = Inr r"
  shows "distinct r \<and> set r = set ks \<and> '''' \<notin> set r \<and> length r \<le> 12"
  using assms dedup_loop_SomeD [of "[]" ks r]
  by (auto simp: dedupVariants_def maxPackVariants_def split: option.splits if_splits)

text \<open>A list that is already a plan stays as it is.\<close>

lemma dedup_loop_id: "distinct (out @ ks) \<Longrightarrow> '''' \<notin> set ks \<Longrightarrow> dedup_loop out ks = Some (out @ ks)"
  by (induction out ks rule: dedup_loop.induct) auto

lemma dedup_idem: "dedupVariants ks = Inr r \<Longrightarrow> dedupVariants r = Inr r"
proof -
  assume "dedupVariants ks = Inr r"
  then have r: "distinct r" "'''' \<notin> set r" "length r \<le> 12" using dedupVariants_InrD by auto
  then have "dedup_loop [] r = Some r" using dedup_loop_id [of "[]" r] by simp
  with r(3) show ?thesis by (simp add: dedupVariants_def maxPackVariants_def)
qed

lemma caller_cells_SomeD:
  "caller_cells acc vs = Some cs \<Longrightarrow> distinct (map fst acc) \<Longrightarrow> (\<forall>(k, p) \<in> set acc. k \<noteq> '''' \<and> p \<noteq> '''' \<and> length p \<le> 600) \<Longrightarrow>
   distinct (map fst cs) \<and> (\<forall>(k, p) \<in> set cs. k \<noteq> '''' \<and> p \<noteq> '''' \<and> length p \<le> 600) \<and> length cs = length acc + length vs"
  by (induction acc vs rule: caller_cells.induct) (fastforce simp: Let_def split: if_splits)+

lemma callerVariantPlan_InrD:
  assumes "callerVariantPlan vs = Inr (ks, cs)"
  shows "ks = map fst cs \<and> distinct ks \<and> '''' \<notin> set ks \<and> length ks \<le> 12 \<and> length ks = length vs
    \<and> (\<forall>(k, p) \<in> set cs. p \<noteq> '''' \<and> length p \<le> 600)"
proof -
  from assms have c: "caller_cells [] vs = Some cs" and d: "dedupVariants (map fst cs) = Inr ks"
    by (auto simp: callerVariantPlan_def split: option.splits sum.splits)
  note cd = caller_cells_SomeD [OF c, simplified]
  have "'''' \<notin> set (map fst cs)" using cd by fastforce
  then have "dedup_loop [] (map fst cs) = Some (map fst cs)" using cd dedup_loop_id [of "[]" "map fst cs"] by simp
  with d have "ks = map fst cs" by (auto simp: dedupVariants_def split: if_splits)
  with cd dedupVariants_InrD [OF d] show ?thesis by fastforce
qed

lemma validate_pack_ReplyD:
  assumes "validate_pack kind oid r = Reply i" "kind \<in> {characterPackKind, placePackKind}"
  shows "distinct (pl_keys i) \<and> pl_keys i \<noteq> [] \<and> '''' \<notin> set (pl_keys i) \<and> length (pl_keys i) \<le> 12
    \<and> (pl_prompts i \<noteq> [] \<longrightarrow> map fst (pl_prompts i) = pl_keys i)
    \<and> (pl_background i = ''transparent'' \<longrightarrow> pd_owner_type kind = ''character'')"
proof -
  have def: "pd_default_variants kind \<noteq> []" using assms(2) minimal_nonempty by auto
  have plan: "ks \<noteq> [] \<and> distinct ks \<and> '''' \<notin> set ks \<and> length ks \<le> 12"
    if "resolvePackPlan kind ov t = Inr (ks, ty)" for ov t ks ty
    using that def templates_nonempty by (fastforce simp: resolvePackPlan_def dest!: dedupVariants_InrD split: if_splits sum.splits option.splits)
  show ?thesis
  proof (cases "kr_variants r")
    case None
    with assms(1) show ?thesis
      by (auto simp: validate_pack_def Let_def dest!: plan split: if_splits sum.splits option.splits prod.splits)
  next
    case (Some vs)
    then show ?thesis
    proof (cases vs)
      case Nil
      with Some assms(1) show ?thesis
        by (auto simp: validate_pack_def Let_def dest!: plan split: if_splits sum.splits option.splits prod.splits)
    next
      case (Cons a as)
      with Some assms(1) obtain ks ps where c: "callerVariantPlan (a # as) = Inr (ks, ps)" and i: "pl_keys i = ks" "pl_prompts i = ps"
        by (auto simp: validate_pack_def Let_def split: if_splits sum.splits prod.splits)
      have "pl_background i = ''transparent'' \<longrightarrow> pd_owner_type kind = ''character''"
        using Some Cons assms(1) by (auto simp: validate_pack_def Let_def split: if_splits sum.splits prod.splits option.splits)
      with callerVariantPlan_InrD [OF c] i show ?thesis by auto
    qed
  qed
qed

section \<open>Reuse\<close>

text \<open>An item of the plan is an answer of the retriever for its role.\<close>

definition answered :: "(nat \<Rightarrow> retrieval_query \<Rightarrow> error + retrieval_result) \<Rightarrow> (string \<Rightarrow> retrieval_query) \<Rightarrow> pack_reuse_item \<Rightarrow> bool" where
  "answered rt q x \<longleftrightarrow> (\<exists>n res a. rt n (q (ru_variant_key x)) = Inr res \<and> re_asset res = Some a \<and> ru_asset_id x = va_id a
     \<and> re_match_type res \<noteq> OutcomeGeneratedRequired \<and> ru_match_type x = outcome_text (re_match_type res))"

lemma plan_reuse_step:
  assumes "plan_reuse rt q i (role # roles) items miss = Some r"
  obtains x where "ru_variant_key x = role" "ru_asset_id x \<notin> ru_asset_id ` set items" "answered rt q x"
      "plan_reuse rt q (i + 1) roles (items @ [x]) miss = Some r"
    | "plan_reuse rt q (i + 1) roles items (miss @ [role]) = Some r"
proof -
  from assms obtain res where res: "rt i (q role) = Inr res" by (auto split: sum.splits)
  show thesis
  proof (cases "\<exists>a. re_asset res = Some a \<and> re_match_type res \<noteq> OutcomeGeneratedRequired \<and> va_id a \<notin> ru_asset_id ` set items")
    case True
    then obtain a where a: "re_asset res = Some a" "re_match_type res \<noteq> OutcomeGeneratedRequired" "va_id a \<notin> ru_asset_id ` set items" by blast
    let ?x = "\<lparr>ru_variant_key = role, ru_asset_id = va_id a, ru_match_type = outcome_text (re_match_type res), ru_sort_order = int32 (int i)\<rparr>"
    have "answered rt q ?x" using res a by (auto simp: answered_def)
    with a assms res that(1) [of ?x] show thesis by simp
  next
    case False
    with assms res that(2) show thesis by (auto split: option.splits if_splits)
  qed
qed

lemma plan_reuse_split:
  assumes "plan_reuse rt q i roles items miss = Some (items', miss')"
  shows "mset (map ru_variant_key items' @ miss') = mset (map ru_variant_key items @ miss @ roles)
    \<and> (distinct (map ru_asset_id items) \<longrightarrow> distinct (map ru_asset_id items'))
    \<and> (list_all (answered rt q) items \<longrightarrow> list_all (answered rt q) items')"
  using assms
proof (induction roles arbitrary: i items miss)
  case (Cons role roles)
  from Cons.prems show ?case
  proof (cases rule: plan_reuse_step)
    case (1 x)
    with Cons.IH [OF 1(4)] show ?thesis by simp
  next
    case 2
    with Cons.IH [OF 2] show ?thesis by simp
  qed
qed simp

lemma plan_roles_split:
  assumes "plan_roles h rd kind p r i v = Some (items, missing)"
  shows "mset (map ru_variant_key items @ missing) = mset (pl_keys i) \<and> distinct (map ru_asset_id items)
    \<and> (\<forall>x \<in> set items. \<exists>fe lc n res a. ph_retriever h = Some (fe, lc)
         \<and> retrieve (fe (rd n)) (lc (rd n)) (pack_query kind p r v (ru_variant_key x)) = Inr res
         \<and> re_asset res = Some a \<and> ru_asset_id x = va_id a \<and> re_match_type res \<noteq> OutcomeGeneratedRequired)"
proof (cases "forceRegenerate r \<or> pd_owner_type kind = ''character'' \<and> pl_background i = ''transparent'' \<or> ph_retriever h = None")
  case True
  with assms show ?thesis by (auto simp: plan_roles_def planPackReuse_def split: if_splits)
next
  case False
  then obtain fe lc where h: "ph_retriever h = Some (fe, lc)" by auto
  let ?rt = "\<lambda>n. retrieve (fe (rd (n + 1))) (lc (rd (n + 1)))"
  from False assms h have p: "plan_reuse ?rt (pack_query kind p r v) 0 (pl_keys i) [] [] = Some (items, missing)"
    by (auto simp: plan_roles_def planPackReuse_def)
  note sp = plan_reuse_split [OF p, simplified]
  have "answered ?rt (pack_query kind p r v) x" if "x \<in> set items" for x using sp that by (simp add: list_all_iff)
  with h sp show ?thesis by (fastforce simp: answered_def)
qed

section \<open>The whole request\<close>

lemma respondPackAllHits_reachable:
  assumes "respondPackAllHits su d kind p r i v payload ix items = (a, d')" "reachable (su_trunc su) d"
    and "\<And>x. reachable (su_trunc su) x \<Longrightarrow> reachable (su_trunc su) (su_env su x)"
  shows "reachable (su_trunc su) d'"
proof -
  obtain c res e where c: "createCompletedPackReuseJob (su_env su) d (su_ids su) c = (res, e, d')"
    using assms(1) by (auto simp: respondPackAllHits_def split: prod.splits option.splits)
  have "d' = d \<or> d' = su_env su d \<or> createCompletedPackReuseJob (\<lambda>x. x) d (su_ids su) c = (res, e, d')"
    using c by (auto simp: createCompletedPackReuseJob_def split: if_splits sum.splits option.splits prod.splits)
  then show ?thesis using assms(2,3) reachable_step platform_step.pack_reuse by metis
qed

text \<open>
  A request that changes the database was valid, named a style and an identity of its tenant,
  asked for a policy it may use, was no replay and passed the gate.
\<close>

lemma generatePack_cases:
  assumes "generatePack h su c rd now d kind p oid r ix = (a, evs, d')"
  obtains "d' = d"
    | i v g where "validate_pack kind oid r = Reply i" "getStyle c (kr_style_profile_id r) (pn_tenant_id p) \<noteq> Inl ErrNotFound"
      "getByOwner c (pn_tenant_id p) (kr_world_id r) (pd_owner_type kind) oid = Inr v"
      "requireAdminForAnyExisting (hasScope p ''admin:read'') (fallback_policy_of r)"
      "replay_check (rd 0) (pn_token_id p) ix = None"
      "run_gate (ph_gate h) now (pn_tenant_id p) (pn_token_id p) (kr_governance r) = (Reply g, evs)"
      "fulfil_pack h su rd d kind p oid r i v ix = (a, d')"
  using assms
  by (auto simp: generatePack_def split: reply.splits sum.splits if_splits option.splits prod.splits)

lemma fulfil_pack_cases:
  assumes "fulfil_pack h su rd d kind p oid r i v ix = (a, d')"
  obtains "plan_roles h rd kind p r i v = None" "a = problem 500 ''internal_error''" "d' = d"
    | items where "plan_roles h rd kind p r i v = Some (items, [])" "ph_retriever h \<noteq> None"
        "respondPackAllHits su d kind p r i v (pack_payload kind oid r i v) ix items = (a, d')"
    | items missing where "plan_roles h rd kind p r i v = Some (items, missing)" "ph_retriever h = None \<or> missing \<noteq> []"
        "route_and_create su True (ph_resolver h) (pack_route_request h r)
           (\<lambda>_. pack_params kind p r i v (pack_payload kind oid r i v) ix items missing) d = (a, d')"
proof (cases "plan_roles h rd kind p r i v")
  case None
  with assms that(1) show thesis by (simp add: fulfil_pack_def)
next
  case (Some x)
  obtain items missing where x: "x = (items, missing)" by (cases x)
  show thesis
  proof (cases "ph_retriever h \<noteq> None \<and> missing = []")
    case True
    with assms Some x that(2) [of items] show thesis by (simp add: fulfil_pack_def Let_def)
  next
    case False
    with assms Some x that(3) [of items missing] show thesis
      by (cases "ph_retriever h") (auto simp: fulfil_pack_def Let_def split: if_splits)
  qed
qed

lemma fulfil_pack_reachable:
  assumes "fulfil_pack h su rd d kind p oid r i v ix = (a, d')" "reachable (su_trunc su) d"
    and "\<And>x. reachable (su_trunc su) x \<Longrightarrow> reachable (su_trunc su) (su_env su x)"
  shows "reachable (su_trunc su) d'"
  using assms(1)
proof (cases rule: fulfil_pack_cases)
  case 1
  with assms(2) show ?thesis by simp
next
  case (2 items)
  from respondPackAllHits_reachable [OF 2(3) assms(2,3)] show ?thesis .
next
  case (3 items missing)
  from route_and_create_reachable [OF 3(3) assms(2,3)] show ?thesis .
qed

end
