(* ===== verification/Render_Hash.thy ===== *)
theory Render_Hash
  imports Assets
begin

text \<open>
  The keys of exact reuse, \<open>internal/assets/artifact_hash.go\<close> and \<open>generation_hash.go\<close>: the
  canonical text of a render and its hash. \<open>sha\<close> stands for the hexadecimal SHA-256 of a byte
  string. What is proved is that the canonical text loses nothing a render depends on.
\<close>

section \<open>Canonical text\<close>

definition newline :: char where
  "newline = CHR 0x0A"

text \<open>\<open>strings.Fields\<close> on ASCII: the words between runs of white space.\<close>

fun fields_loop :: "string \<Rightarrow> string \<Rightarrow> string list" where
  "fields_loop w [] = (if w = [] then [] else [w])"
| "fields_loop w (c # cs) =
     (if is_space c then (if w = [] then fields_loop [] cs else w # fields_loop [] cs)
      else fields_loop (w @ [c]) cs)"

fun join_space :: "string list \<Rightarrow> string" where
  "join_space [] = []"
| "join_space [w] = w"
| "join_space (w # ws) = w @ CHR '' '' # join_space ws"

definition normalizeArtifactDescription :: "string \<Rightarrow> string" where
  "normalizeArtifactDescription s = join_space (fields_loop [] s)"

definition writeHashField :: "string \<Rightarrow> string \<Rightarrow> string" where
  "writeHashField label value = label @ CHR ''='' # value @ [newline]"

record artifact_hash_input =
  ah_tenant_id :: string
  ah_world_id :: string
  ah_artifact_id :: string
  ah_description :: string
  ah_style_profile_id :: string
  ah_style_profile_version :: "int option"
  ah_quality_tier :: string
  ah_variant_key :: string

definition artifact_canonical :: "artifact_hash_input \<Rightarrow> string" where
  "artifact_canonical i =
     writeHashField ''v'' ''1''
     @ writeHashField ''tenant_id'' (ah_tenant_id i)
     @ writeHashField ''world_id'' (ah_world_id i)
     @ writeHashField ''artifact_id'' (ah_artifact_id i)
     @ writeHashField ''description'' (normalizeArtifactDescription (ah_description i))
     @ writeHashField ''style_profile_id'' (ah_style_profile_id i)
     @ writeHashField ''style_profile_version''
         (case ah_style_profile_version i of None \<Rightarrow> '''' | Some v \<Rightarrow> itoa v)
     @ writeHashField ''quality_tier'' (ah_quality_tier i)
     @ writeHashField ''variant_key'' (if ah_variant_key i = '''' then ''default'' else ah_variant_key i)"

definition artifactRenderHash :: "(string \<Rightarrow> string) \<Rightarrow> artifact_hash_input \<Rightarrow> string" where
  "artifactRenderHash sha i = sha (artifact_canonical i)"

text \<open>\<open>strconv.FormatFloat(x, 'f', 2, 64)\<close> of a positive value: correctly rounded, ties to even.\<close>

definition round_half_even :: "rat \<Rightarrow> int" where
  "round_half_even x =
     (let f = \<lfloor>x\<rfloor>; r = x - of_int f
      in if r < 1 / 2 then f else if r > 1 / 2 then f + 1 else if even f then f else f + 1)"

definition two_digits :: "int \<Rightarrow> string" where
  "two_digits n = (if n < 10 then CHR ''0'' # itoa n else itoa n)"

definition format_fixed2 :: "rat \<Rightarrow> string" where
  "format_fixed2 x =
     (let c = round_half_even (x * 100) in itoa (c div 100) @ CHR ''.'' # two_digits (c mod 100))"

record generation_hash_input =
  gh_tenant_id :: string
  gh_identity_id :: string
  gh_display_name :: string
  gh_style_profile_id :: string
  gh_anchor_asset_id :: string
  gh_identity_anchor_asset_ids :: "string list"
  gh_derive_from :: string
  gh_intent :: string
  gh_max_megapixels :: rat
  gh_transform_json :: string

fun anchor_fields :: "nat \<Rightarrow> string list \<Rightarrow> string" where
  "anchor_fields n [] = []"
| "anchor_fields n (a # as) = writeHashField (''identity_anchor_'' @ itoa (int n)) a @ anchor_fields (n + 1) as"

definition effective_megapixels :: "rat \<Rightarrow> rat" where
  "effective_megapixels x = (if x \<le> 0 then 4 else x)"

definition generation_canonical :: "generation_hash_input \<Rightarrow> string" where
  "generation_canonical i =
     writeHashField ''gv'' ''5''
     @ writeHashField ''tenant_id'' (gh_tenant_id i)
     @ writeHashField ''identity_id'' (gh_identity_id i)
     @ writeHashField ''display_name'' (normalizeArtifactDescription (gh_display_name i))
     @ writeHashField ''style_profile_id'' (gh_style_profile_id i)
     @ writeHashField ''anchor_asset_id'' (gh_anchor_asset_id i)
     @ writeHashField ''identity_anchor_count'' (itoa (int (length (gh_identity_anchor_asset_ids i))))
     @ anchor_fields 0 (gh_identity_anchor_asset_ids i)
     @ writeHashField ''derive_from'' (gh_derive_from i)
     @ writeHashField ''intent'' (gh_intent i)
     @ writeHashField ''max_megapixels'' (format_fixed2 (effective_megapixels (gh_max_megapixels i)))
     @ writeHashField ''transform'' (normalizeArtifactDescription (gh_transform_json i))"

definition generationRenderHash :: "(string \<Rightarrow> string) \<Rightarrow> generation_hash_input \<Rightarrow> string" where
  "generationRenderHash sha i = sha (generation_canonical i)"

section \<open>Lines\<close>

definition one_line :: "string \<Rightarrow> bool" where
  "one_line s \<longleftrightarrow> newline \<notin> set s"

lemma one_line_simps [simp]:
  "one_line []" "one_line (c # s) \<longleftrightarrow> c \<noteq> newline \<and> one_line s" "one_line (s @ t) \<longleftrightarrow> one_line s \<and> one_line t"
  by (auto simp: one_line_def)

text \<open>A text splits at its first newline, and at its last, in one way only.\<close>

lemma first_line_eq:
  assumes "one_line x" "one_line y"
  shows "x @ newline # r = y @ newline # s \<longleftrightarrow> x = y \<and> r = s"
proof
  assume e: "x @ newline # r = y @ newline # s"
  have "takeWhile (\<lambda>c. c \<noteq> newline) (x @ newline # r) = x" "takeWhile (\<lambda>c. c \<noteq> newline) (y @ newline # s) = y"
    using assms by (auto simp: one_line_def takeWhile_append intro!: takeWhile_eq_all_conv [THEN iffD2])
  with e have "x = y" by metis
  with e show "x = y \<and> r = s" by simp
qed simp

lemma last_line_eq:
  assumes "one_line x" "one_line y"
  shows "r @ newline # x = s @ newline # y \<longleftrightarrow> r = s \<and> x = y"
proof -
  have "r @ newline # x = s @ newline # y \<longleftrightarrow> rev x @ newline # rev r = rev y @ newline # rev s"
    by (metis append.assoc append_Cons append_Nil rev.simps(2) rev_append rev_rev_ident)
  also have "\<dots> \<longleftrightarrow> rev x = rev y \<and> rev r = rev s" using assms by (intro first_line_eq) (simp_all add: one_line_def)
  finally show ?thesis by auto
qed

lemma field_first_eq:
  assumes "one_line v" "one_line w"
  shows "writeHashField l v @ r = writeHashField l w @ s \<longleftrightarrow> v = w \<and> r = s"
  using first_line_eq [OF assms, of r s] by (simp add: writeHashField_def)

text \<open>A field that ends a text and holds one line is read from the end.\<close>

lemma field_last_eq:
  assumes "one_line l" "one_line v" "one_line w"
  shows "r @ newline # writeHashField l v = s @ newline # writeHashField l w \<longleftrightarrow> r = s \<and> v = w"
  using last_line_eq [of "l @ CHR ''='' # v" "l @ CHR ''='' # w" r s] assms
  by (auto simp: writeHashField_def newline_def)

section \<open>The values are lines\<close>

lemma fields_loop_words: "x \<in> set (fields_loop w s) \<Longrightarrow> \<not> list_ex is_space w \<Longrightarrow> \<not> list_ex is_space x"
  by (induction w s rule: fields_loop.induct) (auto split: if_splits)

lemma newline_space: "is_space newline"
  by (simp add: is_space_def newline_def)

lemma join_space_line: "(\<And>x. x \<in> set ws \<Longrightarrow> one_line x) \<Longrightarrow> one_line (join_space ws)"
  by (induction ws rule: join_space.induct) (auto simp: newline_def)

lemma normalize_one_line [simp]: "one_line (normalizeArtifactDescription s)"
  unfolding normalizeArtifactDescription_def
proof (rule join_space_line)
  fix x assume "x \<in> set (fields_loop [] s)"
  from fields_loop_words [OF this] show "one_line x"
    using newline_space by (auto simp: one_line_def list_ex_iff)
qed

lemma itoa_one_line [simp]: "one_line (itoa n)"
proof -
  have "one_line (show_nat m)" for m
    using show_nat_digits by (force simp: one_line_def is_digit_def newline_def)
  then show ?thesis by (simp add: itoa_eq newline_def)
qed

lemma format_one_line [simp]: "one_line (format_fixed2 x)"
  by (simp add: format_fixed2_def two_digits_def Let_def newline_def)

section \<open>What the keys tell apart\<close>

text \<open>
  Within one tenant, world, style and tier (which the lookup compares itself) an artifact key is
  exact on the artifact and on the normalised description, even when the artifact id, which the
  caller chooses, holds a newline.
\<close>

lemma artifact_canonical_eq:
  assumes "ah_tenant_id i = ah_tenant_id j" "ah_world_id i = ah_world_id j"
    and "ah_style_profile_id i = ah_style_profile_id j" "ah_style_profile_version i = ah_style_profile_version j"
    and "ah_quality_tier i = ah_quality_tier j" "ah_variant_key i = ah_variant_key j"
  shows "artifact_canonical i = artifact_canonical j \<longleftrightarrow>
     ah_artifact_id i = ah_artifact_id j
     \<and> normalizeArtifactDescription (ah_description i) = normalizeArtifactDescription (ah_description j)"
proof -
  let ?a = "\<lambda>k. ''artifact_id='' @ ah_artifact_id k"
  let ?d = "\<lambda>k. normalizeArtifactDescription (ah_description k)"
  have "artifact_canonical i = artifact_canonical j \<longleftrightarrow>
      ?a i @ newline # writeHashField ''description'' (?d i) = ?a j @ newline # writeHashField ''description'' (?d j)"
    using assms by (simp add: artifact_canonical_def writeHashField_def)
  also have "\<dots> \<longleftrightarrow> ?a i = ?a j \<and> ?d i = ?d j" by (rule field_last_eq) (simp_all add: newline_def)
  finally show ?thesis by simp
qed

lemma tail_lines_eq:
  assumes "one_line a" "one_line b" "one_line c" "one_line a'" "one_line b'" "one_line c'"
  shows "d @ newline # a @ newline # b @ newline # c @ [newline] = d' @ newline # a' @ newline # b' @ newline # c' @ [newline]
    \<longleftrightarrow> d = d' \<and> a = a' \<and> b = b' \<and> c = c'"
proof -
  have "d @ newline # a @ newline # b @ newline # c @ [newline] = d' @ newline # a' @ newline # b' @ newline # c' @ [newline]
      \<longleftrightarrow> (d @ newline # a @ newline # b) @ newline # c = (d' @ newline # a' @ newline # b') @ newline # c'" by simp
  also have "\<dots> \<longleftrightarrow> (d @ newline # a) @ newline # b = (d' @ newline # a') @ newline # b' \<and> c = c'"
    by (subst last_line_eq [OF assms(3,6)]) simp
  also have "\<dots> \<longleftrightarrow> d @ newline # a = d' @ newline # a' \<and> b = b' \<and> c = c'"
    by (subst last_line_eq [OF assms(2,5)]) simp
  finally show ?thesis using last_line_eq [OF assms(1,4)] by simp
qed

lemma anchor_fields_eq:
  assumes "length as = length bs" "list_all one_line as" "list_all one_line bs"
  shows "anchor_fields n as @ r = anchor_fields n bs @ s \<longleftrightarrow> as = bs \<and> r = s"
  using assms
proof (induction as bs arbitrary: n rule: list_induct2)
  case (Cons a as b bs)
  then show ?case using field_first_eq [of a b] by simp
qed simp

text \<open>
  Every field but \<open>derive_from\<close> holds one line: identifiers the database issued, the two words of
  the intent and normalised text.
\<close>

definition line_fields :: "generation_hash_input \<Rightarrow> bool" where
  "line_fields i \<longleftrightarrow> one_line (gh_tenant_id i) \<and> one_line (gh_identity_id i) \<and> one_line (gh_style_profile_id i)
     \<and> one_line (gh_anchor_asset_id i) \<and> list_all one_line (gh_identity_anchor_asset_ids i) \<and> one_line (gh_intent i)"

definition same_render :: "generation_hash_input \<Rightarrow> generation_hash_input \<Rightarrow> bool" where
  "same_render i j \<longleftrightarrow> gh_tenant_id i = gh_tenant_id j \<and> gh_identity_id i = gh_identity_id j
     \<and> normalizeArtifactDescription (gh_display_name i) = normalizeArtifactDescription (gh_display_name j)
     \<and> gh_style_profile_id i = gh_style_profile_id j \<and> gh_anchor_asset_id i = gh_anchor_asset_id j
     \<and> gh_identity_anchor_asset_ids i = gh_identity_anchor_asset_ids j \<and> gh_derive_from i = gh_derive_from j
     \<and> format_fixed2 (effective_megapixels (gh_max_megapixels i)) = format_fixed2 (effective_megapixels (gh_max_megapixels j))
     \<and> normalizeArtifactDescription (gh_transform_json i) = normalizeArtifactDescription (gh_transform_json j)"

definition generation_tail :: "generation_hash_input \<Rightarrow> string" where
  "generation_tail i =
     (''derive_from='' @ gh_derive_from i) @ newline # (''intent='' @ gh_intent i)
     @ newline # (''max_megapixels='' @ format_fixed2 (effective_megapixels (gh_max_megapixels i)))
     @ newline # (''transform='' @ normalizeArtifactDescription (gh_transform_json i)) @ [newline]"

lemma generation_tail_eq:
  assumes "one_line (gh_intent i)" "one_line (gh_intent j)"
  shows "generation_tail i = generation_tail j \<longleftrightarrow>
     gh_derive_from i = gh_derive_from j \<and> gh_intent i = gh_intent j
     \<and> format_fixed2 (effective_megapixels (gh_max_megapixels i)) = format_fixed2 (effective_megapixels (gh_max_megapixels j))
     \<and> normalizeArtifactDescription (gh_transform_json i) = normalizeArtifactDescription (gh_transform_json j)"
  unfolding generation_tail_def
  by (subst tail_lines_eq) (use assms in \<open>simp_all add: newline_def\<close>)

lemma generation_canonical_split:
  "generation_canonical i =
     writeHashField ''gv'' ''5'' @ writeHashField ''tenant_id'' (gh_tenant_id i)
     @ writeHashField ''identity_id'' (gh_identity_id i)
     @ writeHashField ''display_name'' (normalizeArtifactDescription (gh_display_name i))
     @ writeHashField ''style_profile_id'' (gh_style_profile_id i)
     @ writeHashField ''anchor_asset_id'' (gh_anchor_asset_id i)
     @ writeHashField ''identity_anchor_count'' (itoa (int (length (gh_identity_anchor_asset_ids i))))
     @ anchor_fields 0 (gh_identity_anchor_asset_ids i) @ generation_tail i"
  by (simp add: generation_canonical_def generation_tail_def writeHashField_def)

lemma generation_canonical_eq:
  assumes "line_fields i" "line_fields j"
  shows "generation_canonical i = generation_canonical j \<longleftrightarrow> same_render i j \<and> gh_intent i = gh_intent j"
proof -
  note li = assms [unfolded line_fields_def]
  have tail: "itoa (int (length (gh_identity_anchor_asset_ids i))) = itoa (int (length (gh_identity_anchor_asset_ids j)))
        \<and> anchor_fields 0 (gh_identity_anchor_asset_ids i) @ generation_tail i
          = anchor_fields 0 (gh_identity_anchor_asset_ids j) @ generation_tail j
      \<longleftrightarrow> gh_identity_anchor_asset_ids i = gh_identity_anchor_asset_ids j \<and> generation_tail i = generation_tail j"
    using anchor_fields_eq [of "gh_identity_anchor_asset_ids i" "gh_identity_anchor_asset_ids j"] li
    by (auto dest!: itoa_inj)
  have "generation_canonical i = generation_canonical j \<longleftrightarrow>
      gh_tenant_id i = gh_tenant_id j \<and> gh_identity_id i = gh_identity_id j
      \<and> normalizeArtifactDescription (gh_display_name i) = normalizeArtifactDescription (gh_display_name j)
      \<and> gh_style_profile_id i = gh_style_profile_id j \<and> gh_anchor_asset_id i = gh_anchor_asset_id j
      \<and> gh_identity_anchor_asset_ids i = gh_identity_anchor_asset_ids j \<and> generation_tail i = generation_tail j"
    unfolding generation_canonical_split using li tail by (simp add: field_first_eq)
  then show ?thesis using li by (auto simp: same_render_def generation_tail_eq)
qed

text \<open>
  The two limits of the keys. A caller's anchor id is not checked before the lookup, so with
  newlines in it two different requests share a key. And the budget is rounded to even where
  the column rounds half up, while the worker enforces the unrounded value.
\<close>

lemma anchor_key_collides:
  fixes i defaults
  defines "n \<equiv> [newline] @ ''identity_anchor_count=0'' @ [newline] @ ''derive_from=''"
  assumes "gh_identity_anchor_asset_ids i = []"
  shows "generation_canonical (i\<lparr>gh_anchor_asset_id := a @ n @ b, gh_derive_from := c\<rparr>)
       = generation_canonical (i\<lparr>gh_anchor_asset_id := a, gh_derive_from := b @ n @ c\<rparr>)"
proof -
  have "itoa 0 = ''0''" by (simp add: itoa_def)
  then show ?thesis using assms by (simp add: generation_canonical_def writeHashField_def)
qed

lemma budget_key_rounds:
  "format_fixed2 (2004 / 1000) = format_fixed2 2" "format_fixed2 (1 / 8) \<noteq> format_fixed2 (13 / 100)"
  by code_simp+

end
