(* ===== verification/Single_Handlers.thy ===== *)
theory Single_Handlers
  imports Pack_Handler Render_Hash
begin

text \<open>
  The requests for one image, \<open>internal/http/handlers\<close>: \<open>generations_handler.go\<close>,
  \<open>artifacts_handler.go\<close>, \<open>style_preview_handler.go\<close> and \<open>bootstrap_anchor_handler.go\<close>. Each
  validates, answers a replay, passes the gate, looks for an exact match it may serve for free,
  and only then resolves a route and creates a priced job. \<open>rd i\<close> is the database at the handler's
  \<open>i\<close>-th read; \<open>sha\<close> and \<open>marshal\<close> stand for SHA-256 and the JSON encoder. Message texts are left out.
\<close>

section \<open>Shared pieces\<close>

definition deref :: "string option \<Rightarrow> string" where
  "deref x = (case x of None \<Rightarrow> '''' | Some s \<Rightarrow> s)"

text \<open>\<open>None\<close> is a repository that is not wired; a style that is not found gives no prompts.\<close>

definition loadStylePrompts :: "catalog option \<Rightarrow> string \<Rightarrow> string \<Rightarrow> error + string \<times> string" where
  "loadStylePrompts repo ten sid =
     (case repo of
        None \<Rightarrow> Inr ('''', '''')
      | Some c \<Rightarrow>
          if trimSpace sid = '''' then Inr ('''', '''')
          else
            (case getStyle c sid ten of
               Inl e \<Rightarrow> if e = ErrNotFound then Inr ('''', '''') else Inl e
             | Inr s \<Rightarrow> Inr (trimSpace (sy_positive_prompt s),
                 case sy_negative_prompt s of None \<Rightarrow> '''' | Some n \<Rightarrow> trimSpace n)))"

definition validDeliveryMode :: "string \<Rightarrow> bool" where
  "validDeliveryMode m \<longleftrightarrow> m \<in> {''final_only'', ''preview_first''}"

text \<open>\<open>CanonicalVisualTraits["appearance"].(string)\<close>, trimmed.\<close>

definition appearance :: "visual_identity \<Rightarrow> string" where
  "appearance v =
     (case vi_traits v of
        JObj kvs \<Rightarrow> (case map_of kvs ''appearance'' of Some (JStr s) \<Rightarrow> trimSpace s | _ \<Rightarrow> '''')
      | _ \<Rightarrow> '''')"

text \<open>The envelope of a free answer: it says queued whatever the job's status is.\<close>

definition cache_hit_answer :: "surroundings \<Rightarrow> db \<Rightarrow> cache_hit_params \<Rightarrow> answer \<times> db" where
  "cache_hit_answer su d c =
     (case createCompletedCacheHitJob (su_env su) d (su_ids su) c of
        (r, Some e, d') \<Rightarrow> (writeJobServiceError e, d')
      | (r, None, d') \<Rightarrow>
          ((Reply \<lparr>ac_job_id = cr_job_id r, ac_status = ''queued'',
              ac_estimated_cost_usd = Some (if cr_estimated_cost_usd r \<noteq> '''' then cr_estimated_cost_usd r else ''0.0000''),
              ac_currency = None, ac_cost_reservation_id = None, ac_asset_pack_id = None\<rparr>, None), d'))"

definition keyed_hit :: "cache_hit_params \<Rightarrow> idem_context \<Rightarrow> cache_hit_params" where
  "keyed_hit c ix = (if ix_key ix = '''' then c
     else c\<lparr>ch_idempotency_key := ix_key ix, ch_endpoint := ix_endpoint ix, ch_request_hash := ix_request_hash ix\<rparr>)"

definition keyed_params :: "create_params \<Rightarrow> idem_context \<Rightarrow> create_params" where
  "keyed_params c ix = (if ix_key ix = '''' then c
     else c\<lparr>cp_idempotency_key := ix_key ix, cp_endpoint := ix_endpoint ix, cp_request_hash := ix_request_hash ix\<rparr>)"

text \<open>The parameters every single image starts from: one unit, nothing optional.\<close>

definition single_params :: "principal \<Rightarrow> string \<Rightarrow> string \<Rightarrow> string option \<Rightarrow> payload \<Rightarrow> string \<Rightarrow> create_params" where
  "single_params p jtype world ident payload policy =
     \<lparr>cp_tenant_id = pn_tenant_id p, cp_token_id = pn_token_id p, cp_job_type = jtype, cp_world_id = world,
      cp_input_payload = payload, cp_fallback_policy = policy, cp_cache_result = ''generated_required'',
      cp_asset_pack = None, cp_provider_id = '''', cp_model_id = '''', cp_route_id = '''', cp_operation_type = '''',
      cp_units = 1, cp_user_id = '''', cp_route_chain = [], cp_idempotency_key = '''', cp_endpoint = '''',
      cp_request_hash = '''', cp_max_concurrent_jobs = li_max_concurrent_jobs (pn_limits p), cp_intent = None,
      cp_lazy = None, cp_anchor_asset_id = None, cp_derive_from = None, cp_visual_identity_id = ident\<rparr>"

definition single_hit :: "principal \<Rightarrow> string \<Rightarrow> string \<Rightarrow> string option \<Rightarrow> payload \<Rightarrow> string \<Rightarrow> string \<Rightarrow> cache_hit_params" where
  "single_hit p jtype world ident payload policy asset =
     \<lparr>ch_tenant_id = pn_tenant_id p, ch_token_id = pn_token_id p, ch_job_type = jtype, ch_world_id = world,
      ch_visual_identity_id = ident, ch_input_payload = payload, ch_fallback_policy = policy,
      ch_final_asset_id = asset, ch_requested_outputs = [], ch_idempotency_key = '''', ch_endpoint = '''',
      ch_request_hash = ''''\<rparr>"

section \<open>Generations\<close>

record generation_request =
  nr_governance :: envelope
  nr_identity_id :: string
  nr_anchor_asset_id :: "string option"
  nr_derive_from :: "string option"
  nr_intent :: string
  nr_max_megapixels :: "rat option"
  nr_transform :: "(string \<times> json) list option"
  nr_transform_only :: "bool option"
  nr_provider_id :: "string option"
  nr_grid_enabled :: "bool option"
  nr_lazy :: "bool option"
  nr_idempotency_key :: "string option"

definition platformCeiling :: rat where
  "platformCeiling = 4"

text \<open>A decoded JSON number is finite.\<close>

definition validateMegapixels :: "rat option \<Rightarrow> rat \<Rightarrow> rat option" where
  "validateMegapixels p limit =
     (case p of None \<Rightarrow> Some limit | Some x \<Rightarrow> if x \<le> 0 then None else if x > limit then None else Some x)"

definition transform_versioned :: "(string \<times> json) list \<Rightarrow> bool" where
  "transform_versioned m \<longleftrightarrow> (\<exists>s. map_of m ''schema_version'' = Some (JStr s) \<and> s \<noteq> '''')"

text \<open>Steps 4 to 6: the effective pixel budget and idempotency key, or the refusal.\<close>

definition validate_generation :: "generation_request \<Rightarrow> string \<Rightarrow> (rat \<times> string) reply" where
  "validate_generation r header =
     (let g = nr_governance r; mp = validateMegapixels (nr_max_megapixels r) platformCeiling;
          body = deref (nr_idempotency_key r); key = (if header = '''' then body else header)
      in if ev_schema_version g = '''' \<or> ev_classification_id g = '''' \<or> ev_visibility g = '''' \<or> ev_content_class g = ''''
            \<or> ev_authorized_by g = '''' \<or> ev_signature g = '''' \<or> nr_identity_id r = ''''
            \<or> nr_intent r \<noteq> ''draft'' \<and> nr_intent r \<noteq> ''commit'' \<or> mp = None
            \<or> (case nr_transform r of None \<Rightarrow> False | Some m \<Rightarrow> \<not> transform_versioned m)
         then Problem 422 ''invalid_request''
         else if nr_transform_only r = Some True then Problem 501 ''transform_only_not_supported''
         else if nr_grid_enabled r = Some True then Problem 501 ''grid_not_supported''
         else if body \<noteq> '''' \<and> header \<noteq> '''' \<and> header \<noteq> body \<or> key = '''' then Problem 422 ''invalid_request''
         else Reply (the mp, key))"

record generations_handler =
  nh_resolver :: resolver
  nh_gate :: governance_gate
  nh_styles :: "catalog option"
  nh_reuse :: "(db \<Rightarrow> string \<Rightarrow> string \<Rightarrow> error + visual_asset) option"
  nh_sha :: "string \<Rightarrow> string"
  nh_marshal :: "(string \<times> json) list \<Rightarrow> string"

definition identityPrompt :: "visual_identity \<Rightarrow> string" where
  "identityPrompt v = (if appearance v \<noteq> '''' then appearance v else vi_display_name v)"

definition generation_key_input ::
    "generations_handler \<Rightarrow> principal \<Rightarrow> generation_request \<Rightarrow> visual_identity \<Rightarrow> rat \<Rightarrow> string \<Rightarrow> generation_hash_input" where
  "generation_key_input h p r v mp intent =
     \<lparr>gh_tenant_id = pn_tenant_id p, gh_identity_id = nr_identity_id r, gh_display_name = identityPrompt v,
      gh_style_profile_id = vi_style_profile_id v, gh_anchor_asset_id = deref (nr_anchor_asset_id r),
      gh_identity_anchor_asset_ids = vi_anchor_asset_ids v, gh_derive_from = deref (nr_derive_from r),
      gh_intent = intent, gh_max_megapixels = mp,
      gh_transform_json = (case nr_transform r of None \<Rightarrow> '''' | Some m \<Rightarrow> nh_marshal h m)\<rparr>"

definition hashForIntent ::
    "generations_handler \<Rightarrow> principal \<Rightarrow> generation_request \<Rightarrow> visual_identity \<Rightarrow> rat \<Rightarrow> string \<Rightarrow> string" where
  "hashForIntent h p r v mp intent = generationRenderHash (nh_sha h) (generation_key_input h p r v mp intent)"

text \<open>A draft may be served a committed render, never the reverse.\<close>

definition generation_lookups ::
    "generations_handler \<Rightarrow> principal \<Rightarrow> generation_request \<Rightarrow> visual_identity \<Rightarrow> rat \<Rightarrow> string list" where
  "generation_lookups h p r v mp =
     hashForIntent h p r v mp (nr_intent r)
     # (if nr_intent r = ''draft'' then [hashForIntent h p r v mp ''commit''] else [])"

fun first_hit :: "(nat \<Rightarrow> string \<Rightarrow> error + visual_asset) \<Rightarrow> nat \<Rightarrow> string list \<Rightarrow> error + visual_asset option" where
  "first_hit f n [] = Inr None"
| "first_hit f n (k # ks) =
     (case f n k of
        Inr a \<Rightarrow> Inr (Some a)
      | Inl e \<Rightarrow> if e = ErrNotFound then first_hit f (n + 1) ks else Inl e)"

definition generation_reuse ::
    "generations_handler \<Rightarrow> (nat \<Rightarrow> db) \<Rightarrow> principal \<Rightarrow> generation_request \<Rightarrow> visual_identity \<Rightarrow> rat \<Rightarrow> error + visual_asset option" where
  "generation_reuse h rd p r v mp =
     (case nh_reuse h of
        None \<Rightarrow> Inr None
      | Some f \<Rightarrow> first_hit (\<lambda>n. f (rd n) (pn_tenant_id p)) 1 (generation_lookups h p r v mp))"

definition generation_hit ::
    "generations_handler \<Rightarrow> principal \<Rightarrow> generation_request \<Rightarrow> visual_identity \<Rightarrow> rat \<Rightarrow> visual_asset \<Rightarrow> cache_hit_params" where
  "generation_hit h p r v mp a =
     single_hit p ''generation'' (vi_world_id v) (strPtr (vi_id v))
       [''identity_id'' \<mapsto> JStr (nr_identity_id r), ''intent'' \<mapsto> JStr (nr_intent r),
        ''prompt_hash'' \<mapsto> JStr (hashForIntent h p r v mp (nr_intent r))] ''compatible_only'' (va_id a)"

definition generation_route_request :: "generation_request \<Rightarrow> resolve_request" where
  "generation_route_request r =
     \<lparr>qr_operation_type = ''text_to_image'', qr_quality_tier = '''', qr_latency_tier = '''',
      qr_required_capability = (if nr_identity_id r = '''' then CapabilitySceneCapable else CapabilityIdentityCapable),
      qr_required_preview_capability = '''', qr_provider_preference = '''', qr_provider_id = deref (nr_provider_id r),
      qr_intent = nr_intent r\<rparr>"

definition generation_payload ::
    "generations_handler \<Rightarrow> principal \<Rightarrow> generation_request \<Rightarrow> visual_identity \<Rightarrow> rat \<Rightarrow> string \<times> string \<Rightarrow> routed \<Rightarrow> payload" where
  "generation_payload h p r v mp prompts route =
     put_if (nr_lazy r \<noteq> None) ''lazy'' (JBool (the (nr_lazy r)))
     (put_if (nr_derive_from r \<noteq> None) ''derive_from'' (JStr (the (nr_derive_from r)))
     (put_if (nr_anchor_asset_id r \<noteq> None) ''anchor_asset_id'' (JStr (the (nr_anchor_asset_id r)))
     (put_if (rw_quality_tier route \<noteq> '''') ''quality_tier'' (JStr (rw_quality_tier route))
     [''description'' \<mapsto> JStr (identityPrompt v), ''style_positive_prompt'' \<mapsto> JStr (fst prompts),
      ''style_negative_prompt'' \<mapsto> JStr (snd prompts),
      ''prompt_hash'' \<mapsto> JStr (hashForIntent h p r v mp (nr_intent r)),
      ''identity_id'' \<mapsto> JStr (nr_identity_id r), ''intent'' \<mapsto> JStr (nr_intent r),
      ''style_profile_id'' \<mapsto> JStr (vi_style_profile_id v), ''max_megapixels'' \<mapsto> JNum mp])))"

definition generation_params ::
    "generations_handler \<Rightarrow> principal \<Rightarrow> generation_request \<Rightarrow> visual_identity \<Rightarrow> rat \<Rightarrow> string \<times> string \<Rightarrow> idem_context
     \<Rightarrow> routed \<Rightarrow> create_params" where
  "generation_params h p r v mp prompts ix route =
     (single_params p ''generation'' (vi_world_id v) (Some (vi_id v)) (generation_payload h p r v mp prompts route)
        ''compatible_only'')
     \<lparr>cp_intent := Some (nr_intent r), cp_lazy := nr_lazy r, cp_anchor_asset_id := nr_anchor_asset_id r,
      cp_derive_from := nr_derive_from r, cp_idempotency_key := ix_key ix, cp_endpoint := ix_endpoint ix,
      cp_request_hash := ix_request_hash ix\<rparr>"

text \<open>After the gate: the prompts, the lookups, and a free or a priced job.\<close>

definition fulfil_generation ::
    "generations_handler \<Rightarrow> surroundings \<Rightarrow> (nat \<Rightarrow> db) \<Rightarrow> db \<Rightarrow> principal \<Rightarrow> generation_request \<Rightarrow> visual_identity
     \<Rightarrow> rat \<Rightarrow> idem_context \<Rightarrow> answer \<times> db" where
  "fulfil_generation h su rd d p r v mp ix =
     (case loadStylePrompts (nh_styles h) (pn_tenant_id p) (vi_style_profile_id v) of
        Inl e \<Rightarrow> (problem 500 ''internal_error'', d)
      | Inr prompts \<Rightarrow>
          (case generation_reuse h rd p r v mp of
             Inl e \<Rightarrow> (problem 500 ''internal_error'', d)
           | Inr (Some a) \<Rightarrow> cache_hit_answer su d (keyed_hit (generation_hit h p r v mp a) ix)
           | Inr None \<Rightarrow>
               route_and_create su False (nh_resolver h) (generation_route_request r)
                 (generation_params h p r v mp prompts ix) d))"

definition createGeneration ::
    "generations_handler \<Rightarrow> surroundings \<Rightarrow> catalog \<Rightarrow> (nat \<Rightarrow> db) \<Rightarrow> int \<Rightarrow> db \<Rightarrow> principal \<Rightarrow> generation_request
     \<Rightarrow> string \<Rightarrow> string \<Rightarrow> string \<Rightarrow> answer \<times> audit_event list \<times> db" where
  "createGeneration h su c rd now d p r header endpoint hash =
     (case validate_generation r header of
        Problem s e \<Rightarrow> (problem s e, [], d)
      | Reply (mp, key) \<Rightarrow>
          (case getIdentityForTenant c (nr_identity_id r) (pn_tenant_id p) of
             Inl e \<Rightarrow> (if e = ErrNotFound then problem 422 ''invalid_request'' else problem 500 ''internal_error'', [], d)
           | Inr v \<Rightarrow>
               let ix = \<lparr>ix_key = key, ix_endpoint = endpoint, ix_request_hash = hash\<rparr>
               in (case handleReplay (rd 0) (pn_token_id p) ix of
                     Some a \<Rightarrow> (a, [], d)
                   | None \<Rightarrow>
                       (case run_gate (nh_gate h) now (pn_tenant_id p) (pn_token_id p) (Some (nr_governance r)) of
                          (Problem s e, evs) \<Rightarrow> (problem s e, evs, d)
                        | (Reply g, evs) \<Rightarrow>
                            (case fulfil_generation h su rd d p r v mp ix of (a, d') \<Rightarrow> (a, evs, d'))))))"

section \<open>Artifacts\<close>

record artifact_request =
  qa_world_id :: string
  qa_style_profile_id :: string
  qa_description :: string
  qa_quality_tier :: "string option"
  qa_latency_tier :: "string option"
  qa_fallback_policy :: "string option"
  qa_delivery_mode :: "string option"
  qa_force_regenerate :: "bool option"
  qa_provider_id :: "string option"
  qa_governance :: "envelope option"

record artifacts_handler =
  xh_resolver :: resolver
  xh_provider_preference :: string
  xh_reuse :: "(db \<Rightarrow> artifact_lookup \<Rightarrow> error + visual_asset) option"
  xh_gate :: governance_gate
  xh_styles :: "catalog option"
  xh_sha :: "string \<Rightarrow> string"

definition validate_artifact :: "string \<Rightarrow> artifact_request \<Rightarrow> bool" where
  "validate_artifact aid r \<longleftrightarrow>
     aid \<noteq> '''' \<and> qa_world_id r \<noteq> '''' \<and> qa_style_profile_id r \<noteq> '''' \<and> qa_description r \<noteq> ''''
     \<and> opt_ok validQualityTier (qa_quality_tier r) \<and> opt_ok validLatencyTier (qa_latency_tier r)
     \<and> opt_ok validFallbackPolicy (qa_fallback_policy r) \<and> opt_ok validDeliveryMode (qa_delivery_mode r)"

definition tier_or_standard :: "string option \<Rightarrow> string" where
  "tier_or_standard t = (case t of None \<Rightarrow> ''standard'' | Some q \<Rightarrow> q)"

definition policy_or_default :: "string option \<Rightarrow> string" where
  "policy_or_default t = (case t of None \<Rightarrow> ''compatible_only'' | Some q \<Rightarrow> q)"

definition artifact_key_input :: "principal \<Rightarrow> string \<Rightarrow> string \<Rightarrow> string \<Rightarrow> string \<Rightarrow> string \<Rightarrow> artifact_hash_input" where
  "artifact_key_input p world aid description style tier =
     \<lparr>ah_tenant_id = pn_tenant_id p, ah_world_id = world, ah_artifact_id = aid, ah_description = description,
      ah_style_profile_id = style, ah_style_profile_version = None, ah_quality_tier = tier, ah_variant_key = ''''\<rparr>"

definition artifact_hash :: "artifacts_handler \<Rightarrow> principal \<Rightarrow> string \<Rightarrow> artifact_request \<Rightarrow> string" where
  "artifact_hash h p aid r =
     artifactRenderHash (xh_sha h) (artifact_key_input p (qa_world_id r) aid (qa_description r)
       (qa_style_profile_id r) (tier_or_standard (qa_quality_tier r)))"

definition preview_first :: "string option \<Rightarrow> bool" where
  "preview_first m \<longleftrightarrow> m = Some ''preview_first''"

definition artifact_payload :: "artifacts_handler \<Rightarrow> principal \<Rightarrow> string \<Rightarrow> artifact_request \<Rightarrow> string \<times> string \<Rightarrow> payload" where
  "artifact_payload h p aid r prompts =
     put_if (preview_first (qa_delivery_mode r)) ''delivery_mode'' (JStr ''preview_first'')
     (put_if (qa_force_regenerate r = Some True) ''force_regenerate'' (JBool True)
     (put_if (qa_latency_tier r \<noteq> None) ''latency_tier'' (JStr (the (qa_latency_tier r)))
     (put_if (requested_provider (qa_provider_id r) \<noteq> '''') ''requested_provider_id'' (JStr (requested_provider (qa_provider_id r)))
     [''artifact_id'' \<mapsto> JStr aid, ''world_id'' \<mapsto> JStr (qa_world_id r),
      ''style_profile_id'' \<mapsto> JStr (qa_style_profile_id r), ''description'' \<mapsto> JStr (qa_description r),
      ''fallback_policy'' \<mapsto> JStr (policy_or_default (qa_fallback_policy r)),
      ''quality_tier'' \<mapsto> JStr (tier_or_standard (qa_quality_tier r)),
      ''prompt_hash'' \<mapsto> JStr (artifact_hash h p aid r),
      ''style_positive_prompt'' \<mapsto> JStr (fst prompts), ''style_negative_prompt'' \<mapsto> JStr (snd prompts)])))"

definition artifact_lookup_of :: "principal \<Rightarrow> string \<Rightarrow> string \<Rightarrow> string \<Rightarrow> string \<Rightarrow> artifact_lookup" where
  "artifact_lookup_of p world style tier k =
     \<lparr>lk_tenant_id = pn_tenant_id p, lk_world_id = world, lk_style_profile_id = style,
      lk_style_profile_version = None, lk_quality_tier = tier, lk_prompt_hash = k\<rparr>"

text \<open>A forced regeneration and a preview-first delivery look nothing up.\<close>

definition artifact_reuse :: "artifacts_handler \<Rightarrow> db \<Rightarrow> principal \<Rightarrow> string \<Rightarrow> artifact_request \<Rightarrow> error + visual_asset option" where
  "artifact_reuse h d p aid r =
     (if qa_force_regenerate r = Some True \<or> preview_first (qa_delivery_mode r) then Inr None
      else
        (case xh_reuse h of
           None \<Rightarrow> Inr None
         | Some f \<Rightarrow>
             (case f d (artifact_lookup_of p (qa_world_id r) (qa_style_profile_id r)
                          (tier_or_standard (qa_quality_tier r)) (artifact_hash h p aid r)) of
                Inr a \<Rightarrow> Inr (Some a)
              | Inl e \<Rightarrow> if e = ErrNotFound then Inr None else Inl e)))"

definition single_route_request :: "string \<Rightarrow> string \<Rightarrow> string option \<Rightarrow> bool \<Rightarrow> string \<Rightarrow> resolve_request" where
  "single_route_request preference tier latency pf provider =
     \<lparr>qr_operation_type = ''text_to_image'', qr_quality_tier = tier, qr_latency_tier = deref latency,
      qr_required_capability = CapabilitySceneCapable,
      qr_required_preview_capability = (if pf then ''true_preview'' else ''''),
      qr_provider_preference = preference, qr_provider_id = provider, qr_intent = ''''\<rparr>"

definition fulfil_artifact ::
    "artifacts_handler \<Rightarrow> surroundings \<Rightarrow> (nat \<Rightarrow> db) \<Rightarrow> db \<Rightarrow> principal \<Rightarrow> string \<Rightarrow> artifact_request
     \<Rightarrow> string \<times> string \<Rightarrow> idem_context \<Rightarrow> answer \<times> db" where
  "fulfil_artifact h su rd d p aid r prompts ix =
     (case artifact_reuse h (rd 1) p aid r of
        Inl e \<Rightarrow> (problem 500 ''internal_error'', d)
      | Inr (Some a) \<Rightarrow>
          cache_hit_answer su d (keyed_hit (single_hit p ''artifact'' (qa_world_id r) None
            (artifact_payload h p aid r prompts) (policy_or_default (qa_fallback_policy r)) (va_id a)) ix)
      | Inr None \<Rightarrow>
          route_and_create su True (xh_resolver h)
            (single_route_request (xh_provider_preference h) (tier_or_standard (qa_quality_tier r)) (qa_latency_tier r)
               (preview_first (qa_delivery_mode r)) (requested_provider (qa_provider_id r)))
            (\<lambda>_. keyed_params (single_params p ''artifact'' (qa_world_id r) None (artifact_payload h p aid r prompts)
               (policy_or_default (qa_fallback_policy r))) ix) d)"

definition generateArtifact ::
    "artifacts_handler \<Rightarrow> surroundings \<Rightarrow> (nat \<Rightarrow> db) \<Rightarrow> int \<Rightarrow> db \<Rightarrow> principal \<Rightarrow> string \<Rightarrow> artifact_request
     \<Rightarrow> idem_context \<Rightarrow> answer \<times> audit_event list \<times> db" where
  "generateArtifact h su rd now d p aid r ix =
     (if \<not> validate_artifact aid r then (problem 400 ''invalid_request'', [], d)
      else
        (case loadStylePrompts (xh_styles h) (pn_tenant_id p) (qa_style_profile_id r) of
           Inl e \<Rightarrow> (problem 500 ''internal_error'', [], d)
         | Inr prompts \<Rightarrow>
             if \<not> requireAdminForAnyExisting (hasScope p ''admin:read'') (policy_or_default (qa_fallback_policy r))
             then (problem 403 ''forbidden'', [], d)
             else
               (case replay_check (rd 0) (pn_token_id p) ix of
                  Some a \<Rightarrow> (a, [], d)
                | None \<Rightarrow>
                    (case run_gate (xh_gate h) now (pn_tenant_id p) (pn_token_id p) (qa_governance r) of
                       (Problem s e, evs) \<Rightarrow> (problem s e, evs, d)
                     | (Reply g, evs) \<Rightarrow>
                         (case fulfil_artifact h su rd d p aid r prompts ix of (a, d') \<Rightarrow> (a, evs, d'))))))"

section \<open>The preview of a style\<close>

record preview_request =
  qp_world_id :: string
  qp_quality_tier :: "string option"
  qp_delivery_mode :: "string option"
  qp_governance :: "envelope option"

definition stylePreviewArtifactID :: "string \<Rightarrow> string" where
  "stylePreviewArtifactID sid = ''style_preview:'' @ sid"

definition preview_tier :: "preview_request \<Rightarrow> style_profile \<Rightarrow> string" where
  "preview_tier r s =
     (case qp_quality_tier r of
        Some q \<Rightarrow> q
      | None \<Rightarrow> if sy_default_quality_tier s \<noteq> '''' then sy_default_quality_tier s else ''standard'')"

definition preview_description :: "style_profile \<Rightarrow> string" where
  "preview_description s = (if sy_positive_prompt s \<noteq> '''' then sy_positive_prompt s else ''style preview sample'')"

definition preview_payload :: "artifacts_handler \<Rightarrow> principal \<Rightarrow> string \<Rightarrow> preview_request \<Rightarrow> style_profile \<Rightarrow> payload" where
  "preview_payload h p sid r s =
     put_if (preview_first (qp_delivery_mode r)) ''delivery_mode'' (JStr ''preview_first'')
     [''artifact_id'' \<mapsto> JStr (stylePreviewArtifactID sid), ''world_id'' \<mapsto> JStr (qp_world_id r),
      ''style_profile_id'' \<mapsto> JStr sid, ''description'' \<mapsto> JStr (preview_description s),
      ''fallback_policy'' \<mapsto> JStr ''none'', ''quality_tier'' \<mapsto> JStr (preview_tier r s),
      ''prompt_hash'' \<mapsto> JStr (artifactRenderHash (xh_sha h) (artifact_key_input p (qp_world_id r)
         (stylePreviewArtifactID sid) (preview_description s) sid (preview_tier r s))),
      ''preview_kind'' \<mapsto> JStr ''style_preview'']"

definition generatePreview ::
    "artifacts_handler \<Rightarrow> surroundings \<Rightarrow> catalog \<Rightarrow> (nat \<Rightarrow> db) \<Rightarrow> int \<Rightarrow> db \<Rightarrow> principal \<Rightarrow> string \<Rightarrow> preview_request
     \<Rightarrow> idem_context \<Rightarrow> answer \<times> audit_event list \<times> db" where
  "generatePreview h su c rd now d p sid r ix =
     (if sid = '''' \<or> qp_world_id r = '''' \<or> \<not> opt_ok validQualityTier (qp_quality_tier r)
         \<or> \<not> opt_ok validDeliveryMode (qp_delivery_mode r)
      then (problem 400 ''invalid_request'', [], d)
      else
        (case getStyle c sid (pn_tenant_id p) of
           Inl e \<Rightarrow> (if e = ErrNotFound then problem 422 ''invalid_style_profile'' else problem 500 ''internal_error'', [], d)
         | Inr s \<Rightarrow>
             (case replay_check (rd 0) (pn_token_id p) ix of
                Some a \<Rightarrow> (a, [], d)
              | None \<Rightarrow>
                  (case run_gate (xh_gate h) now (pn_tenant_id p) (pn_token_id p) (qp_governance r) of
                     (Problem st e, evs) \<Rightarrow> (problem st e, evs, d)
                   | (Reply g, evs) \<Rightarrow>
                       (case route_and_create su True (xh_resolver h)
                               (single_route_request (xh_provider_preference h) (preview_tier r s) None
                                  (preview_first (qp_delivery_mode r)) '''')
                               (\<lambda>_. keyed_params (single_params p ''artifact'' (qp_world_id r) None
                                  (preview_payload h p sid r s) ''none'') ix) d of
                          (a, d') \<Rightarrow> (a, evs, d'))))))"

section \<open>The first anchor of a character\<close>

record anchor_request =
  qb_world_id :: string
  qb_description :: string
  qb_provider_id :: "string option"
  qb_quality_tier :: "string option"
  qb_latency_tier :: "string option"
  qb_fallback_policy :: "string option"
  qb_governance :: "envelope option"

datatype anchor_answer =
    AlreadyAnchored string "string list"
  | AnchorJob answer

definition anchor_artifact_id :: "visual_identity \<Rightarrow> string" where
  "anchor_artifact_id v = ''bootstrap_anchor:'' @ vi_id v"

definition anchor_description :: "anchor_request \<Rightarrow> visual_identity \<Rightarrow> string" where
  "anchor_description r v = (if trimSpace (qb_description r) \<noteq> '''' then trimSpace (qb_description r) else appearance v)"

definition anchor_hash :: "artifacts_handler \<Rightarrow> principal \<Rightarrow> anchor_request \<Rightarrow> visual_identity \<Rightarrow> string" where
  "anchor_hash h p r v =
     artifactRenderHash (xh_sha h) (artifact_key_input p (qb_world_id r) (anchor_artifact_id v) (anchor_description r v)
       (vi_style_profile_id v) (tier_or_standard (qb_quality_tier r)))"

definition anchor_payload ::
    "artifacts_handler \<Rightarrow> principal \<Rightarrow> string \<Rightarrow> anchor_request \<Rightarrow> visual_identity \<Rightarrow> string \<times> string \<Rightarrow> payload" where
  "anchor_payload h p cid r v prompts =
     put_if (qb_latency_tier r \<noteq> None) ''latency_tier'' (JStr (the (qb_latency_tier r)))
     (put_if (requested_provider (qb_provider_id r) \<noteq> '''') ''requested_provider_id'' (JStr (requested_provider (qb_provider_id r)))
     [''artifact_id'' \<mapsto> JStr (anchor_artifact_id v), ''world_id'' \<mapsto> JStr (qb_world_id r),
      ''style_profile_id'' \<mapsto> JStr (vi_style_profile_id v), ''description'' \<mapsto> JStr (anchor_description r v),
      ''style_positive_prompt'' \<mapsto> JStr (fst prompts), ''style_negative_prompt'' \<mapsto> JStr (snd prompts),
      ''fallback_policy'' \<mapsto> JStr (policy_or_default (qb_fallback_policy r)),
      ''quality_tier'' \<mapsto> JStr (tier_or_standard (qb_quality_tier r)), ''prompt_hash'' \<mapsto> JStr (anchor_hash h p r v),
      ''anchor_for_identity_id'' \<mapsto> JStr (vi_id v), ''anchor_for_character_id'' \<mapsto> JStr cid])"

text \<open>After the gate: attach a render that exists, or create the job that draws one.\<close>

definition fulfil_anchor ::
    "artifacts_handler \<Rightarrow> surroundings \<Rightarrow> catalog \<Rightarrow> (nat \<Rightarrow> db) \<Rightarrow> db \<Rightarrow> principal \<Rightarrow> string \<Rightarrow> anchor_request
     \<Rightarrow> visual_identity \<Rightarrow> string \<times> string \<Rightarrow> idem_context \<Rightarrow> anchor_answer \<times> catalog \<times> db" where
  "fulfil_anchor h su c rd d p cid r v prompts ix =
     (case (case xh_reuse h of
              None \<Rightarrow> Inl ErrNotFound
            | Some f \<Rightarrow> f (rd 1) (artifact_lookup_of p (qb_world_id r) (vi_style_profile_id v)
                (tier_or_standard (qb_quality_tier r)) (anchor_hash h p r v))) of
        Inr a \<Rightarrow>
          (case setAnchorAssets c (vi_id v) (pn_tenant_id p) [va_id a] of
             Inl e \<Rightarrow> (AnchorJob (problem 500 ''internal_error''), c, d)
           | Inr (w, c') \<Rightarrow> (AlreadyAnchored (vi_id w) (vi_anchor_asset_ids w), c', d))
      | Inl e \<Rightarrow>
          if e \<noteq> ErrNotFound then (AnchorJob (problem 500 ''internal_error''), c, d)
          else
            (case route_and_create su True (xh_resolver h)
                    (single_route_request (xh_provider_preference h) (tier_or_standard (qb_quality_tier r))
                       (qb_latency_tier r) False (requested_provider (qb_provider_id r)))
                    (\<lambda>_. keyed_params (single_params p ''artifact'' (qb_world_id r) (Some (vi_id v))
                       (anchor_payload h p cid r v prompts) (policy_or_default (qb_fallback_policy r))) ix) d of
               (a, d') \<Rightarrow> (AnchorJob a, c, d')))"

definition bootstrapCharacterAnchor ::
    "artifacts_handler \<Rightarrow> surroundings \<Rightarrow> catalog \<Rightarrow> (nat \<Rightarrow> db) \<Rightarrow> int \<Rightarrow> db \<Rightarrow> principal \<Rightarrow> string \<Rightarrow> anchor_request
     \<Rightarrow> idem_context \<Rightarrow> anchor_answer \<times> audit_event list \<times> catalog \<times> db" where
  "bootstrapCharacterAnchor h su c rd now d p cid r ix =
     (if cid = '''' \<or> qb_world_id r = '''' \<or> \<not> opt_ok validQualityTier (qb_quality_tier r)
         \<or> \<not> opt_ok validLatencyTier (qb_latency_tier r) \<or> \<not> opt_ok validFallbackPolicy (qb_fallback_policy r)
      then (AnchorJob (problem 400 ''invalid_request''), [], c, d)
      else
        (case getByOwner c (pn_tenant_id p) (qb_world_id r) ''character'' cid of
           Inl e \<Rightarrow> (AnchorJob (if e = ErrNotFound then problem 404 ''not_found'' else problem 500 ''internal_error''), [], c, d)
         | Inr v \<Rightarrow>
             if vi_anchor_asset_ids v \<noteq> [] then (AlreadyAnchored (vi_id v) (vi_anchor_asset_ids v), [], c, d)
             else if \<not> requireAdminForAnyExisting (hasScope p ''admin:read'') (policy_or_default (qb_fallback_policy r))
             then (AnchorJob (problem 403 ''forbidden''), [], c, d)
             else if anchor_description r v = '''' then (AnchorJob (problem 422 ''invalid_request''), [], c, d)
             else
               (case loadStylePrompts (xh_styles h) (pn_tenant_id p) (vi_style_profile_id v) of
                  Inl e \<Rightarrow> (AnchorJob (problem 500 ''internal_error''), [], c, d)
                | Inr prompts \<Rightarrow>
                    (case replay_check (rd 0) (pn_token_id p) ix of
                       Some a \<Rightarrow> (AnchorJob a, [], c, d)
                     | None \<Rightarrow>
                         (case run_gate (xh_gate h) now (pn_tenant_id p) (pn_token_id p) (qb_governance r) of
                            (Problem s e, evs) \<Rightarrow> (AnchorJob (problem s e), evs, c, d)
                          | (Reply g, evs) \<Rightarrow>
                              (case fulfil_anchor h su c rd d p cid r v prompts ix of (a, c', d') \<Rightarrow> (a, evs, c', d')))))))"

section \<open>What a free answer does\<close>

lemma claimKey_InrD:
  assumes "claimKey d kid tok key endpoint hash jid now = Inr (Some d')"
  shows "\<exists>ks. d' = d\<lparr>db_idem := ks\<rparr>"
proof -
  have "\<exists>ks. d = d\<lparr>db_idem := ks\<rparr>" by (rule exI [of _ "db_idem d"]) simp
  with assms show ?thesis
    by (auto simp: claimKey_def insertIdempotencyKey_def split: if_splits option.splits sum.splits)
qed

definition free_job :: "job \<Rightarrow> cache_hit_params \<Rightarrow> bool" where
  "free_job j c \<longleftrightarrow> jb_status j = Completed \<and> jb_final_asset_ids j = [ch_final_asset_id c]
     \<and> jb_cost_reservation_id j = None \<and> jb_cost_estimate j = Some 0 \<and> jb_actual_cost j = Some 0
     \<and> jb_cache_result j = Some ''exact_match'' \<and> jb_tenant_id j = ch_tenant_id c \<and> jb_input_payload j = ch_input_payload c"

text \<open>Only a completed job of cost nothing is added, with its idempotency key.\<close>

definition free_answer :: "db \<Rightarrow> cache_hit_params \<Rightarrow> db \<Rightarrow> bool" where
  "free_answer d c d' \<longleftrightarrow> (\<exists>j ks. free_job j c \<and> d' = d\<lparr>db_jobs := db_jobs d @ [j], db_idem := ks\<rparr>)"

lemma cache_hit_free:
  assumes "createCompletedCacheHitJob env d f c = (r, e, d')"
  shows "d' = d \<or> d' = env d \<or> free_answer d c d' \<and> createCompletedCacheHitJob (\<lambda>x. x) d f c = (r, e, d')"
proof -
  have ins: "\<exists>j. free_job j c \<and> d1 = d\<lparr>db_jobs := db_jobs d @ [j]\<rparr>"
    if "insertJobRow d (completed_job (fi_job f) (ch_tenant_id c) (ch_world_id c) (ch_visual_identity_id c)
          (ch_job_type c) (ch_token_id c) (ch_input_payload c) outs (ch_fallback_policy c) ''exact_match''
          [ch_final_asset_id c] (db_now d)) = Inr d1" for outs d1
    using that by (intro exI [of _ "completed_job (fi_job f) (ch_tenant_id c) (ch_world_id c) (ch_visual_identity_id c)
          (ch_job_type c) (ch_token_id c) (ch_input_payload c) outs (ch_fallback_policy c) ''exact_match''
          [ch_final_asset_id c] (db_now d)"])
      (auto simp: insertJobRow_def insert_row_def free_job_def completed_job_def split: if_splits sum.splits)
  note def = createCompletedCacheHitJob_def
  show ?thesis
  proof (cases "ch_tenant_id c = ''''")
    case True
    with assms show ?thesis by (simp add: def)
  next
    case ten: False
    let ?outs = "if ch_requested_outputs c = [] then [''default''] else ch_requested_outputs c"
    let ?I = "insertJobRow d (completed_job (fi_job f) (ch_tenant_id c) (ch_world_id c) (ch_visual_identity_id c)
          (ch_job_type c) (ch_token_id c) (ch_input_payload c) ?outs (ch_fallback_policy c) ''exact_match''
          [ch_final_asset_id c] (db_now d))"
    show ?thesis
    proof (cases ?I)
      case (Inl x)
      with assms ten show ?thesis by (simp add: def)
    next
      case d1: (Inr d1)
      from ins [OF this] obtain j where j: "free_job j c" "d1 = d\<lparr>db_jobs := db_jobs d @ [j]\<rparr>" by blast
      let ?K = "claimKey d1 (fi_idem f) (ch_token_id c) (ch_idempotency_key c) (ch_endpoint c) (ch_request_hash c) (fi_job f) (fi_now f)"
      consider x where "?K = Inl x" | "?K = Inr None" | d2 where "?K = Inr (Some d2)"
        by (cases ?K) auto
      then show ?thesis
      proof cases
        case 1
        with assms ten d1 show ?thesis by (simp add: def)
      next
        case 2
        with assms ten d1 show ?thesis by (simp add: def split: prod.splits)
      next
        case (3 d2)
        from claimKey_InrD [OF this] j have "free_answer d c d2" by (auto simp: free_answer_def)
        with assms ten d1 3 show ?thesis by (simp add: def)
      qed
    qed
  qed
qed

lemma cache_hit_answer_cases:
  assumes "cache_hit_answer su d c = (a, d')"
  obtains "d' = d" | "d' = su_env su d"
    | r e where "free_answer d c d'" "createCompletedCacheHitJob (\<lambda>x. x) d (su_ids su) c = (r, e, d')"
proof -
  obtain r e where "createCompletedCacheHitJob (su_env su) d (su_ids su) c = (r, e, d')"
    using assms by (auto simp: cache_hit_answer_def split: prod.splits option.splits)
  from cache_hit_free [OF this] that show thesis by blast
qed

lemma cache_hit_answer_reachable:
  assumes "cache_hit_answer su d c = (a, d')" "reachable (su_trunc su) d"
    and "\<And>x. reachable (su_trunc su) x \<Longrightarrow> reachable (su_trunc su) (su_env su x)"
  shows "reachable (su_trunc su) d'"
  using assms(1)
proof (cases rule: cache_hit_answer_cases)
  case (3 r e)
  with assms(2) show ?thesis using reachable_step platform_step.cache_hit by metis
qed (use assms(2,3) in auto)

section \<open>Every handler stays in the platform\<close>

lemma fulfil_generation_reachable:
  assumes "fulfil_generation h su rd d p r v mp ix = (a, d')" "reachable (su_trunc su) d"
    and "\<And>x. reachable (su_trunc su) x \<Longrightarrow> reachable (su_trunc su) (su_env su x)"
  shows "reachable (su_trunc su) d'"
  using assms(1,2) cache_hit_answer_reachable [OF _ assms(2,3)] route_and_create_reachable [OF _ assms(2,3)]
  by (auto simp: fulfil_generation_def split: sum.splits option.splits prod.splits)

lemma fulfil_artifact_reachable:
  assumes "fulfil_artifact h su rd d p aid r prompts ix = (a, d')" "reachable (su_trunc su) d"
    and "\<And>x. reachable (su_trunc su) x \<Longrightarrow> reachable (su_trunc su) (su_env su x)"
  shows "reachable (su_trunc su) d'"
  using assms(1,2) cache_hit_answer_reachable [OF _ assms(2,3)] route_and_create_reachable [OF _ assms(2,3)]
  by (auto simp: fulfil_artifact_def split: sum.splits option.splits prod.splits)

lemma generatePreview_reachable:
  assumes "generatePreview h su c rd now d p sid r ix = (a, evs, d')" "reachable (su_trunc su) d"
    and "\<And>x. reachable (su_trunc su) x \<Longrightarrow> reachable (su_trunc su) (su_env su x)"
  shows "reachable (su_trunc su) d'"
  using assms(1,2) route_and_create_reachable [OF _ assms(2,3)]
  by (auto simp: generatePreview_def split: if_splits sum.splits option.splits prod.splits reply.splits)

lemma fulfil_anchor_reachable:
  assumes "fulfil_anchor h su c rd d p cid r v prompts ix = (a, c', d')" "reachable (su_trunc su) d"
    and "\<And>x. reachable (su_trunc su) x \<Longrightarrow> reachable (su_trunc su) (su_env su x)"
  shows "reachable (su_trunc su) d'"
  using assms(1,2) route_and_create_reachable [OF _ assms(2,3)]
  by (auto simp: fulfil_anchor_def split: if_splits sum.splits option.splits prod.splits)

text \<open>What a call that changes the database has passed.\<close>

lemma createGeneration_cases:
  assumes "createGeneration h su c rd now d p r header endpoint hash = (a, evs, d')"
  obtains "d' = d"
    | mp key v g where "validate_generation r header = Reply (mp, key)"
      "getIdentityForTenant c (nr_identity_id r) (pn_tenant_id p) = Inr v"
      "handleReplay (rd 0) (pn_token_id p) \<lparr>ix_key = key, ix_endpoint = endpoint, ix_request_hash = hash\<rparr> = None"
      "run_gate (nh_gate h) now (pn_tenant_id p) (pn_token_id p) (Some (nr_governance r)) = (Reply g, evs)"
      "fulfil_generation h su rd d p r v mp \<lparr>ix_key = key, ix_endpoint = endpoint, ix_request_hash = hash\<rparr> = (a, d')"
  using assms
  by (auto simp: createGeneration_def Let_def split: reply.splits sum.splits if_splits option.splits prod.splits)

lemma generateArtifact_cases:
  assumes "generateArtifact h su rd now d p aid r ix = (a, evs, d')"
  obtains "d' = d"
    | prompts g where "validate_artifact aid r" "replay_check (rd 0) (pn_token_id p) ix = None"
      "requireAdminForAnyExisting (hasScope p ''admin:read'') (policy_or_default (qa_fallback_policy r))"
      "run_gate (xh_gate h) now (pn_tenant_id p) (pn_token_id p) (qa_governance r) = (Reply g, evs)"
      "fulfil_artifact h su rd d p aid r prompts ix = (a, d')"
  using assms
  by (auto simp: generateArtifact_def split: reply.splits sum.splits if_splits option.splits prod.splits)

section \<open>Reuse is exact\<close>

lemma first_hit_SomeD:
  "first_hit f n ks = Inr (Some a) \<Longrightarrow> \<exists>i < length ks. f (n + i) (ks ! i) = Inr a \<and> (\<forall>j < i. f (n + j) (ks ! j) = Inl ErrNotFound)"
proof (induction ks arbitrary: n)
  case (Cons k ks)
  show ?case
  proof (cases "f n k")
    case (Inr b)
    with Cons.prems show ?thesis by (intro exI [of _ 0]) simp
  next
    case (Inl e)
    with Cons.prems have e: "e = ErrNotFound" "first_hit f (n + 1) ks = Inr (Some a)" by (auto split: if_splits)
    from Cons.IH [OF e(2)] obtain i where i: "i < length ks" "f (n + 1 + i) (ks ! i) = Inr a"
        "\<forall>j < i. f (n + 1 + j) (ks ! j) = Inl ErrNotFound" by blast
    have "f (n + j) ((k # ks) ! j) = Inl ErrNotFound" if "j < Suc i" for j
      using that i(3) Inl e(1) by (cases j) auto
    with i show ?thesis by (intro exI [of _ "Suc i"]) auto
  qed
qed simp

lemma first_hit_NoneD: "first_hit f n ks = Inr None \<Longrightarrow> \<forall>i < length ks. f (n + i) (ks ! i) = Inl ErrNotFound"
proof (induction ks arbitrary: n)
  case (Cons k ks)
  then have "f n k = Inl ErrNotFound" "first_hit f (n + 1) ks = Inr None" by (auto split: sum.splits if_splits)
  with Cons.IH [of "n + 1"] show ?case by (auto simp: nth_Cons split: nat.splits)
qed simp

lemma generation_lookup_keyed:
  assumes "findReadyGenerationByPromptHash coll d ten k = Inr a"
  shows "a \<in> set (db_assets d) \<and> va_status a = Ready \<and> va_tenant_id a = ten \<and> va_prompt_hash a = Some k"
  using assms
  by (auto simp: findReadyGenerationByPromptHash_def sql_eq_def strPtr_def dest!: first_by_SomeD split: if_splits option.splits)

lemma generation_lookups_intent:
  assumes "i < length (generation_lookups h p r v mp)"
  shows "\<exists>intent. generation_lookups h p r v mp ! i = hashForIntent h p r v mp intent
    \<and> (intent = nr_intent r \<or> nr_intent r = ''draft'' \<and> intent = ''commit'')"
  using assms by (cases i) (auto simp: generation_lookups_def)

lemma generation_reuse_SomeD:
  assumes "generation_reuse h rd p r v mp = Inr (Some a)" "nh_reuse h = Some (findReadyGenerationByPromptHash coll)"
  shows "\<exists>n intent. a \<in> set (db_assets (rd n)) \<and> va_status a = Ready \<and> va_tenant_id a = pn_tenant_id p
    \<and> va_prompt_hash a = Some (hashForIntent h p r v mp intent)
    \<and> (intent = nr_intent r \<or> nr_intent r = ''draft'' \<and> intent = ''commit'')"
proof -
  have "first_hit (\<lambda>n. findReadyGenerationByPromptHash coll (rd n) (pn_tenant_id p)) 1 (generation_lookups h p r v mp) = Inr (Some a)"
    using assms by (simp add: generation_reuse_def)
  from first_hit_SomeD [OF this] obtain i where i: "i < length (generation_lookups h p r v mp)"
      "findReadyGenerationByPromptHash coll (rd (1 + i)) (pn_tenant_id p) (generation_lookups h p r v mp ! i) = Inr a" by blast
  from generation_lookup_keyed [OF i(2)] generation_lookups_intent [OF i(1)] show ?thesis by metis
qed

text \<open>Two requests of equal hash ask for the same render, when the hash does not collide on them.\<close>

lemma hash_exact:
  assumes "generationRenderHash sha i = generationRenderHash sha j"
    and "inj_on sha {generation_canonical i, generation_canonical j}" "line_fields i" "line_fields j"
  shows "same_render i j \<and> gh_intent i = gh_intent j"
proof -
  have "generation_canonical i = generation_canonical j"
    by (rule inj_onD [OF assms(2) assms(1) [unfolded generationRenderHash_def]]) simp_all
  then show ?thesis using assms(3,4) generation_canonical_eq by blast
qed

lemma fulfil_generation_cases:
  assumes "fulfil_generation h su rd d p r v mp ix = (a, d')"
  obtains "d' = d"
    | x where "generation_reuse h rd p r v mp = Inr (Some x)"
      "cache_hit_answer su d (keyed_hit (generation_hit h p r v mp x) ix) = (a, d')"
    | prompts where "loadStylePrompts (nh_styles h) (pn_tenant_id p) (vi_style_profile_id v) = Inr prompts"
      "generation_reuse h rd p r v mp = Inr None"
      "route_and_create su False (nh_resolver h) (generation_route_request r) (generation_params h p r v mp prompts ix) d = (a, d')"
  using assms by (auto simp: fulfil_generation_def split: sum.splits option.splits)

lemma generatePreview_gated:
  assumes "generatePreview h su c rd now d p sid r ix = (a, evs, d')"
  shows "d' = d \<or> (\<exists>g. run_gate (xh_gate h) now (pn_tenant_id p) (pn_token_id p) (qp_governance r) = (Reply g, evs))"
  using assms
  by (auto simp: generatePreview_def split: if_splits sum.splits option.splits prod.splits reply.splits)

lemma bootstrapCharacterAnchor_cases:
  assumes "bootstrapCharacterAnchor h su c rd now d p cid r ix = (a, evs, c', d')"
  obtains "c' = c" "d' = d"
    | v prompts g where "getByOwner c (pn_tenant_id p) (qb_world_id r) ''character'' cid = Inr v" "vi_anchor_asset_ids v = []"
      "anchor_description r v \<noteq> ''''" "replay_check (rd 0) (pn_token_id p) ix = None"
      "run_gate (xh_gate h) now (pn_tenant_id p) (pn_token_id p) (qb_governance r) = (Reply g, evs)"
      "fulfil_anchor h su c rd d p cid r v prompts ix = (a, c', d')"
  using assms
  by (auto simp: bootstrapCharacterAnchor_def split: reply.splits sum.splits if_splits option.splits prod.splits)

end
