(* ===== verification/Worklist.thy ===== *)
theory Worklist
  imports Prelude "HOL-Library.While_Combinator"
begin

text \<open>
  The loop \<open>for head := 0; head < len(queue); head++\<close> of \<open>internal/imaging/chromakey.go\<close>: each element
  is processed once, in order, and processing may append to the queue. The locale states what
  makes such a loop end, with an invariant over the part already processed.
\<close>

definition search :: "('m \<times> nat list \<Rightarrow> nat \<Rightarrow> 'm \<times> nat list) \<Rightarrow> 'm \<times> nat list \<Rightarrow> ('m \<times> nat list) option" where
  "search process s =
     map_option fst (while_option (\<lambda>((m, q), k). k < length q) (\<lambda>((m, q), k). (process (m, q) (q ! k), k + 1)) (s, 0))"

text \<open>
  \<open>marked\<close> is the set of elements a state has queued, all below \<open>N\<close>; processing a queued element
  appends exactly the newly marked ones, each once.
\<close>

locale worklist =
  fixes N :: nat and well :: "'m \<Rightarrow> bool" and marked :: "'m \<Rightarrow> nat set"
    and process :: "'m \<times> nat list \<Rightarrow> nat \<Rightarrow> 'm \<times> nat list"
  assumes marked_bound: "well m \<Longrightarrow> marked m \<subseteq> {..<N}"
    and process_marks: "\<lbrakk>well m; distinct q; set q = marked m; i \<in> marked m; process (m, q) i = (m', q')\<rbrakk>
      \<Longrightarrow> well m' \<and> distinct q' \<and> set q' = marked m' \<and> (\<exists>new. q' = q @ new)"
begin

definition good :: "('m \<times> nat list) \<times> nat \<Rightarrow> bool" where
  "good s \<longleftrightarrow> (case s of ((m, q), k) \<Rightarrow> well m \<and> distinct q \<and> set q = marked m \<and> k \<le> length q)"

lemma queue_bound: "good ((m, q), k) \<Longrightarrow> length q \<le> N"
  using marked_bound [of m] distinct_card [of q] card_mono [of "{..<N}" "set q"] by (simp add: good_def)

lemma good_step:
  assumes "good ((m, q), k)" "k < length q" "process (m, q) (q ! k) = (m', q')"
  shows "good ((m', q'), k + 1)"
proof -
  have i: "q ! k \<in> marked m" using assms(1,2) nth_mem [of k q] by (simp add: good_def)
  have "well m" "distinct q" "set q = marked m" using assms(1) by (simp_all add: good_def)
  from process_marks [OF this i assms(3)] assms(2) show ?thesis by (auto simp: good_def)
qed

lemma search_ends:
  assumes start: "well m0" "distinct q0" "set q0 = marked m0"
    and P0: "P m0 q0 0"
    and P: "\<And>m q k m' q'. \<lbrakk>good ((m, q), k); P m q k; k < length q; process (m, q) (q ! k) = (m', q')\<rbrakk> \<Longrightarrow> P m' q' (k + 1)"
  shows "\<exists>m q. search process (m0, q0) = Some (m, q) \<and> good ((m, q), length q) \<and> P m q (length q)"
proof -
  let ?b = "\<lambda>((m, q), k). k < length q" and ?c = "\<lambda>((m, q), k). (process (m, q) (q ! k), k + 1 :: nat)"
  let ?I = "\<lambda>s. good s \<and> (case s of ((m, q), k) \<Rightarrow> P m q k)"
  have step: "?I (?c s) \<and> N - snd (?c s) < N - snd s" if I: "?I s" and b: "?b s" for s
  proof -
    obtain m q k where s: "s = ((m, q), k)" by (metis surj_pair)
    obtain m' q' where c: "process (m, q) (q ! k) = (m', q')" by (metis surj_pair)
    have g: "good ((m, q), k)" "P m q k" "k < length q" using I b s by simp_all
    from good_step [OF g(1,3) c] P [OF g c] queue_bound [OF g(1)] g(3) show ?thesis by (simp add: s c)
  qed
  have init: "?I ((m0, q0), 0)" using start P0 by (simp add: good_def)
  have "\<exists>s. while_option ?b ?c ((m0, q0), 0) = Some s"
    by (rule measure_while_option_Some [where P = ?I and f = "\<lambda>s. N - snd s"]) (rule step, assumption+, rule init)
  then obtain s where s: "while_option ?b ?c ((m0, q0), 0) = Some s" by blast
  have inv: "?I s" by (rule while_option_rule [where P = ?I, OF _ s init]) (rule step [THEN conjunct1])
  have stop: "\<not> ?b s" by (rule while_option_stop [OF s])
  obtain m q k where mqk: "s = ((m, q), k)" by (metis surj_pair)
  have k: "k = length q" using inv stop mqk by (auto simp: good_def)
  have "search process (m0, q0) = Some (m, q)" unfolding search_def s mqk by simp
  with inv mqk k show ?thesis by auto
qed

end

end
