(* ===== verification/Chroma.thy ===== *)
theory Chroma
  imports Worklist
begin

text \<open>
  The chroma key, \<open>internal/imaging/chromakey.go\<close>: a backdrop colour is removed by a flood fill
  from the border, or the image is refused. Pixels are indexed \<open>i = y * w + x\<close>; channel values are
  integers in their byte range. Floating-point numbers are rationals and the functions of the
  \<open>math\<close> package on them are parameters, in degrees; \<open>RGBToYCbCr\<close> and \<open>YCbCrToRGB\<close> of
  \<open>image/color\<close> are the fixed-point formulas of the standard library.
\<close>

section \<open>Colours\<close>

type_synonym color3 = "int \<times> int \<times> int"
type_synonym color4 = "int \<times> int \<times> int \<times> int"

record float_math =
  fm_hypot :: "rat \<Rightarrow> rat \<Rightarrow> rat"
  fm_atan2 :: "rat \<Rightarrow> rat \<Rightarrow> rat"
  fm_cos :: "rat \<Rightarrow> rat"
  fm_sin :: "rat \<Rightarrow> rat"

text \<open>\<open>math.Mod\<close> keeps the sign of the dividend; \<open>math.Round\<close> rounds halves away from zero.\<close>

definition go_mod :: "rat \<Rightarrow> rat \<Rightarrow> rat" where
  "go_mod x m = (let q = x / m in x - m * of_int (if q < 0 then \<lceil>q\<rceil> else \<lfloor>q\<rfloor>))"

definition go_round :: "rat \<Rightarrow> int" where
  "go_round x = (if x < 0 then - \<lfloor>1 / 2 - x\<rfloor> else \<lfloor>x + 1 / 2\<rfloor>)"

definition fixed_byte :: "int \<Rightarrow> int" where
  "fixed_byte x = (if x < 0 then 0 else if x \<ge> 2 ^ 24 then 255 else x div 2 ^ 16)"

definition rgb_to_ycbcr :: "color3 \<Rightarrow> color3" where
  "rgb_to_ycbcr c =
     (case c of (r, g, b) \<Rightarrow>
        ((19595 * r + 38470 * g + 7471 * b + 2 ^ 15) div 2 ^ 16,
         fixed_byte (- 11056 * r - 21712 * g + 32768 * b + 257 * 2 ^ 15),
         fixed_byte (32768 * r - 27440 * g - 5328 * b + 257 * 2 ^ 15)))"

definition ycbcr_to_rgb :: "color3 \<Rightarrow> color3" where
  "ycbcr_to_rgb c =
     (case c of (y, cb, cr) \<Rightarrow>
        (fixed_byte (y * 65793 + 91881 * (cr - 128)),
         fixed_byte (y * 65793 - 22554 * (cb - 128) - 46802 * (cr - 128)),
         fixed_byte (y * 65793 + 116130 * (cb - 128))))"

definition chromaOf :: "color3 \<Rightarrow> rat \<times> rat" where
  "chromaOf c = (case rgb_to_ycbcr c of (y, cb, cr) \<Rightarrow> (of_int cb - 128, of_int cr - 128))"

definition normalizeChroma :: "float_math \<Rightarrow> rat \<Rightarrow> rat \<Rightarrow> rat \<times> rat" where
  "normalizeChroma fm cb cr =
     (let mag = fm_hypot fm cb cr in if mag > 0 then (cb / mag, cr / mag) else (0, 0))"

definition clampChroma :: "rat \<Rightarrow> int" where
  "clampChroma v = (let s = go_round (v + 128) in if s < 0 then 0 else if s > 255 then 255 else s)"

definition despill :: "color3 \<Rightarrow> rat \<times> rat \<Rightarrow> rat \<Rightarrow> color3" where
  "despill c dir strength =
     (case rgb_to_ycbcr c of (y, cb8, cr8) \<Rightarrow>
        let cb = of_int cb8 - 128; cr = of_int cr8 - 128;
            proj = cb * fst dir + cr * snd dir
        in if proj \<le> 0 \<or> strength \<le> 0 then c
           else let remove = proj * min strength 1
                in ycbcr_to_rgb (y, clampChroma (cb - remove * fst dir), clampChroma (cr - remove * snd dir)))"

section \<open>Images, options and the report\<close>

text \<open>
  \<open>pc_at x y\<close> is \<open>RGBA()\<close> of the pixel, sixteen bits a channel and premultiplied; \<open>pc_nrgba\<close> is its
  conversion to straight alpha by \<open>color.NRGBAModel\<close>. Coordinates are relative to the bounds.
\<close>

record picture =
  pc_w :: nat
  pc_h :: nat
  pc_at :: "nat \<Rightarrow> nat \<Rightarrow> color4"
  pc_nrgba :: "nat \<Rightarrow> nat \<Rightarrow> color4"

definition rgb_at :: "picture \<Rightarrow> nat \<Rightarrow> nat \<Rightarrow> color3" where
  "rgb_at p x y = (case pc_at p x y of (r, g, b, a) \<Rightarrow> (r div 256, g div 256, b div 256))"

record chroma_options =
  co_key :: color3
  co_hue_tolerance :: rat
  co_weak_hue_tolerance :: rat
  co_min_chroma :: rat
  co_weak_min_chroma :: rat
  co_weak_max_chroma :: rat
  co_max_key_hue_drift :: rat
  co_max_transparent_fraction :: rat
  co_min_border_coverage :: rat
  co_max_interior_key_fraction :: rat
  co_danger_hue_tolerance :: rat
  co_max_subject_near_key_fraction :: rat
  co_despill_strength :: rat
  co_edge_despill_radius :: int

definition defaultChromaKeyOptions :: chroma_options where
  "defaultChromaKeyOptions =
     \<lparr>co_key = (255, 0, 255), co_hue_tolerance = 25, co_weak_hue_tolerance = 55, co_min_chroma = 25,
      co_weak_min_chroma = 12, co_weak_max_chroma = 45, co_max_key_hue_drift = 45,
      co_max_transparent_fraction = 85 / 100, co_min_border_coverage = 1 / 2, co_max_interior_key_fraction = 2 / 100,
      co_danger_hue_tolerance = 35, co_max_subject_near_key_fraction = 3 / 100, co_despill_strength = 1,
      co_edge_despill_radius = 2\<rparr>"

record chroma_report =
  cr_border_coverage :: rat
  cr_interior_key_fraction :: rat
  cr_transparent_pixels :: nat
  cr_partial_pixels :: nat
  cr_subject_near_key_fraction :: rat
  cr_detected_key_hue_drift :: rat
  cr_total_pixels :: nat

datatype chroma_error =
    ErrEmptyImage
  | ErrWeakBelowStrong
  | ErrBackdropNotFound
  | ErrSubjectContainsKey
  | ErrSubjectNearKey

datatype pixel_class = ClsSubject | ClsWeak | ClsStrong

section \<open>The grid\<close>

text \<open>The frame in the order both loops over it visit it; corners come twice.\<close>

definition frame :: "nat \<Rightarrow> nat \<Rightarrow> (nat \<times> nat) list" where
  "frame w h = concat (map (\<lambda>x. [(x, 0), (x, h - 1)]) [0..<w]) @ concat (map (\<lambda>y. [(0, y), (w - 1, y)]) [0..<h])"

definition on_border :: "nat \<Rightarrow> nat \<Rightarrow> nat \<Rightarrow> bool" where
  "on_border w h i \<longleftrightarrow> i mod w = 0 \<or> i div w = 0 \<or> i mod w = w - 1 \<or> i div w = h - 1"

definition in_grid :: "nat \<Rightarrow> nat \<Rightarrow> int \<Rightarrow> int \<Rightarrow> bool" where
  "in_grid w h nx ny \<longleftrightarrow> \<not> (nx < 0 \<or> ny < 0 \<or> nx \<ge> int w \<or> ny \<ge> int h)"

text \<open>The four neighbours that lie in the grid, in the order left, right, above, below.\<close>

definition neighbours :: "nat \<Rightarrow> nat \<Rightarrow> nat \<Rightarrow> nat list" where
  "neighbours w h i =
     (let x = int (i mod w); y = int (i div w)
      in map (\<lambda>(nx, ny). nat (ny * int w + nx))
           (filter (\<lambda>(nx, ny). in_grid w h nx ny) [(x - 1, y), (x + 1, y), (x, y - 1), (x, y + 1)]))"

section \<open>The flood fill\<close>

definition flood_seed :: "pixel_class list \<Rightarrow> nat \<Rightarrow> nat \<times> nat \<Rightarrow> bool list \<times> nat list \<Rightarrow> bool list \<times> nat list" where
  "flood_seed cls w xy s =
     (case xy of (x, y) \<Rightarrow> case s of (out, q) \<Rightarrow>
        let i = y * w + x
        in if cls ! i = ClsStrong \<and> \<not> out ! i then (out[i := True], q @ [i]) else (out, q))"

definition flood_grow :: "pixel_class list \<Rightarrow> nat \<Rightarrow> bool list \<times> nat list \<Rightarrow> bool list \<times> nat list" where
  "flood_grow cls n s =
     (case s of (out, q) \<Rightarrow>
        if out ! n \<or> cls ! n \<noteq> ClsStrong \<and> cls ! n \<noteq> ClsWeak then (out, q) else (out[n := True], q @ [n]))"

definition flood_pixel :: "pixel_class list \<Rightarrow> nat \<Rightarrow> nat \<Rightarrow> bool list \<times> nat list \<Rightarrow> nat \<Rightarrow> bool list \<times> nat list" where
  "flood_pixel cls w h s i = fold (flood_grow cls) (neighbours w h i) s"

definition flood_seeds :: "pixel_class list \<Rightarrow> nat \<Rightarrow> nat \<Rightarrow> bool list \<times> nat list" where
  "flood_seeds cls w h = fold (flood_seed cls w) (frame w h) (replicate (w * h) False, [])"

definition floodBackdrop :: "pixel_class list \<Rightarrow> nat \<Rightarrow> nat \<Rightarrow> bool list option" where
  "floodBackdrop cls w h = map_option fst (search (flood_pixel cls w h) (flood_seeds cls w h))"

section \<open>The distance to the cutout\<close>

definition edge_visit :: "bool list \<Rightarrow> int \<Rightarrow> nat \<Rightarrow> int list \<times> nat list \<Rightarrow> int list \<times> nat list" where
  "edge_visit seed d n s =
     (case s of (ds, q) \<Rightarrow>
        if ds ! n \<noteq> 0 \<or> seed ! n then (ds, q) else (ds[n := d + 1], q @ [n]))"

definition edge_pixel :: "bool list \<Rightarrow> nat \<Rightarrow> nat \<Rightarrow> int \<Rightarrow> int list \<times> nat list \<Rightarrow> nat \<Rightarrow> int list \<times> nat list" where
  "edge_pixel seed w h radius s i =
     (if fst s ! i > radius then s else fold (edge_visit seed (fst s ! i)) (neighbours w h i) s)"

definition edge_band :: "int \<Rightarrow> int \<Rightarrow> int" where
  "edge_band radius d = (if d \<le> 1 \<or> d > radius + 1 then 0 else d - 1)"

definition edge_seeds :: "int list \<Rightarrow> bool list \<Rightarrow> bool list" where
  "edge_seeds alpha bd = map2 (\<lambda>a c. a = 0 \<and> c) alpha bd"

definition edgeDistance :: "int list \<Rightarrow> bool list \<Rightarrow> nat \<Rightarrow> nat \<Rightarrow> int \<Rightarrow> int list option" where
  "edgeDistance alpha bd w h radius =
     (if radius \<le> 0 then Some (replicate (w * h) 0)
      else
        let seed = edge_seeds alpha bd
        in map_option (\<lambda>s. map (edge_band radius) (fst s))
             (search (edge_pixel seed w h radius)
                (map (\<lambda>b. if b then 1 else 0) seed, filter (\<lambda>i. seed ! i) [0..<w * h])))"

section \<open>The key\<close>

definition hue_of :: "float_math \<Rightarrow> rat \<times> rat \<Rightarrow> rat" where
  "hue_of fm c = fm_atan2 fm (snd c) (fst c)"

definition hue_offset :: "rat \<Rightarrow> rat" where
  "hue_offset d = \<bar>go_mod (d + 540) 360 - 180\<bar>"

text \<open>The median hue of the saturated border pixels, unless too few of them are.\<close>

definition border_offsets :: "float_math \<Rightarrow> picture \<Rightarrow> rat \<Rightarrow> rat \<Rightarrow> rat list" where
  "border_offsets fm p key_hue min_chroma =
     concat (map (\<lambda>(x, y).
        let c = chromaOf (rgb_at p x y)
        in if fm_hypot fm (fst c) (snd c) < min_chroma then []
           else [go_mod (hue_of fm c - key_hue + 540) 360 - 180]) (frame (pc_w p) (pc_h p)))"

definition detectBorderHue :: "float_math \<Rightarrow> picture \<Rightarrow> rat \<Rightarrow> rat \<Rightarrow> rat option" where
  "detectBorderHue fm p key_hue min_chroma =
     (let offsets = border_offsets fm p key_hue min_chroma
      in if length offsets < (pc_w p + pc_h p) div 2 then None
         else Some (key_hue + sort offsets ! (length offsets div 2)))"

text \<open>The hue keyed on and how far it drifted from the requested one.\<close>

definition key_hue_of :: "float_math \<Rightarrow> picture \<Rightarrow> chroma_options \<Rightarrow> rat \<times> rat" where
  "key_hue_of fm p opts =
     (let key = hue_of fm (chromaOf (co_key opts))
      in if co_max_key_hue_drift opts > 0
         then (case detectBorderHue fm p key (co_min_chroma opts) of
                 None \<Rightarrow> (key, 0)
               | Some detected \<Rightarrow>
                   if hue_offset (detected - key) \<le> co_max_key_hue_drift opts
                   then (detected, hue_offset (detected - key)) else (key, 0))
         else (key, 0))"

text \<open>Pass 1, per pixel: the hue offset and the class.\<close>

definition pixel_hue_diff :: "float_math \<Rightarrow> rat \<Rightarrow> color3 \<Rightarrow> rat" where
  "pixel_hue_diff fm key_hue c = hue_offset (hue_of fm (chromaOf c) - key_hue)"

definition classify_pixel :: "float_math \<Rightarrow> chroma_options \<Rightarrow> rat \<Rightarrow> color3 \<Rightarrow> pixel_class" where
  "classify_pixel fm opts key_hue c =
     (let mag = fm_hypot fm (fst (chromaOf c)) (snd (chromaOf c)); hd = pixel_hue_diff fm key_hue c
      in if hd \<le> co_hue_tolerance opts \<and> mag \<ge> co_min_chroma opts then ClsStrong
         else if hd \<le> co_weak_hue_tolerance opts \<and> mag \<ge> co_weak_min_chroma opts
              \<and> (co_weak_max_chroma opts \<le> 0 \<or> mag \<le> co_weak_max_chroma opts) then ClsWeak
         else ClsSubject)"

definition pixels :: "picture \<Rightarrow> color3 list" where
  "pixels p = map (\<lambda>i. rgb_at p (i mod pc_w p) (i div pc_w p)) [0..<pc_w p * pc_h p]"

definition touchesBackdrop :: "bool list \<Rightarrow> nat \<Rightarrow> nat \<Rightarrow> nat \<Rightarrow> nat \<Rightarrow> bool" where
  "touchesBackdrop backdrop w h x y =
     (let i = y * w + x
      in x > 0 \<and> backdrop ! (i - 1) \<or> x < w - 1 \<and> backdrop ! (i + 1)
         \<or> y > 0 \<and> backdrop ! (i - w) \<or> y < h - 1 \<and> backdrop ! (i + w))"

text \<open>The matte: a pixel beside the backdrop is softened by how close its hue is to the key.\<close>

definition matte :: "chroma_options \<Rightarrow> nat \<Rightarrow> nat \<Rightarrow> bool list \<Rightarrow> rat list \<Rightarrow> nat \<Rightarrow> int" where
  "matte opts w h backdrop offs i =
     (if backdrop ! i then 0
      else if \<not> touchesBackdrop backdrop w h (i mod w) (i div w) then 255
      else if offs ! i \<ge> co_weak_hue_tolerance opts then 255
      else
        let ramp = (offs ! i - co_hue_tolerance opts) / (co_weak_hue_tolerance opts - co_hue_tolerance opts)
        in go_round ((if ramp < 0 then 0 else ramp) * 255))"

definition ratio :: "nat \<Rightarrow> nat \<Rightarrow> rat" where
  "ratio a b = (if b > 0 then of_nat a / of_nat b else 0)"

definition count_where :: "(nat \<Rightarrow> bool) \<Rightarrow> nat \<Rightarrow> nat" where
  "count_where P n = length (filter P [0..<n])"

text \<open>The figures the acceptance is decided on.\<close>

definition chroma_figures ::
    "chroma_options \<Rightarrow> nat \<Rightarrow> nat \<Rightarrow> pixel_class list \<Rightarrow> bool list \<Rightarrow> rat list \<Rightarrow> int list \<Rightarrow> rat \<Rightarrow> chroma_report" where
  "chroma_figures opts w h cls backdrop offs alpha drift =
     (let n = w * h
      in \<lparr>cr_border_coverage = ratio (count_where (\<lambda>i. on_border w h i \<and> backdrop ! i) n) (count_where (on_border w h) n),
          cr_interior_key_fraction =
            ratio (count_where (\<lambda>i. \<not> on_border w h i \<and> cls ! i = ClsStrong \<and> \<not> backdrop ! i) n)
                  (count_where (\<lambda>i. \<not> on_border w h i) n),
          cr_transparent_pixels = 0, cr_partial_pixels = 0,
          cr_subject_near_key_fraction =
            ratio (count_where (\<lambda>i. alpha ! i = 255 \<and> offs ! i \<le> co_danger_hue_tolerance opts \<and> cls ! i \<noteq> ClsSubject) n)
                  (count_where (\<lambda>i. alpha ! i = 255) n),
          cr_detected_key_hue_drift = drift, cr_total_pixels = n\<rparr>)"

text \<open>Pass 3, per pixel.\<close>

definition spill_strength :: "chroma_options \<Rightarrow> int \<Rightarrow> int \<Rightarrow> rat" where
  "spill_strength opts a d =
     (if a < 255 then 1 - of_int a / 255
      else if d > 0 then 1 - of_int (d - 1) / of_int (max (co_edge_despill_radius opts) 1)
      else 0)"

definition compose_pixel :: "chroma_options \<Rightarrow> rat \<times> rat \<Rightarrow> int \<Rightarrow> int \<Rightarrow> color3 \<Rightarrow> color4" where
  "compose_pixel opts dir a d c =
     (let s = spill_strength opts a d;
          c' = (if co_despill_strength opts > 0 \<and> s > 0 then despill c dir (co_despill_strength opts * s) else c)
      in (fst c', fst (snd c'), snd (snd c'), a))"

definition chromaKey :: "float_math \<Rightarrow> picture \<Rightarrow> chroma_options \<Rightarrow> ((chroma_error + color4 list) \<times> chroma_report) option" where
  "chromaKey fm p opts =
     (let w = pc_w p; h = pc_h p; n = w * h;
          blank = \<lparr>cr_border_coverage = 0, cr_interior_key_fraction = 0, cr_transparent_pixels = 0, cr_partial_pixels = 0,
                   cr_subject_near_key_fraction = 0, cr_detected_key_hue_drift = 0, cr_total_pixels = n\<rparr>
      in if w = 0 \<or> h = 0 then Some (Inl ErrEmptyImage, blank)
         else if co_weak_hue_tolerance opts < co_hue_tolerance opts then Some (Inl ErrWeakBelowStrong, blank)
         else
           let (key, drift) = key_hue_of fm p opts;
               dir = normalizeChroma fm (fm_cos fm key) (fm_sin fm key);
               px = pixels p;
               cls = map (classify_pixel fm opts key) px;
               offs = map (pixel_hue_diff fm key) px
           in (case floodBackdrop cls w h of
                 None \<Rightarrow> None
               | Some backdrop \<Rightarrow>
                   let alpha = map (matte opts w h backdrop offs) [0..<n];
                       rep = chroma_figures opts w h cls backdrop offs alpha drift;
                       transparent = count_where (\<lambda>i. alpha ! i = 0) n
                   in if cr_border_coverage rep < co_min_border_coverage opts then Some (Inl ErrBackdropNotFound, rep)
                      else if cr_interior_key_fraction rep > co_max_interior_key_fraction opts
                      then Some (Inl ErrSubjectContainsKey, rep)
                      else if co_max_subject_near_key_fraction opts > 0
                           \<and> cr_subject_near_key_fraction rep > co_max_subject_near_key_fraction opts
                      then Some (Inl ErrSubjectNearKey, rep)
                      else if co_max_transparent_fraction opts > 0 \<and> n > 0
                           \<and> ratio transparent n > co_max_transparent_fraction opts
                      then Some (Inl ErrSubjectNearKey, rep\<lparr>cr_transparent_pixels := transparent\<rparr>)
                      else
                        (case edgeDistance alpha backdrop w h (co_edge_despill_radius opts) of
                           None \<Rightarrow> None
                         | Some ds \<Rightarrow>
                             Some (Inr (map (\<lambda>i. compose_pixel opts dir (alpha ! i) (ds ! i) (px ! i)) [0..<n]),
                               rep\<lparr>cr_transparent_pixels := transparent,
                                   cr_partial_pixels := count_where (\<lambda>i. alpha ! i \<noteq> 0 \<and> alpha ! i < 255) n\<rparr>))))"

section \<open>Despilling a matte\<close>

text \<open>
  The band is measured from the premultiplied alpha, the strength from the straight one; on an
  empty image the function fails, written as \<open>Inl\<close>.
\<close>

definition despill_pixel :: "chroma_options \<Rightarrow> rat \<times> rat \<Rightarrow> int \<Rightarrow> color4 \<Rightarrow> color4" where
  "despill_pixel opts dir d c =
     (case c of (r, g, b, a) \<Rightarrow>
        let s = spill_strength opts a d;
            c' = (if co_despill_strength opts > 0 \<and> a > 0 \<and> s > 0
                  then despill (r, g, b) dir (co_despill_strength opts * s) else (r, g, b))
        in (fst c', fst (snd c'), snd (snd c'), a))"

definition despillMatte :: "float_math \<Rightarrow> picture \<Rightarrow> chroma_options \<Rightarrow> (chroma_error + color4 list) option" where
  "despillMatte fm p opts =
     (let w = pc_w p; h = pc_h p; n = w * h
      in if w = 0 \<or> h = 0 then Some (Inl ErrEmptyImage)
         else
           let key = chromaOf (co_key opts); dir = normalizeChroma fm (fst key) (snd key);
               alpha = map (\<lambda>i. snd (snd (snd (pc_at p (i mod w) (i div w)))) div 256) [0..<n]
           in (case edgeDistance alpha (map (\<lambda>a. a = 0) alpha) w h (co_edge_despill_radius opts) of
                 None \<Rightarrow> None
               | Some ds \<Rightarrow>
                   Some (Inr (map (\<lambda>i. despill_pixel opts dir (ds ! i) (pc_nrgba p (i mod w) (i div w))) [0..<n]))))"

section \<open>The grid\<close>

lemma index_bound: "x < w \<Longrightarrow> y < h \<Longrightarrow> y * w + x < w * (h :: nat)"
proof -
  assume "x < w" "y < h"
  then have "y * w + x < (y + 1) * w" "(y + 1) * w \<le> h * w" by (simp, intro mult_le_mono1) simp
  then show ?thesis by (simp add: mult.commute)
qed

lemma neighbours_bound:
  assumes "n \<in> set (neighbours w h i)"
  shows "n < w * h"
proof -
  from assms obtain p where p: "n = (\<lambda>(nx, ny). nat (ny * int w + nx)) p" "(\<lambda>(nx, ny). in_grid w h nx ny) p"
    unfolding neighbours_def Let_def set_map set_filter by blast
  obtain nx ny where "p = (nx, ny)" by (cases p)
  with p have g: "in_grid w h nx ny" "n = nat (ny * int w + nx)" by simp_all
  then have r: "nat nx < w" "nat ny < h" "0 \<le> nx" "0 \<le> ny" by (auto simp: in_grid_def)
  then have "n = nat ny * w + nat nx" using g(2) by (simp add: nat_add_distrib nat_mult_distrib)
  with index_bound [OF r(1,2)] show ?thesis by simp
qed

lemma frame_mem:
  "xy \<in> set (frame w h) \<longleftrightarrow> (\<exists>x < w. xy = (x, 0) \<or> xy = (x, h - 1)) \<or> (\<exists>y < h. xy = (0, y) \<or> xy = (w - 1, y))"
  by (auto simp: frame_def)

lemma div_less_height: "i < w * h \<Longrightarrow> i div w < (h :: nat)"
  by (simp add: less_mult_imp_div_less mult.commute)

lemma frame_border:
  assumes "i < w * h"
  shows "(\<exists>(x, y) \<in> set (frame w h). y * w + x = i) \<longleftrightarrow> on_border w h i"
proof -
  have pos: "0 < w" "0 < h" using assms by (auto intro: Nat.gr0I)
  have hi: "i div w < h" by (rule div_less_height [OF assms])
  have lo: "i mod w < w" using pos by simp
  have self: "(i div w) * w + i mod w = i" by simp
  show ?thesis
  proof
    assume "\<exists>(x, y) \<in> set (frame w h). y * w + x = i"
    then obtain x y where xy: "(x, y) \<in> set (frame w h)" "y * w + x = i" by blast
    from xy(1) pos have b: "x < w" "y < h" "x = 0 \<or> x = w - 1 \<or> y = 0 \<or> y = h - 1" by (auto simp: frame_mem)
    from b(1) xy(2) have "i mod w = x" "i div w = y" by auto
    with b(3) show "on_border w h i" by (auto simp: on_border_def)
  next
    assume "on_border w h i"
    then have "(i mod w, i div w) \<in> set (frame w h)"
      using hi lo by (auto simp: on_border_def frame_mem)
    with self show "\<exists>(x, y) \<in> set (frame w h). y * w + x = i" by blast
  qed
qed

section \<open>The flood fill finds the backdrop\<close>

text \<open>
  What the comments promise: the backdrop is what is reachable from the border through pixels
  that are not subject, seeded only from confident ones.
\<close>

inductive reaches :: "pixel_class list \<Rightarrow> nat \<Rightarrow> nat \<Rightarrow> nat \<Rightarrow> bool" for cls w h where
  seed: "i < w * h \<Longrightarrow> on_border w h i \<Longrightarrow> cls ! i = ClsStrong \<Longrightarrow> reaches cls w h i"
| grow: "reaches cls w h i \<Longrightarrow> n \<in> set (neighbours w h i) \<Longrightarrow> cls ! n \<noteq> ClsSubject \<Longrightarrow> reaches cls w h n"

definition marks :: "bool list \<Rightarrow> nat set" where
  "marks m = {i. i < length m \<and> m ! i}"

lemma marks_mem: "i \<in> marks m \<longleftrightarrow> i < length m \<and> m ! i"
  by (simp add: marks_def)

lemma marks_update [simp]: "n < length m \<Longrightarrow> marks (m[n := True]) = insert n (marks m)"
  by (auto simp: marks_def nth_list_update)

lemma marks_none [simp]: "marks (replicate n False) = {}"
  by (auto simp: marks_def)

text \<open>One batch of pixels tried, whatever the test is: the marks and the queue grow together.\<close>

lemma fold_marks:
  assumes visit: "\<And>n m q. visit n (m, q) = (if m ! n \<or> \<not> P n then (m, q) else (m[n := True], q @ [n]))"
    and "\<forall>n \<in> set ns. n < length m" "distinct q" "set q = marks m" "fold visit ns (m, q) = (m', q')"
  shows "length m' = length m \<and> distinct q' \<and> set q' = marks m' \<and> (\<exists>new. q' = q @ new)
    \<and> marks m' = marks m \<union> {n \<in> set ns. P n}"
  using assms(2-)
proof (induction ns arbitrary: m q)
  case (Cons n ns)
  show ?case
  proof (cases "m ! n \<or> \<not> P n")
    case True
    then have "fold visit ns (m, q) = (m', q')" using Cons.prems(4) by (simp add: visit)
    moreover have "n \<in> marks m \<or> \<not> P n" using True Cons.prems(1) by (auto simp: marks_mem)
    ultimately show ?thesis using Cons.IH [OF _ Cons.prems(2,3)] Cons.prems(1) by auto
  next
    case False
    let ?m = "m[n := True]"
    have n: "n < length m" using Cons.prems(1) by simp
    have "fold visit ns (?m, q @ [n]) = (m', q')" using Cons.prems(4) False by (simp add: visit)
    moreover have "distinct (q @ [n])" using Cons.prems(2,3) False by (auto simp: marks_mem)
    moreover have "set (q @ [n]) = marks ?m" using Cons.prems(3) n by simp
    ultimately have "length m' = length ?m \<and> distinct q' \<and> set q' = marks m' \<and> (\<exists>new. q' = (q @ [n]) @ new)
        \<and> marks m' = marks ?m \<union> {n \<in> set ns. P n}"
      using Cons.IH [of ?m "q @ [n]"] Cons.prems(1) by simp
    with n False show ?thesis by auto
  qed
qed simp

lemma flood_pixel_marks:
  assumes "length out = w * h" "distinct q" "set q = marks out" "flood_pixel cls w h (out, q) i = (out', q')"
  shows "length out' = w * h \<and> distinct q' \<and> set q' = marks out' \<and> (\<exists>new. q' = q @ new)
    \<and> marks out' = marks out \<union> {n \<in> set (neighbours w h i). cls ! n \<noteq> ClsSubject}"
proof -
  have "cls ! n \<noteq> ClsStrong \<and> cls ! n \<noteq> ClsWeak \<longleftrightarrow> cls ! n = ClsSubject" for n by (cases "cls ! n") auto
  then have "flood_grow cls n (m, q) = (if m ! n \<or> \<not> cls ! n \<noteq> ClsSubject then (m, q) else (m[n := True], q @ [n]))" for n m q
    by (simp add: flood_grow_def)
  from fold_marks [where P = "\<lambda>n. cls ! n \<noteq> ClsSubject", OF this _ assms(2,3) assms(4) [unfolded flood_pixel_def]]
  show ?thesis using assms(1) neighbours_bound [of _ w h i] by simp
qed

lemma flood_seeds_marks:
  assumes "flood_seeds cls w h = (out, q)" and pos: "0 < w" "0 < h"
  shows "length out = w * h \<and> distinct q \<and> set q = marks out
    \<and> marks out = {i. i < w * h \<and> on_border w h i \<and> cls ! i = ClsStrong}"
proof -
  let ?ix = "\<lambda>(x, y). y * w + x"
  let ?visit = "\<lambda>i (m, q). if m ! i \<or> \<not> cls ! i = ClsStrong then (m, q) else (m[i := True], q @ [i])"
  have visit: "flood_seed cls w xy = ?visit (?ix xy)" for xy
    by (auto simp: flood_seed_def Let_def fun_eq_iff split: prod.splits)
  have "fold ?visit (map ?ix (frame w h)) (replicate (w * h) False, []) = (out, q)"
    using assms(1) by (simp add: flood_seeds_def fold_map visit [abs_def] comp_def)
  moreover have bound: "?ix xy < w * h" if "xy \<in> set (frame w h)" for xy
    proof -
    obtain x y where xy: "xy = (x, y)" by (cases xy)
    with that pos have "x < w" "y < h" by (auto simp: frame_mem)
    from index_bound [OF this] xy show ?thesis by simp
  qed
  ultimately have "length out = w * h \<and> distinct q \<and> set q = marks out
      \<and> marks out = {n \<in> set (map ?ix (frame w h)). cls ! n = ClsStrong}"
    using fold_marks [where visit = ?visit and P = "\<lambda>i. cls ! i = ClsStrong" and ns = "map ?ix (frame w h)"
        and m = "replicate (w * h) False" and q = "[]" and m' = out and q' = q] by auto
  moreover have "n \<in> set (map ?ix (frame w h)) \<longleftrightarrow> n < w * h \<and> on_border w h n" for n
    using bound frame_border [of n w h] by force
  ultimately show ?thesis by auto
qed

interpretation flood: worklist "w * h" "\<lambda>out. length out = w * h" marks "flood_pixel cls w h" for cls w h
proof unfold_locales
  fix m :: "bool list" and q i m' q'
  assume "length m = w * h" "distinct q" "set q = marks m" "flood_pixel cls w h (m, q) i = (m', q')"
  from flood_pixel_marks [OF this]
  show "length m' = w * h \<and> distinct q' \<and> set q' = marks m' \<and> (\<exists>new. q' = q @ new)" by blast
qed (auto simp: marks_mem)

lemma floodBackdrop_exact:
  assumes pos: "0 < w" "0 < h"
  shows "\<exists>mask. floodBackdrop cls w h = Some mask \<and> length mask = w * h
     \<and> (\<forall>i < w * h. mask ! i \<longleftrightarrow> reaches cls w h i)"
proof -
  let ?P = "\<lambda>out q k. (\<forall>i \<in> set q. reaches cls w h i)
    \<and> {i. i < w * h \<and> on_border w h i \<and> cls ! i = ClsStrong} \<subseteq> set q
    \<and> (\<forall>j < k. \<forall>n \<in> set (neighbours w h (q ! j)). cls ! n \<noteq> ClsSubject \<longrightarrow> n \<in> set q)"
  obtain out0 q0 where s: "flood_seeds cls w h = (out0, q0)" by (metis surj_pair)
  note sm = flood_seeds_marks [OF s pos]
  have "?P m' q' (k + 1)"
    if g: "flood.good w h ((m, q), k)" and P: "?P m q k" and k: "k < length q" and e: "flood_pixel cls w h (m, q) (q ! k) = (m', q')"
    for m q k m' q'
  proof -
    have w: "length m = w * h" "distinct q" "set q = marks m" using g by (simp_all add: flood.good_def)
    from flood_pixel_marks [OF w e] obtain new where n: "q' = q @ new" "set q' = marks m'"
        "marks m' = marks m \<union> {n \<in> set (neighbours w h (q ! k)). cls ! n \<noteq> ClsSubject}" by blast
    then have sq: "set q' = set q \<union> {n \<in> set (neighbours w h (q ! k)). cls ! n \<noteq> ClsSubject}" using w(3) by simp
    have "reaches cls w h (q ! k)" using P k by simp
    then have "\<forall>i \<in> set q'. reaches cls w h i" using sq P by (auto intro: reaches.grow)
    moreover have "n \<in> set q'" if "j < k + 1" "n \<in> set (neighbours w h (q' ! j))" "cls ! n \<noteq> ClsSubject" for j n
    proof -
      have qj: "q' ! j = q ! j" using n(1) that(1) k by (simp add: nth_append)
      show ?thesis
      proof (cases "j < k")
        case True
        with P that qj sq show ?thesis by auto
      next
        case False
        with that have "j = k" by simp
        with that qj sq show ?thesis by simp
      qed
    qed
    ultimately show ?thesis using P sq by blast
  qed
  moreover have "?P out0 q0 0" using sm by (auto intro: reaches.seed)
  ultimately obtain m q where r: "search (flood_pixel cls w h) (out0, q0) = Some (m, q)"
      "flood.good w h ((m, q), length q)" "?P m q (length q)"
    using flood.search_ends [where P = ?P, of out0 w h q0 cls] sm by blast
  have "i \<in> set q" if "reaches cls w h i" for i
    using that
  proof (induction rule: reaches.induct)
    case (seed i)
    with r(3) show ?case by blast
  next
    case (grow i n)
    then obtain j where "j < length q" "q ! j = i" by (auto simp: in_set_conv_nth)
    with grow r(3) show ?case by blast
  qed
  moreover have "reaches cls w h i" if "i \<in> set q" for i using r(3) that by blast
  ultimately have "i \<in> set q \<longleftrightarrow> reaches cls w h i" for i by blast
  moreover have "length m = w * h" "set q = marks m" using r(2) by (simp_all add: flood.good_def)
  ultimately have "length m = w * h \<and> (\<forall>i < w * h. m ! i \<longleftrightarrow> reaches cls w h i)" by (auto simp: marks_mem)
  with r(1) s show ?thesis by (simp add: floodBackdrop_def)
qed
section \<open>The band around the cutout\<close>

text \<open>\<open>near k i\<close>: \<open>i\<close> is \<open>k\<close> steps from a fully transparent pixel of the backdrop.\<close>

inductive near :: "bool list \<Rightarrow> nat \<Rightarrow> nat \<Rightarrow> nat \<Rightarrow> nat \<Rightarrow> bool" for seed w h where
  at: "i < w * h \<Longrightarrow> seed ! i \<Longrightarrow> near seed w h 0 i"
| beside: "near seed w h k i \<Longrightarrow> n \<in> set (neighbours w h i) \<Longrightarrow> near seed w h (Suc k) n"

definition touched :: "int list \<Rightarrow> nat set" where
  "touched ds = {i. i < length ds \<and> ds ! i \<noteq> 0}"

lemma touched_mem: "i \<in> touched ds \<longleftrightarrow> i < length ds \<and> ds ! i \<noteq> 0"
  by (simp add: touched_def)

definition dist_well :: "bool list \<Rightarrow> nat \<Rightarrow> int list \<Rightarrow> bool" where
  "dist_well seed n ds \<longleftrightarrow> length ds = n \<and> (\<forall>i < n. 0 \<le> ds ! i) \<and> (\<forall>i < n. seed ! i \<longrightarrow> ds ! i = 1)"

lemma fold_edge:
  assumes "dist_well seed N ds" "0 < d" "\<forall>n \<in> set ns. n < N" "distinct q" "set q = touched ds"
    and "fold (edge_visit seed d) ns (ds, q) = (ds', q')"
  shows "dist_well seed N ds' \<and> distinct q' \<and> set q' = touched ds'
    \<and> (\<exists>new. q' = q @ new \<and> (\<forall>x \<in> set new. ds' ! x = d + 1)) \<and> (\<forall>i \<in> touched ds. ds' ! i = ds ! i)
    \<and> set ns \<subseteq> touched ds'"
  using assms
proof (induction ns arbitrary: ds q)
  case (Cons n ns)
  have n: "n < N" and len: "length ds = N" using Cons.prems(1,3) by (simp_all add: dist_well_def)
  show ?case
  proof (cases "ds ! n \<noteq> 0 \<or> seed ! n")
    case True
    then have t: "n \<in> touched ds" using n Cons.prems(1) by (auto simp: touched_mem dist_well_def)
    have "edge_visit seed d n (ds, q) = (ds, q)" using True by (simp add: edge_visit_def)
    with Cons.prems(6) have "fold (edge_visit seed d) ns (ds, q) = (ds', q')" by simp
    from Cons.IH [OF Cons.prems(1,2) _ Cons.prems(4,5) this] Cons.prems(3)
    have r: "dist_well seed N ds' \<and> distinct q' \<and> set q' = touched ds'
        \<and> (\<exists>new. q' = q @ new \<and> (\<forall>x \<in> set new. ds' ! x = d + 1)) \<and> (\<forall>i \<in> touched ds. ds' ! i = ds ! i)
        \<and> set ns \<subseteq> touched ds'" by simp
    then have "n \<in> touched ds'" using t n by (auto simp: touched_mem dist_well_def)
    with r show ?thesis by simp
  next
    case False
    let ?ds = "ds[n := d + 1]"
    have "edge_visit seed d n (ds, q) = (?ds, q @ [n])" using False by (simp add: edge_visit_def)
    with Cons.prems(6) have step: "fold (edge_visit seed d) ns (?ds, q @ [n]) = (ds', q')" by simp
    have tn: "touched ?ds = insert n (touched ds)" using n len Cons.prems(2) by (auto simp: touched_def nth_list_update)
    have nt: "n \<notin> touched ds" using False by (simp add: touched_mem)
    have "dist_well seed N ?ds"
      using Cons.prems(1,2) False n by (auto simp: dist_well_def nth_list_update)
    moreover have "distinct (q @ [n])" "set (q @ [n]) = touched ?ds"
      using Cons.prems(4,5) nt tn by simp_all
    ultimately have r: "dist_well seed N ds' \<and> distinct q' \<and> set q' = touched ds'
        \<and> (\<exists>new. q' = (q @ [n]) @ new \<and> (\<forall>x \<in> set new. ds' ! x = d + 1)) \<and> (\<forall>i \<in> touched ?ds. ds' ! i = ?ds ! i)
        \<and> set ns \<subseteq> touched ds'"
      using Cons.IH [OF _ Cons.prems(2) _ _ _ step] Cons.prems(3) by simp
    then obtain new where new: "q' = q @ n # new" "\<forall>x \<in> set new. ds' ! x = d + 1" by auto
    have dn: "ds' ! n = d + 1" using r tn n len by simp
    have "\<forall>x \<in> set (n # new). ds' ! x = d + 1" using new(2) dn by simp
    moreover have "n \<in> touched ds'" using dn r n Cons.prems(2) by (simp add: touched_mem dist_well_def)
    moreover have "\<forall>i \<in> touched ds. ds' ! i = ds ! i"
      using r tn nt by (metis insertCI nth_list_update_neq)
    ultimately show ?thesis using r new(1) by auto
  qed
qed simp

lemma edge_pixel_marks:
  assumes "dist_well seed (w * h) ds" "distinct q" "set q = touched ds" "i \<in> touched ds"
    and "edge_pixel seed w h radius (ds, q) i = (ds', q')"
  shows "dist_well seed (w * h) ds' \<and> distinct q' \<and> set q' = touched ds'
    \<and> (\<exists>new. q' = q @ new \<and> (\<forall>x \<in> set new. ds' ! x = ds ! i + 1)) \<and> (\<forall>j \<in> touched ds. ds' ! j = ds ! j)
    \<and> (ds ! i \<le> radius \<longrightarrow> set (neighbours w h i) \<subseteq> touched ds') \<and> (\<not> ds ! i \<le> radius \<longrightarrow> q' = q)"
proof (cases "ds ! i > radius")
  case True
  with assms show ?thesis by (simp add: edge_pixel_def)
next
  case False
  have "0 < ds ! i" using assms(1,4) by (auto simp: touched_mem dist_well_def le_less)
  with fold_edge [OF assms(1) _ _ assms(2,3), of "ds ! i" "neighbours w h i" ds' q'] assms(5) False neighbours_bound [of _ w h i]
  show ?thesis by (auto simp: edge_pixel_def)
qed

interpretation edge: worklist "w * h" "dist_well seed (w * h)" touched "edge_pixel seed w h radius" for seed w h radius
proof unfold_locales
  fix m q i m' q'
  assume "dist_well seed (w * h) m" "distinct q" "set q = touched m" "i \<in> touched m" "edge_pixel seed w h radius (m, q) i = (m', q')"
  from edge_pixel_marks [OF this]
  show "dist_well seed (w * h) m' \<and> distinct q' \<and> set q' = touched m' \<and> (\<exists>new. q' = q @ new)" by blast
qed (auto simp: touched_mem dist_well_def)

text \<open>
  The queue is ordered by distance and spans at most two of them, so each pixel gets its least
  distance; the loop stops at the radius.
\<close>

definition layered :: "bool list \<Rightarrow> nat \<Rightarrow> nat \<Rightarrow> int \<Rightarrow> int list \<Rightarrow> nat list \<Rightarrow> nat \<Rightarrow> bool" where
  "layered seed w h radius ds q k \<longleftrightarrow>
     (\<forall>i \<in> set q. near seed w h (nat (ds ! i - 1)) i)
     \<and> sorted (map ((!) ds) q)
     \<and> (k < length q \<longrightarrow> (\<forall>i \<in> set q. ds ! i \<le> ds ! (q ! k) + 1))
     \<and> (\<forall>j < k. ds ! (q ! j) \<le> radius \<longrightarrow> (\<forall>n \<in> set (neighbours w h (q ! j)). n \<in> set q \<and> ds ! n \<le> ds ! (q ! j) + 1))"

lemma layered_step:
  assumes g: "edge.good seed w h ((ds, q), k)" and P: "layered seed w h radius ds q k" and k: "k < length q"
    and e: "edge_pixel seed w h radius (ds, q) (q ! k) = (ds', q')"
  shows "layered seed w h radius ds' q' (k + 1)"
proof -
  have w: "dist_well seed (w * h) ds" "distinct q" "set q = touched ds" using g by (simp_all add: edge.good_def)
  have i: "q ! k \<in> touched ds" using w(3) k nth_mem by blast
  note m = edge_pixel_marks [OF w i e]
  then obtain new where new: "q' = q @ new" "\<forall>x \<in> set new. ds' ! x = ds ! (q ! k) + 1" by blast
  have old: "\<forall>j \<in> set q. ds' ! j = ds ! j" using m w(3) by blast
  let ?d = "ds ! (q ! k)"
  have pos: "1 \<le> ?d" using i w(1) by (force simp: touched_mem dist_well_def)
  have near_k: "near seed w h (nat (?d - 1)) (q ! k)" using P k by (simp add: layered_def)
  have from_k: "x \<in> set (neighbours w h (q ! k))" if "x \<in> set new" for x
  proof -
    have "?d \<le> radius" using m new(1) that by (metis append.right_neutral empty_iff list.set(1) same_append_eq)
    then have f: "fold (edge_visit seed ?d) (neighbours w h (q ! k)) (ds, q) = (ds', q')" using e by (simp add: edge_pixel_def)
    have "set (snd (fold (edge_visit seed ?d) ns s)) \<subseteq> set (snd s) \<union> set ns" for ns s
      by (induction ns arbitrary: s) (force simp: edge_visit_def split: prod.splits if_splits)+
    from this [of "neighbours w h (q ! k)" "(ds, q)"] f have "set q' \<subseteq> set q \<union> set (neighbours w h (q ! k))" by simp
    moreover have "x \<notin> set q" using m new(1) that by auto
    ultimately show ?thesis using new(1) that by auto
  qed
  have near': "\<forall>x \<in> set q'. near seed w h (nat (ds' ! x - 1)) x"
  proof
    fix x assume "x \<in> set q'"
    then consider "x \<in> set q" | "x \<in> set new" using new(1) by auto
    then show "near seed w h (nat (ds' ! x - 1)) x"
    proof cases
      case 1
      with old P show ?thesis by (simp add: layered_def)
    next
      case 2
      have "nat (ds' ! x - 1) = Suc (nat (?d - 1))" using 2 new(2) pos by simp
      with near.beside [OF near_k from_k [OF 2]] show ?thesis by simp
    qed
  qed
  have le: "\<forall>x \<in> set q'. ds' ! x \<le> ?d + 1" using new old P k by (auto simp: layered_def)
  have sorted: "sorted (map ((!) ds') q')"
  proof -
    have mq: "map ((!) ds') q = map ((!) ds) q" using old by simp
    have sn: "sorted (map ((!) ds') new)" using new(2) by (induction new) simp_all
    have "sorted (map ((!) ds) q)" using P by (simp add: layered_def)
    then have "sorted (map ((!) ds') q)" by (simp only: mq)
    then show ?thesis using sn P new old k by (auto simp: layered_def sorted_append)
  qed
  have "ds' ! x \<le> ds' ! (q' ! (k + 1)) + 1" if "k + 1 < length q'" "x \<in> set q'" for x
  proof -
    have "ds' ! (q' ! k) \<le> ds' ! (q' ! (k + 1))"
      using sorted_nth_mono [OF sorted, of k "k + 1"] that(1) by simp
    moreover have "ds' ! (q' ! k) = ?d" using new(1) k old by (simp add: nth_append)
    ultimately show ?thesis using le that(2) by fastforce
  qed
  moreover have "n \<in> set q' \<and> ds' ! n \<le> ds' ! (q' ! j) + 1"
    if "j < k + 1" "ds' ! (q' ! j) \<le> radius" "n \<in> set (neighbours w h (q' ! j))" for j n
  proof -
    have qj: "q' ! j = q ! j" "ds' ! (q ! j) = ds ! (q ! j)" using new(1) that(1) k old by (simp_all add: nth_append)
    show ?thesis
    proof (cases "j < k")
      case True
      with P that qj have "n \<in> set q" "ds ! n \<le> ds ! (q ! j) + 1" by (auto simp: layered_def)
      with qj old new(1) show ?thesis by simp
    next
      case False
      with that(1) have "j = k" by simp
      with that qj m have "n \<in> set q'" by auto
      with le \<open>j = k\<close> qj show ?thesis by simp
    qed
  qed
  ultimately show ?thesis using near' sorted by (simp add: layered_def)
qed

text \<open>The number of steps to the nearest transparent pixel, when it is at least one and in the band.\<close>

definition band_distance :: "bool list \<Rightarrow> nat \<Rightarrow> nat \<Rightarrow> int \<Rightarrow> nat \<Rightarrow> int \<Rightarrow> bool" where
  "band_distance seed w h radius i d \<longleftrightarrow>
     (if \<exists>k \<ge> 1. int k \<le> radius \<and> near seed w h k i \<and> (\<forall>j < k. \<not> near seed w h j i)
      then 1 \<le> d \<and> d \<le> radius \<and> near seed w h (nat d) i \<and> (\<forall>j < nat d. \<not> near seed w h j i)
      else d = 0)"

lemma near_bound: "near seed w h k i \<Longrightarrow> i < w * h"
  by (induction rule: near.induct) (auto dest: neighbours_bound)

lemma edgeDistance_exact:
  assumes "length alpha = w * h" "length bd = w * h"
  shows "\<exists>ds. edgeDistance alpha bd w h radius = Some ds \<and> length ds = w * h
    \<and> (\<forall>i < w * h. band_distance (edge_seeds alpha bd) w h radius i (ds ! i))"
proof (cases "radius \<le> 0")
  case True
  then show ?thesis by (auto simp: edgeDistance_def band_distance_def)
next
  case False
  define seed where "seed = edge_seeds alpha bd"
  have ls: "length seed = w * h" using assms by (simp add: seed_def edge_seeds_def)
  let ?ds = "map (\<lambda>b. if b then 1 else 0) seed :: int list" and ?q = "filter (\<lambda>i. seed ! i) [0..<w * h]"
  have start: "dist_well seed (w * h) ?ds" "distinct ?q" "set ?q = touched ?ds"
    using ls by (auto simp: dist_well_def touched_def split: if_splits)
  have lay: "layered seed w h radius ?ds ?q 0"
  proof -
    have "map ((!) ?ds) ?q = map (\<lambda>_. 1) ?q" using ls by auto
    moreover have "sorted (map (\<lambda>_. 1 :: int) xs)" for xs :: "nat list" by (induction xs) simp_all
    ultimately have "sorted (map ((!) ?ds) ?q)" by metis
    moreover have one: "\<forall>i \<in> set ?q. ?ds ! i = 1" using ls by simp
    moreover have "\<forall>i \<in> set ?q. near seed w h 0 i" by (auto intro: near.at)
    moreover have "?ds ! (?q ! 0) = 1" if "0 < length ?q" using one nth_mem [OF that] by blast
    ultimately show ?thesis unfolding layered_def by (simp del: length_greater_0_conv set_filter)
  qed
  obtain ds q where r: "search (edge_pixel seed w h radius) (?ds, ?q) = Some (ds, q)"
      "edge.good seed w h ((ds, q), length q)" "layered seed w h radius ds q (length q)"
    using edge.search_ends [where P = "layered seed w h radius" and radius = radius, OF start lay] layered_step by blast
  have w: "length ds = w * h" "set q = touched ds" and wd: "dist_well seed (w * h) ds"
    using r(2) by (simp_all add: edge.good_def dist_well_def)
  have upper: "int k \<le> radius \<Longrightarrow> ds ! i \<noteq> 0 \<and> ds ! i \<le> int k + 1" if "near seed w h k i" for k i
    using that
  proof (induction rule: near.induct)
    case (at i)
    with wd show ?case by (simp add: dist_well_def)
  next
    case (beside k i n)
    then have i: "ds ! i \<noteq> 0" "ds ! i \<le> int k + 1" by simp_all
    with near_bound [OF beside.hyps(1)] w have "i \<in> set q" by (simp add: touched_mem)
    then obtain j where "j < length q" "q ! j = i" by (auto simp: in_set_conv_nth)
    with r(3) i beside have "n \<in> set q \<and> ds ! n \<le> ds ! i + 1" by (auto simp: layered_def)
    with w i show ?case by (auto simp: touched_mem)
  qed
  have lower: "near seed w h (nat (ds ! i - 1)) i" if "i < w * h" "ds ! i \<noteq> 0" for i
    using r(3) w that by (auto simp: layered_def touched_mem)
  have "band_distance seed w h radius i (edge_band radius (ds ! i))" if i: "i < w * h" for i
  proof (cases "\<exists>k \<ge> 1. int k \<le> radius \<and> near seed w h k i \<and> (\<forall>j < k. \<not> near seed w h j i)")
    case True
    then obtain k where k: "1 \<le> k" "int k \<le> radius" "near seed w h k i" "\<forall>j < k. \<not> near seed w h j i" by blast
    from upper [OF k(3,2)] have u: "ds ! i \<noteq> 0" "ds ! i \<le> int k + 1" by simp_all
    from lower [OF i u(1)] k(4) have "k \<le> nat (ds ! i - 1)" by (meson not_le)
    with u(2) k(1) have "ds ! i = int k + 1" by linarith
    with k True show ?thesis by (simp add: band_distance_def edge_band_def)
  next
    case False
    have "edge_band radius (ds ! i) = 0"
    proof (rule ccontr)
      assume "edge_band radius (ds ! i) \<noteq> 0"
      then have d: "ds ! i > 1" "ds ! i \<le> radius + 1" by (auto simp: edge_band_def split: if_splits)
      let ?k = "nat (ds ! i - 1)"
      have nk: "near seed w h ?k i" "1 \<le> ?k" "int ?k \<le> radius" using lower [OF i] d by auto
      have "\<not> near seed w h j i" if "j < ?k" for j
      proof
        assume n: "near seed w h j i"
        have "int j < ds ! i - 1" using that by (simp add: zless_nat_eq_int_zless)
        with upper [OF n] d show False by linarith
      qed
      with nk False show False by blast
    qed
    with False show ?thesis by (simp add: band_distance_def)
  qed
  then show ?thesis
    using r(1) w False by (simp add: edgeDistance_def Let_def seed_def [symmetric] edge_band_def)
qed
section \<open>What the key guarantees\<close>

lemma coords: "x < w \<Longrightarrow> (y * w + x) div w = y \<and> (y * w + x) mod w = (x :: nat)"
  by simp

lemma neighbours_iff:
  assumes "i < w * h"
  shows "n \<in> set (neighbours w h i) \<longleftrightarrow> n < w * h
    \<and> (n div w = i div w \<and> (n mod w = i mod w + 1 \<or> n mod w + 1 = i mod w)
       \<or> n mod w = i mod w \<and> (n div w = i div w + 1 \<or> n div w + 1 = i div w))" (is "_ \<longleftrightarrow> _ \<and> ?adj")
proof
  assume n: "n \<in> set (neighbours w h i)"
  let ?x = "int (i mod w)" and ?y = "int (i div w)"
  from n obtain p where p: "p \<in> {(?x - 1, ?y), (?x + 1, ?y), (?x, ?y - 1), (?x, ?y + 1)}"
      "n = (\<lambda>(nx, ny). nat (ny * int w + nx)) p" "(\<lambda>(nx, ny). in_grid w h nx ny) p"
    unfolding neighbours_def Let_def set_map set_filter by auto
  obtain nx ny where xy: "p = (nx, ny)" by (cases p)
  have r: "0 \<le> nx" "0 \<le> ny" "nat nx < w" using p(3) xy by (auto simp: in_grid_def)
  have "n = nat ny * w + nat nx" using p(2) xy r by (simp add: nat_add_distrib nat_mult_distrib)
  then have "n div w = nat ny" "n mod w = nat nx" using r(3) by simp_all
  with p(1) xy r neighbours_bound [OF n] show "n < w * h \<and> ?adj" by auto
next
  assume a: "n < w * h \<and> ?adj"
  let ?x = "int (i mod w)" and ?y = "int (i div w)"
  let ?nx = "int (n mod w)" and ?ny = "int (n div w)"
  have w: "0 < w" using assms by (auto intro: Nat.gr0I)
  have "(?nx, ?ny) \<in> set [(?x - 1, ?y), (?x + 1, ?y), (?x, ?y - 1), (?x, ?y + 1)]" using a by auto
  moreover have "in_grid w h ?nx ?ny" using a mod_less_divisor [OF w, of n] div_less_height [of n w h] by (simp add: in_grid_def not_le)
  moreover have "nat (?ny * int w + ?nx) = n" by (simp flip: of_nat_mult of_nat_add)
  ultimately show "n \<in> set (neighbours w h i)"
    unfolding neighbours_def Let_def set_map set_filter by force
qed

lemma neighbours_sym: "i < w * h \<Longrightarrow> n \<in> set (neighbours w h i) \<Longrightarrow> i \<in> set (neighbours w h n)"
  by (auto simp: neighbours_iff)

lemma touches_coords:
  assumes "touchesBackdrop bd w h x y" "x < w" "y < h"
  shows "\<exists>nx ny. nx < w \<and> ny < h \<and> bd ! (ny * w + nx)
      \<and> (ny = y \<and> (nx = x + 1 \<or> nx + 1 = x) \<or> nx = x \<and> (ny = y + 1 \<or> ny + 1 = y))"
proof -
  from assms(1) consider "0 < x" "bd ! (y * w + x - 1)" | "x < w - 1" "bd ! (y * w + x + 1)"
      | "0 < y" "bd ! (y * w + x - w)" | "y < h - 1" "bd ! (y * w + x + w)"
    by (auto simp: touchesBackdrop_def Let_def)
  then show ?thesis
  proof cases
    case 1
    with assms(2,3) show ?thesis by (intro exI [of _ "x - 1"] exI [of _ y]) simp
  next
    case 2
    with assms(2,3) show ?thesis by (intro exI [of _ "x + 1"] exI [of _ y]) simp
  next
    case 3
    then obtain k where "y = Suc k" using gr0_conv_Suc by blast
    with 3 assms(2,3) show ?thesis by (intro exI [of _ x] exI [of _ k]) simp
  next
    case 4
    then have "bd ! ((y + 1) * w + x)" by (simp add: add.commute add.left_commute)
    with 4 assms(2,3) show ?thesis by (intro exI [of _ x] exI [of _ "y + 1"]) simp
  qed
qed

lemma touches_neighbour:
  assumes i: "i < w * h" and t: "touchesBackdrop bd w h (i mod w) (i div w)"
  shows "\<exists>n \<in> set (neighbours w h i). bd ! n"
proof -
  have "0 < w" using i by (auto intro: Nat.gr0I)
  from touches_coords [OF t mod_less_divisor [OF this] div_less_height [OF i]] obtain nx ny
    where n: "nx < w" "ny < h" "bd ! (ny * w + nx)"
      "ny = i div w \<and> (nx = i mod w + 1 \<or> nx + 1 = i mod w) \<or> nx = i mod w \<and> (ny = i div w + 1 \<or> ny + 1 = i div w)" by blast
  have "ny * w + nx \<in> set (neighbours w h i)"
    unfolding neighbours_iff [OF i] using index_bound [OF n(1,2)] coords [OF n(1), of ny] n(4) by metis
  with n(3) show ?thesis by blast
qed

text \<open>A pixel of the key's colour is removed when it is connected to the border, and kept opaque otherwise.\<close>

lemma matte_of_key_colour:
  assumes "floodBackdrop cls w h = Some bd" "0 < w" "0 < h" "i < w * h"
  shows "(reaches cls w h i \<longrightarrow> matte opts w h bd offs i = 0)
    \<and> (\<not> reaches cls w h i \<and> cls ! i \<noteq> ClsSubject \<longrightarrow> matte opts w h bd offs i = 255)"
proof -
  have m: "\<forall>j < w * h. bd ! j \<longleftrightarrow> reaches cls w h j"
    using floodBackdrop_exact [OF assms(2,3), of cls] assms(1) by auto
  have "\<not> touchesBackdrop bd w h (i mod w) (i div w)" if "\<not> reaches cls w h i" "cls ! i \<noteq> ClsSubject"
  proof
    assume "touchesBackdrop bd w h (i mod w) (i div w)"
    then obtain n where n: "n \<in> set (neighbours w h i)" "bd ! n" using touches_neighbour [OF assms(4)] by blast
    then have "reaches cls w h n" using m neighbours_bound by blast
    from reaches.grow [OF this neighbours_sym [OF assms(4) n(1)] that(2)] that(1) show False by blast
  qed
  with m assms(4) show ?thesis by (simp add: matte_def)
qed

definition key_classes :: "float_math \<Rightarrow> picture \<Rightarrow> chroma_options \<Rightarrow> pixel_class list" where
  "key_classes fm p opts = map (classify_pixel fm opts (fst (key_hue_of fm p opts))) (pixels p)"

lemma compose_alpha: "snd (snd (snd (compose_pixel opts dir a d c))) = a"
  by (simp add: compose_pixel_def Let_def)

text \<open>
  The whole function: it always returns; an image it hands out is separable by the figures of
  its report, and its alpha is exact on the pixels of the key's colour.
\<close>

definition separable :: "chroma_options \<Rightarrow> chroma_report \<Rightarrow> bool" where
  "separable opts r \<longleftrightarrow> cr_border_coverage r \<ge> co_min_border_coverage opts
     \<and> cr_interior_key_fraction r \<le> co_max_interior_key_fraction opts
     \<and> (co_max_subject_near_key_fraction opts > 0 \<longrightarrow> cr_subject_near_key_fraction r \<le> co_max_subject_near_key_fraction opts)
     \<and> (co_max_transparent_fraction opts > 0 \<longrightarrow>
          of_nat (cr_transparent_pixels r) \<le> co_max_transparent_fraction opts * of_nat (cr_total_pixels r))"

definition keyed_image :: "pixel_class list \<Rightarrow> nat \<Rightarrow> nat \<Rightarrow> color4 list \<Rightarrow> bool" where
  "keyed_image cls w h px \<longleftrightarrow> length px = w * h
     \<and> (\<forall>i < w * h. (reaches cls w h i \<longrightarrow> snd (snd (snd (px ! i))) = 0)
          \<and> (\<not> reaches cls w h i \<and> cls ! i \<noteq> ClsSubject \<longrightarrow> snd (snd (snd (px ! i))) = 255))"

lemma chromaKey_exact:
  "\<exists>res rep. chromaKey fm p opts = Some (res, rep)
     \<and> (\<forall>px. res = Inr px \<longrightarrow> separable opts rep \<and> keyed_image (key_classes fm p opts) (pc_w p) (pc_h p) px)"
proof (cases "pc_w p = 0 \<or> pc_h p = 0 \<or> co_weak_hue_tolerance opts < co_hue_tolerance opts")
  case True
  then show ?thesis by (auto simp: chromaKey_def Let_def)
next
  case False
  let ?w = "pc_w p" and ?h = "pc_h p"
  obtain key drift where k: "key_hue_of fm p opts = (key, drift)" by (metis surj_pair)
  let ?cls = "map (classify_pixel fm opts key) (pixels p)" and ?offs = "map (pixel_hue_diff fm key) (pixels p)"
  have cls: "?cls = key_classes fm p opts" by (simp add: key_classes_def k)
  have pos: "0 < ?w" "0 < ?h" using False by auto
  from floodBackdrop_exact [OF pos, of ?cls] obtain bd where bd: "floodBackdrop ?cls ?w ?h = Some bd" "length bd = ?w * ?h" by blast
  let ?alpha = "map (matte opts ?w ?h bd ?offs) [0..<?w * ?h]"
  obtain ds where ds: "edgeDistance ?alpha bd ?w ?h (co_edge_despill_radius opts) = Some ds"
    using edgeDistance_exact [of ?alpha ?w ?h bd] bd(2) by fastforce
  let ?rep = "chroma_figures opts ?w ?h ?cls bd ?offs ?alpha drift"
  let ?px = "map (\<lambda>i. compose_pixel opts (normalizeChroma fm (fm_cos fm key) (fm_sin fm key)) (?alpha ! i) (ds ! i) (pixels p ! i)) [0..<?w * ?h]"
  have img: "keyed_image ?cls ?w ?h ?px"
    unfolding keyed_image_def using matte_of_key_colour [OF bd(1) pos] by (simp add: compose_alpha)
  have ratio: "ratio a n \<le> m \<Longrightarrow> of_nat a \<le> m * of_nat n" if "0 < n" for a n m
    using that by (simp add: ratio_def divide_le_eq)
  have n: "0 < ?w * ?h" using pos by simp
  have tot: "cr_total_pixels ?rep = ?w * ?h" by (simp add: chroma_figures_def Let_def)
  show ?thesis
    unfolding cls [symmetric] using False k bd(1) ds img ratio [OF n] n tot
    by (auto simp: chromaKey_def Let_def separable_def not_less)
qed

text \<open>So does the correction of a matte that another tool cut.\<close>

lemma despillMatte_total: "\<exists>res. despillMatte fm p opts = Some res"
proof (cases "pc_w p = 0 \<or> pc_h p = 0")
  case False
  let ?w = "pc_w p" and ?h = "pc_h p"
  let ?a = "map (\<lambda>i. snd (snd (snd (pc_at p (i mod ?w) (i div ?w)))) div 256) [0..<?w * ?h]"
  from edgeDistance_exact [of ?a ?w ?h "map (\<lambda>a. a = 0) ?a" "co_edge_despill_radius opts"]
  obtain ds where "edgeDistance ?a (map (\<lambda>a. a = 0) ?a) ?w ?h (co_edge_despill_radius opts) = Some ds" by auto
  with False show ?thesis by (auto simp: despillMatte_def Let_def)
qed (auto simp: despillMatte_def)

end
