(* ===== verification/Webhooks.thy ===== *)
theory Webhooks
  imports Assets Front_Door
begin

text \<open>
  Outbound webhooks, \<open>internal/webhooks\<close> with the statements of \<open>internal/db/queries/webhooks.sql\<close>
  and \<open>internal/http/handlers/webhooks_handler.go\<close>: one endpoint per tenant, an event recorded as a
  pending delivery, and delivery attempts that sign the stored bytes and record their outcome. The
  two tables are their own state, \<open>hooks\<close>. HMAC-SHA256, the JSON encoder, the round trip of a text
  through a \<open>jsonb\<close> column, the queue client, \<open>url.Parse\<close> and the remote server are parameters.
\<close>

section \<open>Rows and statements\<close>

record endpoint =
  wh_id :: string
  wh_tenant_id :: string
  wh_url :: string
  wh_secret :: string
  wh_is_active :: bool

datatype delivery_status = Dl_pending | Dl_delivered | Dl_failed

record delivery =
  dl_id :: string
  dl_tenant_id :: string
  dl_endpoint_id :: string
  dl_event_type :: string
  dl_job_id :: "string option"
  dl_payload :: string
  dl_status :: delivery_status
  dl_attempt_count :: int
  dl_last_http_status :: "int option"
  dl_last_error :: "string option"

record hooks =
  hk_endpoints :: "endpoint list"
  hk_deliveries :: "delivery list"

definition no_hooks :: hooks where
  "no_hooks = \<lparr>hk_endpoints = [], hk_deliveries = []\<rparr>"

definition getActiveEndpointByTenant :: "hooks \<Rightarrow> string \<Rightarrow> error + endpoint" where
  "getActiveEndpointByTenant h ten =
     (case find (\<lambda>e. wh_tenant_id e = ten \<and> wh_is_active e) (hk_endpoints h) of
        None \<Rightarrow> Inl ErrNotFound | Some e \<Rightarrow> Inr e)"

definition getEndpointByID :: "hooks \<Rightarrow> string \<Rightarrow> error + endpoint" where
  "getEndpointByID h i =
     (case find (\<lambda>e. wh_id e = i) (hk_endpoints h) of None \<Rightarrow> Inl ErrNotFound | Some e \<Rightarrow> Inr e)"

text \<open>The partial unique index allows one active endpoint per tenant.\<close>

definition insertEndpoint :: "hooks \<Rightarrow> string \<Rightarrow> string \<Rightarrow> string \<Rightarrow> string \<Rightarrow> error + endpoint \<times> hooks" where
  "insertEndpoint h i ten url secret =
     (let e = \<lparr>wh_id = i, wh_tenant_id = ten, wh_url = url, wh_secret = secret, wh_is_active = True\<rparr>
      in if \<exists>x \<in> set (hk_endpoints h). wh_tenant_id x = ten \<and> wh_is_active x then Inl unique_violation
         else (case insert_row wh_id e (hk_endpoints h) of
                 Inl err \<Rightarrow> Inl err
               | Inr es \<Rightarrow> Inr (e, h\<lparr>hk_endpoints := es\<rparr>)))"

definition updateEndpointURL :: "hooks \<Rightarrow> string \<Rightarrow> string \<Rightarrow> string \<Rightarrow> error + endpoint \<times> hooks" where
  "updateEndpointURL h i ten url =
     (case updating_one (\<lambda>e. wh_id e = i \<and> wh_tenant_id e = ten \<and> wh_is_active e) (\<lambda>e. e\<lparr>wh_url := url\<rparr>)
             (hk_endpoints h) of
        None \<Rightarrow> Inl ErrNotFound
      | Some (e, es) \<Rightarrow> Inr (e, h\<lparr>hk_endpoints := es\<rparr>))"

definition event_types :: "string list" where
  "event_types = [''generation_job.preview_ready'', ''generation_job.completed'', ''generation_job.failed'']"

text \<open>\<open>stored\<close> is the text a \<open>jsonb\<close> column gives back for the text written to it.\<close>

definition insertDelivery ::
    "(string \<Rightarrow> string) \<Rightarrow> hooks \<Rightarrow> string \<Rightarrow> string \<Rightarrow> string \<Rightarrow> string \<Rightarrow> string option \<Rightarrow> string \<Rightarrow> error + delivery \<times> hooks" where
  "insertDelivery stored h i ten eid ev job body =
     (let d = \<lparr>dl_id = i, dl_tenant_id = ten, dl_endpoint_id = eid, dl_event_type = ev, dl_job_id = job,
            dl_payload = stored body, dl_status = Dl_pending, dl_attempt_count = 0, dl_last_http_status = None,
            dl_last_error = None\<rparr>
      in if ev \<notin> set event_types then Inl (ErrOther ''check_violation'')
         else (case insert_row dl_id d (hk_deliveries h) of
                 Inl err \<Rightarrow> Inl err
               | Inr ds \<Rightarrow> Inr (d, h\<lparr>hk_deliveries := ds\<rparr>)))"

definition getDeliveryByID :: "hooks \<Rightarrow> string \<Rightarrow> error + delivery" where
  "getDeliveryByID h i =
     (case find (\<lambda>d. dl_id d = i) (hk_deliveries h) of None \<Rightarrow> Inl ErrNotFound | Some d \<Rightarrow> Inr d)"

text \<open>An attempt without a response records no HTTP status, and an empty error text is null.\<close>

definition markDeliveryResult :: "hooks \<Rightarrow> string \<Rightarrow> delivery_status \<Rightarrow> int \<Rightarrow> string \<Rightarrow> hooks" where
  "markDeliveryResult h i st http err =
     h\<lparr>hk_deliveries := update_where (\<lambda>d. dl_id d = i)
         (\<lambda>d. d\<lparr>dl_status := st, dl_attempt_count := dl_attempt_count d + 1,
                dl_last_http_status := (if http \<noteq> 0 then Some (int32 http) else None), dl_last_error := strPtr err\<rparr>)
         (hk_deliveries h)\<rparr>"

section \<open>The endpoint of a tenant\<close>

text \<open>
  \<open>UpsertEndpoint\<close> reads in one transaction, \<open>h0\<close>, and writes in the next, \<open>h\<close>. \<open>secret\<close> is what the random
  source gives: \<open>None\<close> when it fails.
\<close>

definition generateSecret :: "string option \<Rightarrow> error + string" where
  "generateSecret hex = (case hex of None \<Rightarrow> Inl (ErrOther ''rand'') | Some s \<Rightarrow> Inr (''whsec_'' @ s))"

definition upsertEndpoint ::
    "hooks \<Rightarrow> hooks \<Rightarrow> string option \<Rightarrow> string \<Rightarrow> string \<Rightarrow> string \<Rightarrow> error + endpoint \<times> hooks" where
  "upsertEndpoint h0 h hex i ten url =
     (case getActiveEndpointByTenant h0 ten of
        Inr e \<Rightarrow> updateEndpointURL h (wh_id e) ten url
      | Inl err \<Rightarrow>
          if err = ErrNotFound
          then (case generateSecret hex of Inl e \<Rightarrow> Inl e | Inr s \<Rightarrow> insertEndpoint h i ten url s)
          else Inl err)"

text \<open>\<open>parse\<close> is \<open>url.Parse\<close>, giving scheme and host.\<close>

definition validWebhookURL :: "(string \<Rightarrow> (string \<times> string) option) \<Rightarrow> string \<Rightarrow> bool" where
  "validWebhookURL parse s \<longleftrightarrow>
     s \<noteq> '''' \<and> (case parse s of
        None \<Rightarrow> False
      | Some (scheme, host) \<Rightarrow> (scheme = ''http'' \<or> scheme = ''https'') \<and> host \<noteq> '''')"

definition putWebhookEndpoint ::
    "(string \<Rightarrow> (string \<times> string) option) \<Rightarrow> hooks \<Rightarrow> hooks \<Rightarrow> principal option \<Rightarrow> string option \<Rightarrow> string \<Rightarrow> string
     \<Rightarrow> endpoint reply \<times> hooks" where
  "putWebhookEndpoint parse h0 h po hex i url =
     (case po of
        None \<Rightarrow> (Problem 500 ''internal_error'', h)
      | Some p \<Rightarrow>
          if \<not> validWebhookURL parse url then (Problem 422 ''invalid_request'', h)
          else (case upsertEndpoint h0 h hex i (pn_tenant_id p) url of
                  Inl _ \<Rightarrow> (Problem 500 ''internal_error'', h)
                | Inr (e, h') \<Rightarrow> (Reply e, h')))"

text \<open>The answer of the read carries identifier, URL and activity, never the secret.\<close>

definition getWebhookEndpoint :: "hooks \<Rightarrow> principal option \<Rightarrow> (string \<times> string \<times> bool) reply" where
  "getWebhookEndpoint h po =
     (case po of
        None \<Rightarrow> Problem 500 ''internal_error''
      | Some p \<Rightarrow>
          (case getActiveEndpointByTenant h (pn_tenant_id p) of
             Inl e \<Rightarrow> if e = ErrNotFound then Problem 404 ''not_found'' else Problem 500 ''internal_error''
           | Inr e \<Rightarrow> Reply (wh_id e, wh_url e, wh_is_active e)))"

section \<open>Emitting\<close>

record emit_input =
  em_tenant_id :: string
  em_event_type :: string
  em_job_id :: string
  em_data :: payload

text \<open>
  \<open>enq\<close> is the queue client, \<open>None\<close> when the process has none; \<open>encode\<close> is \<open>json.Marshal\<close> of the event
  with its time. The endpoint is read in \<open>h0\<close> and the delivery written in \<open>h\<close>. The result carries the
  identifier of an enqueued task.
\<close>

definition emitEvent ::
    "(string \<Rightarrow> error option) option \<Rightarrow> (emit_input \<Rightarrow> error + string) \<Rightarrow> (string \<Rightarrow> string) \<Rightarrow> hooks \<Rightarrow> hooks \<Rightarrow> string
     \<Rightarrow> emit_input \<Rightarrow> error option \<times> string option \<times> hooks" where
  "emitEvent enq encode stored h0 h i inp =
     (case enq of
        None \<Rightarrow> (None, None, h)
      | Some enqueue \<Rightarrow>
          (case getActiveEndpointByTenant h0 (em_tenant_id inp) of
             Inl e \<Rightarrow> ((if e = ErrNotFound then None else Some e), None, h)
           | Inr ep \<Rightarrow>
               (case encode inp of
                  Inl e \<Rightarrow> (Some e, None, h)
                | Inr body \<Rightarrow>
                    (case insertDelivery stored h i (em_tenant_id inp) (wh_id ep) (em_event_type inp)
                            (strPtr (em_job_id inp)) body of
                       Inl e \<Rightarrow> (Some e, None, h)
                     | Inr (d, h') \<Rightarrow>
                         (case enqueue (dl_id d) of
                            Some e \<Rightarrow> (Some e, None, h')
                          | None \<Rightarrow> (None, Some (dl_id d), h'))))))"

section \<open>Delivering\<close>

definition Sign :: "(string \<Rightarrow> string \<Rightarrow> string) \<Rightarrow> string \<Rightarrow> string \<Rightarrow> string" where
  "Sign hmac secret body = ''sha256='' @ hmac secret body"

record post_request =
  po_url :: string
  po_event :: string
  po_signature :: string
  po_body :: string

datatype post_result =
    BadRequest string
  | NoResponse string
  | Response int

text \<open>
  One delivery attempt. \<open>rd i\<close> is the state at its \<open>i\<close>-th transaction; \<open>server\<close> answers a request, or
  there is none because the URL is malformed or the transport fails. The result is the error asynq
  retries on, the requests sent, and the state after it.
\<close>

definition recordFailure :: "hooks \<Rightarrow> string \<Rightarrow> int \<Rightarrow> string \<Rightarrow> error option \<times> hooks" where
  "recordFailure h i http cause = (Some (ErrOther cause), markDeliveryResult h i Dl_failed http cause)"

definition handleDelivery ::
    "(string \<Rightarrow> string \<Rightarrow> string) \<Rightarrow> (post_request \<Rightarrow> post_result) \<Rightarrow> (nat \<Rightarrow> hooks) \<Rightarrow> string
     \<Rightarrow> error option \<times> post_request list \<times> hooks" where
  "handleDelivery hmac server rd i =
     (case getDeliveryByID (rd 0) i of
        Inl e \<Rightarrow> (Some e, [], rd 1)
      | Inr d \<Rightarrow>
          (case getEndpointByID (rd 1) (dl_endpoint_id d) of
             Inl e \<Rightarrow> (Some e, [], rd 2)
           | Inr ep \<Rightarrow>
               let req = \<lparr>po_url = wh_url ep, po_event = dl_event_type d,
                      po_signature = Sign hmac (wh_secret ep) (dl_payload d), po_body = dl_payload d\<rparr>
               in (case server req of
                     BadRequest e \<Rightarrow> (case recordFailure (rd 2) i 0 e of (r, h) \<Rightarrow> (r, [], h))
                   | NoResponse e \<Rightarrow> (case recordFailure (rd 2) i 0 e of (r, h) \<Rightarrow> (r, [req], h))
                   | Response st \<Rightarrow>
                       if 200 \<le> st \<and> st < 300 then (None, [req], markDeliveryResult (rd 2) i Dl_delivered st '''')
                       else (case recordFailure (rd 2) i st ''non-2xx response'' of (r, h) \<Rightarrow> (r, [req], h)))))"

section \<open>What transactions keep\<close>

text \<open>
  One step per transaction of the API and the worker. An emission inserts for an endpoint that exists
  for the tenant; rows are never deleted.
\<close>

inductive hook_step :: "hooks \<Rightarrow> hooks \<Rightarrow> bool" where
  configured: "insertEndpoint h i ten url secret = Inr (e, h') \<Longrightarrow> hook_step h h'"
| redirected: "updateEndpointURL h i ten url = Inr (e, h') \<Longrightarrow> hook_step h h'"
| recorded: "insertDelivery stored h i ten (wh_id e) ev job body = Inr (d, h') \<Longrightarrow> e \<in> set (hk_endpoints h)
    \<Longrightarrow> wh_tenant_id e = ten \<Longrightarrow> hook_step h h'"
| attempted: "hook_step h (markDeliveryResult h i st http err)"

definition hooks_inv :: "hooks \<Rightarrow> bool" where
  "hooks_inv h \<longleftrightarrow> keyed wh_id (hk_endpoints h) \<and> keyed dl_id (hk_deliveries h)
     \<and> (\<forall>e \<in> set (hk_endpoints h). \<forall>e' \<in> set (hk_endpoints h).
          wh_is_active e \<and> wh_is_active e' \<and> wh_tenant_id e = wh_tenant_id e' \<longrightarrow> e = e')
     \<and> (\<forall>d \<in> set (hk_deliveries h). \<exists>e \<in> set (hk_endpoints h).
          wh_id e = dl_endpoint_id d \<and> wh_tenant_id e = dl_tenant_id d)"

text \<open>What a later state still has of an earlier one: only the URL and the outcomes may differ.\<close>

definition endpoint_kept :: "endpoint \<Rightarrow> endpoint \<Rightarrow> bool" where
  "endpoint_kept e e' \<longleftrightarrow> wh_id e' = wh_id e \<and> wh_tenant_id e' = wh_tenant_id e \<and> wh_secret e' = wh_secret e
     \<and> wh_is_active e' = wh_is_active e"

definition delivery_kept :: "delivery \<Rightarrow> delivery \<Rightarrow> bool" where
  "delivery_kept d d' \<longleftrightarrow> dl_id d' = dl_id d \<and> dl_tenant_id d' = dl_tenant_id d \<and> dl_endpoint_id d' = dl_endpoint_id d
     \<and> dl_event_type d' = dl_event_type d \<and> dl_job_id d' = dl_job_id d \<and> dl_payload d' = dl_payload d
     \<and> dl_attempt_count d \<le> dl_attempt_count d'"

definition all_kept :: "('a \<Rightarrow> 'a \<Rightarrow> bool) \<Rightarrow> 'a list \<Rightarrow> 'a list \<Rightarrow> bool" where
  "all_kept R xs ys \<longleftrightarrow> (\<forall>x \<in> set xs. \<exists>y \<in> set ys. R x y)"

definition hooks_extend :: "hooks \<Rightarrow> hooks \<Rightarrow> bool" where
  "hooks_extend h h' \<longleftrightarrow> all_kept endpoint_kept (hk_endpoints h) (hk_endpoints h')
     \<and> all_kept delivery_kept (hk_deliveries h) (hk_deliveries h')"

lemma all_kept_refl: "(\<And>x. R x x) \<Longrightarrow> all_kept R xs xs"
  by (auto simp: all_kept_def)

lemma all_kept_append: "(\<And>x. R x x) \<Longrightarrow> all_kept R xs (xs @ ys)"
  by (fastforce simp: all_kept_def)

lemma all_kept_update: "(\<And>x. R x x) \<Longrightarrow> (\<And>x. P x \<Longrightarrow> R x (f x)) \<Longrightarrow> all_kept R xs (update_where P f xs)"
  unfolding all_kept_def set_update_where by (intro ballI rev_bexI [OF imageI]) auto

lemma all_kept_trans:
  assumes "transp R" "all_kept R xs ys" "all_kept R ys zs"
  shows "all_kept R xs zs"
  unfolding all_kept_def
proof
  fix x assume "x \<in> set xs"
  with assms(2) obtain y where y: "y \<in> set ys" "R x y" by (auto simp: all_kept_def)
  with assms(3) obtain z where "z \<in> set zs" "R y z" by (auto simp: all_kept_def)
  with y(2) assms(1) show "\<exists>z \<in> set zs. R x z" by (blast dest: transpD)
qed

lemma endpoint_kept_refl [simp]: "endpoint_kept e e"
  by (simp add: endpoint_kept_def)

lemma delivery_kept_refl [simp]: "delivery_kept d d"
  by (simp add: delivery_kept_def)

lemma row_kept_trans:
  "transp endpoint_kept" "transp delivery_kept"
  by (rule transpI; simp add: endpoint_kept_def delivery_kept_def)+

lemma hooks_extend_trans: "hooks_extend h h1 \<Longrightarrow> hooks_extend h1 h2 \<Longrightarrow> hooks_extend h h2"
  unfolding hooks_extend_def by (elim conjE, intro conjI; erule (1) all_kept_trans [OF row_kept_trans(1)] all_kept_trans [OF row_kept_trans(2)])

lemma hooks_extend_refl [simp]: "hooks_extend h h"
  by (simp add: hooks_extend_def all_kept_refl)

lemma insertEndpoint_InrD:
  assumes "insertEndpoint h i ten url secret = Inr (e, h')"
  shows "h' = h\<lparr>hk_endpoints := hk_endpoints h @ [e]\<rparr>" "i \<notin> wh_id ` set (hk_endpoints h)"
    "\<forall>x \<in> set (hk_endpoints h). wh_is_active x \<longrightarrow> wh_tenant_id x \<noteq> ten"
    "wh_id e = i" "wh_tenant_id e = ten" "wh_is_active e" "wh_secret e = secret" "wh_url e = url"
  using assms by (auto simp: insertEndpoint_def Let_def split: if_splits sum.splits)

lemma updateEndpointURL_InrD:
  assumes "updateEndpointURL h i ten url = Inr (e, h')" "keyed wh_id (hk_endpoints h)"
  obtains e0 where "e0 \<in> set (hk_endpoints h)" "wh_id e0 = i" "wh_tenant_id e0 = ten" "wh_is_active e0" "e = e0\<lparr>wh_url := url\<rparr>"
    "h' = h\<lparr>hk_endpoints := update_where (\<lambda>x. wh_id x = i \<and> wh_tenant_id x = ten \<and> wh_is_active x)
        (\<lambda>x. x\<lparr>wh_url := url\<rparr>) (hk_endpoints h)\<rparr>"
  using assms that
  by (auto simp: updateEndpointURL_def dest!: updating_one_SomeD split: option.splits)

lemma insertDelivery_InrD:
  assumes "insertDelivery stored h i ten eid ev job body = Inr (d, h')"
  shows "h' = h\<lparr>hk_deliveries := hk_deliveries h @ [d]\<rparr>" "i \<notin> dl_id ` set (hk_deliveries h)"
    "dl_id d = i" "dl_tenant_id d = ten" "dl_endpoint_id d = eid" "dl_event_type d = ev" "dl_payload d = stored body"
    "dl_status d = Dl_pending" "dl_attempt_count d = 0"
  using assms by (auto simp: insertDelivery_def Let_def split: if_splits sum.splits)

lemma hook_step_extend:
  assumes "hook_step h h'"
  shows "hooks_extend h h'"
  using assms
proof cases
  case (configured i ten url secret e)
  from insertEndpoint_InrD(1) [OF this] show ?thesis by (simp add: hooks_extend_def all_kept_append all_kept_refl)
next
  case (redirected i ten url e)
  then obtain es where "h' = h\<lparr>hk_endpoints := es\<rparr>"
    "es = update_where (\<lambda>x. wh_id x = i \<and> wh_tenant_id x = ten \<and> wh_is_active x) (\<lambda>x. x\<lparr>wh_url := url\<rparr>) (hk_endpoints h)"
    by (auto simp: updateEndpointURL_def dest!: updating_one_SomeD split: option.splits)
  then show ?thesis by (simp add: hooks_extend_def all_kept_refl all_kept_update endpoint_kept_def)
next
  case (recorded stored i ten e ev job body d)
  from insertDelivery_InrD(1) [OF this(1)] show ?thesis by (simp add: hooks_extend_def all_kept_append all_kept_refl)
next
  case attempted
  then show ?thesis by (simp add: hooks_extend_def markDeliveryResult_def all_kept_refl all_kept_update delivery_kept_def)
qed

lemma hook_steps_extend: "hook_step\<^sup>*\<^sup>* h h' \<Longrightarrow> hooks_extend h h'"
  by (induction rule: rtranclp_induct) (auto intro: hooks_extend_trans hook_step_extend)

lemma hook_step_inv:
  assumes "hook_step h h'" "hooks_inv h"
  shows "hooks_inv h'"
  using assms(1)
proof cases
  case (configured i ten url secret e)
  note e = insertEndpoint_InrD [OF this]
  show ?thesis using assms(2) e(2-6) unfolding e(1) hooks_inv_def by (auto simp: keyed_snoc)
next
  case (redirected i ten url e)
  have k: "keyed wh_id (hk_endpoints h)" using assms(2) by (simp add: hooks_inv_def)
  let ?P = "\<lambda>x. wh_id x = i \<and> wh_tenant_id x = ten \<and> wh_is_active x" and ?f = "\<lambda>x. x\<lparr>wh_url := url\<rparr>"
  from redirected k obtain e0 where h': "h' = h\<lparr>hk_endpoints := update_where ?P ?f (hk_endpoints h)\<rparr>"
    by (rule updateEndpointURL_InrD)
  have one: "x = y" if xy: "x \<in> set (update_where ?P ?f (hk_endpoints h))" "y \<in> set (update_where ?P ?f (hk_endpoints h))"
    "wh_is_active x" "wh_is_active y" "wh_tenant_id x = wh_tenant_id y" for x y
  proof -
    from xy(1) obtain x0 where x0: "x0 \<in> set (hk_endpoints h)" "x = (if ?P x0 then ?f x0 else x0)"
      unfolding set_update_where by (rule imageE)
    from xy(2) obtain y0 where y0: "y0 \<in> set (hk_endpoints h)" "y = (if ?P y0 then ?f y0 else y0)"
      unfolding set_update_where by (rule imageE)
    have "wh_is_active x = wh_is_active x0" "wh_tenant_id x = wh_tenant_id x0" by (simp_all add: x0(2))
    moreover have "wh_is_active y = wh_is_active y0" "wh_tenant_id y = wh_tenant_id y0" by (simp_all add: y0(2))
    ultimately have "wh_is_active x0" "wh_is_active y0" "wh_tenant_id x0 = wh_tenant_id y0" using xy(3-5) by simp_all
    with x0(1) y0(1) assms(2) have "x0 = y0" unfolding hooks_inv_def by blast
    with x0 y0 show ?thesis by simp
  qed
  moreover have "\<exists>e \<in> set (update_where ?P ?f (hk_endpoints h)). wh_id e = dl_endpoint_id d \<and> wh_tenant_id e = dl_tenant_id d"
    if "d \<in> set (hk_deliveries h)" for d
  proof -
    from assms(2) that obtain e where e: "e \<in> set (hk_endpoints h)" "wh_id e = dl_endpoint_id d" "wh_tenant_id e = dl_tenant_id d"
      by (auto simp: hooks_inv_def)
    have "all_kept endpoint_kept (hk_endpoints h) (update_where ?P ?f (hk_endpoints h))"
      by (rule all_kept_update) (simp_all add: endpoint_kept_def)
    with e show ?thesis by (fastforce simp: all_kept_def endpoint_kept_def)
  qed
  ultimately show ?thesis using assms(2) k by (auto simp: hooks_inv_def h' keyed_update_where)
next
  case (recorded stored i ten e ev job body d)
  note d = insertDelivery_InrD [OF recorded(1)]
  show ?thesis using assms(2) d(2-5) recorded(2,3) unfolding d(1) hooks_inv_def by (auto simp: keyed_snoc)
next
  case attempted
  then show ?thesis using assms(2)
    by (auto simp: hooks_inv_def markDeliveryResult_def keyed_update_where elim!: update_where_memE)
qed

section \<open>What the operations do\<close>

definition hooks_reachable :: "hooks \<Rightarrow> bool" where
  "hooks_reachable h \<longleftrightarrow> hook_step\<^sup>*\<^sup>* no_hooks h"

lemma no_hooks_inv: "hooks_inv no_hooks"
  by (simp add: no_hooks_def hooks_inv_def)

lemma hooks_reachable_inv: "hooks_reachable h \<Longrightarrow> hooks_inv h"
  unfolding hooks_reachable_def by (induction rule: rtranclp_induct) (auto intro: hook_step_inv no_hooks_inv)

lemma hooks_reachable_steps: "hooks_reachable h \<Longrightarrow> hook_step\<^sup>*\<^sup>* h h' \<Longrightarrow> hooks_reachable h'"
  unfolding hooks_reachable_def by (rule rtranclp_trans)

lemma found_endpoint:
  "getActiveEndpointByTenant h ten = Inr e \<Longrightarrow> e \<in> set (hk_endpoints h) \<and> wh_tenant_id e = ten \<and> wh_is_active e"
  "getEndpointByID h i = Inr e \<Longrightarrow> e \<in> set (hk_endpoints h) \<and> wh_id e = i"
  by (auto simp: getActiveEndpointByTenant_def getEndpointByID_def dest!: find_SomeD split: option.splits)

lemma found_delivery: "getDeliveryByID h i = Inr d \<Longrightarrow> d \<in> set (hk_deliveries h) \<and> dl_id d = i"
  by (auto simp: getDeliveryByID_def dest!: find_SomeD split: option.splits)

lemma upsertEndpoint_step: "upsertEndpoint h0 h hex i ten url = Inr (e, h') \<Longrightarrow> hook_step h h'"
  by (auto simp: upsertEndpoint_def intro: hook_step.configured hook_step.redirected split: sum.splits if_splits)

lemma putWebhookEndpoint_step: "putWebhookEndpoint parse h0 h po hex i url = (r, h') \<Longrightarrow> h' = h \<or> hook_step h h'"
  by (auto simp: putWebhookEndpoint_def split: option.splits if_splits sum.splits dest: upsertEndpoint_step)

lemma emitEvent_step:
  assumes "emitEvent enq encode stored h0 h i inp = (r, t, h')" "hook_step\<^sup>*\<^sup>* h0 h"
  shows "h' = h \<or> hook_step h h'"
proof (rule disjCI)
  assume "\<not> hook_step h h'"
  show "h' = h"
  proof (rule ccontr)
    assume "h' \<noteq> h"
    with assms(1) obtain ep body d where e: "getActiveEndpointByTenant h0 (em_tenant_id inp) = Inr ep"
      and ins: "insertDelivery stored h i (em_tenant_id inp) (wh_id ep) (em_event_type inp) (strPtr (em_job_id inp)) body = Inr (d, h')"
      by (auto simp: emitEvent_def split: option.splits sum.splits if_splits)
    from hook_steps_extend [OF assms(2)] found_endpoint(1) [OF e] obtain ep'
      where "ep' \<in> set (hk_endpoints h)" "endpoint_kept ep ep'" by (auto simp: hooks_extend_def all_kept_def)
    with ins found_endpoint(1) [OF e] have "hook_step h h'"
      by (intro hook_step.recorded [of stored h i "em_tenant_id inp" ep']) (auto simp: endpoint_kept_def)
    with \<open>\<not> hook_step h h'\<close> show False ..
  qed
qed

text \<open>The request a delivery is sent as is a function of the rows, wherever it is sent from.\<close>

lemma handleDelivery_cases:
  assumes "handleDelivery hmac server rd i = (r, ps, h')"
  obtains (unsent) "ps = []" "r \<noteq> None" "h' = rd 1 \<or> h' = rd 2 \<or> (\<exists>e. h' = markDeliveryResult (rd 2) i Dl_failed 0 e)"
  | (sent) d ep req where "ps = [req]" "getDeliveryByID (rd 0) i = Inr d" "getEndpointByID (rd 1) (dl_endpoint_id d) = Inr ep"
      "req = \<lparr>po_url = wh_url ep, po_event = dl_event_type d, po_signature = Sign hmac (wh_secret ep) (dl_payload d), po_body = dl_payload d\<rparr>"
      "\<exists>http err. h' = markDeliveryResult (rd 2) i (if r = None then Dl_delivered else Dl_failed) http err"
      "r = None \<longleftrightarrow> (\<exists>st. server req = Response st \<and> 200 \<le> st \<and> st < 300)"
proof (cases "getDeliveryByID (rd 0) i")
  case (Inl e)
  with assms show thesis by (intro unsent) (auto simp: handleDelivery_def)
next
  case d: (Inr d)
  show thesis
  proof (cases "getEndpointByID (rd 1) (dl_endpoint_id d)")
    case (Inl e)
    with assms d show thesis by (intro unsent) (auto simp: handleDelivery_def)
  next
    case ep: (Inr ep)
    define req where "req = \<lparr>po_url = wh_url ep, po_event = dl_event_type d,
       po_signature = Sign hmac (wh_secret ep) (dl_payload d), po_body = dl_payload d\<rparr>"
    note h = assms [unfolded handleDelivery_def d ep sum.case Let_def, folded req_def]
    show thesis
    proof (cases "server req")
      case (BadRequest e)
      with h show thesis by (intro unsent) (auto simp: recordFailure_def)
    next
      case (NoResponse e)
      with h show thesis by (intro sent [OF _ d ep req_def]) (auto simp: recordFailure_def)
    next
      case (Response st)
      with h show thesis
        by (intro sent [OF _ d ep req_def]) (auto simp: recordFailure_def split: if_splits)
    qed
  qed
qed

lemma handleDelivery_step:
  assumes "handleDelivery hmac server rd i = (r, ps, h')"
  shows "h' = rd 1 \<or> h' = rd 2 \<or> hook_step (rd 2) h'"
  using assms by (cases rule: handleDelivery_cases) (auto intro: hook_step.attempted)

lemma delivered_to:
  assumes "hooks_reachable h0" "hook_step\<^sup>*\<^sup>* h0 h1" "getDeliveryByID h0 i = Inr d" "getEndpointByID h1 (dl_endpoint_id d) = Inr ep"
  obtains e where "e \<in> set (hk_endpoints h0)" "wh_id e = dl_endpoint_id d" "wh_tenant_id e = dl_tenant_id d" "endpoint_kept e ep"
proof -
  note d = found_delivery [OF assms(3)] and ep = found_endpoint(2) [OF assms(4)]
  from hooks_reachable_inv [OF assms(1)] d obtain e where e: "e \<in> set (hk_endpoints h0)" "wh_id e = dl_endpoint_id d"
      "wh_tenant_id e = dl_tenant_id d"
    unfolding hooks_inv_def by blast
  from hook_steps_extend [OF assms(2)] e(1) obtain e1 where e1: "e1 \<in> set (hk_endpoints h1)" "endpoint_kept e e1"
    by (auto simp: hooks_extend_def all_kept_def)
  have "keyed wh_id (hk_endpoints h1)"
    using hooks_reachable_inv [OF hooks_reachable_steps [OF assms(1,2)]] by (simp add: hooks_inv_def)
  from keyed_unique [OF this e1(1), of ep] ep e1(2) e(2) have "e1 = ep" by (simp add: endpoint_kept_def)
  with that e e1 show thesis by blast
qed

lemma delivery_again:
  assumes "hooks_reachable h0" "hook_step\<^sup>*\<^sup>* h0 k0" "getDeliveryByID h0 i = Inr d" "getDeliveryByID k0 i = Inr d'"
  shows "delivery_kept d d'"
proof -
  note d = found_delivery [OF assms(3)] and d' = found_delivery [OF assms(4)]
  from hook_steps_extend [OF assms(2)] d obtain x where x: "x \<in> set (hk_deliveries k0)" "delivery_kept d x"
    by (auto simp: hooks_extend_def all_kept_def)
  have "keyed dl_id (hk_deliveries k0)"
    using hooks_reachable_inv [OF hooks_reachable_steps [OF assms(1,2)]] by (simp add: hooks_inv_def)
  from keyed_unique [OF this x(1), of d'] d d' x(2) have "x = d'" by (simp add: delivery_kept_def)
  with x(2) show ?thesis by simp
qed

text \<open>
  Every attempt at a delivery, whenever it runs and whatever was configured since, sends the same
  bytes under the same signature; only the URL may have moved.
\<close>

lemma posts_agree:
  assumes "hooks_reachable (rd 0)" "hook_step\<^sup>*\<^sup>* (rd 0) (rd 1)" "handleDelivery hmac server rd i = (r, ps, h)" "p \<in> set ps"
    and "hook_step\<^sup>*\<^sup>* (rd 0) (rd' 0)" "hook_step\<^sup>*\<^sup>* (rd' 0) (rd' 1)" "handleDelivery hmac server' rd' i = (r', ps', h')" "p' \<in> set ps'"
  shows "po_body p' = po_body p" "po_signature p' = po_signature p" "po_event p' = po_event p"
proof -
  from assms(3,4) obtain d ep where d: "getDeliveryByID (rd 0) i = Inr d" "getEndpointByID (rd 1) (dl_endpoint_id d) = Inr ep"
      "p = \<lparr>po_url = wh_url ep, po_event = dl_event_type d, po_signature = Sign hmac (wh_secret ep) (dl_payload d), po_body = dl_payload d\<rparr>"
    by (cases rule: handleDelivery_cases) auto
  from assms(7,8) obtain d' ep' where d': "getDeliveryByID (rd' 0) i = Inr d'" "getEndpointByID (rd' 1) (dl_endpoint_id d') = Inr ep'"
      "p' = \<lparr>po_url = wh_url ep', po_event = dl_event_type d', po_signature = Sign hmac (wh_secret ep') (dl_payload d'), po_body = dl_payload d'\<rparr>"
    by (cases rule: handleDelivery_cases) auto
  note kept = delivery_again [OF assms(1,5) d(1) d'(1)]
  from delivered_to [OF assms(1,2) d(1,2)] obtain e where e: "e \<in> set (hk_endpoints (rd 0))" "wh_id e = dl_endpoint_id d" "endpoint_kept e ep" .
  from hook_steps_extend [OF assms(5)] e(1) obtain e' where e': "e' \<in> set (hk_endpoints (rd' 0))" "endpoint_kept e e'"
    by (auto simp: hooks_extend_def all_kept_def)
  have r': "hooks_reachable (rd' 0)" by (rule hooks_reachable_steps [OF assms(1,5)])
  from delivered_to [OF r' assms(6) d'(1,2)] obtain x where x: "x \<in> set (hk_endpoints (rd' 0))" "wh_id x = dl_endpoint_id d'" "endpoint_kept x ep'" .
  have "x = e'"
    using hooks_reachable_inv [OF r'] keyed_unique [of wh_id "hk_endpoints (rd' 0)" x e'] x e e' kept
    by (simp add: hooks_inv_def endpoint_kept_def delivery_kept_def)
  with x e e' have "wh_secret ep' = wh_secret ep" by (simp add: endpoint_kept_def)
  with kept d(3) d'(3) show "po_body p' = po_body p" "po_signature p' = po_signature p" "po_event p' = po_event p"
    by (simp_all add: delivery_kept_def)
qed

lemma handleDelivery_records:
  assumes "hooks_reachable (rd 0)" "hook_step\<^sup>*\<^sup>* (rd 0) (rd 2)" "handleDelivery hmac server rd i = (r, [p], h)"
  shows "\<exists>d \<in> set (hk_deliveries h). \<exists>d0 \<in> set (hk_deliveries (rd 2)). dl_id d = i \<and> dl_id d0 = i
     \<and> dl_status d = (if r = None then Dl_delivered else Dl_failed) \<and> dl_attempt_count d = dl_attempt_count d0 + 1"
  using assms(3)
proof (cases rule: handleDelivery_cases)
  case (sent d ep req)
  from hook_steps_extend [OF assms(2)] found_delivery [OF sent(2)] obtain d0
    where d0: "d0 \<in> set (hk_deliveries (rd 2))" "dl_id d0 = i" by (auto simp: hooks_extend_def all_kept_def delivery_kept_def)
  from sent(5) obtain http err where h: "h = markDeliveryResult (rd 2) i (if r = None then Dl_delivered else Dl_failed) http err" by blast
  show ?thesis
    by (rule bexI [of _ "d0\<lparr>dl_status := (if r = None then Dl_delivered else Dl_failed), dl_attempt_count := dl_attempt_count d0 + 1,
        dl_last_http_status := (if http \<noteq> 0 then Some (int32 http) else None), dl_last_error := strPtr err\<rparr>"])
      (use d0 in \<open>auto simp: h markDeliveryResult_def set_update_where intro!: bexI [OF _ d0(1)]\<close>)
qed simp

end
