(* ===== verification/Config.thy ===== *)
theory Config
  imports Assets
begin

text \<open>
  The configuration of a process, \<open>internal/config/config.go\<close>: a record filled from the environment
  with defaults, and its validation. The environment is a partial function; \<open>time.ParseDuration\<close> is a
  parameter, and durations are nanoseconds.
\<close>

section \<open>Reading the environment\<close>

type_synonym environment = "string \<rightharpoonup> string"

text \<open>\<open>strconv.Atoi\<close>: an optional sign, digits, and the range of a 64-bit integer.\<close>

definition digits_value :: "string \<Rightarrow> int" where
  "digits_value s = foldl (\<lambda>n c. 10 * n + (int (of_char c) - 48)) 0 s"

definition atoi :: "string \<Rightarrow> int option" where
  "atoi s =
     (let (neg, ds) = (case s of [] \<Rightarrow> (False, []) | c # cs \<Rightarrow>
            if c = CHR ''-'' then (True, cs) else if c = CHR ''+'' then (False, cs) else (False, s));
          v = (if neg then - digits_value ds else digits_value ds)
      in if ds \<noteq> [] \<and> list_all is_digit ds \<and> - (2 ^ 63) \<le> v \<and> v < 2 ^ 63 then Some v else None)"

text \<open>\<open>strconv.ParseBool\<close>, and \<open>strings.Split\<close> at a character.\<close>

definition parseBool :: "string \<Rightarrow> bool option" where
  "parseBool s =
     (if s \<in> set [''1'', ''t'', ''T'', ''TRUE'', ''true'', ''True''] then Some True
      else if s \<in> set [''0'', ''f'', ''F'', ''FALSE'', ''false'', ''False''] then Some False
      else None)"

fun split_at :: "char \<Rightarrow> string \<Rightarrow> string list" where
  "split_at c [] = [[]]"
| "split_at c (x # xs) =
     (if x = c then [] # split_at c xs
      else (case split_at c xs of [] \<Rightarrow> [[x]] | p # ps \<Rightarrow> (x # p) # ps))"

definition getEnv :: "environment \<Rightarrow> string \<Rightarrow> string \<Rightarrow> string" where
  "getEnv env key d = (case env key of None \<Rightarrow> d | Some v \<Rightarrow> v)"

definition getEnvInt :: "environment \<Rightarrow> string \<Rightarrow> int \<Rightarrow> int" where
  "getEnvInt env key d = (case env key of None \<Rightarrow> d | Some v \<Rightarrow> (case atoi v of None \<Rightarrow> d | Some n \<Rightarrow> n))"

definition getEnvDuration :: "(string \<Rightarrow> int option) \<Rightarrow> environment \<Rightarrow> string \<Rightarrow> int \<Rightarrow> int" where
  "getEnvDuration parse env key d =
     (case env key of
        None \<Rightarrow> d
      | Some v \<Rightarrow>
          if v = '''' then d
          else (case parse v of
                  Some t \<Rightarrow> t
                | None \<Rightarrow> (case atoi v of Some n \<Rightarrow> signed_take_bit 63 (n * 1000000000) | None \<Rightarrow> d)))"

definition getEnvBool :: "environment \<Rightarrow> string \<Rightarrow> bool \<Rightarrow> bool" where
  "getEnvBool env key d = (case env key of None \<Rightarrow> d | Some v \<Rightarrow> (case parseBool v of None \<Rightarrow> d | Some b \<Rightarrow> b))"

definition getEnvCSV :: "environment \<Rightarrow> string \<Rightarrow> string list" where
  "getEnvCSV env key =
     (case env key of
        None \<Rightarrow> []
      | Some v \<Rightarrow> if trimSpace v = '''' then [] else filter (\<lambda>t. t \<noteq> '''') (map trimSpace (split_at (CHR '','') v)))"

section \<open>The configuration\<close>

record config =
  cf_app_port :: int
  cf_environment :: string
  cf_log_level :: string
  cf_worker_concurrency :: int
  cf_postgres_dsn :: string
  cf_postgres_system_dsn :: string
  cf_redis_addr :: string
  cf_redis_password :: string
  cf_s3_bucket :: string
  cf_s3_region :: string
  cf_s3_endpoint :: string
  cf_s3_public_endpoint :: string
  cf_s3_access_key_id :: string
  cf_s3_secret_access_key :: string
  cf_s3_use_path_style :: bool
  cf_s3_reference_endpoint :: string
  cf_s3_presign_ttl :: int
  cf_image_provider :: string
  cf_bfl_api_key :: string
  cf_fal_key :: string
  cf_fal_safety_checker :: bool
  cf_bfl_safety_tolerance :: int
  cf_chroma_key_background_removal :: bool
  cf_background_remover :: string
  cf_birefnet_model :: string
  cf_birefnet_operating_resolution :: string
  cf_api_token_pepper :: string
  cf_openapi_docs_enabled :: bool
  cf_allow_synthetic_providers :: bool
  cf_governance_enforcement :: string
  cf_governance_max_age :: int
  cf_governance_authorized_issuers :: "string list"

datatype config_error =
    InvalidEnvironment
  | InvalidImageProvider
  | InvalidGovernanceEnforcement
  | MissingVars "string list"

definition defaultDocsEnabled :: "string \<Rightarrow> bool" where
  "defaultDocsEnabled env \<longleftrightarrow> env \<noteq> ''live''"

definition SystemDSN :: "config \<Rightarrow> string" where
  "SystemDSN c = (if cf_postgres_system_dsn c \<noteq> '''' then cf_postgres_system_dsn c else cf_postgres_dsn c)"

text \<open>The variables a configuration lacks, in the order the code checks them.\<close>

definition required :: "string \<Rightarrow> string \<Rightarrow> string list" where
  "required v name = (if v = '''' then [name] else [])"

definition missing_vars :: "config \<Rightarrow> string list" where
  "missing_vars c =
     (if cf_image_provider c = ''bfl'' then required (cf_bfl_api_key c) ''BFL_API_KEY''
      else if cf_image_provider c = ''fal'' then required (cf_fal_key c) ''FAL_KEY'' else [])
     @ required (cf_postgres_dsn c) ''POSTGRES_DSN'' @ required (cf_redis_addr c) ''REDIS_ADDR''
     @ required (cf_s3_bucket c) ''S3_BUCKET'' @ required (cf_s3_region c) ''S3_REGION''
     @ required (cf_s3_endpoint c) ''S3_ENDPOINT'' @ required (cf_s3_access_key_id c) ''S3_ACCESS_KEY_ID''
     @ required (cf_s3_secret_access_key c) ''S3_SECRET_ACCESS_KEY'' @ required (cf_api_token_pepper c) ''API_TOKEN_PEPPER''"

definition validate :: "config \<Rightarrow> config_error option" where
  "validate c =
     (if cf_environment c \<notin> set [''dev'', ''test'', ''live''] then Some InvalidEnvironment
      else if cf_image_provider c \<notin> set [''mock'', ''bfl'', ''fal''] then Some InvalidImageProvider
      else if cf_governance_enforcement c \<notin> set [''log_only'', ''enforce''] then Some InvalidGovernanceEnforcement
      else if missing_vars c \<noteq> [] then Some (MissingVars (missing_vars c))
      else None)"

definition read_config :: "(string \<Rightarrow> int option) \<Rightarrow> environment \<Rightarrow> config" where
  "read_config parse env =
     \<lparr>cf_app_port = getEnvInt env ''APP_PORT'' 8080,
      cf_environment = getEnv env ''ENVIRONMENT'' ''dev'',
      cf_log_level = getEnv env ''LOG_LEVEL'' ''info'',
      cf_worker_concurrency = getEnvInt env ''WORKER_CONCURRENCY'' 4,
      cf_postgres_dsn = getEnv env ''POSTGRES_DSN'' '''',
      cf_postgres_system_dsn = getEnv env ''POSTGRES_SYSTEM_DSN'' '''',
      cf_redis_addr = getEnv env ''REDIS_ADDR'' '''',
      cf_redis_password = getEnv env ''REDIS_PASSWORD'' '''',
      cf_s3_bucket = getEnv env ''S3_BUCKET'' '''',
      cf_s3_region = getEnv env ''S3_REGION'' '''',
      cf_s3_endpoint = getEnv env ''S3_ENDPOINT'' '''',
      cf_s3_public_endpoint = getEnv env ''S3_PUBLIC_ENDPOINT'' '''',
      cf_s3_access_key_id = getEnv env ''S3_ACCESS_KEY_ID'' '''',
      cf_s3_secret_access_key = getEnv env ''S3_SECRET_ACCESS_KEY'' '''',
      cf_s3_use_path_style = getEnvBool env ''S3_USE_PATH_STYLE'' False,
      cf_s3_reference_endpoint = getEnv env ''S3_REFERENCE_ENDPOINT'' '''',
      cf_s3_presign_ttl = getEnvDuration parse env ''S3_PRESIGN_TTL'' (15 * 60 * 1000000000),
      cf_image_provider = getEnv env ''IMAGE_PROVIDER'' ''mock'',
      cf_bfl_api_key = getEnv env ''BFL_API_KEY'' '''',
      cf_fal_key = getEnv env ''FAL_KEY'' '''',
      cf_fal_safety_checker = getEnvBool env ''FAL_SAFETY_CHECKER'' False,
      cf_bfl_safety_tolerance = getEnvInt env ''BFL_SAFETY_TOLERANCE'' 6,
      cf_chroma_key_background_removal = getEnvBool env ''CHROMA_KEY_BACKGROUND_REMOVAL'' False,
      cf_background_remover = getEnv env ''BACKGROUND_REMOVER'' ''ideogram'',
      cf_birefnet_model = getEnv env ''BIREFNET_MODEL'' '''',
      cf_birefnet_operating_resolution = getEnv env ''BIREFNET_OPERATING_RESOLUTION'' '''',
      cf_api_token_pepper = getEnv env ''API_TOKEN_PEPPER'' '''',
      cf_openapi_docs_enabled =
        getEnvBool env ''OPENAPI_DOCS_ENABLED'' (defaultDocsEnabled (getEnv env ''ENVIRONMENT'' ''dev'')),
      cf_allow_synthetic_providers = getEnvBool env ''ALLOW_SYNTHETIC_PROVIDERS'' False,
      cf_governance_enforcement = getEnv env ''GOVERNANCE_ENFORCEMENT'' ''log_only'',
      cf_governance_max_age = getEnvDuration parse env ''GOVERNANCE_MAX_AGE'' (24 * 3600 * 1000000000),
      cf_governance_authorized_issuers = getEnvCSV env ''GOVERNANCE_AUTHORIZED_ISSUERS''\<rparr>"

definition Load :: "(string \<Rightarrow> int option) \<Rightarrow> environment \<Rightarrow> config_error + config" where
  "Load parse env =
     (let c = read_config parse env in case validate c of Some e \<Rightarrow> Inl e | None \<Rightarrow> Inr c)"

section \<open>What a loaded configuration has\<close>

lemma required_Nil [simp]: "required v name = [] \<longleftrightarrow> v \<noteq> ''''"
  by (simp add: required_def)

text \<open>The provider a process is configured for has its key, and the pepper of the tokens is not empty.\<close>

lemma Load_keys:
  assumes "Load parse env = Inr c"
  shows "cf_image_provider c = ''bfl'' \<Longrightarrow> cf_bfl_api_key c \<noteq> ''''"
    "cf_image_provider c = ''fal'' \<Longrightarrow> cf_fal_key c \<noteq> ''''"
    "cf_api_token_pepper c \<noteq> ''''" "cf_postgres_dsn c \<noteq> ''''" "SystemDSN c \<noteq> ''''"
proof -
  from assms have "validate c = None" by (auto simp: Load_def Let_def split: option.splits)
  hence m: "missing_vars c = []" by (simp add: validate_def split: if_splits)
  show "cf_image_provider c = ''bfl'' \<Longrightarrow> cf_bfl_api_key c \<noteq> ''''" "cf_image_provider c = ''fal'' \<Longrightarrow> cf_fal_key c \<noteq> ''''"
    using m by (simp_all add: missing_vars_def)
  show "cf_api_token_pepper c \<noteq> ''''" "cf_postgres_dsn c \<noteq> ''''" using m by (simp_all add: missing_vars_def)
  thus "SystemDSN c \<noteq> ''''" by (simp add: SystemDSN_def)
qed

text \<open>A process that was given nothing else makes recurring characters only with real providers.\<close>

lemma getEnvBool_off: "getEnvBool env key False \<longleftrightarrow> (\<exists>v. env key = Some v \<and> parseBool v = Some True)"
  by (simp add: getEnvBool_def split: option.split)

lemma Load_read: "Load parse env = Inr c \<Longrightarrow> c = read_config parse env"
  unfolding Load_def Let_def by (simp split: option.splits)

lemma Load_synthetic_opt_in:
  assumes "Load parse env = Inr c"
  shows "cf_allow_synthetic_providers c
    \<longleftrightarrow> (\<exists>v. env ''ALLOW_SYNTHETIC_PROVIDERS'' = Some v \<and> parseBool v = Some True)"
proof -
  have "cf_allow_synthetic_providers (read_config parse env) = getEnvBool env ''ALLOW_SYNTHETIC_PROVIDERS'' False"
    by (simp only: read_config_def config.simps)
  thus ?thesis by (simp only: Load_read [OF assms] getEnvBool_off)
qed

text \<open>A list read back is a split that loses nothing but the commas and the space around its parts.\<close>

lemma split_at_join: "join c (split_at c s) = s"
proof (induction s)
  case (Cons x xs)
  then show ?case by (cases "split_at c xs" rule: list.exhaust; cases "tl (split_at c xs)") auto
qed simp

end
