(* ===== verification/Http_Adapters.thy ===== *)
theory Http_Adapters
  imports Config Worker_Monad Routing
begin

text \<open>
  The adapters of the hosted providers, \<open>internal/providers/fal/fal.go\<close> and \<open>internal/providers/bfl/bfl.go\<close>:
  submit one request, poll it, fetch and download the image, all under one deadline; fal cancels a
  request it stops waiting for. The remote services answer the requests of a call by their position
  in it; a call keeps the list of the requests it has sent. The loop that polls may run forever, so a
  call is an option, \<open>None\<close> when it does not return.
\<close>

section \<open>Requests and answers\<close>

record http_request =
  hr_method :: string
  hr_url :: string
  hr_auth :: "(string \<times> string) option"
  hr_json :: "payload option"

datatype http_body = Content string | Unreadable

datatype http_answer = Unreachable | Answer int string http_body

text \<open>
  What a call meets. \<open>nt_buildable url\<close>: a request to \<open>url\<close> can be built; \<open>nt_answer n q\<close> answers the \<open>n\<close>-th
  request of the call with status, content type and body; \<open>nt_parse\<close> is the JSON parser, giving the
  fields of an object by the names \<open>json.Unmarshal\<close> matches them with, none for \<open>null\<close>; \<open>nt_number\<close> is the
  text \<open>json.Number\<close> keeps of a value; \<open>nt_stop n\<close>: the \<open>select\<close> after \<open>n\<close> requests takes the branch of
  \<open>ctx.Done()\<close>; \<open>nt_expired n\<close>: \<open>ctx.Err()\<close> is set after \<open>n\<close> requests.
\<close>

record net =
  nt_buildable :: "string \<Rightarrow> bool"
  nt_answer :: "nat \<Rightarrow> http_request \<Rightarrow> http_answer"
  nt_parse :: "string \<Rightarrow> payload option"
  nt_number :: "json \<Rightarrow> string option"
  nt_stop :: "nat \<Rightarrow> bool"
  nt_expired :: "nat \<Rightarrow> bool"

type_synonym log = "http_request list"

definition context_error :: provider_error where
  "context_error = ProviderFault ''context''"

definition exchange :: "net \<Rightarrow> http_request \<Rightarrow> log \<Rightarrow> (provider_error + int \<times> string \<times> http_body) \<times> log" where
  "exchange nt q l =
     (if \<not> nt_buildable nt (hr_url q) then (Inl (ProviderFault ''build request''), l)
      else (case nt_answer nt (length l) q of
              Unreachable \<Rightarrow> (Inl (ProviderFault ''request failed''), l @ [q])
            | Answer st ct body \<Rightarrow> (Inr (st, ct, body), l @ [q])))"

definition ok_status :: "int \<Rightarrow> bool" where
  "ok_status st \<longleftrightarrow> 200 \<le> st \<and> st < 300"

definition maxResponseBytes :: nat where
  "maxResponseBytes = 2 ^ 20"

definition maxImageBytes :: nat where
  "maxImageBytes = 64 * 2 ^ 20"

text \<open>The shape of every JSON call: build, send, check the status, read under the cap, decode.\<close>

definition json_call ::
    "net \<Rightarrow> (int \<Rightarrow> http_body \<Rightarrow> provider_error) \<Rightarrow> (payload \<Rightarrow> (provider_error + 'a)) \<Rightarrow> http_request \<Rightarrow> log
     \<Rightarrow> (provider_error + 'a) \<times> log" where
  "json_call nt refused decode q l =
     (case exchange nt q l of
        (Inl e, l') \<Rightarrow> (Inl e, l')
      | (Inr (st, _, body), l') \<Rightarrow>
          (if \<not> ok_status st then Inl (refused st body)
           else (case body of
                   Unreadable \<Rightarrow> Inl (ProviderFault ''read response'')
                 | Content s \<Rightarrow>
                     (case nt_parse nt (take maxResponseBytes s) of
                        None \<Rightarrow> Inl (ProviderFault ''malformed response'')
                      | Some p \<Rightarrow> decode p)), l'))"

text \<open>Decoding into a struct: a field that is missing or \<open>null\<close> keeps its zero value.\<close>

definition string_field :: "payload \<Rightarrow> string \<Rightarrow> string option" where
  "string_field p k = (case p k of None \<Rightarrow> Some '''' | Some JNull \<Rightarrow> Some '''' | Some (JStr s) \<Rightarrow> Some s | Some _ \<Rightarrow> None)"

definition int_field :: "payload \<Rightarrow> string \<Rightarrow> int option" where
  "int_field p k =
     (case p k of
        None \<Rightarrow> Some 0
      | Some JNull \<Rightarrow> Some 0
      | Some (JNum q) \<Rightarrow> if of_int \<lfloor>q\<rfloor> = q \<and> - (2 ^ 63) \<le> \<lfloor>q\<rfloor> \<and> \<lfloor>q\<rfloor> < 2 ^ 63 then Some \<lfloor>q\<rfloor> else None
      | Some _ \<Rightarrow> None)"

section \<open>The text of an error\<close>

text \<open>\<open>strings.Fields\<close> joined by spaces, and the query of a URL cut out of the text.\<close>

function fields :: "string \<Rightarrow> string list" where
  "fields s = (case dropWhile is_space s of
      [] \<Rightarrow> []
    | c # cs \<Rightarrow> takeWhile (\<lambda>x. \<not> is_space x) (c # cs) # fields (dropWhile (\<lambda>x. \<not> is_space x) (c # cs)))"
  by pat_completeness auto

lemma fields_smaller: "dropWhile is_space s = c # cs \<Longrightarrow> length (dropWhile (\<lambda>x. \<not> is_space x) (c # cs)) < length s"
proof -
  assume s: "dropWhile is_space s = c # cs"
  hence "\<not> is_space c" using hd_dropWhile [of is_space s] by simp
  hence "length (dropWhile (\<lambda>x. \<not> is_space x) (c # cs)) \<le> length cs" by (simp add: length_dropWhile_le)
  moreover have "length (c # cs) \<le> length s" using length_dropWhile_le [of is_space s] s by simp
  ultimately show ?thesis by simp
qed

termination fields
  by (relation "measure length") (use fields_smaller in auto)

declare fields.simps [simp del]

definition queried :: "char \<Rightarrow> bool" where
  "queried c \<longleftrightarrow> c \<noteq> CHR ''\"'' \<and> c \<notin> set [CHR '' '', CHR 0x09, CHR 0x0A, CHR 0x0C, CHR 0x0D]"

function redact :: "string \<Rightarrow> string" where
  "redact [] = []"
| "redact (c # cs) =
     (if c = CHR ''?'' \<and> cs \<noteq> [] \<and> queried (hd cs) then ''?<redacted>'' @ redact (dropWhile queried cs) else c # redact cs)"
  by pat_completeness auto

termination redact
  by (relation "measure length") (auto simp: less_Suc_eq_le length_dropWhile_le)

definition maxErrorDetailBytes :: nat where
  "maxErrorDetailBytes = 512"

definition errorDetail :: "http_body \<Rightarrow> string" where
  "errorDetail body =
     (case body of
        Unreadable \<Rightarrow> ''''
      | Content s \<Rightarrow>
          let raw = take maxErrorDetailBytes s; detail = redact (join (CHR '' '') (fields raw))
          in if raw = [] \<or> detail = [] then '''' else '': '' @ detail)"

section \<open>Polling\<close>

text \<open>
  The loop \<open>for { once; select { ctx.Done | ticker } }\<close>: \<open>once\<close> gives what the loop returns with, or
  nothing to wait for the next tick.
\<close>

partial_function (option) pollUntil ::
    "(log \<Rightarrow> 'a option \<times> log) \<Rightarrow> (nat \<Rightarrow> bool) \<Rightarrow> 'a \<Rightarrow> log \<Rightarrow> ('a \<times> log) option" where
  "pollUntil once stop ctx_err l =
     (case once l of
        (Some r, l') \<Rightarrow> Some (r, l')
      | (None, l') \<Rightarrow> if stop (length l') then Some (ctx_err, l') else pollUntil once stop ctx_err l')"

section \<open>fal\<close>

abbreviation ProviderIDFal :: string where "ProviderIDFal \<equiv> ''fal''"
abbreviation ProviderIDKontextDev :: string where "ProviderIDKontextDev \<equiv> ''fal_dev''"
abbreviation ProviderIDFluxPro11 :: string where "ProviderIDFluxPro11 \<equiv> ''fal_t2i''"

definition modelPathPro :: string where "modelPathPro = ''fal-ai/flux-pro/kontext/multi''"
definition modelPathKontextDev :: string where "modelPathKontextDev = ''fal-ai/flux-kontext/dev''"
definition modelPathFluxPro11 :: string where "modelPathFluxPro11 = ''fal-ai/flux-pro/v1.1''"

record fal =
  fa_api_key :: string
  fa_base_url :: string
  fa_model_path :: string
  fa_kontext_dev :: bool
  fa_safety_checker :: bool
  fa_prompt_only :: bool

definition newFal :: "string \<Rightarrow> (fal \<Rightarrow> fal) list \<Rightarrow> fal" where
  "newFal key opts = fold (\<lambda>opt p. opt p) opts
     \<lparr>fa_api_key = key, fa_base_url = ''https://queue.fal.run'', fa_model_path = modelPathPro,
      fa_kontext_dev = False, fa_safety_checker = False, fa_prompt_only = False\<rparr>"

definition withSafetyChecker :: "bool \<Rightarrow> fal \<Rightarrow> fal" where
  "withSafetyChecker b p = p\<lparr>fa_safety_checker := b\<rparr>"

definition newKontextDev :: "string \<Rightarrow> (fal \<Rightarrow> fal) list \<Rightarrow> fal" where
  "newKontextDev key opts =
     (let p = (newFal key opts)\<lparr>fa_kontext_dev := True\<rparr>
      in if fa_model_path p = modelPathPro then p\<lparr>fa_model_path := modelPathKontextDev\<rparr> else p)"

definition newFluxPro11 :: "string \<Rightarrow> (fal \<Rightarrow> fal) list \<Rightarrow> fal" where
  "newFluxPro11 key opts =
     (let p = (newFal key opts)\<lparr>fa_prompt_only := True\<rparr>
      in if fa_model_path p = modelPathPro then p\<lparr>fa_model_path := modelPathFluxPro11\<rparr> else p)"

definition falImageSize :: "string \<Rightarrow> string" where
  "falImageSize aspect =
     (if aspect = ''1:1'' then ''square_hd''
      else if aspect = ''16:9'' then ''landscape_16_9''
      else if aspect = ''9:16'' then ''portrait_16_9''
      else if aspect = ''4:3'' then ''landscape_4_3''
      else if aspect = ''3:4'' then ''portrait_4_3''
      else '''')"

text \<open>\<open>ProviderGenerateRequest\<close> with its seed, and the result of a call with all it carries.\<close>

record seeded_request = gen_request +
  gr_seed :: string

record provider_image =
  iu_url :: string
  iu_bytes :: string
  iu_content_type :: string
  iu_width :: int
  iu_height :: int

record provider_result =
  pv_job_id :: string
  pv_request_id :: string
  pv_status :: string
  pv_images :: "provider_image list"
  pv_prompt_hash :: string
  pv_seed :: string
  pv_metadata :: "(string \<times> string) list"

definition no_result :: provider_result where
  "no_result = \<lparr>pv_job_id = '''', pv_request_id = '''', pv_status = '''', pv_images = [], pv_prompt_hash = '''',
     pv_seed = '''', pv_metadata = []\<rparr>"

definition failed_result :: "string \<Rightarrow> provider_result" where
  "failed_result i = no_result\<lparr>pv_job_id := i, pv_request_id := i\<rparr>"

definition add_seed :: "string \<Rightarrow> payload \<Rightarrow> payload" where
  "add_seed seed b =
     (if seed = '''' then b
      else (case atoi seed of None \<Rightarrow> b | Some n \<Rightarrow> b(''seed'' \<mapsto> JNum (of_int n))))"

definition fal_body :: "fal \<Rightarrow> seeded_request \<Rightarrow> payload" where
  "fal_body p req =
     (let b = [''prompt'' \<mapsto> JStr (gr_prompt req), ''num_images'' \<mapsto> JNum 1, ''output_format'' \<mapsto> JStr ''png''];
          b = (if fa_prompt_only p
               then (let s = falImageSize (gr_aspect_ratio req); b1 = (if s \<noteq> '''' then b(''image_size'' \<mapsto> JStr s) else b)
                     in b1(''enable_safety_checker'' \<mapsto> JBool (fa_safety_checker p), ''safety_tolerance'' \<mapsto> JNum 5))
               else if fa_kontext_dev p
               then (let b1 = (case gr_reference_urls req of [] \<Rightarrow> b | u # _ \<Rightarrow> b(''image_url'' \<mapsto> JStr u))
                     in b1(''resolution_mode'' \<mapsto> JStr ''match_input'', ''enable_safety_checker'' \<mapsto> JBool (fa_safety_checker p)))
               else b(''image_urls'' \<mapsto> JArr (map JStr (gr_reference_urls req))));
          b = (if gr_aspect_ratio req \<noteq> '''' \<and> \<not> fa_kontext_dev p \<and> \<not> fa_prompt_only p
               then b(''aspect_ratio'' \<mapsto> JStr (gr_aspect_ratio req)) else b)
      in add_seed (gr_seed req) b)"

definition fal_auth :: "fal \<Rightarrow> (string \<times> string) option" where
  "fal_auth p = Some (''Authorization'', ''Key '' @ fa_api_key p)"

definition fal_get :: "fal \<Rightarrow> string \<Rightarrow> http_request" where
  "fal_get p u = \<lparr>hr_method = ''GET'', hr_url = u, hr_auth = fal_auth p, hr_json = None\<rparr>"

definition fal_submission :: "fal \<Rightarrow> seeded_request \<Rightarrow> http_request" where
  "fal_submission p req = \<lparr>hr_method = ''POST'', hr_url = fa_base_url p @ ''/'' @ fa_model_path p, hr_auth = fal_auth p,
     hr_json = Some (fal_body p req)\<rparr>"

record fal_submitted =
  fq_request_id :: string
  fq_status_url :: string
  fq_response_url :: string
  fq_cancel_url :: string

definition decode_submitted :: "payload \<Rightarrow> provider_error + fal_submitted" where
  "decode_submitted p =
     (case (string_field p ''request_id'', string_field p ''status_url'', string_field p ''response_url'', string_field p ''cancel_url'') of
        (Some i, Some s, Some r, Some c) \<Rightarrow>
          if i = '''' \<or> s = '''' \<or> r = '''' then Inl (ProviderFault ''incomplete submit response'')
          else Inr \<lparr>fq_request_id = i, fq_status_url = s, fq_response_url = r, fq_cancel_url = c\<rparr>
      | _ \<Rightarrow> Inl (ProviderFault ''malformed response''))"

definition fal_refused :: "int \<Rightarrow> http_body \<Rightarrow> provider_error" where
  "fal_refused st body = ProviderFault (''returned status'' @ errorDetail body)"

definition falSubmit :: "net \<Rightarrow> fal \<Rightarrow> seeded_request \<Rightarrow> log \<Rightarrow> (provider_error + fal_submitted) \<times> log" where
  "falSubmit nt p req l = json_call nt fal_refused decode_submitted (fal_submission p req) l"

definition falPollOnce :: "net \<Rightarrow> fal \<Rightarrow> string \<Rightarrow> log \<Rightarrow> (provider_error + string) \<times> log" where
  "falPollOnce nt p u l =
     json_call nt fal_refused
       (\<lambda>b. case string_field b ''status'' of None \<Rightarrow> Inl (ProviderFault ''malformed response'') | Some s \<Rightarrow> Inr s)
       (fal_get p u) l"

definition fal_once :: "net \<Rightarrow> fal \<Rightarrow> string \<Rightarrow> log \<Rightarrow> provider_error option option \<times> log" where
  "fal_once nt p u l =
     (case falPollOnce nt p u l of
        (Inl e, l') \<Rightarrow> (Some (Some e), l')
      | (Inr s, l') \<Rightarrow> (if s = ''COMPLETED'' then Some None else None, l'))"

definition falPoll :: "net \<Rightarrow> fal \<Rightarrow> fal_submitted \<Rightarrow> log \<Rightarrow> (provider_error option \<times> log) option" where
  "falPoll nt p sub l = pollUntil (fal_once nt p (fq_status_url sub)) (nt_stop nt) (Some context_error) l"

record fal_image =
  fg_url :: string
  fg_width :: int
  fg_height :: int
  fg_content_type :: string

definition decode_image :: "json \<Rightarrow> fal_image option" where
  "decode_image v =
     (case v of
        JNull \<Rightarrow> Some \<lparr>fg_url = '''', fg_width = 0, fg_height = 0, fg_content_type = ''''\<rparr>
      | JObj kvs \<Rightarrow>
          (case (string_field (map_of kvs) ''url'', int_field (map_of kvs) ''width'', int_field (map_of kvs) ''height'',
                 string_field (map_of kvs) ''content_type'') of
             (Some u, Some w, Some h, Some t) \<Rightarrow> Some \<lparr>fg_url = u, fg_width = w, fg_height = h, fg_content_type = t\<rparr>
           | _ \<Rightarrow> None)
      | _ \<Rightarrow> None)"

definition decode_images :: "payload \<Rightarrow> fal_image list option" where
  "decode_images p =
     (case p ''images'' of
        None \<Rightarrow> Some []
      | Some JNull \<Rightarrow> Some []
      | Some (JArr vs) \<Rightarrow> those (map decode_image vs)
      | Some _ \<Rightarrow> None)"

text \<open>The result body: its images, and the text of its seed, empty when it carries none.\<close>

definition decode_seed :: "net \<Rightarrow> payload \<Rightarrow> string option" where
  "decode_seed nt p = (case p ''seed'' of None \<Rightarrow> Some '''' | Some JNull \<Rightarrow> Some '''' | Some v \<Rightarrow> nt_number nt v)"

definition falFetchResult :: "net \<Rightarrow> fal \<Rightarrow> fal_submitted \<Rightarrow> log \<Rightarrow> (provider_error + fal_image list \<times> string) \<times> log" where
  "falFetchResult nt p sub l =
     json_call nt fal_refused
       (\<lambda>b. case (decode_images b, decode_seed nt b) of
              (Some is, Some s) \<Rightarrow> Inr (is, s) | _ \<Rightarrow> Inl (ProviderFault ''malformed response''))
       (fal_get p (fq_response_url sub)) l"

definition falAwaitResult ::
    "net \<Rightarrow> fal \<Rightarrow> fal_submitted \<Rightarrow> log \<Rightarrow> ((provider_error + fal_image list \<times> string) \<times> log) option" where
  "falAwaitResult nt p sub l =
     (case falPoll nt p sub l of
        None \<Rightarrow> None
      | Some (Some e, l') \<Rightarrow> Some (Inl e, l')
      | Some (None, l') \<Rightarrow> Some (falFetchResult nt p sub l'))"

definition fal_cancellation :: "fal \<Rightarrow> fal_submitted \<Rightarrow> http_request" where
  "fal_cancellation p sub = \<lparr>hr_method = ''PUT'', hr_url = fq_cancel_url sub, hr_auth = fal_auth p, hr_json = None\<rparr>"

text \<open>The cancellation has a fresh context; its outcome is only logged.\<close>

definition falCancel :: "net \<Rightarrow> fal \<Rightarrow> fal_submitted \<Rightarrow> log \<Rightarrow> log" where
  "falCancel nt p sub l =
     (if fq_cancel_url sub = '''' then l else snd (exchange nt (fal_cancellation p sub) l))"

text \<open>The image is fetched without the key.\<close>

definition download_request :: "string \<Rightarrow> http_request" where
  "download_request u = \<lparr>hr_method = ''GET'', hr_url = u, hr_auth = None, hr_json = None\<rparr>"

definition download ::
    "(int \<Rightarrow> http_body \<Rightarrow> provider_error) \<Rightarrow> net \<Rightarrow> string \<Rightarrow> log \<Rightarrow> (provider_error + string \<times> string) \<times> log" where
  "download refused nt u l =
     (case exchange nt (download_request u) l of
        (Inl e, l') \<Rightarrow> (Inl e, l')
      | (Inr (st, ct, body), l') \<Rightarrow>
          (if \<not> ok_status st then Inl (refused st body)
           else (case body of
                   Unreadable \<Rightarrow> Inl (ProviderFault ''read image bytes'')
                 | Content s \<Rightarrow>
                     if take maxImageBytes s = [] then Inl (ProviderFault ''empty image'')
                     else Inr (take maxImageBytes s, if ct = '''' then ''image/jpeg'' else ct)), l'))"

definition falFinish ::
    "net \<Rightarrow> seeded_request \<Rightarrow> fal_submitted \<Rightarrow> fal_image list \<times> string \<Rightarrow> log \<Rightarrow> provider_result \<times> provider_error option \<times> log" where
  "falFinish nt req sub res l =
     (case fst res of
        [] \<Rightarrow> (failed_result (fq_request_id sub), Some (ProviderFault ''missing image url''), l)
      | img # _ \<Rightarrow>
          if fg_url img = '''' then (failed_result (fq_request_id sub), Some (ProviderFault ''missing image url''), l)
          else (case download fal_refused nt (fg_url img) l of
                  (Inl e, l') \<Rightarrow> (failed_result (fq_request_id sub), Some e, l')
                | (Inr (bs, ct), l') \<Rightarrow>
                    (\<lparr>pv_job_id = fq_request_id sub, pv_request_id = fq_request_id sub, pv_status = ''completed'',
                      pv_images = [\<lparr>iu_url = fg_url img, iu_bytes = bs,
                          iu_content_type = (if fg_content_type img \<noteq> '''' then fg_content_type img else ct),
                          iu_width = fg_width img, iu_height = fg_height img\<rparr>],
                      pv_prompt_hash = '''', pv_seed = (if snd res \<noteq> '''' then snd res else gr_seed req),
                      pv_metadata = [(''provider'', ''fal''), (''model'', ''flux-pro-kontext-multi'')]\<rparr>, None, l')))"

definition falGenerate :: "net \<Rightarrow> fal \<Rightarrow> seeded_request \<Rightarrow> (provider_result \<times> provider_error option \<times> log) option" where
  "falGenerate nt p req =
     (if fa_api_key p = '''' then Some (no_result, Some (ProviderFault ''missing API key''), [])
      else if \<not> fa_prompt_only p \<and> gr_reference_urls req = [] then Some (no_result, Some ErrReferenceRequired, [])
      else if nt_expired nt 0 then Some (no_result, Some context_error, [])
      else (case falSubmit nt p req [] of
              (Inl e, l) \<Rightarrow> Some (no_result, Some e, l)
            | (Inr sub, l) \<Rightarrow>
                (case falAwaitResult nt p sub l of
                   None \<Rightarrow> None
                 | Some (Inl e, l') \<Rightarrow>
                     Some (failed_result (fq_request_id sub), Some e,
                       if nt_expired nt (length l') then falCancel nt p sub l' else l')
                 | Some (Inr res, l') \<Rightarrow> Some (falFinish nt req sub res l'))))"

section \<open>BFL\<close>

record bfl =
  fb_api_key :: string
  fb_base_url :: string
  fb_model_path :: string
  fb_safety_tolerance :: int

definition newBfl :: "string \<Rightarrow> (bfl \<Rightarrow> bfl) list \<Rightarrow> bfl" where
  "newBfl key opts = fold (\<lambda>opt p. opt p) opts
     \<lparr>fb_api_key = key, fb_base_url = ''https://api.bfl.ai'', fb_model_path = ''v1/flux-pro-1.1'', fb_safety_tolerance = 6\<rparr>"

definition withSafetyTolerance :: "int \<Rightarrow> bfl \<Rightarrow> bfl" where
  "withSafetyTolerance v p = p\<lparr>fb_safety_tolerance := v\<rparr>"

definition bfl_body :: "bfl \<Rightarrow> seeded_request \<Rightarrow> payload" where
  "bfl_body p req =
     (let b = [''prompt'' \<mapsto> JStr (gr_prompt req), ''safety_tolerance'' \<mapsto> JNum (of_int (fb_safety_tolerance p))];
          b = (if 0 < gr_width req then b(''width'' \<mapsto> JNum (of_int (gr_width req))) else b);
          b = (if 0 < gr_height req then b(''height'' \<mapsto> JNum (of_int (gr_height req))) else b)
      in add_seed (gr_seed req) b)"

definition bfl_submission :: "bfl \<Rightarrow> seeded_request \<Rightarrow> http_request" where
  "bfl_submission p req = \<lparr>hr_method = ''POST'', hr_url = fb_base_url p @ ''/'' @ fb_model_path p,
     hr_auth = Some (''x-key'', fb_api_key p), hr_json = Some (bfl_body p req)\<rparr>"

definition bfl_get :: "bfl \<Rightarrow> string \<Rightarrow> http_request" where
  "bfl_get p u = \<lparr>hr_method = ''GET'', hr_url = u, hr_auth = Some (''x-key'', fb_api_key p), hr_json = None\<rparr>"

definition bfl_submit_refused :: "int \<Rightarrow> http_body \<Rightarrow> provider_error" where
  "bfl_submit_refused st body = (if st = 402 then ErrProviderUnpaid else ProviderFault ''returned status'')"

definition bfl_refused :: "int \<Rightarrow> http_body \<Rightarrow> provider_error" where
  "bfl_refused st body = ProviderFault ''returned status''"

definition decode_bfl_submitted :: "payload \<Rightarrow> provider_error + string \<times> string" where
  "decode_bfl_submitted p =
     (case (string_field p ''id'', string_field p ''polling_url'') of
        (Some i, Some u) \<Rightarrow> if i = '''' then Inl (ProviderFault ''submit response missing id'') else Inr (i, u)
      | _ \<Rightarrow> Inl (ProviderFault ''malformed response''))"

definition bflSubmit :: "net \<Rightarrow> bfl \<Rightarrow> seeded_request \<Rightarrow> log \<Rightarrow> (provider_error + string \<times> string) \<times> log" where
  "bflSubmit nt p req l = json_call nt bfl_submit_refused decode_bfl_submitted (bfl_submission p req) l"

text \<open>The fields of a poll answer: the status and the sample URL inside \<open>result\<close>.\<close>

definition decode_bfl_result :: "payload \<Rightarrow> provider_error + string \<times> string" where
  "decode_bfl_result p =
     (let inner = (case p ''result'' of None \<Rightarrow> Some Map.empty | Some JNull \<Rightarrow> Some Map.empty
                   | Some (JObj kvs) \<Rightarrow> Some (map_of kvs) | Some _ \<Rightarrow> None)
      in case (string_field p ''id'', string_field p ''status'', Option.bind inner (\<lambda>m. string_field m ''sample'')) of
           (Some _, Some s, Some u) \<Rightarrow> Inr (s, u)
         | _ \<Rightarrow> Inl (ProviderFault ''malformed response''))"

definition bflPollOnce :: "net \<Rightarrow> bfl \<Rightarrow> string \<Rightarrow> log \<Rightarrow> (provider_error + string \<times> string) \<times> log" where
  "bflPollOnce nt p u l = json_call nt bfl_refused decode_bfl_result (bfl_get p u) l"

definition bfl_status :: "string \<Rightarrow> string \<Rightarrow> (provider_error + string) option" where
  "bfl_status status sample =
     (if status = ''Ready''
      then Some (if sample = '''' then Inl (ProviderFault ''ready result missing sample url'') else Inr sample)
      else if status = ''Request Moderated'' \<or> status = ''Content Moderated'' then Some (Inl ErrContentPolicyRejected)
      else if status = ''Error'' \<or> status = ''Task not found'' then Some (Inl (ProviderFault ''terminal status''))
      else None)"

definition bfl_once :: "net \<Rightarrow> bfl \<Rightarrow> string \<Rightarrow> log \<Rightarrow> (provider_error + string) option \<times> log" where
  "bfl_once nt p u l =
     (case bflPollOnce nt p u l of
        (Inl e, l') \<Rightarrow> (Some (Inl e), l')
      | (Inr (s, sample), l') \<Rightarrow> (bfl_status s sample, l'))"

text \<open>\<open>escape\<close> is \<open>url.QueryEscape\<close>.\<close>

definition bflPoll ::
    "(string \<Rightarrow> string) \<Rightarrow> net \<Rightarrow> bfl \<Rightarrow> string \<times> string \<Rightarrow> log \<Rightarrow> ((provider_error + string) \<times> log) option" where
  "bflPoll escape nt p sub l =
     (let u = (if snd sub = '''' then fb_base_url p @ ''/v1/get_result?id='' @ escape (fst sub) else snd sub)
      in pollUntil (bfl_once nt p u) (nt_stop nt) (Inl context_error) l)"

definition bflGenerate ::
    "(string \<Rightarrow> string) \<Rightarrow> net \<Rightarrow> bfl \<Rightarrow> seeded_request \<Rightarrow> (provider_result \<times> provider_error option \<times> log) option" where
  "bflGenerate escape nt p req =
     (if fb_api_key p = '''' then Some (no_result, Some (ProviderFault ''missing API key''), [])
      else if nt_expired nt 0 then Some (no_result, Some context_error, [])
      else (case bflSubmit nt p req [] of
              (Inl e, l) \<Rightarrow> Some (no_result, Some e, l)
            | (Inr sub, l) \<Rightarrow>
                (case bflPoll escape nt p sub l of
                   None \<Rightarrow> None
                 | Some (Inl e, l') \<Rightarrow> Some (failed_result (fst sub), Some e, l')
                 | Some (Inr u, l') \<Rightarrow>
                     Some (case download bfl_refused nt u l' of
                        (Inl e, l'') \<Rightarrow> (failed_result (fst sub), Some e, l'')
                      | (Inr (bs, ct), l'') \<Rightarrow>
                          (\<lparr>pv_job_id = fst sub, pv_request_id = fst sub, pv_status = ''completed'',
                            pv_images = [\<lparr>iu_url = u, iu_bytes = bs, iu_content_type = ct, iu_width = 0, iu_height = 0\<rparr>],
                            pv_prompt_hash = '''', pv_seed = gr_seed req,
                            pv_metadata = [(''provider'', ''bfl''), (''model'', ''flux-pro-1.1'')]\<rparr>, None, l'')))))"

section \<open>One round of polling\<close>

text \<open>
  What both adapters promise of one round: it sends at most one request, which is a read, and it sends
  one whenever the loop goes on. The loop then ends by the first tick at which the context is done.
\<close>

definition free_read :: "http_request \<Rightarrow> bool" where
  "free_read q \<longleftrightarrow> hr_method q = ''GET'' \<and> hr_json q = None"

locale polling =
  fixes once :: "http_request list \<Rightarrow> 'a option \<times> http_request list"
  assumes once_sends: "once l = (r, l') \<Longrightarrow> l' = l \<and> r \<noteq> None \<or> (\<exists>q. l' = l @ [q] \<and> free_read q)"
begin

text \<open>How the loop ends: with what a round returns, or with the error of the context at a tick.\<close>

definition ended :: "(nat \<Rightarrow> bool) \<Rightarrow> 'a \<Rightarrow> http_request list \<Rightarrow> 'a \<Rightarrow> http_request list \<Rightarrow> bool" where
  "ended stop c l r l' \<longleftrightarrow> (\<exists>qs. l' = l @ qs \<and> (\<forall>q \<in> set qs. free_read q))
     \<and> (r = c \<and> stop (length l') \<or> (\<exists>l1. once l1 = (Some r, l')))"

lemma returns:
  assumes "\<forall>n \<ge> N. stop n" "N \<le> length l + k"
  shows "\<exists>r l'. pollUntil once stop c l = Some (r, l') \<and> length l' \<le> max N (Suc (length l)) \<and> ended stop c l r l'"
  using assms(2)
proof (induction k arbitrary: l)
  case 0
  obtain r l' where o: "once l = (r, l')" by fastforce
  with once_sends [OF o] 0 assms(1) show ?case
    by (cases r) (auto simp: pollUntil.simps [of once stop c l] ended_def)
next
  case (Suc k)
  obtain r l' where o: "once l = (r, l')" by fastforce
  show ?case
  proof (cases r)
    case None
    with once_sends [OF o] obtain q where q: "l' = l @ [q]" "free_read q" by auto
    show ?thesis
    proof (cases "stop (length l')")
      case True
      with o None q show ?thesis by (auto simp: pollUntil.simps [of once stop c l] ended_def)
    next
      case False
      with assms(1) q have "Suc (length l) < N" by (metis not_le length_append_singleton)
      moreover obtain r' l'' where *: "pollUntil once stop c l' = Some (r', l'')" "length l'' \<le> max N (Suc (length l'))"
        "ended stop c l' r' l''"
        using Suc.IH [of l'] Suc.prems q by auto
      moreover from *(3) q have "ended stop c l r' l''" by (auto simp: ended_def)
      ultimately show ?thesis using o None False q by (simp add: pollUntil.simps [of once stop c l])
    qed
  next
    case (Some a)
    with once_sends [OF o] o show ?thesis by (auto simp: pollUntil.simps [of once stop c l] ended_def)
  qed
qed

end

section \<open>The rounds of the two adapters\<close>

lemma json_call_log:
  assumes "json_call nt refused decode q l = (r, l')"
  shows "l' = l \<and> r = Inl (ProviderFault ''build request'') \<or> l' = l @ [q]"
  using assms by (auto simp: json_call_def exchange_def split: if_splits http_answer.splits sum.splits prod.splits)

lemma fal_get_reads [simp]: "free_read (fal_get p u)"
  by (simp add: free_read_def fal_get_def)

lemma bfl_get_reads [simp]: "free_read (bfl_get p u)"
  by (simp add: free_read_def bfl_get_def)

lemma download_reads [simp]: "free_read (download_request u)"
  by (simp add: free_read_def download_request_def)

interpretation fal_polling: polling "fal_once nt p u" for nt p u
proof
  fix l r l' assume "fal_once nt p u l = (r, l')"
  then show "l' = l \<and> r \<noteq> None \<or> (\<exists>q. l' = l @ [q] \<and> free_read q)"
    by (auto simp: fal_once_def falPollOnce_def split: prod.splits sum.splits if_splits dest!: json_call_log)
qed

interpretation bfl_polling: polling "bfl_once nt p u" for nt p u
proof
  fix l r l' assume "bfl_once nt p u l = (r, l')"
  then show "l' = l \<and> r \<noteq> None \<or> (\<exists>q. l' = l @ [q] \<and> free_read q)"
    by (auto simp: bfl_once_def bflPollOnce_def split: prod.splits sum.splits dest!: json_call_log)
qed

lemma download_log:
  assumes "download refused nt u l = (r, l')"
  shows "l' = l \<or> l' = l @ [download_request u]"
  using assms by (auto simp: download_def exchange_def split: if_splits http_answer.splits http_body.splits)

lemma download_bytes: "download refused nt u l = (Inr (bs, ct), l') \<Longrightarrow> bs \<noteq> [] \<and> l' = l @ [download_request u]"
  by (auto simp: download_def exchange_def split: if_splits http_answer.splits http_body.splits)

section \<open>What a call does\<close>

lemma json_call_context:
  assumes "json_call nt refused decode q l = (Inl context_error, l')" "\<And>st b. refused st b \<noteq> context_error"
    "\<And>b. decode b \<noteq> Inl context_error"
  shows False
  using assms
  by (auto simp: json_call_def exchange_def context_error_def split: if_splits http_answer.splits sum.splits prod.splits
        http_body.splits option.splits)

lemma fal_refused_context [simp]: "fal_refused st b \<noteq> context_error"
  by (simp add: fal_refused_def context_error_def)

lemma fal_once_context:
  assumes "fal_once nt p u l = (Some (Some context_error), l')"
  shows False
proof -
  from assms obtain l'' where "falPollOnce nt p u l = (Inl context_error, l'')"
    by (auto simp: fal_once_def split: prod.splits sum.splits if_splits)
  then show False unfolding falPollOnce_def
    by (rule json_call_context) (simp, auto simp: context_error_def split: option.splits)
qed

lemma fal_fetch_context:
  assumes "falFetchResult nt p sub l = (Inl context_error, l')"
  shows False
  using assms unfolding falFetchResult_def
  by (rule json_call_context) (simp, auto simp: context_error_def split: option.splits)

text \<open>Waiting returns by the deadline, reads only, and gives up on the context only when it is done.\<close>

lemma falAwaitResult_returns:
  assumes "\<forall>n \<ge> N. nt_stop nt n"
  obtains r qs where "falAwaitResult nt p sub l = Some (r, l @ qs)" "length (l @ qs) \<le> Suc (max N (Suc (length l)))"
    "\<forall>q \<in> set qs. free_read q" "r = Inl context_error \<longrightarrow> nt_stop nt (length (l @ qs))"
proof -
  let ?u = "fq_status_url sub"
  obtain e qs where poll: "falPoll nt p sub l = Some (e, l @ qs)" "length (l @ qs) \<le> max N (Suc (length l))"
    "\<forall>q \<in> set qs. free_read q" and e: "e = Some context_error \<longrightarrow> nt_stop nt (length (l @ qs))"
  proof -
    obtain e l' where *: "falPoll nt p sub l = Some (e, l')" "length l' \<le> max N (Suc (length l))"
      "fal_polling.ended nt p ?u (nt_stop nt) (Some context_error) l e l'"
      using fal_polling.returns [of N "nt_stop nt" l N nt p ?u "Some context_error"] assms by (auto simp: falPoll_def)
    then have "e = Some context_error \<longrightarrow> nt_stop nt (length l')"
      by (auto simp: fal_polling.ended_def dest: fal_once_context)
    with * that show thesis by (auto simp: fal_polling.ended_def)
  qed
  show thesis
  proof (cases e)
    case (Some err)
    with poll e show ?thesis by (intro that [of "Inl err" qs]) (auto simp: falAwaitResult_def)
  next
    case None
    obtain r l' where f: "falFetchResult nt p sub (l @ qs) = (r, l')" by fastforce
    then have "l' = l @ qs \<or> l' = l @ qs @ [fal_get p (fq_response_url sub)]"
      unfolding falFetchResult_def by (auto dest!: json_call_log)
    then obtain qs' where l': "l' = l @ qs @ qs'" "length qs' \<le> 1" "\<forall>q \<in> set qs'. free_read q"
      by (metis append.right_neutral empty_iff empty_set fal_get_reads length_0_conv length_Cons less_or_eq_imp_le
          list.set_intros(1) order_refl set_ConsD zero_le_one One_nat_def)
    from f fal_fetch_context have "r \<noteq> Inl context_error" by metis
    with poll None f l' show ?thesis by (intro that [of r "qs @ qs'"]) (auto simp: falAwaitResult_def)
  qed
qed

lemma falSubmit_log:
  assumes "falSubmit nt p req [] = (r, l)"
  shows "l = [] \<and> (\<exists>e. r = Inl e) \<or> l = [fal_submission p req]"
  using assms unfolding falSubmit_def by (auto dest!: json_call_log)

lemma falSubmit_context: "falSubmit nt p req l = (Inl context_error, l') \<Longrightarrow> False"
  unfolding falSubmit_def
  by (erule json_call_context) (simp, auto simp: decode_submitted_def context_error_def split: option.splits if_splits)

lemma download_context: "download fal_refused nt u l \<noteq> (Inl context_error, l')"
  using fal_refused_context
  by (auto simp: download_def exchange_def context_error_def [symmetric] split: if_splits http_answer.splits http_body.splits)
    (auto simp: context_error_def)

lemma falFinish_log:
  assumes "falFinish nt req sub res l = (r, e, l')"
  shows "\<exists>qs. l' = l @ qs \<and> length qs \<le> 1 \<and> (\<forall>q \<in> set qs. free_read q)"
    "e = None \<Longrightarrow> \<exists>img. pv_images r = [img] \<and> iu_bytes img \<noteq> [] \<and> l' = l @ [download_request (iu_url img)]"
    "e \<noteq> None \<Longrightarrow> pv_images r = []" "e \<noteq> Some context_error" "pv_job_id r = fq_request_id sub"
  using assms
  by (auto simp: falFinish_def failed_result_def no_result_def split: list.splits if_splits prod.splits sum.splits
      dest: download_log download_bytes simp: download_context)
    (auto simp: context_error_def)

text \<open>
  The four ways a call that passes its guards ends: the submission fails, waiting fails with or
  without a cancellation, or the image is fetched.
\<close>

lemma falGenerate_cases:
  assumes "\<forall>n \<ge> N. nt_stop nt n" "fa_api_key p \<noteq> ''''" "fa_prompt_only p \<or> gr_reference_urls req \<noteq> []" "\<not> nt_expired nt 0"
  obtains (refused) e l where "falGenerate nt p req = Some (no_result, Some e, l)" "e \<noteq> context_error"
      "l = [] \<or> l = [fal_submission p req]"
  | (unfinished) sub e qs cs where "falSubmit nt p req [] = (Inr sub, [fal_submission p req])"
      "falGenerate nt p req = Some (failed_result (fq_request_id sub), Some e, fal_submission p req # qs @ cs)"
      "length qs \<le> max N 2" "\<forall>q \<in> set qs. free_read q" "e = context_error \<longrightarrow> nt_stop nt (Suc (length qs))"
      "cs = (if nt_expired nt (Suc (length qs)) \<and> fq_cancel_url sub \<noteq> '''' \<and> nt_buildable nt (fq_cancel_url sub)
             then [fal_cancellation p sub] else [])"
  | (finished) sub r e qs where "falSubmit nt p req [] = (Inr sub, [fal_submission p req])"
      "falGenerate nt p req = Some (r, e, fal_submission p req # qs)" "length qs \<le> Suc (max N 2)" "\<forall>q \<in> set qs. free_read q"
      "e \<noteq> Some context_error" "e \<noteq> None \<longrightarrow> pv_images r = []"
      "e = None \<longrightarrow> (\<exists>img. pv_images r = [img] \<and> iu_bytes img \<noteq> [] \<and> last qs = download_request (iu_url img) \<and> qs \<noteq> [])"
proof -
  have guard: "fa_api_key p \<noteq> ''''" "\<not> (\<not> fa_prompt_only p \<and> gr_reference_urls req = [])" "\<not> nt_expired nt 0"
    using assms by auto
  obtain s l where s: "falSubmit nt p req [] = (s, l)" by fastforce
  show thesis
  proof (cases s)
    case (Inl e)
    with s falSubmit_context have "e \<noteq> context_error" by metis
    with guard s Inl falSubmit_log [OF s] show ?thesis by (intro refused [of e l]) (auto simp: falGenerate_def)
  next
    case (Inr sub)
    with s falSubmit_log [OF s] have l: "l = [fal_submission p req]" by auto
    obtain r qs where w: "falAwaitResult nt p sub l = Some (r, l @ qs)" "length (l @ qs) \<le> Suc (max N (Suc (length l)))"
      "\<forall>q \<in> set qs. free_read q" "r = Inl context_error \<longrightarrow> nt_stop nt (length (l @ qs))"
      by (rule falAwaitResult_returns [OF assms(1)])
    show ?thesis
    proof (cases r)
      case (Inl e)
      have cancel: "falCancel nt p sub (l @ qs)
        = l @ qs @ (if fq_cancel_url sub \<noteq> '''' \<and> nt_buildable nt (fq_cancel_url sub) then [fal_cancellation p sub] else [])"
        by (auto simp: falCancel_def exchange_def fal_cancellation_def split: http_answer.split)
      show ?thesis
        by (rule unfinished [OF _ _ _ w(3) _ refl, of sub e])
          (use guard s Inr l w Inl cancel in \<open>auto simp: falGenerate_def\<close>)
    next
      case (Inr res)
      obtain r' e l' where f: "falFinish nt req sub res (l @ qs) = (r', e, l')" by (metis prod_cases3)
      from falFinish_log(1) [OF f] obtain qs' where qs': "l' = l @ qs @ qs'" "length qs' \<le> 1" "\<forall>q \<in> set qs'. free_read q"
        by auto
      have "falGenerate nt p req = Some (r', e, fal_submission p req # qs @ qs')"
        using guard s \<open>s = Inr sub\<close> l w(1) Inr f qs' by (simp add: falGenerate_def)
      then show ?thesis
        by (rule finished [of sub, rotated])
          (use s \<open>s = Inr sub\<close> l w qs' falFinish_log [OF f] in auto)
    qed
  qed
qed

text \<open>What a call sends first is the submission.\<close>

lemma falGenerate_first:
  assumes "\<forall>n \<ge> N. nt_stop nt n" "falGenerate nt p req = Some (r, e, q # qs)"
  shows "q = fal_submission p req"
proof (cases "fa_api_key p = '''' \<or> \<not> fa_prompt_only p \<and> gr_reference_urls req = [] \<or> nt_expired nt 0")
  case True
  with assms(2) show ?thesis by (auto simp: falGenerate_def split: if_splits)
next
  case False
  then have "fa_api_key p \<noteq> ''''" "fa_prompt_only p \<or> gr_reference_urls req \<noteq> []" "\<not> nt_expired nt 0" by auto
  from falGenerate_cases [OF assms(1) this] assms(2) show ?thesis by auto
qed

text \<open>BFL names its terminal refusals: 402 is an unpaid account, two statuses are content rejections.\<close>

definition named_refusal :: "provider_error \<Rightarrow> bool" where
  "named_refusal e \<longleftrightarrow> e = ErrProviderUnpaid \<or> e = ErrContentPolicyRejected \<or> e = ErrReferenceRequired"

lemma named_refusal_simps [simp]:
  "\<not> named_refusal (ProviderFault s)" "\<not> named_refusal context_error" "\<not> named_refusal (bfl_refused st body)"
  by (simp_all add: named_refusal_def context_error_def bfl_refused_def)

lemma json_call_named:
  assumes "json_call nt refused decode q l = (Inl e, l')" "named_refusal e"
  shows "(\<exists>st ct body. nt_answer nt (length l) q = Answer st ct body \<and> e = refused st body \<and> l' = l @ [q])
    \<or> (\<exists>b. decode b = Inl e)"
  using assms
  by (auto simp: json_call_def exchange_def split: if_splits http_answer.splits http_body.splits option.splits)

lemma decode_bfl_result_named: "decode_bfl_result b = Inl e \<Longrightarrow> \<not> named_refusal e"
  by (auto simp: decode_bfl_result_def Let_def split: option.splits prod.splits)

lemma decode_bfl_submitted_named: "decode_bfl_submitted b = Inl e \<Longrightarrow> \<not> named_refusal e"
  by (auto simp: decode_bfl_submitted_def split: option.splits if_splits)

lemma bflSubmit_refusal:
  assumes "bflSubmit nt p req l = (Inl e, l')" "named_refusal e"
  shows "e = ErrProviderUnpaid \<and> l' = l @ [bfl_submission p req]
    \<and> (\<exists>ct body. nt_answer nt (length l) (bfl_submission p req) = Answer 402 ct body)"
  using json_call_named [OF assms(1) [unfolded bflSubmit_def] assms(2)] assms(2) decode_bfl_submitted_named
  by (auto simp: bfl_submit_refused_def split: if_splits)

lemma bfl_status_refusal:
  assumes "bfl_status st sample = Some (Inl e)"
  shows "(e = ErrContentPolicyRejected \<and> st \<in> {''Request Moderated'', ''Content Moderated''}) \<or> (\<exists>t. e = ProviderFault t)"
proof -
  have cases: "b1 \<or> b2 \<or> b3 \<or> (\<not> b1 \<and> \<not> b2 \<and> \<not> b3)" for b1 b2 b3 :: bool by blast
  show ?thesis
    using cases [of "st = ''Ready''" "st = ''Request Moderated'' \<or> st = ''Content Moderated''" "st = ''Error'' \<or> st = ''Task not found''"]
      assms unfolding bfl_status_def
    by (elim disjE) (simp_all split: if_split_asm, blast+)
qed

lemma bfl_once_refusal:
  assumes "bfl_once nt p u l = (Some (Inl e), l')" "named_refusal e"
  obtains s sample where "bflPollOnce nt p u l = (Inr (s, sample), l')" "e = ErrContentPolicyRejected"
    "s \<in> {''Request Moderated'', ''Content Moderated''}"
proof -
  obtain x where x: "bflPollOnce nt p u l = (x, l')"
    using assms(1) by (auto simp: bfl_once_def split: prod.splits sum.splits)
  show thesis
  proof (cases x)
    case (Inl e')
    with assms(1) x have "json_call nt bfl_refused decode_bfl_result (bfl_get p u) l = (Inl e, l')"
      by (auto simp: bfl_once_def bflPollOnce_def)
    with assms(2) show ?thesis by (auto dest!: json_call_named decode_bfl_result_named)
  next
    case (Inr y)
    obtain st sample where y: "y = (st, sample)" by fastforce
    with assms(1) x Inr have st: "bfl_status st sample = Some (Inl e)" by (simp add: bfl_once_def)
    with assms(2) have "e = ErrContentPolicyRejected \<and> st \<in> {''Request Moderated'', ''Content Moderated''}"
      by (auto dest: bfl_status_refusal)
    with x Inr y show ?thesis by (intro that) auto
  qed
qed

lemma download_unnamed: "download bfl_refused nt u l = (Inl e, l') \<Longrightarrow> \<not> named_refusal e"
  by (auto simp: download_def exchange_def split: if_splits http_answer.splits http_body.splits)

lemma bflPoll_returns:
  assumes "\<forall>n \<ge> N. nt_stop nt n"
  obtains r qs where "bflPoll escape nt p sub l = Some (r, l @ qs)" "length (l @ qs) \<le> max N (Suc (length l))"
    "\<forall>q \<in> set qs. free_read q"
    "\<And>e. r = Inl e \<Longrightarrow> named_refusal e \<Longrightarrow> e = ErrContentPolicyRejected \<and>
       (\<exists>u l1 s sample. bflPollOnce nt p u l1 = (Inr (s, sample), l @ qs) \<and> s \<in> {''Request Moderated'', ''Content Moderated''})"
proof -
  define u where "u = (if snd sub = '''' then fb_base_url p @ ''/v1/get_result?id='' @ escape (fst sub) else snd sub)"
  obtain r l' where *: "bflPoll escape nt p sub l = Some (r, l')" "length l' \<le> max N (Suc (length l))"
    "bfl_polling.ended nt p u (nt_stop nt) (Inl context_error) l r l'"
    using bfl_polling.returns [of N "nt_stop nt" l N nt p u "Inl context_error"] assms by (auto simp: bflPoll_def u_def)
  then obtain qs where qs: "l' = l @ qs" "\<forall>q \<in> set qs. free_read q"
    "r = Inl context_error \<or> (\<exists>l1. bfl_once nt p u l1 = (Some r, l'))"
    by (auto simp: bfl_polling.ended_def)
  show thesis
  proof (rule that [of r qs])
    fix e assume e: "r = Inl e" "named_refusal e"
    with qs obtain l1 where "bfl_once nt p u l1 = (Some (Inl e), l')" by auto
    then show "e = ErrContentPolicyRejected \<and> (\<exists>u l1 s sample. bflPollOnce nt p u l1 = (Inr (s, sample), l @ qs)
      \<and> s \<in> {''Request Moderated'', ''Content Moderated''})"
      using e(2) qs(1) by (elim bfl_once_refusal) auto
  qed (use * qs in auto)
qed

text \<open>A call of BFL: bounded, paid once, and its refusals are exactly those of the service.\<close>

lemma bflGenerate_returns:
  assumes "\<forall>n \<ge> N. nt_stop nt n"
  obtains r e qs where "bflGenerate escape nt p req = Some (r, e, qs)" "length qs \<le> Suc (max N 2)"
    "qs = [] \<or> hd qs = bfl_submission p req" "\<forall>q \<in> set (drop 1 qs). free_read q"
    "e = None \<Longrightarrow> \<exists>img. pv_images r = [img] \<and> iu_bytes img \<noteq> []"
    "\<And>err. e = Some err \<Longrightarrow> named_refusal err \<Longrightarrow>
       err = ErrProviderUnpaid \<and> qs = [bfl_submission p req]
         \<and> (\<exists>ct body. nt_answer nt 0 (bfl_submission p req) = Answer 402 ct body)
       \<or> err = ErrContentPolicyRejected \<and> (\<exists>u l1 s sample. bflPollOnce nt p u l1 = (Inr (s, sample), qs)
         \<and> s \<in> {''Request Moderated'', ''Content Moderated''})"
proof (cases "fb_api_key p = '''' \<or> nt_expired nt 0")
  case True
  then show ?thesis
    by (intro that [of no_result "Some (if fb_api_key p = '''' then ProviderFault ''missing API key'' else context_error)" "[]"])
      (auto simp: bflGenerate_def split: if_splits)
next
  case False
  obtain s l where s: "bflSubmit nt p req [] = (s, l)" by fastforce
  then have l: "l = [] \<and> s = Inl (ProviderFault ''build request'') \<or> l = [bfl_submission p req]"
    unfolding bflSubmit_def by (auto dest!: json_call_log)
  show ?thesis
  proof (cases s)
    case (Inl e)
    with s False l show ?thesis
      by (intro that [of no_result "Some e" l]) (auto simp: bflGenerate_def dest!: bflSubmit_refusal)
  next
    case (Inr sub)
    with l have l: "l = [bfl_submission p req]" by auto
    obtain r qs where w: "bflPoll escape nt p sub l = Some (r, l @ qs)" "length (l @ qs) \<le> max N (Suc (length l))"
      "\<forall>q \<in> set qs. free_read q"
      "\<And>e. r = Inl e \<Longrightarrow> named_refusal e \<Longrightarrow> e = ErrContentPolicyRejected \<and>
         (\<exists>u l1 s sample. bflPollOnce nt p u l1 = (Inr (s, sample), l @ qs) \<and> s \<in> {''Request Moderated'', ''Content Moderated''})"
      by (rule bflPoll_returns [OF assms, of escape p sub l]) blast
    show ?thesis
    proof (cases r)
      case (Inl e)
      with s Inr False w l show ?thesis
        by (intro that [of "failed_result (fst sub)" "Some e" "l @ qs"]) (auto simp: bflGenerate_def)
    next
      case u: (Inr u)
      obtain d l' where d: "download bfl_refused nt u (l @ qs) = (d, l')" by fastforce
      with download_log [OF d] obtain qs' where l': "l' = l @ qs @ qs'" "length qs' \<le> 1" "\<forall>q \<in> set qs'. free_read q" by auto
      show ?thesis
      proof (cases d)
        case (Inl e)
        with s Inr False w(1-3) l u d l' download_unnamed [of nt u "l @ qs" e l'] show ?thesis
          by (intro that [of "failed_result (fst sub)" "Some e" l']) (auto simp: bflGenerate_def)
      next
        case img: (Inr x)
        obtain bs ct where x: "x = (bs, ct)" by fastforce
        from s Inr False w(1-3) l u d l' img x download_bytes [of bfl_refused nt u "l @ qs" bs ct l'] show ?thesis
          by (intro that [OF _ _ _ _ _ _]) (auto simp: bflGenerate_def)
      qed
    qed
  qed
qed

section \<open>What an error text keeps of a URL\<close>

lemma split_at_char: "us @ vs = xs @ c # ys \<Longrightarrow> c \<notin> set us \<Longrightarrow> \<exists>zs. vs = zs @ c # ys"
  by (induction us arbitrary: xs) (auto simp: Cons_eq_append_conv)

text \<open>Whatever follows a question mark in the text of an error is the redaction mark, or cannot be a query.\<close>

lemma redact_queries:
  assumes "redact s = xs @ CHR ''?'' # ys"
  shows "ys = [] \<or> \<not> queried (hd ys) \<or> (\<exists>zs. ys = ''<redacted>'' @ zs \<and> (zs = [] \<or> \<not> queried (hd zs)))"
  using assms
proof (induction s arbitrary: xs rule: redact.induct)
  case 1
  then show ?case by simp
next
  case (2 c cs)
  have head: "redact t \<noteq> [] \<Longrightarrow> hd (redact t) = hd t" for t
    by (cases t) auto
  have empty: "redact t = [] \<longleftrightarrow> t = []" for t
    by (cases t) auto
  show ?case
  proof (cases "c = CHR ''?'' \<and> cs \<noteq> [] \<and> queried (hd cs)")
    case True
    let ?r = "redact (dropWhile queried cs)"
    have stop: "?r = [] \<or> \<not> queried (hd ?r)"
      using head empty hd_dropWhile [of queried cs] by metis
    from True "2.prems" have eq: "''?<redacted>'' @ ?r = xs @ CHR ''?'' # ys" by simp
    show ?thesis
    proof (cases xs)
      case Nil
      with eq stop show ?thesis by auto
    next
      case (Cons x xs')
      with eq have "''<redacted>'' @ ?r = xs' @ CHR ''?'' # ys" by simp
      then obtain us where "?r = us @ CHR ''?'' # ys" using split_at_char [of "''<redacted>''"] by fastforce
      with "2.IH"(1) True show ?thesis by blast
    qed
  next
    case False
    with "2.prems" have eq: "c # redact cs = xs @ CHR ''?'' # ys" by auto
    show ?thesis
    proof (cases xs)
      case Nil
      with eq have "c = CHR ''?''" "ys = redact cs" by auto
      with False head [of cs] empty [of cs] show ?thesis by auto
    next
      case (Cons x xs')
      with eq have "redact cs = xs' @ CHR ''?'' # ys" by simp
      with "2.IH"(2) False show ?thesis by blast
    qed
  qed
qed

lemma errorDetail_cases: "errorDetail body = '''' \<or> (\<exists>s. errorDetail body = '': '' @ redact s)"
proof (cases body)
  case (Content s)
  then show ?thesis unfolding errorDetail_def Let_def by (simp only: http_body.case split: if_split) blast
qed (simp add: errorDetail_def)

text \<open>The error of a refused call of fal repeats no query of a URL its body echoes.\<close>

lemma fal_refused_redacted:
  assumes "fal_refused st body = ProviderFault t" "t = xs @ CHR ''?'' # ys"
  shows "ys = [] \<or> \<not> queried (hd ys) \<or> (\<exists>zs. ys = ''<redacted>'' @ zs \<and> (zs = [] \<or> \<not> queried (hd zs)))"
proof -
  from assms have t: "''returned status'' @ errorDetail body = xs @ CHR ''?'' # ys" by (simp add: fal_refused_def)
  from errorDetail_cases [of body] show ?thesis
  proof (elim disjE exE)
    assume "errorDetail body = ''''"
    with t have "CHR ''?'' \<in> set ''returned status''" by (metis append.right_neutral in_set_conv_decomp)
    then show ?thesis by simp
  next
    fix s assume "errorDetail body = '': '' @ redact s"
    with t have "(''returned status: '') @ redact s = xs @ CHR ''?'' # ys" by simp
    moreover have "CHR ''?'' \<notin> set ''returned status: ''" by simp
    ultimately obtain us where "redact s = us @ CHR ''?'' # ys" using split_at_char by metis
    then show ?thesis by (rule redact_queries)
  qed
qed

end
