(* ===== verification/Provider_Registry.thy ===== *)
theory Provider_Registry
  imports Http_Adapters "HOL-Library.AList"
begin

text \<open>
  Which providers a process has: the deterministic mock (\<open>internal/providers/mock/mock.go\<close>), the
  registry (\<open>registry.go\<close>), its assembly from the configuration (\<open>bootstrap/bootstrap.go\<close>), and what each
  adapter advertises. SHA-256, its hex text and the PNG encoder are parameters.
\<close>

section \<open>The mock provider\<close>

type_synonym pixel = "nat \<times> nat \<times> nat \<times> nat"

record codec =
  cd_sha256 :: "string \<Rightarrow> nat list"
  cd_hex :: "nat list \<Rightarrow> string"
  cd_png :: "int \<Rightarrow> int \<Rightarrow> pixel list \<Rightarrow> string option"

text \<open>Every part is hashed with a zero byte after it.\<close>

definition nul_terminated :: "string list \<Rightarrow> string" where
  "nul_terminated ps = concat (map (\<lambda>p. p @ [CHR 0x00]) ps)"

definition hashKey :: "codec \<Rightarrow> string list \<Rightarrow> string" where
  "hashKey cd ps = take 16 (cd_hex cd (cd_sha256 cd (nul_terminated ps)))"

definition hashPrompt :: "codec \<Rightarrow> string \<Rightarrow> string \<Rightarrow> string" where
  "hashPrompt cd prompt negative = cd_hex cd (cd_sha256 cd (prompt @ [CHR 0x00] @ negative))"

definition dimensionsFor :: "'a gen_request_scheme \<Rightarrow> int \<times> int" where
  "dimensionsFor req =
     (if 0 < gr_width req \<and> 0 < gr_height req then (gr_width req, gr_height req)
      else if gr_aspect_ratio req = ''16:9'' then (1024, 576)
      else if gr_aspect_ratio req = ''9:16'' then (576, 1024)
      else if gr_aspect_ratio req = ''4:3'' then (1024, 768)
      else if gr_aspect_ratio req = ''3:4'' then (768, 1024)
      else (512, 512))"

text \<open>Eight by eight cells, coloured by three bytes of the digest each; \<open>div\<close> is on positive numbers.\<close>

definition mock_pixel :: "nat list \<Rightarrow> int \<Rightarrow> int \<Rightarrow> int \<Rightarrow> int \<Rightarrow> pixel" where
  "mock_pixel digest cellW cellH x y =
     (let i = nat ((y div cellH * 8 + x div cellW) mod int (length digest))
      in (digest ! i, digest ! ((i + 11) mod length digest), digest ! ((i + 23) mod length digest), 255))"

definition deterministicPNG :: "codec \<Rightarrow> int \<Rightarrow> int \<Rightarrow> string list \<Rightarrow> string option" where
  "deterministicPNG cd width height parts =
     (let digest = cd_sha256 cd (nul_terminated parts);
          cellW = (if width div 8 = 0 then 1 else width div 8);
          cellH = (if height div 8 = 0 then 1 else height div 8)
      in cd_png cd width height
           (concat (map (\<lambda>y. map (\<lambda>x. mock_pixel digest cellW cellH x y) [0..width - 1]) [0..height - 1])))"

text \<open>The statuses the mock remembers, by job identifier; \<open>mock_request\<close> has the fields it reads.\<close>

record mock_request = seeded_request +
  gr_job_id :: string

type_synonym mock_jobs = "string \<rightharpoonup> string \<times> provider_image list"

definition mockGenerate ::
    "codec \<Rightarrow> bool \<Rightarrow> mock_jobs \<Rightarrow> mock_request \<Rightarrow> provider_result \<times> provider_error option \<times> mock_jobs" where
  "mockGenerate cd expired jobs req =
     (if expired then (no_result, Some context_error, jobs)
      else (let (w, h) = dimensionsFor req in
        case deterministicPNG cd w h [gr_prompt req, gr_seed req] of
          None \<Rightarrow> (no_result, Some (ProviderFault ''render placeholder''), jobs)
        | Some img \<Rightarrow>
            let i = ''mock_'' @ hashKey cd [gr_job_id req, gr_prompt req, gr_seed req];
                imgs = [\<lparr>iu_url = '''', iu_bytes = img, iu_content_type = ''image/png'', iu_width = w, iu_height = h\<rparr>]
            in (\<lparr>pv_job_id = i, pv_request_id = i, pv_status = ''completed'', pv_images = imgs,
                 pv_prompt_hash = hashPrompt cd (gr_prompt req) (gr_negative_prompt req), pv_seed = gr_seed req,
                 pv_metadata = [(''provider'', ''mock''), (''model'', ''mock-v1'')]\<rparr>,
                None, jobs(i \<mapsto> (''completed'', imgs)))))"

definition mockPollStatus :: "bool \<Rightarrow> mock_jobs \<Rightarrow> string \<Rightarrow> provider_error + string \<times> provider_image list" where
  "mockPollStatus expired jobs i =
     (if expired then Inl context_error
      else (case jobs i of None \<Rightarrow> Inl (ProviderFault ''unknown provider job id'') | Some s \<Rightarrow> Inr s))"

text \<open>The mock enlarges by rendering a placeholder of the scaled size.\<close>

definition mockUpscale :: "codec \<Rightarrow> bool \<Rightarrow> string \<Rightarrow> string \<Rightarrow> int \<Rightarrow> provider_result \<times> provider_error option" where
  "mockUpscale cd expired job source factor =
     (if expired then (no_result, Some context_error)
      else (let scale = (if factor < 1 then 2 else factor); w = 512 * scale in
        case deterministicPNG cd w w [source, ''upscale-'' @ itoa scale] of
          None \<Rightarrow> (no_result, Some (ProviderFault ''render upscale''))
        | Some img \<Rightarrow>
            let i = ''mock_upscale_'' @ hashKey cd [job, source, itoa scale]
            in (\<lparr>pv_job_id = i, pv_request_id = i, pv_status = ''completed'',
                 pv_images = [\<lparr>iu_url = '''', iu_bytes = img, iu_content_type = ''image/png'', iu_width = w, iu_height = w\<rparr>],
                 pv_prompt_hash = '''', pv_seed = '''',
                 pv_metadata = [(''provider'', ''mock''), (''model'', ''mock-v1''), (''operation'', ''upscale'')]\<rparr>, None)))"

section \<open>What the adapters advertise\<close>

record adapter_capabilities = provider_capabilities +
  pc_provider_id :: string
  pc_model_name :: string
  pc_preview :: string
  pc_high_res :: bool
  pc_max_batch :: int
  pc_aspects :: "string list"
  pc_requires_reference :: bool

definition all_aspects :: "string list" where
  "all_aspects = [''1:1'', ''16:9'', ''9:16'', ''4:3'', ''3:4'']"

definition mockCapabilities :: adapter_capabilities where
  "mockCapabilities = \<lparr>pc_capabilities = [CapabilitySceneCapable, CapabilityIdentityCapable, CapabilityPackCapable,
       CapabilityProductionCapable], pc_synthetic = True, pc_provider_id = ''mock'', pc_model_name = ''mock-v1'',
     pc_preview = ''true_preview'', pc_high_res = True, pc_max_batch = 4, pc_aspects = all_aspects, pc_requires_reference = False\<rparr>"

definition bflCapabilities :: adapter_capabilities where
  "bflCapabilities = \<lparr>pc_capabilities = [CapabilityDraftOnly, CapabilitySceneCapable], pc_synthetic = False,
     pc_provider_id = ''bfl'', pc_model_name = ''flux-pro-1.1'', pc_preview = ''no_preview'', pc_high_res = False,
     pc_max_batch = 1, pc_aspects = all_aspects, pc_requires_reference = False\<rparr>"

definition falCapabilities :: "fal \<Rightarrow> adapter_capabilities" where
  "falCapabilities p =
     (if fa_prompt_only p
      then \<lparr>pc_capabilities = [CapabilitySceneCapable], pc_synthetic = False, pc_provider_id = ProviderIDFluxPro11,
        pc_model_name = ''flux-pro-1.1'', pc_preview = ''no_preview'', pc_high_res = False, pc_max_batch = 1,
        pc_aspects = all_aspects, pc_requires_reference = False\<rparr>
      else \<lparr>pc_capabilities = [CapabilitySceneCapable, CapabilityIdentityCapable, CapabilityPackCapable], pc_synthetic = False,
        pc_provider_id = (if fa_kontext_dev p then ProviderIDKontextDev else ProviderIDFal),
        pc_model_name = (if fa_kontext_dev p then ''flux-kontext-dev'' else ''flux-pro-kontext-multi''),
        pc_preview = ''no_preview'', pc_high_res = False, pc_max_batch = 1, pc_aspects = all_aspects,
        pc_requires_reference = True\<rparr>)"

datatype adapter = Mock | Bfl bfl | Fal fal

primrec capabilities :: "adapter \<Rightarrow> adapter_capabilities" where
  "capabilities Mock = mockCapabilities"
| "capabilities (Bfl p) = bflCapabilities"
| "capabilities (Fal p) = falCapabilities p"

section \<open>The registry of a process\<close>

type_synonym registry = "(string \<times> adapter) list"

definition register :: "registry \<Rightarrow> string \<Rightarrow> adapter \<Rightarrow> registry" where
  "register r i a = AList.update i a r"

definition available :: "registry \<Rightarrow> string list" where
  "available r = map fst r"

definition capability_index_of :: "registry \<Rightarrow> capability_index" where
  "capability_index_of r = map (\<lambda>(i, a). (i, provider_capabilities.truncate (capabilities a))) r"

definition Registry :: "config \<Rightarrow> registry" where
  "Registry c =
     (let r = register [] ''mock'' Mock;
          r = (if cf_bfl_api_key c \<noteq> '''' then register r ''bfl'' (Bfl (newBfl (cf_bfl_api_key c) [withSafetyTolerance (cf_bfl_safety_tolerance c)])) else r);
          r = (if cf_fal_key c \<noteq> ''''
               then (let r = register r ProviderIDFal (Fal (newFal (cf_fal_key c) []));
                         r = register r ProviderIDKontextDev (Fal (newKontextDev (cf_fal_key c) [withSafetyChecker (cf_fal_safety_checker c)]))
                     in register r ProviderIDFluxPro11 (Fal (newFluxPro11 (cf_fal_key c) [withSafetyChecker (cf_fal_safety_checker c)])))
               else r)
      in r)"

text \<open>What the worker asks of the registry: whether a provider is there and needs references.\<close>

definition adapter_port :: "registry \<Rightarrow> string \<Rightarrow> bool option" where
  "adapter_port r i = map_option (\<lambda>a. pc_requires_reference (capabilities a)) (map_of r i)"

text \<open>The resolver as the API process wires it from its configuration.\<close>

definition wired_resolver :: "config \<Rightarrow> (string \<Rightarrow> error + route list) \<Rightarrow> resolver" where
  "wired_resolver c source = \<lparr>rs_source = source, rs_available = available (Registry c),
     rs_capabilities = capability_index_of (Registry c), rs_allow_synthetic = cf_allow_synthetic_providers c\<rparr>"

section \<open>What the registry holds\<close>

lemma Registry_entries:
  "Registry c =
     (''mock'', Mock)
     # (if cf_bfl_api_key c \<noteq> '''' then [(''bfl'', Bfl (newBfl (cf_bfl_api_key c) [withSafetyTolerance (cf_bfl_safety_tolerance c)]))] else [])
     @ (if cf_fal_key c \<noteq> ''''
        then [(ProviderIDFal, Fal (newFal (cf_fal_key c) [])),
              (ProviderIDKontextDev, Fal (newKontextDev (cf_fal_key c) [withSafetyChecker (cf_fal_safety_checker c)])),
              (ProviderIDFluxPro11, Fal (newFluxPro11 (cf_fal_key c) [withSafetyChecker (cf_fal_safety_checker c)]))]
        else [])"
  by (simp add: Registry_def register_def Let_def)

lemma new_fal_simps [simp]:
  "fa_api_key (newFal k []) = k" "fa_kontext_dev (newFal k []) = False" "fa_prompt_only (newFal k []) = False"
  "fa_api_key (newKontextDev k [withSafetyChecker b]) = k" "fa_kontext_dev (newKontextDev k [withSafetyChecker b]) = True"
  "fa_prompt_only (newKontextDev k [withSafetyChecker b]) = False"
  "fa_api_key (newFluxPro11 k [withSafetyChecker b]) = k" "fa_prompt_only (newFluxPro11 k [withSafetyChecker b]) = True"
  by (simp_all add: newFal_def newKontextDev_def newFluxPro11_def withSafetyChecker_def Let_def)

lemma caps_of_index:
  "caps_of (capability_index_of r) i
   = (case map_of r i of None \<Rightarrow> \<lparr>pc_capabilities = [], pc_synthetic = False\<rparr> | Some a \<Rightarrow> provider_capabilities.truncate (capabilities a))"
proof -
  have "map_of (map (\<lambda>(i, a). (i, f a)) r) i = map_option f (map_of r i)" for f :: "adapter \<Rightarrow> provider_capabilities"
    by (induction r) auto
  thus ?thesis by (simp add: caps_of_def capability_index_of_def split: option.split)
qed

text \<open>Every entry of the registry, and those of fal.\<close>

lemma registered_entry:
  assumes "map_of (Registry c) i = Some a"
  shows "(i, a) = (''mock'', Mock)
    \<or> (i, a) = (''bfl'', Bfl (newBfl (cf_bfl_api_key c) [withSafetyTolerance (cf_bfl_safety_tolerance c)]))
    \<or> cf_fal_key c \<noteq> '''' \<and> (i, a) \<in> {(ProviderIDFal, Fal (newFal (cf_fal_key c) [])),
         (ProviderIDKontextDev, Fal (newKontextDev (cf_fal_key c) [withSafetyChecker (cf_fal_safety_checker c)])),
         (ProviderIDFluxPro11, Fal (newFluxPro11 (cf_fal_key c) [withSafetyChecker (cf_fal_safety_checker c)]))}"
  using map_of_SomeD [OF assms] unfolding Registry_entries by (simp only: set_simps set_append Un_iff insert_iff empty_iff split: if_splits) auto

lemma registered_fal:
  assumes "map_of (Registry c) i = Some (Fal p)"
  shows "cf_fal_key c \<noteq> '''' \<and> i = ProviderIDFal \<and> p = newFal (cf_fal_key c) []
    \<or> cf_fal_key c \<noteq> '''' \<and> i = ProviderIDKontextDev \<and> p = newKontextDev (cf_fal_key c) [withSafetyChecker (cf_fal_safety_checker c)]
    \<or> cf_fal_key c \<noteq> '''' \<and> i = ProviderIDFluxPro11 \<and> p = newFluxPro11 (cf_fal_key c) [withSafetyChecker (cf_fal_safety_checker c)]"
  using registered_entry [OF assms] by simp

lemma registered_id: "map_of (Registry c) i = Some a \<Longrightarrow> pc_provider_id (capabilities a) = i"
  by (drule registered_entry) (elim disjE conjE insertE; simp add: mockCapabilities_def bflCapabilities_def falCapabilities_def)

text \<open>What the registry offers is selectable, and what is selectable is offered.\<close>

lemma wired_agree: "set (rs_available (wired_resolver c source)) = fst ` set (rs_capabilities (wired_resolver c source))"
  by (auto simp: wired_resolver_def available_def capability_index_of_def image_image case_prod_beta)

text \<open>Only the two reference-conditioned endpoints back work on the identity axis.\<close>

lemma identity_axis_backed:
  assumes "map_of (Registry c) i = Some a" "\<not> pc_synthetic (capabilities a)"
    "capabilitiesSatisfy (pc_capabilities (capabilities a)) n" "n = CapabilityIdentityCapable \<or> n = CapabilityPackCapable \<or> n = CapabilityProductionCapable"
  shows "\<exists>p. a = Fal p \<and> \<not> fa_prompt_only p \<and> fa_api_key p \<noteq> '''' \<and> fa_api_key p = cf_fal_key c
    \<and> (i = ProviderIDFal \<or> i = ProviderIDKontextDev)"
proof (cases a)
  case Mock
  with assms(2) show ?thesis by (simp add: mockCapabilities_def)
next
  case (Bfl p)
  with assms(3,4) show ?thesis
    by (auto simp: bflCapabilities_def capabilitiesSatisfy_def capabilitySatisfies_iff)
next
  case (Fal p)
  have "\<not> fa_prompt_only p"
    using Fal assms(3,4) by (auto simp: falCapabilities_def capabilitiesSatisfy_def capabilitySatisfies_iff)
  moreover have "fa_api_key p \<noteq> '''' \<and> fa_api_key p = cf_fal_key c \<and> (i = ProviderIDFal \<or> i = ProviderIDKontextDev \<or> fa_prompt_only p)"
    using registered_fal [OF assms(1) [unfolded Fal]] by (elim disjE) simp_all
  ultimately show ?thesis using Fal by blast
qed

text \<open>A conditioned endpoint sends nothing without a reference, and with one the request names it.\<close>

lemma conditioned_body:
  assumes "\<not> fa_prompt_only p" "gr_reference_urls req = u # us"
  shows "fal_body p req (if fa_kontext_dev p then ''image_url'' else ''image_urls'')
    = Some (if fa_kontext_dev p then JStr u else JArr (map JStr (u # us)))"
  using assms by (auto simp: fal_body_def Let_def add_seed_def split: option.split)

lemma conditioned_refuses:
  "\<not> fa_prompt_only p \<Longrightarrow> fa_api_key p \<noteq> '''' \<Longrightarrow> gr_reference_urls req = []
    \<Longrightarrow> falGenerate nt p req = Some (no_result, Some ErrReferenceRequired, [])"
  by (simp add: falGenerate_def)

text \<open>The capability a surviving route claims is on the identity axis when the request asks for one there.\<close>

lemma asked_on_axis:
  assumes "survives r req rt" "qr_required_capability req = CapabilityIdentityCapable \<or> qr_required_capability req = CapabilityPackCapable
      \<or> qr_required_capability req = CapabilityProductionCapable"
  shows "ro_required_capability rt = CapabilityIdentityCapable \<or> ro_required_capability rt = CapabilityPackCapable
      \<or> ro_required_capability rt = CapabilityProductionCapable"
proof -
  have "meets_capability req rt" using assms by (auto simp: survives_def)
  thus ?thesis using assms(2) unfolding meets_capability_def capabilitySatisfies_iff by (auto split: if_splits)
qed

lemma conditioned_route:
  assumes "candidates (wired_resolver c source) req = Inr cs" "rt \<in> set cs" "\<not> cf_allow_synthetic_providers c"
    "qr_required_capability req = CapabilityIdentityCapable \<or> qr_required_capability req = CapabilityPackCapable
      \<or> qr_required_capability req = CapabilityProductionCapable"
  obtains p where "map_of (Registry c) (ro_provider_id rt) = Some (Fal p)" "\<not> fa_prompt_only p" "fa_api_key p \<noteq> ''''"
    "fa_api_key p = cf_fal_key c" "ro_provider_id rt = ProviderIDFal \<or> ro_provider_id rt = ProviderIDKontextDev"
proof -
  let ?r = "wired_resolver c source" and ?i = "ro_provider_id rt"
  from candidates_Inr [OF assms(1)] assms(2) have s: "survives ?r req rt" by auto
  note axis = asked_on_axis [OF s assms(4)]
  have "rs_capabilities ?r \<noteq> []" by (simp add: wired_resolver_def capability_index_of_def Registry_entries)
  with s have "backed ?r rt" by (simp add: survives_def)
  with axis assms(3) have b: "providerSatisfiesRoute (caps_of (capability_index_of (Registry c)) ?i) (ro_required_capability rt) False"
    by (auto simp: backed_def wired_resolver_def)
  obtain a where a: "map_of (Registry c) ?i = Some a"
    using b by (cases "map_of (Registry c) ?i") (auto simp: caps_of_index providerSatisfiesRoute_def capabilitiesSatisfy_def)
  from b a have "\<not> pc_synthetic (capabilities a)" "capabilitiesSatisfy (pc_capabilities (capabilities a)) (ro_required_capability rt)"
    by (simp_all add: caps_of_index providerSatisfiesRoute_def provider_capabilities.truncate_def split: if_splits)
  with identity_axis_backed [OF a _ _ axis] a that show thesis by blast
qed

end
