(* ===== verification/Background.thy ===== *)
theory Background
  imports Provider_Registry Chroma
begin

text \<open>
  Removing the background of a render, \<open>internal/jobs/background.go\<close>: the two hosted removers, the local
  chroma key with its fallback, and the remover the worker process wires from its configuration
  (\<open>cmd/worker/main.go\<close>). Base64, the image decoders and the PNG encoder are parameters; the requests are
  those of \<open>Http_Adapters\<close>.
\<close>

section \<open>Hosted removers\<close>

record image_codec =
  ic_base64 :: "string \<Rightarrow> string"
  ic_unbase64 :: "string \<Rightarrow> string option"
  ic_decode :: "string \<Rightarrow> picture option"
  ic_png :: "nat \<Rightarrow> nat \<Rightarrow> color4 list \<Rightarrow> string option"

text \<open>The errors of a removal, by kind; a refused status carries the start of the answer.\<close>

datatype removal_error =
    ResolutionNeedsDynamic
  | RequestFailed
  | ReadFailed
  | RefusedStatus string
  | MalformedAnswer
  | NoImageInAnswer
  | MalformedDataURI
  | NoFallback

record birefnet =
  br_base_url :: string
  br_api_key :: string
  br_model :: string
  br_operating_resolution :: string

record ideogram =
  id_base_url :: string
  id_api_key :: string

abbreviation BirefnetModelPortrait :: string where "BirefnetModelPortrait \<equiv> ''Portrait''"
abbreviation BirefnetModelDynamic :: string where "BirefnetModelDynamic \<equiv> ''General Use (Dynamic)''"
abbreviation birefnetResolutionHigh :: string where "birefnetResolutionHigh \<equiv> ''2304x2304''"

definition or_default :: "string \<Rightarrow> string \<Rightarrow> string" where
  "or_default s d = (if s = '''' then d else s)"

definition data_uri :: "image_codec \<Rightarrow> provider_image \<Rightarrow> string" where
  "data_uri ic img = ''data:'' @ or_default (iu_content_type img) ''image/png'' @ '';base64,'' @ ic_base64 ic (iu_bytes img)"

text \<open>\<open>strings.TrimRight(s, "/")\<close>.\<close>

definition trimSlashes :: "string \<Rightarrow> string" where
  "trimSlashes s = rev (dropWhile (\<lambda>c. c = CHR ''/'') (rev s))"

definition removal_request :: "string \<Rightarrow> string \<Rightarrow> string \<Rightarrow> payload \<Rightarrow> http_request" where
  "removal_request base path key body = \<lparr>hr_method = ''POST'', hr_url = trimSlashes base @ path,
     hr_auth = Some (''Authorization'', ''Key '' @ key), hr_json = Some body\<rparr>"

definition birefnet_body :: "image_codec \<Rightarrow> string \<Rightarrow> string \<Rightarrow> provider_image \<Rightarrow> payload" where
  "birefnet_body ic model resolution img =
     [''image_url'' \<mapsto> JStr (data_uri ic img), ''model'' \<mapsto> JStr model, ''operating_resolution'' \<mapsto> JStr resolution,
      ''refine_foreground'' \<mapsto> JBool True, ''output_format'' \<mapsto> JStr ''png'', ''sync_mode'' \<mapsto> JBool True]"

definition ideogram_body :: "image_codec \<Rightarrow> provider_image \<Rightarrow> payload" where
  "ideogram_body ic img = [''image_url'' \<mapsto> JStr (data_uri ic img), ''sync_mode'' \<mapsto> JBool True]"

text \<open>The result comes inline as a data URI or as a URL, which is fetched without the key.\<close>

definition fetchRemovalResult :: "image_codec \<Rightarrow> net \<Rightarrow> string \<Rightarrow> log \<Rightarrow> (removal_error + string) \<times> log" where
  "fetchRemovalResult ic nt u l =
     (if take 5 u = ''data:''
      then (case dropWhile (\<lambda>c. c \<noteq> CHR '','') u of
              [] \<Rightarrow> (Inl MalformedDataURI, l)
            | _ # b64 \<Rightarrow> (case ic_unbase64 ic b64 of None \<Rightarrow> (Inl MalformedDataURI, l) | Some bs \<Rightarrow> (Inr bs, l)))
      else (case exchange nt (download_request u) l of
              (Inl _, l') \<Rightarrow> (Inl RequestFailed, l')
            | (Inr (st, _, body), l') \<Rightarrow>
                (if \<not> ok_status st then Inl (RefusedStatus '''')
                 else (case body of Unreadable \<Rightarrow> Inl ReadFailed | Content s \<Rightarrow> Inr (take maxImageBytes s)), l')))"

text \<open>The URL in the answer, \<open>image.url\<close>.\<close>

definition removal_url :: "payload \<Rightarrow> removal_error + string" where
  "removal_url p =
     (let inner = (case p ''image'' of None \<Rightarrow> Some Map.empty | Some JNull \<Rightarrow> Some Map.empty
                   | Some (JObj kvs) \<Rightarrow> Some (map_of kvs) | Some _ \<Rightarrow> None)
      in case (Option.bind inner (\<lambda>m. string_field m ''url''), Option.bind inner (\<lambda>m. string_field m ''content_type'')) of
           (Some u, Some _) \<Rightarrow> if u = '''' then Inl NoImageInAnswer else Inr u
         | _ \<Rightarrow> Inl MalformedAnswer)"

text \<open>Both hosted removers post the render, read the answer under the cap, and resolve its image.\<close>

definition post_and_fetch ::
    "image_codec \<Rightarrow> net \<Rightarrow> http_request \<Rightarrow> log \<Rightarrow> (removal_error + provider_image) \<times> log" where
  "post_and_fetch ic nt q l =
     (case exchange nt q l of
        (Inl _, l') \<Rightarrow> (Inl RequestFailed, l')
      | (Inr (st, _, body), l') \<Rightarrow>
          (case body of
             Unreadable \<Rightarrow> (Inl ReadFailed, l')
           | Content s \<Rightarrow>
               let raw = take maxImageBytes s
               in if \<not> ok_status st then (Inl (RefusedStatus (take 300 raw)), l')
                  else (case nt_parse nt raw of
                          None \<Rightarrow> (Inl MalformedAnswer, l')
                        | Some p \<Rightarrow>
                            (case removal_url p of
                               Inl e \<Rightarrow> (Inl e, l')
                             | Inr u \<Rightarrow>
                                 (case fetchRemovalResult ic nt u l' of
                                    (Inl e, l'') \<Rightarrow> (Inl e, l'')
                                  | (Inr bs, l'') \<Rightarrow>
                                      (Inr \<lparr>iu_url = '''', iu_bytes = bs, iu_content_type = ''image/png'', iu_width = 0, iu_height = 0\<rparr>,
                                       l''))))))"

definition birefnetRemove :: "image_codec \<Rightarrow> net \<Rightarrow> birefnet \<Rightarrow> provider_image \<Rightarrow> log \<Rightarrow> (removal_error + provider_image) \<times> log" where
  "birefnetRemove ic nt b img l =
     (let model = or_default (br_model b) BirefnetModelPortrait; resolution = or_default (br_operating_resolution b) ''1024x1024''
      in if resolution = birefnetResolutionHigh \<and> model \<noteq> BirefnetModelDynamic then (Inl ResolutionNeedsDynamic, l)
         else post_and_fetch ic nt
                (removal_request (br_base_url b) ''/fal-ai/birefnet/v2'' (br_api_key b) (birefnet_body ic model resolution img)) l)"

definition ideogramRemove :: "image_codec \<Rightarrow> net \<Rightarrow> ideogram \<Rightarrow> provider_image \<Rightarrow> log \<Rightarrow> (removal_error + provider_image) \<times> log" where
  "ideogramRemove ic nt g img l =
     post_and_fetch ic nt
       (removal_request (id_base_url g) ''/fal-ai/ideogram/remove-background'' (id_api_key g) (ideogram_body ic img)) l"

section \<open>The local key and its fallback\<close>

datatype remover =
    Birefnet birefnet
  | Ideogram ideogram
  | ChromaKey "chroma_options option" "remover option"

definition key_options :: "chroma_options option \<Rightarrow> chroma_options" where
  "key_options opts = (case opts of None \<Rightarrow> defaultChromaKeyOptions | Some o' \<Rightarrow> o')"

definition png_image :: "picture \<Rightarrow> string \<Rightarrow> provider_image" where
  "png_image pic bs = \<lparr>iu_url = '''', iu_bytes = bs, iu_content_type = ''image/png'', iu_width = int (pc_w pic), iu_height = int (pc_h pic)\<rparr>"

text \<open>Cleaning a matte is best effort: what cannot be decoded, despilled or encoded stays as it came.\<close>

definition despillRemoved :: "float_math \<Rightarrow> image_codec \<Rightarrow> chroma_options option \<Rightarrow> provider_image \<Rightarrow> provider_image option" where
  "despillRemoved fm ic opts m =
     (case ic_decode ic (iu_bytes m) of
        None \<Rightarrow> Some m
      | Some pic \<Rightarrow>
          (case despillMatte fm pic (key_options opts) of
             None \<Rightarrow> None
           | Some (Inl _) \<Rightarrow> Some m
           | Some (Inr px) \<Rightarrow> Some (case ic_png ic (pc_w pic) (pc_h pic) px of None \<Rightarrow> m | Some bs \<Rightarrow> png_image pic bs)))"

text \<open>The keyed render when the key accepts it: \<open>Some None\<close> is a refusal, \<open>None\<close> a key that does not return.\<close>

definition keyed_render :: "float_math \<Rightarrow> image_codec \<Rightarrow> chroma_options option \<Rightarrow> provider_image \<Rightarrow> provider_image option option" where
  "keyed_render fm ic opts img =
     (case ic_decode ic (iu_bytes img) of
        None \<Rightarrow> Some None
      | Some pic \<Rightarrow>
          (case chromaKey fm pic (key_options opts) of
             None \<Rightarrow> None
           | Some (Inl _, _) \<Rightarrow> Some None
           | Some (Inr px, _) \<Rightarrow> Some (map_option (png_image pic) (ic_png ic (pc_w pic) (pc_h pic) px))))"

fun remove :: "float_math \<Rightarrow> image_codec \<Rightarrow> net \<Rightarrow> remover \<Rightarrow> provider_image \<Rightarrow> log \<Rightarrow> ((removal_error + provider_image) \<times> log) option" where
  "remove fm ic nt (Birefnet b) img l = Some (birefnetRemove ic nt b img l)"
| "remove fm ic nt (Ideogram g) img l = Some (ideogramRemove ic nt g img l)"
| "remove fm ic nt (ChromaKey opts fallback) img l =
     (case keyed_render fm ic opts img of
        None \<Rightarrow> None
      | Some (Some kd) \<Rightarrow> Some (Inr kd, l)
      | Some None \<Rightarrow>
          (case fallback of
             None \<Rightarrow> Some (Inl NoFallback, l)
           | Some r \<Rightarrow>
               (case remove fm ic nt r img l of
                  None \<Rightarrow> None
                | Some (Inl e, l') \<Rightarrow> Some (Inl e, l')
                | Some (Inr mtt, l') \<Rightarrow> map_option (\<lambda>m. (Inr m, l')) (despillRemoved fm ic opts mtt))))"

section \<open>The remover of a worker process\<close>

definition hosted_remover :: "config \<Rightarrow> remover option" where
  "hosted_remover c =
     (if cf_fal_key c = '''' then None
      else if cf_background_remover c = ''birefnet''
      then Some (Birefnet \<lparr>br_base_url = ''https://fal.run'', br_api_key = cf_fal_key c, br_model = cf_birefnet_model c,
             br_operating_resolution = cf_birefnet_operating_resolution c\<rparr>)
      else Some (Ideogram \<lparr>id_base_url = ''https://fal.run'', id_api_key = cf_fal_key c\<rparr>))"

definition worker_remover :: "config \<Rightarrow> remover option" where
  "worker_remover c =
     (if cf_chroma_key_background_removal c then Some (ChromaKey None (hosted_remover c)) else hosted_remover c)"

definition chromaKeyEnabled :: "remover option \<Rightarrow> bool" where
  "chromaKeyEnabled r = (case r of Some (ChromaKey _ _) \<Rightarrow> True | _ \<Rightarrow> False)"

section \<open>What a removal does\<close>

text \<open>It returns, and what it returns is the keyed render or comes from the answer of the hosted model.\<close>

lemma despillRemoved_total: "\<exists>m'. despillRemoved fm ic opts m = Some m'"
proof (cases "ic_decode ic (iu_bytes m)")
  case (Some pic)
  obtain res where "despillMatte fm pic (key_options opts) = Some res" using despillMatte_total by blast
  with Some show ?thesis by (cases res) (simp_all add: despillRemoved_def)
qed (simp add: despillRemoved_def)

lemma keyed_render_total: "\<exists>k. keyed_render fm ic opts img = Some k"
proof (cases "ic_decode ic (iu_bytes img)")
  case (Some pic)
  obtain res rep where "chromaKey fm pic (key_options opts) = Some (res, rep)" using chromaKey_exact by blast
  with Some show ?thesis by (cases res) (simp_all add: keyed_render_def)
qed (simp add: keyed_render_def)

lemma remove_total: "\<exists>r l'. remove fm ic nt rm img l = Some (r, l')"
proof (induction rm arbitrary: l)
  case (ChromaKey opts fallback)
  obtain k where k: "keyed_render fm ic opts img = Some k" using keyed_render_total by blast
  show ?case
  proof (cases "k = None \<and> fallback \<noteq> None")
    case True
    then obtain r where fb: "fallback = Some r" by auto
    obtain x l' where r: "remove fm ic nt r img l = Some (x, l')" using ChromaKey [of r l] fb by auto
    show ?thesis
    proof (cases x)
      case (Inr m)
      obtain m' where "despillRemoved fm ic opts m = Some m'" using despillRemoved_total by blast
      with k True fb r Inr show ?thesis by simp
    qed (use k True fb r in simp)
  qed (use k in \<open>cases k; cases fallback; simp\<close>)
qed simp_all

text \<open>A removal pays at most one request, which carries the render, and reads at most one result.\<close>

definition removal_log :: "string \<Rightarrow> log \<Rightarrow> log \<Rightarrow> bool" where
  "removal_log uri l l' \<longleftrightarrow> l' = l
     \<or> (\<exists>q. hr_method q = ''POST'' \<and> (\<exists>b. hr_json q = Some b \<and> b ''image_url'' = Some (JStr uri))
          \<and> (l' = l @ [q] \<or> (\<exists>u. l' = l @ [q, download_request u])))"

lemma removal_log_refl [simp]: "removal_log uri l l"
  by (simp add: removal_log_def)

lemma fetchRemovalResult_log:
  "fetchRemovalResult ic nt u l = (r, l') \<Longrightarrow> l' = l \<or> l' = l @ [download_request u]"
  by (auto simp: fetchRemovalResult_def exchange_def split: if_splits list.splits option.splits http_answer.splits)

lemma post_and_fetch_log:
  assumes "post_and_fetch ic nt q l = (r, l')"
  shows "l' = l \<or> l' = l @ [q] \<or> (\<exists>u. l' = l @ [q, download_request u])"
  using assms unfolding post_and_fetch_def exchange_def Let_def
  by (auto split: if_splits http_answer.splits http_body.splits option.splits sum.splits prod.splits dest!: fetchRemovalResult_log)

lemma hosted_log:
  assumes "post_and_fetch ic nt (removal_request base path key body) l = (r, l')" "body ''image_url'' = Some (JStr uri)"
  shows "removal_log uri l l'"
  using post_and_fetch_log [OF assms(1)] assms(2) by (auto simp: removal_log_def removal_request_def)

lemma remove_log: "remove fm ic nt rm img l = Some (r, l') \<Longrightarrow> removal_log (data_uri ic img) l l'"
proof (induction rm arbitrary: r l')
  case (Birefnet b)
  then show ?case
    by (auto simp: birefnetRemove_def Let_def birefnet_body_def split: if_splits dest!: hosted_log [where uri = "data_uri ic img"])
next
  case (Ideogram g)
  then show ?case by (auto simp: ideogramRemove_def ideogram_body_def dest!: hosted_log [where uri = "data_uri ic img"])
next
  case (ChromaKey opts fallback)
  from ChromaKey.prems show ?case
    by (auto split: option.splits sum.splits prod.splits dest: ChromaKey.IH [rotated])
qed

text \<open>With a local key the render goes out only when the key refuses it.\<close>

lemma keyed_without_request:
  "keyed_render fm ic opts img = Some (Some kd) \<Longrightarrow> remove fm ic nt (ChromaKey opts fb) img l = Some (Inr kd, l)"
  by simp

end
