(* ===== verification/Reads.thy ===== *)
theory Reads
  imports Request_Flow Worker_Pack Admin_Cost Config
begin

text \<open>
  Stored objects and the reads over them: the keys and URLs of \<open>internal/storage\<close>, how the worker stores
  the tiers of an image and gathers reference URLs (\<open>jobs/worker.go\<close>), and the handlers that read:
  \<open>assets_handler.go\<close>, \<open>jobs_handler.go\<close>, \<open>admin_jobs_handler.go\<close> and the reports of \<open>admincost\<close>. The object
  store, its signer and the encoder of the tiers are parameters; so is \<open>cols\<close>, the three URL columns of
  an asset, which the rows of the model leave out. \<open>rd i\<close> is the database at the \<open>i\<close>-th read of a request.
\<close>

section \<open>Keys and canonical URLs\<close>

datatype asset_variant = VariantHigh | VariantLow | VariantThumb

primrec variant_text :: "asset_variant \<Rightarrow> string" where
  "variant_text VariantHigh = ''high''"
| "variant_text VariantLow = ''low''"
| "variant_text VariantThumb = ''thumb''"

text \<open>\<open>strings.TrimPrefix\<close> of one character.\<close>

definition trim_prefix :: "char \<Rightarrow> string \<Rightarrow> string" where
  "trim_prefix c s = (case s of [] \<Rightarrow> [] | x # xs \<Rightarrow> if x = c then xs else s)"

definition CanonicalURL :: "string \<Rightarrow> string \<Rightarrow> string" where
  "CanonicalURL bucket key = ''s3://'' @ bucket @ ''/'' @ trim_prefix (CHR ''/'') key"

definition KeyFromCanonicalURL :: "string \<Rightarrow> string option" where
  "KeyFromCanonicalURL u =
     (if take 5 u \<noteq> ''s3://'' then None
      else (case dropWhile (\<lambda>c. c \<noteq> CHR ''/'') (drop 5 u) of
              [] \<Rightarrow> None
            | _ # key \<Rightarrow> if key = '''' then None else Some key))"

definition ObjectKey :: "string \<Rightarrow> asset_variant \<Rightarrow> string \<Rightarrow> string" where
  "ObjectKey i v ext = ''assets/'' @ i @ ''/'' @ variant_text v @ ''.'' @ trim_prefix (CHR ''.'') ext"

abbreviation TierFileExtension :: string where "TierFileExtension \<equiv> ''avif''"
abbreviation TierContentType :: string where "TierContentType \<equiv> ''image/avif''"

section \<open>Storing an image and gathering references\<close>

definition strVal :: "string option \<Rightarrow> string" where
  "strVal s = (case s of None \<Rightarrow> '''' | Some x \<Rightarrow> x)"

record stored_urls =
  uc_high :: "string option"
  uc_low :: "string option"
  uc_thumb :: "string option"

text \<open>\<open>put\<close> writes one object: its URL, or an error. The three writes are in this order.\<close>

definition storage_put :: "(string \<Rightarrow> string \<Rightarrow> string \<Rightarrow> bool) \<Rightarrow> string \<Rightarrow> string \<Rightarrow> string \<Rightarrow> string \<Rightarrow> string option" where
  "storage_put accepts bucket key body ctype = (if accepts key body ctype then Some (CanonicalURL bucket key) else None)"

text \<open>\<open>tiers\<close> encodes the first image: final, preview and thumbnail.\<close>

definition uploadImages ::
    "('i \<Rightarrow> (string \<times> string \<times> string) option) \<Rightarrow> (string \<Rightarrow> string \<Rightarrow> string \<Rightarrow> bool) \<Rightarrow> string \<Rightarrow> string \<Rightarrow> 'i list
     \<Rightarrow> work_error + stored_urls" where
  "uploadImages tiers accepts bucket i images =
     (case images of
        [] \<Rightarrow> Inl PlainStorageError
      | img # _ \<Rightarrow>
          (case tiers img of
             None \<Rightarrow> Inl StorageFailure
           | Some (fin, pre, thumb) \<Rightarrow>
               (case storage_put accepts bucket (ObjectKey i VariantHigh TierFileExtension) fin TierContentType of
                  None \<Rightarrow> Inl PlainStorageError
                | Some high \<Rightarrow>
                    (case storage_put accepts bucket (ObjectKey i VariantLow TierFileExtension) pre TierContentType of
                       None \<Rightarrow> Inl PlainStorageError
                     | Some low \<Rightarrow>
                         (case storage_put accepts bucket (ObjectKey i VariantThumb TierFileExtension) thumb TierContentType of
                            None \<Rightarrow> Inl PlainStorageError
                          | Some th \<Rightarrow> Inr \<lparr>uc_high = Some high, uc_low = Some low, uc_thumb = Some th\<rparr>)))))"

definition getVisualAssetByID :: "db \<Rightarrow> string \<Rightarrow> string \<Rightarrow> visual_asset option" where
  "getVisualAssetByID d i t = find (\<lambda>a. va_id a = i \<and> va_tenant_id a = t) (db_assets d)"

definition getAssetForTenant :: "db \<Rightarrow> string \<Rightarrow> string \<Rightarrow> error + visual_asset" where
  "getAssetForTenant d i t = (if t = '''' then Inl ErrNoTenant else or_not_found (getVisualAssetByID d i t))"

text \<open>The reference of one anchor: \<open>Inl True\<close> is an invalid anchor, \<open>Inl False\<close> a failure to sign.\<close>

definition anchor_url ::
    "(string \<Rightarrow> int \<Rightarrow> string option) \<Rightarrow> (visual_asset \<Rightarrow> stored_urls) \<Rightarrow> int \<Rightarrow> db \<Rightarrow> string \<Rightarrow> string \<Rightarrow> bool + string" where
  "anchor_url sign cols ttl d ten i =
     (case getAssetForTenant d i ten of
        Inl _ \<Rightarrow> Inl True
      | Inr a \<Rightarrow>
          if va_status a \<noteq> Ready then Inl True
          else (let low = strVal (uc_low (cols a)); high = strVal (uc_high (cols a));
                    ref = (if low \<noteq> '''' then low else high)
                in if ref = '''' then Inl True
                   else (case KeyFromCanonicalURL ref of
                           None \<Rightarrow> Inl True
                         | Some key \<Rightarrow> (case sign key ttl of None \<Rightarrow> Inl False | Some u \<Rightarrow> Inr u))))"

fun anchor_urls ::
    "(string \<Rightarrow> int \<Rightarrow> string option) \<Rightarrow> (visual_asset \<Rightarrow> stored_urls) \<Rightarrow> int \<Rightarrow> (nat \<Rightarrow> db) \<Rightarrow> nat \<Rightarrow> string \<Rightarrow> string list
     \<Rightarrow> bool + string list" where
  "anchor_urls sign cols ttl rd n ten [] = Inr []"
| "anchor_urls sign cols ttl rd n ten (i # is) =
     (if i = '''' then anchor_urls sign cols ttl rd n ten is
      else (case anchor_url sign cols ttl (rd n) ten i of
              Inl e \<Rightarrow> Inl e
            | Inr u \<Rightarrow> (case anchor_urls sign cols ttl rd (n + 1) ten is of Inl e \<Rightarrow> Inl e | Inr us \<Rightarrow> Inr (u # us))))"

definition positive_ttl :: "int \<Rightarrow> int \<Rightarrow> int" where
  "positive_ttl ttl d = (if ttl \<le> 0 then d else ttl)"

definition referenceURLsForIdentity ::
    "(string \<Rightarrow> int \<Rightarrow> string option) \<Rightarrow> (visual_asset \<Rightarrow> stored_urls) \<Rightarrow> int \<Rightarrow> catalog \<Rightarrow> (nat \<Rightarrow> db) \<Rightarrow> string \<Rightarrow> string
     \<Rightarrow> bool + string list" where
  "referenceURLsForIdentity sign cols ttl c rd ident ten =
     (if ident = '''' then Inr []
      else (case getIdentityForTenant c ident ten of
              Inl _ \<Rightarrow> Inl False
            | Inr v \<Rightarrow> anchor_urls sign cols (positive_ttl ttl (10 * 60 * 1000000000)) rd 0 ten (vi_anchor_asset_ids v)))"

section \<open>The API view of an asset\<close>

record asset_view =
  aw_asset :: visual_asset
  aw_thumbnail_download :: "string option"
  aw_preview_download :: "string option"
  aw_final_download :: "string option"
  aw_expires_at :: "int option"

definition object_key_of :: "string \<Rightarrow> asset_variant \<Rightarrow> string option \<Rightarrow> string" where
  "object_key_of i v stored =
     (case Option.bind stored KeyFromCanonicalURL of None \<Rightarrow> ObjectKey i v TierFileExtension | Some k \<Rightarrow> k)"

text \<open>\<open>signer\<close> is \<open>None\<close> when delivery is not wired; a tier that cannot be signed has no URL.\<close>

definition toAssetAPI ::
    "(string \<Rightarrow> int \<Rightarrow> string option) option \<Rightarrow> (visual_asset \<Rightarrow> stored_urls) \<Rightarrow> int \<Rightarrow> int \<Rightarrow> visual_asset \<Rightarrow> asset_view" where
  "toAssetAPI signer cols url_ttl now a =
     (case signer of
        None \<Rightarrow> \<lparr>aw_asset = a, aw_thumbnail_download = None, aw_preview_download = None, aw_final_download = None,
                 aw_expires_at = None\<rparr>
      | Some sign \<Rightarrow>
          let ttl = positive_ttl url_ttl (15 * 60 * 1000000000)
          in \<lparr>aw_asset = a,
              aw_thumbnail_download = sign (object_key_of (va_id a) VariantThumb (uc_thumb (cols a))) ttl,
              aw_preview_download = sign (object_key_of (va_id a) VariantLow (uc_low (cols a))) ttl,
              aw_final_download = sign (object_key_of (va_id a) VariantHigh (uc_high (cols a))) ttl,
              aw_expires_at = Some (now + ttl)\<rparr>)"

section \<open>Reading assets\<close>

definition getAsset :: "(visual_asset \<Rightarrow> asset_view) \<Rightarrow> db \<Rightarrow> principal option \<Rightarrow> string \<Rightarrow> asset_view reply" where
  "getAsset view d po i =
     (case po of
        None \<Rightarrow> Problem 500 ''internal_error''
      | Some p \<Rightarrow>
          if i = '''' then Problem 400 ''invalid_request''
          else (case getAssetForTenant d i (pn_tenant_id p) of
                  Inl e \<Rightarrow> if e = ErrNotFound then Problem 404 ''not_found'' else Problem 500 ''internal_error''
                | Inr a \<Rightarrow> Reply (view a)))"

definition listAssetPackItemsForTenant :: "db \<Rightarrow> string \<Rightarrow> string \<Rightarrow> error + asset_pack_item list" where
  "listAssetPackItemsForTenant d pid t = (if t = '''' then Inl ErrNoTenant else Inr (listAssetPackItems d pid))"

text \<open>A pack delivers its items in their order, another job its final output, or its preview before that.\<close>

definition deliveryOrder :: "db \<Rightarrow> job \<Rightarrow> error + string list" where
  "deliveryOrder d j =
     (let pid = strVal (jb_asset_pack_id j)
      in if pid \<noteq> ''''
         then (case listAssetPackItemsForTenant d pid (jb_tenant_id j) of
                 Inl e \<Rightarrow> Inl e | Inr items \<Rightarrow> Inr (map pi_asset_id items))
         else Inr (if jb_final_asset_ids j = [] \<and> jb_preview_asset_ids j \<noteq> [] then jb_preview_asset_ids j
                   else jb_final_asset_ids j))"

text \<open>An asset that is gone or another tenant's is skipped; any other error fails the read.\<close>

fun collect_assets ::
    "(visual_asset \<Rightarrow> asset_view) \<Rightarrow> (nat \<Rightarrow> db) \<Rightarrow> nat \<Rightarrow> string \<Rightarrow> string list \<Rightarrow> asset_view list option" where
  "collect_assets view rd n t [] = Some []"
| "collect_assets view rd n t (i # is) =
     (case getAssetForTenant (rd n) i t of
        Inl e \<Rightarrow> if e = ErrNotFound then collect_assets view rd (n + 1) t is else None
      | Inr a \<Rightarrow> map_option ((#) (view a)) (collect_assets view rd (n + 1) t is))"

definition jobAssets ::
    "(visual_asset \<Rightarrow> asset_view) \<Rightarrow> bool \<Rightarrow> (nat \<Rightarrow> db) \<Rightarrow> principal option \<Rightarrow> string \<Rightarrow> asset_view list reply" where
  "jobAssets view wired rd po jid =
     (case po of
        None \<Rightarrow> Problem 500 ''internal_error''
      | Some p \<Rightarrow>
          if \<not> wired then Problem 500 ''internal_error''
          else if jid = '''' then Problem 400 ''invalid_request''
          else (case getByIDForTenant (rd 0) jid (pn_tenant_id p) of
                  Inl e \<Rightarrow> if e = ErrNotFound then Problem 404 ''not_found'' else Problem 500 ''internal_error''
                | Inr j \<Rightarrow>
                    (case deliveryOrder (rd 1) j of
                       Inl _ \<Rightarrow> Problem 500 ''internal_error''
                     | Inr ids \<Rightarrow>
                         (case collect_assets view rd 2 (pn_tenant_id p) ids of
                            None \<Rightarrow> Problem 500 ''internal_error'' | Some vs \<Rightarrow> Reply vs))))"

section \<open>Searching\<close>

record search_request =
  qs_world_id :: "string option"
  qs_visual_identity_id :: "string option"
  qs_owner_type :: "string option"
  qs_variant_key :: "string option"
  qs_style_profile_id :: "string option"
  qs_style_profile_version :: "int option"
  qs_state_version :: "int option"
  qs_quality_tier :: "string option"
  qs_fallback_policy :: "string option"

definition retrievalEntityType :: "string option \<Rightarrow> string option" where
  "retrievalEntityType ot =
     (case ot of None \<Rightarrow> None | Some t \<Rightarrow> if t = EntityCharacter \<or> t = EntityPlace then Some t else None)"

definition buildRetrievalQuery :: "string \<Rightarrow> search_request \<Rightarrow> retrieval_query reply" where
  "buildRetrievalQuery ten req =
     (let world = strVal (qs_world_id req); ident = strVal (qs_visual_identity_id req);
          key = strVal (qs_variant_key req); style = strVal (qs_style_profile_id req);
          bad = Problem 400 ''invalid_request''
      in if world = '''' then bad
         else if ident = '''' then bad
         else (case retrievalEntityType (qs_owner_type req) of
           None \<Rightarrow> bad
         | Some ety \<Rightarrow>
             if key = '''' then bad
             else if style = '''' then bad
             else (case qs_state_version req of
               None \<Rightarrow> bad
             | Some sv \<Rightarrow>
                 Reply \<lparr>rq_tenant_id = ten, rq_world_id = world, rq_visual_identity_id = ident, rq_entity_type = ety,
                   rq_variant_key = key, rq_style_profile_id = style,
                   rq_style_profile_version = map_option int32 (qs_style_profile_version req), rq_state_version = int32 sv,
                   rq_quality_tier = strVal (qs_quality_tier req), rq_fallback_policy = strVal (qs_fallback_policy req)\<rparr>)))"

record search_response =
  sq_assets :: "asset_view list"
  sq_match_type :: outcome
  sq_score :: rat
  sq_fallback_reason :: "string option"
  sq_generation_recommended :: bool

definition toAssetSearchResponse :: "(visual_asset \<Rightarrow> asset_view) \<Rightarrow> retrieval_result \<Rightarrow> search_response" where
  "toAssetSearchResponse view r =
     \<lparr>sq_assets = (case re_asset r of None \<Rightarrow> [] | Some a \<Rightarrow> [view a]), sq_match_type = re_match_type r,
      sq_score = re_compatibility_score r,
      sq_fallback_reason = (if re_fallback_reason r \<noteq> '''' then Some (re_fallback_reason r) else None),
      sq_generation_recommended = re_generation_recommended r\<rparr>"

definition searchAssets ::
    "(visual_asset \<Rightarrow> asset_view) \<Rightarrow> collation \<Rightarrow> (nat \<Rightarrow> db) \<Rightarrow> principal option \<Rightarrow> search_request \<Rightarrow> search_response reply" where
  "searchAssets view coll rd po req =
     (case po of
        None \<Rightarrow> Problem 500 ''internal_error''
      | Some p \<Rightarrow>
          if \<not> requireAdminForAnyExisting (hasScope p ''admin:read'') (strVal (qs_fallback_policy req))
          then Problem 403 ''forbidden''
          else (case buildRetrievalQuery (pn_tenant_id p) req of
                  Problem st e \<Rightarrow> Problem st e
                | Reply q \<Rightarrow>
                    (case retrieve (findExact coll (rd 0)) (listRetrievalCandidates coll (rd 1)) q of
                       Inl e \<Rightarrow> if e = errInvalidFallbackPolicy then Problem 400 ''invalid_request''
                                else Problem 500 ''internal_error''
                     | Inr r \<Rightarrow> Reply (toAssetSearchResponse view r))))"

section \<open>Reading and controlling jobs\<close>

definition getJob :: "db \<Rightarrow> principal option \<Rightarrow> string \<Rightarrow> job reply" where
  "getJob d po jid =
     (case po of
        None \<Rightarrow> Problem 500 ''internal_error''
      | Some p \<Rightarrow>
          if jid = '''' then Problem 400 ''invalid_request''
          else (case getByIDForTenant d jid (pn_tenant_id p) of
                  Inl e \<Rightarrow> if e = ErrNotFound then Problem 404 ''not_found'' else Problem 500 ''internal_error''
                | Inr j \<Rightarrow> Reply j))"

definition admin_job_problem :: "error \<Rightarrow> 'a reply" where
  "admin_job_problem e =
     (if e = ErrNotFound then Problem 404 ''not_found''
      else if e = ErrInvalidState then Problem 409 ''invalid_state''
      else if e = ErrNoPriceEntry then Problem 422 ''no_price_entry''
      else if e = ErrBudgetExceeded then Problem 422 ''budget_exceeded''
      else Problem 500 ''internal_error'')"

text \<open>The two requests of an administrator, around the operation of the service.\<close>

definition admin_job_request :: "(string \<Rightarrow> (error + job) \<times> db) \<Rightarrow> db \<Rightarrow> principal option \<Rightarrow> string \<Rightarrow> job reply \<times> db" where
  "admin_job_request operate d po jid =
     (case po of
        None \<Rightarrow> (Problem 500 ''internal_error'', d)
      | Some p \<Rightarrow>
          if jid = '''' then (Problem 400 ''invalid_request'', d)
          else (case operate (pn_tenant_id p) of
                  (Inl e, d') \<Rightarrow> (admin_job_problem e, d')
                | (Inr j, d') \<Rightarrow> (Reply j, d')))"

definition cancelRequest :: "db \<Rightarrow> principal option \<Rightarrow> string \<Rightarrow> string \<Rightarrow> string \<Rightarrow> job reply \<times> db" where
  "cancelRequest d po jid lid eid =
     admin_job_request (\<lambda>ten. case cancelJob d ten jid lid eid of Inl e \<Rightarrow> (Inl e, d) | Inr (j, d') \<Rightarrow> (Inr j, d')) d po jid"

definition retryRequest ::
    "date_trunc \<Rightarrow> queue_client \<Rightarrow> (db \<Rightarrow> db) \<Rightarrow> db \<Rightarrow> cost_budget list \<Rightarrow> principal option \<Rightarrow> string \<Rightarrow> string
     \<Rightarrow> (nat \<Rightarrow> string) \<Rightarrow> string \<Rightarrow> string \<Rightarrow> string \<Rightarrow> string \<Rightarrow> job reply \<times> db" where
  "retryRequest trunc client env d all po jid rid hids lid eid lid' eid' =
     admin_job_request (\<lambda>ten. retryJob trunc client env d all ten jid rid hids lid eid lid' eid') d po jid"

section \<open>Cost reports\<close>

text \<open>\<open>None\<close> is a filter that is not set.\<close>

definition passes :: "'a option \<Rightarrow> ('a \<Rightarrow> bool) \<Rightarrow> bool" where
  "passes f P = (case f of None \<Rightarrow> True | Some x \<Rightarrow> P x)"

definition row_limit :: "int \<Rightarrow> nat" where
  "row_limit n = nat (min (if n \<le> 0 then 100 else n) 1000)"

record reservation_filter =
  lf_tenant_id :: "string option"
  lf_status :: "string option"
  lf_created_after :: "nat option"
  lf_created_before :: "nat option"
  lf_limit :: int

primrec reservation_status_text :: "reservation_status \<Rightarrow> string" where
  "reservation_status_text Reserved = ''reserved''"
| "reservation_status_text Committed = ''committed''"
| "reservation_status_text Released = ''released''"
| "reservation_status_text Res_failed = ''failed''"

text \<open>\<open>created\<close> is the column \<open>created_at\<close> of a reservation, which its row in the model leaves out.\<close>

definition listCostReservationsAdmin ::
    "(cost_reservation \<Rightarrow> nat) \<Rightarrow> db \<Rightarrow> reservation_filter \<Rightarrow> nat \<Rightarrow> cost_reservation list" where
  "listCostReservationsAdmin created d f n =
     take n (rev (sort_key created (filter (\<lambda>r. passes (lf_tenant_id f) (\<lambda>t. rv_tenant_id r = t)
        \<and> passes (lf_status f) (\<lambda>s. reservation_status_text (rv_status r) = s)
        \<and> passes (lf_created_after f) (\<lambda>t. t \<le> created r) \<and> passes (lf_created_before f) (\<lambda>t. created r \<le> t))
       (db_reservations d))))"

definition listReservations ::
    "(cost_reservation \<Rightarrow> nat) \<Rightarrow> db \<Rightarrow> reservation_filter \<Rightarrow> admin_cost_error + cost_reservation list" where
  "listReservations created d f =
     (if passes (lf_status f) (\<lambda>s. s \<in> set [''reserved'', ''committed'', ''released'', ''failed''])
      then Inr (listCostReservationsAdmin created d f (row_limit (lf_limit f)))
      else Inl ErrInvalid)"

record cost_event_filter =
  ef_tenant_id :: "string option"
  ef_token_id :: "string option"
  ef_job_id :: "string option"
  ef_provider_id :: "string option"
  ef_model_id :: "string option"
  ef_world_id :: "string option"
  ef_status :: "string option"
  ef_created_after :: "nat option"
  ef_created_before :: "nat option"
  ef_limit :: int

text \<open>The world of an event is that of its job, null when it has none.\<close>

definition event_world :: "db \<Rightarrow> cost_event \<Rightarrow> string option" where
  "event_world d e = Option.bind (ce_job_id e) (\<lambda>i. Option.bind (getGenerationJobByIDUnchecked d i) jb_world_id)"

definition listCostEventsAdmin :: "db \<Rightarrow> cost_event_filter \<Rightarrow> nat \<Rightarrow> (cost_event \<times> string option) list" where
  "listCostEventsAdmin d f n =
     take n (rev (sort_key (\<lambda>x. ce_created_at (fst x)) (filter (\<lambda>(e, w). passes (ef_tenant_id f) (\<lambda>t. ce_tenant_id e = t)
        \<and> passes (ef_token_id f) (\<lambda>t. ce_token_id e = Some t) \<and> passes (ef_job_id f) (\<lambda>t. ce_job_id e = Some t)
        \<and> passes (ef_provider_id f) (\<lambda>t. ce_provider_id e = Some t) \<and> passes (ef_model_id f) (\<lambda>t. ce_model_id e = Some t)
        \<and> passes (ef_world_id f) (\<lambda>t. w = Some t) \<and> passes (ef_status f) (\<lambda>t. ce_status e = t)
        \<and> passes (ef_created_after f) (\<lambda>t. t \<le> ce_created_at e) \<and> passes (ef_created_before f) (\<lambda>t. ce_created_at e \<le> t))
       (map (\<lambda>e. (e, event_world d e)) (db_events d)))))"

definition listCostEvents :: "db \<Rightarrow> cost_event_filter \<Rightarrow> (cost_event \<times> string option) list" where
  "listCostEvents d f = listCostEventsAdmin d f (row_limit (ef_limit f))"

section \<open>The query strings of the reports\<close>

text \<open>\<open>q k\<close> is the first value of the query parameter \<open>k\<close>, empty when absent; \<open>time\<close> is \<open>time.Parse(RFC3339)\<close>.\<close>

definition query_text :: "string \<Rightarrow> string option" where
  "query_text v = (if v = '''' then None else Some v)"

definition query_time :: "(string \<Rightarrow> nat option) \<Rightarrow> string \<Rightarrow> nat option option" where
  "query_time time v = (if v = '''' then Some None else map_option Some (time v))"

definition query_limit :: "string \<Rightarrow> int option" where
  "query_limit v =
     (if v = '''' then Some 0 else (case atoi v of None \<Rightarrow> None | Some n \<Rightarrow> if n < 0 then None else Some n))"

definition reservationsRequest ::
    "(string \<Rightarrow> nat option) \<Rightarrow> (cost_reservation \<Rightarrow> nat) \<Rightarrow> db \<Rightarrow> (string \<Rightarrow> string) \<Rightarrow> cost_reservation list reply" where
  "reservationsRequest time created d q =
     (case (query_time time (q ''created_after''), query_time time (q ''created_before''), query_limit (q ''limit'')) of
        (Some a, Some b, Some n) \<Rightarrow>
          (case listReservations created d \<lparr>lf_tenant_id = query_text (q ''tenant_id''), lf_status = query_text (q ''status''),
                  lf_created_after = a, lf_created_before = b, lf_limit = n\<rparr> of
             Inl e \<Rightarrow> admin_problem e | Inr rows \<Rightarrow> Reply rows)
      | _ \<Rightarrow> Problem 400 ''invalid_request'')"

definition costEventsRequest ::
    "(string \<Rightarrow> nat option) \<Rightarrow> db \<Rightarrow> (string \<Rightarrow> string) \<Rightarrow> (cost_event \<times> string option) list reply" where
  "costEventsRequest time d q =
     (case (query_time time (q ''created_after''), query_time time (q ''created_before''), query_limit (q ''limit'')) of
        (Some a, Some b, Some n) \<Rightarrow>
          Reply (listCostEvents d \<lparr>ef_tenant_id = query_text (q ''tenant_id''), ef_token_id = query_text (q ''token_id''),
            ef_job_id = query_text (q ''job_id''), ef_provider_id = query_text (q ''provider_id''),
            ef_model_id = query_text (q ''model_id''), ef_world_id = query_text (q ''world_id''),
            ef_status = query_text (q ''status''), ef_created_after = a, ef_created_before = b, ef_limit = n\<rparr>)
      | _ \<Rightarrow> Problem 400 ''invalid_request'')"

section \<open>Keys survive their URL\<close>

lemma trim_prefix_id: "s \<noteq> [] \<Longrightarrow> hd s \<noteq> c \<Longrightarrow> trim_prefix c s = s"
  by (cases s) (simp_all add: trim_prefix_def)

lemma KeyFromCanonicalURL_CanonicalURL:
  assumes "CHR ''/'' \<notin> set bucket" "trim_prefix (CHR ''/'') key \<noteq> ''''"
  shows "KeyFromCanonicalURL (CanonicalURL bucket key) = Some (trim_prefix (CHR ''/'') key)"
proof -
  have "dropWhile (\<lambda>c. c \<noteq> CHR ''/'') (bucket @ ''/'' @ k) = CHR ''/'' # k" for k
    using assms(1) by (induction bucket) auto
  then show ?thesis using assms(2) by (simp add: KeyFromCanonicalURL_def CanonicalURL_def)
qed

lemma ObjectKey_stored: "CHR ''/'' \<notin> set bucket \<Longrightarrow> KeyFromCanonicalURL (CanonicalURL bucket (ObjectKey i v ext)) = Some (ObjectKey i v ext)"
  by (subst KeyFromCanonicalURL_CanonicalURL) (auto simp: ObjectKey_def trim_prefix_def)

lemma uploadImages_InrD:
  assumes "uploadImages tiers accepts bucket i images = Inr u"
  shows "u = \<lparr>uc_high = Some (CanonicalURL bucket (ObjectKey i VariantHigh TierFileExtension)),
               uc_low = Some (CanonicalURL bucket (ObjectKey i VariantLow TierFileExtension)),
               uc_thumb = Some (CanonicalURL bucket (ObjectKey i VariantThumb TierFileExtension))\<rparr>"
    "\<exists>img f p th. images \<noteq> [] \<and> img = hd images \<and> tiers img = Some (f, p, th)
       \<and> accepts (ObjectKey i VariantHigh TierFileExtension) f TierContentType
       \<and> accepts (ObjectKey i VariantLow TierFileExtension) p TierContentType
       \<and> accepts (ObjectKey i VariantThumb TierFileExtension) th TierContentType"
  using assms unfolding uploadImages_def storage_put_def
  by (simp_all split: list.splits option.splits prod.splits if_splits)

text \<open>What a read signs for a stored asset are the keys its tiers were stored under.\<close>

lemma stored_image_served:
  assumes "uploadImages tiers accepts bucket (va_id a) images = Inr (cols a)" "CHR ''/'' \<notin> set bucket"
  shows "toAssetAPI (Some sign) cols ttl now a
    = \<lparr>aw_asset = a,
       aw_thumbnail_download = sign (ObjectKey (va_id a) VariantThumb TierFileExtension) (positive_ttl ttl (15 * 60 * 1000000000)),
       aw_preview_download = sign (ObjectKey (va_id a) VariantLow TierFileExtension) (positive_ttl ttl (15 * 60 * 1000000000)),
       aw_final_download = sign (ObjectKey (va_id a) VariantHigh TierFileExtension) (positive_ttl ttl (15 * 60 * 1000000000)),
       aw_expires_at = Some (now + positive_ttl ttl (15 * 60 * 1000000000))\<rparr>"
  by (simp add: toAssetAPI_def Let_def object_key_of_def uploadImages_InrD(1) [OF assms(1)] ObjectKey_stored [OF assms(2)])

text \<open>The key of a row written before the URL columns is the one the tiers are stored under now.\<close>

lemma object_key_of_derived: "object_key_of i v None = ObjectKey i v TierFileExtension"
  by (simp add: object_key_of_def)

section \<open>Reads stay inside the tenant\<close>

definition owned_asset :: "db \<Rightarrow> string \<Rightarrow> visual_asset \<Rightarrow> bool" where
  "owned_asset d t a \<longleftrightarrow> a \<in> set (db_assets d) \<and> va_tenant_id a = t"

lemma getAssetForTenant_InrD: "getAssetForTenant d i t = Inr a \<Longrightarrow> owned_asset d t a \<and> va_id a = i"
  by (auto simp: getAssetForTenant_def or_not_found_def getVisualAssetByID_def owned_asset_def dest: find_SomeD split: if_splits option.splits)

lemma getByIDForTenant_InrD: "getByIDForTenant d i t = Inr j \<Longrightarrow> j \<in> set (db_jobs d) \<and> jb_id j = i \<and> jb_tenant_id j = t"
  by (auto simp: getByIDForTenant_def or_not_found_def getGenerationJobByID_def dest: find_SomeD split: if_splits option.splits)

lemma getAsset_ReplyD:
  assumes "getAsset view d (Some p) i = Reply v"
  shows "\<exists>a. owned_asset d (pn_tenant_id p) a \<and> va_id a = i \<and> v = view a"
  using assms by (auto simp: getAsset_def dest: getAssetForTenant_InrD split: if_splits sum.splits)

lemma getJob_ReplyD:
  assumes "getJob d (Some p) i = Reply j"
  shows "j \<in> set (db_jobs d) \<and> jb_id j = i \<and> jb_tenant_id j = pn_tenant_id p"
  using assms by (auto simp: getJob_def dest: getByIDForTenant_InrD split: if_splits sum.splits)

lemma collect_assets_owned:
  assumes "collect_assets view rd n t ids = Some vs" "v \<in> set vs"
  shows "\<exists>k a. owned_asset (rd k) t a \<and> va_id a \<in> set ids \<and> v = view a"
  using assms
proof (induction ids arbitrary: n vs)
  case (Cons i "is")
  then show ?case by (fastforce dest: getAssetForTenant_InrD split: sum.splits if_splits)
qed simp

text \<open>Over a database at rest the answer lists exactly the tenant's delivered assets, in order.\<close>

lemma collect_assets_at_rest:
  assumes "t \<noteq> ''''"
  shows "collect_assets view (\<lambda>_. d) n t ids = Some (map view (List.map_filter (\<lambda>i. getVisualAssetByID d i t) ids))"
  using assms
  by (induction ids arbitrary: n) (auto simp: getAssetForTenant_def or_not_found_def map_filter_simps split: option.splits)

lemma jobAssets_ReplyD:
  assumes "jobAssets view w rd (Some p) jid = Reply vs"
  obtains j ids where "getByIDForTenant (rd 0) jid (pn_tenant_id p) = Inr j" "deliveryOrder (rd 1) j = Inr ids"
    "collect_assets view rd 2 (pn_tenant_id p) ids = Some vs"
  using assms by (auto simp: jobAssets_def split: if_splits sum.splits option.splits)

interpretation searched: candidate_source "findExact coll d" "listRetrievalCandidates coll d'" for coll d d'
  by unfold_locales (blast dest: repository.exact_law repository.list_law)+

lemma buildRetrievalQuery_ReplyD:
  assumes "buildRetrievalQuery ten req = Reply q"
  shows "rq_tenant_id q = ten \<and> qs_world_id req = Some (rq_world_id q)
    \<and> qs_visual_identity_id req = Some (rq_visual_identity_id q) \<and> rq_fallback_policy q = strVal (qs_fallback_policy req)"
proof -
  from assms obtain ety sv where "strVal (qs_world_id req) \<noteq> ''''" "strVal (qs_visual_identity_id req) \<noteq> ''''"
    and q: "q = \<lparr>rq_tenant_id = ten, rq_world_id = strVal (qs_world_id req),
      rq_visual_identity_id = strVal (qs_visual_identity_id req), rq_entity_type = ety, rq_variant_key = strVal (qs_variant_key req),
      rq_style_profile_id = strVal (qs_style_profile_id req),
      rq_style_profile_version = map_option int32 (qs_style_profile_version req), rq_state_version = int32 sv,
      rq_quality_tier = strVal (qs_quality_tier req), rq_fallback_policy = strVal (qs_fallback_policy req)\<rparr>"
    unfolding buildRetrievalQuery_def Let_def by (auto split: if_splits option.splits)
  then show ?thesis by (simp add: strVal_def split: option.splits)
qed

lemma searchAssets_ReplyD:
  assumes "searchAssets view coll rd (Some p) req = Reply r" "v \<in> set (sq_assets r)"
  shows "\<exists>a. v = view a \<and> va_tenant_id a = pn_tenant_id p \<and> va_status a = Ready
    \<and> qs_world_id req = Some (va_world_id a) \<and> qs_visual_identity_id req = va_visual_identity_id a
    \<and> (strVal (qs_fallback_policy req) = ''any_existing'' \<longrightarrow> hasScope p ''admin:read'')"
proof -
  from assms(1) obtain q x where adm: "requireAdminForAnyExisting (hasScope p ''admin:read'') (strVal (qs_fallback_policy req))"
    and q: "buildRetrievalQuery (pn_tenant_id p) req = Reply q"
    and x: "retrieve (findExact coll (rd 0)) (listRetrievalCandidates coll (rd 1)) q = Inr x"
    and r: "r = toAssetSearchResponse view x"
    by (auto simp: searchAssets_def split: if_splits reply.splits sum.splits)
  from r assms(2) obtain a where a: "re_asset x = Some a" "v = view a"
    by (auto simp: toAssetSearchResponse_def split: option.splits)
  from searched.retrieve_sound [OF x a(1)] have "same_owner q a" by blast
  moreover have "sql_eq y (strPtr i) \<Longrightarrow> y = Some i" for y i
    by (simp add: sql_eq_def strPtr_def split: option.splits if_splits)
  ultimately show ?thesis using buildRetrievalQuery_ReplyD [OF q] a adm
    by (intro exI [of _ a]) (auto simp: same_owner_def requireAdminForAnyExisting_def)
qed

text \<open>Every reference handed to a provider is signed for a tier of a ready asset of the tenant.\<close>

lemma anchor_url_InrD:
  assumes "anchor_url sign cols ttl d t i = Inr u"
  shows "\<exists>a key. owned_asset d t a \<and> va_id a = i \<and> va_status a = Ready \<and> sign key ttl = Some u
    \<and> (Option.bind (uc_low (cols a)) KeyFromCanonicalURL = Some key \<or> Option.bind (uc_high (cols a)) KeyFromCanonicalURL = Some key)"
proof -
  from assms obtain a where a: "getAssetForTenant d i t = Inr a" and s: "va_status a = Ready"
    by (auto simp: anchor_url_def split: sum.splits if_splits)
  define ref where "ref = (if strVal (uc_low (cols a)) \<noteq> '''' then strVal (uc_low (cols a)) else strVal (uc_high (cols a)))"
  from assms a s obtain key where k: "KeyFromCanonicalURL ref = Some key" "sign key ttl = Some u" and r: "ref \<noteq> ''''"
    by (simp add: anchor_url_def Let_def ref_def [symmetric] split: if_splits option.splits)
  from r have "uc_low (cols a) = Some ref \<or> uc_high (cols a) = Some ref"
    by (cases "uc_low (cols a)"; cases "uc_high (cols a)") (auto simp: ref_def strVal_def split: if_splits)
  with k getAssetForTenant_InrD [OF a] s show ?thesis by (intro exI [of _ a] exI [of _ key]) auto
qed

lemma anchor_urls_InrD:
  assumes "anchor_urls sign cols ttl rd n t is = Inr us" "u \<in> set us"
  shows "\<exists>k a. owned_asset (rd k) t a \<and> va_id a \<in> set is \<and> va_status a = Ready \<and> (\<exists>key. sign key ttl = Some u)"
  using assms
proof (induction "is" arbitrary: n us)
  case (Cons i "is")
  then show ?case by (fastforce dest: anchor_url_InrD split: sum.splits if_splits)
qed simp

lemma referenceURLs_InrD:
  assumes "referenceURLsForIdentity sign cols ttl c rd ident t = Inr us" "u \<in> set us"
  shows "\<exists>k a v. owned_asset (rd k) t a \<and> va_status a = Ready \<and> v \<in> set (ct_identities c) \<and> vi_id v = ident
    \<and> vi_tenant_id v = t \<and> va_id a \<in> set (vi_anchor_asset_ids v)"
proof -
  from assms obtain v where v: "getIdentityForTenant c ident t = Inr v"
    and us: "anchor_urls sign cols (positive_ttl ttl (10 * 60 * 1000000000)) rd 0 t (vi_anchor_asset_ids v) = Inr us"
    by (auto simp: referenceURLsForIdentity_def split: if_splits sum.splits)
  from v have "v \<in> set (ct_identities c) \<and> vi_id v = ident \<and> vi_tenant_id v = t"
    by (auto simp: getIdentityForTenant_def dest: find_SomeD split: if_splits option.splits)
  with anchor_urls_InrD [OF us assms(2)] show ?thesis by blast
qed

section \<open>Reports and administrators' requests\<close>

lemma row_limit_bounds: "1 \<le> row_limit n \<and> row_limit n \<le> 1000"
  by (auto simp: row_limit_def)

lemma listCostEvents_bounded:
  "length (listCostEvents d f) \<le> 1000"
  "x \<in> set (listCostEvents d f) \<Longrightarrow> fst x \<in> set (db_events d) \<and> passes (ef_tenant_id f) (\<lambda>t. ce_tenant_id (fst x) = t)"
  using row_limit_bounds [of "ef_limit f"]
  by (auto simp: listCostEvents_def listCostEventsAdmin_def dest!: in_set_takeD)

lemma cancelRequest_cases:
  assumes "cancelRequest d (Some p) jid lid eid = (r, d')"
  shows "(\<exists>j. r = Reply j \<and> cancelJob d (pn_tenant_id p) jid lid eid = Inr (j, d')) \<or> (\<exists>st e. r = Problem st e) \<and> d' = d"
  using assms
  by (auto simp: cancelRequest_def admin_job_request_def admin_job_problem_def split: if_splits sum.splits prod.splits)

end
