(* ===== verification/Router.thy ===== *)
theory Router
  imports Governance
begin

text \<open>
  The routes of the API, \<open>internal/http/router.go\<close>: which are mounted for the services a process has, the
  scope each requires, and the way of a request from its path to its handler. Whether a path is one of
  a pattern is for the router library to say and a parameter, \<open>match\<close>; so is the status with which a
  sub-router of the library answers a path it does not have. No two routes of one method share a path,
  so their order does not matter. Handlers are named.
\<close>

section \<open>Patterns\<close>

datatype segment = Literal string | Param string | Rest

record mount =
  mt_method :: string
  mt_path :: "segment list"
  mt_scopes :: "string list"
  mt_handler :: string

abbreviation mounted :: "string \<Rightarrow> string \<Rightarrow> segment list \<Rightarrow> string \<Rightarrow> mount" where
  "mounted m sc ps h \<equiv> \<lparr>mt_method = m, mt_path = ps, mt_scopes = [sc], mt_handler = h\<rparr>"

section \<open>What a process has\<close>

record deps =
  dp_auth_repo :: bool
  dp_styles_repo :: bool
  dp_identities_repo :: bool
  dp_assets_repo :: bool
  dp_jobs_repo :: bool
  dp_jobs_service :: bool
  dp_admin_cost :: bool
  dp_admin_jobs :: bool
  dp_webhooks_config :: bool
  dp_resolver :: bool
  dp_governance_verifier :: "verifier option"
  dp_governance_mode :: "governance_mode option"
  dp_tenant_pool :: bool

text \<open>The gate of the generating handlers; the audit sink is there when the process has a tenant pool.\<close>

definition governanceGateFromDeps :: "deps \<Rightarrow> governance_gate \<times> bool" where
  "governanceGateFromDeps d =
     (case dp_governance_verifier d of
        None \<Rightarrow> (\<lparr>gg_verifier = None, gg_mode = ModeLogOnly\<rparr>, False)
      | Some v \<Rightarrow> (\<lparr>gg_verifier = Some v, gg_mode = (case dp_governance_mode d of None \<Rightarrow> ModeLogOnly | Some m \<Rightarrow> m)\<rparr>,
                   dp_tenant_pool d))"

section \<open>The mounts\<close>

definition mountStyles :: "deps \<Rightarrow> mount list" where
  "mountStyles d =
     (if \<not> dp_styles_repo d then []
      else [mounted ''GET'' ''styles:read'' [Literal ''styles''] ''ListStyles'',
            mounted ''POST'' ''styles:write'' [Literal ''styles''] ''CreateStyle'']
        @ (if dp_jobs_service d \<and> dp_resolver d
           then [mounted ''POST'' ''images:write'' [Literal ''styles'', Param ''style_id'', Literal ''preview''] ''GeneratePreview'']
           else []))"

definition identity_path :: "string \<Rightarrow> string \<Rightarrow> segment list" where
  "identity_path coll x = [Literal coll, Param x, Literal ''visual-identity'']"

definition mountIdentities :: "deps \<Rightarrow> mount list" where
  "mountIdentities d =
     (if \<not> dp_identities_repo d then []
      else [mounted ''POST'' ''images:write'' (identity_path ''characters'' ''character_id'') ''UpsertCharacter'',
            mounted ''GET'' ''images:read'' (identity_path ''characters'' ''character_id'') ''GetCharacter'',
            mounted ''POST'' ''images:write'' (identity_path ''places'' ''place_id'') ''UpsertPlace'',
            mounted ''GET'' ''images:read'' (identity_path ''places'' ''place_id'') ''GetPlace'']
        @ (if \<not> dp_assets_repo d then []
           else [mounted ''POST'' ''images:write'' (identity_path ''characters'' ''character_id'' @ [Literal ''anchors'']) ''AttachCharacterAnchors'',
                 mounted ''POST'' ''images:write'' (identity_path ''places'' ''place_id'' @ [Literal ''anchors'']) ''AttachPlaceAnchors'']
             @ (if dp_jobs_service d \<and> dp_resolver d
                then [mounted ''POST'' ''images:write'' (identity_path ''characters'' ''character_id'' @ [Literal ''bootstrap-anchor''])
                        ''BootstrapCharacterAnchor'']
                else [])))"

definition mountAssets :: "deps \<Rightarrow> mount list" where
  "mountAssets d =
     (if \<not> dp_assets_repo d then []
      else [mounted ''POST'' ''images:read'' [Literal ''assets'', Literal ''search''] ''SearchAssets'',
            mounted ''GET'' ''images:read'' [Literal ''assets'', Param ''asset_id''] ''GetAsset'',
            mounted ''GET'' ''images:read'' [Literal ''jobs'', Param ''job_id'', Literal ''assets''] ''JobAssets''])"

definition mountArtifacts :: "deps \<Rightarrow> mount list" where
  "mountArtifacts d =
     (if \<not> dp_jobs_service d \<or> \<not> dp_styles_repo d \<or> \<not> dp_resolver d then []
      else [mounted ''POST'' ''images:write'' [Literal ''artifacts'', Param ''artifact_id'', Literal ''generate''] ''GenerateArtifact''])"

definition mountGenerations :: "deps \<Rightarrow> mount list" where
  "mountGenerations d =
     (if \<not> dp_jobs_service d \<or> \<not> dp_resolver d \<or> \<not> dp_identities_repo d then []
      else [mounted ''POST'' ''images:write'' [Literal ''generations''] ''CreateGeneration''])"

definition mountPacks :: "deps \<Rightarrow> mount list" where
  "mountPacks d =
     (if \<not> dp_jobs_service d \<or> \<not> dp_styles_repo d \<or> \<not> dp_identities_repo d \<or> \<not> dp_resolver d then []
      else [mounted ''POST'' ''images:write'' [Literal ''characters'', Param ''character_id'', Literal ''generate-pack''] ''GenerateCharacterPack'',
            mounted ''POST'' ''images:write'' [Literal ''places'', Param ''place_id'', Literal ''generate-pack''] ''GeneratePlacePack''])"

definition mountJobs :: "deps \<Rightarrow> mount list" where
  "mountJobs d =
     (if \<not> dp_jobs_repo d then [] else [mounted ''GET'' ''jobs:read'' [Literal ''jobs'', Param ''job_id''] ''GetJob''])"

definition mountAdminCost :: "deps \<Rightarrow> mount list" where
  "mountAdminCost d =
     (if \<not> dp_admin_cost d then []
      else map (\<lambda>(m, ps, h). mounted m ''admin:costs'' (Literal ''admin'' # ps) h)
        [(''POST'', [Literal ''price-book''], ''CreatePrice''), (''GET'', [Literal ''price-book''], ''ListPrices''),
         (''GET'', [Literal ''price-book'', Param ''price_id''], ''GetPrice''),
         (''PUT'', [Literal ''price-book'', Param ''price_id''], ''UpdatePrice''),
         (''POST'', [Literal ''cost-budgets''], ''CreateBudget''), (''GET'', [Literal ''cost-budgets''], ''ListBudgets''),
         (''PUT'', [Literal ''cost-budgets'', Param ''budget_id''], ''UpdateBudget''),
         (''GET'', [Literal ''cost-reservations''], ''ListReservations''), (''GET'', [Literal ''cost-events''], ''ListCostEvents''),
         (''GET'', [Literal ''metrics''], ''Metrics'')])"

definition mountAdminJobs :: "deps \<Rightarrow> mount list" where
  "mountAdminJobs d =
     (if \<not> dp_admin_jobs d then []
      else [mounted ''POST'' ''admin:jobs'' [Literal ''admin'', Literal ''jobs'', Param ''job_id'', Literal ''cancel''] ''CancelJob'',
            mounted ''POST'' ''admin:jobs'' [Literal ''admin'', Literal ''jobs'', Param ''job_id'', Literal ''retry''] ''RetryJob''])"

definition mountWebhooksConfig :: "deps \<Rightarrow> mount list" where
  "mountWebhooksConfig d =
     (if \<not> dp_webhooks_config d then []
      else [mounted ''PUT'' ''admin:jobs'' [Literal ''admin'', Literal ''webhook-endpoint''] ''PutWebhookEndpoint'',
            mounted ''GET'' ''admin:jobs'' [Literal ''admin'', Literal ''webhook-endpoint''] ''GetWebhookEndpoint''])"

definition mountV1 :: "deps \<Rightarrow> mount list" where
  "mountV1 d =
     (if \<not> dp_auth_repo d then []
      else mountStyles d @ mountIdentities d @ mountAssets d @ mountArtifacts d @ mountGenerations d @ mountPacks d @ mountJobs d
        @ mountAdminCost d @ mountAdminJobs d @ mountWebhooksConfig d)"

section \<open>A request under /v1\<close>

definition dispatch :: "(segment list \<Rightarrow> string \<Rightarrow> bool) \<Rightarrow> deps \<Rightarrow> string \<Rightarrow> string \<Rightarrow> mount option" where
  "dispatch match d m path = find (\<lambda>r. mt_method r = m \<and> match (mt_path r) path) (mountV1 d)"

text \<open>The two groups under \<open>/admin\<close> are routers of their own: their scope is asked before their routes.\<close>

definition admin_groups :: "deps \<Rightarrow> (segment list \<times> string) list" where
  "admin_groups d =
     (if dp_admin_jobs d then [([Literal ''admin'', Literal ''jobs'', Rest], ''admin:jobs'')] else [])
     @ (if dp_admin_cost d then [([Literal ''admin'', Rest], ''admin:costs'')] else [])"

text \<open>
  The token is verified and the request counted before the route is looked at, so a path that is not
  mounted is not found only for a caller with a token. Without a token repository nothing is mounted.
\<close>

definition v1_request ::
    "(segment list \<Rightarrow> string \<Rightarrow> bool) \<Rightarrow> (string \<Rightarrow> string \<Rightarrow> int) \<Rightarrow> deps \<Rightarrow> 's counter_store option
     \<Rightarrow> (nat \<Rightarrow> string) \<Rightarrow> (nat \<Rightarrow> string) \<Rightarrow> nat \<Rightarrow> string \<Rightarrow> string \<Rightarrow> reject_reason + principal \<Rightarrow> 's
     \<Rightarrow> (string \<times> principal) reply \<times> 's" where
  "v1_request match miss d limiter fm fh now m path v s =
     (if \<not> dp_auth_repo d then (Problem 404 ''not_found'', s)
      else (let (scopes, answer) =
              (case dispatch match d m path of
                 Some r \<Rightarrow> (mt_scopes r, \<lambda>p. Reply (mt_handler r, p))
               | None \<Rightarrow>
                   (case find (\<lambda>(ps, _). match ps path) (admin_groups d) of
                      Some (_, sc) \<Rightarrow> ([sc], \<lambda>_. Problem (miss m path) '''')
                    | None \<Rightarrow> ([], \<lambda>_. Problem 404 ''not_found'')))
            in case admit limiter fm fh now scopes v s of
                 (Reply p, s') \<Rightarrow> (answer p, s')
               | (Problem st e, s') \<Rightarrow> (Problem st e, s')))"

section \<open>The scope of every handler\<close>

text \<open>The scope a handler needs, by what it does.\<close>

definition handler_scope :: "string \<Rightarrow> string" where
  "handler_scope h =
     (if h = ''ListStyles'' then ''styles:read'' else if h = ''CreateStyle'' then ''styles:write''
      else if h \<in> set [''GetCharacter'', ''GetPlace'', ''SearchAssets'', ''GetAsset'', ''JobAssets''] then ''images:read''
      else if h = ''GetJob'' then ''jobs:read''
      else if h \<in> set [''CreatePrice'', ''ListPrices'', ''GetPrice'', ''UpdatePrice'', ''CreateBudget'', ''ListBudgets'', ''UpdateBudget'',
                       ''ListReservations'', ''ListCostEvents'', ''Metrics''] then ''admin:costs''
      else if h \<in> set [''CancelJob'', ''RetryJob'', ''PutWebhookEndpoint'', ''GetWebhookEndpoint''] then ''admin:jobs''
      else ''images:write'')"

text \<open>A process mounts a part of what one with every service mounts, and that list can be evaluated.\<close>

definition full_deps :: deps where
  "full_deps = \<lparr>dp_auth_repo = True, dp_styles_repo = True, dp_identities_repo = True, dp_assets_repo = True, dp_jobs_repo = True,
     dp_jobs_service = True, dp_admin_cost = True, dp_admin_jobs = True, dp_webhooks_config = True, dp_resolver = True,
     dp_governance_verifier = None, dp_governance_mode = None, dp_tenant_pool = False\<rparr>"

lemma mount_part:
  "set xs \<subseteq> S \<Longrightarrow> set (if b then [] else xs) \<subseteq> S" "set xs \<subseteq> S \<Longrightarrow> set (if b then xs else []) \<subseteq> S"
  "set xs \<subseteq> set xs' \<Longrightarrow> set ys \<subseteq> set ys' \<Longrightarrow> set (xs @ ys) \<subseteq> set (xs' @ ys')"
  by auto

lemma mounts_full:
  "set (mountStyles d) \<subseteq> set (mountStyles full_deps)" "set (mountIdentities d) \<subseteq> set (mountIdentities full_deps)"
  "set (mountAssets d) \<subseteq> set (mountAssets full_deps)" "set (mountArtifacts d) \<subseteq> set (mountArtifacts full_deps)"
  "set (mountGenerations d) \<subseteq> set (mountGenerations full_deps)" "set (mountPacks d) \<subseteq> set (mountPacks full_deps)"
  "set (mountJobs d) \<subseteq> set (mountJobs full_deps)" "set (mountAdminCost d) \<subseteq> set (mountAdminCost full_deps)"
  "set (mountAdminJobs d) \<subseteq> set (mountAdminJobs full_deps)" "set (mountWebhooksConfig d) \<subseteq> set (mountWebhooksConfig full_deps)"
  unfolding mountStyles_def mountIdentities_def mountAssets_def mountArtifacts_def mountGenerations_def mountPacks_def
    mountJobs_def mountAdminCost_def mountAdminJobs_def mountWebhooksConfig_def full_deps_def deps.simps simp_thms if_True if_False
  by (intro mount_part subset_refl)+

lemma mountV1_full: "set (mountV1 d) \<subseteq> set (mountV1 full_deps)"
proof (cases "dp_auth_repo d")
  case True
  have "dp_auth_repo full_deps" by (simp add: full_deps_def)
  with True mounts_full [of d] show ?thesis unfolding mountV1_def by auto
qed (simp add: mountV1_def)

lemma full_scopes: "list_all (\<lambda>r. mt_scopes r = [handler_scope (mt_handler r)]) (mountV1 full_deps)"
  by code_simp

lemma full_reads: "list_all (\<lambda>r. mt_method r = ''GET'' \<longrightarrow> mt_handler r \<in> set [''ListStyles'', ''GetCharacter'', ''GetPlace'', ''GetAsset'',
     ''JobAssets'', ''GetJob'', ''ListPrices'', ''GetPrice'', ''ListBudgets'', ''ListReservations'', ''ListCostEvents'', ''Metrics'',
     ''GetWebhookEndpoint'']) (mountV1 full_deps)"
  by code_simp

lemma mounts_scoped: "r \<in> set (mountV1 d) \<Longrightarrow> mt_scopes r = [handler_scope (mt_handler r)]"
  using full_scopes mountV1_full by (auto simp: list_all_iff)

lemma dispatch_SomeD: "dispatch match d m path = Some r \<Longrightarrow> r \<in> set (mountV1 d) \<and> mt_method r = m \<and> match (mt_path r) path"
  by (auto simp: dispatch_def dest: find_SomeD)

text \<open>A handler runs only for a verified token that carries the handler's scope.\<close>

lemma v1_request_ReplyD:
  assumes "v1_request match miss d limiter fm fh now m path v s = (Reply (h, p), s')"
  shows "v = Inr p \<and> hasScope p (handler_scope h)
    \<and> (\<exists>r \<in> set (mountV1 d). mt_handler r = h \<and> mt_method r = m \<and> match (mt_path r) path)"
proof -
  from assms obtain r where r: "dispatch match d m path = Some r" "admit limiter fm fh now (mt_scopes r) v s = (Reply p, s')"
      "mt_handler r = h"
    by (auto simp: v1_request_def Let_def split: if_splits option.splits prod.splits reply.splits)
  from admit_sound [OF r(2)] mounts_scoped dispatch_SomeD [OF r(1)] r(3) show ?thesis by auto
qed

text \<open>Under \<open>/admin\<close> nothing is answered, not even that a path does not exist, without the scope of the group.\<close>

lemma v1_request_admin_hidden:
  assumes "v1_request match miss d limiter fm fh now m path v s = (Problem (miss m path) '''', s')"
    and "\<not> dp_admin_jobs d \<or> \<not> match [Literal ''admin'', Literal ''jobs'', Rest] path" "dp_admin_cost d" "dp_auth_repo d"
    and "match [Literal ''admin'', Rest] path" "dispatch match d m path = None"
  shows "\<exists>p. v = Inr p \<and> hasScope p ''admin:costs''"
proof -
  have "find (\<lambda>(ps, _). match ps path) (admin_groups d) = Some ([Literal ''admin'', Rest], ''admin:costs'')"
    using assms(2,3,5) by (auto simp: admin_groups_def)
  with assms obtain p where "admit limiter fm fh now [''admin:costs''] v s = (Reply p, s')"
    by (auto simp: v1_request_def admit_def auth_middleware_def split: if_splits reply.splits prod.splits gate_decision.splits sum.splits reject_reason.splits)
  from admit_sound [OF this] show ?thesis by auto
qed

text \<open>What changes state is never reached with a method that only reads.\<close>

lemma reads_are_gets:
  "r \<in> set (mountV1 d) \<Longrightarrow> mt_method r = ''GET'' \<Longrightarrow> mt_handler r \<in> set [''ListStyles'', ''GetCharacter'', ''GetPlace'', ''GetAsset'',
     ''JobAssets'', ''GetJob'', ''ListPrices'', ''GetPrice'', ''ListBudgets'', ''ListReservations'', ''ListCostEvents'', ''Metrics'',
     ''GetWebhookEndpoint'']"
  using full_reads mountV1_full [of d] unfolding list_all_iff by blast

end
