(* ===== verification/Tiers.thy ===== *)
theory Tiers
  imports Chroma
begin

text \<open>
  The delivery tiers of a render, \<open>internal/imaging/imaging.go\<close> and \<open>upscale.go\<close>: what is enlarged, what
  is reduced, and the enlargement itself: resampling in linear light, damped back-projection, and
  sharpening of edges clamped to their neighbourhood. Floats are rationals. The decoders, the AVIF
  encoder, the Catmull-Rom scaler of \<open>x/image\<close>, \<open>Pow\<close> and \<open>Hypot\<close> are parameters: \<open>ti_scale16\<close> scales the
  samples of a 16-bit grey image, \<open>ti_scale\<close> gives the pixels of a scaled picture.
\<close>

record imaging =
  ti_decode :: "string \<Rightarrow> picture option"
  ti_avif :: "picture \<Rightarrow> string option"
  ti_scale :: "picture \<Rightarrow> nat \<Rightarrow> nat \<Rightarrow> picture"
  ti_scale16 :: "nat \<Rightarrow> nat \<Rightarrow> nat \<Rightarrow> nat \<Rightarrow> nat list \<Rightarrow> nat \<Rightarrow> nat"
  ti_pow :: "rat \<Rightarrow> rat \<Rightarrow> rat"
  ti_hypot :: "rat \<Rightarrow> rat \<Rightarrow> rat"

section \<open>Linear light\<close>

record planes =
  pl_r :: "rat list"
  pl_g :: "rat list"
  pl_b :: "rat list"
  pl_a :: "rat list"

definition srgbGamma :: rat where
  "srgbGamma = 24 / 10"

definition srgbToLinear :: "imaging \<Rightarrow> rat \<Rightarrow> rat" where
  "srgbToLinear im c =
     (if c \<le> 4045 / 100000 then c / (1292 / 100) else ti_pow im ((c + 55 / 1000) / (1055 / 1000)) srgbGamma)"

definition linearToSRGB :: "imaging \<Rightarrow> rat \<Rightarrow> rat" where
  "linearToSRGB im c =
     (if c \<le> 31308 / 10000000 then c * (1292 / 100) else 1055 / 1000 * ti_pow im c (1 / srgbGamma) - 55 / 1000)"

definition clampUnit :: "rat \<Rightarrow> rat" where
  "clampUnit v = (if v < 0 then 0 else if v > 1 then 1 else v)"

definition clamp8 :: "rat \<Rightarrow> int" where
  "clamp8 v = (let f = v * 255 + 1 / 2 in if f < 0 then 0 else if f > 255 then 255 else \<lfloor>f\<rfloor>)"

definition encodeSample :: "imaging \<Rightarrow> rat \<Rightarrow> int" where
  "encodeSample im v = clamp8 (linearToSRGB im (clampUnit v))"

text \<open>The samples of a picture in the order of its rows; alpha is not gamma encoded.\<close>

definition straight_pixels :: "picture \<Rightarrow> color4 list" where
  "straight_pixels p = map (\<lambda>i. pc_nrgba p (i mod pc_w p) (i div pc_w p)) [0..<pc_w p * pc_h p]"

definition toLinearPlanes :: "imaging \<Rightarrow> picture \<Rightarrow> planes" where
  "toLinearPlanes im p =
     (let lin = (\<lambda>v. srgbToLinear im (of_int v / 255)); px = straight_pixels p
      in \<lparr>pl_r = map (\<lambda>(r, g, b, a). lin r) px, pl_g = map (\<lambda>(r, g, b, a). lin g) px,
          pl_b = map (\<lambda>(r, g, b, a). lin b) px, pl_a = map (\<lambda>(r, g, b, a). of_int a / 255) px\<rparr>)"

text \<open>\<open>RGBA()\<close> of a pixel with straight alpha: sixteen bits a channel, premultiplied.\<close>

definition premultiplied :: "color4 \<Rightarrow> color4" where
  "premultiplied c = (case c of (r, g, b, a) \<Rightarrow> (r * 257 * a div 255, g * 257 * a div 255, b * 257 * a div 255, a * 257))"

definition fromLinearPlanes :: "imaging \<Rightarrow> planes \<Rightarrow> nat \<Rightarrow> nat \<Rightarrow> picture" where
  "fromLinearPlanes im p w h =
     (let px = (\<lambda>x y. let o' = y * w + x
             in (encodeSample im (pl_r p ! o'), encodeSample im (pl_g p ! o'), encodeSample im (pl_b p ! o'), clamp8 (pl_a p ! o')))
      in \<lparr>pc_w = w, pc_h = h, pc_at = (\<lambda>x y. premultiplied (px x y)), pc_nrgba = px\<rparr>)"

section \<open>Resampling and back-projection\<close>

definition grey16 :: "rat \<Rightarrow> nat" where
  "grey16 v = nat \<lfloor>clampUnit v * 65535 + 1 / 2\<rfloor>"

definition resizePlane :: "imaging \<Rightarrow> rat list \<Rightarrow> nat \<Rightarrow> nat \<Rightarrow> nat \<Rightarrow> nat \<Rightarrow> rat list" where
  "resizePlane im src sw sh dw dh =
     map (\<lambda>i. of_nat (ti_scale16 im sw sh dw dh (map grey16 src) i) / 65535) [0..<dw * dh]"

definition resizePlanes :: "imaging \<Rightarrow> planes \<Rightarrow> nat \<Rightarrow> nat \<Rightarrow> nat \<Rightarrow> nat \<Rightarrow> planes" where
  "resizePlanes im p sw sh dw dh =
     \<lparr>pl_r = resizePlane im (pl_r p) sw sh dw dh, pl_g = resizePlane im (pl_g p) sw sh dw dh,
      pl_b = resizePlane im (pl_b p) sw sh dw dh, pl_a = resizePlane im (pl_a p) sw sh dw dh\<rparr>"

definition backProjectIterations :: nat where "backProjectIterations = 4"
definition backProjectStep :: rat where "backProjectStep = 3 / 10"

definition backProjectChannel :: "imaging \<Rightarrow> nat \<Rightarrow> nat \<Rightarrow> nat \<Rightarrow> nat \<Rightarrow> rat list \<Rightarrow> rat list \<Rightarrow> rat list" where
  "backProjectChannel im sw sh dw dh low high =
     (let down = resizePlane im high dw dh sw sh;
          resid = map (\<lambda>i. low ! i - down ! i) [0..<length low];
          up = resizePlane im resid sw sh dw dh
      in map (\<lambda>i. high ! i + backProjectStep * up ! i) [0..<length high])"

definition backProject :: "imaging \<Rightarrow> planes \<Rightarrow> planes \<Rightarrow> nat \<Rightarrow> nat \<Rightarrow> nat \<Rightarrow> nat \<Rightarrow> planes" where
  "backProject im low high sw sh dw dh =
     ((\<lambda>p. p\<lparr>pl_r := backProjectChannel im sw sh dw dh (pl_r low) (pl_r p),
             pl_g := backProjectChannel im sw sh dw dh (pl_g low) (pl_g p),
             pl_b := backProjectChannel im sw sh dw dh (pl_b low) (pl_b p)\<rparr>) ^^ backProjectIterations) high"

section \<open>Sharpening\<close>

definition sharpenAmount :: rat where "sharpenAmount = 1 / 2"
definition sharpenEdgeThreshold :: rat where "sharpenEdgeThreshold = 6 / 100"
definition sharpenRadius :: nat where "sharpenRadius = 1"

definition interior :: "nat \<Rightarrow> nat \<Rightarrow> nat \<Rightarrow> bool" where
  "interior w h i \<longleftrightarrow> 1 \<le> i mod w \<and> i mod w < w - 1 \<and> 1 \<le> i div w \<and> i div w < h - 1"

definition sobel :: "imaging \<Rightarrow> nat \<Rightarrow> rat list \<Rightarrow> nat \<Rightarrow> rat" where
  "sobel im w l i =
     ti_hypot im
       (- (l ! (i - w - 1)) - 2 * l ! (i - 1) - l ! (i + w - 1) + l ! (i - w + 1) + 2 * l ! (i + 1) + l ! (i + w + 1))
       (- (l ! (i - w - 1)) - 2 * l ! (i - w) - l ! (i - w + 1) + l ! (i + w - 1) + 2 * l ! (i + w) + l ! (i + w + 1))"

definition sobelMask :: "imaging \<Rightarrow> rat list \<Rightarrow> nat \<Rightarrow> nat \<Rightarrow> rat list" where
  "sobelMask im lum w h =
     (let mags = map (\<lambda>i. if interior w h i then sobel im w lum i else 0) [0..<w * h];
          top = fold max mags 0
      in if top = 0 then mags
         else map (\<lambda>m. clampUnit ((m / top - sharpenEdgeThreshold) / (4 * sharpenEdgeThreshold))) mags)"

definition mean :: "rat list \<Rightarrow> rat" where
  "mean xs = sum_list xs / of_nat (length xs)"

text \<open>The indices from \<open>k - r\<close> to \<open>k + r\<close> that are below \<open>n\<close>.\<close>

definition reach :: "nat \<Rightarrow> nat \<Rightarrow> nat \<Rightarrow> nat list" where
  "reach r n k = filter (\<lambda>j. k \<le> j + r \<and> j \<le> k + r) [0..<n]"

definition boxBlur :: "rat list \<Rightarrow> nat \<Rightarrow> nat \<Rightarrow> nat \<Rightarrow> rat list" where
  "boxBlur src w h r =
     (let tmp = map (\<lambda>i. mean (map (\<lambda>x. src ! (i div w * w + x)) (reach r w (i mod w)))) [0..<w * h]
      in map (\<lambda>i. mean (map (\<lambda>y. tmp ! (y * w + i mod w)) (reach r h (i div w)))) [0..<w * h])"

text \<open>The three by three samples around an interior one.\<close>

definition hood :: "nat \<Rightarrow> rat list \<Rightarrow> nat \<Rightarrow> rat list" where
  "hood w l i = map ((!) l) [i - w - 1, i - w, i - w + 1, i - 1, i, i + 1, i + w - 1, i + w, i + w + 1]"

definition sharpen_sample :: "nat \<Rightarrow> rat list \<Rightarrow> rat list \<Rightarrow> rat list \<Rightarrow> nat \<Rightarrow> rat" where
  "sharpen_sample w orig blurred em i =
     (let lo = fold min (hood w orig i) (orig ! i); hi = fold max (hood w orig i) (orig ! i);
          s = orig ! i + sharpenAmount * (orig ! i - blurred ! i);
          s = (if s < lo then lo else s); s = (if s > hi then hi else s)
      in orig ! i + em ! i * (s - orig ! i))"

definition sharpenChannel :: "rat list \<Rightarrow> nat \<Rightarrow> nat \<Rightarrow> rat list \<Rightarrow> rat list" where
  "sharpenChannel em w h ch =
     (let blurred = boxBlur ch w h sharpenRadius
      in map (\<lambda>i. if interior w h i \<and> em ! i \<noteq> 0 then sharpen_sample w ch blurred em i else ch ! i) [0..<length ch])"

definition luminance :: "planes \<Rightarrow> rat list" where
  "luminance p = map (\<lambda>(r, g, b). 2126 / 10000 * r + 7152 / 10000 * g + 722 / 10000 * b) (zip (pl_r p) (zip (pl_g p) (pl_b p)))"

definition sharpenEdges :: "imaging \<Rightarrow> nat \<Rightarrow> nat \<Rightarrow> planes \<Rightarrow> planes" where
  "sharpenEdges im w h p =
     (let em = sobelMask im (luminance p) w h
      in p\<lparr>pl_r := sharpenChannel em w h (pl_r p), pl_g := sharpenChannel em w h (pl_g p), pl_b := sharpenChannel em w h (pl_b p)\<rparr>)"

section \<open>The tiers\<close>

definition Upscale :: "imaging \<Rightarrow> picture \<Rightarrow> int \<Rightarrow> picture" where
  "Upscale im src factor =
     (if factor \<le> 1 then src
      else (let w = pc_w src * nat factor; h = pc_h src * nat factor;
                low = toLinearPlanes im src;
                high = resizePlanes im low (pc_w src) (pc_h src) w h;
                high = backProject im low high (pc_w src) (pc_h src) w h
            in fromLinearPlanes im (sharpenEdges im w h high) w h))"

definition ThumbnailShortEdge :: nat where "ThumbnailShortEdge = 256"
definition PreviewShortEdge :: nat where "PreviewShortEdge = 512"
definition FinalUpscaleFactor :: int where "FinalUpscaleFactor = 2"
definition UpscaleBelowShortEdge :: nat where "UpscaleBelowShortEdge = 512"

definition upscaleForDelivery :: "imaging \<Rightarrow> picture \<Rightarrow> picture" where
  "upscaleForDelivery im src =
     (if min (pc_w src) (pc_h src) > UpscaleBelowShortEdge then src else Upscale im src FinalUpscaleFactor)"

definition scaled_edge :: "nat \<Rightarrow> rat \<Rightarrow> nat" where
  "scaled_edge n scale = max 1 (nat (go_round (of_nat n * scale)))"

definition downscaleShortEdge :: "imaging \<Rightarrow> picture \<Rightarrow> nat \<Rightarrow> picture" where
  "downscaleShortEdge im src target =
     (let short = min (pc_w src) (pc_h src)
      in if short \<le> target then src
         else (let scale = of_nat target / of_nat short; nw = scaled_edge (pc_w src) scale; nh = scaled_edge (pc_h src) scale
               in (ti_scale im src nw nh)\<lparr>pc_w := nw, pc_h := nh\<rparr>))"

definition EncodeTiers :: "imaging \<Rightarrow> string \<Rightarrow> (string \<times> string \<times> string) option" where
  "EncodeTiers im src =
     (case ti_decode im src of
        None \<Rightarrow> None
      | Some img \<Rightarrow>
          (case ti_avif im (upscaleForDelivery im img) of
             None \<Rightarrow> None
           | Some f \<Rightarrow>
               (case ti_avif im (downscaleShortEdge im img PreviewShortEdge) of
                  None \<Rightarrow> None
                | Some p \<Rightarrow> map_option (\<lambda>t. (f, p, t)) (ti_avif im (downscaleShortEdge im img ThumbnailShortEdge)))))"

section \<open>Sizes\<close>

lemma Upscale_size: "factor > 1 \<Longrightarrow> pc_w (Upscale im p factor) = pc_w p * nat factor \<and> pc_h (Upscale im p factor) = pc_h p * nat factor"
  by (simp add: Upscale_def fromLinearPlanes_def Let_def)

lemma go_round_of_nat: "go_round (of_nat n) = int n"
proof -
  have "\<lfloor>of_nat n + 1 / 2 :: rat\<rfloor> = int n" by (rule floor_unique) simp_all
  then show ?thesis by (simp add: go_round_def)
qed

lemma go_round_mono: "0 \<le> x \<Longrightarrow> x \<le> y \<Longrightarrow> go_round x \<le> go_round y"
  by (auto simp: go_round_def intro!: floor_mono)

lemma scaled_edge_mono:
  assumes "0 \<le> s" "s \<le> s'" "m \<le> n"
  shows "scaled_edge m s \<le> scaled_edge n s'"
proof -
  have "(of_nat m :: rat) * s \<le> of_nat n * s'" using assms by (intro mult_mono) simp_all
  then have "go_round (of_nat m * s) \<le> go_round (of_nat n * s')" using assms by (intro go_round_mono) simp_all
  then show ?thesis by (auto simp: scaled_edge_def intro: max.mono nat_mono)
qed

lemma scaled_edge_one: "0 < n \<Longrightarrow> scaled_edge n 1 = n"
  by (simp add: scaled_edge_def go_round_of_nat)

lemma scaled_edge_exact: "0 < short \<Longrightarrow> 0 < target \<Longrightarrow> scaled_edge short (of_nat target / of_nat short) = target"
  by (simp add: scaled_edge_def go_round_of_nat)

text \<open>A tier keeps its target on the short edge, is never larger than the render, and grows with its target.\<close>

lemma downscale_size:
  assumes "0 < pc_w p" "0 < pc_h p" "0 < t"
  shows "min (pc_w (downscaleShortEdge im p t)) (pc_h (downscaleShortEdge im p t)) = min t (min (pc_w p) (pc_h p))"
    "pc_w (downscaleShortEdge im p t) \<le> pc_w p" "pc_h (downscaleShortEdge im p t) \<le> pc_h p"
proof -
  let ?s = "min (pc_w p) (pc_h p)"
  have "min (pc_w (downscaleShortEdge im p t)) (pc_h (downscaleShortEdge im p t)) = min t ?s
    \<and> pc_w (downscaleShortEdge im p t) \<le> pc_w p \<and> pc_h (downscaleShortEdge im p t) \<le> pc_h p"
  proof (cases "?s \<le> t")
    case False
    let ?q = "of_nat t / of_nat ?s :: rat"
    have "(of_nat t :: rat) \<le> of_nat ?s" using False unfolding of_nat_le_iff by linarith
    then have q: "0 \<le> ?q" "?q \<le> 1" using assms False by (simp_all add: divide_le_eq del: of_nat_min)
    have d: "pc_w (downscaleShortEdge im p t) = scaled_edge (pc_w p) ?q" "pc_h (downscaleShortEdge im p t) = scaled_edge (pc_h p) ?q"
      using False by (simp_all add: downscaleShortEdge_def Let_def)
    have le: "scaled_edge n ?q \<le> n" if "0 < n" for n
      using scaled_edge_mono [OF q(1,2), of n n] scaled_edge_one [OF that] by simp
    have "scaled_edge ?s ?q = t" using assms by (intro scaled_edge_exact) auto
    moreover have "scaled_edge ?s ?q \<le> scaled_edge (pc_w p) ?q" "scaled_edge ?s ?q \<le> scaled_edge (pc_h p) ?q"
      using q(1) by (auto intro!: scaled_edge_mono)
    ultimately have "min (scaled_edge (pc_w p) ?q) (scaled_edge (pc_h p) ?q) = t"
      by (cases "pc_w p \<le> pc_h p") (auto simp: min_def)
    with d le assms False show ?thesis by auto
  qed (simp add: downscaleShortEdge_def Let_def)
  then show "min (pc_w (downscaleShortEdge im p t)) (pc_h (downscaleShortEdge im p t)) = min t ?s"
    "pc_w (downscaleShortEdge im p t) \<le> pc_w p" "pc_h (downscaleShortEdge im p t) \<le> pc_h p" by blast+
qed

lemma downscale_mono:
  assumes "0 < pc_w p" "0 < pc_h p" "0 < t" "t \<le> t'"
  shows "pc_w (downscaleShortEdge im p t) \<le> pc_w (downscaleShortEdge im p t')"
    "pc_h (downscaleShortEdge im p t) \<le> pc_h (downscaleShortEdge im p t')"
proof -
  let ?s = "min (pc_w p) (pc_h p)"
  have "(of_nat t :: rat) / of_nat ?s \<le> of_nat t' / of_nat ?s" using assms(4) by (simp add: divide_right_mono)
  then have "pc_w (downscaleShortEdge im p t) \<le> pc_w (downscaleShortEdge im p t')
      \<and> pc_h (downscaleShortEdge im p t) \<le> pc_h (downscaleShortEdge im p t')" if "t' < ?s"
    using that assms(4) by (auto simp: downscaleShortEdge_def Let_def intro!: scaled_edge_mono)
  moreover have "downscaleShortEdge im p t' = p" if "\<not> t' < ?s"
    using that unfolding downscaleShortEdge_def Let_def not_less by (rule if_P)
  ultimately show "pc_w (downscaleShortEdge im p t) \<le> pc_w (downscaleShortEdge im p t')"
    "pc_h (downscaleShortEdge im p t) \<le> pc_h (downscaleShortEdge im p t')"
    using downscale_size(2,3) [OF assms(1-3)] by (metis)+
qed

section \<open>What the enlargement does to a sample\<close>

lemma length_resizePlane [simp]: "length (resizePlane im src sw sh dw dh) = dw * dh"
  by (simp add: resizePlane_def)

lemma resizePlane_nonneg: "i < dw * dh \<Longrightarrow> 0 \<le> resizePlane im src sw sh dw dh ! i"
  by (simp add: resizePlane_def)

lemma length_backProjectChannel [simp]: "length (backProjectChannel im sw sh dw dh low high) = length high"
  by (simp add: backProjectChannel_def Let_def)

text \<open>
  Back-projection only ever brightens: a residual is resampled as a grey image, where a negative
  one is clamped to zero.
\<close>

lemma backProjectChannel_brightens:
  assumes "length high = dw * dh" "i < dw * dh"
  shows "high ! i \<le> backProjectChannel im sw sh dw dh low high ! i"
  using assms by (simp add: backProjectChannel_def Let_def backProjectStep_def resizePlane_nonneg)

lemma resid_clamped: "v \<le> 0 \<Longrightarrow> grey16 v = 0"
  by (simp add: grey16_def clampUnit_def)

definition brighter :: "nat \<Rightarrow> rat list \<Rightarrow> rat list \<Rightarrow> bool" where
  "brighter n xs ys \<longleftrightarrow> length xs = n \<and> length ys = n \<and> (\<forall>i < n. xs ! i \<le> ys ! i)"

lemma brighter_step: "brighter (dw * dh) xs ys \<Longrightarrow> brighter (dw * dh) xs (backProjectChannel im sw sh dw dh low ys)"
  unfolding brighter_def using backProjectChannel_brightens by (metis length_backProjectChannel order_trans)

lemma backProject_brightens:
  assumes "length (pl_r p) = dw * dh" "length (pl_g p) = dw * dh" "length (pl_b p) = dw * dh"
    and q: "q = backProject im low p sw sh dw dh"
  shows "brighter (dw * dh) (pl_r p) (pl_r q) \<and> brighter (dw * dh) (pl_g p) (pl_g q) \<and> brighter (dw * dh) (pl_b p) (pl_b q)
    \<and> pl_a q = pl_a p"
proof -
  have "let q = ((\<lambda>p. p\<lparr>pl_r := backProjectChannel im sw sh dw dh (pl_r low) (pl_r p),
             pl_g := backProjectChannel im sw sh dw dh (pl_g low) (pl_g p),
             pl_b := backProjectChannel im sw sh dw dh (pl_b low) (pl_b p)\<rparr>) ^^ n) p
        in brighter (dw * dh) (pl_r p) (pl_r q) \<and> brighter (dw * dh) (pl_g p) (pl_g q) \<and> brighter (dw * dh) (pl_b p) (pl_b q)
         \<and> pl_a q = pl_a p" for n
    by (induction n) (use assms(1-3) in \<open>auto simp: Let_def brighter_step\<close>, simp_all add: brighter_def)
  then show ?thesis by (simp add: q backProject_def Let_def)
qed

lemma fold_min_le: "fold min xs (y :: rat) \<le> y \<and> (\<forall>x \<in> set xs. fold min xs y \<le> x) \<and> fold min xs y \<in> insert y (set xs)"
proof (induction xs arbitrary: y)
  case (Cons x xs)
  from Cons.IH [of "min x y"] show ?case by (auto simp: min_def split: if_splits)
qed simp

lemma fold_max_ge: "y \<le> fold max xs (y :: rat) \<and> (\<forall>x \<in> set xs. x \<le> fold max xs y) \<and> fold max xs y \<in> insert y (set xs)"
proof (induction xs arbitrary: y)
  case (Cons x xs)
  from Cons.IH [of "max x y"] show ?case by (auto simp: max_def split: if_splits)
qed simp

lemma clampUnit_bounds: "0 \<le> clampUnit v \<and> clampUnit v \<le> 1"
  by (simp add: clampUnit_def)

lemma sobelMask_bounds:
  assumes "\<forall>x y. 0 \<le> ti_hypot im x y" "m \<in> set (sobelMask im lum w h)"
  shows "0 \<le> m \<and> m \<le> 1"
proof -
  define mags where "mags = map (\<lambda>i. if interior w h i then sobel im w lum i else 0) [0..<w * h]"
  define top where "top = fold max mags 0"
  have m: "m \<in> set (if top = 0 then mags
      else map (\<lambda>m. clampUnit ((m / top - sharpenEdgeThreshold) / (4 * sharpenEdgeThreshold))) mags)"
    using assms(2) by (simp only: sobelMask_def mags_def [symmetric] top_def [symmetric] Let_def)
  show ?thesis
  proof (cases "top = 0")
    case True
    with m have "m \<in> set mags" by simp
    moreover have "0 \<le> m" if "m \<in> set mags" using that assms(1) by (auto simp: mags_def sobel_def)
    moreover have "m \<le> top" if "m \<in> set mags" using that fold_max_ge [of 0 mags] by (simp add: top_def)
    ultimately show ?thesis using True by simp
  next
    case False
    with m obtain v where "m = clampUnit v" by auto
    with clampUnit_bounds show ?thesis by simp
  qed
qed

lemma length_sobelMask [simp]: "length (sobelMask im lum w h) = w * h"
  by (simp add: sobelMask_def Let_def)

text \<open>No halo: a sharpened sample lies between two samples that were next to it.\<close>

lemma sharpen_sample_between:
  assumes "0 \<le> m ! i" "m ! i \<le> 1"
  shows "\<exists>a \<in> set (hood w l i). \<exists>b \<in> set (hood w l i). a \<le> sharpen_sample w l bl m i \<and> sharpen_sample w l bl m i \<le> b"
proof -
  let ?lo = "fold min (hood w l i) (l ! i)" and ?hi = "fold max (hood w l i) (l ! i)"
  define s where "s = (let s = l ! i + sharpenAmount * (l ! i - bl ! i); s = (if s < ?lo then ?lo else s) in if s > ?hi then ?hi else s)"
  have self: "l ! i \<in> set (hood w l i)" by (simp add: hood_def)
  have lo: "?lo \<le> l ! i" "?lo \<in> set (hood w l i)" using fold_min_le [of "hood w l i" "l ! i"] self by auto
  have hi: "l ! i \<le> ?hi" "?hi \<in> set (hood w l i)" using fold_max_ge [of "l ! i" "hood w l i"] self by auto
  have s: "?lo \<le> s" "s \<le> ?hi" using lo hi by (auto simp: s_def Let_def)
  have eq: "sharpen_sample w l bl m i = (1 - m ! i) * (l ! i) + m ! i * s"
    by (simp add: sharpen_sample_def s_def Let_def algebra_simps)
  have "(1 - m ! i) * ?lo + m ! i * ?lo \<le> sharpen_sample w l bl m i" "sharpen_sample w l bl m i \<le> (1 - m ! i) * ?hi + m ! i * ?hi"
    unfolding eq using assms lo hi s by (auto intro!: add_mono mult_left_mono)
  then have "?lo \<le> sharpen_sample w l bl m i" "sharpen_sample w l bl m i \<le> ?hi" by (simp_all add: algebra_simps)
  with lo hi show ?thesis by blast
qed

definition no_halo :: "nat \<Rightarrow> nat \<Rightarrow> rat list \<Rightarrow> rat list \<Rightarrow> bool" where
  "no_halo w h xs ys \<longleftrightarrow> (\<forall>i < w * h.
     if interior w h i then \<exists>a \<in> set (hood w xs i). \<exists>b \<in> set (hood w xs i). a \<le> ys ! i \<and> ys ! i \<le> b else ys ! i = xs ! i)"

lemma sharpenChannel_no_halo:
  assumes "\<forall>x y. 0 \<le> ti_hypot im x y" "length ch = w * h"
  shows "no_halo w h ch (sharpenChannel (sobelMask im lum w h) w h ch)"
  unfolding no_halo_def
proof (intro allI impI)
  fix i assume i: "i < w * h"
  let ?m = "sobelMask im lum w h"
  have "?m ! i \<in> set ?m" using i by simp
  with sobelMask_bounds [OF assms(1)] have m: "0 \<le> ?m ! i" "?m ! i \<le> 1" by blast+
  have self: "ch ! i \<in> set (hood w ch i)" by (simp add: hood_def)
  from sharpen_sample_between [of ?m i w ch "boxBlur ch w h sharpenRadius"] m self assms i
  show "if interior w h i then \<exists>a \<in> set (hood w ch i). \<exists>b \<in> set (hood w ch i).
      a \<le> sharpenChannel ?m w h ch ! i \<and> sharpenChannel ?m w h ch ! i \<le> b else sharpenChannel ?m w h ch ! i = ch ! i"
    by (auto simp: sharpenChannel_def Let_def)
qed

end
