(* ===== verification/Metrics.thy ===== *)
theory Metrics
  imports Reads "HOL-Library.Word"
begin

text \<open>
  The economics counters of a process, \<open>internal/telemetry/metrics.go\<close>, and the billing metadata the
  worker accepts from a provider (\<open>jobs/worker.go\<close>). Counters are the 64-bit words of \<open>atomic.Int64\<close>.
  \<open>parse\<close> is \<open>ParseFloat\<close>, whose finite values are rationals here.
\<close>

section \<open>Counters\<close>

record metrics =
  mx_cache_hits :: "64 word"
  mx_cache_misses :: "64 word"
  mx_usable_images :: "64 word"
  mx_provider_calls :: "64 word"
  mx_policy_rejects :: "64 word"
  mx_fallback_attempts :: "64 word"
  mx_fallback_successes :: "64 word"
  mx_estimated_micros :: "64 word"
  mx_actual_micros :: "64 word"

definition fresh_metrics :: metrics where
  "fresh_metrics = \<lparr>mx_cache_hits = 0, mx_cache_misses = 0, mx_usable_images = 0, mx_provider_calls = 0, mx_policy_rejects = 0,
     mx_fallback_attempts = 0, mx_fallback_successes = 0, mx_estimated_micros = 0, mx_actual_micros = 0\<rparr>"

definition recordCacheHit :: "metrics \<Rightarrow> metrics" where
  "recordCacheHit m = m\<lparr>mx_cache_hits := mx_cache_hits m + 1\<rparr>"

definition recordCacheMiss :: "metrics \<Rightarrow> metrics" where
  "recordCacheMiss m = m\<lparr>mx_cache_misses := mx_cache_misses m + 1\<rparr>"

definition recordUsableImage :: "metrics \<Rightarrow> metrics" where
  "recordUsableImage m = m\<lparr>mx_usable_images := mx_usable_images m + 1\<rparr>"

definition recordProviderCall :: "metrics \<Rightarrow> metrics" where
  "recordProviderCall m = m\<lparr>mx_provider_calls := mx_provider_calls m + 1\<rparr>"

definition recordPolicyReject :: "metrics \<Rightarrow> metrics" where
  "recordPolicyReject m = m\<lparr>mx_policy_rejects := mx_policy_rejects m + 1\<rparr>"

definition recordFallbackAttempt :: "metrics \<Rightarrow> metrics" where
  "recordFallbackAttempt m = m\<lparr>mx_fallback_attempts := mx_fallback_attempts m + 1\<rparr>"

definition recordFallbackSuccess :: "metrics \<Rightarrow> metrics" where
  "recordFallbackSuccess m = m\<lparr>mx_fallback_successes := mx_fallback_successes m + 1\<rparr>"

section \<open>Money in micro-dollars\<close>

datatype parsed = Finite rat | Infinite | NotANumber

type_synonym parse_float = "string \<Rightarrow> parsed option"

text \<open>The conversion to \<open>int64\<close> cuts towards zero; out of range it keeps the low bits.\<close>

definition micros :: "parse_float \<Rightarrow> string \<Rightarrow> 64 word option" where
  "micros parse v =
     (case parse v of
        Some (Finite f) \<Rightarrow>
          if f < 0 then None
          else (let scaled = f * 1000000 + 1 / 2 in if scaled \<ge> 2 ^ 63 then None else Some (word_of_int \<lfloor>scaled\<rfloor>))
      | _ \<Rightarrow> None)"

definition signedMicros :: "parse_float \<Rightarrow> string \<Rightarrow> 64 word option" where
  "signedMicros parse v =
     (case parse v of
        Some (Finite f) \<Rightarrow>
          let scaled = f * 1000000; scaled = (if scaled \<ge> 0 then scaled + 1 / 2 else scaled - 1 / 2)
          in if scaled > 2 ^ 63 \<or> scaled < - (2 ^ 63) then None
             else Some (word_of_int (if scaled \<ge> 0 then \<lfloor>scaled\<rfloor> else \<lceil>scaled\<rceil>))
      | _ \<Rightarrow> None)"

definition recordCost :: "parse_float \<Rightarrow> string \<Rightarrow> string \<Rightarrow> metrics \<Rightarrow> metrics" where
  "recordCost parse est act m =
     (let m = (case micros parse est of None \<Rightarrow> m | Some v \<Rightarrow> m\<lparr>mx_estimated_micros := mx_estimated_micros m + v\<rparr>)
      in case micros parse act of None \<Rightarrow> m | Some v \<Rightarrow> m\<lparr>mx_actual_micros := mx_actual_micros m + v\<rparr>)"

definition recordActualDelta :: "parse_float \<Rightarrow> string \<Rightarrow> metrics \<Rightarrow> metrics" where
  "recordActualDelta parse delta m =
     (case signedMicros parse delta of None \<Rightarrow> m | Some v \<Rightarrow> m\<lparr>mx_actual_micros := mx_actual_micros m + v\<rparr>)"

section \<open>What is shown of them\<close>

record metrics_snapshot =
  sn_cache_hits :: int
  sn_cache_misses :: int
  sn_usable_images :: int
  sn_provider_calls :: int
  sn_policy_rejects :: int
  sn_fallback_attempts :: int
  sn_fallback_successes :: int
  sn_estimated_micros :: int
  sn_actual_micros :: int

definition Snapshot :: "metrics \<Rightarrow> metrics_snapshot" where
  "Snapshot m = \<lparr>sn_cache_hits = sint (mx_cache_hits m), sn_cache_misses = sint (mx_cache_misses m),
     sn_usable_images = sint (mx_usable_images m), sn_provider_calls = sint (mx_provider_calls m),
     sn_policy_rejects = sint (mx_policy_rejects m), sn_fallback_attempts = sint (mx_fallback_attempts m),
     sn_fallback_successes = sint (mx_fallback_successes m), sn_estimated_micros = sint (mx_estimated_micros m),
     sn_actual_micros = sint (mx_actual_micros m)\<rparr>"

definition int64 :: "int \<Rightarrow> int" where
  "int64 x = sint (word_of_int x :: 64 word)"

definition cacheHitRate :: "metrics_snapshot \<Rightarrow> rat" where
  "cacheHitRate s =
     (let total = int64 (sn_cache_hits s + sn_cache_misses s)
      in if total = 0 then 0 else of_int (sn_cache_hits s) / of_int total)"

definition actualEstimateVariance :: "metrics_snapshot \<Rightarrow> int" where
  "actualEstimateVariance s = int64 (sn_actual_micros s - sn_estimated_micros s)"

definition actualCostPerUsableImage :: "metrics_snapshot \<Rightarrow> rat" where
  "actualCostPerUsableImage s =
     (if sn_usable_images s = 0 then 0 else of_int (sn_actual_micros s) / of_int (sn_usable_images s))"

text \<open>\<open>%06d\<close>: at least six characters, filled with zeros after the sign.\<close>

definition pad6 :: "int \<Rightarrow> string" where
  "pad6 n = (if n < 0 then CHR ''-'' # replicate (5 - length (itoa (- n))) (CHR ''0'') @ itoa (- n)
             else replicate (6 - length (itoa n)) (CHR ''0'') @ itoa n)"

text \<open>Division and remainder of Go cut towards zero.\<close>

definition go_div :: "int \<Rightarrow> int \<Rightarrow> int" where
  "go_div x y = sgn x * (\<bar>x\<bar> div y)"

definition go_rem :: "int \<Rightarrow> int \<Rightarrow> int" where
  "go_rem x y = sgn x * (\<bar>x\<bar> mod y)"

definition formatMicrosUSD :: "int \<Rightarrow> string" where
  "formatMicrosUSD n =
     (let (sign, m) = (if n < 0 then (''-'', int64 (- n)) else ('''', n))
      in sign @ itoa (go_div m 1000000) @ ''.'' @ pad6 (go_rem m 1000000))"

record exposition_metric =
  ex_name :: string
  ex_help :: string
  ex_kind :: string
  ex_value :: string

definition exposition :: "metrics_snapshot \<Rightarrow> exposition_metric list" where
  "exposition s = map (\<lambda>(n, h, k, v). \<lparr>ex_name = n, ex_help = h, ex_kind = k, ex_value = v\<rparr>)
     [(''asset_cache_hit_count'', ''Reuse lookups served from an existing ready asset.'', ''counter'', itoa (sn_cache_hits s)),
      (''asset_cache_miss_count'', ''Reuse lookups that required a fresh generation.'', ''counter'', itoa (sn_cache_misses s)),
      (''generation_usable_image_count'', ''Images persisted and delivered to a caller.'', ''counter'', itoa (sn_usable_images s)),
      (''provider_call_count'', ''Provider generate calls attempted.'', ''counter'', itoa (sn_provider_calls s)),
      (''provider_policy_reject_count'', ''Provider content-policy rejections, surfaced verbatim.'', ''counter'', itoa (sn_policy_rejects s)),
      (''provider_fallback_attempt_count'', ''Same-price fallback routes attempted after a primary failure.'', ''counter'',
       itoa (sn_fallback_attempts s)),
      (''provider_fallback_success_count'', ''Fallback routes that produced a usable result.'', ''counter'', itoa (sn_fallback_successes s)),
      (''estimated_cost_usd'', ''Cumulative reserved estimate in USD.'', ''gauge'', formatMicrosUSD (sn_estimated_micros s)),
      (''actual_cost_usd'', ''Cumulative provider-reported actual in USD, including late reconciliation deltas.'', ''gauge'',
       formatMicrosUSD (sn_actual_micros s))]"

definition metric_text :: "exposition_metric \<Rightarrow> string" where
  "metric_text m = (let nl = [CHR 0x0A] in
     ''# HELP '' @ ex_name m @ '' '' @ ex_help m @ nl @ ''# TYPE '' @ ex_name m @ '' '' @ ex_kind m @ nl
     @ ex_name m @ '' '' @ ex_value m @ nl)"

definition writeExposition :: "metrics_snapshot \<Rightarrow> string" where
  "writeExposition s = concat (map metric_text (exposition s))"

definition metricsRequest :: "metrics \<Rightarrow> string reply" where
  "metricsRequest m = Reply (writeExposition (Snapshot m))"

section \<open>What a provider may bill\<close>

definition normalizeProviderCost :: "parse_float \<Rightarrow> string \<Rightarrow> string option" where
  "normalizeProviderCost parse value =
     (let v = trimSpace value
      in if v = '''' then None
         else (case parse v of
                 Some (Finite n) \<Rightarrow> if n < 0 \<or> n > 99999999999999 / 10000 then None else Some v
               | _ \<Rightarrow> None))"

text \<open>\<open>sprint\<close> is the text of a metadata value that is not a string; \<open>nil\<close> counts as absent.\<close>

definition metadata_cost :: "parse_float \<Rightarrow> (json \<Rightarrow> string) \<Rightarrow> payload \<Rightarrow> string \<Rightarrow> string option" where
  "metadata_cost parse sprint meta key =
     (case meta key of
        None \<Rightarrow> None
      | Some JNull \<Rightarrow> None
      | Some (JStr s) \<Rightarrow> normalizeProviderCost parse s
      | Some v \<Rightarrow> normalizeProviderCost parse (sprint v))"

definition reportedProviderCost ::
    "parse_float \<Rightarrow> (json \<Rightarrow> string) \<Rightarrow> string option \<Rightarrow> string \<Rightarrow> payload \<Rightarrow> string option \<times> string" where
  "reportedProviderCost parse sprint actual currency meta =
     ((case Option.bind actual (normalizeProviderCost parse) of
         Some v \<Rightarrow> Some v
       | None \<Rightarrow>
           (case metadata_cost parse sprint meta ''actual_cost_usd'' of
              Some v \<Rightarrow> Some v
            | None \<Rightarrow> metadata_cost parse sprint meta ''actual_cost'')),
      normalizeProviderCurrency currency)"

text \<open>What is written to the attempt row: the request identifier and the amount, or nothing at all.\<close>

definition attempt_billing :: "string \<Rightarrow> string \<Rightarrow> string option \<times> string \<Rightarrow> (string \<times> string option \<times> string) option" where
  "attempt_billing request_id job_id cost =
     (let i = (if request_id = '''' then job_id else request_id)
      in if i = '''' \<and> fst cost = None then None else Some (i, fst cost, snd cost))"

section \<open>Lemmas\<close>

lemma int64_id: "- (2 ^ 63) \<le> x \<Longrightarrow> x < 2 ^ 63 \<Longrightarrow> int64 x = x"
  unfolding int64_def sint_sbintrunc' by (rule signed_take_bit_int_eq_self) simp_all

text \<open>The amounts a provider may report fit the column, whatever it sends.\<close>

lemma normalizeProviderCost_fits:
  "normalizeProviderCost parse v = Some s \<Longrightarrow> \<exists>n. parse s = Some (Finite n) \<and> 0 \<le> n \<and> n * 10000 < 10 ^ 14 \<and> s = trimSpace v"
  by (auto simp: normalizeProviderCost_def Let_def split: if_splits option.splits parsed.splits)

lemma reportedProviderCost_fits:
  assumes "reportedProviderCost parse sprint actual currency meta = (Some s, c)"
  shows "\<exists>n. parse s = Some (Finite n) \<and> 0 \<le> n \<and> n * 10000 < 10 ^ 14"
  using assms
  by (auto simp: reportedProviderCost_def metadata_cost_def bind_eq_Some_conv split: option.splits json.splits dest!: normalizeProviderCost_fits)

text \<open>A total is the exact sum of what was recorded, as long as that fits 64 bits.\<close>

lemma actual_total_exact:
  assumes "\<And>k. k \<le> length ds \<Longrightarrow> - (2 ^ 63) \<le> sum_list (map sint (take k ds)) \<and> sum_list (map sint (take k ds)) < 2 ^ 63"
  shows "sint (sum_list ds :: 64 word) = sum_list (map sint ds)"
proof -
  have "sum_list ds = (word_of_int (sum_list (map sint ds)) :: 64 word)" for ds :: "64 word list"
    by (induction ds) simp_all
  with assms [of "length ds"] show ?thesis by (simp add: int64_def [symmetric] int64_id)
qed

lemma recordActualDelta_total:
  "mx_actual_micros (fold (recordActualDelta parse) ds m) = mx_actual_micros m + sum_list (List.map_filter (signedMicros parse) ds)"
proof (induction ds arbitrary: m)
  case (Cons d ds)
  then show ?case by (cases "signedMicros parse d") (simp_all add: recordActualDelta_def map_filter_simps algebra_simps)
qed (simp add: map_filter_simps)

text \<open>At the upper bound the signed conversion lets a value through that does not fit: it turns negative.\<close>

lemma signedMicros_overflows:
  "signedMicros (\<lambda>_. Some (Finite ((2 ^ 63 - 1 / 2) / 1000000))) v = Some (word_of_int (2 ^ 63))"
  "sint (word_of_int (2 ^ 63) :: 64 word) = - (2 ^ 63)"
  "micros (\<lambda>_. Some (Finite ((2 ^ 63 - 1 / 2) / 1000000))) v = None"
  by (simp_all add: signedMicros_def micros_def Let_def)

text \<open>The text of an amount reads back as the amount, except for the least value, which has no opposite.\<close>

lemma pad6_digits:
  assumes "0 \<le> n" "n < 1000000"
  shows "length (pad6 n) = 6 \<and> read_digits 0 (pad6 n) = nat n"
proof -
  have zeros: "read_digits 0 (replicate k (CHR ''0'') @ s) = read_digits 0 s" for k s by (induction k) simp_all
  have "length (itoa n) \<le> 6" using assms by (simp add: itoa_eq show_nat_length)
  then show ?thesis using assms by (simp add: pad6_def zeros) (simp add: itoa_eq read_show_nat)
qed

lemma formatMicrosUSD_exact:
  assumes "- (2 ^ 63) < n" "n < 2 ^ 63"
  shows "\<exists>s. formatMicrosUSD n = (if n < 0 then ''-'' else '''') @ itoa (\<bar>n\<bar> div 1000000) @ ''.'' @ s
    \<and> length s = 6 \<and> \<bar>n\<bar> = \<bar>n\<bar> div 1000000 * 1000000 + int (read_digits 0 s)"
proof -
  have m: "formatMicrosUSD n = (if n < 0 then ''-'' else '''') @ itoa (\<bar>n\<bar> div 1000000) @ ''.'' @ pad6 (\<bar>n\<bar> mod 1000000)"
    using assms int64_id [of "- n"] by (auto simp: formatMicrosUSD_def go_div_def go_rem_def sgn_if)
  have "0 \<le> \<bar>n\<bar> mod 1000000" "\<bar>n\<bar> mod 1000000 < 1000000" by simp_all
  from pad6_digits [OF this] m show ?thesis by (intro exI [of _ "pad6 (\<bar>n\<bar> mod 1000000)"]) simp
qed

lemma formatMicrosUSD_least: "formatMicrosUSD (- (2 ^ 63)) = ''--9223372036854.-775808''"
proof -
  have "int64 (2 ^ 63) = - (2 ^ 63)" by (simp add: int64_def)
  then have "formatMicrosUSD (- (2 ^ 63)) = ''-'' @ itoa (- 9223372036854) @ ''.'' @ pad6 (- 775808)"
    by (simp add: formatMicrosUSD_def go_div_def go_rem_def)
  also have "\<dots> = ''--9223372036854.-775808''" by (simp add: itoa_eq pad6_def show_nat.simps) code_simp
  finally show ?thesis .
qed

end
