(* ===== verification/Route_Source.thy ===== *)
theory Route_Source
  imports Routing Cost_Accounting
begin

text \<open>
  Where the routes come from, \<open>providers/routing/dbsource.go\<close>: the table of routes joined to the models
  and, if there is one, to the active price of the route's key. Text is ordered by the collation
  of the database, a parameter \<open>coll\<close> that gives the sort key of a text. A price is the exact rational.
\<close>

record route_row =
  lr_id :: string
  lr_provider :: string
  lr_model :: string
  lr_operation :: string
  lr_required_capability :: string
  lr_preview :: string
  lr_quality :: string
  lr_latency :: string
  lr_is_enabled :: bool
  lr_priority :: int

record model_row =
  pm_id :: string
  pm_status :: string

record route_tables =
  tb_routes :: "route_row list"
  tb_models :: "model_row list"

type_synonym joined_route = "route_row \<times> model_row \<times> provider_price option"

definition price_on :: "route_row \<Rightarrow> provider_price \<Rightarrow> bool" where
  "price_on r p \<longleftrightarrow> pr_provider_id p = lr_provider r \<and> pr_model_id p = lr_model r
     \<and> pr_operation_type p = lr_operation r \<and> pr_is_active p"

text \<open>A \<open>LEFT JOIN\<close>: one row for every match, or one without a match.\<close>

definition left_join :: "'a list \<Rightarrow> 'a option list" where
  "left_join ps = (if ps = [] then [None] else map Some ps)"

definition join_route :: "route_tables \<Rightarrow> db \<Rightarrow> route_row \<Rightarrow> joined_route list" where
  "join_route tb d r =
     [(r, m, p). m \<leftarrow> filter (\<lambda>m. pm_id m = lr_model r) (tb_models tb), p \<leftarrow> left_join (filter (price_on r) (db_prices d))]"

definition listProviderRoutesForOperation ::
    "(string \<Rightarrow> 'k::linorder) \<Rightarrow> route_tables \<Rightarrow> db \<Rightarrow> string \<Rightarrow> joined_route list" where
  "listProviderRoutesForOperation coll tb d op =
     sort_key (\<lambda>(r, m, p). (lr_priority r, coll (lr_provider r), coll (lr_model r), coll (lr_id r)))
       (concat (map (join_route tb d) (filter (\<lambda>r. lr_operation r = op) (tb_routes tb))))"

definition price_usd :: "provider_price \<Rightarrow> rat" where
  "price_usd p = of_int (pr_price_per_unit p) / 1000000"

definition route_of :: "joined_route \<Rightarrow> route" where
  "route_of j = (case j of (r, m, p) \<Rightarrow>
     \<lparr>ro_route_id = lr_id r, ro_provider_id = lr_provider r, ro_model_id = lr_model r, ro_operation_type = lr_operation r,
      ro_required_capability = lr_required_capability r, ro_preview_capability = lr_preview r, ro_quality_tier = lr_quality r,
      ro_latency_tier = lr_latency r, ro_priority = lr_priority r, ro_enabled = lr_is_enabled r,
      ro_model_active = (pm_status m = ''active''), ro_price = map_option price_usd p\<rparr>)"

definition listRoutes :: "(string \<Rightarrow> 'k::linorder) \<Rightarrow> route_tables \<Rightarrow> db \<Rightarrow> string \<Rightarrow> route list" where
  "listRoutes coll tb d op = map route_of (listProviderRoutesForOperation coll tb d op)"

section \<open>What the resolver is given\<close>

text \<open>The primary keys, and the price book of the invariant.\<close>

definition source_ok :: "route_tables \<Rightarrow> db \<Rightarrow> bool" where
  "source_ok tb d \<longleftrightarrow> keyed lr_id (tb_routes tb) \<and> keyed pm_id (tb_models tb) \<and> prices_ok d"

text \<open>A route carries the price a reservation on it is estimated with.\<close>

definition priced_as_reserved :: "db \<Rightarrow> route \<Rightarrow> bool" where
  "priced_as_reserved d rt \<longleftrightarrow>
     ro_price rt = map_option price_usd (active_price d (ro_provider_id rt) (ro_model_id rt) (ro_operation_type rt))"

lemma active_prices_one:
  assumes "prices_ok d"
  shows "left_join (filter (price_on r) (db_prices d)) = [active_price d (lr_provider r) (lr_model r) (lr_operation r)]"
proof (cases "filter (price_on r) (db_prices d)")
  case Nil
  then show ?thesis by (simp add: left_join_def active_price_def price_on_def [abs_def])
next
  case (Cons p ps)
  have p: "p \<in> set (db_prices d)" "price_on r p" using Cons by (auto dest: filter_eq_ConsD)
  have "q = p" if "q \<in> set ps" for q
  proof -
    have "q \<in> set (filter (price_on r) (db_prices d))" using that Cons by simp
    with assms p show ?thesis by (auto simp: prices_ok_def price_key_def price_on_def)
  qed
  moreover have "distinct (p # ps)"
    using assms Cons [symmetric] by (simp add: prices_ok_def keyed_def distinct_map)
  ultimately have "ps = []" by (cases ps) auto
  moreover have "active_price d (lr_provider r) (lr_model r) (lr_operation r) = Some p"
    using active_price_unique [OF assms p(1)] p(2) by (simp add: price_on_def)
  ultimately show ?thesis using Cons by (simp add: left_join_def)
qed

lemma keyed_filter_one: "keyed k xs \<Longrightarrow> x \<in> set xs \<Longrightarrow> filter (\<lambda>y. k y = k x) xs = [x]"
  by (induction xs) (auto simp: filter_empty_conv, metis imageI)

text \<open>A route is listed at most once: it has one model, and at most one price of its key is active.\<close>

lemma join_route_one:
  assumes "source_ok tb d"
  shows "join_route tb d r = (case find (\<lambda>m. pm_id m = lr_model r) (tb_models tb) of None \<Rightarrow> []
     | Some m \<Rightarrow> [(r, m, active_price d (lr_provider r) (lr_model r) (lr_operation r))])"
proof (cases "find (\<lambda>m. pm_id m = lr_model r) (tb_models tb)")
  case None
  then have "filter (\<lambda>m. pm_id m = lr_model r) (tb_models tb) = []" by (simp add: find_None_iff filter_empty_conv)
  with None show ?thesis by (simp add: join_route_def)
next
  case (Some m)
  then have m: "m \<in> set (tb_models tb)" "pm_id m = lr_model r" by (auto dest: find_SomeD)
  have "filter (\<lambda>m. pm_id m = lr_model r) (tb_models tb) = [m]"
    using keyed_filter_one [of pm_id "tb_models tb" m] m assms by (simp add: source_ok_def)
  with active_prices_one assms Some show ?thesis by (simp add: join_route_def source_ok_def)
qed

lemma join_route_route: "j \<in> set (join_route tb d r) \<Longrightarrow> fst j = r"
  by (auto simp: join_route_def)

lemma listRoutes_priced:
  assumes "source_ok tb d" "rt \<in> set (listRoutes coll tb d op)"
  shows "priced_as_reserved d rt \<and> ro_operation_type rt = op"
  using assms
  by (auto simp: listRoutes_def listProviderRoutesForOperation_def join_route_one priced_as_reserved_def route_of_def
      split: option.splits)

lemma listRoutes_distinct:
  assumes "source_ok tb d"
  shows "distinct (map ro_route_id (listRoutes coll tb d op))"
proof -
  have "distinct (map (\<lambda>j. lr_id (fst j)) (concat (map (join_route tb d) rs)))
      \<and> set (map (\<lambda>j. lr_id (fst j)) (concat (map (join_route tb d) rs))) \<subseteq> lr_id ` set rs" if "keyed lr_id rs" for rs
    using that
  proof (induction rs)
    case (Cons r rs)
    then show ?case by (auto simp: join_route_one [OF assms] split: option.splits dest: join_route_route)
  qed simp
  moreover have "keyed lr_id (filter (\<lambda>r. lr_operation r = op) (tb_routes tb))"
    using assms by (simp add: source_ok_def keyed_def distinct_map_filter)
  moreover have "ro_route_id (route_of j) = lr_id (fst j)" for j by (simp add: route_of_def split: prod.splits)
  ultimately show ?thesis
    by (simp add: listRoutes_def listProviderRoutesForOperation_def comp_def distinct_map distinct_sort inj_on_def)
qed

text \<open>The chain of a resolver over the tables names no route twice, and ranks by what will be reserved.\<close>

lemma resolver_over_tables:
  assumes "source_ok tb d" "rs_source r (qr_operation_type req) = Inr (listRoutes coll tb d (qr_operation_type req))"
    and "resolveChain r req = Inr chain"
  shows "distinct (map rw_route_id chain)
    \<and> (\<forall>c \<in> set chain. \<exists>rt \<in> set (listRoutes coll tb d (qr_operation_type req)). c = resolvedRouteFrom rt \<and> priced_as_reserved d rt)"
proof -
  let ?rs = "filter (survives r req) (listRoutes coll tb d (qr_operation_type req))"
  have "?rs \<noteq> []" using resolveChain_fails [OF assms(2)] assms(3) by auto
  with resolveChain_survivors [OF assms(2)] assms(3)
  have c: "chain = map resolvedRouteFrom (sort_key (rank_key req) ?rs)" by simp
  have "map rw_route_id (map resolvedRouteFrom xs) = map ro_route_id xs" for xs by (simp add: resolvedRouteFrom_def)
  moreover have "distinct (map ro_route_id (sort_key (rank_key req) ?rs))"
    using listRoutes_distinct [OF assms(1), of coll "qr_operation_type req"] by (auto simp: distinct_map distinct_sort inj_on_def)
  ultimately have "distinct (map rw_route_id chain)" unfolding c by metis
  then show ?thesis using listRoutes_priced [OF assms(1)] unfolding c by (auto intro!: bexI)
qed

text \<open>The collation decides nothing: the same routes are listed in every one.\<close>

lemma listRoutes_mset: "mset (listRoutes coll tb d op) = mset (listRoutes coll' tb d op)"
  by (simp add: listRoutes_def listProviderRoutesForOperation_def)

end
