(* ===== verification/Identifiers.thy ===== *)
theory Identifiers
  imports Front_Door
begin

text \<open>
  The identifiers of rows, \<open>internal/ids/ids.go\<close>: a prefix for the kind of the row and random bytes in
  hexadecimal, which the caller draws. Everywhere else an identifier is an argument of the operation
  that needs it; here is the form they have, and that kinds never share one.
\<close>

definition hex_digit :: "nat \<Rightarrow> char" where
  "hex_digit n = ''0123456789abcdef'' ! n"

text \<open>\<open>hex.EncodeToString\<close>.\<close>

definition hexEncode :: "string \<Rightarrow> string" where
  "hexEncode s = concat (map (\<lambda>c. [hex_digit (of_char c div 16), hex_digit (of_char c mod 16)]) s)"

datatype id_kind =
    StyleProfile | VisualIdentity | GenerationJob | VisualAsset | ProviderAttempt | CostEvent | CostReservation
  | IdempotencyKey | BudgetHold | ProviderPrice | CostBudget | IdentityCostLedger | AuditEvent | AssetPack | AssetPackItem
  | WebhookEndpoint | WebhookDelivery

fun id_prefix :: "id_kind \<Rightarrow> string" where
  "id_prefix StyleProfile = ''sty''"
| "id_prefix VisualIdentity = ''vi''"
| "id_prefix GenerationJob = ''job''"
| "id_prefix VisualAsset = ''asset''"
| "id_prefix ProviderAttempt = ''att''"
| "id_prefix CostEvent = ''ce''"
| "id_prefix CostReservation = ''resv''"
| "id_prefix IdempotencyKey = ''idem''"
| "id_prefix BudgetHold = ''hold''"
| "id_prefix ProviderPrice = ''price''"
| "id_prefix CostBudget = ''bud''"
| "id_prefix IdentityCostLedger = ''icl''"
| "id_prefix AuditEvent = ''audit''"
| "id_prefix AssetPack = ''pack''"
| "id_prefix AssetPackItem = ''pki''"
| "id_prefix WebhookEndpoint = ''whe''"
| "id_prefix WebhookDelivery = ''whd''"

definition id_bytes :: nat where "id_bytes = 8"

definition randomHex :: "nat \<Rightarrow> (nat \<Rightarrow> char) \<Rightarrow> string" where
  "randomHex n drawn = hexEncode (map drawn [0..<n])"

definition new_id :: "string \<Rightarrow> (nat \<Rightarrow> char) \<Rightarrow> string" where
  "new_id prefix drawn = prefix @ ''_'' @ randomHex id_bytes drawn"

definition new_id_of :: "id_kind \<Rightarrow> (nat \<Rightarrow> char) \<Rightarrow> string" where
  "new_id_of k drawn = new_id (id_prefix k) drawn"

section \<open>Round trip and injectivity\<close>

lemma hex_value_digit: "n < 16 \<Longrightarrow> hex_value (hex_digit n) = Some n"
proof -
  have "list_all (\<lambda>n. hex_value (hex_digit n) = Some n) [0..<16]"
    by (simp add: upt_rec hex_digit_def hex_value_def numeral_eq_Suc)
  then show "n < 16 \<Longrightarrow> ?thesis" by (simp add: list_all_iff)
qed

lemma hexEncode_simps [simp]:
  "hexEncode [] = []"
  "hexEncode (c # s) = hex_digit (of_char c div 16) # hex_digit (of_char c mod 16) # hexEncode s"
  by (simp_all add: hexEncode_def)

lemma hexDecode_Encode [simp]: "hexDecode (hexEncode s) = Some s"
proof (induction s)
  case (Cons c s)
  have "of_char c div 16 < (16 :: nat)" using nat_of_char_less_256 [of c] by (simp add: less_mult_imp_div_less)
  with Cons show ?case by (simp add: hex_value_digit)
qed simp

lemma length_hexEncode [simp]: "length (hexEncode s) = 2 * length s"
  by (induction s) simp_all

lemma hexEncode_inject [simp]: "hexEncode s = hexEncode t \<longleftrightarrow> s = t"
  by (metis hexDecode_Encode option.inject)

lemma id_prefix_inject: "id_prefix k = id_prefix k' \<longleftrightarrow> k = k'"
  by (cases k; cases k'; simp)

text \<open>Identifiers are equal only when they are of one kind and of the same draw.\<close>

lemma new_id_inject:
  "new_id_of k drawn = new_id_of k' drawn' \<longleftrightarrow> k = k' \<and> (\<forall>i < 8. drawn i = drawn' i)"
proof -
  have l: "length (randomHex id_bytes d) = 16" for d by (simp add: randomHex_def id_bytes_def)
  have "randomHex id_bytes drawn = randomHex id_bytes drawn' \<longleftrightarrow> (\<forall>i < 8. drawn i = drawn' i)"
    by (auto simp: randomHex_def id_bytes_def)
  then show ?thesis by (auto simp: new_id_of_def new_id_def id_prefix_inject append_eq_append_conv l)
qed

end
