(* ===== verification/Seeding.thy ===== *)
theory Seeding
  imports Identifiers Config Admin_Cost
begin

text \<open>
  The tool that creates a token, \<open>cmd/seed-token/main.go\<close>: it inserts one row of \<open>api_tokens\<close> and the daily
  budget of the tenant, each statement on its own, and prints the token once. The hash, the reading of
  a decimal by the database, the connection and the random bytes are parameters. The columns of a
  token nobody reads (name, owner) are left out.
\<close>

section \<open>What to create\<close>

definition osGetenv :: "environment \<Rightarrow> string \<Rightarrow> string" where
  "osGetenv env key = (case env key of None \<Rightarrow> '''' | Some v \<Rightarrow> v)"

definition envOr :: "environment \<Rightarrow> string \<Rightarrow> string \<Rightarrow> string" where
  "envOr env key d = (if osGetenv env key \<noteq> '''' then osGetenv env key else d)"

definition defaultNormalScopes :: "string list" where
  "defaultNormalScopes = [''images:read'', ''images:write'', ''styles:read'', ''styles:write'', ''jobs:read'']"

definition defaultAdminScopes :: "string list" where
  "defaultAdminScopes = [''admin:costs'', ''admin:jobs'']"

definition scopesFor :: "string \<Rightarrow> string list" where
  "scopesFor kind = (if kind = ''admin'' then defaultAdminScopes else defaultNormalScopes)"

definition splitScopes :: "string \<Rightarrow> string list" where
  "splitScopes raw = filter (\<lambda>s. s \<noteq> '''') (map trimSpace (split_at (CHR '','') raw))"

definition alphabet :: string where
  "alphabet = ''abcdefghijklmnopqrstuvwxyz0123456789''"

definition randAlnum :: "nat \<Rightarrow> (nat \<Rightarrow> nat) \<Rightarrow> string" where
  "randAlnum n drawn = map (\<lambda>i. alphabet ! (drawn i mod 36)) [0..<n]"

record seed_draw =
  sd_prefix :: "nat \<Rightarrow> nat"
  sd_secret :: "nat \<Rightarrow> nat"
  sd_token_id :: "nat \<Rightarrow> nat"
  sd_budget_id :: "nat \<Rightarrow> nat"

record seeded =
  se_token_id :: string
  se_tenant_id :: string
  se_prefix :: string
  se_scopes :: "string list"
  se_environment :: string
  se_daily_cap :: string
  se_authorization :: string

datatype seed_error =
    DSNRequired
  | PepperRequired
  | NoScopesResolved
  | ConnectFailed error
  | InsertingToken error
  | InsertingBudget error

section \<open>The two statements\<close>

text \<open>The constraints of \<open>api_tokens\<close>: the primary key, the unique prefix and the check of the environment.\<close>

definition insertSeedToken :: "api_token \<Rightarrow> api_token list \<Rightarrow> error + api_token list" where
  "insertSeedToken t ts =
     (if an_environment t \<notin> set [''dev'', ''test'', ''live''] then Inl (ErrOther ''check_violation'')
      else if an_prefix t \<in> set (map an_prefix ts) then Inl unique_violation
      else insert_row an_id t ts)"

definition seed_budget :: "db \<Rightarrow> string \<Rightarrow> string \<Rightarrow> amount \<Rightarrow> cost_budget" where
  "seed_budget d i tenant limit = \<lparr>bg_id = i, bg_tenant_id = tenant, bg_scope_type = Tenant_scope, bg_scope_id = tenant,
     bg_period = Daily, bg_limit = limit, bg_reserved = 0, bg_spent = 0, bg_currency = ''USD'', bg_status = Active,
     bg_period_start = db_now d\<rparr>"

text \<open>\<open>ON CONFLICT (tenant_id, scope_type, scope_id, period) DO NOTHING\<close>.\<close>

definition insertSeedBudget :: "(string \<Rightarrow> rat option) \<Rightarrow> string \<Rightarrow> string \<Rightarrow> string \<Rightarrow> db \<Rightarrow> error + db" where
  "insertSeedBudget scan i tenant limit d =
     (case scan limit of
        None \<Rightarrow> Inl (ErrOther ''invalid_text_representation'')
      | Some q \<Rightarrow>
          (case to_numeric 4 q of
             Inl e \<Rightarrow> Inl e
           | Inr l \<Rightarrow>
               (let b = seed_budget d i tenant l
                in if budget_key b \<in> budget_key ` set (db_budgets d) then Inr d
                   else (case insert_row bg_id b (db_budgets d) of Inl e \<Rightarrow> Inl e | Inr bs \<Rightarrow> Inr (d\<lparr>db_budgets := bs\<rparr>)))))"

section \<open>The run\<close>

definition seed_scopes :: "environment \<Rightarrow> string list" where
  "seed_scopes env =
     (let raw = osGetenv env ''SEED_TOKEN_SCOPES''
      in if raw \<noteq> '''' then splitScopes raw else scopesFor (envOr env ''SEED_TOKEN_PREFIX_KIND'' ''dev''))"

definition seed_token :: "(string \<Rightarrow> string) \<Rightarrow> environment \<Rightarrow> seed_draw \<Rightarrow> api_token" where
  "seed_token hash env r =
     \<lparr>an_id = ''tok_'' @ randAlnum 16 (sd_token_id r),
      an_prefix = ''dci_'' @ envOr env ''SEED_TOKEN_PREFIX_KIND'' ''dev'' @ ''_'' @ randAlnum 8 (sd_prefix r),
      an_tenant_id = envOr env ''SEED_TENANT_ID'' ''tenant_dev'',
      an_token_hash = hexEncode (hash (randAlnum 32 (sd_secret r) @ osGetenv env ''API_TOKEN_PEPPER'')),
      an_scopes = seed_scopes env,
      an_environment = envOr env ''SEED_TOKEN_ENVIRONMENT'' (envOr env ''ENVIRONMENT'' ''dev''),
      an_status = ''active'', an_expires_at = None, an_rate_limit_rpm = None, an_rate_limit_rph = None,
      an_max_concurrent_jobs = None\<rparr>"

definition seed_report :: "environment \<Rightarrow> seed_draw \<Rightarrow> api_token \<Rightarrow> seeded" where
  "seed_report env r t =
     \<lparr>se_token_id = an_id t, se_tenant_id = an_tenant_id t, se_prefix = an_prefix t, se_scopes = an_scopes t,
      se_environment = an_environment t, se_daily_cap = envOr env ''SEED_DAILY_BUDGET_USD'' ''25.00'',
      se_authorization = ''Bearer '' @ an_prefix t @ ''_'' @ randAlnum 32 (sd_secret r)\<rparr>"

definition seed_run ::
    "(string \<Rightarrow> string) \<Rightarrow> (string \<Rightarrow> rat option) \<Rightarrow> (string \<Rightarrow> error option) \<Rightarrow> environment \<Rightarrow> seed_draw \<Rightarrow> api_token list \<times> db
     \<Rightarrow> (seed_error + seeded) \<times> api_token list \<times> db" where
  "seed_run hash scan connect env r st =
     (let dsn = osGetenv env ''POSTGRES_DSN''; t = seed_token hash env r; s = seed_report env r t
      in if dsn = '''' then (Inl DSNRequired, st)
         else if osGetenv env ''API_TOKEN_PEPPER'' = '''' then (Inl PepperRequired, st)
         else if seed_scopes env = [] then (Inl NoScopesResolved, st)
         else (case connect dsn of
                 Some e \<Rightarrow> (Inl (ConnectFailed e), st)
               | None \<Rightarrow>
                   (case insertSeedToken t (fst st) of
                      Inl e \<Rightarrow> (Inl (InsertingToken e), st)
                    | Inr ts \<Rightarrow>
                        (case insertSeedBudget scan (''bud_'' @ randAlnum 16 (sd_budget_id r)) (an_tenant_id t) (se_daily_cap s) (snd st) of
                           Inl e \<Rightarrow> (Inl (InsertingBudget e), ts, snd st)
                         | Inr d \<Rightarrow> (Inr s, ts, d)))))"

section \<open>What a run leaves\<close>

lemma randAlnum_set: "set (randAlnum n drawn) \<subseteq> set alphabet"
proof -
  have "alphabet ! (x mod 36) \<in> set alphabet" for x by (rule nth_mem) (simp add: alphabet_def)
  then show ?thesis by (auto simp: randAlnum_def)
qed

lemma randAlnum_last: "0 < n \<Longrightarrow> randAlnum n drawn \<noteq> [] \<and> \<not> is_space (last (randAlnum n drawn)) \<and> CHR ''_'' \<notin> set (randAlnum n drawn)"
proof -
  assume "0 < n"
  then have ne: "randAlnum n drawn \<noteq> []" by (simp add: randAlnum_def)
  have "list_all (\<lambda>c. \<not> is_space c \<and> c \<noteq> CHR ''_'') alphabet" by (simp add: alphabet_def is_space_def)
  then have "\<not> is_space c \<and> c \<noteq> CHR ''_''" if "c \<in> set (randAlnum n drawn)" for c
    using that randAlnum_set [of n drawn] by (auto simp: list_all_iff)
  with ne show ?thesis by (metis last_in_set)
qed

lemma trimSpace_id: "s \<noteq> [] \<Longrightarrow> \<not> is_space (hd s) \<Longrightarrow> \<not> is_space (last s) \<Longrightarrow> trimSpace s = s"
proof -
  have keep: "dropWhile is_space t = t" if "t \<noteq> []" "\<not> is_space (hd t)" for t using that by (cases t) auto
  assume "s \<noteq> []" "\<not> is_space (hd s)" "\<not> is_space (last s)"
  then show ?thesis using keep [of s] keep [of "rev s"] by (simp add: trimSpace_def hd_rev)
qed

lemma find_snoc: "find P (xs @ [x]) = (case find P xs of None \<Rightarrow> if P x then Some x else None | Some y \<Rightarrow> Some y)"
  by (induction xs) auto

lemma splitToken_of:
  assumes "p \<noteq> []" "s \<noteq> []" "CHR ''_'' \<notin> set s"
  shows "splitToken (p @ ''_'' @ s) = Some (p, s)"
proof -
  have "takeWhile (\<lambda>c. c \<noteq> CHR ''_'') (rev s @ CHR ''_'' # rev p) = rev s"
    using assms(3) by (auto simp: takeWhile_append takeWhile_eq_all_conv)
  with assms(1,2) show ?thesis by (simp add: splitToken_def Let_def)
qed

lemma splitScopes_sound: "s \<in> set (splitScopes raw) \<Longrightarrow> s \<noteq> ''''"
  by (simp add: splitScopes_def)

text \<open>
  The token that is printed is accepted by a process with the same pepper and environment, with the
  scopes and the tenant that were printed, whatever was in the table; the tokens of before keep
  their prefix.
\<close>

lemma seeded_token_verifies:
  assumes "seed_run hash scan connect env r (ts, d) = (Inr s, ts', d')"
  shows "verify_token (getActiveAPITokenByPrefix ts') hash now (se_authorization s) (osGetenv env ''API_TOKEN_PEPPER'') (se_environment s)
      = Inr \<lparr>pn_token_id = se_token_id s, pn_tenant_id = se_tenant_id s, pn_scopes = se_scopes s,
             pn_environment = se_environment s, pn_limits = defaultLimits\<rparr>"
    and "p \<noteq> se_prefix s \<Longrightarrow> getActiveAPITokenByPrefix ts' p = getActiveAPITokenByPrefix ts p"
proof -
  let ?t = "seed_token hash env r" and ?w = "randAlnum 32 (sd_secret r)"
  from assms have s: "s = seed_report env r ?t" and i: "insertSeedToken ?t ts = Inr ts'"
    by (auto simp: seed_run_def Let_def split: if_splits option.splits sum.splits)
  from i have ts': "ts' = ts @ [?t]" and new: "an_prefix ?t \<notin> an_prefix ` set ts"
    by (auto simp: insertSeedToken_def split: if_splits)
  have found: "getActiveAPITokenByPrefix ts' (an_prefix ?t) = Inr ?t"
    using new by (auto simp: getActiveAPITokenByPrefix_def ts' find_snoc find_None_iff image_iff split: option.splits dest!: find_SomeD)
  obtain c q where p: "an_prefix ?t = c # q" "\<not> is_space c" by (simp add: seed_token_def is_space_def)
  note w = randAlnum_last [of 32 "sd_secret r"]
  have "trimSpace (an_prefix ?t @ ''_'' @ ?w) = an_prefix ?t @ ''_'' @ ?w"
    using p w by (intro trimSpace_id) auto
  moreover have "splitToken (an_prefix ?t @ ''_'' @ ?w) = Some (an_prefix ?t, ?w)"
    using p w by (intro splitToken_of) auto
  moreover have "effectiveLimits ?t = defaultLimits"
    by (simp add: effectiveLimits_def positive_override_def seed_token_def defaultLimits_def)
  ultimately show "verify_token (getActiveAPITokenByPrefix ts') hash now (se_authorization s) (osGetenv env ''API_TOKEN_PEPPER'') (se_environment s)
      = Inr \<lparr>pn_token_id = se_token_id s, pn_tenant_id = se_tenant_id s, pn_scopes = se_scopes s,
             pn_environment = se_environment s, pn_limits = defaultLimits\<rparr>"
    using found by (simp add: verify_token_def s seed_report_def Let_def) (simp add: seed_token_def)
  show "getActiveAPITokenByPrefix ts' p = getActiveAPITokenByPrefix ts p" if "p \<noteq> se_prefix s"
    using that by (simp add: getActiveAPITokenByPrefix_def ts' find_snoc s seed_report_def split: option.splits)
qed

text \<open>The tenant has a daily budget afterwards, and the books stay in order.\<close>

lemma seed_budget_books:
  assumes "insertSeedBudget scan i tenant limit d = Inr d'" "cost_inv d"
  shows "cost_inv d' \<and> (\<exists>b \<in> set (db_budgets d'). budget_key b = (tenant, Tenant_scope, tenant, Daily))"
proof -
  from assms(1) obtain l where c: "d' = d \<and> budget_key (seed_budget d i tenant l) \<in> budget_key ` set (db_budgets d)
      \<or> d' = d\<lparr>db_budgets := db_budgets d @ [seed_budget d i tenant l]\<rparr> \<and> i \<notin> bg_id ` set (db_budgets d)"
    by (auto simp: insertSeedBudget_def Let_def seed_budget_def split: option.splits sum.splits if_splits)
  have k: "budget_key (seed_budget d i tenant l) = (tenant, Tenant_scope, tenant, Daily)" by (simp add: budget_key_def seed_budget_def)
  from c show ?thesis
  proof
    assume "d' = d \<and> budget_key (seed_budget d i tenant l) \<in> budget_key ` set (db_budgets d)"
    with k assms(2) show ?thesis by (auto simp: image_iff)
  next
    assume a: "d' = d\<lparr>db_budgets := db_budgets d @ [seed_budget d i tenant l]\<rparr> \<and> i \<notin> bg_id ` set (db_budgets d)"
    have "book_inv d" "link_inv d" using assms(2) by (simp_all add: cost_inv_def)
    with held_unknown [OF this(1), of i] a have "cost_inv d'"
      by (auto simp: cost_inv_def book_inv_def link_inv_def keyed_snoc seed_budget_def)
    with a k show ?thesis by simp
  qed
qed

text \<open>
  The statements are not one transaction: when the budget is refused, the token stays in the table
  and its secret is never printed.
\<close>

lemma seed_orphan_token:
  assumes "seed_run hash scan connect env r (ts, d) = (Inl (InsertingBudget e), ts', d')"
  shows "d' = d \<and> ts' = ts @ [seed_token hash env r]"
  using assms by (auto simp: seed_run_def insertSeedToken_def Let_def split: if_splits option.splits sum.splits)

lemma seed_refused:
  assumes "seed_run hash scan connect env r st = (Inl e, st')" "\<And>x. e \<noteq> InsertingBudget x"
  shows "st' = st"
  using assms by (auto simp: seed_run_def Let_def split: if_splits option.splits sum.splits)

end
