(* ===== verification/Schema_Bootstrap.thy ===== *)
theory Schema_Bootstrap
  imports Config
begin

text \<open>
  The migration runner, \<open>internal/migrate\<close> and \<open>cmd/migrate\<close>: which commands it runs and which it refuses,
  and how it adopts a database that was migrated before versions were recorded. The library \<open>goose\<close>
  is a record of parameters; a schema is what the runner looks at: the tables, the recorded versions
  and whether the seed of the last baseline migration is there.
\<close>

record schema =
  sc_tables :: "string list"
  sc_versions :: "int list"
  sc_fal_seed :: bool

datatype migrate_error =
    DownRefused int int
  | DownToRefused int int
  | SeedMissing
  | PartialFootprint nat nat
  | Usage
  | MissingDSN
  | MissingTarget
  | InvalidVersion string
  | UnknownCommand string
  | LibraryError error

type_synonym migrated = "migrate_error option \<times> schema"

record goose =
  gs_up :: "schema \<Rightarrow> error option \<times> schema"
  gs_down :: "schema \<Rightarrow> error option \<times> schema"
  gs_down_to :: "int \<Rightarrow> schema \<Rightarrow> error option \<times> schema"
  gs_version :: "schema \<Rightarrow> error + int"
  gs_status :: "schema \<Rightarrow> error option"

definition wrapped :: "error option \<times> schema \<Rightarrow> migrated" where
  "wrapped r = (map_option LibraryError (fst r), snd r)"

section \<open>Up and down\<close>

definition BaselineVersion :: int where "BaselineVersion = 11"

definition migrateUp :: "goose \<Rightarrow> schema \<Rightarrow> migrated" where
  "migrateUp g s = wrapped (gs_up g s)"

definition migrateDown :: "goose \<Rightarrow> schema \<Rightarrow> migrated" where
  "migrateDown g s =
     (case gs_version g s of
        Inl e \<Rightarrow> (Some (LibraryError e), s)
      | Inr v \<Rightarrow> if v \<le> BaselineVersion then (Some (DownRefused v BaselineVersion), s) else wrapped (gs_down g s))"

definition migrateDownTo :: "goose \<Rightarrow> int \<Rightarrow> schema \<Rightarrow> migrated" where
  "migrateDownTo g v s =
     (if v < BaselineVersion then (Some (DownToRefused v BaselineVersion), s) else wrapped (gs_down_to g v s))"

section \<open>Adopting a database\<close>

definition baselineTables :: "string list" where
  "baselineTables =
     [''api_tokens'', ''asset_pack_items'', ''asset_packs'', ''audit_events'',
      ''cost_budgets'', ''cost_reservation_budget_holds'', ''cost_reservations'',
      ''generation_cost_events'', ''generation_jobs'', ''idempotency_keys'',
      ''provider_attempts'', ''provider_model_prices'', ''provider_models'',
      ''provider_routes'', ''style_profiles'', ''visual_assets'', ''visual_identities'',
      ''visual_identity_versions'', ''webhook_deliveries'', ''webhook_endpoints'']"

definition versionTable :: string where "versionTable = ''goose_db_version''"

definition tableExists :: "schema \<Rightarrow> string \<Rightarrow> bool" where
  "tableExists s name \<longleftrightarrow> length (filter (\<lambda>t. t = name) (sc_tables s)) > 0"

definition countBaselineTables :: "schema \<Rightarrow> nat" where
  "countBaselineTables s = length (filter (\<lambda>t. t \<in> set baselineTables) (sc_tables s))"

text \<open>One transaction: the version table, and every version up to the baseline.\<close>

definition stampBaseline :: "schema \<Rightarrow> schema" where
  "stampBaseline s =
     s\<lparr>sc_tables := (if tableExists s versionTable then sc_tables s else sc_tables s @ [versionTable]),
       sc_versions := sc_versions s @ [0..BaselineVersion]\<rparr>"

definition migrateBootstrap :: "goose \<Rightarrow> schema \<Rightarrow> migrated" where
  "migrateBootstrap g s =
     (if tableExists s versionTable then migrateUp g s
      else
        let present = countBaselineTables s
        in if present = 0 then migrateUp g s
           else if present = length baselineTables then
             (if \<not> sc_fal_seed s then (Some SeedMissing, s) else migrateUp g (stampBaseline s))
           else (Some (PartialFootprint present (length baselineTables)), s))"

section \<open>The command line\<close>

definition migrate_run :: "goose \<Rightarrow> string list \<Rightarrow> string \<Rightarrow> schema \<Rightarrow> migrated" where
  "migrate_run g args dsn s =
     (case args of
        [] \<Rightarrow> (Some Usage, s)
      | cmd # rest \<Rightarrow>
          if dsn = '''' then (Some MissingDSN, s)
          else if cmd = ''up'' then migrateUp g s
          else if cmd = ''down'' then migrateDown g s
          else if cmd = ''down-to'' then
            (case rest of
               [] \<Rightarrow> (Some MissingTarget, s)
             | a # _ \<Rightarrow> (case atoi a of None \<Rightarrow> (Some (InvalidVersion a), s) | Some v \<Rightarrow> migrateDownTo g v s))
          else if cmd = ''status'' then (map_option LibraryError (gs_status g s), s)
          else if cmd = ''version'' then
            (case gs_version g s of Inl e \<Rightarrow> (Some (LibraryError e), s) | Inr _ \<Rightarrow> (None, s))
          else if cmd = ''bootstrap'' then migrateBootstrap g s
          else (Some (UnknownCommand cmd), s))"

section \<open>The baseline is a floor\<close>

text \<open>
  What the library documents: \<open>up\<close> runs the known migrations that are not recorded, and records
  them; going down takes recorded versions away from the top, to the target and no further.
\<close>

definition goose_laws :: "goose \<Rightarrow> bool" where
  "goose_laws g \<longleftrightarrow>
     (\<forall>s. set (sc_versions s) \<subseteq> set (sc_versions (snd (gs_up g s))))
     \<and> (\<forall>s v x. gs_version g s = Inr v \<longrightarrow> x \<in> set (sc_versions s) \<longrightarrow> x < v \<longrightarrow> x \<in> set (sc_versions (snd (gs_down g s))))
     \<and> (\<forall>s t x. x \<in> set (sc_versions s) \<longrightarrow> x \<le> t \<longrightarrow> x \<in> set (sc_versions (snd (gs_down_to g t s))))"

lemma distinct_baselineTables: "distinct baselineTables"
  by (simp add: baselineTables_def)

lemma countBaselineTables_all:
  assumes "distinct (sc_tables s)" "countBaselineTables s = length baselineTables"
  shows "set baselineTables \<subseteq> set (sc_tables s)"
proof -
  let ?f = "filter (\<lambda>t. t \<in> set baselineTables) (sc_tables s)"
  have "card (set ?f) = card (set baselineTables)"
    using assms distinct_baselineTables by (simp only: countBaselineTables_def distinct_card distinct_filter)
  moreover have "set ?f \<subseteq> set baselineTables" by auto
  ultimately have "set ?f = set baselineTables" by (simp add: card_subset_eq)
  then show ?thesis by auto
qed

text \<open>No command takes a recorded version of the baseline away.\<close>

lemma baseline_kept:
  assumes "goose_laws g" "x \<in> set (sc_versions s)" "x \<le> BaselineVersion"
  shows "x \<in> set (sc_versions (snd (migrate_run g args dsn s)))"
proof -
  have up: "x \<in> set (sc_versions (snd (migrateUp g t)))" if "x \<in> set (sc_versions t)" for t
    using assms(1) that by (auto simp: goose_laws_def migrateUp_def wrapped_def)
  have "x \<in> set (sc_versions (snd (migrateDown g s)))"
    using assms by (auto simp: goose_laws_def migrateDown_def wrapped_def split: sum.splits)
  moreover have "x \<in> set (sc_versions (snd (migrateDownTo g v s)))" for v
    using assms by (auto simp: goose_laws_def migrateDownTo_def wrapped_def)
  moreover have "x \<in> set (sc_versions (snd (migrateBootstrap g s)))"
    using assms(2) up [of s] up [of "stampBaseline s"] by (auto simp: migrateBootstrap_def stampBaseline_def Let_def)
  ultimately show ?thesis using assms(2) up [of s]
    by (auto simp: migrate_run_def split: list.splits option.splits sum.splits)
qed

text \<open>
  Adoption stamps a database only when the whole baseline is there, and then runs nothing of it
  again; anything in between is refused as it was found.
\<close>

lemma bootstrap_cases:
  assumes "distinct (sc_tables s)" "\<not> tableExists s versionTable"
  shows "countBaselineTables s = 0 \<and> migrateBootstrap g s = migrateUp g s
    \<or> set baselineTables \<subseteq> set (sc_tables s) \<and> sc_fal_seed s \<and> migrateBootstrap g s = migrateUp g (stampBaseline s)
    \<or> (\<exists>e \<in> insert SeedMissing (range (\<lambda>n. PartialFootprint n 20)). migrateBootstrap g s = (Some e, s))"
proof -
  have n: "length baselineTables = 20" by (simp add: baselineTables_def)
  show ?thesis using countBaselineTables_all [OF assms(1)] assms(2) by (auto simp: migrateBootstrap_def Let_def n)
qed

lemma stampBaseline_versions: "0 \<le> v \<Longrightarrow> v \<le> BaselineVersion \<Longrightarrow> v \<in> set (sc_versions (stampBaseline s))"
  by (simp add: stampBaseline_def)

lemma bootstrap_again: "tableExists (stampBaseline s) versionTable"
  by (auto simp: stampBaseline_def tableExists_def)

end
