(* ===== verification/Spec2Isabelle.thy ===== *)
theory Spec2Isabelle
  imports Samples Worker_Progress Worker_Pack Single_Handlers Chroma Webhooks Background Reads Router Tiers Metrics Route_Source Seeding Schema_Bootstrap
begin

text \<open>
  A model of the DreamChat image platform (Go, \<open>src/internal\<close>) and its correctness theorems.

  THE PROGRAM. An API process receives a request to draw an image or a pack of images for a
  character or place of a tenant's world. The token is verified, the request rate limited and the
  governance of the request gated; then the handler looks for an existing asset it may serve instead
  (retrieval), chooses a provider route, reserves the estimated cost against the budgets of the
  tenant, the token, the world and the user, and commits all of that with a queued job in one
  transaction; a task is sent to a queue. A worker claims the job, walks the routes of the job
  under a ceiling of paid calls, stores the output in a guarded transaction that still owns the
  job, and commits or releases the reservation; late bills of a provider are reconciled
  afterwards. Administrators cancel and retry jobs. All of it shares one Postgres database, and
  the deliveries of the queue are at least once, so every step may race with every other.

  THE THEORIES, in the order of their imports.
  Prelude: error values, JSON payloads, the table operations all SQL is written with
    (\<open>update_where\<close>, \<open>updating_one\<close>, guarded sums), money, stable sorting.
  Tables: one record per table (\<open>migrations/0001_initial.sql\<close> and later, \<open>db/dbgen/models.go\<close>)
    and \<open>db\<close>, the record of all tables with the clock of the database.
  Job_Table: every statement of \<open>db/queries/generation_jobs.sql\<close> that touches a job row, the
    methods of \<open>jobs/repository.go\<close>, and the job state machine \<open>job_evolves\<close>.
  Cost, Cost_Accounting, Cost_Reconciliation: \<open>cost/cost.go\<close> with \<open>cost.sql\<close> and
    \<open>cost_lifecycle.sql\<close>. Cost defines pricing, reservation with its savepoint, commit,
    release and reconciliation; the other two hold the accounting invariant and its proofs.
  Assets: \<open>assets/repository.go\<close> (inserting, exact lookups) and \<open>assets/supersede.go\<close>
    (forced regeneration under an advisory lock, the keys of the locks, which are injective).
  Persistence: \<open>jobs/guarded_persist.go\<close> and the pack and attempt statements: writes that
    publish output only while the job is active under its reservation.
  Admin_Cost: \<open>admincost/admincost.go\<close> with \<open>admin_cost.sql\<close>: prices and budgets as the
    administrators enter and change them, each change committed with its audit entry.
  Task_Queue, Admin_Jobs, Job_Service: \<open>jobs/enqueue.go\<close>, \<open>adminjobs/adminjobs.go\<close>,
    \<open>jobs/service.go\<close> (the create transaction, replay of idempotency keys, the two paths that
    complete a job at creation).
  Worker_Monad, Worker: \<open>jobs/worker.go\<close>, \<open>jobs/background.go\<close>; Worker_Pack: \<open>jobs/worker_pack.go\<close>.
    A run is a state-passing computation over a \<open>world\<close>: the database, the transactions others
    commit before each of this run's (\<open>wd_env\<close>, quantified over), and the logs of provider
    calls and emitted events.
  Invariants, Platform: the invariant \<open>plat_inv\<close> of the database, that every transaction keeps
    it, and the platform as a step relation with one rule per transaction.
  Worker_Safety, Worker_Progress: what no run does (touch a finished job, pay above the
    ceiling) and what a run with a serving provider does (deliver).
  Variants, Retrieval: \<open>assets/variants.go\<close>, \<open>packtemplates.go\<close>, \<open>compatibility.go\<close>,
    \<open>retrieval.go\<close>: the vocabulary row by row, the compatibility matrix, the reuse decision.
  Routing: \<open>providers/capability.go\<close>, \<open>providers/routing/routing.go\<close>, \<open>reconcile.go\<close>.
  Front_Door: \<open>auth\<close> (tokens, scopes, limits), \<open>ratelimit\<close> with its Redis store, and the order in
    which \<open>http/router.go\<close> applies them. Governance: \<open>governance\<close> and the gate of the handlers.
  Identities: \<open>identities\<close> and \<open>styles\<close>, repositories and handlers.
  Request_Flow, Pack_Handler, Single_Handlers: \<open>http/handlers\<close>, from the decoded body to the answer:
    the shared steps (replay, route, fallback chain, answer), the pack handler, and the handlers
    of a generation, an artifact, a style preview and a bootstrap anchor.
  Render_Hash: the keys of exact reuse, \<open>assets/artifact_hash.go\<close> and \<open>generation_hash.go\<close>.
  Worklist, Chroma: \<open>imaging/chromakey.go\<close>, its queue loops and the whole chroma key.
  Webhooks: \<open>internal/webhooks\<close> with its handlers: the endpoint of a tenant, the emission of an
    event and one attempt to deliver it.
  Config: \<open>config/config.go\<close>, what a process reads from its environment and refuses to start with.
  Http_Adapters, Provider_Registry: the adapters \<open>providers/fal\<close>, \<open>bfl\<close> and \<open>mock\<close>, request by request
    over a parameter \<open>net\<close> that answers each of them; the registry a process assembles from its
    configuration, what each adapter advertises, and the resolver wired over both.
  Background: \<open>jobs/background.go\<close>, the hosted removers and the local chroma key with its fallback.
  Reads: \<open>storage/storage.go\<close>, the handlers that read (assets, the assets of a job, search, jobs), the
    references of an identity, administrators' requests and the cost reports.
  Router: \<open>http/router.go\<close>, every route with its scope, and a request from its path to its handler.
  Tiers: \<open>imaging/imaging.go\<close>, \<open>upscale.go\<close>, the tiers a render is delivered in and its enlargement.
  Metrics: \<open>telemetry/metrics.go\<close>, the counters and their page, and the billing metadata a worker accepts.
  Route_Source: \<open>routing/dbsource.go\<close>, the routes with their models and active prices, as the resolver gets them.
  Identifiers, Seeding, Schema_Bootstrap: \<open>ids/ids.go\<close>, \<open>cmd/seed-token\<close> (the token it prints is one
    the front door accepts), \<open>internal/migrate\<close> and \<open>cmd/migrate\<close> (the baseline is a floor).
  Samples: one small installation the closed instances of the theorems run on.

  WHAT IS SHOWN. C1 to C3 state the invariant of every reachable database (with one active price
  per key), the job state machine, and that whole worker runs, of single images and of packs,
  refine the step relation. C4 to C10 are the books: what a reservation holds, that a denial
  changes nothing, that the terminal transition happens once, what it charges, and that late
  bills are idempotent and order independent. C11 to C14 are the request side (concurrency cap,
  idempotency, cancel, retry), C15, C17 and C22 the races of the worker, C16 and C24 the bound on
  paid calls, C18 and C19 superseding, C20 the contract of a render by fal (it returns, submits
  once, fails closed and cancels what it abandons), C21 the rate limit, C23 what a change of a price
  does to the book, C25 to C28 retrieval and its vocabulary. C29 composes configuration, registry,
  resolver and adapter: work on a recurring subject is only ever rendered from its references. C30
  says that reads stay inside the tenant, C31 that webhook deliveries do. C32 and C34 are
  about packs, C33 about the liveness of the worker, C35 about routing, over the tables it reads (with \<open>routed_capability_backed\<close>), C36
  about the versions of an identity, C37 about the tiers of a render. C38 composes the gate with the five generation requests: each is a
  path of the platform, so the invariant of C1 holds after it, and under enforcement nothing is
  written without a verified envelope. C39 says that a generation is served from stock only by
  an asset of the same render, for free, and C40 that the chroma key returns on every image and
  clears exactly the border-connected backdrop.

  INTERFACES. The locales state what one part relies on of another: \<open>reuse_slot\<close> (the slot of an
  asset and its lookup), \<open>candidate_source\<close> (the query retrieval decides over), \<open>worker_steps\<close> and
  \<open>worker_rely\<close> with their extensions \<open>pack_steps\<close> and \<open>pack_rely\<close> (a run as a sequence of steps
  that keep a relation, alone and among the steps of others); each is interpreted on the
  definitions of the code, and several properties are instances of one locale's lemma. \<open>worklist\<close> states when a queue loop
  ends, and is interpreted on the flood fill and on the edge distance of the chroma key;
  \<open>polling\<close> what one poll of a queue does, and is interpreted on the two adapters that poll.

  BOUNDS. No definition uses fuel: the loops of the code run over lists (routes, holds, cells,
  candidates) or count down (\<open>itoa\<close>) and are structural or have a measure. The route walk is
  bounded by its list and by \<open>billableCallCap\<close>, three calls per priced unit. The two queue loops of
  the chroma key are \<open>while_option\<close>, where not returning would be \<open>None\<close>; they are shown to return,
  because a pixel is queued at most once. The polling loop of the adapters, \<open>pollUntil\<close>, may run for
  ever and is a \<open>partial_function\<close>; it is shown to return by the deadline of the call.

  HOW THE CODE IS READ. A transaction is a function from the database to an error or a new
  database: an error is a rollback, and row locks and advisory locks are its atomicity. Budgets
  read without a lock before the transaction are a separate argument. Random identifiers are
  arguments, and inserts check primary keys, unique constraints and foreign keys. \<open>now()\<close> is
  the field \<open>db_now\<close>, the clock of the process the field \<open>fi_now\<close> of the drawn identifiers.
  \<open>date_trunc\<close>, the collation of the database, the queue client, the object store, the route source
  and \<open>ParseFloat\<close> are parameters; to a worker run the adapters, the identity references and the
  background remover are parameters too, with their own models in the theories named above. The explicit casts to \<open>numeric(14,4)\<close> round and overflow as in
  Postgres; overflow on storing a column does not occur in the model. \<open>ORDER BY created_at
  DESC\<close> breaks ties towards the last inserted row. The operator \<open>->>\<close> is read on strings and
  booleans, the kinds the queries compare. Megapixels, scores and prices held as floats are
  rationals; the conversion of a float to \<open>int32\<close> keeps the low bits. \<open>TrimSpace\<close> trims ASCII
  space. Reading a missing key of a Go map gives the zero value. Message texts of wrapped
  errors are not kept, only their kinds.
  A handler reads the database several times outside a transaction: \<open>rd i\<close> is the database at its
  \<open>i\<close>-th read, and the theorems let others commit in between; identities and styles are read from a
  catalogue that stays as it is during one request. Bodies arrive decoded. SHA-256, the JSON encoder,
  the text of a date and the functions of the package \<open>math\<close> are parameters. Redis and the process
  share one clock. Floats of the chroma key are rationals, and the bytes it writes are rounded as
  the code rounds them. Whether the environment allows high resolution is an argument.
  A price entered by an administrator is assumed not to be negative, which the code does not check. In
  the webhooks, HMAC-SHA256, the queue client, the remote server and the text a \<open>jsonb\<close> column gives back
  for the text written are parameters. Of an adapter the network is a parameter: \<open>nt_answer\<close> answers the
  requests in order, \<open>nt_stop\<close> and \<open>nt_expired\<close> say when the context of the call is seen to be done; the
  JSON parser and the encoders of images are parameters. A field of a JSON answer is found by its
  exact name. The URL columns of an asset, which its row leaves out, and the creation times of
  reservations are arguments of the reads that use them. Which paths belong to a pattern of a route
  is for the router library and a parameter, as is \<open>ParseDuration\<close>. Of the tiers, the decoders, the
  AVIF encoder, the Catmull-Rom scaler, \<open>Pow\<close> and \<open>Hypot\<close> are parameters and the samples rationals;
  the scaler is given the samples rounded and clamped to sixteen bits, as the code gives them. The library
  \<open>goose\<close> is a record of parameters, with what it documents as \<open>goose_laws\<close>.

  NOT MODELLED. Faults of the database and the queue other than the error returns the code
  branches on; row-level security settings, logging, and the places that bump a counter; columns that only carry data
  through (URLs, seeds, the metadata blob of an asset); the state of the world in retrieval,
  whose filter is a stub in the code too. Generated API types, the decoding of bodies, the client of
  the object store, the queries of the audit log, the text of the migrations, benchmarks and
  process wiring are I/O, generated or glue; what they hand to the modelled code is a parameter.
\<close>

section \<open>The database invariant\<close>

text \<open>
  C1. In every state the platform can reach from a fresh installation, by any interleaving of
  its transactions and of the administrators' changes to prices and budgets: the reserved counter of every budget is the sum of the live holds on it, a
  hold is live exactly when its reservation is, every live reservation is the one its job links
  (so the finalizer can find it), a job shows final output only when it completed, and the price
  book has at most one active entry for a model and an operation.
\<close>

theorem reachable_invariant:
  assumes "reachable tr d"
  shows "(\<forall>b \<in> set (db_budgets d). bg_reserved b =
            sum_where (\<lambda>h. ho_status h = Reserved \<and> ho_budget_id h = bg_id b) ho_reserved (db_holds d))
    \<and> (\<forall>h \<in> set (db_holds d). ho_status h = Reserved \<longleftrightarrow>
          (\<exists>r \<in> set (db_reservations d). rv_id r = ho_reservation_id h \<and> rv_status r = Reserved))
    \<and> (\<forall>r \<in> set (db_reservations d). rv_status r = Reserved \<longrightarrow>
          (\<exists>j \<in> set (db_jobs d). jb_id j = rv_job_id r \<and> jb_cost_reservation_id j = Some (rv_id r)))
    \<and> (\<forall>j \<in> set (db_jobs d). jb_final_asset_ids j \<noteq> [] \<longrightarrow> jb_status j = Completed)
    \<and> (\<forall>p \<in> set (db_prices d). \<forall>q \<in> set (db_prices d).
          pr_is_active p \<and> pr_is_active q \<and> price_key p = price_key q \<longrightarrow> p = q)"
  using reachable_inv [OF assms]
  by (auto simp: plat_inv_def cost_inv_def book_inv_def link_inv_def owner_inv_def jobs_inv_def held_def
      live_hold_def [abs_def] prices_ok_def)

lemma sample_reachable: "reachable sample_trunc sample_created"
proof -
  have "fresh_install sample_db"
    by (simp add: fresh_install_def sample_db_def empty_db_def keyed_def prices_ok_def)
  then have "reachable sample_trunc sample_db" by (auto simp: reachable_def)
  then show ?thesis by (rule reachable_step) (rule platform_step.create [OF sample_create])
qed

theorem reachable_invariant_witness:
  "map bg_reserved (db_budgets sample_created) = map (\<lambda>b. sum_where
     (\<lambda>h. ho_status h = Reserved \<and> ho_budget_id h = bg_id b) ho_reserved (db_holds sample_created)) (db_budgets sample_created)"
  using reachable_invariant [OF sample_reachable] by (simp only: map_eq_conv) blast

text \<open>
  C2. No step of the platform loses a job or changes its identity, tenant or token, and a step
  moves a job's status only along the state machine: queued, running, preview ready, completed,
  with failure and cancellation from the live states and retry from failed.
\<close>

theorem jobs_follow_state_machine:
  assumes "reachable tr d" "platform_step tr d d'" "j \<in> set (db_jobs d)"
  shows "\<exists>j' \<in> set (db_jobs d'). jb_id j' = jb_id j \<and> jb_tenant_id j' = jb_tenant_id j
    \<and> jb_requested_by_token_id j' = jb_requested_by_token_id j
    \<and> (jb_status j' = jb_status j \<or> job_step (jb_status j) (jb_status j'))"
  using platform_step_advance [OF assms(2) reachable_inv [OF assms(1)]] assms(3)
  by (auto simp: jobs_related_def job_evolves_def)

lemma sample_claim: "\<exists>j d'. markRunning sample_created ''j'' ''t'' None = Inr (j, d')"
  by (simp add: markRunning_def markGenerationJobRunning_def update_job_def updating_one_def sample_created_def
      sample_linked_def reservation_matches_def or_not_found_def)

theorem jobs_follow_state_machine_witness:
  "\<exists>d'. platform_step sample_trunc sample_created d' \<and> (\<exists>j' \<in> set (db_jobs d'). jb_id j' = ''j''
     \<and> (jb_status j' = Queued \<or> job_step Queued (jb_status j')))"
proof -
  from sample_claim obtain j d' where s: "platform_step sample_trunc sample_created d'"
    by (blast intro: platform_step.claim)
  have l: "sample_linked \<in> set (db_jobs sample_created)" by (simp add: sample_created_def)
  from jobs_follow_state_machine [OF sample_reachable s l] s show ?thesis
    by (auto simp: sample_linked_def)
qed

text \<open>
  C3. A worker run of a single image or of a pack, from its first to its last transaction and
  whatever reachable steps the other processes take in between, leaves the database in a reachable
  state: a run is a sequence of platform steps, however it ends.
\<close>

theorem worker_run_reachable:
  assumes "\<forall>e \<in> set (wd_env w). \<forall>d. reachable tr d \<longrightarrow> reachable tr (e d)" "reachable tr (wd_db w)"
    and "run_state (process pt jid erid retry) w = (r, w') \<or> run_state (processPack pt jid erid retry) w = (r, w')"
  shows "reachable tr (wd_db w') \<and> plat_inv (wd_db w')"
proof -
  have "stable (reachable tr) w" using assms(1,2) by (simp add: stable_def)
  then have "stable (reachable tr) w'"
    using assms(3) by (elim disjE) (rule holdsD [OF run.process_keeps] holdsD [OF pack_run.processPack_keeps]; assumption)+
  then show ?thesis using reachable_inv by (auto simp: stable_def)
qed

definition sample_ports :: ports where
  "sample_ports = \<lparr>pt_adapter = (\<lambda>p. Some False),
     pt_generate = (\<lambda>n p q. (\<lparr>rs_images = [\<lparr>im_dims = Some (512, 512)\<rparr>], rs_prompt_hash = ''h'', rs_actual_cost = None,
        rs_cost_currency = ''''\<rparr>, None)),
     pt_upload = (\<lambda>a is. None), pt_refs = (\<lambda>i t. Inr []), pt_background = None, pt_chroma_key = False,
     pt_id = (\<lambda>n. replicate (Suc n) (CHR ''z'')), pt_latency = (\<lambda>n. 5), pt_parse_float = (\<lambda>s. 0)\<rparr>"

definition sample_world :: world where
  "sample_world = \<lparr>wd_db = sample_created, wd_env = [], wd_calls = [], wd_webhooks = [], wd_anchors = [], wd_fresh = 0\<rparr>"

theorem worker_run_reachable_witness:
  "reachable sample_trunc (wd_db (snd (run_state (process sample_ports ''j'' ''r'' 0) sample_world)))
   \<and> reachable sample_trunc (wd_db (snd (run_state (processPack sample_ports ''j'' ''r'' 0) sample_world)))"
proof -
  have idle: "\<forall>e \<in> set (wd_env sample_world). \<forall>d. reachable sample_trunc d \<longrightarrow> reachable sample_trunc (e d)"
    "reachable sample_trunc (wd_db sample_world)" using sample_reachable by (simp_all add: sample_world_def)
  note run = worker_run_reachable [OF idle, of sample_ports "''j''" "''r''" 0]
  from run [OF disjI1 [OF surjective_pairing]] run [OF disjI2 [OF surjective_pairing]] show ?thesis by blast
qed

section \<open>The cost pipeline\<close>



text \<open>
  C5. A denied pre-flight touches neither budgets nor holds: the savepoint takes back what the
  loop had reserved, one failed row with a reason remains.
\<close>

theorem reserve_denied_leaves_books:
  assumes "reserve tr d all inp rid hids = Inr (res, d')" "failed res"
  shows "db_budgets d' = db_budgets d \<and> db_holds d' = db_holds d
    \<and> (rr_failure_reason res = ''no_price_entry'' \<or> rr_failure_reason res = ''budget_exceeded'')
    \<and> (\<exists>row. db_reservations d' = db_reservations d @ [row] \<and> rv_id row = rid \<and> rv_status row = Res_failed
         \<and> rv_reserved row = 0 \<and> rv_failure_reason row = Some (rr_failure_reason res))"
  using assms(1)
proof (cases rule: reserve_cases)
  case denied
  then show ?thesis by (auto simp: denied_row_def)
qed (use assms(2) in \<open>simp add: failed_def\<close>)

lemma sample_denied:
  "reserve sample_trunc sample_created [] \<lparr>ri_job_id = ''j'', ri_tenant_id = ''t'', ri_token_id = ''k'', ri_world_id = ''w'',
     ri_user_id = '''', ri_provider_id = ''?'', ri_model_id = ''m'', ri_operation_type = ''o'', ri_units = 1\<rparr> ''s'' (\<lambda>n. ''x'')
   = Inr (\<lparr>rr_id = ''s'', rr_status = Res_failed, rr_failure_reason = ''no_price_entry'', rr_estimated = 0, rr_reserved = 0,
       rr_currency = ''USD'', rr_estimate_usd = ''''\<rparr>,
     sample_created\<lparr>db_reservations := [sample_row, \<lparr>rv_id = ''s'', rv_job_id = ''j'', rv_tenant_id = ''t'', rv_estimated = 0,
       rv_reserved = 0, rv_actual = None, rv_currency = ''USD'', rv_status = Res_failed,
       rv_failure_reason = Some ''no_price_entry''\<rparr>]\<rparr>)"
  by (simp add: reserve_def estimateOperationCost_def active_price_def insertFailed_def insertCostReservation_def insert_row_def
      sample_created_def sample_reserved_def sample_inserted_def sample_db_def sample_linked_def sample_row_def)

theorem reserve_denied_leaves_books_witness:
  "\<exists>res d'. reserve sample_trunc sample_created [] \<lparr>ri_job_id = ''j'', ri_tenant_id = ''t'', ri_token_id = ''k'',
      ri_world_id = ''w'', ri_user_id = '''', ri_provider_id = ''?'', ri_model_id = ''m'', ri_operation_type = ''o'',
      ri_units = 1\<rparr> ''s'' (\<lambda>n. ''x'') = Inr (res, d') \<and> db_budgets d' = db_budgets sample_created"
  using reserve_denied_leaves_books [OF sample_denied] sample_denied by (auto simp: failed_def)

text \<open>
  C6. A reservation reaches a terminal state once: after a commit or a release, finalizing again
  for the same job, to either target and from any of the entry points, changes nothing.
\<close>

theorem finalize_exactly_once:
  assumes "finalizeInTxForReservation d jid t rid lid eid = Inr d'" "reachable tr d"
    and "t' = Committed \<or> t' = Released"
  shows "finalizeInTxForReservation d' jid t' rid lid' eid' = Inr d'"
  using finalize_idempotent [OF assms(1) _ assms(3)] reachable_inv [OF assms(2)]
  by (simp add: plat_inv_def cost_inv_def)

definition sample_settled :: "reservation_status \<Rightarrow> amount \<Rightarrow> amount option \<Rightarrow> db" where
  "sample_settled t spent act = sample_created\<lparr>
     db_budgets := [sample_budget ''b'' Tenant_scope ''t'' 0 spent, sample_budget ''c'' Token_scope ''k'' 0 spent],
     db_reservations := [sample_row\<lparr>rv_status := t, rv_actual := act\<rparr>],
     db_holds := [(sample_hold ''h'' ''b'')\<lparr>ho_status := t\<rparr>, (sample_hold ''g'' ''c'')\<lparr>ho_status := t\<rparr>],
     db_jobs := [sample_linked\<lparr>jb_actual_cost := act\<rparr>],
     db_events := [\<lparr>ce_id = ''v'', ce_tenant_id = ''t'', ce_job_id = Some ''j'', ce_asset_id = None, ce_reservation_id = Some ''r'',
       ce_token_id = None, ce_provider_id = None, ce_model_id = None, ce_attempt_id = None, ce_operation = ''text_to_image'',
       ce_estimated = Some 4, ce_actual = act, ce_duration_ms = None,
       ce_status = (if t = Committed then ''succeeded'' else ''failed''),
       ce_metadata = [''billable_operation'' \<mapsto> JStr ''finalizer'', inferred_key \<mapsto> JBool True], ce_created_at = 10\<rparr>]\<rparr>"

lemma sample_linked_simps [simp]:
  "jb_id sample_linked = ''j''" "jb_tenant_id sample_linked = ''t''" "jb_status sample_linked = Queued"
  "jb_cost_reservation_id sample_linked = Some ''r''" "jb_actual_cost sample_linked = None"
  "jb_visual_identity_id sample_linked = None" "jb_preview_asset_ids sample_linked = []"
  by (simp_all add: sample_linked_def sample_job_def new_job_def priced_params_def Let_def sample_params_def)

lemma sample_identity: "job_identity sample_linked = None"
  by (simp add: job_identity_def sample_linked_def sample_job_def new_job_def priced_params_def Let_def sample_params_def
      withResolvedRoutePayload_def withCostContextPayload_def payloadString_def strPtr_def)

lemma sample_identity_cost: "job_identity (sample_linked\<lparr>jb_actual_cost := x\<rparr>) = None"
  using sample_identity by (simp add: job_identity_def split: option.splits)

lemmas settle_defs = finalizeInTxForReservation_def finalizeReservation_def finalizable_def sumReportedReservationActual_def
  listReservedBudgetHolds_def commitBudgetHold_def releaseBudgetHold_def markBudgetHoldStatus_def
  upsertIdentityCostLedgerForJob_def upsert_ledger_def finalizeCostEvent_def updateLatestJobCostEvent_def
  insertFinalizerCostEvent_def insert_row_def setGenerationJobActualCostForReservation_def
  getGenerationJobByIDUnchecked_def strPtr_def

lemma sample_finalize:
  "finalizeInTxForReservation sample_created ''j'' Committed ''r'' ''l'' ''v'' = Inr (sample_settled Committed 4 (Some 4))"
  "finalizeInTxForReservation sample_created ''j'' Released ''r'' ''l'' ''v'' = Inr (sample_settled Released 0 None)"
  "finalizeInTxForReservation sample_created ''j'' Released '''' ''l'' ''v'' = Inr (sample_settled Released 0 None)"
  by (simp_all add: settle_defs Let_def sample_identity_cost sample_settled_def sample_created_def sample_reserved_def
      sample_inserted_def sample_db_def empty_db_def sample_row_def sample_hold_def)

theorem finalize_exactly_once_witness:
  "finalizeInTxForReservation (sample_settled Committed 4 (Some 4)) ''j'' Released ''r'' ''l'' ''w'' =
     Inr (sample_settled Committed 4 (Some 4))"
  by (rule finalize_exactly_once [OF sample_finalize(1) sample_reachable]) simp

text \<open>
  C7. A commit settles the one live reservation it names: the reservation becomes committed with
  the provider-reported total, or the estimate when nothing was reported; every budget gives back
  what the reservation held on it and is charged that actual once per hold; no other reservation
  changes.
\<close>

theorem commit_charges_exactly:
  assumes "reachable tr d" "r \<in> set (db_reservations d)" "rv_id r = rid" "rv_job_id r = jid" "rv_status r = Reserved"
    and "rid \<noteq> ''''" "sumReportedReservationActual d rid jid = Inr rep"
    and "commitForReservation d jid rid lid eid = Inr d'"
  shows "db_reservations d' = update_where (\<lambda>x. rv_id x = rid)
            (\<lambda>x. x\<lparr>rv_status := Committed, rv_actual := Some (case rep of None \<Rightarrow> rv_estimated r | Some a \<Rightarrow> a)\<rparr>)
            (db_reservations d)
    \<and> db_budgets d' = map (\<lambda>b. b\<lparr>
            bg_reserved := bg_reserved b
              - sum_where (\<lambda>h. ho_budget_id h = bg_id b) ho_reserved (listReservedBudgetHolds d rid),
            bg_spent := bg_spent b + (case rep of None \<Rightarrow> rv_estimated r | Some a \<Rightarrow> a)
              * int (length (filter (\<lambda>h. ho_budget_id h = bg_id b) (listReservedBudgetHolds d rid)))\<rparr>) (db_budgets d)"
proof -
  have inv: "cost_inv d" using reachable_inv [OF assms(1)] by (simp add: plat_inv_def)
  from commit_shape [OF inv assms(2-6,8,7)] obtain ls es dx where
    "d' = (closed_books d r Committed (charge_of Committed r rep))\<lparr>
       db_jobs := charged_jobs d jid rid (charge_of Committed r rep), db_ledger := ls, db_events := es\<rparr>" .
  then show ?thesis using assms(3) by (simp add: closed_books_def charge_of_def settled_budget_def [abs_def])
qed

lemma sample_unreported: "sumReportedReservationActual sample_created ''r'' ''j'' = Inr None"
  by (simp add: sumReportedReservationActual_def sample_created_def sample_reserved_def sample_inserted_def sample_db_def empty_db_def)

theorem commit_charges_exactly_witness:
  "\<exists>d'. commitForReservation sample_created ''j'' ''r'' ''l'' ''v'' = Inr d' \<and> map bg_spent (db_budgets d') = [4, 4]
     \<and> map bg_reserved (db_budgets d') = [0, 0]"
proof -
  have c: "commitForReservation sample_created ''j'' ''r'' ''l'' ''v'' = Inr (sample_settled Committed 4 (Some 4))"
    by (simp add: commitForReservation_def sample_finalize)
  have r: "sample_row \<in> set (db_reservations sample_created)" by (simp add: sample_created_def sample_reserved_def)
  note commit_charges_exactly [OF sample_reachable r _ _ _ _ sample_unreported c]
  then show ?thesis using c
    by (simp add: sample_row_def sample_created_def sample_reserved_def listReservedBudgetHolds_def sample_hold_def sum_where_def)
qed



text \<open>
  C9. Reconciling a late bill twice is reconciling it once, whatever identifier the second call
  draws: retries of the reconciliation cannot charge a budget again.
\<close>

theorem reconcile_idempotent:
  assumes "reachable tr d" "reconcileForReservation d jid rid lid = Inr d'"
  shows "reconcileForReservation d' jid rid lid' = Inr d'"
  using reconcile_idempotent_lemma [OF assms(2)] reachable_inv [OF assms(1)] by (simp add: plat_inv_def)

definition sample_bill :: cost_event where
  "sample_bill = \<lparr>ce_id = ''u'', ce_tenant_id = ''t'', ce_job_id = Some ''j'', ce_asset_id = None, ce_reservation_id = Some ''r'',
     ce_token_id = None, ce_provider_id = None, ce_model_id = None, ce_attempt_id = None, ce_operation = ''text_to_image'',
     ce_estimated = None, ce_actual = Some 7, ce_duration_ms = None, ce_status = ''completed'', ce_metadata = Map.empty,
     ce_created_at = 10\<rparr>"

definition sample_billed :: db where
  "sample_billed = (sample_settled Committed 4 (Some 4))\<lparr>db_events := db_events (sample_settled Committed 4 (Some 4)) @ [sample_bill]\<rparr>"

definition sample_reconciled :: db where
  "sample_reconciled = sample_billed\<lparr>
     db_budgets := [sample_budget ''b'' Tenant_scope ''t'' 0 7, sample_budget ''c'' Token_scope ''k'' 0 7],
     db_reservations := [sample_row\<lparr>rv_status := Committed, rv_actual := Some 7\<rparr>],
     db_jobs := [sample_linked\<lparr>jb_actual_cost := Some 7\<rparr>]\<rparr>"

lemma sample_reconcile: "reconcileForReservation sample_billed ''j'' ''r'' ''l'' = Inr sample_reconciled"
  by (simp add: reconcileForReservation_def getTerminalReservationForReconciliation_def terminal_reservation_def
      sumReportedReservationActual_def reported_event_def json_flag_def numeric14_4_def sum_where_def reconcileReservationActual_def
      listFinalizedBudgetHolds_def adjustBudgetSpent_def upsertIdentityCostLedgerActualForJob_def upsert_ledger_def Let_def
      setGenerationJobActualCostForReservation_def getGenerationJobByIDUnchecked_def sample_identity_cost
      sample_reconciled_def sample_billed_def sample_settled_def sample_row_def sample_hold_def sample_bill_def)

lemma sample_billed_reachable: "reachable sample_trunc sample_billed"
proof -
  have "platform_step sample_trunc sample_created (sample_settled Committed 4 (Some 4))"
    by (rule platform_step.finalize [OF sample_finalize(1)])
  moreover have "platform_step sample_trunc (sample_settled Committed 4 (Some 4)) sample_billed"
    by (rule platform_step.cost_event [where ev = sample_bill])
      (simp add: insertCostEventWithQueries_def insert_row_def sample_billed_def sample_settled_def sample_bill_def
        sample_created_def sample_reserved_def sample_inserted_def sample_db_def)
  ultimately show ?thesis using sample_reachable reachable_step by blast
qed

theorem reconcile_idempotent_witness:
  "reconcileForReservation sample_reconciled ''j'' ''r'' ''n'' = Inr sample_reconciled"
  by (rule reconcile_idempotent [OF sample_billed_reachable sample_reconcile])

text \<open>
  C10. The order of a late bill does not matter: committing at the estimate, then receiving the
  provider's bill and reconciling, ends with the same budgets, reservations, holds and jobs as
  having had the bill before the commit.
\<close>

theorem late_bill_confluence:
  assumes "reachable tr d" "r \<in> set (db_reservations d)" "rv_id r = rid" "rv_job_id r = jid" "rv_status r = Reserved"
    and "rid \<noteq> ''''" "0 \<le> rv_estimated r" "\<forall>b \<in> set (db_budgets d). 0 \<le> bg_spent b"
    and "\<forall>e \<in> set (db_events d). \<not> reported_event jid rid e"
    and "es \<noteq> []" "\<forall>e \<in> set es. reported_event jid rid e \<and> 0 \<le> the (ce_actual e)"
    and "commitForReservation d jid rid l1 e1 = Inr d1"
    and "reconcileForReservation (d1\<lparr>db_events := db_events d1 @ es\<rparr>) jid rid l2 = Inr d2"
    and "commitForReservation (d\<lparr>db_events := db_events d @ es\<rparr>) jid rid l3 e3 = Inr d3"
  shows "db_budgets d2 = db_budgets d3 \<and> db_reservations d2 = db_reservations d3
    \<and> db_holds d2 = db_holds d3 \<and> db_jobs d2 = db_jobs d3"
  using late_bill_confluence_lemma [OF _ assms(2-14)] reachable_inv [OF assms(1)] by (simp add: plat_inv_def)

lemma sample_early_bill:
  "\<exists>d3. commitForReservation (sample_created\<lparr>db_events := db_events sample_created @ [sample_bill]\<rparr>) ''j'' ''r'' ''l'' ''v'' = Inr d3"
  by (simp add: commitForReservation_def settle_defs Let_def sample_identity_cost sample_created_def sample_reserved_def
      sample_inserted_def sample_db_def empty_db_def sample_row_def sample_hold_def sample_bill_def reported_event_def json_flag_def
      numeric14_4_def sum_where_def)

theorem late_bill_confluence_witness:
  "\<exists>d3. commitForReservation (sample_created\<lparr>db_events := db_events sample_created @ [sample_bill]\<rparr>) ''j'' ''r'' ''l'' ''v'' = Inr d3
     \<and> db_budgets sample_reconciled = db_budgets d3"
proof -
  from sample_early_bill obtain d3 where
    d3: "commitForReservation (sample_created\<lparr>db_events := db_events sample_created @ [sample_bill]\<rparr>) ''j'' ''r'' ''l'' ''v'' = Inr d3" ..
  have r: "sample_row \<in> set (db_reservations sample_created)" by (simp add: sample_created_def sample_reserved_def)
  have c: "commitForReservation sample_created ''j'' ''r'' ''l'' ''v'' = Inr (sample_settled Committed 4 (Some 4))"
    by (simp add: commitForReservation_def sample_finalize)
  have "db_budgets sample_reconciled = db_budgets d3"
    using late_bill_confluence [OF sample_reachable r _ _ _ _ _ _ _ _ _ c sample_reconcile [unfolded sample_billed_def] d3]
    by (simp add: sample_row_def sample_created_def sample_reserved_def sample_inserted_def sample_db_def empty_db_def
        sample_bill_def reported_event_def json_flag_def)
  with d3 show ?thesis by blast
qed

section \<open>Creating, replaying, cancelling, retrying\<close>

text \<open>
  C11. The concurrency cap: a create that commits a job under a token with a positive cap found
  fewer live jobs of that token than the cap, reports that number, and leaves at most the cap.
\<close>

theorem concurrency_cap:
  assumes "createTx tr d all f c = TxCommitted res pid live d'" "cp_max_concurrent_jobs c > 0"
  shows "live = int (countLiveGenerationJobsByToken d (cp_token_id c)) \<and> live < cp_max_concurrent_jobs c
    \<and> int (countLiveGenerationJobsByToken d' (cp_token_id c)) \<le> cp_max_concurrent_jobs c"
  using create_live_count [OF assms(1), of "cp_token_id c"] assms createTx_committedD [OF assms(1)] by fastforce

theorem concurrency_cap_witness:
  "int (countLiveGenerationJobsByToken sample_created ''k'') \<le> 2"
  using concurrency_cap [OF sample_create] by simp



text \<open>
  C13. Cancelling a job, live or already cancelled, leaves no live reservation of it and shows it
  cancelled; every hold it had is returned in the same transaction.
\<close>

theorem cancel_releases:
  assumes "reachable tr d" "cancelJob d ten jid lid eid = Inr (j, d')"
  shows "jb_id j = jid \<and> jb_status j = Cancelled \<and> (\<forall>r \<in> set (db_reservations d'). rv_job_id r = jid \<longrightarrow> rv_status r \<noteq> Reserved)
    \<and> reachable tr d'"
proof -
  have inv: "plat_inv d" by (rule reachable_inv [OF assms(1)])
  have r: "reachable tr d'" by (rule reachable_step [OF assms(1) platform_step.cancel [OF assms(2)]])
  have clear: "rv_status r \<noteq> Reserved"
    if "releaseInTx x jid lid eid = Inr d'" "plat_inv x" "r \<in> set (db_reservations d')" "rv_job_id r = jid" for x r
    using linked_finalize_clears [of x jid Released lid eid d'] that by (simp add: releaseInTx_def)
  from cancelJob_row [OF assms(2) inv] have "jb_id j = jid \<and> jb_status j = Cancelled" .
  with assms(2) r clear show ?thesis
    by (cases rule: cancelJob_InrD) (use inv cancelGenerationJob_inv in auto)
qed

definition sample_cancelled :: job where
  "sample_cancelled = sample_linked\<lparr>jb_status := Cancelled, jb_error_code := Some ''cancelled'',
     jb_error_message := Some (cancelMessage Queued), jb_retryable := Some False, jb_completed_at := Some 10\<rparr>"

lemma sample_cancelled_fields [simp]:
  "jb_id sample_cancelled = ''j''" "jb_tenant_id sample_cancelled = ''t''" "jb_cost_reservation_id sample_cancelled = Some ''r''"
  "jb_asset_pack_id sample_cancelled = None"
  by (simp_all add: sample_cancelled_def sample_linked_def sample_job_def new_job_def sample_params_def)

lemma sample_cancel: "\<exists>j d'. cancelJob sample_created ''t'' ''j'' ''l'' ''v'' = Inr (j, d')"
proof -
  have g: "getGenerationJobByID sample_created ''j'' ''t'' = Some sample_linked"
    by (simp add: getGenerationJobByID_def sample_created_def)
  have c: "cancelGenerationJob sample_created ''j'' ''t'' (cancelMessage Queued) =
      Some (sample_cancelled, sample_created\<lparr>db_jobs := [sample_cancelled]\<rparr>)"
    by (simp add: cancelGenerationJob_def update_job_def updating_one_def sample_created_def sample_cancelled_def
        sample_reserved_def sample_inserted_def sample_db_def)
  have g2: "getGenerationJobByID (sample_created\<lparr>db_jobs := [sample_cancelled]\<rparr>) ''j'' ''t'' = Some sample_cancelled"
    by (simp add: getGenerationJobByID_def)
  have "\<exists>d'. releaseInTx (sample_created\<lparr>db_jobs := [sample_cancelled]\<rparr>) ''j'' ''l'' ''v'' = Inr d'"
    by (simp add: releaseInTx_def settle_defs Let_def sample_created_def sample_reserved_def sample_inserted_def sample_db_def
        empty_db_def sample_row_def sample_hold_def)
  then show ?thesis
    by (auto simp: cancelJob_def lockGenerationJobForUpdate_def g c g2 fail_pack_of_def)
qed

theorem cancel_releases_witness:
  "\<exists>j d'. cancelJob sample_created ''t'' ''j'' ''l'' ''v'' = Inr (j, d') \<and> jb_status j = Cancelled \<and> reachable sample_trunc d'"
  using cancel_releases [OF sample_reachable] sample_cancel by blast

text \<open>
  C14. A retry that commits has reopened a failed job: it is queued again with its failure and
  output fields cleared and its final-phase claim erased, it links a fresh reservation, and that
  reservation is the only live one of the job.
\<close>

theorem retry_reopens:
  assumes "reachable tr d" "retryTx tr d all ten jid rid hids lid eid = Inr (j, r, d')"
  shows "jb_id j = jid \<and> jb_status j = Queued \<and> jb_final_asset_ids j = [] \<and> jb_error_code j = None
    \<and> jb_input_payload j ''preview_finalization_claimed'' = None \<and> jb_cost_reservation_id j = Some r \<and> r = rid
    \<and> map rv_id (filter (\<lambda>x. rv_job_id x = jid \<and> rv_status x = Reserved) (db_reservations d')) = [rid]
    \<and> (\<exists>old \<in> set (db_jobs d). jb_id old = jid \<and> jb_status old = Failed) \<and> reachable tr d'"
proof -
  have "reachable tr d'" by (rule reachable_step [OF assms(1) platform_step.retry [OF assms(2)]])
  with retryTx_effect [OF assms(2) reachable_inv [OF assms(1)]] show ?thesis by simp
qed

definition sample_failed_job :: job where
  "sample_failed_job = sample_linked\<lparr>jb_status := Failed, jb_error_code := Some ''x'', jb_error_message := Some ''y'',
     jb_retryable := Some False, jb_completed_at := Some 10\<rparr>"

definition sample_failed :: db where
  "sample_failed = sample_created\<lparr>db_jobs := [sample_failed_job]\<rparr>"

lemma sample_fail: "markFailed sample_created ''j'' ''t'' ''x'' ''y'' False None = Inr (sample_failed_job, sample_failed)"
  by (simp add: markFailed_def markGenerationJobFailed_def update_job_def updating_one_def reservation_matches_def sample_failed_def
      sample_failed_job_def sample_created_def sample_reserved_def sample_inserted_def sample_db_def)

lemma sample_failed_reachable: "reachable sample_trunc sample_failed"
  by (rule reachable_step [OF sample_reachable platform_step.fail [OF sample_fail]])

lemma sample_failed_fields [simp]:
  "jb_id sample_failed_job = ''j''" "jb_tenant_id sample_failed_job = ''t''" "jb_cost_reservation_id sample_failed_job = Some ''r''"
  "jb_status sample_failed_job = Failed"
  by (simp_all add: sample_failed_job_def)

lemma sample_retry_input:
  "reserveInputFromRow ''j'' ''t'' sample_failed_job = Inr \<lparr>ri_job_id = ''j'', ri_tenant_id = ''t'', ri_token_id = ''k'',
     ri_world_id = ''w'', ri_user_id = '''', ri_provider_id = ''f'', ri_model_id = ''m'', ri_operation_type = ''o'', ri_units = 1\<rparr>"
  by (simp add: reserveInputFromRow_def sample_failed_job_def sample_linked_def sample_job_def new_job_def priced_params_def Let_def
      sample_params_def withResolvedRoutePayload_def withCostContextPayload_def payloadString_def payloadInt32_def int32_def
      worstCaseBillableUnits_def)

definition sample_freed :: db where
  "sample_freed = (sample_settled Released 0 None)\<lparr>db_jobs := [sample_failed_job]\<rparr>"

lemma sample_retry_release: "releaseInTx sample_failed ''j'' ''l'' ''v'' = Inr sample_freed"
  by (simp add: releaseInTx_def settle_defs Let_def sample_freed_def sample_failed_def sample_settled_def sample_created_def
      sample_reserved_def sample_inserted_def sample_db_def empty_db_def sample_row_def sample_hold_def)

lemma sample_retry: "\<exists>j r d'. retryTx sample_trunc sample_failed [] ''t'' ''j'' ''s'' (\<lambda>n. ''q'') ''l'' ''v'' = Inr (j, r, d')"
proof -
  have row: "lockGenerationJobRowForUpdate sample_failed ''j'' ''t'' None = Some sample_failed_job"
    by (simp add: lockGenerationJobRowForUpdate_def sample_failed_def reservation_matches_def)
  have est: "estimateOperationCost sample_freed 1 ''f'' ''m'' ''o'' = Inr \<lparr>es_price_id = ''p'', es_unit_type = ''image'',
      es_currency = ''USD'', es_estimated_amount = 4, es_estimated_text = numeric_text 4\<rparr>"
    by (simp add: estimateOperationCost_def active_price_def sample_freed_def sample_settled_def sample_created_def
        sample_reserved_def sample_inserted_def sample_db_def empty_db_def numeric14_4_def round_micro_def)
  let ?row = "sample_row\<lparr>rv_id := ''s''\<rparr>"
  have ins: "insertCostReservation sample_freed ?row = Inr (sample_freed\<lparr>db_reservations := db_reservations sample_freed @ [?row]\<rparr>)"
    by (simp add: insertCostReservation_def insert_row_def sample_freed_def sample_settled_def sample_row_def)
  have jobs: "db_jobs sample_freed = [sample_failed_job]" by (simp add: sample_freed_def)
  have "\<exists>res d2. reserve sample_trunc sample_freed [] \<lparr>ri_job_id = ''j'', ri_tenant_id = ''t'', ri_token_id = ''k'', ri_world_id = ''w'',
      ri_user_id = '''', ri_provider_id = ''f'', ri_model_id = ''m'', ri_operation_type = ''o'', ri_units = 1\<rparr> ''s'' (\<lambda>n. ''q'')
      = Inr (res, d2) \<and> \<not> failed res \<and> db_jobs d2 = [sample_failed_job]"
    using ins jobs by (simp add: reserve_def est reserveBudgets_def selectBudgets_def failed_def sample_row_def)
  then obtain res d2 where rv: "reserve sample_trunc sample_freed [] \<lparr>ri_job_id = ''j'', ri_tenant_id = ''t'', ri_token_id = ''k'',
      ri_world_id = ''w'', ri_user_id = '''', ri_provider_id = ''f'', ri_model_id = ''m'', ri_operation_type = ''o'', ri_units = 1\<rparr>
      ''s'' (\<lambda>n. ''q'') = Inr (res, d2)" "\<not> failed res" "db_jobs d2 = [sample_failed_job]" by blast
  have "\<exists>j d3. retryResetGenerationJob d2 ''j'' ''t'' (rr_id res) (rr_estimated res) = Some (j, d3)"
    by (simp add: retryResetGenerationJob_def update_job_def updating_one_def rv(3))
  then show ?thesis
    by (auto simp: retryTx_def row sample_retry_release sample_retry_input rv)
qed

theorem retry_reopens_witness:
  "\<exists>j d'. retryTx sample_trunc sample_failed [] ''t'' ''j'' ''s'' (\<lambda>n. ''q'') ''l'' ''v'' = Inr (j, ''s'', d')
     \<and> jb_status j = Queued \<and> reachable sample_trunc d'"
  using retry_reopens [OF sample_failed_reachable] sample_retry by blast

section \<open>The worker\<close>












text \<open>
  C18. A forced regeneration leaves its own output as the single ready asset of the slot, archives
  every earlier ready one forward to it, touches no other row and takes a greater version.
\<close>

theorem supersede_artifact_slot:
  assumes "supersedeArtifactSlot d p s = Inr (a, d')" "in_artifact_slot s (new_asset Ready p 1)"
  shows "filter (\<lambda>x. in_artifact_slot s x \<and> va_status x = Ready) (db_assets d') = [a]
    \<and> (\<forall>x \<in> set (db_assets d). if in_artifact_slot s x \<and> va_status x = Ready
         then x\<lparr>va_status := Archived, va_superseded_by := Some (va_id a)\<rparr> \<in> set (db_assets d')
         else x \<in> set (db_assets d'))
    \<and> (max_version (in_artifact_slot s) d < 2 ^ 31 - 1 \<and> 0 \<le> max_version (in_artifact_slot s) d
         \<longrightarrow> (\<forall>x \<in> set (db_assets d). in_artifact_slot s x \<longrightarrow> va_version x < va_version a))"
proof -
  note D = supersedeArtifactSlot_InrD [OF assms(1)]
  have "in_artifact_slot s a" using D(6) assms(2) by simp
  note ready = artifact.sole_ready [OF D(1) this D(2) refl]
  have "va_version x < va_version a" if "x \<in> set (db_assets d)" "in_artifact_slot s x"
    "max_version (in_artifact_slot s) d < 2 ^ 31 - 1" "0 \<le> max_version (in_artifact_slot s) d" for x
    using artifact.next_version_greater [OF that] that(3,4) D(5) int32_id [of "max_version (in_artifact_slot s) d + 1"] by simp
  with ready D(4) artifact.archived_forward [OF D(1) _ _ _ refl] artifact.neighbours_kept [OF _ _ refl]
  show ?thesis by auto
qed

definition sample_old_asset :: visual_asset where
  "sample_old_asset = \<lparr>va_id = ''a'', va_tenant_id = ''t'', va_world_id = ''w'', va_visual_identity_id = None,
     va_asset_type = ''artifact'', va_variant_key = ''default'', va_variant_family = None, va_version = 4, va_state_version = 1,
     va_style_profile_id = Some ''s'', va_style_profile_version = None, va_quality_tier = ''standard'', va_status = Ready,
     va_compatibility_tags = [], va_fallback_allowed = False, va_fallback_rank = None, va_is_identity_anchor = False,
     va_prompt_hash = Some ''h'', va_generation_job_id = None, va_superseded_by = None\<rparr>"

definition sample_asset_params :: asset_params where
  "sample_asset_params = \<lparr>ap_id = ''n'', ap_tenant_id = ''t'', ap_world_id = ''w'', ap_visual_identity_id = None,
     ap_asset_type = ''artifact'', ap_variant_key = ''default'', ap_variant_family = None, ap_compatibility_tags = [],
     ap_fallback_allowed = False, ap_fallback_rank = None, ap_style_profile_id = Some ''s'', ap_style_profile_version = None,
     ap_quality_tier = ''standard'', ap_prompt_hash = Some ''h'', ap_generation_job_id = None, ap_version = 0\<rparr>"

definition sample_slot :: artifact_slot where
  "sample_slot = \<lparr>as_tenant_id = ''t'', as_world_id = ''w'', as_style_profile_id = ''s'', as_quality_tier = ''standard'', as_prompt_hash = ''h''\<rparr>"

definition sample_shelf :: db where
  "sample_shelf = sample_db\<lparr>db_assets := [sample_old_asset]\<rparr>"

lemma sample_in_slot:
  "in_artifact_slot sample_slot (new_asset Ready sample_asset_params v)" "in_artifact_slot sample_slot sample_old_asset"
  by (simp_all add: in_artifact_slot_def sample_slot_def new_asset_def sample_asset_params_def sample_old_asset_def strPtr_def sql_eq_def)

lemma sample_supersede: "\<exists>a d'. supersedeArtifactSlot sample_shelf sample_asset_params sample_slot = Inr (a, d')"
  by (simp add: supersedeArtifactSlot_def insertWithQueries_def insertVisualAsset_def insertAssetRow_def insert_row_def
      sample_shelf_def sample_old_asset_def new_asset_def sample_asset_params_def)

theorem supersede_artifact_slot_witness:
  "\<exists>a d'. supersedeArtifactSlot sample_shelf sample_asset_params sample_slot = Inr (a, d')
     \<and> filter (\<lambda>x. in_artifact_slot sample_slot x \<and> va_status x = Ready) (db_assets d') = [a]
     \<and> sample_old_asset\<lparr>va_status := Archived, va_superseded_by := Some (va_id a)\<rparr> \<in> set (db_assets d') \<and> 4 < va_version a"
proof -
  obtain a d' where s: "supersedeArtifactSlot sample_shelf sample_asset_params sample_slot = Inr (a, d')"
    using sample_supersede by blast
  have old: "sample_old_asset \<in> set (db_assets sample_shelf)" "va_status sample_old_asset = Ready" "va_version sample_old_asset = 4"
    by (simp_all add: sample_shelf_def sample_old_asset_def)
  have "max_version (in_artifact_slot sample_slot) sample_shelf = 4"
    using sample_in_slot(2) by (simp add: max_version_def sample_shelf_def sample_old_asset_def)
  with supersede_artifact_slot [OF s sample_in_slot(1)] old sample_in_slot(2) s show ?thesis by fastforce
qed

text \<open>
  C19. What a forced regeneration stored, the exact-reuse lookup of the same request finds: any
  later request with the same key reuses the new asset and never an archived one.
\<close>

theorem supersede_then_reuse:
  assumes "supersedeArtifactSlot d p s = Inr (a, d')" "in_artifact_slot s (new_asset Ready p 1)" "as_tenant_id s \<noteq> ''''"
    and "ver = None \<or> ver = ap_style_profile_version p \<and> ver \<noteq> None"
  shows "findReadyArtifactByPromptHash coll d' \<lparr>lk_tenant_id = as_tenant_id s, lk_world_id = as_world_id s,
     lk_style_profile_id = as_style_profile_id s, lk_style_profile_version = ver, lk_quality_tier = as_quality_tier s,
     lk_prompt_hash = as_prompt_hash s\<rparr> = Inr a"
proof -
  note D = supersedeArtifactSlot_InrD [OF assms(1)]
  have "in_artifact_slot s a" using D(6) assms(2) by simp
  note ready = artifact.sole_ready [OF D(1) this D(2) refl]
  have v: "va_style_profile_version a = ap_style_profile_version p"
    using assms(1) by (auto simp: supersede_defs new_asset_def dest!: insertWithQueries_InrD(1) split: sum.splits prod.splits)
  have "filter (\<lambda>x. in_artifact_slot s x \<and> va_status x = Ready \<and> (case ver of None \<Rightarrow> True | Some v \<Rightarrow> va_style_profile_version x = Some v))
      (db_assets d') = filter (\<lambda>x. case ver of None \<Rightarrow> True | Some v \<Rightarrow> va_style_profile_version x = Some v)
        (filter (\<lambda>x. in_artifact_slot s x \<and> va_status x = Ready) (db_assets d'))"
    by (simp add: conj_commute conj_left_commute)
  also have "\<dots> = [a]" using ready D(4) v assms(4) by (auto split: option.splits)
  finally have one: "filter (\<lambda>x. in_artifact_slot s x \<and> va_status x = Ready
      \<and> (case ver of None \<Rightarrow> True | Some v \<Rightarrow> va_style_profile_version x = Some v)) (db_assets d') = [a]" .
  have slot: "\<lparr>as_tenant_id = as_tenant_id s, as_world_id = as_world_id s, as_style_profile_id = as_style_profile_id s,
      as_quality_tier = as_quality_tier s, as_prompt_hash = as_prompt_hash s\<rparr> = s" by simp
  show ?thesis using assms(3) by (simp add: findReadyArtifactByPromptHash_def slot one)
qed

theorem supersede_then_reuse_witness:
  "\<exists>a d'. supersedeArtifactSlot sample_shelf sample_asset_params sample_slot = Inr (a, d')
     \<and> findReadyArtifactByPromptHash (\<lambda>x y. True) d' \<lparr>lk_tenant_id = ''t'', lk_world_id = ''w'', lk_style_profile_id = ''s'',
         lk_style_profile_version = None, lk_quality_tier = ''standard'', lk_prompt_hash = ''h''\<rparr> = Inr a"
proof -
  obtain a d' where s: "supersedeArtifactSlot sample_shelf sample_asset_params sample_slot = Inr (a, d')"
    using sample_supersede by blast
  have "as_tenant_id sample_slot \<noteq> ''''" by (simp add: sample_slot_def)
  from supersede_then_reuse [OF s sample_in_slot(1) this, of None "\<lambda>x y. True"] s show ?thesis by (simp add: sample_slot_def)
qed


definition sample_net :: net where
  "sample_net = \<lparr>nt_buildable = (\<lambda>_. True),
     nt_answer = (\<lambda>n q. Answer 200 '''' (Content (if n = 0 then ''s'' else ''w''))),
     nt_parse = (\<lambda>s. Some (if s = ''s'' then [''request_id'' \<mapsto> JStr ''i'', ''status_url'' \<mapsto> JStr ''u'', ''response_url'' \<mapsto> JStr ''v'',
        ''cancel_url'' \<mapsto> JStr ''c''] else [''status'' \<mapsto> JStr ''IN_QUEUE''])),
     nt_number = (\<lambda>_. None), nt_stop = (\<lambda>n. 2 \<le> n), nt_expired = (\<lambda>n. 2 \<le> n)\<rparr>"

definition sample_render :: seeded_request where
  "sample_render = \<lparr>gr_prompt = ''p'', gr_negative_prompt = '''', gr_width = 512, gr_height = 512, gr_aspect_ratio = '''',
     gr_reference_urls = [''a''], gr_seed = ''''\<rparr>"





definition sample_caller :: "string \<Rightarrow> principal" where
  "sample_caller tok = \<lparr>pn_token_id = tok, pn_tenant_id = ''t'', pn_scopes = [], pn_environment = ''live'',
     pn_limits = \<lparr>li_requests_per_minute = 2, li_requests_per_hour = 9, li_max_concurrent_jobs = 1\<rparr>\<rparr>"





text \<open>
  C23. A new price takes effect alone. When an administrator enters a price, its key is priced by the
  new entry from then on and every other key as before; the entry it replaces is ended at that
  instant and stays in the book with its price, and no entry is lost. The change is committed
  with its audit row or not at all, it touches no job, budget or reservation, and an ended entry
  cannot be made active again beside the new one.
\<close>

theorem price_change_exact:
  assumes ok: "prices_ok d" and call: "createPrice scan show6 au d a i c = Inr (p, ev, d')" and "0 \<le> pr_price_per_unit p"
  shows "prices_ok d' \<and> d' = d\<lparr>db_prices := db_prices d'\<rparr>
    \<and> active_price d' (ne_provider_id c) (ne_model_id c) (ne_operation_type c) = Some p
    \<and> (\<forall>prov model op. (prov, model, op) \<noteq> (ne_provider_id c, ne_model_id c, ne_operation_type c) \<longrightarrow>
         active_price d' prov model op = active_price d prov model op)
    \<and> (\<forall>x \<in> set (db_prices d). \<exists>y \<in> set (db_prices d'). pr_id y = pr_id x \<and> pr_price_per_unit y = pr_price_per_unit x
         \<and> (if price_key x = price_key p \<and> pr_is_active x then \<not> pr_is_active y \<and> pr_effective_to y = Some (db_now d) else y = x)
         \<and> (price_key x = price_key p \<and> up_is_active u = Some True \<longrightarrow>
              updatePrice st au' d' d' a' (pr_id x) u = Inl (ErrDatabase unique_violation)))
    \<and> au ev = None
    \<and> (\<forall>au'' e. au'' ev = Some e \<longrightarrow> createPrice scan show6 au'' d a i c = Inl (ErrDatabase e))"
proof (intro conjI ballI allI impI)
  show ok': "prices_ok d'" using createPrice_prices_ok [OF call ok assms(3)] .
  show act: "active_price d' (ne_provider_id c) (ne_model_id c) (ne_operation_type c) = Some p"
    using createPrice_active [OF call ok assms(3)] .
  fix x assume x: "x \<in> set (db_prices d)"
  let ?y = "if priced_for (ne_provider_id c) (ne_model_id c) (ne_operation_type c) x then end_price (db_now d) x else x"
  from max_by_SomeD [OF act [unfolded active_price_priced_for]]
  have p: "p \<in> set (db_prices d')" "pr_is_active p" "price_key p = (ne_provider_id c, ne_model_id c, ne_operation_type c)"
    by (auto simp: priced_for_def price_key_def)
  have y: "?y \<in> set (db_prices d')" by (rule createPrice_history [OF call x])
  have id: "pr_id p \<noteq> pr_id x" using call x by (auto elim!: createPrice_InrD simp: new_price_def)
  have yk: "pr_id ?y = pr_id x" "price_key ?y = price_key x" by (simp_all add: end_price_def price_key_def)
  have second: "updatePrice st au' d' d' a' (pr_id x) u = Inl (ErrDatabase unique_violation)"
    if "price_key x = price_key p" "up_is_active u = Some True"
    using updatePrice_second_active [OF y _ that(2) p(1,2), of st au' a'] ok' that(1) id unfolding yk
    by (simp add: prices_ok_def)
  show "\<exists>y \<in> set (db_prices d'). pr_id y = pr_id x \<and> pr_price_per_unit y = pr_price_per_unit x
      \<and> (if price_key x = price_key p \<and> pr_is_active x then \<not> pr_is_active y \<and> pr_effective_to y = Some (db_now d) else y = x)
      \<and> (price_key x = price_key p \<and> up_is_active u = Some True \<longrightarrow>
           updatePrice st au' d' d' a' (pr_id x) u = Inl (ErrDatabase unique_violation))"
  proof (intro bexI [OF _ y] conjI impI)
    show "if price_key x = price_key p \<and> pr_is_active x then \<not> pr_is_active ?y \<and> pr_effective_to ?y = Some (db_now d) else ?y = x"
      unfolding p(3) by (auto simp: end_price_def priced_for_def price_key_def)
  qed (use second in \<open>simp_all add: end_price_def\<close>)
next
  show "d' = d\<lparr>db_prices := db_prices d'\<rparr>" by (rule admin_cost_frame(1) [OF call])
  show "au ev = None" using call by (rule createPrice_InrD)
qed (erule createPrice_other [OF call], erule createPrice_unaudited [OF call])

definition sample_new_price :: create_price where
  "sample_new_price = \<lparr>ne_provider_id = ''f'', ne_model_id = ''m'', ne_operation_type = ''edit'', ne_unit_type = ''image'',
     ne_price_per_unit = ''0.5'', ne_currency = '''', ne_source = None, ne_notes = None\<rparr>"

definition sample_admin :: actor where
  "sample_admin = \<lparr>ak_token_id = ''k'', ak_tenant_id = ''t'', ak_request_id = ''q''\<rparr>"

definition sample_book :: db where
  "sample_book = sample_db\<lparr>db_prices := map (\<lambda>p. p\<lparr>pr_operation_type := ''edit''\<rparr>) (db_prices sample_db)\<rparr>"

lemma sample_half: "\<lfloor>1000001 / 2 :: rat\<rfloor> = 500000"
  by (rule floor_unique) simp_all

theorem price_change_exact_witness:
  "\<exists>p ev d'. createPrice (\<lambda>_. Some (1 / 2)) (\<lambda>_. '''') (\<lambda>_. None) sample_book sample_admin ''n'' sample_new_price = Inr (p, ev, d')
     \<and> pr_price_per_unit p = 500000 \<and> active_price d' ''f'' ''m'' ''edit'' = Some p"
proof -
  obtain p ev d' where c: "createPrice (\<lambda>_. Some (1 / 2)) (\<lambda>_. '''') (\<lambda>_. None) sample_book sample_admin ''n'' sample_new_price = Inr (p, ev, d')"
    and p: "pr_price_per_unit p = 500000"
    by (simp add: createPrice_def sample_new_price_def validOperationTypes_def validUnitTypes_def supersedePreviousActivePrice_def
        to_numeric_def insertProviderModelPrice_def new_price_def sample_book_def sample_db_def empty_db_def end_price_def
        priced_for_def same_price_key_def audited_def sample_half insert_row_def)
  have "prices_ok sample_book" by (simp add: prices_ok_def sample_book_def sample_db_def empty_db_def)
  from price_change_exact [OF this c] c p show ?thesis by (auto simp: sample_new_price_def)
qed




section \<open>Retrieval\<close>

text \<open>
  C25. Whatever retrieval answers is a ready asset of the asked tenant, world, identity, state and
  style: under the asked key only as an exact match, otherwise never an identity anchor, never
  with the policy \<open>none\<close>, and (short of the debugging policy) only with the verdict of the matrix,
  as far as the policy allows that verdict.
\<close>

theorem retrieval_sound:
  assumes "retrieve (findExact coll d) (listRetrievalCandidates coll d) q = Inr x" "re_asset x = Some a"
  shows "same_owner q a
    \<and> (if va_variant_key a = rq_variant_key q then re_match_type x = OutcomeExactMatch \<and> \<not> re_generation_recommended x
       else \<not> va_is_identity_anchor a \<and> re_generation_recommended x
         \<and> rq_fallback_policy q \<noteq> FallbackPolicyNone
         \<and> (rq_fallback_policy q \<noteq> FallbackPolicyAnyExisting \<longrightarrow>
              fst (compareVariants (rq_entity_type q) (classifyVariant (rq_entity_type q) (rq_variant_key q))
                    (classifyVariant (rq_entity_type q) (va_variant_key a))) = re_match_type x
              \<and> outcomeAllowedByPolicy (re_match_type x)
                    (if rq_fallback_policy q = '''' then FallbackPolicyCompatibleOnly else rq_fallback_policy q)))"
  using assms by (rule repository.retrieve_sound)

definition sample_portrait :: "string \<Rightarrow> string \<Rightarrow> visual_asset" where
  "sample_portrait i k = sample_old_asset\<lparr>va_id := i, va_visual_identity_id := Some ''n'',
     va_asset_type := ''character_portrait'', va_variant_key := k, va_fallback_rank := Some 10\<rparr>"

definition sample_query :: "string \<Rightarrow> string \<Rightarrow> retrieval_query" where
  "sample_query k p = \<lparr>rq_tenant_id = ''t'', rq_world_id = ''w'', rq_visual_identity_id = ''n'',
     rq_entity_type = EntityCharacter, rq_variant_key = k, rq_style_profile_id = ''s'', rq_style_profile_version = None,
     rq_state_version = 1, rq_quality_tier = '''', rq_fallback_policy = p\<rparr>"

definition sample_gallery :: db where
  "sample_gallery = sample_db\<lparr>db_assets := [sample_portrait ''x'' ''neutral_front'', sample_portrait ''y'' ''expression_angry'']\<rparr>"

lemma sample_owner [simp]: "same_owner (sample_query k p) (sample_portrait i l)"
  by (simp add: same_owner_def sample_query_def sample_portrait_def sample_old_asset_def strPtr_def)

lemma sample_portrait_simps [simp]:
  "va_id (sample_portrait i k) = i" "va_variant_key (sample_portrait i k) = k" "va_fallback_rank (sample_portrait i k) = Some 10"
  "va_is_identity_anchor (sample_portrait i k) = False" "va_status (sample_portrait i k) = Ready"
  by (simp_all add: sample_portrait_def sample_old_asset_def)

lemma sample_query_simps [simp]:
  "rq_tenant_id (sample_query k p) = ''t''" "rq_entity_type (sample_query k p) = EntityCharacter"
  "rq_variant_key (sample_query k p) = k" "rq_quality_tier (sample_query k p) = ''''"
  "rq_style_profile_version (sample_query k p) = None" "rq_fallback_policy (sample_query k p) = p"
  "(sample_query k p)\<lparr>rq_fallback_policy := p'\<rparr> = sample_query k p'"
  by (simp_all add: sample_query_def)

lemma sample_verdicts:
  "compareVariants EntityCharacter (classifyVariant EntityCharacter ''expression_warm'') (classifyVariant EntityCharacter ''neutral_front'')
     = compatible (65 / 100)"
  "compareVariants EntityCharacter (classifyVariant EntityCharacter ''expression_warm'') (classifyVariant EntityCharacter ''expression_angry'')
     = invalid"
  by code_simp+

lemma sample_candidates:
  "findExact (\<lambda>x y. True) sample_gallery (sample_query ''expression_warm'' ''compatible_only'') = Inl ErrNotFound"
  "listRetrievalCandidates (\<lambda>x y. True) sample_gallery (sample_query ''expression_warm'' ''compatible_only'')
     = Inr [sample_portrait ''y'' ''expression_angry'', sample_portrait ''x'' ''neutral_front'']"
  by (simp_all add: findExact_def listRetrievalCandidates_def sample_gallery_def rank_before_def)

lemma sample_retrieval:
  "\<exists>x. retrieve (findExact (\<lambda>x y. True) sample_gallery) (listRetrievalCandidates (\<lambda>x y. True) sample_gallery)
     (sample_query ''expression_warm'' '''') = Inr x \<and> re_asset x = Some (sample_portrait ''x'' ''neutral_front'')"
  by (simp add: retrieve_def validFallbackPolicy_def sample_candidates bestMatch_def List.map_filter_def score_match_def candidateReusable_def
      sample_verdicts outcomeAllowedByPolicy_def passesWorldStateSafetyFilter_def pickBest_def)

theorem retrieval_sound_witness:
  "\<exists>x. retrieve (findExact (\<lambda>x y. True) sample_gallery) (listRetrievalCandidates (\<lambda>x y. True) sample_gallery)
     (sample_query ''expression_warm'' '''') = Inr x \<and> re_match_type x = OutcomeCompatibleMatch \<and> re_generation_recommended x"
proof -
  obtain x where x: "retrieve (findExact (\<lambda>x y. True) sample_gallery) (listRetrievalCandidates (\<lambda>x y. True) sample_gallery)
     (sample_query ''expression_warm'' '''') = Inr x" "re_asset x = Some (sample_portrait ''x'' ''neutral_front'')"
    using sample_retrieval by blast
  from retrieval_sound [OF this] have "re_generation_recommended x" "re_match_type x = OutcomeCompatibleMatch"
    by (auto simp: sample_verdicts)
  with x show ?thesis by blast
qed

text \<open>
  C26. The substitute does not depend on the order in which the source lists its candidates, and no
  allowed candidate beats it: a higher tier, then a higher score, then a lower fallback rank,
  then a lower identifier.
\<close>

theorem retrieval_deterministic:
  assumes "set cs = set cs'" "\<forall>a \<in> set cs. \<forall>b \<in> set cs. va_id a = va_id b \<longrightarrow> a = b"
  shows "bestMatch q r cs = bestMatch q r cs'
    \<and> (\<forall>x. bestMatch q r cs = Some x \<longrightarrow> (\<exists>c \<in> set cs. \<exists>s. score_match q r c = Some s \<and> re_asset x = Some c
         \<and> (\<forall>c' \<in> set cs. \<forall>s'. score_match q r c' = Some s' \<longrightarrow> \<not> candidate_less s' s)))"
proof -
  let ?f = "List.map_filter (score_match q r)"
  have s: "set (?f cs) = set (?f cs')" using assms(1) by (simp add: List.map_filter_def)
  have "va_id (sd_asset a) = va_id (sd_asset b) \<Longrightarrow> a = b" if "a \<in> set (?f cs)" "b \<in> set (?f cs)" for a b
    using that assms(2) score_match_SomeD by (fastforce simp: List.map_filter_def)
  then have "pickBest (?f cs) = pickBest (?f cs')" if "?f cs \<noteq> []"
    by (intro pickBest_unique [OF s that]) auto
  moreover have "(?f cs = []) = (?f cs' = [])" using s by (metis set_empty)
  ultimately have "bestMatch q r cs = bestMatch q r cs'" by (simp add: bestMatch_def Let_def)
  then show ?thesis by (force elim!: bestMatch_SomeD simp: candidate_less_key not_less)
qed

theorem retrieval_deterministic_witness:
  "bestMatch (sample_query ''expression_warm'' '''') (classifyVariant EntityCharacter ''expression_warm'')
       [sample_portrait ''x'' ''a'', sample_portrait ''y'' ''b'']
     = bestMatch (sample_query ''expression_warm'' '''') (classifyVariant EntityCharacter ''expression_warm'')
       [sample_portrait ''y'' ''b'', sample_portrait ''x'' ''a'']"
  using retrieval_deterministic [of "[sample_portrait ''x'' ''a'', sample_portrait ''y'' ''b'']"
      "[sample_portrait ''y'' ''b'', sample_portrait ''x'' ''a'']" "sample_query ''expression_warm'' ''''"
      "classifyVariant EntityCharacter ''expression_warm''"] by (simp add: insert_commute)

text \<open>
  C27. The compatibility matrix: an exact verdict for equal keys and only for them; otherwise a
  strict or unknown variant on either side is invalid; outcome and score agree; and between
  character variants the verdict is the same in both directions.
\<close>

theorem matrix_safe:
  "(fst (compareVariants e r c) = OutcomeExactMatch) = (cv_key r = cv_key c) \<and> result_ok (compareVariants e r c)
   \<and> (cv_key r = cv_key c \<or> \<not> (strict_family e (cv_family r) \<or> strict_family e (cv_family c)) \<or> compareVariants e r c = invalid)
   \<and> compareVariants EntityCharacter (classifyVariant EntityCharacter k) (classifyVariant EntityCharacter l)
     = compareVariants EntityCharacter (classifyVariant EntityCharacter l) (classifyVariant EntityCharacter k)"
proof -
  let ?k = "classifyVariant EntityCharacter k" and ?l = "classifyVariant EntityCharacter l"
  have eq: "compareCharacter ?k ?l = compareCharacter ?l ?k"
    by (rule compareCharacter_symmetric) (rule classify_character)+
  have "compareVariants EntityCharacter ?k ?l = compareVariants EntityCharacter ?l ?k"
    unfolding compareVariants_def eq eq_commute [of "cv_key ?l" "cv_key ?k"]
      disj_commute [of "cv_family ?l = FamilyUnknown" "cv_family ?k = FamilyUnknown"]
    by (simp only: simp_thms if_True)
  then show ?thesis
    using compareVariants_exact [of e r c] compareVariants_ok [of e r c] compareVariants_strict [of e r c] by blast
qed

theorem matrix_safe_witness:
  "compareVariants EntityCharacter (classifyVariant EntityCharacter ''expression_sad'') (classifyVariant EntityCharacter ''expression_warm'') = invalid"
proof -
  have "strict_family EntityCharacter (cv_family (classifyVariant EntityCharacter ''expression_sad''))"
    by code_simp
  then show ?thesis
    using matrix_safe [of EntityCharacter "classifyVariant EntityCharacter ''expression_sad''" "classifyVariant EntityCharacter ''expression_warm''" "''a''" "''b''"]
    by simp
qed

text \<open>
  C28. Every role a pack template names is in the vocabulary of its entity, so none of its cells
  is classified as unknown, and no template names a role twice (each cell has its own item).
\<close>

theorem template_roles_classified:
  assumes "packTemplateRoles e t = Some rs"
  shows "distinct rs \<and> (\<forall>k \<in> set rs. map_of (tableFor e) k \<noteq> None \<and> cv_family (classifyVariant e k) \<noteq> FamilyUnknown)"
proof -
  note known = template_roles_known [OF assms]
  have "sp_family s \<noteq> FamilyUnknown" if "map_of (tableFor e) k = Some s" for k s
    using that character_rowD [of k s] place_rowD [of k s]
    by (auto simp: tableFor_def character_row_def place_row_def strictCharacterFamilies_def split: if_splits)
  with known show ?thesis by (auto simp: list_all_iff classifyVariant_def split: option.split)
qed

theorem template_roles_classified_witness:
  "cv_family (classifyVariant EntityPlace ''dawn_view'') \<noteq> FamilyUnknown"
proof -
  have "packTemplateRoles EntityPlace ''place_time_of_day_pack'' = Some [''day_view'', ''night_view'', ''dawn_view'', ''dusk_view'']"
    by (simp add: packTemplateRoles_def placePackTemplates_def)
  from template_roles_classified [OF this] show ?thesis by simp
qed

section \<open>Reading\<close>





section \<open>Webhooks and packs\<close>







definition sample_plan :: pack_plan where
  "sample_plan = \<lparr>pp_pack_id = ''a'', pp_variant_keys = [''a'', ''b''], pp_world_id = ''w'', pp_visual_identity_id = ''n'',
     pp_display_name = ''N'', pp_asset_type = ''character_portrait'', pp_entity_type = EntityCharacter, pp_quality_tier = ''standard'',
     pp_style_profile_id = None, pp_style_profile_version = None, pp_force_regenerate = False, pp_variant_prompts = Map.empty,
     pp_aspect_ratio = ''''\<rparr>"

definition sample_route :: resolved_route where
  "sample_route = \<lparr>rt_provider_id = ''f'', rt_model_id = ''m'', rt_route_id = ''q''\<rparr>"

text \<open>
  C32. The books of a fan-out balance: every role ends delivered or failed, the delivered ones in
  the order of the plan with one asset each, and the roles recorded as missing are exactly as
  many as the failures, so a pack ends with warnings exactly when a role is missing.
\<close>

theorem pack_books_balance:
  assumes "run_state (packLoop pt j plan resolved refs erid delivered 0 keys \<lparr>ta_succeeded = [], ta_delivered = [], ta_failed = 0\<rparr>) w
      = (Inr t, w')" "distinct keys"
  shows "subseq (ta_delivered t) keys \<and> length (ta_succeeded t) = length (ta_delivered t)
    \<and> length (ta_delivered t) + ta_failed t = length keys
    \<and> length (missingRoles keys (ta_delivered t)) = ta_failed t
    \<and> set keys = set (ta_delivered t) \<union> set (missingRoles keys (ta_delivered t))"
proof -
  from packLoop_tally [OF assms(1)] have sub: "subseq (ta_delivered t) keys"
    and len: "length (ta_succeeded t) = length (ta_delivered t)" "ta_failed t + length (ta_delivered t) = length keys" by auto
  have "distinct (ta_delivered t)" using sub assms(2) by (auto simp: subseq_conv_nths)
  moreover have in_keys: "set (ta_delivered t) \<subseteq> set keys"
    using sub by (auto simp: subseq_conv_nths dest: in_set_nthsD)
  ultimately have "length (filter (\<lambda>k. k \<in> set (ta_delivered t)) keys) = length (ta_delivered t)"
    using assms(2) by (simp add: distinct_card [symmetric] Collect_conj_eq Int_absorb1 inf_commute)
  with sum_length_filter_compl [of "\<lambda>k. k \<in> set (ta_delivered t)" keys] len
  have "length (missingRoles keys (ta_delivered t)) = ta_failed t" by (simp add: missingRoles_def)
  with sub len in_keys show ?thesis by (auto simp: missingRoles_def)
qed

theorem pack_books_balance_witness:
  "length (missingRoles [''a'', ''b''] [''a'', ''b'']) = 0"
proof -
  let ?t = "\<lparr>ta_succeeded = [''a'', ''b''], ta_delivered = [''a'', ''b''], ta_failed = 0\<rparr>"
  have "run_state (packLoop sample_ports sample_linked plan resolved [] ''r'' (\<lambda>k. Some k) 0 [''a'', ''b'']
      \<lparr>ta_succeeded = [], ta_delivered = [], ta_failed = 0\<rparr>) sample_world = (Inr ?t, sample_world)" for plan resolved
    by simp
  from pack_books_balance [OF this] show ?thesis by simp
qed

section \<open>Progress\<close>

text \<open>
  C33. The worker delivers: a queued single-image job whose route has a serving provider, run with
  nobody else on it, ends completed with the one asset it stored as its output, and its
  completed event is emitted, whatever the commit of its books returns.
\<close>

theorem worker_delivers:
  assumes "ready_job pt j rt erid (wd_db w)" "wd_env w = []" "serving pt j rt res w"
    and "run_state (process pt (jb_id j) erid retry) w = (r, w')"
  shows "(\<exists>k \<in> set (db_jobs (wd_db w')). jb_id k = jb_id j \<and> jb_status k = Completed
      \<and> jb_final_asset_ids k = [pt_id pt (Suc (wd_fresh w))])
    \<and> \<lparr>we_tenant = jb_tenant_id j, we_event = ''generation_job.completed'', we_job_id = jb_id j,
         we_asset_ids = [pt_id pt (Suc (wd_fresh w))], we_error_code = ''''\<rparr> \<in> set (wd_webhooks w')"
  using ready_run_delivers [OF assms] by (auto simp: settled_job_def)

lemma sample_linked_payload: "jb_input_payload sample_linked = [''provider_id'' \<mapsto> JStr ''f'', ''model_id'' \<mapsto> JStr ''m'',
    ''provider_route_id'' \<mapsto> JStr ''q'', ''operation_type'' \<mapsto> JStr ''o'', ''units'' \<mapsto> JNum 1]"
  by (simp add: sample_linked_def sample_job_def new_job_def priced_params_def Let_def sample_params_def withResolvedRoutePayload_def
      withCostContextPayload_def payloadString_def int32_def worstCaseBillableUnits_def fun_eq_iff)

lemma sample_ready: "ready_job sample_ports sample_linked \<lparr>rt_provider_id = ''f'', rt_model_id = ''m'', rt_route_id = ''q''\<rparr> ''r'' sample_created"
proof -
  have "plat_inv sample_created" by (rule sample_created_inv)
  moreover have "sample_linked \<in> set (db_jobs sample_created)" "countProviderAttempts sample_created (jb_id sample_linked) = 0"
    by (simp_all add: sample_created_def sample_reserved_def sample_inserted_def sample_db_def empty_db_def countProviderAttempts_def)
  moreover have "jb_status sample_linked = Queued" "jb_cost_reservation_id sample_linked = Some ''r''" "jb_tenant_id sample_linked = ''t''"
    by (simp_all add: sample_linked_def)
  ultimately show ?thesis
    by (simp add: ready_job_def isPreviewFirst_def resolvedRouteFromPayload_def payloadString_def maxMegapixelsForWorker_def
        billableCallCap_def payloadFloat64_def sample_linked_payload Let_def MaxBillableCallsPerUnit_def)
qed

lemma sample_serving: "\<exists>res. serving sample_ports sample_linked \<lparr>rt_provider_id = ''f'', rt_model_id = ''m'', rt_route_id = ''q''\<rparr> res sample_world"
  by (simp add: serving_def sample_ports_def sample_world_def fallbackRoutesFromPayload_def sample_linked_payload
      validateProviderImages_def maxMegapixelsForWorker_def image_within_def sample_created_def sample_reserved_def sample_inserted_def
      sample_db_def empty_db_def)

theorem worker_delivers_witness:
  "\<exists>k \<in> set (db_jobs (wd_db (snd (run_state (process sample_ports ''j'' ''r'' 0) sample_world)))).
     jb_id k = ''j'' \<and> jb_status k = Completed \<and> jb_final_asset_ids k = [''zz'']"
proof -
  obtain res where s: "serving sample_ports sample_linked \<lparr>rt_provider_id = ''f'', rt_model_id = ''m'', rt_route_id = ''q''\<rparr> res sample_world"
    using sample_serving by blast
  have w: "wd_db sample_world = sample_created" "wd_env sample_world = []" "wd_fresh sample_world = 0" by (simp_all add: sample_world_def)
  have j: "jb_id sample_linked = ''j''" by (simp add: sample_linked_def)
  from worker_delivers [OF _ w(2) s surjective_pairing, of "''r''" 0] sample_ready w j
  show ?thesis by (simp add: sample_ports_def)
qed

text \<open>
  C34. What cancelling does not prevent: the administrators' cancel marks the pack failed so that a
  stale worker may not publish it, but a fan-out that ends after the cancel with one delivered
  role still sets the pack row completed (or completed with warnings), and only then learns
  from the job row that the job is cancelled.
\<close>

theorem cancelled_pack_republished:
  assumes "plat_inv (wd_db w)" "wd_env w = []" "k \<in> set (db_jobs (wd_db w))" "jb_id k = jb_id j" "jb_status k = Cancelled"
    and "p \<in> set (db_packs (wd_db w))" "pk_id p = pp_pack_id plan" "pk_created_by_job_id p = Some (jb_id j)" "pk_status p = Pack_failed"
    and "ta_succeeded t \<noteq> []" "run_state (finishPack pt j plan resolved erid t) w = (r, w')"
  shows "r = Some (DbErr ErrNotFound) \<and> db_jobs (wd_db w') = db_jobs (wd_db w)
    \<and> (\<exists>p' \<in> set (db_packs (wd_db w')). pk_id p' = pp_pack_id plan
         \<and> pk_status p' = (if ta_failed t > 0 then Completed_with_warnings else Pack_completed))"
  using assms by (rule finishPack_after_cancel)

definition sample_pack :: asset_pack where
  "sample_pack = \<lparr>pk_id = ''a'', pk_tenant_id = ''t'', pk_world_id = ''w'', pk_visual_identity_id = None,
     pk_pack_type = ''character_custom_pack'', pk_style_profile_id = '''', pk_quality_tier = ''standard'', pk_status = Pack_failed,
     pk_required_roles = [''a'', ''b''], pk_delivered_roles = [], pk_missing_roles = [''a'', ''b''],
     pk_created_by_job_id = Some ''j'', pk_created_by_token_id = None\<rparr>"

definition sample_cancelled_world :: world where
  "sample_cancelled_world = sample_world\<lparr>wd_db := empty_db\<lparr>db_jobs := [sample_linked\<lparr>jb_status := Cancelled\<rparr>], db_packs := [sample_pack]\<rparr>\<rparr>"

theorem cancelled_pack_republished_witness:
  "\<exists>p \<in> set (db_packs (wd_db (snd (run_state (finishPack sample_ports sample_linked sample_plan sample_route ''r''
       \<lparr>ta_succeeded = [''x''], ta_delivered = [''a''], ta_failed = 1\<rparr>) sample_cancelled_world)))).
     pk_id p = ''a'' \<and> pk_status p = Completed_with_warnings"
proof -
  let ?k = "sample_linked\<lparr>jb_status := Cancelled\<rparr>" and ?w = sample_cancelled_world
  have "plat_inv (wd_db ?w)"
    by (simp add: sample_cancelled_world_def plat_inv_def cost_inv_def book_inv_def link_inv_def jobs_inv_def owner_inv_def
        prices_ok_def held_def sum_where_def empty_db_def sample_linked_def)
  moreover have "wd_env ?w = []" "?k \<in> set (db_jobs (wd_db ?w))" "jb_id ?k = jb_id sample_linked" "jb_status ?k = Cancelled"
    "sample_pack \<in> set (db_packs (wd_db ?w))" "pk_id sample_pack = pp_pack_id sample_plan"
    "pk_created_by_job_id sample_pack = Some (jb_id sample_linked)" "pk_status sample_pack = Pack_failed"
    by (simp_all add: sample_cancelled_world_def sample_world_def sample_pack_def sample_plan_def sample_linked_def)
  ultimately show ?thesis
    using cancelled_pack_republished [OF _ _ _ _ _ _ _ _ _ _ surjective_pairing,
        of ?w ?k sample_linked sample_pack sample_plan "\<lparr>ta_succeeded = [''x''], ta_delivered = [''a''], ta_failed = 1\<rparr>"]
    by (simp add: sample_plan_def)
qed

section \<open>Choosing the route\<close>

text \<open>
  C35. The resolver is complete: over a source that answers, it fails exactly when no route
  survives all hard filters; otherwise the fallback chain is exactly the surviving routes, each
  once, ordered by the ranking of the request, and the resolved route is its head. Over the tables
  of routes, models and prices, no route is named twice, and the price a route is ranked by is the
  price a reservation on it is estimated with.
\<close>

theorem resolver_complete:
  assumes "rs_source r (qr_operation_type req) = Inr routes"
  shows "(if filter (survives r req) routes = [] then \<exists>e. resolveChain r req = Inl e \<and> resolve r req = Inl e
     else resolveChain r req = Inr (map resolvedRouteFrom (sort_key (rank_key req) (filter (survives r req) routes)))
       \<and> resolve r req = Inr (hd (map resolvedRouteFrom (sort_key (rank_key req) (filter (survives r req) routes)))))
    \<and> (source_ok tb d \<and> routes = listRoutes coll tb d (qr_operation_type req) \<longrightarrow>
       (\<forall>chain. resolveChain r req = Inr chain \<longrightarrow> distinct (map rw_route_id chain)
          \<and> (\<forall>c \<in> set chain. \<exists>rt \<in> set routes. c = resolvedRouteFrom rt \<and> priced_as_reserved d rt)))"
  using resolveChain_survivors [OF assms] resolveChain_fails [OF assms] resolver_over_tables [of tb d r req coll] assms
  by (auto simp: resolve_hd_chain)

text \<open>
  C36. The history of an identity is complete and setting an identity is idempotent: an upsert and
  a change of anchors keep the versions of every identity exactly one to the current one, with the
  current traits last, and one identity per owner; the same upsert again changes nothing, and the
  owner's lookup returns what it answered.
\<close>

theorem identity_history:
  assumes "history_inv c"
  shows "(upsert c p = Inr (v, c') \<longrightarrow> history_inv c' \<and> upsert c' p = Inr (v, c')
      \<and> getByOwner c' (up_tenant_id p) (up_world_id p) (up_owner_type p) (up_owner_id p) = Inr v)
    \<and> (setAnchorAssets c i ten as = Inr (w, c2) \<longrightarrow> history_inv c2)"
  using upsert_history [OF assms] upsert_twice [OF assms] setAnchorAssets_history [OF assms] by blast

definition sample_offer :: "string \<Rightarrow> int \<Rightarrow> route" where
  "sample_offer p n = \<lparr>ro_route_id = p, ro_provider_id = p, ro_model_id = ''m'', ro_operation_type = ''image'',
     ro_required_capability = CapabilityPackCapable, ro_preview_capability = ''no_preview'', ro_quality_tier = ''standard'',
     ro_latency_tier = ''balanced'', ro_priority = n, ro_enabled = True, ro_model_active = True, ro_price = Some 1\<rparr>"

definition sample_resolver :: resolver where
  "sample_resolver = \<lparr>rs_source = \<lambda>_. Inr [sample_offer ''mock'' 100, sample_offer ''bfl'' 150, sample_offer ''fal'' 200],
     rs_available = [''mock'', ''fal'', ''bfl''],
     rs_capabilities = [(''mock'', \<lparr>pc_capabilities = [CapabilityProductionCapable], pc_synthetic = True\<rparr>),
        (''fal'', \<lparr>pc_capabilities = [CapabilityPackCapable], pc_synthetic = False\<rparr>),
        (''bfl'', \<lparr>pc_capabilities = [CapabilitySceneCapable], pc_synthetic = False\<rparr>)],
     rs_allow_synthetic = False\<rparr>"

definition sample_resolve_request :: resolve_request where
  "sample_resolve_request = \<lparr>qr_operation_type = ''image'', qr_quality_tier = ''standard'', qr_latency_tier = '''',
     qr_required_capability = CapabilityPackCapable, qr_required_preview_capability = '''', qr_provider_preference = ''mock'',
     qr_provider_id = '''', qr_intent = ''''\<rparr>"

lemma sample_route_candidates: "candidates sample_resolver sample_resolve_request = Inr [sample_offer ''fal'' 200]"
  by (simp add: candidates_def sample_resolver_def sample_resolve_request_def sample_offer_def stage_def stage_if_def
      andThen_def meets_capability_def backed_def caps_of_def providerSatisfiesRoute_def capabilitiesSatisfy_def
      capabilitySatisfies_def capabilityImplications_def Let_def)

lemma sample_survivors:
  "filter (survives sample_resolver sample_resolve_request) [sample_offer ''mock'' 100, sample_offer ''bfl'' 150, sample_offer ''fal'' 200]
   = [sample_offer ''fal'' 200]"
  using candidates_Inr [OF sample_route_candidates] by (simp add: sample_resolver_def)

definition sample_route_tables :: route_tables where
  "sample_route_tables = \<lparr>tb_routes = map (\<lambda>(p, n). \<lparr>lr_id = p, lr_provider = p, lr_model = ''m'', lr_operation = ''image'',
       lr_required_capability = CapabilityPackCapable, lr_preview = ''no_preview'', lr_quality = ''standard'', lr_latency = ''balanced'',
       lr_is_enabled = True, lr_priority = n\<rparr>) [(''fal'', 200), (''mock'', 100), (''bfl'', 150)],
     tb_models = [\<lparr>pm_id = ''m'', pm_status = ''active''\<rparr>]\<rparr>"

definition sample_price_book :: db where
  "sample_price_book = empty_db\<lparr>db_prices := map (\<lambda>p. \<lparr>pr_id = p, pr_provider_id = p, pr_model_id = ''m'',
     pr_operation_type = ''image'', pr_unit_type = ''image'', pr_price_per_unit = 1000000, pr_currency = ''USD'',
     pr_effective_from = 0, pr_is_active = True, pr_effective_to = None, pr_source = None, pr_notes = None\<rparr>)
     [''mock'', ''fal'', ''bfl'']\<rparr>"

lemma sample_listed:
  "listRoutes (\<lambda>_. 0 :: nat) sample_route_tables sample_price_book ''image''
   = [sample_offer ''mock'' 100, sample_offer ''bfl'' 150, sample_offer ''fal'' 200]"
  by (simp add: listRoutes_def listProviderRoutesForOperation_def join_route_def left_join_def price_on_def route_of_def
      price_usd_def sample_route_tables_def sample_price_book_def empty_db_def sample_offer_def)

theorem resolver_complete_witness:
  "resolve sample_resolver sample_resolve_request = Inr (resolvedRouteFrom (sample_offer ''fal'' 200))
   \<and> priced_as_reserved sample_price_book (sample_offer ''fal'' 200)"
proof -
  have src: "rs_source sample_resolver (qr_operation_type sample_resolve_request)
      = Inr [sample_offer ''mock'' 100, sample_offer ''bfl'' 150, sample_offer ''fal'' 200]"
    by (simp add: sample_resolver_def)
  have ok: "source_ok sample_route_tables sample_price_book"
    by (simp add: source_ok_def prices_ok_def price_key_def sample_route_tables_def sample_price_book_def empty_db_def)
  have listed: "[sample_offer ''mock'' 100, sample_offer ''bfl'' 150, sample_offer ''fal'' 200]
      = listRoutes (\<lambda>_. 0 :: nat) sample_route_tables sample_price_book (qr_operation_type sample_resolve_request)"
    using sample_listed by (simp add: sample_resolve_request_def)
  have chain: "resolveChain sample_resolver sample_resolve_request = Inr [resolvedRouteFrom (sample_offer ''fal'' 200)]"
    and head: "resolve sample_resolver sample_resolve_request = Inr (resolvedRouteFrom (sample_offer ''fal'' 200))"
    using resolver_complete [OF src, THEN conjunct1] unfolding sample_survivors by simp_all
  obtain rt where rt: "rt \<in> set [sample_offer ''mock'' 100, sample_offer ''bfl'' 150, sample_offer ''fal'' 200]"
      "resolvedRouteFrom (sample_offer ''fal'' 200) = resolvedRouteFrom rt" "priced_as_reserved sample_price_book rt"
    using resolver_complete [OF src, THEN conjunct2, rule_format, OF conjI [OF ok listed] chain] by auto
  have "ro_provider_id rt = ''fal''"
    using arg_cong [OF rt(2), of rw_provider_id] by (simp add: resolvedRouteFrom_def) (simp add: sample_offer_def)
  with rt(1) have "rt = sample_offer ''fal'' 200" by (auto simp: sample_offer_def)
  with rt(3) have "priced_as_reserved sample_price_book (sample_offer ''fal'' 200)" by simp
  with head show ?thesis by blast
qed

definition sample_catalog :: catalog where
  "sample_catalog = \<lparr>ct_styles = [\<lparr>sy_id = ''s'', sy_tenant_id = ''t'', sy_world_id = None, sy_name = ''ink'',
     sy_style_mode = ''preset_style'', sy_positive_prompt = ''ink wash'', sy_negative_prompt = None,
     sy_default_quality_tier = ''standard'', sy_status = ''active''\<rparr>], ct_identities = [], ct_versions = []\<rparr>"

definition sample_upsert :: "json \<Rightarrow> upsert_params" where
  "sample_upsert t = \<lparr>up_new_id = ''v'', up_tenant_id = ''t'', up_world_id = ''w'', up_owner_type = ''character'',
     up_owner_id = ''o'', up_display_name = ''emery'', up_traits = t, up_style_profile_id = ''s'', up_consistency_key = None\<rparr>"

definition sample_identity :: visual_identity where
  "sample_identity = \<lparr>vi_id = ''v'', vi_tenant_id = ''t'', vi_world_id = ''w'', vi_owner_type = ''character'', vi_owner_id = ''o'',
     vi_display_name = ''emery'', vi_traits = JNull, vi_style_profile_id = ''s'', vi_consistency_key = None,
     vi_anchor_asset_ids = [], vi_current_version = 1, vi_status = ''active''\<rparr>"

definition sample_cast :: catalog where
  "sample_cast = sample_catalog\<lparr>ct_identities := [sample_identity],
     ct_versions := [\<lparr>vv_identity_id = ''v'', vv_version = 1, vv_reason = ''initial'', vv_traits = JNull\<rparr>]\<rparr>"

lemma sample_upserted: "upsert sample_catalog (sample_upsert JNull) = Inr (sample_identity, sample_cast)"
  by (simp add: upsert_def getStyleProfileByID_def getVisualIdentityByOwner_def insertVisualIdentity_def
      insertVisualIdentityVersion_def insert_row_def Let_def sample_catalog_def sample_upsert_def sample_identity_def
      sample_cast_def)

theorem identity_history_witness:
  "history_inv sample_cast \<and> upsert sample_cast (sample_upsert JNull) = Inr (sample_identity, sample_cast)"
proof -
  have "history_inv sample_catalog" by (simp add: history_inv_def sample_catalog_def keyed_def)
  from identity_history [OF this, of "sample_upsert JNull" sample_identity sample_cast] sample_upserted show ?thesis by blast
qed

text \<open>
  C29. Work on a recurring subject is rendered from its references. In a process wired from its
  configuration, without synthetic providers, every route that survives for a request of identity
  or a higher axis is served by an endpoint of fal that the registry holds with the configured key:
  without references its adapter sends nothing and fails, and what it submits names the references.
\<close>

theorem recurring_work_conditioned:
  assumes "candidates (wired_resolver c source) req = Inr cs" "rt \<in> set cs" "\<not> cf_allow_synthetic_providers c"
    "qr_required_capability req = CapabilityIdentityCapable \<or> qr_required_capability req = CapabilityPackCapable
      \<or> qr_required_capability req = CapabilityProductionCapable"
  shows "\<exists>p. map_of (Registry c) (ro_provider_id rt) = Some (Fal p) \<and> fa_api_key p = cf_fal_key c \<and> cf_fal_key c \<noteq> ''''
    \<and> (ro_provider_id rt = ProviderIDFal \<or> ro_provider_id rt = ProviderIDKontextDev)
    \<and> adapter_port (Registry c) (ro_provider_id rt) = Some True
    \<and> (\<forall>nt g. gr_reference_urls g = [] \<longrightarrow> falGenerate nt p g = Some (no_result, Some ErrReferenceRequired, []))
    \<and> (\<forall>nt N g u us r e q qs. gr_reference_urls g = u # us \<and> (\<forall>n \<ge> N. nt_stop nt n)
         \<and> falGenerate nt p g = Some (r, e, q # qs) \<longrightarrow>
         (\<exists>b. hr_json q = Some b \<and> b (if fa_kontext_dev p then ''image_url'' else ''image_urls'')
            = Some (if fa_kontext_dev p then JStr u else JArr (map JStr (u # us)))))"
proof -
  obtain p where p: "map_of (Registry c) (ro_provider_id rt) = Some (Fal p)" "\<not> fa_prompt_only p" "fa_api_key p \<noteq> ''''"
    "fa_api_key p = cf_fal_key c" "ro_provider_id rt = ProviderIDFal \<or> ro_provider_id rt = ProviderIDKontextDev"
    using conditioned_route [OF assms] .
  have sent: "hr_json q = Some (fal_body p g)"
    if "\<forall>n \<ge> N. nt_stop nt n" "falGenerate nt p g = Some (r, e, q # qs)" for nt N g r e q qs
    using falGenerate_first [OF that] by (simp add: fal_submission_def)
  have port: "adapter_port (Registry c) (ro_provider_id rt) = Some True"
    using p(1,2) by (simp add: adapter_port_def falCapabilities_def)
  show ?thesis
  proof (intro exI [of _ p] conjI allI impI)
    fix nt N g u us r e q qs
    assume "gr_reference_urls g = u # us \<and> (\<forall>n \<ge> N. nt_stop nt n) \<and> falGenerate nt p g = Some (r, e, q # qs)"
    then show "\<exists>b. hr_json q = Some b \<and> b (if fa_kontext_dev p then ''image_url'' else ''image_urls'')
        = Some (if fa_kontext_dev p then JStr u else JArr (map JStr (u # us)))"
      using sent [of N nt g r e q qs] conditioned_body [OF p(2), of g u us] by blast
  qed (use p port conditioned_refuses [OF p(2,3)] in auto)
qed

definition sample_config :: config where
  "sample_config = read_config (\<lambda>_. None) [''FAL_KEY'' \<mapsto> ''k'']"

lemma sample_config_simps [simp]:
  "cf_fal_key sample_config = ''k''" "cf_bfl_api_key sample_config = ''''" "\<not> cf_allow_synthetic_providers sample_config"
  by (simp_all add: sample_config_def read_config_def getEnv_def getEnvBool_def)

lemma sample_wired_candidates:
  "candidates (wired_resolver sample_config (\<lambda>_. Inr [sample_offer ''mock'' 100, sample_offer ''fal'' 200])) sample_resolve_request
   = Inr [sample_offer ''fal'' 200]"
  by (simp add: candidates_def sample_resolve_request_def sample_offer_def stage_def stage_if_def wired_resolver_def
      andThen_def meets_capability_def backed_def caps_of_def Registry_entries available_def
      mockCapabilities_def falCapabilities_def provider_capabilities.truncate_def
      providerSatisfiesRoute_def capabilitiesSatisfy_def capability_index_of_def
      capabilitySatisfies_def capabilityImplications_def Let_def)

theorem recurring_work_conditioned_witness:
  "adapter_port (Registry sample_config) ''fal'' = Some True
   \<and> (\<exists>p. map_of (Registry sample_config) ''fal'' = Some (Fal p)
        \<and> falGenerate sample_net p (sample_render\<lparr>gr_reference_urls := []\<rparr>) = Some (no_result, Some ErrReferenceRequired, []))"
proof -
  have "qr_required_capability sample_resolve_request = CapabilityPackCapable" "ro_provider_id (sample_offer ''fal'' 200) = ''fal''"
    by (simp_all add: sample_resolve_request_def sample_offer_def)
  with recurring_work_conditioned [OF sample_wired_candidates, of "sample_offer ''fal'' 200"] show ?thesis
    by (elim meta_impE exE) auto
qed

section \<open>The requests\<close>

text \<open>What enforcement asks of an envelope before anything may be written.\<close>

definition authorised :: "governance_gate \<Rightarrow> int \<Rightarrow> envelope option \<Rightarrow> bool" where
  "authorised g now env \<longleftrightarrow>
     (\<forall>v. gg_verifier g = Some v \<and> gg_mode g = ModeEnforce \<longrightarrow> (\<exists>e. env = Some e \<and> verify v now e = None))"

lemma passed_gate_authorised: "run_gate g now ten tok env = (Reply r, evs) \<Longrightarrow> authorised g now env"
  using enforced_gate by (fastforce simp: authorised_def)

text \<open>
  C38. The five generation requests are steps of the platform and are gated: from a consistent,
  reachable database, whatever others commit in between, each ends in a reachable one, so every
  invariant of the platform holds; and under enforcement a request without an envelope that
  verifies writes nothing, neither a job nor a reservation nor an anchor.
\<close>

theorem requests_refine_platform:
  assumes d: "reachable (su_trunc su) d"
    and env: "\<And>x. reachable (su_trunc su) x \<Longrightarrow> reachable (su_trunc su) (su_env su x)"
  shows "(createGeneration hg su c rd now d p rg header endpoint hash = (a1, e1, d1) \<longrightarrow>
        reachable (su_trunc su) d1 \<and> (d1 = d \<or> authorised (nh_gate hg) now (Some (nr_governance rg))))
    \<and> (generateArtifact hx su rd now d p aid ra ix = (a2, e2, d2) \<longrightarrow>
        reachable (su_trunc su) d2 \<and> (d2 = d \<or> authorised (xh_gate hx) now (qa_governance ra)))
    \<and> (generatePreview hx su c rd now d p sid rp ix = (a3, e3, d3) \<longrightarrow>
        reachable (su_trunc su) d3 \<and> (d3 = d \<or> authorised (xh_gate hx) now (qp_governance rp)))
    \<and> (bootstrapCharacterAnchor hx su c rd now d p cid rb ix = (a4, e4, c4, d4) \<longrightarrow>
        reachable (su_trunc su) d4 \<and> (c4 = c \<and> d4 = d \<or> authorised (xh_gate hx) now (qb_governance rb)))
    \<and> (generatePack hk su c rd now d kind p oid rk ix = (a5, e5, d5) \<longrightarrow>
        reachable (su_trunc su) d5 \<and> (d5 = d \<or> authorised (ph_gate hk) now (kr_governance rk)))"
proof (intro conjI impI)
  assume "createGeneration hg su c rd now d p rg header endpoint hash = (a1, e1, d1)"
  then show "reachable (su_trunc su) d1" "d1 = d \<or> authorised (nh_gate hg) now (Some (nr_governance rg))"
    using d passed_gate_authorised fulfil_generation_reachable [OF _ d env] by (blast elim: createGeneration_cases)+
next
  assume "generateArtifact hx su rd now d p aid ra ix = (a2, e2, d2)"
  then show "reachable (su_trunc su) d2" "d2 = d \<or> authorised (xh_gate hx) now (qa_governance ra)"
    using d passed_gate_authorised fulfil_artifact_reachable [OF _ d env] by (blast elim: generateArtifact_cases)+
next
  assume "generatePreview hx su c rd now d p sid rp ix = (a3, e3, d3)"
  note call = this
  show "reachable (su_trunc su) d3" by (rule generatePreview_reachable [OF call d env])
  show "d3 = d \<or> authorised (xh_gate hx) now (qp_governance rp)"
    using generatePreview_gated [OF call] passed_gate_authorised by blast
next
  assume "bootstrapCharacterAnchor hx su c rd now d p cid rb ix = (a4, e4, c4, d4)"
  then show "reachable (su_trunc su) d4" "c4 = c \<and> d4 = d \<or> authorised (xh_gate hx) now (qb_governance rb)"
    using d passed_gate_authorised fulfil_anchor_reachable [OF _ d env] by (blast elim: bootstrapCharacterAnchor_cases)+
next
  assume "generatePack hk su c rd now d kind p oid rk ix = (a5, e5, d5)"
  then show "reachable (su_trunc su) d5" "d5 = d \<or> authorised (ph_gate hk) now (kr_governance rk)"
    using d passed_gate_authorised fulfil_pack_reachable [OF _ d env] by (blast elim: generatePack_cases)+
qed

definition sample_gate :: governance_gate where
  "sample_gate = \<lparr>gg_verifier = Some \<lparr>vf_sig = StubSignatureVerifier, vf_max_age = 1000, vf_issuers = [''desk'']\<rparr>,
     gg_mode = ModeEnforce\<rparr>"

definition sample_artifacts :: artifacts_handler where
  "sample_artifacts = \<lparr>xh_resolver = sample_resolver, xh_provider_preference = '''',
     xh_reuse = Some (findReadyArtifactByPromptHash (\<lambda>x y. True)), xh_gate = sample_gate, xh_styles = None, xh_sha = id\<rparr>"

definition sample_artifact_request :: artifact_request where
  "sample_artifact_request = \<lparr>qa_world_id = ''w'', qa_style_profile_id = ''s'', qa_description = ''bronze key'',
     qa_quality_tier = None, qa_latency_tier = None, qa_fallback_policy = None, qa_delivery_mode = None,
     qa_force_regenerate = None, qa_provider_id = None, qa_governance = None\<rparr>"

definition sample_surroundings :: surroundings where
  "sample_surroundings = \<lparr>su_trunc = sample_trunc, su_client = (\<lambda>_. None), su_env = (\<lambda>x. x), su_budgets = [],
     su_ids = sample_ids\<rparr>"

definition sample_key :: idem_context where
  "sample_key = \<lparr>ix_key = '''', ix_endpoint = '''', ix_request_hash = ''''\<rparr>"

theorem requests_refine_platform_witness:
  "snd (snd (generateArtifact sample_artifacts sample_surroundings (\<lambda>_. sample_created) 0 sample_created (sample_caller ''k'')
     ''a'' sample_artifact_request sample_key)) = sample_created"
proof -
  obtain a e d' where c: "generateArtifact sample_artifacts sample_surroundings (\<lambda>_. sample_created) 0 sample_created
      (sample_caller ''k'') ''a'' sample_artifact_request sample_key = (a, e, d')" by (metis surj_pair)
  have "reachable (su_trunc sample_surroundings) sample_created"
    using sample_reachable by (simp add: sample_surroundings_def)
  moreover have "reachable (su_trunc sample_surroundings) (su_env sample_surroundings x)"
    if "reachable (su_trunc sample_surroundings) x" for x using that by (simp add: sample_surroundings_def)
  ultimately have "d' = sample_created \<or> authorised sample_gate 0 None"
    using requests_refine_platform [THEN conjunct2, THEN conjunct1, THEN mp, OF _ _ c]
    by (simp add: sample_artifacts_def sample_artifact_request_def)
  then show ?thesis by (simp add: c authorised_def sample_gate_def)
qed











section \<open>The chroma key\<close>



section \<open>The tiers of a render\<close>

text \<open>
  C37. The tiers a render is delivered in: thumbnail, preview, render and final never shrink in that
  order, the reduced tiers keep their target on the short edge, and a render is doubled exactly
  when its short edge is at most 512. In an enlargement alpha is only resampled, sharpening makes no
  halo (every sample stays between two of the three by three around it, and is untouched at the
  rim), and the back-projection before it never darkens a sample.
\<close>

theorem delivery_tiers:
  assumes "0 < pc_w p" "0 < pc_h p" "\<forall>x y. 0 \<le> ti_hypot im x y" "factor > 1"
  shows "(let f = upscaleForDelivery im p; v = downscaleShortEdge im p PreviewShortEdge;
        t = downscaleShortEdge im p ThumbnailShortEdge; short = min (pc_w p) (pc_h p)
      in pc_w t \<le> pc_w v \<and> pc_w v \<le> pc_w p \<and> pc_w p \<le> pc_w f \<and> pc_h t \<le> pc_h v \<and> pc_h v \<le> pc_h p \<and> pc_h p \<le> pc_h f
       \<and> min (pc_w v) (pc_h v) = min 512 short \<and> min (pc_w t) (pc_h t) = min 256 short
       \<and> (if short > 512 then f = p else pc_w f = 2 * pc_w p \<and> pc_h f = 2 * pc_h p))
    \<and> (let W = pc_w p * nat factor; H = pc_h p * nat factor; low = toLinearPlanes im p;
          high = resizePlanes im low (pc_w p) (pc_h p) W H; q = backProject im low high (pc_w p) (pc_h p) W H;
          s = sharpenEdges im W H q
      in Upscale im p factor = fromLinearPlanes im s W H \<and> pl_a s = pl_a high
       \<and> (\<forall>c \<in> {pl_r, pl_g, pl_b}. brighter (W * H) (c high) (c q) \<and> no_halo W H (c q) (c s)))"
proof -
  define W H where size: "W = pc_w p * nat factor" "H = pc_h p * nat factor"
  define low where "low = toLinearPlanes im p"
  define high where "high = resizePlanes im low (pc_w p) (pc_h p) W H"
  define q where "q = backProject im low high (pc_w p) (pc_h p) W H"
  have len: "length (pl_r high) = W * H" "length (pl_g high) = W * H" "length (pl_b high) = W * H"
    by (simp_all add: high_def resizePlanes_def)
  note b = backProject_brightens [OF len q_def]
  have e: "Upscale im p factor = fromLinearPlanes im (sharpenEdges im W H q) W H"
    using assms(4) by (simp add: Upscale_def Let_def size low_def high_def q_def)
  have samples: "pl_a (sharpenEdges im W H q) = pl_a high
      \<and> (\<forall>c \<in> {pl_r, pl_g, pl_b}. brighter (W * H) (c high) (c q) \<and> no_halo W H (c q) (c (sharpenEdges im W H q)))"
    using b sharpenChannel_no_halo [OF assms(3)] by (simp add: sharpenEdges_def Let_def brighter_def)
  have final: "if min (pc_w p) (pc_h p) > 512 then upscaleForDelivery im p = p
      else pc_w (upscaleForDelivery im p) = 2 * pc_w p \<and> pc_h (upscaleForDelivery im p) = 2 * pc_h p"
    using Upscale_size [of FinalUpscaleFactor im p]
    by (simp add: upscaleForDelivery_def UpscaleBelowShortEdge_def FinalUpscaleFactor_def)
  have t: "0 < ThumbnailShortEdge" "0 < PreviewShortEdge" "ThumbnailShortEdge \<le> PreviewShortEdge"
    by (simp_all add: ThumbnailShortEdge_def PreviewShortEdge_def)
  have "let f = upscaleForDelivery im p in pc_w p \<le> pc_w f \<and> pc_h p \<le> pc_h f"
    using final by (auto simp: Let_def split: if_splits)
  with final downscale_mono [OF assms(1,2) t(1,3), of im] downscale_size [OF assms(1,2) t(2), of im]
    downscale_size(1) [OF assms(1,2) t(1), of im] e samples
  show ?thesis unfolding Let_def size [symmetric] low_def [symmetric] high_def [symmetric] q_def [symmetric]
      ThumbnailShortEdge_def PreviewShortEdge_def by (elim conjE) (intro conjI; assumption)
qed

definition sample_imaging :: imaging where
  "sample_imaging = \<lparr>ti_decode = (\<lambda>_. None), ti_avif = (\<lambda>_. None), ti_scale = (\<lambda>p _ _. p), ti_scale16 = (\<lambda>_ _ _ _ s i. s ! 0),
     ti_pow = (\<lambda>x _. x), ti_hypot = (\<lambda>x y. \<bar>x\<bar> + \<bar>y\<bar>)\<rparr>"

definition sample_still :: picture where
  "sample_still = \<lparr>pc_w = 1024, pc_h = 512, pc_at = (\<lambda>_ _. (0, 0, 0, 0)), pc_nrgba = (\<lambda>_ _. (0, 0, 0, 0))\<rparr>"

theorem delivery_tiers_witness:
  "pc_w (upscaleForDelivery sample_imaging sample_still) = 2048
   \<and> min (pc_w (downscaleShortEdge sample_imaging sample_still ThumbnailShortEdge))
         (pc_h (downscaleShortEdge sample_imaging sample_still ThumbnailShortEdge)) = 256"
proof -
  have "0 < pc_w sample_still" "0 < pc_h sample_still" "\<forall>x y. 0 \<le> ti_hypot sample_imaging x y" "(2 :: int) > 1"
    by (simp_all add: sample_still_def sample_imaging_def)
  from delivery_tiers [OF this] show ?thesis by (simp add: Let_def) (simp add: sample_still_def)
qed

end
